(* ===== verification/Prelude.thy ===== *)
theory Prelude
  imports Main "HOL-Library.Finite_Map" "HOL-Library.Char_ord" "HOL-Library.List_Lexorder"
    "HOL-Library.Signed_Division"
begin

text \<open>
  Shared ground of the development: the result type of fallible Rust code and its
  combinators, the error values, finite maps as the model of a stored
  \<open>cw_storage_plus::Map\<close>, checked machine integers, and the generic lemmas
  (results, sums over finite maps, floor division) the component theories use.
\<close>

named_theorems res_simps \<open>inversion of successful fallible computations\<close>
named_theorems inv_simps \<open>unfolding of invariants\<close>

section \<open>Names of the model\<close>

type_synonym Addr = string
type_synonym u64 = nat
type_synonym Timestamp = nat
type_synonym Duration = nat

section \<open>Errors\<close>

text \<open>\<open>ErrorId\<close> of \<open>packages/perpswap/src/error.rs\<close>: the identifiers the modelled code raises.\<close>

datatype ErrorId =
    InsufficientForReinvest | InvalidStakeLp | NoYieldToClaim | TimestampSubtractUnderflow
  | PriceNotFound | Cw20Funds | Auth | Expired | Conversion | ConfigError
  | InvalidAmount | SlippageAssert | PriceAlreadyExists | PriceTooOld | PositionUpdate | NativeFunds
  | MsgValidation | Exceeded | AnyError | Stale | InsufficientMargin | InvalidLiquidityTokenMsg
  | DirectionToBaseFlipped | MissingFunds | UnnecessaryFunds | AddressAlreadyExists | InternalReply

text \<open>\<open>MarketError\<close> of \<open>packages/perpswap/src/error/market.rs\<close>: the variants the modelled
  code raises, with the numeric payload the client sees: positive amounts, times and identifiers as
  naturals, signed amounts and rates as integers.\<close>

datatype MarketError =
    WithdrawTooMuch nat nat
  | InsufficientLiquidityForWithdrawal nat nat nat
  | InsufficientLiquidityForUnlock nat nat
  | Liquidity nat nat nat
  | MaxLiquidityError nat nat nat nat
  | LiquidityCooldownError nat nat
  | InvalidInfiniteMaxGains
  | MaxGainsTooLarge
  | TraderLeverageOutOfRange
  | InvalidInfiniteTakeProfitPrice
  | MissingPosition nat
  | MinimumDeposit nat nat nat
  | Congestion nat nat
  | PendingDeferredExec
  | VolatilePriceFeedTimeDelta nat nat
  | LimitOrderAlreadyCanceling nat
  | PositionAlreadyClosing nat
  | NoPricePublishTimeFound
  | PositionAlreadyClosed nat nat
  | DeltaNeutralityFeeAlreadyLong int int int int int
  | DeltaNeutralityFeeAlreadyShort int int int int int
  | DeltaNeutralityFeeNewlyLong int int int int int
  | DeltaNeutralityFeeNewlyShort int int int int int
  | DeltaNeutralityFeeLongToShort int int int int int int
  | DeltaNeutralityFeeShortToLong int int int int int int

text \<open>
  An error value: a checked operation of the standard libraries that failed, an
  \<open>anyhow\<close> message, a \<open>PerpError\<close>, a \<open>MarketError\<close>, or a panic.
  Both an error and a panic abort the transaction; only an error can be intercepted by the code.
\<close>

datatype error = Std string | Msg string | Perp ErrorId | Market MarketError | Panic string

type_synonym 'a res = "error + 'a"

section \<open>Results\<close>

definition and_then :: "'e + 'a \<Rightarrow> ('a \<Rightarrow> 'e + 'b) \<Rightarrow> 'e + 'b" where
  "and_then m f = (case m of Inl e \<Rightarrow> Inl e | Inr x \<Rightarrow> f x)"

definition ok_or :: "'a option \<Rightarrow> 'e \<Rightarrow> 'e + 'a" where
  "ok_or v e = (case v of None \<Rightarrow> Inl e | Some x \<Rightarrow> Inr x)"

definition ensure :: "bool \<Rightarrow> 'e \<Rightarrow> 'e + unit" where
  "ensure b e = (if b then Inr () else Inl e)"

definition ok :: "'e + 'a \<Rightarrow> 'a option" where
  "ok m = (case m of Inl _ \<Rightarrow> None | Inr x \<Rightarrow> Some x)"

definition map_res :: "('a \<Rightarrow> 'b) \<Rightarrow> 'e + 'a \<Rightarrow> 'e + 'b" where
  "map_res f m = (case m of Inl e \<Rightarrow> Inl e | Inr x \<Rightarrow> Inr (f x))"

text \<open>\<open>Option::transpose\<close> of an optional result, and \<open>collect\<close> of an iterator of results.\<close>

definition transpose_res :: "('e + 'a) option \<Rightarrow> 'e + 'a option" where
  "transpose_res v = (case v of None \<Rightarrow> Inr None | Some m \<Rightarrow> map_res Some m)"

fun map_ok :: "('a \<Rightarrow> 'e + 'b) \<Rightarrow> 'a list \<Rightarrow> 'e + 'b list" where
  "map_ok f [] = Inr []"
| "map_ok f (x # xs) = and_then (f x) (\<lambda>y. and_then (map_ok f xs) (\<lambda>ys. Inr (y # ys)))"

definition is_ok :: "'e + 'a \<Rightarrow> bool" where
  "is_ok m = (case m of Inl _ \<Rightarrow> False | Inr _ \<Rightarrow> True)"

section \<open>Machine integers with overflow checks\<close>

text \<open>The workspace is built with \<open>overflow-checks = true\<close>: a \<open>u64\<close> sum that does not
  fit panics.\<close>

definition u64_lim :: nat where
  "u64_lim = 2 ^ 64"

definition u128_lim :: nat where
  "u128_lim = 2 ^ 128"

definition u64_add :: "u64 \<Rightarrow> u64 \<Rightarrow> u64 res" where
  "u64_add a b = (if a + b < u64_lim then Inr (a + b) else Inl (Panic ''u64 add overflow''))"

text \<open>A \<open>u128\<close> sum panics when it does not fit; the checked operations return an error.\<close>

definition u128_add :: "nat \<Rightarrow> nat \<Rightarrow> nat res" where
  "u128_add a b = (if a + b < u128_lim then Inr (a + b) else Inl (Panic ''u128 add overflow''))"

definition u128_checked_add :: "nat \<Rightarrow> nat \<Rightarrow> nat res" where
  "u128_checked_add a b = (if a + b < u128_lim then Inr (a + b) else Inl (Std ''overflow''))"

definition u128_checked_sub :: "nat \<Rightarrow> nat \<Rightarrow> nat res" where
  "u128_checked_sub a b = (if b \<le> a then Inr (a - b) else Inl (Std ''overflow''))"

definition u64_mul :: "u64 \<Rightarrow> u64 \<Rightarrow> u64 res" where
  "u64_mul a b = (if a * b < u64_lim then Inr (a * b) else Inl (Panic ''u64 mul overflow''))"

section \<open>Finite maps as storage\<close>

text \<open>Sum of a measure over the values of a stored map.\<close>

definition fmsum :: "('v \<Rightarrow> nat) \<Rightarrow> ('k, 'v) fmap \<Rightarrow> nat" where
  "fmsum f m = (\<Sum>k\<in>fmdom' m. case fmlookup m k of None \<Rightarrow> 0 | Some v \<Rightarrow> f v)"

definition fmval :: "('v \<Rightarrow> nat) \<Rightarrow> ('k, 'v) fmap \<Rightarrow> 'k \<Rightarrow> nat" where
  "fmval f m k = (case fmlookup m k of None \<Rightarrow> 0 | Some v \<Rightarrow> f v)"

text \<open>Ordered iteration over the keys of a stored map, ascending.\<close>

definition fmkeys :: "('k::linorder, 'v) fmap \<Rightarrow> 'k list" where
  "fmkeys m = sorted_list_of_set (fmdom' m)"

text \<open>\<open>range(.., Descending).next()\<close> and \<open>range(.., Ascending).next()\<close> over the keys
  inside the bounds.\<close>

definition fm_last_where :: "('k::linorder \<Rightarrow> bool) \<Rightarrow> ('k, 'v) fmap \<Rightarrow> 'k option" where
  "fm_last_where P m = (case rev (filter P (fmkeys m)) of [] \<Rightarrow> None | k # _ \<Rightarrow> Some k)"

definition fm_first_where :: "('k::linorder \<Rightarrow> bool) \<Rightarrow> ('k, 'v) fmap \<Rightarrow> 'k option" where
  "fm_first_where P m = (case filter P (fmkeys m) of [] \<Rightarrow> None | k # _ \<Rightarrow> Some k)"

section \<open>Lemmas on results\<close>

lemma and_then_Inr [simp]: "and_then (Inr x) f = f x"
  by (simp add: and_then_def)

lemma and_then_Inl [simp]: "and_then (Inl e) f = Inl e"
  by (simp add: and_then_def)

lemma and_then_eq_Inr [simp, res_simps]:
  "(and_then m f = Inr y) = (\<exists>x. m = Inr x \<and> f x = Inr y)"
  by (cases m) auto

lemma and_then_eq_Inl:
  "(and_then m f = Inl e) = (m = Inl e \<or> (\<exists>x. m = Inr x \<and> f x = Inl e))"
  by (cases m) auto

lemma and_then_assoc: "and_then (and_then m f) g = and_then m (\<lambda>x. and_then (f x) g)"
  by (cases m) auto

lemma ok_or_simps [simp]: "ok_or None e = Inl e" "ok_or (Some x) e = Inr x"
  by (simp_all add: ok_or_def)

lemma ok_or_eq_Inr [simp, res_simps]: "(ok_or v e = Inr x) = (v = Some x)"
  by (cases v) auto

lemma ensure_eq_Inr [simp, res_simps]: "(ensure b e = Inr u) = b"
  by (simp add: ensure_def)

lemma ensure_simps [simp]: "ensure True e = Inr ()" "ensure False e = Inl e"
  by (simp_all add: ensure_def)

lemma map_res_simps [simp]: "map_res f (Inl e) = Inl e" "map_res f (Inr x) = Inr (f x)"
  by (simp_all add: map_res_def)

lemma map_res_eq_Inr [simp, res_simps]: "(map_res f m = Inr y) = (\<exists>x. m = Inr x \<and> y = f x)"
  by (cases m) auto

lemma map_res_and_then: "map_res f (and_then m g) = and_then m (\<lambda>x. map_res f (g x))"
  by (cases m) auto

lemma ok_simps [simp]: "ok (Inl e) = None" "ok (Inr x) = Some x"
  by (simp_all add: ok_def)

lemma ok_eq_Some [simp, res_simps]: "(ok m = Some x) = (m = Inr x)"
  by (cases m) auto

lemma is_ok_simps [simp]: "\<not> is_ok (Inl e)" "is_ok (Inr x)"
  by (simp_all add: is_ok_def)

lemma is_ok_iff: "is_ok m = (\<exists>x. m = Inr x)"
  by (cases m) auto

lemma transpose_res_simps [simp]: "transpose_res None = Inr None" "transpose_res (Some m) = map_res Some m"
  by (simp_all add: transpose_res_def)

lemma map_ok_Inr_iff: "(map_ok f xs = Inr ys) = list_all2 (\<lambda>x y. f x = Inr y) xs ys"
  by (induction xs arbitrary: ys) (auto simp: list_all2_Cons1)

lemma map_ok_inverse: "(\<And>x. x \<in> set xs \<Longrightarrow> f (g x) = Inr x) \<Longrightarrow> map_ok f (map g xs) = Inr xs"
  by (induction xs) auto

lemma u64_add_Inr [res_simps]: "(u64_add a b = Inr c) = (c = a + b \<and> a + b < u64_lim)"
  by (auto simp: u64_add_def)

lemma u128_add_Inr [simp, res_simps]: "(u128_add a b = Inr c) = (c = a + b \<and> a + b < u128_lim)"
  by (auto simp: u128_add_def)

lemma u128_checked_add_Inr [simp, res_simps]: "(u128_checked_add a b = Inr c) = (c = a + b \<and> a + b < u128_lim)"
  by (auto simp: u128_checked_add_def)

lemma u128_checked_sub_Inr [simp, res_simps]: "(u128_checked_sub a b = Inr c) = (b \<le> a \<and> c = a - b)"
  by (auto simp: u128_checked_sub_def)

lemma u64_mul_Inr [res_simps]: "(u64_mul a b = Inr c) = (c = a * b \<and> a * b < u64_lim)"
  by (auto simp: u64_mul_def)

section \<open>Lemmas on finite maps\<close>

lemma fmsum_empty [simp]: "fmsum f fmempty = 0"
  by (simp add: fmsum_def)

lemma fmval_lookup: "fmlookup m k = Some v \<Longrightarrow> fmval f m k = f v"
  by (simp add: fmval_def)

lemma fmval_None: "fmlookup m k = None \<Longrightarrow> fmval f m k = 0"
  by (simp add: fmval_def)

lemma fmsum_drop: "fmsum f (fmdrop k m) + fmval f m k = fmsum f m"
proof (cases "k \<in> fmdom' m")
  case True
  then have "fmsum f m = fmval f m k
      + (\<Sum>i\<in>fmdom' m - {k}. case fmlookup m i of None \<Rightarrow> 0 | Some v \<Rightarrow> f v)"
    by (simp add: fmsum_def fmval_def sum.remove)
  moreover have "fmsum f (fmdrop k m)
      = (\<Sum>i\<in>fmdom' m - {k}. case fmlookup m i of None \<Rightarrow> 0 | Some v \<Rightarrow> f v)"
    by (auto simp: fmsum_def intro!: sum.cong)
  ultimately show ?thesis by simp
next
  case False
  then have "fmlookup m k = None" by (simp add: fmlookup_dom'_iff)
  moreover have "fmdrop k m = m"
    using False by (auto intro!: fmap_ext simp: fmlookup_dom'_iff)
  ultimately show ?thesis by (simp add: fmval_def)
qed

lemma fmdrop_fmupd_same: "fmdrop k (fmupd k v m) = fmdrop k m"
  by (rule fmap_ext) simp

lemma fmsum_upd: "fmsum f (fmupd k v m) + fmval f m k = fmsum f m + f v"
proof -
  have "fmsum f (fmdrop k (fmupd k v m)) + f v = fmsum f (fmupd k v m)"
    using fmsum_drop [of f k "fmupd k v m"] by (simp add: fmval_def)
  then show ?thesis
    using fmsum_drop [of f k m] by (simp add: fmdrop_fmupd_same)
qed

lemma fmval_le_fmsum: "fmval f m k \<le> fmsum f m"
  using fmsum_drop [of f k m] by linarith

lemma fmsum_zero: "fmsum (\<lambda>_. 0) m = 0"
  by (auto simp: fmsum_def intro!: sum.neutral split: option.splits)

lemma fmsum_cong:
  assumes "\<And>k v. fmlookup m k = Some v \<Longrightarrow> f v = g v"
  shows "fmsum f m = fmsum g m"
  unfolding fmsum_def by (rule sum.cong) (use assms in \<open>auto split: option.split\<close>)

lemma fmsum_mono:
  assumes "\<And>k v. fmlookup m k = Some v \<Longrightarrow> f v \<le> g v"
  shows "fmsum f m \<le> fmsum g m"
  unfolding fmsum_def by (rule sum_mono) (use assms in \<open>auto split: option.split\<close>)

lemma fmsum_eq_0:
  "(\<And>k v. fmlookup m k = Some v \<Longrightarrow> f v = 0) \<Longrightarrow> fmsum f m = 0"
  using fmsum_cong [of m f "\<lambda>_. 0"] fmsum_zero by simp

lemma fmsum_add: "fmsum (\<lambda>v. f v + g v) m = fmsum f m + fmsum g m"
  unfolding fmsum_def sum.distrib [symmetric] by (rule sum.cong) (auto split: option.split)

lemma fmsum_cmult: "fmsum (\<lambda>v. c * f v) m = c * fmsum f m"
  unfolding fmsum_def sum_distrib_left by (rule sum.cong) (auto split: option.split)

lemma fmsum_two_le:
  assumes "k \<noteq> l"
  shows "fmval f m k + fmval f m l \<le> fmsum f m"
proof -
  have "fmval f (fmdrop k m) l = fmval f m l"
    using assms by (simp add: fmval_def)
  then show ?thesis
    using fmsum_drop [of f k m] fmval_le_fmsum [of f "fmdrop k m" l] by linarith
qed

lemma fmkeys_sorted [simp]: "sorted (fmkeys m)"
  by (simp add: fmkeys_def)

lemma fmkeys_distinct [simp]: "distinct (fmkeys m)"
  by (simp add: fmkeys_def)

lemma set_fmkeys: "set (fmkeys m) = fmdom' m"
  by (simp add: fmkeys_def)

lemma fm_first_where_Some: "(fm_first_where P m = Some k)
    = (k \<in> fmdom' m \<and> P k \<and> (\<forall>j\<in>fmdom' m. P j \<longrightarrow> k \<le> j))"
proof -
  have s: "sorted (filter P (fmkeys m))" by (rule sorted_wrt_filter) simp
  have set: "set (filter P (fmkeys m)) = {k \<in> fmdom' m. P k}" by (auto simp: set_fmkeys)
  show ?thesis
  proof (cases "filter P (fmkeys m)")
    case Nil
    with set show ?thesis by (auto simp: fm_first_where_def)
  next
    case (Cons a as)
    from s set have "\<forall>j\<in>fmdom' m. P j \<longrightarrow> a \<le> j" "a \<in> fmdom' m" "P a"
      unfolding Cons by auto
    with Cons show ?thesis by (auto simp: fm_first_where_def intro: antisym)
  qed
qed

lemma fm_first_where_None: "(fm_first_where P m = None) = (\<forall>j\<in>fmdom' m. \<not> P j)"
  by (auto simp: fm_first_where_def set_fmkeys filter_empty_conv split: list.splits)
     (metis filter_empty_conv list.distinct(1) set_fmkeys)

lemma fm_last_where_Some: "(fm_last_where P m = Some k)
    = (k \<in> fmdom' m \<and> P k \<and> (\<forall>j\<in>fmdom' m. P j \<longrightarrow> j \<le> k))"
proof -
  have s: "sorted (filter P (fmkeys m))" by (rule sorted_wrt_filter) simp
  have set: "set (filter P (fmkeys m)) = {k \<in> fmdom' m. P k}" by (auto simp: set_fmkeys)
  show ?thesis
  proof (cases "filter P (fmkeys m)" rule: rev_cases)
    case Nil
    with set show ?thesis by (auto simp: fm_last_where_def)
  next
    case (snoc as a)
    from s set have "\<forall>j\<in>fmdom' m. P j \<longrightarrow> j \<le> a" "a \<in> fmdom' m" "P a"
      unfolding snoc by (auto simp: sorted_append)
    with snoc show ?thesis by (auto simp: fm_last_where_def intro: antisym)
  qed
qed

lemma fm_last_where_None: "(fm_last_where P m = None) = (\<forall>j\<in>fmdom' m. \<not> P j)"
proof -
  have "(fm_last_where P m = None) = (filter P (fmkeys m) = [])"
    by (cases "filter P (fmkeys m)" rule: rev_cases) (simp_all add: fm_last_where_def)
  then show ?thesis by (simp add: filter_empty_conv set_fmkeys)
qed

lemma fm_last_where_lookup: "fm_last_where P m = Some k \<Longrightarrow> \<exists>v. fmlookup m k = Some v"
  by (auto simp: fm_last_where_Some fmlookup_dom'_iff)

lemma fm_last_where_upd: "\<not> P k \<Longrightarrow> fm_last_where P (fmupd k v m) = fm_last_where P m"
proof (cases "fm_last_where P m")
  case None
  assume "\<not> P k"
  with None have "fm_last_where P (fmupd k v m) = None"
    by (auto simp: fm_last_where_None)
  with None show ?thesis by simp
next
  case (Some j)
  assume "\<not> P k"
  with Some have "fm_last_where P (fmupd k v m) = Some j"
    by (auto simp: fm_last_where_Some)
  with Some show ?thesis by simp
qed

text \<open>Evaluation on concrete maps.\<close>

lemma fm_last_where_empty [simp]: "fm_last_where P fmempty = None"
  by (simp add: fm_last_where_None)

lemma fm_first_where_empty [simp]: "fm_first_where P fmempty = None"
  by (simp add: fm_first_where_None)

lemma fm_last_where_eval: "fm_last_where P (fmupd k v m)
    = (if P k then Some (case fm_last_where P m of None \<Rightarrow> k | Some j \<Rightarrow> max j k) else fm_last_where P m)"
proof (cases "P k")
  case True
  show ?thesis
  proof (cases "fm_last_where P m")
    case None
    then have "fm_last_where P (fmupd k v m) = Some k" using True
      by (auto simp: fm_last_where_None fm_last_where_Some)
    then show ?thesis using True None by simp
  next
    case (Some j)
    then have "fm_last_where P (fmupd k v m) = Some (max j k)" using True
      by (auto simp: fm_last_where_Some max_def)
    then show ?thesis using True Some by simp
  qed
next
  case False
  then show ?thesis by (simp add: fm_last_where_upd)
qed

section \<open>State machines\<close>

text \<open>The states reachable from an initial one, and the rule that an inductive invariant holds in all of
  them.\<close>

inductive reachable :: "('s \<Rightarrow> bool) \<Rightarrow> ('s \<Rightarrow> 's \<Rightarrow> bool) \<Rightarrow> 's \<Rightarrow> bool"
  for init :: "'s \<Rightarrow> bool" and step :: "'s \<Rightarrow> 's \<Rightarrow> bool" where
  start: "init s \<Longrightarrow> reachable init step s"
| move: "reachable init step s \<Longrightarrow> step s t \<Longrightarrow> reachable init step t"

locale invariant_system =
  fixes init :: "'s \<Rightarrow> bool" and step :: "'s \<Rightarrow> 's \<Rightarrow> bool" and inv :: "'s \<Rightarrow> bool"
  assumes inv_init: "init s \<Longrightarrow> inv s"
    and inv_step: "inv s \<Longrightarrow> step s t \<Longrightarrow> inv t"
begin

lemma reachable_inv: "reachable init step s \<Longrightarrow> inv s"
  by (induction rule: reachable.induct) (auto intro: inv_init inv_step)

lemma reachable_step: "reachable init step s \<Longrightarrow> step s t \<Longrightarrow> inv s \<and> inv t"
  using reachable_inv inv_step by blast

end

section \<open>Floor division\<close>

lemma div_add_le: "a div n + b div n \<le> (a + b) div (n::nat)"
proof (cases "n = 0")
  case False
  have "(a div n + b div n) * n \<le> a + b"
    using add_mono [OF div_times_less_eq_dividend [of a n] div_times_less_eq_dividend [of b n]]
    by (simp only: add_mult_distrib)
  with False show ?thesis by (simp add: less_eq_div_iff_mult_less_eq)
qed simp

lemma mult_div_le_self: "b \<le> c \<Longrightarrow> a * b div c \<le> (a::nat)"
proof (cases "c = 0")
  case False
  assume "b \<le> c"
  then have "a * b div c \<le> a * c div c" by (intro div_le_mono mult_le_mono2)
  with False show ?thesis by simp
qed simp

lemma mult_div_pos: "0 < c \<Longrightarrow> c \<le> a * b \<Longrightarrow> 0 < a * b div (c::nat)"
  by (simp add: div_greater_zero_iff)

end
