(* ===== verification/Decimal.thy ===== *)
theory Decimal
  imports Prelude
begin

text \<open>
  The decimal arithmetic of the \<open>cosmwasm_std\<close> crate, which the contracts call and which is
  not part of the repository. A \<open>Decimal256\<close> is represented by its atomics, the natural
  number \<open>Decimal256::atomics\<close> returns (18 fractional digits in a \<open>Uint256\<close>). The operations
  are a parameter: the record \<open>dec256_api\<close> is an argument of every definition that computes
  with decimals. The locale \<open>decimal256\<close> states the documented behaviour of the operations
  (exact sums and differences, products and quotients rounded down to 18 digits, failure on
  overflow and on division by zero); the theorems have it as their hypothesis.
  \<open>dec18\<close> is an instance that behaves as documented, used by the witnesses.
\<close>

type_synonym Decimal256 = nat

definition dec_lim :: nat where
  "dec_lim = 2 ^ 256"

definition dec_one :: Decimal256 where
  "dec_one = 10 ^ 18"

record dec256_api =
  api_add :: "Decimal256 \<Rightarrow> Decimal256 \<Rightarrow> Decimal256 option"
  api_sub :: "Decimal256 \<Rightarrow> Decimal256 \<Rightarrow> Decimal256 option"
  api_mul :: "Decimal256 \<Rightarrow> Decimal256 \<Rightarrow> Decimal256 option"
  api_div :: "Decimal256 \<Rightarrow> Decimal256 \<Rightarrow> Decimal256 option"
  api_from_ratio :: "nat \<Rightarrow> nat \<Rightarrow> Decimal256 option"
  api_from_atomics :: "nat \<Rightarrow> nat \<Rightarrow> Decimal256 option"
  api_u256_div :: "nat \<Rightarrow> nat \<Rightarrow> nat option"
  api_u256_pow :: "nat \<Rightarrow> nat \<Rightarrow> nat option"

section \<open>The calls as results\<close>

text \<open>The checked operations return an error; the operators \<open>+\<close>, \<open>*\<close>, \<open>/\<close> and the
  constructors \<open>from_ratio\<close> and \<open>pow\<close> panic where the checked version fails.\<close>

definition d_add :: "dec256_api \<Rightarrow> Decimal256 \<Rightarrow> Decimal256 \<Rightarrow> Decimal256 res" where
  "d_add D a b = ok_or (api_add D a b) (Std ''add overflow'')"

definition d_sub :: "dec256_api \<Rightarrow> Decimal256 \<Rightarrow> Decimal256 \<Rightarrow> Decimal256 res" where
  "d_sub D a b = ok_or (api_sub D a b) (Std ''sub overflow'')"

definition d_mul :: "dec256_api \<Rightarrow> Decimal256 \<Rightarrow> Decimal256 \<Rightarrow> Decimal256 res" where
  "d_mul D a b = ok_or (api_mul D a b) (Std ''mul overflow'')"

definition d_div :: "dec256_api \<Rightarrow> Decimal256 \<Rightarrow> Decimal256 \<Rightarrow> Decimal256 res" where
  "d_div D a b = ok_or (api_div D a b) (Std ''div error'')"

definition op_add :: "dec256_api \<Rightarrow> Decimal256 \<Rightarrow> Decimal256 \<Rightarrow> Decimal256 res" where
  "op_add D a b = ok_or (api_add D a b) (Panic ''attempt to add with overflow'')"

definition op_sub :: "dec256_api \<Rightarrow> Decimal256 \<Rightarrow> Decimal256 \<Rightarrow> Decimal256 res" where
  "op_sub D a b = ok_or (api_sub D a b) (Panic ''attempt to subtract with overflow'')"

definition op_mul :: "dec256_api \<Rightarrow> Decimal256 \<Rightarrow> Decimal256 \<Rightarrow> Decimal256 res" where
  "op_mul D a b = ok_or (api_mul D a b) (Panic ''attempt to multiply with overflow'')"

definition op_div :: "dec256_api \<Rightarrow> Decimal256 \<Rightarrow> Decimal256 \<Rightarrow> Decimal256 res" where
  "op_div D a b = ok_or (api_div D a b) (Panic ''Division failed'')"

definition d_from_ratio :: "dec256_api \<Rightarrow> nat \<Rightarrow> nat \<Rightarrow> Decimal256 res" where
  "d_from_ratio D n d = ok_or (api_from_ratio D n d) (Panic ''from_ratio'')"

definition d_from_atomics :: "dec256_api \<Rightarrow> nat \<Rightarrow> nat \<Rightarrow> Decimal256 res" where
  "d_from_atomics D a p = ok_or (api_from_atomics D a p) (Std ''from_atomics range'')"

definition u256_div :: "dec256_api \<Rightarrow> nat \<Rightarrow> nat \<Rightarrow> nat res" where
  "u256_div D a b = ok_or (api_u256_div D a b) (Panic ''attempt to divide by zero'')"

definition u256_pow :: "dec256_api \<Rightarrow> nat \<Rightarrow> nat \<Rightarrow> nat res" where
  "u256_pow D a b = ok_or (api_u256_pow D a b) (Panic ''attempt to multiply with overflow'')"

section \<open>An instance that behaves as documented\<close>

definition fit :: "nat \<Rightarrow> nat option" where
  "fit n = (if n < dec_lim then Some n else None)"

definition dec18 :: dec256_api where
  "dec18 = \<lparr>
     api_add = (\<lambda>a b. fit (a + b)),
     api_sub = (\<lambda>a b. if b \<le> a then Some (a - b) else None),
     api_mul = (\<lambda>a b. fit (a * b div dec_one)),
     api_div = (\<lambda>a b. if b = 0 then None else fit (a * dec_one div b)),
     api_from_ratio = (\<lambda>n d. if d = 0 then None else fit (n * dec_one div d)),
     api_from_atomics = (\<lambda>a p. if p \<le> 18 then fit (a * 10 ^ (18 - p)) else Some (a div 10 ^ (p - 18))),
     api_u256_div = (\<lambda>a b. if b = 0 then None else Some (a div b)),
     api_u256_pow = (\<lambda>a b. fit (a ^ b))\<rparr>"

lemmas call_defs =
  d_add_def d_sub_def d_mul_def d_div_def op_add_def op_sub_def op_mul_def op_div_def
  d_from_ratio_def d_from_atomics_def u256_div_def u256_pow_def

lemmas dec18_eval = call_defs dec18_def fit_def dec_lim_def dec_one_def

section \<open>The documented behaviour\<close>

locale decimal256 =
  fixes D :: dec256_api
  assumes add_law: "api_add D a b = (if a + b < dec_lim then Some (a + b) else None)"
    and sub_law: "api_sub D a b = (if b \<le> a then Some (a - b) else None)"
    and mul_law: "api_mul D a b
      = (if a * b div dec_one < dec_lim then Some (a * b div dec_one) else None)"
    and div_law: "api_div D a b
      = (if b \<noteq> 0 \<and> a * dec_one div b < dec_lim then Some (a * dec_one div b) else None)"
    and from_ratio_law: "api_from_ratio D n d
      = (if d \<noteq> 0 \<and> n * dec_one div d < dec_lim then Some (n * dec_one div d) else None)"
    and from_atomics_law: "p \<le> 18 \<Longrightarrow> api_from_atomics D n p
      = (if n * 10 ^ (18 - p) < dec_lim then Some (n * 10 ^ (18 - p)) else None)"
    and u256_div_law: "api_u256_div D n m = (if m \<noteq> 0 then Some (n div m) else None)"
    and u256_pow_law: "api_u256_pow D n k = (if n ^ k < dec_lim then Some (n ^ k) else None)"
begin

lemma add_Inr [simp]: "(d_add D a b = Inr c) = (a + b < dec_lim \<and> c = a + b)"
  by (auto simp: d_add_def add_law)

lemma sub_Inr [simp]: "(d_sub D a b = Inr c) = (b \<le> a \<and> c = a - b)"
  by (auto simp: d_sub_def sub_law)

lemma mul_Inr [simp]: "(d_mul D a b = Inr c) = (a * b div dec_one < dec_lim \<and> c = a * b div dec_one)"
  by (auto simp: d_mul_def mul_law)

lemma div_Inr [simp]: "(d_div D a b = Inr c)
    = (b \<noteq> 0 \<and> a * dec_one div b < dec_lim \<and> c = a * dec_one div b)"
  by (auto simp: d_div_def div_law)

lemma op_add_Inr [simp]: "(op_add D a b = Inr c) = (a + b < dec_lim \<and> c = a + b)"
  by (auto simp: op_add_def add_law)

lemma op_sub_Inr [simp]: "(op_sub D a b = Inr c) = (b \<le> a \<and> c = a - b)"
  by (auto simp: op_sub_def sub_law)

lemma op_mul_Inr [simp]: "(op_mul D a b = Inr c) = (a * b div dec_one < dec_lim \<and> c = a * b div dec_one)"
  by (auto simp: op_mul_def mul_law)

lemma op_div_Inr [simp]: "(op_div D a b = Inr c)
    = (b \<noteq> 0 \<and> a * dec_one div b < dec_lim \<and> c = a * dec_one div b)"
  by (auto simp: op_div_def div_law)

lemma from_ratio_Inr [simp]: "(d_from_ratio D n d = Inr c)
    = (d \<noteq> 0 \<and> n * dec_one div d < dec_lim \<and> c = n * dec_one div d)"
  by (auto simp: d_from_ratio_def from_ratio_law)

lemma from_atomics_Inr: "p \<le> 18 \<Longrightarrow> (d_from_atomics D n p = Inr c)
    = (n * 10 ^ (18 - p) < dec_lim \<and> c = n * 10 ^ (18 - p))"
  by (auto simp: d_from_atomics_def from_atomics_law)

lemma u256_div_Inr [simp]: "(u256_div D n m = Inr c) = (m \<noteq> 0 \<and> c = n div m)"
  by (auto simp: u256_div_def u256_div_law)

lemma u256_pow_Inr [simp]: "(u256_pow D n k = Inr c) = (n ^ k < dec_lim \<and> c = n ^ k)"
  by (auto simp: u256_pow_def u256_pow_law)

lemma add_ok: "a + b < dec_lim \<Longrightarrow> d_add D a b = Inr (a + b)"
  by simp

lemma sub_ok: "b \<le> a \<Longrightarrow> d_sub D a b = Inr (a - b)"
  by simp

lemma sub_Inl: "(\<exists>e. d_sub D a b = Inl e) = (a < b)"
  by (auto simp: d_sub_def sub_law)

lemma add_Inl: "(\<exists>e. d_add D a b = Inl e) = (dec_lim \<le> a + b)"
  by (auto simp: d_add_def add_law)

lemma mul_ok: "a * b div dec_one < dec_lim \<Longrightarrow> d_mul D a b = Inr (a * b div dec_one)"
  by simp

lemma div_ok: "b \<noteq> 0 \<Longrightarrow> a * dec_one div b < dec_lim \<Longrightarrow> d_div D a b = Inr (a * dec_one div b)"
  by simp

end

interpretation d18: decimal256 dec18
  by unfold_locales (auto simp: dec18_def fit_def)

section \<open>Arithmetic on atomics\<close>

lemma dec_one_pos [simp]: "0 < dec_one"
  by (simp add: dec_one_def)

lemma dec_one_neq_0 [simp]: "dec_one \<noteq> 0"
  by (simp add: dec_one_def)

lemma dec_lim_pos [simp]: "0 < dec_lim"
  by (simp add: dec_lim_def)

lemma dec_one_lt_lim [simp]: "dec_one < dec_lim"
  by (simp add: dec_one_def dec_lim_def)

lemma mul_by_ratio_le: "r \<le> dec_one \<Longrightarrow> a * r div dec_one \<le> a"
  by (rule mult_div_le_self)

text \<open>A product with a whole number loses no digits.\<close>

lemma mul_whole [simp]: "a * (n * dec_one) div dec_one = a * n"
proof -
  have "a * (n * dec_one) = (a * n) * dec_one" by simp
  then show ?thesis by (simp only: nonzero_mult_div_cancel_right [OF dec_one_neq_0])
qed

text \<open>Multiplying back a floored quotient never exceeds the dividend.\<close>

lemma div_mul_le: "(a * dec_one div b) * b div dec_one \<le> a"
proof -
  have "(a * dec_one div b) * b \<le> a * dec_one" by (rule div_times_less_eq_dividend)
  then have "(a * dec_one div b) * b div dec_one \<le> a * dec_one div dec_one" by (rule div_le_mono)
  then show ?thesis by simp
qed

end
