(* ===== verification/Numbers.thy ===== *)
theory Numbers
  imports Decimal
begin

text \<open>
  The number layer of \<open>packages/perpswap/src/number\<close>: \<open>Signed\<close>, \<open>NonZero\<close> and
  the \<open>UnsignedDecimal\<close> newtypes (\<open>types.rs\<close>), their checked operations (\<open>ops.rs\<close>,
  \<open>nonzero.rs\<close>), ratios (\<open>ratio.rs\<close>) and fixed precision conversions (\<open>convert.rs\<close>).
  The newtypes \<open>Collateral\<close>, \<open>Notional\<close>, \<open>Base\<close>, \<open>Usd\<close>, \<open>LpToken\<close> wrap a
  \<open>Decimal256\<close> and are synonyms here; \<open>NonZero\<close> values are the non-zero atomics.
  The abstraction \<open>num\<close> reads a \<open>Signed\<close> as an integer number of atomics; the lemmas show
  that every operation refines the integer operation, fails exactly when the result does not fit,
  and that the comparison of the code is the integer order.
\<close>

type_synonym Collateral = Decimal256
type_synonym Notional = Decimal256
type_synonym Base = Decimal256
type_synonym Usd = Decimal256
type_synonym LpToken = Decimal256
type_synonym NonZero = Decimal256

section \<open>Signed numbers\<close>

datatype Signed = Signed (sg_value: Decimal256) (sg_negative: bool)

type_synonym Number = Signed

definition is_negative :: "Signed \<Rightarrow> bool" where
  "is_negative x = sg_negative x"

definition new_positive :: "Decimal256 \<Rightarrow> Signed" where
  "new_positive v = Signed v False"

definition new_negative :: "Decimal256 \<Rightarrow> Signed" where
  "new_negative v = Signed v (v \<noteq> 0)"

definition signed_zero :: Signed where
  "signed_zero = new_positive 0"

definition signed_two :: Signed where
  "signed_two = new_positive (2 * dec_one)"

definition number_one :: Number where
  "number_one = Signed dec_one False"

definition number_neg_one :: Number where
  "number_neg_one = Signed dec_one True"

definition EPS_E7 :: Number where
  "EPS_E7 = Signed 100000000000 False"

definition signed_neg :: "Signed \<Rightarrow> Signed" where
  "signed_neg x = (if sg_value x \<noteq> 0 then Signed (sg_value x) (\<not> sg_negative x) else x)"

definition try_into_non_negative_value :: "Signed \<Rightarrow> Decimal256 option" where
  "try_into_non_negative_value x = (if is_negative x then None else Some (sg_value x))"

definition nonzero_new :: "Decimal256 \<Rightarrow> NonZero option" where
  "nonzero_new v = (if v = 0 then None else Some v)"

definition try_into_non_zero :: "Signed \<Rightarrow> NonZero option" where
  "try_into_non_zero x = Option.bind (try_into_non_negative_value x) nonzero_new"

definition abs_unsigned :: "Signed \<Rightarrow> Decimal256" where
  "abs_unsigned x = sg_value x"

definition signed_abs :: "Signed \<Rightarrow> Signed" where
  "signed_abs x = new_positive (sg_value x)"

definition is_strictly_positive :: "Signed \<Rightarrow> bool" where
  "is_strictly_positive x = (sg_value x \<noteq> 0 \<and> \<not> is_negative x)"

definition is_positive_or_zero :: "Signed \<Rightarrow> bool" where
  "is_positive_or_zero x = (\<not> is_negative x)"

text \<open>\<open>Signed::map\<close> with a function that may panic, and \<open>try_map\<close>: the same body.\<close>

definition signed_map :: "(Decimal256 \<Rightarrow> Decimal256 res) \<Rightarrow> Signed \<Rightarrow> Signed res" where
  "signed_map f x = map_res (\<lambda>v. if is_negative x then new_negative v else new_positive v) (f (sg_value x))"

section \<open>Checked operations on signed numbers\<close>

definition signed_checked_add :: "dec256_api \<Rightarrow> Signed \<Rightarrow> Signed \<Rightarrow> Signed res" where
  "signed_checked_add D x y =
     (case (is_negative x, is_negative y) of
        (False, False) \<Rightarrow> map_res new_positive (d_add D (sg_value x) (sg_value y))
      | (True, True) \<Rightarrow> map_res new_negative (d_add D (sg_value x) (sg_value y))
      | (False, True) \<Rightarrow>
          if sg_value y \<le> sg_value x
          then map_res new_positive (d_sub D (sg_value x) (sg_value y))
          else map_res new_negative (d_sub D (sg_value y) (sg_value x))
      | (True, False) \<Rightarrow>
          if sg_value y \<le> sg_value x
          then map_res new_negative (d_sub D (sg_value x) (sg_value y))
          else map_res new_positive (d_sub D (sg_value y) (sg_value x)))"

definition signed_checked_sub :: "dec256_api \<Rightarrow> Signed \<Rightarrow> Signed \<Rightarrow> Signed res" where
  "signed_checked_sub D x y = signed_checked_add D x (signed_neg y)"

definition number_checked_mul :: "dec256_api \<Rightarrow> Number \<Rightarrow> Number \<Rightarrow> Number res" where
  "number_checked_mul D x y =
     (case ok (d_mul D (sg_value x) (sg_value y)) of
        None \<Rightarrow> Inl (Msg ''Overflow while multiplying'')
      | Some v \<Rightarrow> Inr (if is_negative x = is_negative y then new_positive v else new_negative v))"

definition number_checked_div :: "dec256_api \<Rightarrow> Number \<Rightarrow> Number \<Rightarrow> Number res" where
  "number_checked_div D x y =
     (if sg_value y = 0 then Inl (Msg ''Cannot divide with zero'')
      else (case ok (d_div D (sg_value x) (sg_value y)) of
        None \<Rightarrow> Inl (Msg ''Overflow while dividing'')
      | Some v \<Rightarrow> Inr (if is_negative x = is_negative y then new_positive v else new_negative v)))"

text \<open>\<open>Ord for Signed\<close>: the comparison of the code is a linear order on the type.\<close>

definition signed_le :: "Signed \<Rightarrow> Signed \<Rightarrow> bool" where
  "signed_le x y =
     (case (is_positive_or_zero x, is_positive_or_zero y) of
        (True, True) \<Rightarrow> sg_value x \<le> sg_value y
      | (False, False) \<Rightarrow> sg_value y \<le> sg_value x
      | (True, False) \<Rightarrow> False
      | (False, True) \<Rightarrow> True)"

definition signed_less :: "Signed \<Rightarrow> Signed \<Rightarrow> bool" where
  "signed_less x y =
     (case (is_positive_or_zero x, is_positive_or_zero y) of
        (True, True) \<Rightarrow> sg_value x < sg_value y
      | (False, False) \<Rightarrow> sg_value y < sg_value x
      | (True, False) \<Rightarrow> False
      | (False, True) \<Rightarrow> True)"

instantiation Signed :: linorder
begin

definition less_eq_Signed :: "Signed \<Rightarrow> Signed \<Rightarrow> bool" where
  "less_eq_Signed = signed_le"

definition less_Signed :: "Signed \<Rightarrow> Signed \<Rightarrow> bool" where
  "less_Signed = signed_less"

instance
  by standard (auto simp: less_eq_Signed_def less_Signed_def signed_le_def signed_less_def is_positive_or_zero_def
      is_negative_def Signed.expand split: bool.splits)

end

lemmas signed_order_defs = less_eq_Signed_def less_Signed_def signed_le_def signed_less_def

definition approx_eq_number :: "dec256_api \<Rightarrow> Number \<Rightarrow> Number \<Rightarrow> bool res" where
  "approx_eq_number D x y = and_then (signed_checked_sub D x y) (\<lambda>d. Inr (signed_abs d < EPS_E7))"

definition approx_eq_eps :: "dec256_api \<Rightarrow> Number \<Rightarrow> Number \<Rightarrow> Number \<Rightarrow> bool res" where
  "approx_eq_eps D x y eps = and_then (signed_checked_sub D x y) (\<lambda>d. Inr (signed_abs d < eps))"

definition approx_lt_relaxed :: "dec256_api \<Rightarrow> Number \<Rightarrow> Number \<Rightarrow> bool res" where
  "approx_lt_relaxed D x y = and_then (signed_checked_add D y EPS_E7) (\<lambda>b. Inr (x < b))"

definition approx_gt_relaxed :: "dec256_api \<Rightarrow> Number \<Rightarrow> Number \<Rightarrow> bool res" where
  "approx_gt_relaxed D x y = and_then (signed_checked_sub D y EPS_E7) (\<lambda>b. Inr (b < x))"

definition approx_gt_strict :: "dec256_api \<Rightarrow> Number \<Rightarrow> Number \<Rightarrow> bool res" where
  "approx_gt_strict D x y = and_then (signed_checked_add D y EPS_E7) (\<lambda>b. Inr (b < x))"

section \<open>Unsigned decimals\<close>

definition u_checked_add_signed :: "dec256_api \<Rightarrow> Decimal256 \<Rightarrow> Signed \<Rightarrow> Decimal256 res" where
  "u_checked_add_signed D x y =
     and_then (signed_checked_add D (new_positive x) y) (\<lambda>s.
     ok_or (try_into_non_negative_value s) (Msg ''checked_add_signed''))"

definition u_try_from_number :: "Number \<Rightarrow> Decimal256 res" where
  "u_try_from_number x =
     (if sg_negative x then Inl (Msg ''try_from_number: received a negative value'') else Inr (sg_value x))"

text \<open>\<open>diff\<close> subtracts the smaller from the larger with the panicking operator.\<close>

definition u_diff :: "dec256_api \<Rightarrow> Decimal256 \<Rightarrow> Decimal256 \<Rightarrow> Decimal256 res" where
  "u_diff D x y = (if y < x then op_sub D x y else op_sub D y x)"

definition u_approx_eq :: "dec256_api \<Rightarrow> Decimal256 \<Rightarrow> Decimal256 \<Rightarrow> bool res" where
  "u_approx_eq D x y =
     and_then (u_diff D x y) (\<lambda>d.
     and_then (d_from_ratio D 1 10000000) (\<lambda>eps. Inr (d < eps)))"

definition floor_with_precision :: "dec256_api \<Rightarrow> Decimal256 \<Rightarrow> nat \<Rightarrow> Decimal256 res" where
  "floor_with_precision D x precision =
     and_then (u256_pow D 10 precision) (\<lambda>p.
     and_then (u256_div D dec_one p) (\<lambda>factor.
     and_then (u256_div D x factor) (\<lambda>q. Inr (q * factor))))"

definition checked_mul_dec :: "dec256_api \<Rightarrow> Collateral \<Rightarrow> Decimal256 \<Rightarrow> Collateral res" where
  "checked_mul_dec D x y = d_mul D x y"

definition checked_div_dec :: "dec256_api \<Rightarrow> Collateral \<Rightarrow> Decimal256 \<Rightarrow> Collateral res" where
  "checked_div_dec D x y = d_div D x y"

definition div_non_zero_dec :: "dec256_api \<Rightarrow> Collateral \<Rightarrow> NonZero \<Rightarrow> Collateral res" where
  "div_non_zero_dec D x y = op_div D x y"

definition div_non_zero :: "dec256_api \<Rightarrow> Collateral \<Rightarrow> NonZero \<Rightarrow> Decimal256 res" where
  "div_non_zero D x y = op_div D x y"

section \<open>Non-zero decimals\<close>

definition try_from_signed :: "Signed \<Rightarrow> NonZero res" where
  "try_from_signed x = ok_or (Option.bind (try_into_non_negative_value x) nonzero_new)
     (Msg ''Could not converted signed value into NonZero'')"

definition nz_try_from_number :: "Number \<Rightarrow> NonZero option" where
  "nz_try_from_number x = Option.bind (ok (u_try_from_number x)) nonzero_new"

definition nz_try_from :: "Signed \<Rightarrow> NonZero res" where
  "nz_try_from x = (if is_strictly_positive x then Inr (sg_value x)
     else Inl (Msg ''Cannot convert Signed to NonZero''))"

definition nz_checked_add :: "dec256_api \<Rightarrow> NonZero \<Rightarrow> Decimal256 \<Rightarrow> NonZero res" where
  "nz_checked_add D x y =
     and_then (d_add D x y) (\<lambda>s.
     ok_or (nonzero_new s) (Panic ''Impossible! NonZero::checked_add returned 0''))"

definition nz_checked_sub :: "dec256_api \<Rightarrow> NonZero \<Rightarrow> Decimal256 \<Rightarrow> NonZero res" where
  "nz_checked_sub D x y =
     ok_or (Option.bind (ok (d_sub D x y)) nonzero_new) (Msg ''NonZero::checked_sub'')"

definition nz_checked_add_signed :: "dec256_api \<Rightarrow> NonZero \<Rightarrow> Signed \<Rightarrow> NonZero res" where
  "nz_checked_add_signed D x y =
     and_then (signed_checked_add D (new_positive x) y) (\<lambda>s. try_from_signed s)"

definition nz_checked_sub_signed :: "dec256_api \<Rightarrow> NonZero \<Rightarrow> Signed \<Rightarrow> NonZero res" where
  "nz_checked_sub_signed D x y =
     and_then (signed_checked_add D (new_positive x) (signed_neg y)) (\<lambda>s. try_from_signed s)"

text \<open>\<open>checked_mul_non_zero\<close> and \<open>checked_div_collateral\<close> wrap the result without
  looking whether it is zero.\<close>

definition checked_mul_non_zero :: "dec256_api \<Rightarrow> NonZero \<Rightarrow> NonZero \<Rightarrow> NonZero res" where
  "checked_mul_non_zero D x y = checked_mul_dec D x y"

definition checked_div_collateral :: "dec256_api \<Rightarrow> NonZero \<Rightarrow> NonZero \<Rightarrow> NonZero res" where
  "checked_div_collateral D x y = d_div D x y"

definition checked_mul_number :: "dec256_api \<Rightarrow> Signed \<Rightarrow> Number \<Rightarrow> Signed res" where
  "checked_mul_number D x y = number_checked_mul D x y"

definition nz_inverse :: "dec256_api \<Rightarrow> NonZero \<Rightarrow> NonZero res" where
  "nz_inverse D x =
     and_then (op_div D dec_one x) (\<lambda>q.
     ok_or (nonzero_new q) (Panic ''NonZero::inverse failed but that should be impossible!''))"

section \<open>Conversions\<close>

definition number_from_u128 :: "dec256_api \<Rightarrow> nat \<Rightarrow> Number res" where
  "number_from_u128 D n = map_res new_positive (d_from_ratio D n 1)"

definition to_u128_with_precision :: "dec256_api \<Rightarrow> Number \<Rightarrow> nat \<Rightarrow> nat option res" where
  "to_u128_with_precision D x precision =
     (if is_negative x then Inr None
      else and_then (u256_pow D 10 precision) (\<lambda>p.
           and_then (u256_div D dec_one p) (\<lambda>factor.
           and_then (u256_div D (sg_value x) factor) (\<lambda>raw.
           Inr (if raw < u128_lim then Some raw else None)))))"

definition LP_TOKEN_DIVIDER :: nat where
  "LP_TOKEN_DIVIDER = 1000000000000"

definition LP_PRECISION :: nat where
  "LP_PRECISION = 6"

definition lp_token_into_u128 :: "dec256_api \<Rightarrow> LpToken \<Rightarrow> nat res" where
  "lp_token_into_u128 D x =
     and_then (u256_div D x LP_TOKEN_DIVIDER) (\<lambda>v.
     if v < u128_lim then Inr v else Inl (Std ''Uint128::try_from''))"

definition lp_token_from_u128 :: "dec256_api \<Rightarrow> nat \<Rightarrow> LpToken res" where
  "lp_token_from_u128 D n = d_from_atomics D n LP_PRECISION"

section \<open>Ratios\<close>

datatype bound = Included Decimal256 | Excluded Decimal256 | Unbounded

definition validate_ratio :: "Decimal256 \<Rightarrow> bound \<Rightarrow> bound \<Rightarrow> unit res" where
  "validate_ratio v lower upper =
     ensure ((case lower of Included l \<Rightarrow> l \<le> v | Excluded l \<Rightarrow> l < v | Unbounded \<Rightarrow> True)
           \<and> (case upper of Included u \<Rightarrow> v \<le> u | Excluded u \<Rightarrow> v < u | Unbounded \<Rightarrow> True))
       (Msg ''Invalid ratio'')"

definition inclusive_ratio_new :: "Decimal256 \<Rightarrow> Decimal256 res" where
  "inclusive_ratio_new v =
     and_then (validate_ratio v (Included 0) (Included dec_one)) (\<lambda>_. Inr v)"

section \<open>The integer reading\<close>

text \<open>\<open>num\<close> is the number of atomics with its sign; \<open>wf_signed\<close> is the invariant the
  source states for the type, with the width of the representation.\<close>

definition num :: "Signed \<Rightarrow> int" where
  "num x = (if sg_negative x then - int (sg_value x) else int (sg_value x))"

definition wf_signed :: "Signed \<Rightarrow> bool" where
  "wf_signed x \<longleftrightarrow> (sg_negative x \<longrightarrow> sg_value x \<noteq> 0) \<and> sg_value x < dec_lim"

lemmas signed_defs = is_negative_def new_positive_def new_negative_def signed_neg_def
  is_positive_or_zero_def is_strictly_positive_def abs_unsigned_def signed_abs_def
  try_into_non_negative_value_def nonzero_new_def

section \<open>Lemmas on the representation\<close>

lemma num_new_positive [simp]: "num (new_positive v) = int v"
  by (simp add: num_def new_positive_def)

lemma num_new_negative [simp]: "num (new_negative v) = - int v"
  by (simp add: num_def new_negative_def)

lemma num_signed_zero [simp]: "num signed_zero = 0"
  by (simp add: signed_zero_def)

lemma num_number_one [simp]: "num number_one = int dec_one"
  by (simp add: num_def number_one_def)

lemma num_number_neg_one [simp]: "num number_neg_one = - int dec_one"
  by (simp add: num_def number_neg_one_def)

lemma num_neg [simp]: "num (signed_neg x) = - num x"
  by (simp add: num_def signed_neg_def)

lemma wf_new_positive [simp]: "wf_signed (new_positive v) = (v < dec_lim)"
  by (simp add: wf_signed_def new_positive_def)

lemma wf_new_negative [simp]: "wf_signed (new_negative v) = (v < dec_lim)"
  by (auto simp: wf_signed_def new_negative_def)

lemma wf_signed_zero [simp]: "wf_signed signed_zero"
  by (simp add: signed_zero_def)

lemma wf_number_one [simp]: "wf_signed number_one" "wf_signed number_neg_one"
  by (simp_all add: wf_signed_def number_one_def number_neg_one_def)

lemma wf_neg [simp]: "wf_signed (signed_neg x) = wf_signed x"
  by (auto simp: wf_signed_def signed_neg_def)

lemma sg_value_new [simp]: "sg_value (new_positive v) = v" "sg_value (new_negative v) = v"
  by (simp_all add: new_positive_def new_negative_def)

lemma abs_num [simp]: "\<bar>num x\<bar> = int (sg_value x)"
  by (simp add: num_def)

lemma sg_value_num: "sg_value x = nat \<bar>num x\<bar>"
  by simp

lemma is_negative_num: "wf_signed x \<Longrightarrow> is_negative x = (num x < 0)"
  by (auto simp: wf_signed_def is_negative_def num_def)

lemma num_inject: "wf_signed x \<Longrightarrow> wf_signed y \<Longrightarrow> (num x = num y) = (x = y)"
  by (cases x; cases y) (auto simp: num_def wf_signed_def split: if_splits)

lemma le_num: "wf_signed x \<Longrightarrow> wf_signed y \<Longrightarrow> (x \<le> y) = (num x \<le> num y)"
  by (auto simp: signed_order_defs num_def wf_signed_def is_positive_or_zero_def is_negative_def
      split: bool.splits)

lemma less_num: "wf_signed x \<Longrightarrow> wf_signed y \<Longrightarrow> (x < y) = (num x < num y)"
  by (auto simp: signed_order_defs num_def wf_signed_def is_positive_or_zero_def is_negative_def
      split: bool.splits)

lemma non_negative_value_iff:
  "wf_signed x \<Longrightarrow> (try_into_non_negative_value x = Some v) = (num x = int v)"
  by (auto simp: try_into_non_negative_value_def is_negative_def num_def wf_signed_def)

lemma non_negative_value_None:
  "wf_signed x \<Longrightarrow> (try_into_non_negative_value x = None) = (num x < 0)"
  by (auto simp: try_into_non_negative_value_def is_negative_def num_def wf_signed_def)

lemma nonzero_new_Some [simp]: "(nonzero_new v = Some w) = (w = v \<and> v \<noteq> 0)"
  by (auto simp: nonzero_new_def)

lemma nonzero_new_None [simp]: "(nonzero_new v = None) = (v = 0)"
  by (auto simp: nonzero_new_def)

lemma try_from_signed_iff:
  "wf_signed x \<Longrightarrow> (try_from_signed x = Inr v) = (num x = int v \<and> 0 < v)"
  by (auto simp: try_from_signed_def bind_eq_Some_conv non_negative_value_iff)

lemma nz_try_from_iff:
  "wf_signed x \<Longrightarrow> (nz_try_from x = Inr v) = (num x = int v \<and> 0 < v)"
  by (auto simp: nz_try_from_def signed_defs num_def wf_signed_def)

lemma nz_try_from_number_iff:
  "wf_signed x \<Longrightarrow> (nz_try_from_number x = Some v) = (num x = int v \<and> 0 < v)"
  by (auto simp: nz_try_from_number_def u_try_from_number_def bind_eq_Some_conv num_def wf_signed_def)

lemma u_try_from_number_iff:
  "wf_signed x \<Longrightarrow> (u_try_from_number x = Inr v) = (num x = int v)"
  by (auto simp: u_try_from_number_def num_def wf_signed_def)

lemma signed_map_Inr: "(signed_map f x = Inr y)
    = (\<exists>v. f (sg_value x) = Inr v \<and> y = (if is_negative x then new_negative v else new_positive v))"
  by (auto simp: signed_map_def)

lemma signed_map_num:
  "signed_map f x = Inr y \<Longrightarrow> \<exists>v. f (sg_value x) = Inr v
     \<and> num y = (if sg_negative x then - int v else int v) \<and> sg_value y = v"
  by (auto simp: signed_map_Inr is_negative_def)

section \<open>Refinement of integer arithmetic\<close>

lemma sdiv_of_nat [simp]: "int a sdiv int c = int (a div c)"
  by (cases "a = 0"; cases "c = 0") (auto simp: signed_divide_int_def zdiv_int)

lemma sdiv_neg_of_nat [simp]: "(- int a) sdiv int c = - int (a div c)"
  by (cases "a = 0"; cases "c = 0") (auto simp: signed_divide_int_def zdiv_int)

lemma sdiv_of_nat_neg [simp]: "int a sdiv (- int c) = - int (a div c)"
  by (cases "a = 0"; cases "c = 0") (auto simp: signed_divide_int_def zdiv_int)

lemma sdiv_neg_of_nat_neg [simp]: "(- int a) sdiv (- int c) = int (a div c)"
  by (cases "a = 0"; cases "c = 0") (auto simp: signed_divide_int_def zdiv_int)

lemma eq_by_num: "wf_signed w \<Longrightarrow> (z = w) = (wf_signed z \<and> num z = num w)"
  using num_inject by blast

lemma sdiv_zero_num [simp]: "(0::int) sdiv c = 0"
  by (simp add: signed_divide_int_def)

lemma num_mult: "num x * num y
    = (if sg_negative x = sg_negative y then int (sg_value x * sg_value y)
       else - int (sg_value x * sg_value y))"
  by (simp add: num_def)

context decimal256
begin

lemma signed_add_num:
  assumes "wf_signed x" "wf_signed y" "signed_checked_add D x y = Inr z"
  shows "num z = num x + num y \<and> wf_signed z"
  using assms
  by (auto simp: signed_checked_add_def is_negative_def num_def wf_signed_def
      new_positive_def new_negative_def split: bool.splits if_splits)

lemma signed_add_defined:
  assumes "wf_signed x" "wf_signed y"
  shows "(\<exists>z. signed_checked_add D x y = Inr z) = (\<bar>num x + num y\<bar> < int dec_lim)"
  using assms
  by (auto simp: signed_checked_add_def is_negative_def num_def wf_signed_def
      new_positive_def new_negative_def split: bool.splits if_splits)

lemma signed_add_Inr:
  assumes "wf_signed x" "wf_signed y"
  shows "(signed_checked_add D x y = Inr z)
     = (wf_signed z \<and> num z = num x + num y \<and> \<bar>num x + num y\<bar> < int dec_lim)"
  using signed_add_num [OF assms] signed_add_defined [OF assms] num_inject assms
  by metis

lemma signed_sub_Inr:
  assumes "wf_signed x" "wf_signed y"
  shows "(signed_checked_sub D x y = Inr z)
     = (wf_signed z \<and> num z = num x - num y \<and> \<bar>num x - num y\<bar> < int dec_lim)"
  using signed_add_Inr [of x "signed_neg y" z] assms by (simp add: signed_checked_sub_def)

lemma num_product:
  "num (if sg_negative x = sg_negative y then new_positive v else new_negative v)
     = (if sg_negative x = sg_negative y then int v else - int v)"
  by simp

lemma signed_mul_Inr:
  assumes "wf_signed x" "wf_signed y"
  shows "(number_checked_mul D x y = Inr z)
     = (wf_signed z \<and> num z = (num x * num y) sdiv int dec_one
        \<and> sg_value x * sg_value y div dec_one < dec_lim)"
proof -
  let ?v = "sg_value x * sg_value y div dec_one"
  let ?z = "if sg_negative x = sg_negative y then new_positive ?v else new_negative ?v"
  have "(number_checked_mul D x y = Inr z) = (?v < dec_lim \<and> z = ?z)"
    by (auto simp: number_checked_mul_def is_negative_def split: option.splits)
       (auto simp: ok_def d_mul_def mul_law split: option.splits if_splits)
  moreover have "num ?z = (num x * num y) sdiv int dec_one"
    by (simp add: num_mult del: of_nat_mult)
  moreover have "?v < dec_lim \<Longrightarrow> wf_signed ?z" by simp
  ultimately show ?thesis using eq_by_num [of ?z z] by auto
qed

lemma signed_div_Inr:
  assumes "wf_signed x" "wf_signed y"
  shows "(number_checked_div D x y = Inr z)
     = (num y \<noteq> 0 \<and> wf_signed z \<and> num z = (num x * int dec_one) sdiv num y
        \<and> sg_value x * dec_one div sg_value y < dec_lim)"
proof -
  let ?v = "sg_value x * dec_one div sg_value y"
  let ?z = "if sg_negative x = sg_negative y then new_positive ?v else new_negative ?v"
  have "(number_checked_div D x y = Inr z) = (sg_value y \<noteq> 0 \<and> ?v < dec_lim \<and> z = ?z)"
    by (auto simp: number_checked_div_def is_negative_def split: option.splits)
       (auto simp: ok_def d_div_def div_law split: option.splits if_splits)
  moreover have "num ?z = (num x * int dec_one) sdiv num y"
    by (simp add: num_def [of x] num_def [of y] flip: of_nat_mult)
  moreover have "(num y \<noteq> 0) = (sg_value y \<noteq> 0)" by (simp add: num_def)
  moreover have "?v < dec_lim \<Longrightarrow> wf_signed ?z" by simp
  ultimately show ?thesis using eq_by_num [of ?z z] by auto
qed

lemma u_add_signed_Inr:
  assumes "x < dec_lim" "wf_signed y"
  shows "(u_checked_add_signed D x y = Inr v)
     = (int v = int x + num y \<and> v < dec_lim)"
proof -
  have "(u_checked_add_signed D x y = Inr v)
     = (\<exists>z. wf_signed z \<and> num z = int v \<and> int v = int x + num y \<and> v < dec_lim)"
    using assms by (auto simp: u_checked_add_signed_def signed_add_Inr non_negative_value_iff
        intro: exI [of _ "new_positive v"])
  then show ?thesis by (auto intro: exI [of _ "new_positive v"])
qed

lemma nz_add_signed_Inr:
  assumes "x < dec_lim" "wf_signed y"
  shows "(nz_checked_add_signed D x y = Inr v)
     = (int v = int x + num y \<and> 0 < v \<and> v < dec_lim)"
proof -
  have "(nz_checked_add_signed D x y = Inr v)
     = (\<exists>z. wf_signed z \<and> num z = int v \<and> int v = int x + num y \<and> 0 < v \<and> v < dec_lim)"
    using assms by (auto simp: nz_checked_add_signed_def signed_add_Inr try_from_signed_iff
        intro: exI [of _ "new_positive v"])
  then show ?thesis by (auto intro: exI [of _ "new_positive v"])
qed

lemma nz_sub_signed_Inr:
  assumes "x < dec_lim" "wf_signed y"
  shows "(nz_checked_sub_signed D x y = Inr v)
     = (int v = int x - num y \<and> 0 < v \<and> v < dec_lim)"
  using assms nz_add_signed_Inr [of x "signed_neg y" v]
  by (simp add: nz_checked_sub_signed_def nz_checked_add_signed_def)

lemma nz_sub_Inr [simp]: "(nz_checked_sub D x y = Inr v) = (y < x \<and> v = x - y)"
  by (auto simp: nz_checked_sub_def bind_eq_Some_conv)

lemma nz_add_Inr [simp]: "(nz_checked_add D x y = Inr v) = (x + y < dec_lim \<and> v = x + y \<and> 0 < v)"
  by (auto simp: nz_checked_add_def)

lemma nz_add_no_panic: "0 < x \<Longrightarrow> nz_checked_add D x y \<noteq> Inl (Panic s)"
  by (auto simp: nz_checked_add_def and_then_eq_Inl d_add_def add_law ok_or_def nonzero_new_def
      split: option.splits if_splits)

lemma u_diff_abs: "x < dec_lim \<Longrightarrow> y < dec_lim \<Longrightarrow>
    u_diff D x y = Inr (nat \<bar>int x - int y\<bar>)"
  by (auto simp: u_diff_def)

lemma token_precision_law:
  "lp_token_from_u128 D n = Inr x \<Longrightarrow> n < u128_lim \<Longrightarrow> lp_token_into_u128 D x = Inr n"
  "p \<le> 18 \<Longrightarrow> floor_with_precision D v p = Inr w \<Longrightarrow>
     w \<le> v \<and> v < w + 10 ^ (18 - p) \<and> w mod 10 ^ (18 - p) = 0"
proof -
  show "lp_token_from_u128 D n = Inr x \<Longrightarrow> n < u128_lim \<Longrightarrow> lp_token_into_u128 D x = Inr n"
    by (auto simp: lp_token_from_u128_def lp_token_into_u128_def from_atomics_Inr LP_PRECISION_def
        LP_TOKEN_DIVIDER_def u256_div_def u256_div_law)
  assume p: "p \<le> 18" and f: "floor_with_precision D v p = Inr w"
  have "dec_one = 10 ^ p * 10 ^ (18 - p)"
    using p by (simp add: dec_one_def flip: power_add)
  then have "dec_one div 10 ^ p = 10 ^ (18 - p)"
    by (metis nonzero_mult_div_cancel_left power_not_zero zero_neq_numeral)
  then have w: "w = v div 10 ^ (18 - p) * 10 ^ (18 - p)"
    using f by (auto simp: floor_with_precision_def)
  have "0 < (10::nat) ^ (18 - p)" by simp
  from div_mult_mod_eq [of v "10 ^ (18 - p)"] mod_less_divisor [OF this, of v]
  show "w \<le> v \<and> v < w + 10 ^ (18 - p) \<and> w mod 10 ^ (18 - p) = 0"
    unfolding w by (metis add_less_cancel_left le_add1 mod_mult_self2_is_0)
qed

lemma nz_inverse_Inr: "(nz_inverse D x = Inr v)
    = (0 < x \<and> v = dec_one * dec_one div x \<and> 0 < v \<and> v < dec_lim)"
  by (auto simp: nz_inverse_def)

end

lemma inclusive_ratio_iff: "(inclusive_ratio_new v = Inr r) = (r = v \<and> v \<le> dec_one)"
  by (auto simp: inclusive_ratio_new_def validate_ratio_def)

section \<open>Properties\<close>

text \<open>C25: The signed arithmetic of the contracts is exact integer arithmetic on atomics: a sum or a
  difference is computed exactly when it fits 256 bits and is an error otherwise, a product and a
  quotient are truncated toward zero, division by zero is an error, and the result again satisfies
  the invariant of the type (no negative zero).\<close>

theorem signed_arithmetic_refines_int:
  assumes "decimal256 D" "wf_signed x" "wf_signed y"
  shows "(signed_checked_add D x y = Inr z)
           = (wf_signed z \<and> num z = num x + num y \<and> \<bar>num x + num y\<bar> < int dec_lim)
       \<and> (signed_checked_sub D x y = Inr z)
           = (wf_signed z \<and> num z = num x - num y \<and> \<bar>num x - num y\<bar> < int dec_lim)
       \<and> (number_checked_mul D x y = Inr z)
           = (wf_signed z \<and> num z = (num x * num y) sdiv int dec_one
              \<and> sg_value x * sg_value y div dec_one < dec_lim)
       \<and> (number_checked_div D x y = Inr z)
           = (num y \<noteq> 0 \<and> wf_signed z \<and> num z = (num x * int dec_one) sdiv num y
              \<and> sg_value x * dec_one div sg_value y < dec_lim)"
  using decimal256.signed_add_Inr [OF assms] decimal256.signed_sub_Inr [OF assms]
    decimal256.signed_mul_Inr [OF assms] decimal256.signed_div_Inr [OF assms] by blast

theorem signed_arithmetic_refines_int_witness:
  "num (Signed (3 * dec_one) True) + num (Signed dec_one False) = - 2 * int dec_one
   \<and> signed_checked_add dec18 (Signed (3 * dec_one) True) (Signed dec_one False)
       = Inr (Signed (2 * dec_one) True)"
proof -
  have "wf_signed (Signed (3 * dec_one) True)" "wf_signed (Signed dec_one False)"
      "wf_signed (Signed (2 * dec_one) True)"
    by (simp_all add: wf_signed_def dec_one_def dec_lim_def)
  then show ?thesis
    using signed_arithmetic_refines_int [OF d18.decimal256_axioms, of "Signed (3 * dec_one) True"
        "Signed dec_one False" "Signed (2 * dec_one) True"]
    by (simp add: num_def dec_one_def dec_lim_def)
qed

text \<open>Conversions to token precision lose nothing they should not: an LP amount read from a
  token amount prints back as that token amount, and flooring a collateral to a precision gives the
  largest multiple of the precision unit that does not exceed it.\<close>

theorem token_precision_conversions:
  assumes "decimal256 D"
  shows "(lp_token_from_u128 D n = Inr x \<longrightarrow> n < u128_lim \<longrightarrow> lp_token_into_u128 D x = Inr n)
    \<and> (p \<le> 18 \<longrightarrow> floor_with_precision D v p = Inr w \<longrightarrow>
        w \<le> v \<and> v < w + 10 ^ (18 - p) \<and> w mod 10 ^ (18 - p) = 0)"
  using decimal256.token_precision_law [OF assms] by blast

theorem token_precision_conversions_witness:
  "lp_token_into_u128 dec18 (1500000 * 10 ^ 12) = Inr 1500000
   \<and> floor_with_precision dec18 1234567890123456789 6 = Inr 1234567000000000000"
proof -
  have "lp_token_from_u128 dec18 1500000 = Inr (1500000 * 10 ^ 12)"
    by (simp add: lp_token_from_u128_def LP_PRECISION_def dec18_eval)
  moreover have f: "floor_with_precision dec18 1234567890123456789 6 = Inr 1234567000000000000"
    by (simp add: floor_with_precision_def dec18_eval)
  ultimately show ?thesis
    using token_precision_conversions [OF d18.decimal256_axioms, of 1500000 "1500000 * 10 ^ 12" 6
        1234567890123456789 1234567000000000000]
    by (simp add: u128_lim_def)
qed

end
