(* ===== verification/MarketTypes.thy ===== *)
theory MarketTypes
  imports Numbers
begin

text \<open>
  Market identifiers (\<open>packages/perpswap/src/market_type.rs\<close>), position directions
  (\<open>direction.rs\<close>) and leverage (\<open>leverage.rs\<close>). An identifier is printed by
  \<open>make_encoded\<close> and read back by \<open>market_id_parse\<close>; directions and leverage are
  converted between the trader's base view and the protocol's notional view.
\<close>

section \<open>Market identifiers\<close>

datatype MarketType = CollateralIsQuote | CollateralIsBase

record MarketId =
  mid_base :: string
  mid_quote :: string
  mid_market_type :: MarketType
  mid_encoded :: string

definition is_fiat :: "string \<Rightarrow> bool" where
  "is_fiat s = (s = ''USD'' \<or> s = ''EUR'')"

definition make_encoded :: "string \<Rightarrow> string \<Rightarrow> MarketType \<Rightarrow> string" where
  "make_encoded base quote mt =
     (let (base_plus, quote_plus) =
        (case (mt, is_fiat quote) of
           (CollateralIsQuote, True) \<Rightarrow> ('''', ''+'')
         | (CollateralIsQuote, False) \<Rightarrow> ('''', '''')
         | (CollateralIsBase, True) \<Rightarrow> ('''', '''')
         | (CollateralIsBase, False) \<Rightarrow> (''+'', ''''))
      in base @ base_plus @ ''_'' @ quote @ quote_plus)"

definition market_id_new :: "string \<Rightarrow> string \<Rightarrow> MarketType \<Rightarrow> MarketId" where
  "market_id_new base quote mt =
     \<lparr>mid_base = base, mid_quote = quote, mid_market_type = mt,
      mid_encoded = make_encoded base quote mt\<rparr>"

text \<open>\<open>str::split_once\<close> at the first underscore and \<open>str::strip_suffix\<close> of a plus.\<close>

fun split_once_us :: "string \<Rightarrow> (string \<times> string) option" where
  "split_once_us [] = None"
| "split_once_us (c # s) =
     (if c = CHR ''_'' then Some ([], s)
      else map_option (\<lambda>(a, b). (c # a, b)) (split_once_us s))"

definition strip_suffix_plus :: "string \<Rightarrow> string option" where
  "strip_suffix_plus s = (if s \<noteq> [] \<and> last s = CHR ''+'' then Some (butlast s) else None)"

text \<open>\<open>MarketId::parse\<close>: the outer result is the final \<open>assert_eq!\<close>, which panics.\<close>

definition market_id_parse :: "string \<Rightarrow> MarketId option res" where
  "market_id_parse s =
     (case split_once_us s of
        None \<Rightarrow> Inr None
      | Some (base, quote) \<Rightarrow>
     (case (case strip_suffix_plus base of
              Some b \<Rightarrow> if is_fiat quote then None else Some (b, True)
            | None \<Rightarrow> Some (base, False)) of
        None \<Rightarrow> Inr None
      | Some (base, base_is_collateral) \<Rightarrow>
     (case (case strip_suffix_plus quote of
              Some q \<Rightarrow> if is_fiat q then Some (q, True) else None
            | None \<Rightarrow> Some (quote, False)) of
        None \<Rightarrow> Inr None
      | Some (quote, quote_is_collateral) \<Rightarrow>
     (case (case (base_is_collateral, quote_is_collateral) of
              (True, True) \<Rightarrow> None
            | (True, False) \<Rightarrow> Some CollateralIsBase
            | (False, True) \<Rightarrow> Some CollateralIsQuote
            | (False, False) \<Rightarrow> Some (if is_fiat quote then CollateralIsBase else CollateralIsQuote)) of
        None \<Rightarrow> Inr None
      | Some mt \<Rightarrow>
          if make_encoded base quote mt = s
          then Inr (Some \<lparr>mid_base = base, mid_quote = quote, mid_market_type = mt, mid_encoded = s\<rparr>)
          else Inl (Panic ''assertion failed: make_encoded'')))))"

definition get_notional :: "MarketId \<Rightarrow> string" where
  "get_notional m = (case mid_market_type m of
     CollateralIsQuote \<Rightarrow> mid_base m | CollateralIsBase \<Rightarrow> mid_quote m)"

definition get_collateral :: "MarketId \<Rightarrow> string" where
  "get_collateral m = (case mid_market_type m of
     CollateralIsQuote \<Rightarrow> mid_quote m | CollateralIsBase \<Rightarrow> mid_base m)"

definition is_notional_usd_id :: "MarketId \<Rightarrow> bool" where
  "is_notional_usd_id m = (get_notional m = ''USD'')"

section \<open>Directions\<close>

datatype DirectionToNotional = LongNotional | ShortNotional

datatype DirectionToBase = LongBase | ShortBase

definition direction_invert :: "DirectionToBase \<Rightarrow> DirectionToBase" where
  "direction_invert d = (case d of LongBase \<Rightarrow> ShortBase | ShortBase \<Rightarrow> LongBase)"

definition direction_into_notional :: "DirectionToBase \<Rightarrow> MarketType \<Rightarrow> DirectionToNotional" where
  "direction_into_notional d mt =
     (case (mt, d) of
        (CollateralIsQuote, LongBase) \<Rightarrow> LongNotional
      | (CollateralIsQuote, ShortBase) \<Rightarrow> ShortNotional
      | (CollateralIsBase, LongBase) \<Rightarrow> ShortNotional
      | (CollateralIsBase, ShortBase) \<Rightarrow> LongNotional)"

definition direction_into_base :: "DirectionToNotional \<Rightarrow> MarketType \<Rightarrow> DirectionToBase" where
  "direction_into_base d mt =
     (case (mt, d) of
        (CollateralIsQuote, LongNotional) \<Rightarrow> LongBase
      | (CollateralIsQuote, ShortNotional) \<Rightarrow> ShortBase
      | (CollateralIsBase, LongNotional) \<Rightarrow> ShortBase
      | (CollateralIsBase, ShortNotional) \<Rightarrow> LongBase)"

definition direction_sign :: "DirectionToNotional \<Rightarrow> Number" where
  "direction_sign d = (case d of LongNotional \<Rightarrow> number_one | ShortNotional \<Rightarrow> number_neg_one)"

section \<open>Leverage\<close>

type_synonym LeverageToBase = Decimal256
type_synonym SignedLeverageToBase = Number
type_synonym SignedLeverageToNotional = Number

definition leverage_into_signed :: "LeverageToBase \<Rightarrow> DirectionToBase \<Rightarrow> SignedLeverageToBase" where
  "leverage_into_signed l d =
     (case d of LongBase \<Rightarrow> new_positive l | ShortBase \<Rightarrow> signed_neg (new_positive l))"

definition leverage_into_notional ::
    "dec256_api \<Rightarrow> SignedLeverageToBase \<Rightarrow> MarketType \<Rightarrow> SignedLeverageToNotional res" where
  "leverage_into_notional D l mt =
     (case mt of
        CollateralIsQuote \<Rightarrow> Inr l
      | CollateralIsBase \<Rightarrow> signed_checked_sub D number_one l)"

definition leverage_into_base ::
    "dec256_api \<Rightarrow> SignedLeverageToNotional \<Rightarrow> MarketType \<Rightarrow> SignedLeverageToBase res" where
  "leverage_into_base D l mt =
     (case mt of
        CollateralIsQuote \<Rightarrow> Inr l
      | CollateralIsBase \<Rightarrow> signed_checked_sub D number_one l)"

definition leverage_split :: "SignedLeverageToBase \<Rightarrow> DirectionToBase \<times> LeverageToBase" where
  "leverage_split l =
     (case try_into_non_negative_value l of
        Some x \<Rightarrow> (LongBase, x)
      | None \<Rightarrow> (ShortBase, abs_unsigned l))"

definition leverage_checked_mul_base :: "dec256_api \<Rightarrow> SignedLeverageToBase \<Rightarrow> NonZero \<Rightarrow> Signed res" where
  "leverage_checked_mul_base D l base = checked_mul_number D (new_positive base) l"

definition leverage_checked_mul_collateral ::
    "dec256_api \<Rightarrow> SignedLeverageToNotional \<Rightarrow> NonZero \<Rightarrow> Signed res" where
  "leverage_checked_mul_collateral D l c = checked_mul_number D (new_positive c) l"

definition leverage_direction :: "SignedLeverageToNotional \<Rightarrow> DirectionToNotional" where
  "leverage_direction l =
     (case try_into_non_negative_value l of Some _ \<Rightarrow> LongNotional | None \<Rightarrow> ShortNotional)"

section \<open>Lemmas\<close>

lemma split_once_us_Some:
  "split_once_us s = Some (a, b) \<Longrightarrow> s = a @ CHR ''_'' # b \<and> CHR ''_'' \<notin> set a"
  by (induction s arbitrary: a) (auto split: if_splits)

lemma split_once_us_append:
  "CHR ''_'' \<notin> set a \<Longrightarrow> split_once_us (a @ CHR ''_'' # b) = Some (a, b)"
  by (induction a) auto

lemma split_once_us_None: "(split_once_us s = None) = (CHR ''_'' \<notin> set s)"
  by (induction s) auto

lemma strip_suffix_plus_Some: "(strip_suffix_plus s = Some t) = (s = t @ ''+'')"
  by (auto simp: strip_suffix_plus_def) (metis append_butlast_last_id)

lemma strip_suffix_plus_append [simp]: "strip_suffix_plus (s @ ''+'') = Some s"
  by (simp add: strip_suffix_plus_Some)

lemma strip_suffix_plus_None: "(strip_suffix_plus s = None) = (\<not> (\<exists>t. s = t @ ''+''))"
  using strip_suffix_plus_Some [of s] by (metis not_Some_eq)

lemma is_fiat_no_plus: "is_fiat q \<Longrightarrow> strip_suffix_plus q = None"
  by (auto simp: is_fiat_def strip_suffix_plus_def)

lemma not_fiat_plus: "\<not> is_fiat (q @ ''+'')"
  by (auto simp: is_fiat_def)

text \<open>A parsed identifier prints back to the text it was read from.\<close>

lemma market_id_parse_sound:
  "market_id_parse s = Inr (Some m) \<Longrightarrow>
     mid_encoded m = s \<and> m = market_id_new (mid_base m) (mid_quote m) (mid_market_type m)"
  by (auto simp: market_id_parse_def market_id_new_def split: option.splits prod.splits if_splits)

text \<open>The assertion at the end of \<open>parse\<close> never fires.\<close>

lemma market_id_parse_total: "\<exists>r. market_id_parse s = Inr r"
proof (cases "split_once_us s")
  case None
  then show ?thesis by (simp add: market_id_parse_def)
next
  case (Some p)
  then obtain b q where p: "split_once_us s = Some (b, q)" by (cases p) auto
  from split_once_us_Some [OF p] have s: "s = b @ CHR ''_'' # q" by simp
  show ?thesis
    unfolding market_id_parse_def p
    by (auto simp: strip_suffix_plus_Some make_encoded_def s not_fiat_plus
        split: option.splits prod.splits bool.splits if_splits)
qed

lemma market_id_roundtrip:
  assumes "CHR ''_'' \<notin> set base" "strip_suffix_plus base = None" "strip_suffix_plus quote = None"
  shows "market_id_parse (mid_encoded (market_id_new base quote mt)) = Inr (Some (market_id_new base quote mt))"
proof -
  have us: "CHR ''_'' \<notin> set (base @ ''+'')" using assms(1) by simp
  show ?thesis
    using assms split_once_us_append [OF assms(1)] split_once_us_append [OF us]
    by (auto simp: market_id_new_def market_id_parse_def make_encoded_def not_fiat_plus
        split: MarketType.splits bool.splits)
qed

lemma direction_roundtrip:
  "direction_into_base (direction_into_notional d mt) mt = d"
  "direction_into_notional (direction_into_base n mt) mt = n"
  by (auto simp: direction_into_base_def direction_into_notional_def
      split: MarketType.splits DirectionToBase.splits DirectionToNotional.splits)

lemma leverage_split_inverse:
  "wf_signed l \<Longrightarrow> (case leverage_split l of (d, a) \<Rightarrow> leverage_into_signed a d) = l"
  by (cases l) (auto simp: leverage_split_def leverage_into_signed_def signed_defs wf_signed_def)

context decimal256
begin

lemma leverage_base_num:
  assumes "wf_signed l" "leverage_into_base D l mt = Inr b"
  shows "wf_signed b \<and> num b = (case mt of CollateralIsQuote \<Rightarrow> num l
     | CollateralIsBase \<Rightarrow> int dec_one - num l)"
  using assms by (auto simp: leverage_into_base_def signed_sub_Inr split: MarketType.splits)

lemma leverage_notional_num:
  assumes "wf_signed l" "leverage_into_notional D l mt = Inr b"
  shows "wf_signed b \<and> num b = (case mt of CollateralIsQuote \<Rightarrow> num l
     | CollateralIsBase \<Rightarrow> int dec_one - num l)"
  using assms by (auto simp: leverage_into_notional_def signed_sub_Inr split: MarketType.splits)

lemma leverage_roundtrip_law:
  assumes "wf_signed l" "leverage_into_notional D l mt = Inr n"
  shows "leverage_into_base D n mt = Inr l"
proof (cases mt)
  case CollateralIsQuote
  with assms show ?thesis by (simp add: leverage_into_notional_def leverage_into_base_def)
next
  case CollateralIsBase
  with assms have "wf_signed n" "num n = int dec_one - num l"
    using leverage_notional_num by auto
  moreover have "\<bar>num l\<bar> < int dec_lim" using assms(1) by (simp add: wf_signed_def)
  ultimately show ?thesis
    using assms(1) CollateralIsBase by (simp add: leverage_into_base_def signed_sub_Inr)
qed

end

section \<open>Properties\<close>

text \<open>A market identifier built from assets the text format can represent (no underscore and no
  trailing plus in the base, no trailing plus in the quote) is read back unchanged from its text,
  and the parser never hits its final assertion, whatever text it is given.\<close>

theorem market_id_text_roundtrip:
  "(CHR ''_'' \<notin> set base \<longrightarrow> strip_suffix_plus base = None \<longrightarrow> strip_suffix_plus quote = None \<longrightarrow>
      market_id_parse (mid_encoded (market_id_new base quote mt)) = Inr (Some (market_id_new base quote mt)))
   \<and> (\<exists>r. market_id_parse s = Inr r)"
  using market_id_roundtrip market_id_parse_total by blast

theorem market_id_text_roundtrip_witness:
  "market_id_parse ''ATOM_USD'' = Inr (Some (market_id_new ''ATOM'' ''USD'' CollateralIsBase))"
  using market_id_text_roundtrip [of "''ATOM''" "''USD''" CollateralIsBase "''''"]
  by (simp add: market_id_new_def make_encoded_def is_fiat_def strip_suffix_plus_def)

text \<open>Converting a trader's leverage to the protocol's notional leverage and back is the
  identity in both market types, and in a collateral-is-base market the notional leverage is one
  minus the base leverage.\<close>

theorem leverage_roundtrip:
  assumes "decimal256 D" "wf_signed l" "leverage_into_notional D l mt = Inr n"
  shows "leverage_into_base D n mt = Inr l
    \<and> num n = (case mt of CollateralIsQuote \<Rightarrow> num l | CollateralIsBase \<Rightarrow> int dec_one - num l)"
  using decimal256.leverage_roundtrip_law [OF assms] decimal256.leverage_notional_num [OF assms] by blast

theorem leverage_roundtrip_witness:
  "leverage_into_base dec18 (new_positive (6 * dec_one)) CollateralIsBase
     = Inr (new_negative (5 * dec_one))"
proof -
  have "leverage_into_notional dec18 (new_negative (5 * dec_one)) CollateralIsBase
      = Inr (new_positive (6 * dec_one))"
    by (simp add: leverage_into_notional_def signed_checked_sub_def signed_checked_add_def signed_defs
        number_one_def dec18_eval)
  moreover have "wf_signed (new_negative (5 * dec_one))"
    by (simp add: dec_lim_def dec_one_def)
  ultimately show ?thesis
    using leverage_roundtrip [OF d18.decimal256_axioms] by blast
qed

end
