(* ===== verification/MarketConfig.thy ===== *)
theory MarketConfig
  imports MarketTypes
begin

text \<open>
  The market configuration: \<open>Config\<close>, \<open>Config::new\<close>, \<open>Config::validate\<close>
  and \<open>ConfigUpdate\<close> of \<open>packages/perpswap/src/contracts/market/config.rs\<close> with the
  values of \<open>config/defaults.rs\<close>, the spot price configuration of
  \<open>contracts/market/spot_price.rs\<close>, and \<open>config_init\<close>, \<open>update_config\<close>,
  \<open>convert_spot_price_init\<close> of \<open>contracts/market/src/state/config.rs\<close>.
  The stored item is the returned configuration; the address validation of the chain is the
  parameter \<open>addr_validate\<close>. Seconds and counts are \<open>u32\<close> values, kept as \<open>nat\<close>.
\<close>

section \<open>Spot price configuration\<close>

type_synonym RawAddr = string
type_synonym PriceIdentifier = string
type_synonym addr_api = "string \<Rightarrow> Addr option"

datatype PythPriceServiceNetwork = Stable | Edge

record PythConfig =
  pyth_contract_address :: Addr
  pyth_network :: PythPriceServiceNetwork

record StrideConfig =
  stride_contract_address :: Addr

datatype SpotPriceFeedData =
    Constant NonZero
  | Pyth PriceIdentifier nat
  | Stride string nat
  | Sei string
  | Rujira string
  | Simple Addr nat

record SpotPriceFeed =
  feed_data :: SpotPriceFeedData
  feed_inverted :: bool
  feed_volatile :: "bool option"

datatype SpotPriceConfig =
    Manual (manual_admin: Addr)
  | Oracle (oracle_pyth: "PythConfig option") (oracle_stride: "StrideConfig option")
      (oracle_feeds: "SpotPriceFeed list") (oracle_feeds_usd: "SpotPriceFeed list")
      (oracle_volatile_diff_seconds: "nat option")

record PythConfigInit =
  pyth_init_contract_address :: RawAddr
  pyth_init_network :: PythPriceServiceNetwork

record StrideConfigInit =
  stride_init_contract_address :: RawAddr

datatype SpotPriceFeedDataInit =
    Constant_Init NonZero
  | Pyth_Init PriceIdentifier nat
  | Stride_Init string nat
  | Sei_Init string
  | Rujira_Init string
  | Simple_Init RawAddr nat

record SpotPriceFeedInit =
  feed_init_data :: SpotPriceFeedDataInit
  feed_init_inverted :: bool
  feed_init_volatile :: "bool option"

datatype SpotPriceConfigInit =
    Manual_Init RawAddr
  | Oracle_Init "PythConfigInit option" "StrideConfigInit option"
      "SpotPriceFeedInit list" "SpotPriceFeedInit list" "nat option"

definition addr_validate :: "addr_api \<Rightarrow> RawAddr \<Rightarrow> Addr res" where
  "addr_validate api a = ok_or (api a) (Msg ''Could not parse address'')"

definition convert_feed_data :: "addr_api \<Rightarrow> SpotPriceFeedDataInit \<Rightarrow> SpotPriceFeedData res" where
  "convert_feed_data api d =
     (case d of
        Constant_Init price \<Rightarrow> Inr (Constant price)
      | Pyth_Init i age_tolerance_seconds \<Rightarrow> Inr (Pyth i age_tolerance_seconds)
      | Stride_Init denom age_tolerance_seconds \<Rightarrow> Inr (Stride denom age_tolerance_seconds)
      | Sei_Init denom \<Rightarrow> Inr (Sei denom)
      | Rujira_Init asset \<Rightarrow> Inr (Rujira asset)
      | Simple_Init contract age_tolerance_seconds \<Rightarrow>
          map_res (\<lambda>c. Simple c age_tolerance_seconds) (addr_validate api contract))"

definition map_feeds :: "addr_api \<Rightarrow> SpotPriceFeedInit list \<Rightarrow> SpotPriceFeed list res" where
  "map_feeds api feeds =
     map_ok (\<lambda>feed. map_res (\<lambda>data. \<lparr>feed_data = data,
         feed_inverted = feed_init_inverted feed, feed_volatile = feed_init_volatile feed\<rparr>)
       (convert_feed_data api (feed_init_data feed))) feeds"

definition convert_spot_price_init :: "addr_api \<Rightarrow> SpotPriceConfigInit \<Rightarrow> SpotPriceConfig res" where
  "convert_spot_price_init api spot_price =
     (case spot_price of
        Manual_Init admin \<Rightarrow> map_res Manual (addr_validate api admin)
      | Oracle_Init pyth stride feeds feeds_usd volatile_diff_seconds \<Rightarrow>
          and_then (ensure (feeds \<noteq> []) (Msg ''feeds cannot be empty'')) (\<lambda>_.
          and_then (ensure (feeds_usd \<noteq> []) (Msg ''feeds_usd cannot be empty'')) (\<lambda>_.
          and_then (transpose_res (map_option (\<lambda>p.
              map_res (\<lambda>a. \<lparr>pyth_contract_address = a, pyth_network = pyth_init_network p\<rparr>)
                (addr_validate api (pyth_init_contract_address p))) pyth)) (\<lambda>pyth'.
          and_then (transpose_res (map_option (\<lambda>s.
              map_res (\<lambda>a. \<lparr>stride_contract_address = a\<rparr>)
                (addr_validate api (stride_init_contract_address s))) stride)) (\<lambda>stride'.
          and_then (map_feeds api feeds) (\<lambda>feeds'.
          and_then (map_feeds api feeds_usd) (\<lambda>feeds_usd'.
          Inr (Oracle pyth' stride' feeds' feeds_usd' volatile_diff_seconds))))))))"

text \<open>The conversions \<open>From\<close> the stored data back to the message data.\<close>

definition feed_data_init :: "SpotPriceFeedData \<Rightarrow> SpotPriceFeedDataInit" where
  "feed_data_init d =
     (case d of
        Constant price \<Rightarrow> Constant_Init price
      | Pyth i age_tolerance_seconds \<Rightarrow> Pyth_Init i age_tolerance_seconds
      | Stride denom age_tolerance_seconds \<Rightarrow> Stride_Init denom age_tolerance_seconds
      | Sei denom \<Rightarrow> Sei_Init denom
      | Rujira asset \<Rightarrow> Rujira_Init asset
      | Simple contract age_tolerance_seconds \<Rightarrow> Simple_Init contract age_tolerance_seconds)"

definition feed_init :: "SpotPriceFeed \<Rightarrow> SpotPriceFeedInit" where
  "feed_init f = \<lparr>feed_init_data = feed_data_init (feed_data f),
     feed_init_inverted = feed_inverted f, feed_init_volatile = feed_volatile f\<rparr>"

definition spot_price_init :: "SpotPriceConfig \<Rightarrow> SpotPriceConfigInit" where
  "spot_price_init c =
     (case c of
        Manual admin \<Rightarrow> Manual_Init admin
      | Oracle pyth stride feeds feeds_usd volatile_diff_seconds \<Rightarrow>
          Oracle_Init
            (map_option (\<lambda>p. \<lparr>pyth_init_contract_address = pyth_contract_address p,
               pyth_init_network = pyth_network p\<rparr>) pyth)
            (map_option (\<lambda>s. \<lparr>stride_init_contract_address = stride_contract_address s\<rparr>) stride)
            (map feed_init feeds) (map feed_init feeds_usd) volatile_diff_seconds)"

section \<open>The configuration\<close>

datatype MaxLiquidity = Unlimited | MaxLiquidity_Usd NonZero

record Config =
  cfg_trading_fee_notional_size :: Decimal256
  cfg_trading_fee_counter_collateral :: Decimal256
  cfg_crank_execs :: nat
  cfg_max_leverage :: Number
  cfg_funding_rate_sensitivity :: Decimal256
  cfg_funding_rate_max_annualized :: Decimal256
  cfg_borrow_fee_rate_min_annualized :: NonZero
  cfg_borrow_fee_rate_max_annualized :: NonZero
  cfg_carry_leverage :: Decimal256
  cfg_mute_events :: bool
  cfg_liquifunding_delay_seconds :: nat
  cfg_protocol_tax :: Decimal256
  cfg_unstake_period_seconds :: nat
  cfg_target_utilization :: NonZero
  cfg_borrow_fee_sensitivity :: NonZero
  cfg_max_xlp_rewards_multiplier :: NonZero
  cfg_min_xlp_rewards_multiplier :: NonZero
  cfg_delta_neutrality_fee_sensitivity :: NonZero
  cfg_delta_neutrality_fee_cap :: NonZero
  cfg_delta_neutrality_fee_tax :: Decimal256
  cfg_crank_fee_charged :: Usd
  cfg_crank_fee_surcharge :: Usd
  cfg_crank_fee_reward :: Usd
  cfg_minimum_deposit_usd :: Usd
  cfg_liquifunding_delay_fuzz_seconds :: nat
  cfg_max_liquidity :: MaxLiquidity
  cfg_disable_position_nft_exec :: bool
  cfg_liquidity_cooldown_seconds :: nat
  cfg_exposure_margin_ratio :: Decimal256
  cfg_referral_reward_ratio :: Decimal256
  cfg_spot_price :: SpotPriceConfig
  cfg_unused1 :: "nat option"
  cfg_unused2 :: "nat option"
  cfg_unused3 :: "Collateral option"
  cfg_unused4 :: "nat option"

record ConfigUpdate =
  upd_trading_fee_notional_size :: "Decimal256 option"
  upd_trading_fee_counter_collateral :: "Decimal256 option"
  upd_crank_execs :: "nat option"
  upd_max_leverage :: "Number option"
  upd_funding_rate_sensitivity :: "Decimal256 option"
  upd_funding_rate_max_annualized :: "Decimal256 option"
  upd_borrow_fee_rate_min_annualized :: "NonZero option"
  upd_borrow_fee_rate_max_annualized :: "NonZero option"
  upd_carry_leverage :: "Decimal256 option"
  upd_mute_events :: "bool option"
  upd_liquifunding_delay_seconds :: "nat option"
  upd_protocol_tax :: "Decimal256 option"
  upd_unstake_period_seconds :: "nat option"
  upd_target_utilization :: "NonZero option"
  upd_borrow_fee_sensitivity :: "NonZero option"
  upd_max_xlp_rewards_multiplier :: "NonZero option"
  upd_min_xlp_rewards_multiplier :: "NonZero option"
  upd_delta_neutrality_fee_sensitivity :: "NonZero option"
  upd_delta_neutrality_fee_cap :: "NonZero option"
  upd_delta_neutrality_fee_tax :: "Decimal256 option"
  upd_crank_fee_charged :: "Usd option"
  upd_crank_fee_surcharge :: "Usd option"
  upd_crank_fee_reward :: "Usd option"
  upd_minimum_deposit_usd :: "Usd option"
  upd_liquifunding_delay_fuzz_seconds :: "nat option"
  upd_max_liquidity :: "MaxLiquidity option"
  upd_disable_position_nft_exec :: "bool option"
  upd_liquidity_cooldown_seconds :: "nat option"
  upd_exposure_margin_ratio :: "Decimal256 option"
  upd_referral_reward_ratio :: "Decimal256 option"
  upd_spot_price :: "SpotPriceConfigInit option"

definition config_update_default :: ConfigUpdate where
  "config_update_default = \<lparr>upd_trading_fee_notional_size = None,
     upd_trading_fee_counter_collateral = None,
     upd_crank_execs = None,
     upd_max_leverage = None,
     upd_funding_rate_sensitivity = None,
     upd_funding_rate_max_annualized = None,
     upd_borrow_fee_rate_min_annualized = None,
     upd_borrow_fee_rate_max_annualized = None,
     upd_carry_leverage = None,
     upd_mute_events = None,
     upd_liquifunding_delay_seconds = None,
     upd_protocol_tax = None,
     upd_unstake_period_seconds = None,
     upd_target_utilization = None,
     upd_borrow_fee_sensitivity = None,
     upd_max_xlp_rewards_multiplier = None,
     upd_min_xlp_rewards_multiplier = None,
     upd_delta_neutrality_fee_sensitivity = None,
     upd_delta_neutrality_fee_cap = None,
     upd_delta_neutrality_fee_tax = None,
     upd_crank_fee_charged = None,
     upd_crank_fee_surcharge = None,
     upd_crank_fee_reward = None,
     upd_minimum_deposit_usd = None,
     upd_liquifunding_delay_fuzz_seconds = None,
     upd_max_liquidity = None,
     upd_disable_position_nft_exec = None,
     upd_liquidity_cooldown_seconds = None,
     upd_exposure_margin_ratio = None,
     upd_referral_reward_ratio = None,
     upd_spot_price = None\<rparr>"

text \<open>\<open>ConfigDefaults::borrow_fee_sensitivity\<close> is computed, with \<open>unwrap\<close>.\<close>

definition default_borrow_fee_sensitivity :: "dec256_api \<Rightarrow> NonZero res" where
  "default_borrow_fee_sensitivity D =
     and_then (ok_or (ok (number_checked_div D number_one (new_positive (12 * dec_one)))) (Panic ''unwrap'')) (\<lambda>q.
     ok_or (ok (nz_try_from q)) (Panic ''unwrap''))"

definition config_new :: "dec256_api \<Rightarrow> SpotPriceConfig \<Rightarrow> Config res" where
  "config_new D spot_price =
     map_res (\<lambda>borrow_fee_sensitivity. \<lparr>
     cfg_trading_fee_notional_size = 1000000000000000,
     cfg_trading_fee_counter_collateral = 1000000000000000,
     cfg_crank_execs = 7,
     cfg_max_leverage = new_positive (30 * dec_one),
     cfg_funding_rate_sensitivity = 10 * dec_one,
     cfg_funding_rate_max_annualized = 900000000000000000,
     cfg_borrow_fee_rate_min_annualized = 10000000000000000,
     cfg_borrow_fee_rate_max_annualized = 600000000000000000,
     cfg_carry_leverage = 10 * dec_one,
     cfg_mute_events = False,
     cfg_liquifunding_delay_seconds = 60 * 60 * 24,
     cfg_protocol_tax = 300000000000000000,
     cfg_unstake_period_seconds = 60 * 60 * 24 * 45,
     cfg_target_utilization = 800000000000000000,
     cfg_borrow_fee_sensitivity = borrow_fee_sensitivity,
     cfg_max_xlp_rewards_multiplier = 2 * dec_one,
     cfg_min_xlp_rewards_multiplier = dec_one,
     cfg_delta_neutrality_fee_sensitivity = 50000000 * dec_one,
     cfg_delta_neutrality_fee_cap = 5000000000000000,
     cfg_delta_neutrality_fee_tax = 50000000000000000,
     cfg_crank_fee_charged = 100000000000000000,
     cfg_crank_fee_surcharge = 80000000000000000,
     cfg_crank_fee_reward = 90000000000000000,
     cfg_minimum_deposit_usd = 5 * dec_one,
     cfg_liquifunding_delay_fuzz_seconds = 60 * 60,
     cfg_max_liquidity = Unlimited,
     cfg_disable_position_nft_exec = False,
     cfg_liquidity_cooldown_seconds = 60 * 60,
     cfg_exposure_margin_ratio = 5000000000000000,
     cfg_referral_reward_ratio = 50000000000000000,
     cfg_spot_price = spot_price,
     cfg_unused1 = None, cfg_unused2 = None, cfg_unused3 = None, cfg_unused4 = None\<rparr>)
     (default_borrow_fee_sensitivity D)"

definition config_validate :: "dec256_api \<Rightarrow> Config \<Rightarrow> unit res" where
  "config_validate D c =
     (let err = Perp ConfigError in
     if cfg_trading_fee_notional_size c \<ge> 99900000000000000 then Inl err else
     if cfg_trading_fee_counter_collateral c \<ge> 99900000000000000 then Inl err else
     if cfg_crank_execs c = 0 then Inl err else
     if cfg_max_leverage c \<le> number_one then Inl err else
     if cfg_carry_leverage c \<le> dec_one then Inl err else
     and_then (signed_checked_add D (new_positive (cfg_carry_leverage c)) number_one) (\<lambda>carry1.
     if carry1 > cfg_max_leverage c then Inl err else
     if cfg_borrow_fee_rate_max_annualized c < cfg_borrow_fee_rate_min_annualized c then Inl err else
     if cfg_protocol_tax c \<ge> dec_one then Inl err else
     if cfg_unstake_period_seconds c = 0 then Inl err else
     if new_positive (cfg_target_utilization c) \<ge> number_one then Inl err else
     if new_positive (cfg_min_xlp_rewards_multiplier c) < number_one then Inl err else
     if cfg_max_xlp_rewards_multiplier c < cfg_min_xlp_rewards_multiplier c then Inl err else
     if cfg_crank_fee_charged c < cfg_crank_fee_reward c then Inl err else
     if cfg_delta_neutrality_fee_tax c > dec_one then Inl err else
     if cfg_liquifunding_delay_fuzz_seconds c \<ge> cfg_liquifunding_delay_seconds c then Inl err else
     if cfg_exposure_margin_ratio c \<ge> dec_one then Inl err else
     if cfg_referral_reward_ratio c \<ge> dec_one then Inl err else
     Inr ()))"

text \<open>\<open>if let Some(x) = field\<close> keeps the old value when the update has none.\<close>

definition or_old :: "'a option \<Rightarrow> 'a \<Rightarrow> 'a" where
  "or_old u old = (case u of Some x \<Rightarrow> x | None \<Rightarrow> old)"

definition assign_fields :: "Config \<Rightarrow> ConfigUpdate \<Rightarrow> SpotPriceConfig \<Rightarrow> Config" where
  "assign_fields c u spot_price = c\<lparr>
       cfg_trading_fee_notional_size := or_old (upd_trading_fee_notional_size u) (cfg_trading_fee_notional_size c),
       cfg_trading_fee_counter_collateral := or_old (upd_trading_fee_counter_collateral u) (cfg_trading_fee_counter_collateral c),
       cfg_crank_execs := or_old (upd_crank_execs u) (cfg_crank_execs c),
       cfg_max_leverage := or_old (upd_max_leverage u) (cfg_max_leverage c),
       cfg_carry_leverage := or_old (upd_carry_leverage u) (cfg_carry_leverage c),
       cfg_funding_rate_max_annualized := or_old (upd_funding_rate_max_annualized u) (cfg_funding_rate_max_annualized c),
       cfg_funding_rate_sensitivity := or_old (upd_funding_rate_sensitivity u) (cfg_funding_rate_sensitivity c),
       cfg_mute_events := or_old (upd_mute_events u) (cfg_mute_events c),
       cfg_liquifunding_delay_seconds := or_old (upd_liquifunding_delay_seconds u) (cfg_liquifunding_delay_seconds c),
       cfg_protocol_tax := or_old (upd_protocol_tax u) (cfg_protocol_tax c),
       cfg_unstake_period_seconds := or_old (upd_unstake_period_seconds u) (cfg_unstake_period_seconds c),
       cfg_target_utilization := or_old (upd_target_utilization u) (cfg_target_utilization c),
       cfg_borrow_fee_sensitivity := or_old (upd_borrow_fee_sensitivity u) (cfg_borrow_fee_sensitivity c),
       cfg_borrow_fee_rate_min_annualized := or_old (upd_borrow_fee_rate_min_annualized u) (cfg_borrow_fee_rate_min_annualized c),
       cfg_borrow_fee_rate_max_annualized := or_old (upd_borrow_fee_rate_max_annualized u) (cfg_borrow_fee_rate_max_annualized c),
       cfg_max_xlp_rewards_multiplier := or_old (upd_max_xlp_rewards_multiplier u) (cfg_max_xlp_rewards_multiplier c),
       cfg_min_xlp_rewards_multiplier := or_old (upd_min_xlp_rewards_multiplier u) (cfg_min_xlp_rewards_multiplier c),
       cfg_delta_neutrality_fee_sensitivity := or_old (upd_delta_neutrality_fee_sensitivity u) (cfg_delta_neutrality_fee_sensitivity c),
       cfg_delta_neutrality_fee_cap := or_old (upd_delta_neutrality_fee_cap u) (cfg_delta_neutrality_fee_cap c),
       cfg_delta_neutrality_fee_tax := or_old (upd_delta_neutrality_fee_tax u) (cfg_delta_neutrality_fee_tax c),
       cfg_crank_fee_charged := or_old (upd_crank_fee_charged u) (cfg_crank_fee_charged c),
       cfg_crank_fee_surcharge := or_old (upd_crank_fee_surcharge u) (cfg_crank_fee_surcharge c),
       cfg_crank_fee_reward := or_old (upd_crank_fee_reward u) (cfg_crank_fee_reward c),
       cfg_minimum_deposit_usd := or_old (upd_minimum_deposit_usd u) (cfg_minimum_deposit_usd c),
       cfg_liquifunding_delay_fuzz_seconds := or_old (upd_liquifunding_delay_fuzz_seconds u) (cfg_liquifunding_delay_fuzz_seconds c),
       cfg_max_liquidity := or_old (upd_max_liquidity u) (cfg_max_liquidity c),
       cfg_disable_position_nft_exec := or_old (upd_disable_position_nft_exec u) (cfg_disable_position_nft_exec c),
       cfg_liquidity_cooldown_seconds := or_old (upd_liquidity_cooldown_seconds u) (cfg_liquidity_cooldown_seconds c),
       cfg_exposure_margin_ratio := or_old (upd_exposure_margin_ratio u) (cfg_exposure_margin_ratio c),
       cfg_referral_reward_ratio := or_old (upd_referral_reward_ratio u) (cfg_referral_reward_ratio c),
       cfg_spot_price := spot_price\<rparr>"

definition update_config :: "dec256_api \<Rightarrow> addr_api \<Rightarrow> Config \<Rightarrow> ConfigUpdate \<Rightarrow> Config res" where
  "update_config D api c u =
     and_then (case upd_spot_price u of
                 Some x \<Rightarrow> convert_spot_price_init api x
               | None \<Rightarrow> Inr (cfg_spot_price c)) (\<lambda>spot_price.
     and_then (config_validate D (assign_fields c u spot_price)) (\<lambda>_.
     Inr (assign_fields c u spot_price)))"

definition config_init ::
    "dec256_api \<Rightarrow> addr_api \<Rightarrow> ConfigUpdate option \<Rightarrow> SpotPriceConfigInit \<Rightarrow> Config res" where
  "config_init D api config spot_price =
     and_then (convert_spot_price_init api spot_price) (\<lambda>spot.
     and_then (config_new D spot) (\<lambda>init_config.
     update_config D api init_config (or_old config config_update_default)))"

text \<open>\<open>From<Config> for ConfigUpdate\<close>.\<close>

definition config_to_update :: "Config \<Rightarrow> ConfigUpdate" where
  "config_to_update src = \<lparr>
     upd_trading_fee_notional_size = Some (cfg_trading_fee_notional_size src),
     upd_trading_fee_counter_collateral = Some (cfg_trading_fee_counter_collateral src),
     upd_crank_execs = Some (cfg_crank_execs src),
     upd_max_leverage = Some (cfg_max_leverage src),
     upd_funding_rate_sensitivity = Some (cfg_funding_rate_sensitivity src),
     upd_funding_rate_max_annualized = Some (cfg_funding_rate_max_annualized src),
     upd_borrow_fee_rate_min_annualized = Some (cfg_borrow_fee_rate_min_annualized src),
     upd_borrow_fee_rate_max_annualized = Some (cfg_borrow_fee_rate_max_annualized src),
     upd_carry_leverage = Some (cfg_carry_leverage src),
     upd_mute_events = Some (cfg_mute_events src),
     upd_liquifunding_delay_seconds = Some (cfg_liquifunding_delay_seconds src),
     upd_protocol_tax = Some (cfg_protocol_tax src),
     upd_unstake_period_seconds = Some (cfg_unstake_period_seconds src),
     upd_target_utilization = Some (cfg_target_utilization src),
     upd_borrow_fee_sensitivity = Some (cfg_borrow_fee_sensitivity src),
     upd_max_xlp_rewards_multiplier = Some (cfg_max_xlp_rewards_multiplier src),
     upd_min_xlp_rewards_multiplier = Some (cfg_min_xlp_rewards_multiplier src),
     upd_delta_neutrality_fee_sensitivity = Some (cfg_delta_neutrality_fee_sensitivity src),
     upd_delta_neutrality_fee_cap = Some (cfg_delta_neutrality_fee_cap src),
     upd_delta_neutrality_fee_tax = Some (cfg_delta_neutrality_fee_tax src),
     upd_crank_fee_charged = Some (cfg_crank_fee_charged src),
     upd_crank_fee_surcharge = Some (cfg_crank_fee_surcharge src),
     upd_crank_fee_reward = Some (cfg_crank_fee_reward src),
     upd_minimum_deposit_usd = Some (cfg_minimum_deposit_usd src),
     upd_liquifunding_delay_fuzz_seconds = Some (cfg_liquifunding_delay_fuzz_seconds src),
     upd_max_liquidity = Some (cfg_max_liquidity src),
     upd_disable_position_nft_exec = Some (cfg_disable_position_nft_exec src),
     upd_liquidity_cooldown_seconds = Some (cfg_liquidity_cooldown_seconds src),
     upd_exposure_margin_ratio = Some (cfg_exposure_margin_ratio src),
     upd_referral_reward_ratio = Some (cfg_referral_reward_ratio src),
     upd_spot_price = Some (spot_price_init (cfg_spot_price src))\<rparr>"

section \<open>What a valid configuration guarantees\<close>

text \<open>\<open>wf_config\<close> collects what the field types say; \<open>valid_config\<close> reads the
  checks of \<open>validate\<close> as plain inequalities between numbers of atomics.\<close>

definition wf_config :: "Config \<Rightarrow> bool" where
  "wf_config c \<longleftrightarrow> wf_signed (cfg_max_leverage c) \<and> cfg_carry_leverage c < dec_lim
     \<and> 0 < cfg_borrow_fee_rate_min_annualized c \<and> cfg_target_utilization c < dec_lim
     \<and> cfg_min_xlp_rewards_multiplier c < dec_lim"

definition valid_config :: "Config \<Rightarrow> bool" where
  "valid_config c \<longleftrightarrow>
     cfg_trading_fee_notional_size c < 99900000000000000
   \<and> cfg_trading_fee_counter_collateral c < 99900000000000000
   \<and> 0 < cfg_crank_execs c
   \<and> dec_one < cfg_carry_leverage c
   \<and> int (cfg_carry_leverage c + dec_one) \<le> num (cfg_max_leverage c)
   \<and> cfg_borrow_fee_rate_min_annualized c \<le> cfg_borrow_fee_rate_max_annualized c
   \<and> cfg_protocol_tax c < dec_one
   \<and> 0 < cfg_unstake_period_seconds c
   \<and> cfg_target_utilization c < dec_one
   \<and> dec_one \<le> cfg_min_xlp_rewards_multiplier c
   \<and> cfg_min_xlp_rewards_multiplier c \<le> cfg_max_xlp_rewards_multiplier c
   \<and> cfg_crank_fee_reward c \<le> cfg_crank_fee_charged c
   \<and> cfg_delta_neutrality_fee_tax c \<le> dec_one
   \<and> cfg_liquifunding_delay_fuzz_seconds c < cfg_liquifunding_delay_seconds c
   \<and> cfg_exposure_margin_ratio c < dec_one
   \<and> cfg_referral_reward_ratio c < dec_one"

lemma or_old_simps [simp]: "or_old None x = x" "or_old (Some y) x = y"
  by (simp_all add: or_old_def)

context decimal256
begin

lemma config_validate_iff:
  assumes "wf_config c"
  shows "(config_validate D c = Inr ()) = (valid_config c)"
proof -
  have cl: "cfg_carry_leverage c < dec_lim" and wfm: "wf_signed (cfg_max_leverage c)"
    using assms by (auto simp: wf_config_def)
  have tu: "(number_one \<le> new_positive (cfg_target_utilization c)) = (dec_one \<le> cfg_target_utilization c)"
    using assms by (simp add: le_num wf_config_def)
  have mn: "(new_positive (cfg_min_xlp_rewards_multiplier c) < number_one)
      = (cfg_min_xlp_rewards_multiplier c < dec_one)"
    using assms by (simp add: less_num wf_config_def)
  have ml: "(cfg_max_leverage c \<le> number_one) = (num (cfg_max_leverage c) \<le> int dec_one)"
    using assms by (simp add: le_num wf_config_def)
  have bound: "num (cfg_max_leverage c) < int dec_lim"
    using wfm by (auto simp: wf_signed_def num_def)
  have carry: "(\<exists>s. signed_checked_add D (new_positive (cfg_carry_leverage c)) number_one = Inr s
        \<and> \<not> cfg_max_leverage c < s)
      = (int (cfg_carry_leverage c + dec_one) \<le> num (cfg_max_leverage c))"
    using cl wfm bound
    by (auto simp: signed_add_Inr less_num intro!: exI [of _ "new_positive (cfg_carry_leverage c + dec_one)"])
  show ?thesis
    unfolding config_validate_def valid_config_def Let_def tu mn ml
    using carry by (auto simp: not_le not_less split: if_splits)
qed

lemma update_config_law:
  assumes "update_config D api c u = Inr c'" "wf_config c'"
  shows "valid_config c'"
proof -
  have "config_validate D c' = Inr ()"
    using assms(1) by (auto simp: update_config_def)
  then show ?thesis using config_validate_iff [OF assms(2)] by simp
qed

end

text \<open>The addresses a price configuration names.\<close>

definition feed_addrs :: "SpotPriceFeed \<Rightarrow> Addr set" where
  "feed_addrs f = (case feed_data f of Simple contract _ \<Rightarrow> {contract} | _ \<Rightarrow> {})"

definition spot_price_addrs :: "SpotPriceConfig \<Rightarrow> Addr set" where
  "spot_price_addrs c = (case c of
       Manual admin \<Rightarrow> {admin}
     | Oracle pyth stride feeds feeds_usd _ \<Rightarrow>
         pyth_contract_address ` set_option pyth \<union> stride_contract_address ` set_option stride
         \<union> (\<Union>f \<in> set feeds \<union> set feeds_usd. feed_addrs f))"

lemma convert_feed_data_inverse:
  assumes "\<And>a. a \<in> feed_addrs f \<Longrightarrow> api a = Some a"
  shows "convert_feed_data api (feed_data_init (feed_data f)) = Inr (feed_data f)"
  using assms by (cases "feed_data f") (auto simp: convert_feed_data_def feed_data_init_def addr_validate_def feed_addrs_def)

lemma map_feeds_inverse:
  assumes "\<And>a f. f \<in> set fs \<Longrightarrow> a \<in> feed_addrs f \<Longrightarrow> api a = Some a"
  shows "map_feeds api (map feed_init fs) = Inr fs"
  unfolding map_feeds_def
  by (rule map_ok_inverse) (simp add: feed_init_def convert_feed_data_inverse [OF assms])

definition has_feeds :: "SpotPriceConfig \<Rightarrow> bool" where
  "has_feeds c = (case c of Manual _ \<Rightarrow> True | Oracle _ _ feeds feeds_usd _ \<Rightarrow> feeds \<noteq> [] \<and> feeds_usd \<noteq> [])"

lemma convert_spot_price_inverse:
  assumes "\<And>a. a \<in> spot_price_addrs c \<Longrightarrow> api a = Some a" "has_feeds c"
  shows "convert_spot_price_init api (spot_price_init c) = Inr c"
proof (cases c)
  case (Manual a)
  with assms show ?thesis
    by (simp add: convert_spot_price_init_def spot_price_init_def addr_validate_def spot_price_addrs_def)
next
  case (Oracle p s f fu v)
  have "map_feeds api (map feed_init f) = Inr f" "map_feeds api (map feed_init fu) = Inr fu"
    using assms(1) by (intro map_feeds_inverse; auto simp: Oracle spot_price_addrs_def)+
  with assms Oracle show ?thesis
    by (cases p; cases s)
       (auto simp: convert_spot_price_init_def spot_price_init_def addr_validate_def has_feeds_def spot_price_addrs_def)
qed

lemma convert_spot_price_has_feeds:
  "convert_spot_price_init api i = Inr c \<Longrightarrow> has_feeds c"
  by (auto simp: convert_spot_price_init_def has_feeds_def map_feeds_def map_ok_Inr_iff
      split: SpotPriceConfigInit.splits SpotPriceConfig.splits)

text \<open>C23: Whatever update an administrator sends, a configuration is only stored when it meets
  every bound of validate: in particular the protocol tax, the referral ratio, the exposure margin
  ratio and the target utilization stay below one, the carry leverage is at least one below the
  maximum leverage, the borrow fee bounds are ordered and the crank fee covers the reward.\<close>

theorem update_config_stores_valid:
  assumes "decimal256 D" "update_config D api c u = Inr c'" "wf_config c'"
  shows "valid_config c'"
  using decimal256.update_config_law [OF assms] .

definition with_unused_of :: "Config \<Rightarrow> Config \<Rightarrow> Config" where
  "with_unused_of c c0 = c\<lparr>cfg_unused1 := cfg_unused1 c0, cfg_unused2 := cfg_unused2 c0,
     cfg_unused3 := cfg_unused3 c0, cfg_unused4 := cfg_unused4 c0\<rparr>"

lemma valid_with_unused: "valid_config (with_unused_of c c0) = valid_config c"
  by (simp add: valid_config_def with_unused_of_def)

lemma wf_with_unused: "wf_config (with_unused_of c c0) = wf_config c"
  by (simp add: wf_config_def with_unused_of_def)

lemma assign_fields_to_update:
  "assign_fields c0 (config_to_update c) (cfg_spot_price c) = with_unused_of c c0"
  by (rule Config.equality) (simp_all add: assign_fields_def config_to_update_def with_unused_of_def)

lemma assign_fields_default: "assign_fields c config_update_default (cfg_spot_price c) = c"
  by (rule Config.equality) (simp_all add: assign_fields_def config_update_default_def)

lemma update_config_all_fields:
  assumes "convert_spot_price_init api (spot_price_init (cfg_spot_price c)) = Inr (cfg_spot_price c)"
  shows "update_config D api c0 (config_to_update c)
    = and_then (config_validate D (with_unused_of c c0)) (\<lambda>_. Inr (with_unused_of c c0))"
proof -
  have "upd_spot_price (config_to_update c) = Some (spot_price_init (cfg_spot_price c))"
    by (simp add: config_to_update_def)
  then show ?thesis
    using assms by (simp add: update_config_def assign_fields_to_update)
qed

text \<open>C26: Turning a stored configuration into an update message and applying it to any other
  configuration restores the original in every active field, when the original is valid, its
  lists of price feeds are not empty and the chain accepts the addresses it names (the administrator of
  manual prices, or the oracle contracts and the contracts of simple feeds).\<close>

theorem config_update_roundtrip:
  assumes "decimal256 D" "wf_config c" "valid_config c"
    "\<And>a. a \<in> spot_price_addrs (cfg_spot_price c) \<Longrightarrow> api a = Some a" "has_feeds (cfg_spot_price c)"
  shows "update_config D api c0 (config_to_update c) = Inr (with_unused_of c c0)"
proof -
  have "config_validate D (with_unused_of c c0) = Inr ()"
    using decimal256.config_validate_iff [OF assms(1)] assms(2,3)
    by (simp add: valid_with_unused wf_with_unused)
  then show ?thesis
    by (simp add: update_config_all_fields [OF convert_spot_price_inverse [OF assms(4,5)]])
qed

definition default_config :: "SpotPriceConfig \<Rightarrow> Config" where
  "default_config sp = projr (config_new dec18 sp)"

lemma default_bfs_dec18: "default_borrow_fee_sensitivity dec18 = Inr 83333333333333333"
  by (simp add: default_borrow_fee_sensitivity_def number_checked_div_def nz_try_from_def
      signed_defs number_one_def dec18_eval)

context decimal256
begin

lemma default_bfs: "default_borrow_fee_sensitivity D = Inr 83333333333333333"
proof -
  have "number_checked_div D number_one (new_positive (12 * dec_one)) = Inr (new_positive 83333333333333333)"
    by (simp add: signed_div_Inr number_one_def num_def dec_one_def dec_lim_def new_positive_def wf_signed_def)
  then show ?thesis
    by (simp add: default_borrow_fee_sensitivity_def nz_try_from_def signed_defs)
qed

lemma config_new_default: "config_new D sp = Inr (default_config sp)"
  by (simp add: default_config_def config_new_def default_bfs default_bfs_dec18)

end

lemma spot_of_default: "cfg_spot_price (default_config sp) = sp"
  by (simp add: default_config_def config_new_def default_bfs_dec18)

lemma wf_default_config: "wf_config (default_config sp)"
  by (simp add: default_config_def config_new_def default_bfs_dec18 wf_config_def dec_lim_def dec_one_def)

lemma valid_default_config: "valid_config (default_config sp)"
  by (simp add: default_config_def config_new_def default_bfs_dec18 valid_config_def dec_one_def)

lemma update_config_default:
  "update_config D api c config_update_default = and_then (config_validate D c) (\<lambda>_. Inr c)"
proof -
  have "upd_spot_price config_update_default = None" by (simp add: config_update_default_def)
  then show ?thesis by (simp add: update_config_def assign_fields_default)
qed

text \<open>A market can always be instantiated with the default configuration: with no update the
  defaults pass every check, so the first stored configuration is the default one.\<close>

theorem config_init_defaults:
  assumes "decimal256 D" "convert_spot_price_init api i = Inr sp"
  shows "\<exists>c. config_init D api None i = Inr c \<and> valid_config c \<and> config_new D sp = Inr c"
proof -
  have "config_validate D (default_config sp) = Inr ()"
    using decimal256.config_validate_iff [OF assms(1) wf_default_config] valid_default_config by simp
  then show ?thesis
    using assms(2) decimal256.config_new_default [OF assms(1)] valid_default_config
    by (simp add: config_init_def update_config_default)
qed

section \<open>Witnesses\<close>

definition sample_spot :: SpotPriceConfig where
  "sample_spot = Manual ''admin''"

definition sample_config :: Config where
  "sample_config = default_config sample_spot"

definition sample_update :: ConfigUpdate where
  "sample_update = config_update_default\<lparr>upd_protocol_tax := Some 250000000000000000\<rparr>"

lemma sample_tax:
  "wf_config (sample_config\<lparr>cfg_protocol_tax := 250000000000000000\<rparr>)"
  "valid_config (sample_config\<lparr>cfg_protocol_tax := 250000000000000000\<rparr>)"
proof -
  have "wf_config (c\<lparr>cfg_protocol_tax := t\<rparr>) = wf_config c" for c t
    by (simp add: wf_config_def)
  then show "wf_config (sample_config\<lparr>cfg_protocol_tax := 250000000000000000\<rparr>)"
    by (simp add: sample_config_def wf_default_config)
  have "valid_config c \<Longrightarrow> t < dec_one \<Longrightarrow> valid_config (c\<lparr>cfg_protocol_tax := t\<rparr>)" for c t
    by (simp add: valid_config_def)
  then show "valid_config (sample_config\<lparr>cfg_protocol_tax := 250000000000000000\<rparr>)"
    by (simp add: sample_config_def valid_default_config dec_one_def)
qed

lemma sample_config_stored: "update_config dec18 Some sample_config sample_update
    = Inr (sample_config\<lparr>cfg_protocol_tax := 250000000000000000\<rparr>)"
proof -
  have "assign_fields sample_config sample_update (cfg_spot_price sample_config)
      = sample_config\<lparr>cfg_protocol_tax := 250000000000000000\<rparr>"
    by (rule Config.equality)
      (simp_all add: assign_fields_def sample_update_def config_update_default_def)
  moreover have "upd_spot_price sample_update = None"
    by (simp add: sample_update_def config_update_default_def)
  ultimately show ?thesis
    using d18.config_validate_iff [OF sample_tax(1)] sample_tax(2) by (simp add: update_config_def)
qed

theorem update_config_stores_valid_witness:
  "valid_config (sample_config\<lparr>cfg_protocol_tax := 250000000000000000\<rparr>)"
  by (rule update_config_stores_valid [OF d18.decimal256_axioms sample_config_stored sample_tax(1)])

theorem config_update_roundtrip_witness:
  "update_config dec18 (\<lambda>a. if a = ''admin'' then Some a else None) (sample_config\<lparr>cfg_crank_execs := 12\<rparr>)
      (config_to_update sample_config)
    = Inr (with_unused_of sample_config (sample_config\<lparr>cfg_crank_execs := 12\<rparr>))"
  by (rule config_update_roundtrip [OF d18.decimal256_axioms])
    (simp_all add: sample_config_def wf_default_config valid_default_config spot_of_default
      has_feeds_def sample_spot_def spot_price_addrs_def)

theorem config_init_defaults_witness:
  "\<exists>c. config_init dec18 Some None (Manual_Init ''admin'') = Inr c \<and> valid_config c
     \<and> config_new dec18 sample_spot = Inr c"
  by (rule config_init_defaults [OF d18.decimal256_axioms])
    (simp add: convert_spot_price_init_def addr_validate_def sample_spot_def)

end
