(* ===== verification/Prices.thy ===== *)
theory Prices
  imports MarketTypes
begin

text \<open>
  Timestamps and durations (\<open>packages/perpswap/src/time.rs\<close>), prices and price points
  (\<open>price.rs\<close>), the leverage of an amount of collateral (\<open>leverage.rs\<close>) and the
  counter collateral that backs a maximum gain (\<open>max_gains.rs\<close>). A price is a non-zero
  decimal; the three price newtypes are synonyms. The conversions use the panicking operators of
  \<open>Decimal256\<close>, so each of them is a result whose error is a panic.
\<close>

section \<open>Time\<close>

definition ts_checked_sub :: "Timestamp \<Rightarrow> Timestamp \<Rightarrow> Duration res" where
  "ts_checked_sub a b = (if b \<le> a then Inr (a - b) else Inl (Perp TimestampSubtractUnderflow))"

definition duration_from_seconds :: "u64 \<Rightarrow> Duration res" where
  "duration_from_seconds s = u64_mul s 1000000000"

definition ts_add :: "Timestamp \<Rightarrow> Duration \<Rightarrow> Timestamp res" where
  "ts_add t d = u64_add t d"

definition ts_plus_seconds :: "Timestamp \<Rightarrow> u64 \<Rightarrow> Timestamp res" where
  "ts_plus_seconds t s = and_then (duration_from_seconds s) (\<lambda>d. ts_add t d)"

definition as_ms_decimal_lossy :: "dec256_api \<Rightarrow> Duration \<Rightarrow> Decimal256 res" where
  "as_ms_decimal_lossy D d =
     ok_or (ok (d_from_atomics D d 6))
       (Panic ''as_ms_decimal_lossy failed, but range will not allow that to happen'')"

definition as_ms_number_lossy :: "dec256_api \<Rightarrow> Duration \<Rightarrow> Number res" where
  "as_ms_number_lossy D d = number_from_u128 D (d div 1000000)"

lemma ts_checked_sub_Inr [simp]: "(ts_checked_sub a b = Inr d) = (b \<le> a \<and> d = a - b)"
  by (auto simp: ts_checked_sub_def)

lemma ts_plus_seconds_Inr: "(ts_plus_seconds t s = Inr u)
    = (u = t + s * 1000000000 \<and> s * 1000000000 < u64_lim \<and> t + s * 1000000000 < u64_lim)"
  by (auto simp: ts_plus_seconds_def duration_from_seconds_def ts_add_def u64_mul_Inr u64_add_Inr)

section \<open>Prices\<close>

type_synonym Price = NonZero
type_synonym PriceBaseInQuote = NonZero
type_synonym PriceCollateralInUsd = NonZero

record PricePoint =
  price_notional :: Price
  price_usd :: PriceCollateralInUsd
  price_base :: PriceBaseInQuote
  pp_timestamp :: Timestamp
  is_notional_usd :: bool
  pp_market_type :: MarketType
  pp_publish_time :: "Timestamp option"
  pp_publish_time_usd :: "Timestamp option"

definition into_notional_price :: "dec256_api \<Rightarrow> PriceBaseInQuote \<Rightarrow> MarketType \<Rightarrow> Price res" where
  "into_notional_price D p mt =
     (case mt of CollateralIsQuote \<Rightarrow> Inr p | CollateralIsBase \<Rightarrow> nz_inverse D p)"

definition into_base_price :: "dec256_api \<Rightarrow> Price \<Rightarrow> MarketType \<Rightarrow> PriceBaseInQuote res" where
  "into_base_price D p mt =
     (case mt of CollateralIsQuote \<Rightarrow> Inr p | CollateralIsBase \<Rightarrow> nz_inverse D p)"

definition price_try_from_number :: "Number \<Rightarrow> Price res" where
  "price_try_from_number n = nz_try_from n"

definition try_into_usd :: "dec256_api \<Rightarrow> PriceBaseInQuote \<Rightarrow> MarketId \<Rightarrow> PriceCollateralInUsd option res" where
  "try_into_usd D p m =
     (if mid_base m = ''USD'' then
        (case mid_market_type m of
           CollateralIsQuote \<Rightarrow> map_res Some (nz_inverse D p)
         | CollateralIsBase \<Rightarrow> Inr (Some dec_one))
      else if mid_quote m = ''USD'' then
        (case mid_market_type m of
           CollateralIsQuote \<Rightarrow> Inr (Some dec_one)
         | CollateralIsBase \<Rightarrow> Inr (Some p))
      else Inr None)"

definition collateral_to_usd :: "dec256_api \<Rightarrow> PricePoint \<Rightarrow> Collateral \<Rightarrow> Usd res" where
  "collateral_to_usd D pp c = op_mul D c (price_usd pp)"

definition usd_to_collateral :: "dec256_api \<Rightarrow> PricePoint \<Rightarrow> Usd \<Rightarrow> Collateral res" where
  "usd_to_collateral D pp u = op_div D u (price_usd pp)"

definition collateral_to_usd_non_zero :: "dec256_api \<Rightarrow> PricePoint \<Rightarrow> NonZero \<Rightarrow> NonZero res" where
  "collateral_to_usd_non_zero D pp c =
     and_then (op_mul D c (price_usd pp)) (\<lambda>u.
     ok_or (nonzero_new u) (Panic ''collateral_to_usd_non_zero: Impossible! Output cannot be 0''))"

definition price_base_to_collateral :: "dec256_api \<Rightarrow> Price \<Rightarrow> MarketType \<Rightarrow> Base \<Rightarrow> Collateral res" where
  "price_base_to_collateral D p mt amount =
     (case mt of CollateralIsQuote \<Rightarrow> op_mul D amount p | CollateralIsBase \<Rightarrow> Inr amount)"

definition base_to_collateral :: "dec256_api \<Rightarrow> PricePoint \<Rightarrow> Base \<Rightarrow> Collateral res" where
  "base_to_collateral D pp b = price_base_to_collateral D (price_notional pp) (pp_market_type pp) b"

definition base_to_usd :: "dec256_api \<Rightarrow> PricePoint \<Rightarrow> Base \<Rightarrow> Usd res" where
  "base_to_usd D pp b = and_then (base_to_collateral D pp b) (collateral_to_usd D pp)"

definition price_collateral_to_base_non_zero ::
    "dec256_api \<Rightarrow> Price \<Rightarrow> MarketType \<Rightarrow> NonZero \<Rightarrow> NonZero res" where
  "price_collateral_to_base_non_zero D p mt c =
     and_then (case mt of CollateralIsQuote \<Rightarrow> op_div D c p | CollateralIsBase \<Rightarrow> Inr c) (\<lambda>b.
     ok_or (nonzero_new b) (Panic ''collateral_to_base_non_zero: impossible 0 value as a result''))"

definition collateral_to_base_non_zero :: "dec256_api \<Rightarrow> PricePoint \<Rightarrow> NonZero \<Rightarrow> NonZero res" where
  "collateral_to_base_non_zero D pp c =
     price_collateral_to_base_non_zero D (price_notional pp) (pp_market_type pp) c"

definition price_notional_to_collateral :: "dec256_api \<Rightarrow> Price \<Rightarrow> Notional \<Rightarrow> Collateral res" where
  "price_notional_to_collateral D p n = op_mul D n p"

definition notional_to_collateral :: "dec256_api \<Rightarrow> PricePoint \<Rightarrow> Notional \<Rightarrow> Collateral res" where
  "notional_to_collateral D pp n = price_notional_to_collateral D (price_notional pp) n"

definition price_collateral_to_notional :: "dec256_api \<Rightarrow> Price \<Rightarrow> Collateral \<Rightarrow> Notional res" where
  "price_collateral_to_notional D p c = op_div D c p"

definition collateral_to_notional :: "dec256_api \<Rightarrow> PricePoint \<Rightarrow> Collateral \<Rightarrow> Notional res" where
  "collateral_to_notional D pp c = price_collateral_to_notional D (price_notional pp) c"

definition price_collateral_to_notional_non_zero :: "dec256_api \<Rightarrow> Price \<Rightarrow> NonZero \<Rightarrow> NonZero res" where
  "price_collateral_to_notional_non_zero D p c =
     and_then (op_div D c p) (\<lambda>n.
     ok_or (nonzero_new n) (Panic ''collateral_to_notional_non_zero resulted in 0''))"

definition collateral_to_notional_non_zero :: "dec256_api \<Rightarrow> PricePoint \<Rightarrow> NonZero \<Rightarrow> NonZero res" where
  "collateral_to_notional_non_zero D pp c =
     and_then (collateral_to_notional D pp c) (\<lambda>n.
     ok_or (nonzero_new n) (Panic ''collateral_to_notional_non_zero: impossible 0 result''))"

definition notional_to_usd :: "dec256_api \<Rightarrow> PricePoint \<Rightarrow> Notional \<Rightarrow> Usd res" where
  "notional_to_usd D pp n =
     (if is_notional_usd pp then Inr n
      else and_then (notional_to_collateral D pp n) (collateral_to_usd D pp))"

text \<open>\<open>TakeProfitTrader\<close> and \<open>MaxGainsInQuote\<close>.\<close>

datatype TakeProfitTrader = TP_Finite NonZero | TP_PosInfinity

datatype MaxGainsInQuote = MG_Finite NonZero | MG_PosInfinity

definition tp_as_finite :: "TakeProfitTrader \<Rightarrow> NonZero option" where
  "tp_as_finite t = (case t of TP_Finite v \<Rightarrow> Some v | TP_PosInfinity \<Rightarrow> None)"

definition tp_into_notional :: "dec256_api \<Rightarrow> TakeProfitTrader \<Rightarrow> MarketType \<Rightarrow> Price option res" where
  "tp_into_notional D t mt =
     (case t of
        TP_PosInfinity \<Rightarrow> Inr None
      | TP_Finite x \<Rightarrow> map_res Some (into_notional_price D x mt))"

section \<open>Leverage of an amount of collateral\<close>

definition leverage_calculate ::
    "dec256_api \<Rightarrow> Signed \<Rightarrow> PricePoint \<Rightarrow> NonZero \<Rightarrow> SignedLeverageToNotional res" where
  "leverage_calculate D notional_size pp collateral =
     and_then (signed_map (notional_to_collateral D pp) notional_size) (\<lambda>in_collateral.
     signed_map (\<lambda>x. div_non_zero D x collateral) in_collateral)"

section \<open>Counter collateral for a maximum gain\<close>

definition calculate_counter_collateral ::
    "dec256_api \<Rightarrow> MaxGainsInQuote \<Rightarrow> MarketType \<Rightarrow> NonZero \<Rightarrow> Signed \<Rightarrow> SignedLeverageToNotional
      \<Rightarrow> NonZero res" where
  "calculate_counter_collateral D max_gains mt collateral notional_size_in_collateral leverage_to_notional =
     (case mt of
        CollateralIsQuote \<Rightarrow>
          (case max_gains of
             MG_Finite max_gains_in_collateral \<Rightarrow> checked_mul_non_zero D collateral max_gains_in_collateral
           | MG_PosInfinity \<Rightarrow> Inl (Market InvalidInfiniteMaxGains))
      | CollateralIsBase \<Rightarrow>
          (case max_gains of
             MG_PosInfinity \<Rightarrow>
               if leverage_direction leverage_to_notional = LongNotional
               then Inl (Market InvalidInfiniteMaxGains)
               else ok_or (nonzero_new (abs_unsigned notional_size_in_collateral))
                      (Msg ''notional_size_in_collateral is zero'')
           | MG_Finite max_gains_in_notional \<Rightarrow>
               and_then (signed_checked_add D (new_positive max_gains_in_notional) number_one) (\<lambda>g1.
               and_then (number_checked_div D g1 leverage_to_notional) (\<lambda>q.
               and_then (signed_checked_sub D number_one q) (\<lambda>max_gains_multiple.
               and_then (approx_lt_relaxed D max_gains_multiple signed_zero) (\<lambda>too_large.
               if too_large then Inl (Market MaxGainsTooLarge)
               else
                 and_then (number_checked_mul D (new_positive collateral) (new_positive max_gains_in_notional)) (\<lambda>cg.
                 and_then (number_checked_div D cg max_gains_multiple) (\<lambda>counter_collateral.
                 ok_or (nz_try_from_number counter_collateral)
                   (Msg ''Calculated an invalid counter_collateral'')))))))))"

section \<open>Lemmas\<close>

lemmas price_conv_defs = collateral_to_usd_def usd_to_collateral_def collateral_to_usd_non_zero_def
  price_base_to_collateral_def base_to_collateral_def base_to_usd_def
  price_collateral_to_base_non_zero_def collateral_to_base_non_zero_def
  price_notional_to_collateral_def notional_to_collateral_def price_collateral_to_notional_def
  collateral_to_notional_def price_collateral_to_notional_non_zero_def
  collateral_to_notional_non_zero_def notional_to_usd_def

text \<open>Dividing by a price and multiplying back never gains an atom.\<close>

lemma div_mul_price_le: "(c * dec_one div p) * p div dec_one \<le> c"
proof -
  have "c * dec_one div p * p \<le> c * dec_one" by simp
  then have "c * dec_one div p * p div dec_one \<le> c * dec_one div dec_one" by (rule div_le_mono)
  then show ?thesis by (simp add: dec_one_def)
qed

lemma mul_div_price_le: "0 < p \<Longrightarrow> (n * p div dec_one) * dec_one div p \<le> n"
proof -
  assume p: "0 < p"
  have "n * p div dec_one * dec_one \<le> n * p" by simp
  then have "n * p div dec_one * dec_one div p \<le> n * p div p" by (rule div_le_mono)
  then show ?thesis using p by simp
qed

context decimal256
begin

lemma collateral_to_usd_Inr: "(collateral_to_usd D pp c = Inr u)
    = (c * price_usd pp div dec_one < dec_lim \<and> u = c * price_usd pp div dec_one)"
  by (simp add: collateral_to_usd_def)

lemma usd_to_collateral_Inr: "(usd_to_collateral D pp u = Inr c)
    = (price_usd pp \<noteq> 0 \<and> u * dec_one div price_usd pp < dec_lim \<and> c = u * dec_one div price_usd pp)"
  by (simp add: usd_to_collateral_def)

lemma notional_to_collateral_Inr: "(notional_to_collateral D pp n = Inr c)
    = (n * price_notional pp div dec_one < dec_lim \<and> c = n * price_notional pp div dec_one)"
  by (simp add: notional_to_collateral_def price_notional_to_collateral_def)

lemma collateral_to_notional_Inr: "(collateral_to_notional D pp c = Inr n)
    = (price_notional pp \<noteq> 0 \<and> c * dec_one div price_notional pp < dec_lim
       \<and> n = c * dec_one div price_notional pp)"
  by (simp add: collateral_to_notional_def price_collateral_to_notional_def)

lemma conversions_no_gain_law:
  "usd_to_collateral D pp u = Inr c \<Longrightarrow> collateral_to_usd D pp c = Inr u' \<Longrightarrow> u' \<le> u"
  "collateral_to_notional D pp c = Inr n \<Longrightarrow> notional_to_collateral D pp n = Inr c' \<Longrightarrow> c' \<le> c"
  "collateral_to_base_non_zero D pp c = Inr b \<Longrightarrow> base_to_collateral D pp b = Inr c' \<Longrightarrow> c' \<le> c"
  by (auto simp: price_conv_defs div_mul_price_le split: MarketType.splits)

lemma leverage_calculate_num:
  assumes "leverage_calculate D n pp c = Inr l"
  shows "wf_signed l
    \<and> sg_value l = (sg_value n * price_notional pp div dec_one) * dec_one div c
    \<and> (sg_value l \<noteq> 0 \<longrightarrow> is_negative l = is_negative n)"
  using assms
  by (auto simp: leverage_calculate_def signed_map_Inr notional_to_collateral_Inr div_non_zero_def
      signed_defs wf_signed_def split: if_splits)

lemma into_base_price_roundtrip:
  assumes "into_base_price D p CollateralIsBase = Inr b" "into_notional_price D b CollateralIsBase = Inr p'"
  shows "p \<le> p'"
proof -
  have b: "0 < p" "b = dec_one * dec_one div p" "0 < b" and p': "p' = dec_one * dec_one div b"
    using assms by (auto simp: into_base_price_def into_notional_price_def nz_inverse_Inr)
  have "p * b \<le> dec_one * dec_one" using b by (simp add: mult.commute)
  then show ?thesis using b(3) p' by (simp add: less_eq_div_iff_mult_less_eq)
qed

lemma counter_collateral_quote:
  assumes "calculate_counter_collateral D mg CollateralIsQuote c n l = Inr r"
  shows "\<exists>g. mg = MG_Finite g \<and> r = c * g div dec_one"
  using assms by (auto simp: calculate_counter_collateral_def checked_mul_non_zero_def
      checked_mul_dec_def split: MaxGainsInQuote.splits)

lemma counter_collateral_base_infinite:
  assumes "wf_signed l" "calculate_counter_collateral D MG_PosInfinity CollateralIsBase c n l = Inr r"
  shows "num l < 0 \<and> r = sg_value n \<and> 0 < r"
  using assms by (auto simp: calculate_counter_collateral_def leverage_direction_def abs_unsigned_def
      non_negative_value_iff non_negative_value_None split: if_splits option.splits)

end

section \<open>Properties\<close>

text \<open>Converting an amount to another unit at a price point and converting it back never yields
  more than the original amount, for USD, notional and base: every conversion rounds down.\<close>

theorem price_conversions_never_gain:
  assumes "decimal256 D"
  shows "(usd_to_collateral D pp u = Inr c \<longrightarrow> collateral_to_usd D pp c = Inr u' \<longrightarrow> u' \<le> u)
    \<and> (collateral_to_notional D pp c = Inr n \<longrightarrow> notional_to_collateral D pp n = Inr c' \<longrightarrow> c' \<le> c)
    \<and> (collateral_to_base_non_zero D pp c = Inr b \<longrightarrow> base_to_collateral D pp b = Inr c' \<longrightarrow> c' \<le> c)"
  using decimal256.conversions_no_gain_law [OF assms] by blast

definition sample_price_point :: PricePoint where
  "sample_price_point = \<lparr>price_notional = 3 * dec_one, price_usd = 3 * dec_one,
     price_base = 3 * dec_one, pp_timestamp = 1000, is_notional_usd = False,
     pp_market_type = CollateralIsQuote, pp_publish_time = None, pp_publish_time_usd = None\<rparr>"

theorem price_conversions_never_gain_witness:
  "usd_to_collateral dec18 sample_price_point dec_one = Inr 333333333333333333
   \<and> collateral_to_usd dec18 sample_price_point 333333333333333333 = Inr 999999999999999999
   \<and> (999999999999999999::nat) \<le> dec_one"
proof -
  have "usd_to_collateral dec18 sample_price_point dec_one = Inr 333333333333333333"
      "collateral_to_usd dec18 sample_price_point 333333333333333333 = Inr 999999999999999999"
    by (simp_all add: usd_to_collateral_def collateral_to_usd_def sample_price_point_def dec18_eval)
  then show ?thesis
    using price_conversions_never_gain [OF d18.decimal256_axioms, of sample_price_point dec_one
        333333333333333333 999999999999999999] by blast
qed

end
