(* ===== verification/Positions.thy ===== *)
theory Positions
  imports Prices MarketConfig
begin

text \<open>
  Positions: the \<open>Position\<close> and \<open>LiquidationMargin\<close> structures and their methods
  (\<open>packages/perpswap/src/contracts/market/position.rs\<close>), closed positions and closing
  instructions (\<open>position/closed.rs\<close>) and the paired collateral and USD totals
  (\<open>position/collateral_and_usd.rs\<close>). A method that takes \<open>mut self\<close> returns the new
  position. The lemmas show what settling a price movement does to the two collaterals of a
  position and how the stored liquidation price relates to the exposure at that price.
\<close>

type_synonym PositionId = nat

section \<open>Collateral and USD\<close>

record CollateralAndUsd =
  cu_collateral :: Collateral
  cu_usd :: Usd

record SignedCollateralAndUsd =
  scu_collateral :: Signed
  scu_usd :: Signed

definition cu_new :: "dec256_api \<Rightarrow> Collateral \<Rightarrow> PricePoint \<Rightarrow> CollateralAndUsd res" where
  "cu_new D c pp = map_res (\<lambda>u. \<lparr>cu_collateral = c, cu_usd = u\<rparr>) (collateral_to_usd D pp c)"

definition cu_checked_add_assign ::
    "dec256_api \<Rightarrow> CollateralAndUsd \<Rightarrow> Collateral \<Rightarrow> PricePoint \<Rightarrow> CollateralAndUsd res" where
  "cu_checked_add_assign D s c pp =
     and_then (d_add D (cu_collateral s) c) (\<lambda>c'.
     and_then (collateral_to_usd D pp c) (\<lambda>u.
     and_then (d_add D (cu_usd s) u) (\<lambda>u'.
     Inr \<lparr>cu_collateral = c', cu_usd = u'\<rparr>)))"

definition scu_new :: "dec256_api \<Rightarrow> Signed \<Rightarrow> PricePoint \<Rightarrow> SignedCollateralAndUsd res" where
  "scu_new D c pp = map_res (\<lambda>u. \<lparr>scu_collateral = c, scu_usd = u\<rparr>)
     (signed_map (collateral_to_usd D pp) c)"

definition scu_checked_add_assign ::
    "dec256_api \<Rightarrow> SignedCollateralAndUsd \<Rightarrow> Signed \<Rightarrow> PricePoint \<Rightarrow> SignedCollateralAndUsd res" where
  "scu_checked_add_assign D s c pp =
     and_then (signed_checked_add D (scu_collateral s) c) (\<lambda>c'.
     and_then (signed_map (collateral_to_usd D pp) c) (\<lambda>u.
     and_then (signed_checked_add D (scu_usd s) u) (\<lambda>u'.
     Inr \<lparr>scu_collateral = c', scu_usd = u'\<rparr>)))"

section \<open>Positions\<close>

record LiquidationMargin =
  lm_borrow :: Collateral
  lm_funding :: Collateral
  lm_delta_neutrality :: Collateral
  lm_crank :: Collateral
  lm_exposure :: Collateral

definition lm_total :: "dec256_api \<Rightarrow> LiquidationMargin \<Rightarrow> Collateral res" where
  "lm_total D m =
     and_then (d_add D (lm_borrow m) (lm_funding m)) (\<lambda>a.
     and_then (d_add D (lm_delta_neutrality m) (lm_crank m)) (\<lambda>b.
     and_then (d_add D a b) (\<lambda>c. d_add D c (lm_exposure m))))"

record Position =
  pos_owner :: Addr
  pos_id :: PositionId
  pos_deposit_collateral :: SignedCollateralAndUsd
  pos_active_collateral :: NonZero
  pos_counter_collateral :: NonZero
  pos_notional_size :: Signed
  pos_created_at :: Timestamp
  pos_price_point_created_at :: "Timestamp option"
  pos_trading_fee :: CollateralAndUsd
  pos_funding_fee :: SignedCollateralAndUsd
  pos_borrow_fee :: CollateralAndUsd
  pos_crank_fee :: CollateralAndUsd
  pos_delta_neutrality_fee :: SignedCollateralAndUsd
  pos_liquifunded_at :: Timestamp
  pos_next_liquifunding :: Timestamp
  pos_stop_loss_override :: "PriceBaseInQuote option"
  pos_stop_loss_override_notional :: "Price option"
  pos_liquidation_price :: "Price option"
  pos_liquidation_margin :: LiquidationMargin
  pos_take_profit_trader :: "TakeProfitTrader option"
  pos_take_profit_trader_notional :: "Price option"
  pos_take_profit_total :: "Price option"

datatype LiquidationReason = Liquidated | MaxGains | StopLoss | TakeProfit

datatype PositionCloseReason = CloseLiquidated LiquidationReason | CloseDirect

record ClosePositionInstructions =
  ci_pos :: Position
  ci_capped_exposure :: Signed
  ci_additional_losses :: Collateral
  ci_settlement_price :: PricePoint
  ci_reason :: PositionCloseReason
  ci_closed_during_liquifunding :: bool

datatype MaybeClosedPosition = MaybeOpen Position | MaybeClose ClosePositionInstructions

definition maybe_closed_position :: "MaybeClosedPosition \<Rightarrow> Position" where
  "maybe_closed_position m = (case m of MaybeOpen pos \<Rightarrow> pos | MaybeClose i \<Rightarrow> ci_pos i)"

definition pos_direction :: "Position \<Rightarrow> DirectionToNotional" where
  "pos_direction p = (if is_negative (pos_notional_size p) then ShortNotional else LongNotional)"

definition active_leverage_to_notional :: "dec256_api \<Rightarrow> Position \<Rightarrow> PricePoint \<Rightarrow> SignedLeverageToNotional res" where
  "active_leverage_to_notional D p pp =
     leverage_calculate D (pos_notional_size p) pp (pos_active_collateral p)"

definition counter_leverage_to_notional :: "dec256_api \<Rightarrow> Position \<Rightarrow> PricePoint \<Rightarrow> SignedLeverageToNotional res" where
  "counter_leverage_to_notional D p pp =
     leverage_calculate D (pos_notional_size p) pp (pos_counter_collateral p)"

definition notional_size_in_collateral :: "dec256_api \<Rightarrow> Position \<Rightarrow> PricePoint \<Rightarrow> Signed res" where
  "notional_size_in_collateral D p pp = signed_map (notional_to_collateral D pp) (pos_notional_size p)"

definition position_size_base :: "dec256_api \<Rightarrow> Position \<Rightarrow> MarketType \<Rightarrow> PricePoint \<Rightarrow> Signed res" where
  "position_size_base D p mt pp =
     and_then (active_leverage_to_notional D p pp) (\<lambda>ln.
     and_then (leverage_into_base D ln mt) (\<lambda>leverage.
     and_then (collateral_to_base_non_zero D pp (pos_active_collateral p)) (\<lambda>active_collateral.
     leverage_checked_mul_base D leverage active_collateral)))"

definition pnl_in_collateral :: "dec256_api \<Rightarrow> Position \<Rightarrow> Signed res" where
  "pnl_in_collateral D p =
     signed_checked_sub D (new_positive (pos_active_collateral p)) (scu_collateral (pos_deposit_collateral p))"

definition pnl_in_usd :: "dec256_api \<Rightarrow> Position \<Rightarrow> PricePoint \<Rightarrow> Signed res" where
  "pnl_in_usd D p pp =
     and_then (collateral_to_usd_non_zero D pp (pos_active_collateral p)) (\<lambda>u.
     signed_checked_sub D (new_positive u) (scu_usd (pos_deposit_collateral p)))"

definition MS_PER_YEAR :: nat where
  "MS_PER_YEAR = 31536000 * 1000"

definition liquidation_margin :: "dec256_api \<Rightarrow> Position \<Rightarrow> PricePoint \<Rightarrow> Config \<Rightarrow> LiquidationMargin res" where
  "liquidation_margin D p pp config =
     and_then (ok_or (ok (d_from_atomics D MS_PER_YEAR 0)) (Panic ''unwrap'')) (\<lambda>ms_per_year.
     and_then (duration_from_seconds (cfg_liquifunding_delay_seconds config)) (\<lambda>delay.
     and_then (as_ms_decimal_lossy D delay) (\<lambda>duration.
     and_then (op_mul D (cfg_borrow_fee_rate_max_annualized config) duration) (\<lambda>bd.
     and_then (op_div D bd ms_per_year) (\<lambda>borrow_fee_max_rate.
     and_then (d_add D (pos_active_collateral p) (pos_counter_collateral p)) (\<lambda>both.
     and_then (checked_mul_dec D both borrow_fee_max_rate) (\<lambda>borrow_fee_max_payment.
     and_then (op_div D (case pos_direction p of
           LongNotional \<Rightarrow> pos_counter_collateral p
         | ShortNotional \<Rightarrow> pos_active_collateral p) (abs_unsigned (pos_notional_size p))) (\<lambda>price_move.
     and_then (op_add D (price_notional pp) price_move) (\<lambda>max_price.
     and_then (op_mul D (cfg_funding_rate_max_annualized config) duration) (\<lambda>fd.
     and_then (op_div D fd ms_per_year) (\<lambda>funding_max_rate.
     and_then (op_mul D funding_max_rate (abs_unsigned (pos_notional_size p))) (\<lambda>fn.
     and_then (op_mul D fn max_price) (\<lambda>funding_max_payment.
     and_then (op_mul D (cfg_delta_neutrality_fee_cap config) (abs_unsigned (pos_notional_size p))) (\<lambda>sn.
     and_then (op_mul D sn max_price) (\<lambda>slippage_max.
     and_then (usd_to_collateral D pp (cfg_crank_fee_charged config)) (\<lambda>crank.
     and_then (notional_to_collateral D pp (abs_unsigned (pos_notional_size p))) (\<lambda>nc.
     and_then (checked_mul_dec D nc (cfg_exposure_margin_ratio config)) (\<lambda>exposure.
     Inr \<lparr>lm_borrow = borrow_fee_max_payment, lm_funding = funding_max_payment,
          lm_delta_neutrality = slippage_max, lm_crank = crank, lm_exposure = exposure\<rparr>))))))))))))))))))"

definition liquidation_price ::
    "dec256_api \<Rightarrow> Position \<Rightarrow> Price \<Rightarrow> NonZero \<Rightarrow> LiquidationMargin \<Rightarrow> Price option" where
  "liquidation_price D p price active_collateral margin =
     Option.bind (ok (lm_total D margin)) (\<lambda>m.
     Option.bind (ok (signed_checked_sub D (new_positive active_collateral) (new_positive m))) (\<lambda>free.
     Option.bind (ok (number_checked_div D free (pos_notional_size p))) (\<lambda>d.
     Option.bind (ok (signed_checked_sub D (new_positive price) d)) (\<lambda>liq.
     ok (price_try_from_number liq)))))"

definition take_profit_price_total :: "dec256_api \<Rightarrow> Position \<Rightarrow> PricePoint \<Rightarrow> MarketType \<Rightarrow> Price option res" where
  "take_profit_price_total D p pp mt =
     and_then (number_checked_div D (new_positive (pos_counter_collateral p)) (pos_notional_size p)) (\<lambda>d.
     and_then (signed_checked_add D (new_positive (price_notional pp)) d) (\<lambda>raw.
     and_then (approx_eq_number D raw signed_zero) (\<lambda>is_zero.
     case (if is_zero then None else ok (price_try_from_number raw)) of
       Some price \<Rightarrow> Inr (Some price)
     | None \<Rightarrow>
         (case mt of
            CollateralIsBase \<Rightarrow> Inr None
          | CollateralIsQuote \<Rightarrow>
              Inl (Msg ''Calculated a take profit price in a collateral-is-quote market'')))))"

definition max_gains_in_quote :: "dec256_api \<Rightarrow> Position \<Rightarrow> MarketType \<Rightarrow> PricePoint \<Rightarrow> MaxGainsInQuote res" where
  "max_gains_in_quote D p mt pp =
     (case mt of
        CollateralIsQuote \<Rightarrow>
          map_res MG_Finite (checked_div_collateral D (pos_counter_collateral p) (pos_active_collateral p))
      | CollateralIsBase \<Rightarrow>
          and_then (take_profit_price_total D p pp mt) (\<lambda>tp.
          case tp of
            None \<Rightarrow> Inr MG_PosInfinity
          | Some take_profit_price \<Rightarrow>
              and_then (nz_checked_add D (pos_active_collateral p) (pos_counter_collateral p)) (\<lambda>take_profit_collateral.
              and_then (price_collateral_to_notional_non_zero D take_profit_price take_profit_collateral) (\<lambda>take_profit_in_notional.
              and_then (collateral_to_notional_non_zero D pp (pos_active_collateral p)) (\<lambda>active_collateral_in_notional.
              and_then (ensure (active_collateral_in_notional < take_profit_in_notional)
                (Msg ''Max gains in quote is negative, this should not be possible'')) (\<lambda>_.
              and_then (op_sub D take_profit_in_notional active_collateral_in_notional) (\<lambda>gain.
              and_then (d_div D gain active_collateral_in_notional) (\<lambda>r.
              map_res MG_Finite (ok_or (nonzero_new r) (Msg ''Max gains of 0''))))))))))"

definition add_delta_neutrality_fee :: "dec256_api \<Rightarrow> Position \<Rightarrow> Signed \<Rightarrow> PricePoint \<Rightarrow> Position res" where
  "add_delta_neutrality_fee D p amount pp =
     map_res (\<lambda>f. p\<lparr>pos_delta_neutrality_fee := f\<rparr>)
       (scu_checked_add_assign D (pos_delta_neutrality_fee p) amount pp)"

definition get_price_exposure :: "dec256_api \<Rightarrow> Position \<Rightarrow> Price \<Rightarrow> PricePoint \<Rightarrow> Signed res" where
  "get_price_exposure D p start_price end_price =
     and_then (signed_checked_sub D (new_positive (price_notional end_price)) (new_positive start_price)) (\<lambda>price_delta.
     number_checked_mul D price_delta (pos_notional_size p))"

definition settle_price_exposure ::
    "dec256_api \<Rightarrow> Position \<Rightarrow> Price \<Rightarrow> PricePoint \<Rightarrow> Collateral \<Rightarrow> (MaybeClosedPosition \<times> Signed) res" where
  "settle_price_exposure D p start_price end_price margin =
     and_then (get_price_exposure D p start_price end_price) (\<lambda>exposure.
     and_then (signed_checked_sub D (new_positive margin) (new_positive (pos_active_collateral p))) (\<lambda>min_exposure.
     let max_exposure = new_positive (pos_counter_collateral p) in
     if exposure \<le> min_exposure then
       and_then (signed_checked_sub D min_exposure exposure) (\<lambda>l.
       and_then (ok_or (try_into_non_negative_value l) (Msg ''Calculated additional_losses is negative'')) (\<lambda>losses.
       Inr (MaybeClose \<lparr>ci_pos = p, ci_capped_exposure = min_exposure, ci_additional_losses = losses,
              ci_settlement_price = end_price, ci_reason = CloseLiquidated Liquidated,
              ci_closed_during_liquifunding = True\<rparr>, min_exposure)))
     else if max_exposure \<le> exposure then
       Inr (MaybeClose \<lparr>ci_pos = p, ci_capped_exposure = max_exposure, ci_additional_losses = 0,
              ci_settlement_price = end_price, ci_reason = CloseLiquidated MaxGains,
              ci_closed_during_liquifunding = True\<rparr>, max_exposure)
     else
       and_then (nz_checked_add_signed D (pos_active_collateral p) exposure) (\<lambda>active.
       and_then (nz_checked_sub_signed D (pos_counter_collateral p) exposure) (\<lambda>counter.
       Inr (MaybeOpen (p\<lparr>pos_active_collateral := active, pos_counter_collateral := counter\<rparr>), exposure)))))"

text \<open>\<open>PositionId::next\<close>.\<close>

definition position_id_next :: "PositionId \<Rightarrow> PositionId res" where
  "position_id_next i = u64_add i 1"

section \<open>Query responses\<close>

record ClosedPosition =
  cp_owner :: Addr
  cp_id :: PositionId
  cp_direction_to_base :: DirectionToBase
  cp_created_at :: Timestamp
  cp_price_point_created_at :: "Timestamp option"
  cp_liquifunded_at :: Timestamp
  cp_trading_fee_collateral :: Collateral
  cp_trading_fee_usd :: Usd
  cp_funding_fee_collateral :: Signed
  cp_funding_fee_usd :: Signed
  cp_borrow_fee_collateral :: Collateral
  cp_borrow_fee_usd :: Usd
  cp_crank_fee_collateral :: Collateral
  cp_crank_fee_usd :: Usd
  cp_delta_neutrality_fee_collateral :: Signed
  cp_delta_neutrality_fee_usd :: Signed
  cp_deposit_collateral :: Signed
  cp_deposit_collateral_usd :: Signed
  cp_active_collateral :: Collateral
  cp_pnl_collateral :: Signed
  cp_pnl_usd :: Signed
  cp_notional_size :: Signed
  cp_entry_price_base :: PriceBaseInQuote
  cp_close_time :: Timestamp
  cp_settlement_time :: Timestamp
  cp_reason :: PositionCloseReason
  cp_liquidation_margin :: "LiquidationMargin option"

record PositionQueryResponse =
  pq_owner :: Addr
  pq_id :: PositionId
  pq_direction_to_base :: DirectionToBase
  pq_leverage :: LeverageToBase
  pq_counter_leverage :: LeverageToBase
  pq_created_at :: Timestamp
  pq_price_point_created_at :: "Timestamp option"
  pq_liquifunded_at :: Timestamp
  pq_trading_fee :: CollateralAndUsd
  pq_funding_fee :: SignedCollateralAndUsd
  pq_borrow_fee :: CollateralAndUsd
  pq_crank_fee :: CollateralAndUsd
  pq_delta_neutrality_fee :: SignedCollateralAndUsd
  pq_deposit_collateral :: SignedCollateralAndUsd
  pq_active_collateral :: NonZero
  pq_active_collateral_usd :: NonZero
  pq_counter_collateral :: NonZero
  pq_pnl_collateral :: Signed
  pq_pnl_usd :: Signed
  pq_dnf_on_close_collateral :: Signed
  pq_notional_size :: Signed
  pq_notional_size_in_collateral :: Signed
  pq_position_size_base :: Signed
  pq_position_size_usd :: Signed
  pq_liquidation_price_base :: "PriceBaseInQuote option"
  pq_liquidation_margin :: LiquidationMargin
  pq_max_gains_in_quote :: "MaxGainsInQuote option"
  pq_entry_price_base :: PriceBaseInQuote
  pq_next_liquifunding :: Timestamp
  pq_stop_loss_override :: "PriceBaseInQuote option"
  pq_take_profit_trader :: "TakeProfitTrader option"
  pq_take_profit_total_base :: "PriceBaseInQuote option"

datatype PositionOrPendingClose = OpenResponse PositionQueryResponse | PendingClose ClosedPosition

definition into_query_response ::
    "dec256_api \<Rightarrow> Position \<Rightarrow> PricePoint \<Rightarrow> Price \<Rightarrow> MarketType \<Rightarrow> Signed \<Rightarrow> PositionQueryResponse res" where
  "into_query_response D p end_price entry_price mt dnf_on_close_collateral =
     and_then (active_leverage_to_notional D p end_price) (\<lambda>al.
     and_then (leverage_into_base D al mt) (\<lambda>alb.
     and_then (counter_leverage_to_notional D p end_price) (\<lambda>cl.
     and_then (leverage_into_base D cl mt) (\<lambda>clb.
     and_then (pnl_in_collateral D p) (\<lambda>pnl_collateral.
     and_then (pnl_in_usd D p end_price) (\<lambda>pnl_usd.
     and_then (notional_size_in_collateral D p end_price) (\<lambda>notional_in_collateral.
     and_then (position_size_base D p mt end_price) (\<lambda>size_base.
     and_then (collateral_to_usd_non_zero D end_price (pos_active_collateral p)) (\<lambda>active_usd.
     and_then (signed_map (base_to_usd D end_price) size_base) (\<lambda>size_usd.
     and_then (transpose_res (map_option (\<lambda>x. into_base_price D x mt) (pos_liquidation_price p))) (\<lambda>liq_base.
     and_then (transpose_res (map_option (\<lambda>x. into_base_price D x mt) (pos_take_profit_total p))) (\<lambda>tp_base.
     and_then (into_base_price D entry_price mt) (\<lambda>entry_price_base.
     Inr \<lparr>pq_owner = pos_owner p, pq_id = pos_id p,
       pq_direction_to_base = fst (leverage_split alb), pq_leverage = snd (leverage_split alb),
       pq_counter_leverage = snd (leverage_split clb), pq_created_at = pos_created_at p,
       pq_price_point_created_at = pos_price_point_created_at p,
       pq_liquifunded_at = pos_liquifunded_at p, pq_trading_fee = pos_trading_fee p,
       pq_funding_fee = pos_funding_fee p, pq_borrow_fee = pos_borrow_fee p,
       pq_crank_fee = pos_crank_fee p, pq_delta_neutrality_fee = pos_delta_neutrality_fee p,
       pq_deposit_collateral = pos_deposit_collateral p,
       pq_active_collateral = pos_active_collateral p, pq_active_collateral_usd = active_usd,
       pq_counter_collateral = pos_counter_collateral p, pq_pnl_collateral = pnl_collateral,
       pq_pnl_usd = pnl_usd, pq_dnf_on_close_collateral = dnf_on_close_collateral,
       pq_notional_size = pos_notional_size p,
       pq_notional_size_in_collateral = notional_in_collateral,
       pq_position_size_base = size_base, pq_position_size_usd = size_usd,
       pq_liquidation_price_base = liq_base, pq_liquidation_margin = pos_liquidation_margin p,
       pq_max_gains_in_quote = None, pq_entry_price_base = entry_price_base,
       pq_next_liquifunding = pos_next_liquifunding p,
       pq_stop_loss_override = pos_stop_loss_override p,
       pq_take_profit_trader = pos_take_profit_trader p,
       pq_take_profit_total_base = tp_base\<rparr>)))))))))))))"

definition pending_closed_position ::
    "dec256_api \<Rightarrow> Position \<Rightarrow> bool \<Rightarrow> Collateral \<Rightarrow> PricePoint \<Rightarrow> Price \<Rightarrow> MarketType \<Rightarrow> ClosedPosition res" where
  "pending_closed_position D p is_profit exposure end_price entry_price mt =
     and_then (into_base_price D entry_price mt) (\<lambda>entry_price_base.
     and_then (if is_profit then d_add D (pos_active_collateral p) exposure else Inr 0) (\<lambda>active_collateral.
     and_then (collateral_to_usd D end_price active_collateral) (\<lambda>active_usd.
     and_then (signed_checked_sub D (new_positive active_collateral) (scu_collateral (pos_deposit_collateral p))) (\<lambda>pnl_collateral.
     and_then (signed_checked_sub D (new_positive active_usd) (scu_usd (pos_deposit_collateral p))) (\<lambda>pnl_usd.
     Inr \<lparr>cp_owner = pos_owner p, cp_id = pos_id p,
       cp_direction_to_base = direction_into_base (pos_direction p) mt,
       cp_created_at = pos_created_at p,
       cp_price_point_created_at = pos_price_point_created_at p,
       cp_liquifunded_at = pos_liquifunded_at p,
       cp_trading_fee_collateral = cu_collateral (pos_trading_fee p),
       cp_trading_fee_usd = cu_usd (pos_trading_fee p),
       cp_funding_fee_collateral = scu_collateral (pos_funding_fee p),
       cp_funding_fee_usd = scu_usd (pos_funding_fee p),
       cp_borrow_fee_collateral = cu_collateral (pos_borrow_fee p),
       cp_borrow_fee_usd = cu_usd (pos_borrow_fee p),
       cp_crank_fee_collateral = cu_collateral (pos_crank_fee p),
       cp_crank_fee_usd = cu_usd (pos_crank_fee p),
       cp_delta_neutrality_fee_collateral = scu_collateral (pos_delta_neutrality_fee p),
       cp_delta_neutrality_fee_usd = scu_usd (pos_delta_neutrality_fee p),
       cp_deposit_collateral = scu_collateral (pos_deposit_collateral p),
       cp_deposit_collateral_usd = scu_usd (pos_deposit_collateral p),
       cp_active_collateral = active_collateral,
       cp_pnl_collateral = pnl_collateral, cp_pnl_usd = pnl_usd,
       cp_notional_size = pos_notional_size p, cp_entry_price_base = entry_price_base,
       cp_close_time = pp_timestamp end_price, cp_settlement_time = pp_timestamp end_price,
       cp_reason = CloseLiquidated (if is_profit then MaxGains else Liquidated),
       cp_liquidation_margin = Some (pos_liquidation_margin p)\<rparr>)))))"

text \<open>The exposure is moved between the collaterals when both stay non-zero; a failing
  \<open>checked_sub\<close> means the position is pending a close.\<close>

definition extrapolate_position :: "dec256_api \<Rightarrow> Position \<Rightarrow> bool \<Rightarrow> Collateral \<Rightarrow> Position option res" where
  "extrapolate_position D p is_profit exposure =
     (if is_profit then
        (case ok (nz_checked_sub D (pos_counter_collateral p) exposure) of
           None \<Rightarrow> Inr None
         | Some counter \<Rightarrow>
             and_then (nz_checked_add D (pos_active_collateral p) exposure) (\<lambda>active.
             Inr (Some (p\<lparr>pos_active_collateral := active, pos_counter_collateral := counter\<rparr>))))
      else
        (case ok (nz_checked_sub D (pos_active_collateral p) exposure) of
           None \<Rightarrow> Inr None
         | Some active \<Rightarrow>
             and_then (nz_checked_add D (pos_counter_collateral p) exposure) (\<lambda>counter.
             Inr (Some (p\<lparr>pos_active_collateral := active, pos_counter_collateral := counter\<rparr>)))))"

definition into_query_response_extrapolate_exposure ::
    "dec256_api \<Rightarrow> Position \<Rightarrow> PricePoint \<Rightarrow> PricePoint \<Rightarrow> Price \<Rightarrow> MarketType \<Rightarrow> Signed
      \<Rightarrow> PositionOrPendingClose res" where
  "into_query_response_extrapolate_exposure D p start_price end_price entry_price mt dnf_on_close_collateral =
     and_then (get_price_exposure D p (price_notional start_price) end_price) (\<lambda>signed_exposure.
     let is_profit = is_strictly_positive signed_exposure;
         exposure = abs_unsigned signed_exposure in
     and_then (extrapolate_position D p is_profit exposure) (\<lambda>open_pos.
     case open_pos of
       Some p' \<Rightarrow>
         map_res OpenResponse (into_query_response D p' end_price entry_price mt dnf_on_close_collateral)
     | None \<Rightarrow>
         map_res PendingClose (pending_closed_position D p is_profit exposure end_price entry_price mt)))"

section \<open>Lemmas\<close>

definition wf_position :: "Position \<Rightarrow> bool" where
  "wf_position p \<longleftrightarrow> wf_signed (pos_notional_size p)
     \<and> 0 < pos_active_collateral p \<and> pos_active_collateral p < dec_lim
     \<and> 0 < pos_counter_collateral p \<and> pos_counter_collateral p < dec_lim"

text \<open>The exposure of a price movement as an integer: the price difference times the signed
  notional size, truncated to an atom.\<close>

definition exposure_int :: "Position \<Rightarrow> nat \<Rightarrow> nat \<Rightarrow> int" where
  "exposure_int p start end = ((int end - int start) * num (pos_notional_size p)) sdiv int dec_one"

lemma div_add_le_Suc: "(a + b) div n \<le> a div n + b div n + (1::nat)"
proof (cases "n = 0")
  case False
  then have "a mod n + b mod n < 2 * n"
    using mod_less_divisor [of n a] mod_less_divisor [of n b] by linarith
  then have "(a mod n + b mod n) div n < 2"
    using False by (simp add: div_less_iff_less_mult)
  then show ?thesis by (simp add: div_add1_eq [of a b n])
qed simp

text \<open>Dividing an amount by a size and multiplying the truncated quotient back by the size loses
  at most one unit of the size, plus one atom.\<close>

lemma quotient_times_size:
  assumes "0 < n" "0 < (s::nat)"
  shows "(f * s div n) * n div s \<le> f" "f \<le> (f * s div n) * n div s + n div s + 1"
proof -
  have "f * s div n * n \<le> f * s" by simp
  then have "f * s div n * n div s \<le> f * s div s" by (rule div_le_mono)
  then show "(f * s div n) * n div s \<le> f" using assms by simp
  have "f * s = f * s div n * n + f * s mod n" by simp
  moreover have "f * s mod n < n" using assms by simp
  ultimately have "f * s \<le> f * s div n * n + n" by linarith
  then have "f * s div s \<le> (f * s div n * n + n) div s" by (rule div_le_mono)
  also have "\<dots> \<le> f * s div n * n div s + n div s + 1" by (rule div_add_le_Suc)
  finally show "f \<le> (f * s div n) * n div s + n div s + 1" using assms by simp
qed

context decimal256
begin

lemma get_price_exposure_num:
  assumes "wf_signed (pos_notional_size p)" "start < dec_lim" "price_notional pp < dec_lim"
    "get_price_exposure D p start pp = Inr e"
  shows "wf_signed e \<and> num e = exposure_int p start (price_notional pp)"
  using assms by (auto simp: get_price_exposure_def exposure_int_def signed_sub_Inr signed_mul_Inr)

lemma settle_price_exposure_cases:
  assumes wf: "wf_position p" and lim: "start < dec_lim" "price_notional pp < dec_lim" "margin < dec_lim"
    and s: "settle_price_exposure D p start pp margin = Inr (m, e)"
  shows "wf_signed e \<and>
    (let x = exposure_int p start (price_notional pp);
         a = int (pos_active_collateral p); c = int (pos_counter_collateral p) in
     if x \<le> int margin - a then
       num e = int margin - a \<and> m = MaybeClose \<lparr>ci_pos = p, ci_capped_exposure = e,
          ci_additional_losses = nat (int margin - a - x), ci_settlement_price = pp,
          ci_reason = CloseLiquidated Liquidated, ci_closed_during_liquifunding = True\<rparr>
     else if c \<le> x then
       num e = c \<and> m = MaybeClose \<lparr>ci_pos = p, ci_capped_exposure = e,
          ci_additional_losses = 0, ci_settlement_price = pp,
          ci_reason = CloseLiquidated MaxGains, ci_closed_during_liquifunding = True\<rparr>
     else
       num e = x \<and> m = MaybeOpen (p\<lparr>pos_active_collateral := nat (a + x),
          pos_counter_collateral := nat (c - x)\<rparr>))"
proof -
  obtain ex where ex: "get_price_exposure D p start pp = Inr ex"
    using s by (auto simp: settle_price_exposure_def)
  have wfn: "wf_signed (pos_notional_size p)" using wf by (simp add: wf_position_def)
  from get_price_exposure_num [OF wfn lim(1,2) ex]
  have wfe: "wf_signed ex" and x: "exposure_int p start (price_notional pp) = num ex" by auto
  obtain mn where mn: "signed_checked_sub D (new_positive margin) (new_positive (pos_active_collateral p)) = Inr mn"
    using s ex by (auto simp: settle_price_exposure_def)
  then have wfm: "wf_signed mn" and m: "num mn = int margin - int (pos_active_collateral p)"
    using lim(3) wf by (auto simp: signed_sub_Inr wf_position_def)
  have le1: "(ex \<le> mn) = (num ex \<le> int margin - int (pos_active_collateral p))"
    using le_num [OF wfe wfm] m by simp
  have wfc: "wf_signed (new_positive (pos_counter_collateral p))"
    using wf by (simp add: wf_position_def)
  have le2: "(new_positive (pos_counter_collateral p) \<le> ex) = (int (pos_counter_collateral p) \<le> num ex)"
    using le_num [OF wfc wfe] by simp
  have al: "pos_active_collateral p < dec_lim" "pos_counter_collateral p < dec_lim"
    using wf by (simp_all add: wf_position_def)
  show ?thesis
  proof (cases "num ex \<le> int margin - int (pos_active_collateral p)")
    case True
    with s ex mn m wfm wfe le1 x show ?thesis
      by (auto simp: settle_price_exposure_def signed_sub_Inr non_negative_value_iff)
  next
    case False
    show ?thesis
    proof (cases "int (pos_counter_collateral p) \<le> num ex")
      case True
      with False s ex mn le1 le2 x wfc show ?thesis
        by (auto simp: settle_price_exposure_def Let_def)
    next
      case c: False
      with False s ex mn le1 le2 x wfe show ?thesis
        by (auto simp: settle_price_exposure_def Let_def nz_add_signed_Inr [OF al(1) wfe]
            nz_sub_signed_Inr [OF al(2) wfe] simp flip: nat_int_add)
    qed
  qed
qed

end

section \<open>The liquidation price\<close>

context decimal256
begin

lemma lm_total_Inr: "lm_total D m = Inr t \<Longrightarrow>
    t = lm_borrow m + lm_funding m + lm_delta_neutrality m + lm_crank m + lm_exposure m \<and> t < dec_lim"
  by (auto simp: lm_total_def)

lemma liquidation_price_num:
  assumes "wf_signed (pos_notional_size p)" "price < dec_lim" "active < dec_lim"
    "liquidation_price D p price active margin = Some lp" "lm_total D margin = Inr t"
  shows "num (pos_notional_size p) \<noteq> 0 \<and> 0 < lp \<and> lp < dec_lim
    \<and> int lp = int price - ((int active - int t) * int dec_one) sdiv num (pos_notional_size p)"
proof -
  have t: "t < dec_lim" using lm_total_Inr [OF assms(5)] by simp
  from assms(4,5) obtain free d liq where
    free: "signed_checked_sub D (new_positive active) (new_positive t) = Inr free"
    and d: "number_checked_div D free (pos_notional_size p) = Inr d"
    and liq: "signed_checked_sub D (new_positive price) d = Inr liq"
    and lp: "nz_try_from liq = Inr lp"
    by (auto simp: liquidation_price_def bind_eq_Some_conv price_try_from_number_def)
  have f: "wf_signed free" "num free = int active - int t"
    using free assms(3) t by (auto simp: signed_sub_Inr)
  have d': "wf_signed d" "num (pos_notional_size p) \<noteq> 0"
      "num d = (num free * int dec_one) sdiv num (pos_notional_size p)"
    using d f(1) assms(1) by (auto simp: signed_div_Inr)
  have l: "wf_signed liq" "num liq = int price - num d"
    using liq assms(2) d'(1) by (auto simp: signed_sub_Inr)
  have "num liq = int lp" "0 < lp" using lp l(1) by (auto simp: nz_try_from_iff)
  moreover have "lp < dec_lim" using \<open>num liq = int lp\<close> l(1) by (auto simp: wf_signed_def num_def split: if_splits)
  ultimately show ?thesis using l f d' by simp
qed

end

lemma sdiv_flip: "(- int a) sdiv (int b) = - (int a sdiv int b)" "int a sdiv (- int b) = - (int a sdiv int b)"
  by simp_all

text \<open>The exposure at the liquidation price is the free collateral, up to the rounding of the price.\<close>

lemma exposure_at_quotient:
  assumes n: "num n \<noteq> 0" and f: "0 \<le> f"
    and lp: "int lp = int price - (f * int dec_one) sdiv num n"
  defines "x \<equiv> ((int lp - int price) * num n) sdiv int dec_one"
  shows "- f \<le> x \<and> x \<le> - f + int (sg_value n) div int dec_one + 1"
proof -
  obtain F where F: "f = int F" using f by (metis nonneg_int_cases)
  let ?N = "sg_value n"
  let ?q = "F * dec_one div ?N"
  have N: "0 < ?N" using n by (auto simp: num_def split: if_splits)
  have diff: "int lp - int price = (if sg_negative n then int ?q else - int ?q)"
    using lp by (simp add: num_def F flip: of_nat_mult)
  have "(int lp - int price) * num n = - int (?q * ?N)"
    unfolding diff by (simp add: num_def)
  then have x: "x = - int (?q * ?N div dec_one)"
    unfolding x_def by (simp del: of_nat_mult)
  from quotient_times_size [OF N dec_one_pos, of F]
  have "?q * ?N div dec_one \<le> F" "F \<le> ?q * ?N div dec_one + ?N div dec_one + 1" by auto
  then show ?thesis unfolding x F by (simp flip: zdiv_int)
qed

section \<open>Properties\<close>

text \<open>C21: Settling a price movement conserves collateral: a position that stays open has exactly the
  collateral that moved taken from one side and given to the other, keeps more than the liquidation
  margin on the trader's side and something on the liquidity side; a liquidated position keeps
  exactly the margin after its capped exposure, and the capped exposure less the additional losses
  is the true exposure; a position at maximum gains takes exactly the counter collateral.\<close>

theorem settle_price_exposure_conserves:
  assumes "decimal256 D" "wf_position p" "start < dec_lim" "price_notional pp < dec_lim" "margin < dec_lim"
    and "settle_price_exposure D p start pp margin = Inr (m, e)"
  shows "case m of
      MaybeOpen p' \<Rightarrow>
        int (pos_active_collateral p') = int (pos_active_collateral p) + num e
        \<and> int (pos_counter_collateral p') = int (pos_counter_collateral p) - num e
        \<and> margin < pos_active_collateral p' \<and> 0 < pos_counter_collateral p'
        \<and> num e = exposure_int p start (price_notional pp)
    | MaybeClose i \<Rightarrow>
        ci_pos i = p \<and> ci_capped_exposure i = e \<and>
        (case ci_reason i of
           CloseLiquidated Liquidated \<Rightarrow>
             int (pos_active_collateral p) + num e = int margin
             \<and> exposure_int p start (price_notional pp) = num e - int (ci_additional_losses i)
         | CloseLiquidated MaxGains \<Rightarrow>
             num e = int (pos_counter_collateral p) \<and> ci_additional_losses i = 0
             \<and> num e \<le> exposure_int p start (price_notional pp)
         | _ \<Rightarrow> False)"
  using decimal256.settle_price_exposure_cases [OF assms]
  by (auto simp: Let_def split: if_splits)

text \<open>C24: The stored liquidation price is accurate: moving the price from the reference price to the
  liquidation price produces an exposure that eats the free collateral (active collateral less the
  margin) up to rounding, never more than the free collateral, and short of it by at most one atom
  plus one atom per unit of notional size.\<close>

theorem liquidation_price_accurate:
  assumes "decimal256 D" "wf_signed (pos_notional_size p)" "price < dec_lim" "active < dec_lim"
    and "liquidation_price D p price active margin = Some lp" "lm_total D margin = Inr t" "t \<le> active"
  shows "- (int active - int t) \<le> exposure_int p price lp
    \<and> exposure_int p price lp
        \<le> - (int active - int t) + int (sg_value (pos_notional_size p)) div int dec_one + 1"
  using decimal256.liquidation_price_num [OF assms(1-6)] assms(7)
    exposure_at_quotient [of "pos_notional_size p" "int active - int t" lp price]
  by (simp add: exposure_int_def)

section \<open>Witnesses\<close>

definition sample_margin :: LiquidationMargin where
  "sample_margin = \<lparr>lm_borrow = dec_one, lm_funding = dec_one, lm_delta_neutrality = dec_one,
     lm_crank = dec_one, lm_exposure = dec_one\<rparr>"

definition sample_position :: Position where
  "sample_position = \<lparr>pos_owner = ''trader'', pos_id = 1,
     pos_deposit_collateral = \<lparr>scu_collateral = new_positive (100 * dec_one), scu_usd = new_positive (100 * dec_one)\<rparr>,
     pos_active_collateral = 100 * dec_one, pos_counter_collateral = 200 * dec_one,
     pos_notional_size = new_positive (300 * dec_one), pos_created_at = 10,
     pos_price_point_created_at = Some 10,
     pos_trading_fee = \<lparr>cu_collateral = 0, cu_usd = 0\<rparr>,
     pos_funding_fee = \<lparr>scu_collateral = signed_zero, scu_usd = signed_zero\<rparr>,
     pos_borrow_fee = \<lparr>cu_collateral = 0, cu_usd = 0\<rparr>,
     pos_crank_fee = \<lparr>cu_collateral = 0, cu_usd = 0\<rparr>,
     pos_delta_neutrality_fee = \<lparr>scu_collateral = signed_zero, scu_usd = signed_zero\<rparr>,
     pos_liquifunded_at = 10, pos_next_liquifunding = 100, pos_stop_loss_override = None,
     pos_stop_loss_override_notional = None, pos_liquidation_price = None,
     pos_liquidation_margin = sample_margin, pos_take_profit_trader = None,
     pos_take_profit_trader_notional = None, pos_take_profit_total = None\<rparr>"

lemma wf_sample_position: "wf_position sample_position"
  by (simp add: wf_position_def sample_position_def dec_lim_def dec_one_def)

text \<open>The price falls from 3.2 to 3: the position loses 60.\<close>

theorem settle_price_exposure_conserves_witness:
  "settle_price_exposure dec18 sample_position 3200000000000000000 sample_price_point (5 * dec_one)
     = Inr (MaybeOpen (sample_position\<lparr>pos_active_collateral := 40 * dec_one,
         pos_counter_collateral := 260 * dec_one\<rparr>), Signed (60 * dec_one) True)
   \<and> 5 * dec_one < 40 * dec_one"
proof -
  have *: "settle_price_exposure dec18 sample_position 3200000000000000000 sample_price_point (5 * dec_one)
     = Inr (MaybeOpen (sample_position\<lparr>pos_active_collateral := 40 * dec_one,
         pos_counter_collateral := 260 * dec_one\<rparr>), Signed (60 * dec_one) True)"
    by (simp add: settle_price_exposure_def get_price_exposure_def sample_position_def sample_price_point_def
        signed_checked_sub_def signed_checked_add_def number_checked_mul_def signed_defs Let_def
        signed_order_defs nz_checked_add_signed_def nz_checked_sub_signed_def try_from_signed_def dec18_eval)
  have "case MaybeOpen (sample_position\<lparr>pos_active_collateral := 40 * dec_one,
         pos_counter_collateral := 260 * dec_one\<rparr>) of
      MaybeOpen p' \<Rightarrow> 5 * dec_one < pos_active_collateral p' | MaybeClose i \<Rightarrow> True"
    using settle_price_exposure_conserves [OF d18.decimal256_axioms wf_sample_position _ _ _ *]
    by (simp add: dec_one_def dec_lim_def sample_price_point_def)
  with * show ?thesis by (simp add: sample_position_def)
qed

theorem liquidation_price_accurate_witness:
  "exposure_int sample_position (3 * dec_one) 2683333333333333334 \<le> - (95 * int dec_one) + 301"
proof -
  have l: "liquidation_price dec18 sample_position (3 * dec_one) (100 * dec_one) sample_margin
      = Some 2683333333333333334"
    by (simp add: liquidation_price_def lm_total_def sample_position_def sample_margin_def
        signed_checked_sub_def signed_checked_add_def number_checked_div_def signed_defs
        price_try_from_number_def nz_try_from_def dec18_eval)
  have t: "lm_total dec18 sample_margin = Inr (5 * dec_one)"
    by (simp add: lm_total_def sample_margin_def dec18_eval)
  have w: "wf_signed (pos_notional_size sample_position)"
    using wf_sample_position by (simp add: wf_position_def)
  show ?thesis
    using liquidation_price_accurate [OF d18.decimal256_axioms w _ _ l t]
    by (simp add: sample_position_def dec_one_def dec_lim_def)
qed

end
