(* ===== verification/DataSeries.thy ===== *)
theory DataSeries
  imports Prices
begin

text \<open>
  \<open>DataSeries\<close> of \<open>contracts/market/src/state/data_series.rs\<close>: a stored map from
  timestamps to a value and the prefix sum of all values before it. The abstraction
  \<open>value_at\<close> reads a series as a step function of time; the lemmas show that appending
  keeps the prefix sums exact and that \<open>sum\<close> is the sum of the step function over the
  nanoseconds of the interval.
\<close>

record DataPoint =
  dp_prefix_sum :: Number
  dp_value :: Number

type_synonym data_series = "(Timestamp, DataPoint) fmap"

definition ds_try_load_last :: "data_series \<Rightarrow> (Timestamp \<times> DataPoint) option" where
  "ds_try_load_last m = Option.bind (fm_last_where (\<lambda>_. True) m) (\<lambda>k. map_option (Pair k) (fmlookup m k))"

definition ds_append :: "dec256_api \<Rightarrow> data_series \<Rightarrow> Timestamp \<Rightarrow> Number \<Rightarrow> data_series res" where
  "ds_append D m time v =
     and_then (case ds_try_load_last m of
         None \<Rightarrow> Inr signed_zero
       | Some (last_time, data_point) \<Rightarrow>
           and_then (ts_checked_sub time last_time) (\<lambda>d.
           and_then (number_from_u128 D d) (\<lambda>elapsed.
           and_then (number_checked_mul D (dp_value data_point) elapsed) (\<lambda>elapsed_sum.
           signed_checked_add D (dp_prefix_sum data_point) elapsed_sum)))) (\<lambda>prefix_sum.
     Inr (fmupd time \<lparr>dp_prefix_sum = prefix_sum, dp_value = v\<rparr> m))"

text \<open>The prefix sum at a time at or after a data point.\<close>

definition ds_prefix_at :: "dec256_api \<Rightarrow> DataPoint \<Rightarrow> Timestamp \<Rightarrow> Timestamp \<Rightarrow> Number res" where
  "ds_prefix_at D p point_time t =
     and_then (ts_checked_sub t point_time) (\<lambda>d.
     and_then (number_from_u128 D d) (\<lambda>elapsed.
     and_then (number_checked_mul D (dp_value p) elapsed) (\<lambda>elapsed_sum.
     signed_checked_add D (dp_prefix_sum p) elapsed_sum)))"

definition ds_sum :: "dec256_api \<Rightarrow> data_series \<Rightarrow> Timestamp \<Rightarrow> Timestamp \<Rightarrow> Number res" where
  "ds_sum D m start end =
     and_then (ok_or (Option.bind (fm_last_where (\<lambda>k. k \<le> start) m) (\<lambda>k. map_option (Pair k) (fmlookup m k)))
       (Msg ''Unable to find entry for start time'')) (\<lambda>(start_time, start_point).
     and_then (ok_or (Option.bind (fm_last_where (\<lambda>k. k < end) m) (\<lambda>k. map_option (Pair k) (fmlookup m k)))
       (Msg ''Unable to find entry for end time'')) (\<lambda>(end_time, end_point).
     and_then (ds_prefix_at D start_point start_time start) (\<lambda>start_prefix_sum.
     and_then (ds_prefix_at D end_point end_time end) (\<lambda>end_prefix_sum.
     signed_checked_sub D end_prefix_sum start_prefix_sum))))"

section \<open>A series as a step function\<close>

definition value_at :: "data_series \<Rightarrow> Timestamp \<Rightarrow> int" where
  "value_at m t =
     (case Option.bind (fm_last_where (\<lambda>k. k \<le> t) m) (fmlookup m) of
        None \<Rightarrow> 0 | Some p \<Rightarrow> num (dp_value p))"

definition integral :: "data_series \<Rightarrow> Timestamp \<Rightarrow> Timestamp \<Rightarrow> int" where
  "integral m a b = (\<Sum>t = a..<b. value_at m t)"

definition wf_series_from :: "Timestamp \<Rightarrow> data_series \<Rightarrow> bool" where
  "wf_series_from t0 m \<longleftrightarrow> (\<forall>k p. fmlookup m k = Some p \<longrightarrow>
     t0 \<le> k \<and> wf_signed (dp_prefix_sum p) \<and> wf_signed (dp_value p)
     \<and> num (dp_prefix_sum p) = integral m t0 k)"

lemma value_at_const:
  assumes "fmlookup m k = Some p" "k \<le> t" "\<And>j. j \<in> fmdom' m \<Longrightarrow> k < j \<Longrightarrow> t < j"
  shows "value_at m t = num (dp_value p)"
proof -
  have "k \<in> fmdom' m" using assms(1) by (simp add: fmlookup_dom'_iff)
  moreover have "j \<le> k" if "j \<in> fmdom' m" "j \<le> t" for j
    using assms(3) [OF that(1)] that(2) by (meson not_le)
  ultimately have "fm_last_where (\<lambda>k. k \<le> t) m = Some k"
    using assms(2) by (auto simp: fm_last_where_Some)
  with assms(1) show ?thesis by (simp add: value_at_def)
qed

lemma integral_split: "a \<le> b \<Longrightarrow> b \<le> c \<Longrightarrow> integral m a c = integral m a b + integral m b c"
  by (simp add: integral_def sum.atLeastLessThan_concat)

lemma integral_const:
  assumes "fmlookup m k = Some p" "k \<le> t" "\<And>j. j \<in> fmdom' m \<Longrightarrow> k < j \<Longrightarrow> t \<le> j"
  shows "integral m k t = num (dp_value p) * int (t - k)"
proof -
  have "value_at m i = num (dp_value p)" if "i \<in> {k..<t}" for i
    using value_at_const [of m k p i] assms that by fastforce
  then show ?thesis by (simp add: integral_def)
qed

lemma value_at_upd:
  assumes "t < time"
  shows "value_at (fmupd time p m) t = value_at m t"
proof -
  have "fm_last_where (\<lambda>k. k \<le> t) (fmupd time p m) = fm_last_where (\<lambda>k. k \<le> t) m"
    using assms by (intro fm_last_where_upd) simp
  moreover have "fm_last_where (\<lambda>k. k \<le> t) m = Some k \<Longrightarrow> k \<noteq> time" for k
    using assms by (auto simp: fm_last_where_Some)
  ultimately show ?thesis
    by (cases "fm_last_where (\<lambda>k. k \<le> t) m") (auto simp: value_at_def)
qed

lemma integral_upd: "b \<le> time \<Longrightarrow> integral (fmupd time p m) a b = integral m a b"
  unfolding integral_def by (rule sum.cong) (auto simp: value_at_upd)

context decimal256
begin

lemma number_from_u128_Inr: "(number_from_u128 D n = Inr x)
    = (n * dec_one < dec_lim \<and> x = new_positive (n * dec_one))"
  by (auto simp: number_from_u128_def)

lemma ds_prefix_at_num:
  assumes "wf_signed (dp_prefix_sum p)" "wf_signed (dp_value p)" "ds_prefix_at D p k t = Inr r"
  shows "k \<le> t \<and> wf_signed r \<and> num r = num (dp_prefix_sum p) + num (dp_value p) * int (t - k)"
proof -
  obtain e s where e: "number_from_u128 D (t - k) = Inr e" and kt: "k \<le> t"
    and s: "number_checked_mul D (dp_value p) e = Inr s"
    and r: "signed_checked_add D (dp_prefix_sum p) s = Inr r"
    using assms(3) by (auto simp: ds_prefix_at_def)
  have e': "wf_signed e" "num e = int (t - k) * int dec_one"
    using e by (auto simp: number_from_u128_Inr)
  have "wf_signed s" "num s = (num (dp_value p) * num e) sdiv int dec_one"
    using s e' assms(2) by (auto simp: signed_mul_Inr)
  moreover have "(num (dp_value p) * num e) sdiv int dec_one = num (dp_value p) * int (t - k)"
    unfolding e'(2) by (simp add: num_def mult.assoc [symmetric] flip: of_nat_mult)
  ultimately show ?thesis
    using r assms(1) kt by (simp add: signed_add_Inr)
qed

lemma ds_append_as_prefix: "ds_append D m time v =
    and_then (case ds_try_load_last m of None \<Rightarrow> Inr signed_zero
        | Some (k, p) \<Rightarrow> ds_prefix_at D p k time) (\<lambda>s.
    Inr (fmupd time \<lparr>dp_prefix_sum = s, dp_value = v\<rparr> m))"
  by (simp add: ds_append_def ds_prefix_at_def split: option.splits)

lemma prefix_at_integral:
  assumes "wf_series_from t0 m" "fmlookup m k = Some p" "ds_prefix_at D p k t = Inr r"
    and "\<And>j. j \<in> fmdom' m \<Longrightarrow> k < j \<Longrightarrow> t \<le> j"
  shows "wf_signed r \<and> num r = integral m t0 t \<and> t0 \<le> t"
proof -
  have p: "t0 \<le> k" "wf_signed (dp_prefix_sum p)" "wf_signed (dp_value p)"
      "num (dp_prefix_sum p) = integral m t0 k"
    using assms(1,2) by (auto simp: wf_series_from_def)
  from ds_prefix_at_num [OF p(2,3) assms(3)] have kt: "k \<le> t" and "wf_signed r"
    and "num r = integral m t0 k + num (dp_value p) * int (t - k)" by (auto simp: p(4))
  then show ?thesis
    using integral_split [of t0 k t m] integral_const [OF assms(2) kt assms(4)] p(1) by auto
qed

lemma ds_append_wf:
  assumes wf: "wf_series_from t0 m" and v: "wf_signed v"
    and a: "ds_append D m time v = Inr m'"
  shows "wf_series_from (if m = fmempty then time else t0) m'"
proof -
  obtain s where s: "(case ds_try_load_last m of None \<Rightarrow> Inr signed_zero
        | Some (k, p) \<Rightarrow> ds_prefix_at D p k time) = Inr s"
    and m': "m' = fmupd time \<lparr>dp_prefix_sum = s, dp_value = v\<rparr> m"
    using a by (auto simp: ds_append_as_prefix)
  show ?thesis
  proof (cases "fm_last_where (\<lambda>_. True) m")
    case None
    then have "fmdom' m = {}" by (auto simp: fm_last_where_None)
    then have e: "m = fmempty" by (auto intro!: fmap_ext simp: fmlookup_dom'_iff)
    then have "s = signed_zero" using s None by (simp add: ds_try_load_last_def)
    then show ?thesis using v e m'
      by (auto simp: wf_series_from_def integral_def)
  next
    case (Some k)
    then obtain p where p: "fmlookup m k = Some p" using fm_last_where_lookup by blast
    have last: "\<forall>j\<in>fmdom' m. j \<le> k" using Some by (simp add: fm_last_where_Some)
    have sp: "ds_prefix_at D p k time = Inr s"
      using s Some p by (simp add: ds_try_load_last_def)
    then have kt: "k \<le> time" by (auto simp: ds_prefix_at_def)
    then have t: "t0 \<le> time" using wf p by (fastforce simp: wf_series_from_def)
    have "m \<noteq> fmempty" using p by auto
    moreover have "wf_signed s \<and> num s = integral m t0 time"
      using prefix_at_integral [OF wf p sp] last by fastforce
    moreover have "j \<le> time" if "fmlookup m j = Some q" for j q
      using last kt that by (auto simp: fmlookup_dom'_iff intro: order_trans)
    ultimately show ?thesis
      using wf v t by (auto simp: wf_series_from_def m' integral_upd)
  qed
qed

lemma ds_sum_integral:
  assumes wf: "wf_series_from t0 m" and s: "ds_sum D m start end = Inr r" and le: "start \<le> end"
  shows "wf_signed r \<and> num r = integral m start end"
proof -
  obtain ks ps ke pe a b where
    ks: "fm_last_where (\<lambda>k. k \<le> start) m = Some ks" "fmlookup m ks = Some ps"
    and ke: "fm_last_where (\<lambda>k. k < end) m = Some ke" "fmlookup m ke = Some pe"
    and a: "ds_prefix_at D ps ks start = Inr a" and b: "ds_prefix_at D pe ke end = Inr b"
    and r: "signed_checked_sub D b a = Inr r"
    using s by (auto simp: ds_sum_def bind_eq_Some_conv)
  have "\<And>j. j \<in> fmdom' m \<Longrightarrow> ks < j \<Longrightarrow> start \<le> j"
    using ks(1) by (fastforce simp: fm_last_where_Some)
  from prefix_at_integral [OF wf ks(2) a this]
  have A: "wf_signed a" "num a = integral m t0 start" "t0 \<le> start" by auto
  have "\<And>j. j \<in> fmdom' m \<Longrightarrow> ke < j \<Longrightarrow> end \<le> j"
    using ke(1) by (fastforce simp: fm_last_where_Some)
  from prefix_at_integral [OF wf ke(2) b this]
  have B: "wf_signed b" "num b = integral m t0 end" by auto
  show ?thesis
    using r A B integral_split [OF A(3) le, of m] by (simp add: signed_sub_Inr)
qed

end
section \<open>Properties\<close>

fun ds_append_all :: "dec256_api \<Rightarrow> data_series \<Rightarrow> (Timestamp \<times> Number) list \<Rightarrow> data_series res" where
  "ds_append_all D m [] = Inr m"
| "ds_append_all D m ((t, v) # rest) = and_then (ds_append D m t v) (\<lambda>m'. ds_append_all D m' rest)"

lemma ds_append_all_wf:
  assumes "decimal256 D" "ds_append_all D m xs = Inr m'" "wf_series_from t0 m"
    "\<forall>(t, v)\<in>set xs. wf_signed v"
  shows "\<exists>t1. wf_series_from t1 m'"
  using assms(2-)
proof (induction xs arbitrary: m t0)
  case (Cons x xs)
  obtain t v where x: "x = (t, v)" by (cases x)
  then obtain m1 where m1: "ds_append D m t v = Inr m1" and rest: "ds_append_all D m1 xs = Inr m'"
    using Cons.prems(1) by auto
  have "wf_signed v" using Cons.prems(3) x by auto
  from decimal256.ds_append_wf [OF assms(1) Cons.prems(2) this m1]
  show ?case using Cons.IH [OF rest] Cons.prems(3) by auto
qed auto

text \<open>The prefix sums are exact: on any series built by appending to the empty one, the sum
  between two times, when it is returned, is the sum of the step function the series describes over
  every nanosecond of the interval. Funding and borrow fees of a position are therefore the exact
  integral of the historical rates, whatever the times of the data points.\<close>

theorem data_series_sum_exact:
  assumes "decimal256 D" "ds_append_all D fmempty xs = Inr m" "\<forall>(t, v)\<in>set xs. wf_signed v"
    and "ds_sum D m start end = Inr r" "start \<le> end"
  shows "num r = (\<Sum>t = start..<end. value_at m t)"
proof -
  have "wf_series_from 0 fmempty" by (simp add: wf_series_from_def)
  then obtain t1 where "wf_series_from t1 m" using ds_append_all_wf assms(1-3) by blast
  from decimal256.ds_sum_integral [OF assms(1) this assms(4,5)]
  show ?thesis by (simp add: integral_def)
qed

lemma ds_append_last:
  assumes "ds_append D m time v = Inr m'"
  shows "\<forall>k\<in>fmdom' m. k \<le> time"
proof (cases "fm_last_where (\<lambda>_. True) m")
  case None
  then show ?thesis by (simp add: fm_last_where_None)
next
  case (Some k)
  then obtain p where "fmlookup m k = Some p" using fm_last_where_lookup by blast
  with Some assms have "k \<le> time" by (auto simp: ds_append_def ds_try_load_last_def)
  with Some show ?thesis by (auto simp: fm_last_where_Some intro: order_trans)
qed

lemma ds_append_value:
  assumes "ds_append D m time v = Inr m'"
  shows "value_at m' t = (if t < time then value_at m t else num v)"
proof -
  obtain s where m': "m' = fmupd time \<lparr>dp_prefix_sum = s, dp_value = v\<rparr> m"
    using assms by (auto simp: ds_append_def)
  show ?thesis
  proof (cases "t < time")
    case True
    then show ?thesis by (simp add: m' value_at_upd)
  next
    case False
    then have "fm_last_where (\<lambda>k. k \<le> t) m' = Some time"
      using ds_append_last [OF assms] m' by (auto simp: fm_last_where_Some)
    with False show ?thesis by (simp add: value_at_def m')
  qed
qed

text \<open>C22: Appending a value to a series that was built by appending changes the described step function only from
  the time of the append on, where it becomes the new value; the past is untouched, and an append before the last data
  point is an error. The prefix sum of every data point of the new series, the appended one included, is the sum of the
  step function from the first point on, and whatever interval is asked for, the sum the new series returns is the sum
  of the old step function before the time of the append and of the new value from then on.\<close>

theorem data_series_append_refines:
  assumes "decimal256 D" "ds_append_all D fmempty xs = Inr m" "\<forall>(t, v)\<in>set xs. wf_signed v" "wf_signed v"
    and "ds_append D m time v = Inr m'"
  shows "value_at m' t = (if t < time then value_at m t else num v) \<and> (\<forall>k\<in>fmdom' m. k \<le> time)
    \<and> (\<exists>t0. \<forall>k p. fmlookup m' k = Some p \<longrightarrow> t0 \<le> k \<and> num (dp_prefix_sum p) = (\<Sum>i = t0..<k. value_at m' i))
    \<and> (\<forall>start end r. start \<le> end \<longrightarrow> ds_sum D m' start end = Inr r \<longrightarrow>
         num r = (\<Sum>i = start..<end. if i < time then value_at m i else num v))"
proof -
  have "wf_series_from 0 fmempty" by (simp add: wf_series_from_def)
  then obtain t1 where "wf_series_from t1 m" using ds_append_all_wf assms(1-3) by blast
  from decimal256.ds_append_wf [OF assms(1) this assms(4,5)]
  obtain t0 where wf: "wf_series_from t0 m'" by blast
  have "num r = (\<Sum>i = start..<end. if i < time then value_at m i else num v)"
    if "start \<le> end" "ds_sum D m' start end = Inr r" for start "end" r
    using decimal256.ds_sum_integral [OF assms(1) wf that(2,1)]
    by (simp add: integral_def ds_append_value [OF assms(5)])
  moreover have "\<forall>k p. fmlookup m' k = Some p \<longrightarrow> t0 \<le> k \<and> num (dp_prefix_sum p) = (\<Sum>i = t0..<k. value_at m' i)"
    using wf by (simp add: wf_series_from_def integral_def)
  ultimately show ?thesis using ds_append_last [OF assms(5)] ds_append_value [OF assms(5)] by blast
qed

definition sample_series :: data_series where
  "sample_series = fmupd 20 \<lparr>dp_prefix_sum = Signed 30 False, dp_value = Signed 5 False\<rparr>
     (fmupd 10 \<lparr>dp_prefix_sum = signed_zero, dp_value = Signed 3 False\<rparr> fmempty)"

lemma sample_last: "fm_last_where P sample_series
    = (if P 20 then Some 20 else if P 10 then Some 10 else None)"
proof -
  have "fm_last_where P sample_series = Some 20" if "P 20"
    using that by (auto simp: fm_last_where_Some sample_series_def)
  moreover have "fm_last_where P sample_series = Some 10" if "P 10" "\<not> P 20"
    using that by (auto simp: fm_last_where_Some sample_series_def)
  moreover have "fm_last_where P sample_series = None" if "\<not> P 10" "\<not> P 20"
    using that by (auto simp: fm_last_where_None sample_series_def)
  ultimately show ?thesis by auto
qed

lemma sample_series_built:
  "ds_append_all dec18 fmempty [(10, Signed 3 False), (20, Signed 5 False)] = Inr sample_series"
proof -
  let ?m1 = "fmupd 10 \<lparr>dp_prefix_sum = signed_zero, dp_value = Signed 3 False\<rparr> (fmempty :: data_series)"
  have "fm_last_where (\<lambda>_. True) (fmempty :: data_series) = None" by (simp add: fm_last_where_None)
  moreover have "fm_last_where (\<lambda>_. True) ?m1 = Some 10" by (auto simp: fm_last_where_Some)
  ultimately show ?thesis
    by (simp add: ds_append_def ds_try_load_last_def sample_series_def number_from_u128_def
        number_checked_mul_def signed_checked_add_def signed_zero_def signed_defs dec18_eval)
qed

lemma sample_sum: "ds_sum dec18 sample_series 15 22 = Inr (Signed 25 False)"
proof -
  have l: "fmlookup sample_series 10 = Some \<lparr>dp_prefix_sum = signed_zero, dp_value = Signed 3 False\<rparr>"
      "fmlookup sample_series 20 = Some \<lparr>dp_prefix_sum = Signed 30 False, dp_value = Signed 5 False\<rparr>"
    by (simp_all add: sample_series_def)
  have a: "ds_prefix_at dec18 \<lparr>dp_prefix_sum = signed_zero, dp_value = Signed 3 False\<rparr> 10 15
      = Inr (Signed 15 False)"
    by (simp add: ds_prefix_at_def number_from_u128_def number_checked_mul_def signed_checked_add_def
        signed_zero_def signed_defs dec18_eval)
  have b: "ds_prefix_at dec18 \<lparr>dp_prefix_sum = Signed 30 False, dp_value = Signed 5 False\<rparr> 20 22
      = Inr (Signed 40 False)"
    by (simp add: ds_prefix_at_def number_from_u128_def number_checked_mul_def signed_checked_add_def
        signed_defs dec18_eval)
  have "signed_checked_sub dec18 (Signed 40 False) (Signed 15 False) = Inr (Signed 25 False)"
    by (simp add: signed_checked_sub_def signed_checked_add_def signed_defs dec18_eval)
  then show ?thesis by (simp add: ds_sum_def sample_last l a b)
qed

theorem data_series_sum_exact_witness:
  "ds_sum dec18 sample_series 15 22 = Inr (Signed 25 False)
   \<and> (\<Sum>t = 15..<22. value_at sample_series t) = 25"
proof -
  have "num (Signed 25 False) = (\<Sum>t = 15..<22. value_at sample_series t)"
    by (rule data_series_sum_exact [OF d18.decimal256_axioms sample_series_built _ sample_sum])
      (simp_all add: wf_signed_def dec_lim_def)
  then show ?thesis by (simp add: num_def sample_sum)
qed

theorem data_series_append_refines_witness:
  "value_at sample_series 25 = 5 \<and> value_at sample_series 15 = 3
   \<and> (\<exists>r. ds_sum dec18 sample_series 15 22 = Inr r \<and> num r = 25)"
proof -
  let ?m1 = "fmupd 10 \<lparr>dp_prefix_sum = signed_zero, dp_value = Signed 3 False\<rparr> (fmempty :: data_series)"
  have b: "ds_append_all dec18 fmempty [(10, Signed 3 False)] = Inr ?m1"
    by (simp add: ds_append_def ds_try_load_last_def fm_last_where_None)
  have "fm_last_where (\<lambda>_. True) ?m1 = Some 10" by (auto simp: fm_last_where_Some)
  then have a: "ds_append dec18 ?m1 20 (Signed 5 False) = Inr sample_series"
    by (simp add: ds_append_def ds_try_load_last_def sample_series_def number_from_u128_def
        number_checked_mul_def signed_checked_add_def signed_zero_def signed_defs dec18_eval)
  have "value_at ?m1 i = 3" if "10 \<le> i" for i
    using value_at_const [of ?m1 10 "\<lparr>dp_prefix_sum = signed_zero, dp_value = Signed 3 False\<rparr>" i] that
    by (simp add: num_def)
  then have "(\<Sum>i = 15..<22. if i < 20 then value_at ?m1 i else num (Signed 5 False)) = (25 :: int)"
    "value_at ?m1 15 = 3"
    by (simp_all add: num_def numeral_eq_Suc)
  moreover have w: "\<forall>(t, v)\<in>set [(10 :: Timestamp, Signed 3 False)]. wf_signed v" "wf_signed (Signed 5 False)"
    by (simp_all add: wf_signed_def dec_lim_def)
  moreover have "num (Signed 25 False) = (\<Sum>i = 15..<22. if i < 20 then value_at ?m1 i else num (Signed 5 False))"
    using data_series_append_refines [OF d18.decimal256_axioms b w a, THEN conjunct2, THEN conjunct2, THEN conjunct2,
        rule_format, OF _ sample_sum] by simp
  moreover have "value_at sample_series i = (if i < 20 then value_at ?m1 i else num (Signed 5 False))" for i
    using data_series_append_refines [OF d18.decimal256_axioms b w a] by blast
  ultimately show ?thesis using sample_sum by (simp add: num_def)
qed

end
