(* ===== verification/MarketData.thy ===== *)
theory MarketData
  imports Positions DataSeries "HOL-Library.Product_Lexorder"
begin

text \<open>
  The data of the trading side of the market: slippage limits, trade history, position tokens,
  limit orders, deferred execution and crank work, following
  \<open>packages/perpswap/src/contracts/market/{entry,order,deferred_execution,crank}.rs\<close> and the
  storage items of \<open>contracts/market/src/state/{position,order,deferred_execution,crank}.rs\<close>,
  \<open>state/position/cw721.rs\<close>, \<open>state/history/trade.rs\<close> and \<open>state/liquidity/cw20.rs\<close>.
  A map with unit values keeps its keys as a finite map to \<open>unit\<close>. The \<open>Expiration\<close> of the
  \<open>cw_utils\<close> crate is opaque: a number that names the value.
\<close>

section \<open>Histories\<close>

text \<open>\<open>push_to_monotonic_multilevel_map\<close> of \<open>packages/perpswap/src/storage.rs\<close>: the entries of a
  key are numbered from zero.\<close>

definition push_to_monotonic :: "'k::linorder \<Rightarrow> 'v \<Rightarrow> ('k \<times> u64, 'v) fmap \<Rightarrow> (u64 \<times> ('k \<times> u64, 'v) fmap) res" where
  "push_to_monotonic k v m =
     and_then (case fm_last_where (\<lambda>(a, _). a = k) m of None \<Rightarrow> Inr 0 | Some (_, i) \<Rightarrow> u64_add i 1) (\<lambda>i.
     Inr (i, fmupd (k, i) v m))"

section \<open>Requests\<close>

type_synonym OrderId = nat
type_synonym DeferredExecId = nat
type_synonym Expiration = nat

record SlippageAssert =
  sa_price :: PriceBaseInQuote
  sa_tolerance :: Number

datatype StopLossRequest = StopLossRemove | StopLossPrice PriceBaseInQuote

section \<open>Trade history\<close>

record TradeHistorySummary =
  ths_trade_volume :: Usd
  ths_realized_pnl :: Signed

datatype PositionActionKind = ActionOpen | ActionUpdate | ActionClose | ActionTransfer

record PositionAction =
  pa_id :: "PositionId option"
  pa_kind :: PositionActionKind
  pa_timestamp :: Timestamp
  pa_price_timestamp :: "Timestamp option"
  pa_collateral :: Collateral
  pa_transfer_collateral :: Signed
  pa_leverage :: "LeverageToBase option"
  pa_max_gains :: "MaxGainsInQuote option"
  pa_trade_fee :: "Usd option"
  pa_delta_neutrality_fee :: "Signed option"
  pa_old_owner :: "Addr option"
  pa_new_owner :: "Addr option"
  pa_take_profit_trader :: "TakeProfitTrader option"
  pa_stop_loss_override :: "PriceBaseInQuote option"

record TradeHistoryState =
  th_summary :: "(Addr, TradeHistorySummary) fmap"
  th_by_position :: "(PositionId \<times> u64, PositionAction) fmap"
  th_by_address :: "(Addr \<times> u64, PositionAction) fmap"

section \<open>Positions\<close>

record PositionsState =
  open_positions :: "(PositionId, Position) fmap"
  last_position_id :: PositionId
  price_trigger_desc :: "(Price \<times> PositionId, LiquidationReason) fmap"
  price_trigger_asc :: "(Price \<times> PositionId, LiquidationReason) fmap"
  next_liquifunding :: "(Timestamp \<times> PositionId, unit) fmap"
  closed_position_history :: "(Addr \<times> Timestamp \<times> PositionId, ClosedPosition) fmap"
  closed_positions :: "(PositionId, ClosedPosition) fmap"

datatype PositionSaveReason =
    SaveOpenMarket | SaveUpdate | SaveCrank | SaveExecuteLimitOrder | SaveSetTrigger

section \<open>Position tokens\<close>

record Approval =
  ap_spender :: Addr
  ap_expires :: Expiration

record NftState =
  nft_approvals :: "(PositionId, Approval list) fmap"
  nft_operators :: "(Addr \<times> Addr, Expiration) fmap"
  nft_count :: nat
  nft_owners :: "(Addr \<times> PositionId, unit) fmap"
  nft_ids :: "(PositionId, unit) fmap"

section \<open>Limit orders\<close>

record LimitOrder =
  lo_order_id :: OrderId
  lo_owner :: Addr
  lo_trigger_price :: PriceBaseInQuote
  lo_collateral :: NonZero
  lo_leverage :: LeverageToBase
  lo_direction :: DirectionToNotional
  lo_max_gains :: "MaxGainsInQuote option"
  lo_stop_loss_override :: "PriceBaseInQuote option"
  lo_take_profit :: "TakeProfitTrader option"
  lo_crank_fee_collateral :: Collateral
  lo_crank_fee_usd :: Usd

datatype LimitOrderResult = OrderSuccess PositionId | OrderFailure error

record ExecutedLimitOrder =
  el_order :: LimitOrder
  el_result :: LimitOrderResult
  el_timestamp :: Timestamp

record OrdersState =
  last_order_id :: "OrderId option"
  limit_orders :: "(OrderId, LimitOrder) fmap"
  orders_by_price_long :: "(Price \<times> OrderId, unit) fmap"
  orders_by_price_short :: "(Price \<times> OrderId, unit) fmap"
  orders_by_addr :: "(Addr \<times> OrderId, unit) fmap"
  executed_limit_orders :: "(Addr \<times> u64, ExecutedLimitOrder) fmap"

section \<open>Deferred execution\<close>

datatype DeferredExecItem =
    OpenPosition "SlippageAssert option" LeverageToBase DirectionToBase
      "MaxGainsInQuote option" "PriceBaseInQuote option" "TakeProfitTrader option" NonZero Collateral Usd
  | UpdatePositionAddCollateralImpactLeverage PositionId NonZero
  | UpdatePositionAddCollateralImpactSize PositionId "SlippageAssert option" NonZero
  | UpdatePositionRemoveCollateralImpactLeverage PositionId NonZero
  | UpdatePositionRemoveCollateralImpactSize PositionId NonZero "SlippageAssert option"
  | UpdatePositionLeverage PositionId LeverageToBase "SlippageAssert option"
  | UpdatePositionMaxGains PositionId MaxGainsInQuote
  | UpdatePositionTakeProfitPrice PositionId TakeProfitTrader
  | UpdatePositionStopLossPrice PositionId StopLossRequest
  | ClosePosition PositionId "SlippageAssert option"
  | SetTriggerOrder PositionId "PriceBaseInQuote option" "TakeProfitTrader option"
  | PlaceLimitOrder PriceBaseInQuote LeverageToBase DirectionToBase "MaxGainsInQuote option"
      "PriceBaseInQuote option" "TakeProfitTrader option" NonZero Collateral Usd
  | CancelLimitOrder OrderId

datatype DeferredExecTarget = TargetDoesNotExist | TargetPosition PositionId | TargetOrder OrderId

datatype DeferredExecCompleteTarget = CompletePosition PositionId | CompleteOrder OrderId

datatype DeferredExecStatus =
    DeferredPending
  | DeferredSuccess DeferredExecCompleteTarget Timestamp
  | DeferredFailure error Timestamp "PricePoint option"

record DeferredExecWithStatus =
  de_id :: DeferredExecId
  de_created :: Timestamp
  de_status :: DeferredExecStatus
  de_owner :: Addr
  de_item :: DeferredExecItem

record DeferredExecLatestIds =
  dl_issued :: DeferredExecId
  dl_processed :: "DeferredExecId option"

record DeferredState =
  deferred_latest_ids :: "DeferredExecLatestIds option"
  deferred_execs :: "(DeferredExecId, DeferredExecWithStatus) fmap"
  deferred_by_wallet :: "(Addr \<times> DeferredExecId, unit) fmap"
  pending_for_position :: "(PositionId \<times> DeferredExecId, unit) fmap"
  pending_for_order :: "(OrderId \<times> DeferredExecId, unit) fmap"
  limit_order_canceling :: "(OrderId, unit) fmap"
  position_closing :: "(PositionId, unit) fmap"

definition item_target :: "DeferredExecItem \<Rightarrow> DeferredExecTarget" where
  "item_target item = (case item of
       OpenPosition _ _ _ _ _ _ _ _ _ \<Rightarrow> TargetDoesNotExist
     | UpdatePositionAddCollateralImpactLeverage i _ \<Rightarrow> TargetPosition i
     | UpdatePositionAddCollateralImpactSize i _ _ \<Rightarrow> TargetPosition i
     | UpdatePositionRemoveCollateralImpactLeverage i _ \<Rightarrow> TargetPosition i
     | UpdatePositionRemoveCollateralImpactSize i _ _ \<Rightarrow> TargetPosition i
     | UpdatePositionLeverage i _ _ \<Rightarrow> TargetPosition i
     | UpdatePositionMaxGains i _ \<Rightarrow> TargetPosition i
     | UpdatePositionTakeProfitPrice i _ \<Rightarrow> TargetPosition i
     | UpdatePositionStopLossPrice i _ \<Rightarrow> TargetPosition i
     | ClosePosition i _ \<Rightarrow> TargetPosition i
     | SetTriggerOrder i _ _ \<Rightarrow> TargetPosition i
     | PlaceLimitOrder _ _ _ _ _ _ _ _ _ \<Rightarrow> TargetDoesNotExist
     | CancelLimitOrder i \<Rightarrow> TargetOrder i)"

definition deposited_amount :: "DeferredExecItem \<Rightarrow> Collateral" where
  "deposited_amount item = (case item of
       OpenPosition _ _ _ _ _ _ amount _ _ \<Rightarrow> amount
     | UpdatePositionAddCollateralImpactLeverage _ amount \<Rightarrow> amount
     | UpdatePositionAddCollateralImpactSize _ _ amount \<Rightarrow> amount
     | PlaceLimitOrder _ _ _ _ _ _ amount _ _ \<Rightarrow> amount
     | _ \<Rightarrow> 0)"

section \<open>Crank work\<close>

datatype CrankWorkInfo =
    WorkCloseAllPositions PositionId
  | WorkResetLpBalances
  | WorkLiquifunding PositionId
  | WorkLiquidation PositionId LiquidationReason
  | WorkDeferredExec DeferredExecId DeferredExecTarget
  | WorkLimitOrder OrderId
  | WorkCompleted

definition receives_crank_rewards :: "CrankWorkInfo \<Rightarrow> bool" where
  "receives_crank_rewards w = (case w of
       WorkCloseAllPositions _ \<Rightarrow> False | WorkResetLpBalances \<Rightarrow> False | WorkCompleted \<Rightarrow> False
     | WorkLiquifunding _ \<Rightarrow> True | WorkLiquidation _ _ \<Rightarrow> True | WorkDeferredExec _ _ \<Rightarrow> True
     | WorkLimitOrder _ \<Rightarrow> True)"

record CrankProgress =
  cr_weight_budget_left :: nat
  cr_paying_work_done :: nat
  cr_requested :: nat
  cr_rewards :: Addr
  cr_actual :: "(CrankWorkInfo \<times> PricePoint) list"

record CrankState =
  last_crank_completed :: "Timestamp option"
  crank_batch :: "CrankProgress option"

text \<open>The bound on the limit of a query for a list.\<close>

definition QUERY_MAX_LIMIT :: nat where
  "QUERY_MAX_LIMIT = 1000"

section \<open>Liquidity token allowances\<close>

datatype LiquidityTokenKind = KindLp | KindXlp

record AllowanceResponse =
  al_allowance :: nat
  al_expires :: Expiration

text \<open>\<open>Cw20ReceiveMsg\<close>: what a token contract tells the receiver of a \<open>Send\<close>.\<close>

record Cw20ReceiveMsg =
  rc_sender :: Addr
  rc_amount :: nat
  rc_msg :: string

record AllowanceState =
  lp_allowances :: "(Addr \<times> Addr, AllowanceResponse) fmap"
  lp_allowances_spender :: "(Addr \<times> Addr, AllowanceResponse) fmap"
  xlp_allowances :: "(Addr \<times> Addr, AllowanceResponse) fmap"
  xlp_allowances_spender :: "(Addr \<times> Addr, AllowanceResponse) fmap"

section \<open>Position events\<close>

record PositionCollaterals =
  pc_deposit_collateral :: Signed
  pc_deposit_collateral_usd :: Signed
  pc_active_collateral :: NonZero
  pc_counter_collateral :: NonZero

record PositionTradingFee =
  ptf_trading_fee :: Collateral
  ptf_trading_fee_usd :: Usd

record PositionAttributes =
  pat_pos_id :: PositionId
  pat_owner :: Addr
  pat_collaterals :: PositionCollaterals
  pat_market_type :: MarketType
  pat_notional_size :: Signed
  pat_notional_size_in_collateral :: Signed
  pat_notional_size_usd :: Signed
  pat_trading_fee :: PositionTradingFee
  pat_direction :: DirectionToBase
  pat_leverage :: LeverageToBase
  pat_counter_leverage :: LeverageToBase
  pat_stop_loss_override :: "PriceBaseInQuote option"
  pat_take_profit_trader :: "TakeProfitTrader option"

record PositionUpdateData =
  pu_attributes :: PositionAttributes
  pu_deposit_collateral_delta :: Signed
  pu_deposit_collateral_delta_usd :: Signed
  pu_active_collateral_delta :: Signed
  pu_active_collateral_delta_usd :: Signed
  pu_counter_collateral_delta :: Signed
  pu_counter_collateral_delta_usd :: Signed
  pu_leverage_delta :: Number
  pu_counter_leverage_delta :: Number
  pu_notional_size_delta :: Signed
  pu_notional_size_delta_usd :: Signed
  pu_notional_size_abs_delta :: Signed
  pu_notional_size_abs_delta_usd :: Signed
  pu_trading_fee_delta :: Collateral
  pu_trading_fee_delta_usd :: Usd
  pu_delta_neutrality_fee_delta :: Signed
  pu_delta_neutrality_fee_delta_usd :: Signed
  pu_updated_at :: Timestamp

definition calculate_position_collaterals :: "Position \<Rightarrow> PositionCollaterals" where
  "calculate_position_collaterals p =
     \<lparr>pc_deposit_collateral = scu_collateral (pos_deposit_collateral p),
      pc_deposit_collateral_usd = scu_usd (pos_deposit_collateral p),
      pc_active_collateral = pos_active_collateral p, pc_counter_collateral = pos_counter_collateral p\<rparr>"

section \<open>Empty storage\<close>

text \<open>The trading side of a market before any item is written.\<close>

definition positions_empty :: PositionsState where
  "positions_empty = \<lparr>open_positions = fmempty, last_position_id = 0, price_trigger_desc = fmempty,
     price_trigger_asc = fmempty, next_liquifunding = fmempty, closed_position_history = fmempty,
     closed_positions = fmempty\<rparr>"

definition trades_empty :: TradeHistoryState where
  "trades_empty = \<lparr>th_summary = fmempty, th_by_position = fmempty, th_by_address = fmempty\<rparr>"

definition nft_empty :: NftState where
  "nft_empty = \<lparr>nft_approvals = fmempty, nft_operators = fmempty, nft_count = 0, nft_owners = fmempty,
     nft_ids = fmempty\<rparr>"

definition orders_empty :: OrdersState where
  "orders_empty = \<lparr>last_order_id = None, limit_orders = fmempty, orders_by_price_long = fmempty,
     orders_by_price_short = fmempty, orders_by_addr = fmempty, executed_limit_orders = fmempty\<rparr>"

definition deferred_empty :: DeferredState where
  "deferred_empty = \<lparr>deferred_latest_ids = None, deferred_execs = fmempty, deferred_by_wallet = fmempty,
     pending_for_position = fmempty, pending_for_order = fmempty, limit_order_canceling = fmempty,
     position_closing = fmempty\<rparr>"

definition crank_empty :: CrankState where
  "crank_empty = \<lparr>last_crank_completed = None, crank_batch = None\<rparr>"

definition allowances_empty :: AllowanceState where
  "allowances_empty = \<lparr>lp_allowances = fmempty, lp_allowances_spender = fmempty, xlp_allowances = fmempty,
     xlp_allowances_spender = fmempty\<rparr>"

lemmas empty_storage = positions_empty_def trades_empty_def nft_empty_def orders_empty_def deferred_empty_def
  crank_empty_def allowances_empty_def

end
