(* ===== verification/MarketState.thy ===== *)
theory MarketState
  imports MarketData
begin

text \<open>
  The state of the market contract: \<open>State\<close> and \<open>StateContext\<close> of
  \<open>contracts/market/src/state.rs\<close>. \<open>Env\<close> holds what a call reads besides the
  storage (block time, configuration, market identifier, and the answers of the factory contract,
  which are parameters, the address of the contract, the value of the standard library's hasher the
  liquifunding schedule draws from, and the judgement of the opaque expirations). \<open>Ctx\<close> holds the storage items the modelled components use, the
  events of the response and the transfers collected for its messages. A stored \<open>Map\<close> is a
  finite map, an \<open>Item\<close> that is always present is a field, one that may be absent an option.
  The data types of the items follow the files that declare them.
\<close>

section \<open>Liquidity data\<close>

record LiquidityStats =
  locked :: Collateral
  unlocked :: Collateral
  total_lp :: LpToken
  total_xlp :: LpToken

record YieldPerToken =
  ypt_lp :: Collateral
  ypt_xlp :: Collateral

record UnstakingXlp =
  xlp_amount :: NonZero
  collected :: LpToken
  unstake_started :: Timestamp
  unstake_duration :: Duration
  last_collected :: Timestamp

record LiquidityStatsByAddr =
  addr_lp :: LpToken
  addr_xlp :: LpToken
  last_accrue_key :: u64
  lp_accrued_yield :: Collateral
  xlp_accrued_yield :: Collateral
  crank_rewards :: Collateral
  referrer_rewards :: Collateral
  unstaking :: "UnstakingXlp option"
  cooldown_ends :: "Timestamp option"

datatype ResetLpStatus = ResetBegin | ResetLastSaw Addr

record LpAndXlp =
  la_lp :: Collateral
  la_xlp :: Collateral

section \<open>Provider history\<close>

record LpHistorySummary =
  hs_deposit :: Collateral
  hs_deposit_usd :: Usd
  hs_yield :: Collateral
  hs_yield_usd :: Usd

datatype LpActionKind =
    DepositLp | DepositXlp | ReinvestYieldLp | ReinvestYieldXlp
  | UnstakeXlp | CollectLp | Withdraw | ClaimYield

record LpAction =
  act_kind :: LpActionKind
  act_timestamp :: Timestamp
  act_tokens :: "LpToken option"
  act_collateral :: Collateral
  act_collateral_usd :: Usd

section \<open>Fees, prices and referrals\<close>

record Fees =
  fees_wallets :: Collateral
  fees_protocol :: Collateral
  fees_crank :: Collateral
  fees_referral :: Collateral

record PriceStorage =
  ps_price :: Price
  ps_price_usd :: PriceCollateralInUsd
  ps_price_base :: PriceBaseInQuote
  ps_publish_time :: "Timestamp option"
  ps_publish_time_usd :: "Timestamp option"
  ps_block_time :: "Timestamp option"

record ReferralStats =
  rs_generated :: CollateralAndUsd
  rs_received :: CollateralAndUsd

section \<open>Events\<close>

datatype TradeId = TradePosition PositionId | TradeLimitOrder OrderId | TradeDeferred DeferredExecId

datatype FeeSource = FeeTrading | FeeBorrow | FeeDeltaNeutrality

datatype FeeType =
    FeeTypeOverall | FeeTypeBorrow | FeeTypeDeltaNeutrality | FeeTypeFunding
  | FeeTypeFundingTotal | FeeTypeCrank

datatype DeltaNeutralityFeeReason = DnfPositionOpen | DnfPositionUpdate | DnfPositionClose

record FeeEventData =
  fe_trade_id :: TradeId
  fe_fee_source :: FeeSource
  fe_lp_amount :: Collateral
  fe_lp_amount_usd :: Usd
  fe_xlp_amount :: Collateral
  fe_xlp_amount_usd :: Usd
  fe_protocol_amount :: Collateral
  fe_protocol_amount_usd :: Usd

record InsufficientMarginData =
  im_pos :: PositionId
  im_fee_type :: FeeType
  im_available :: Signed
  im_requested :: Signed

record PoolSizeData =
  psz_locked :: Collateral
  psz_locked_usd :: Usd
  psz_unlocked :: Collateral
  psz_unlocked_usd :: Usd
  psz_lp_collateral :: Collateral
  psz_xlp_collateral :: Collateral
  psz_total_lp :: LpToken
  psz_total_xlp :: LpToken

datatype PositionEvent =
    PositionSaveEvent PositionId PositionSaveReason
  | PositionOpenEvent PositionAttributes Timestamp Timestamp
  | PositionUpdateEvent PositionUpdateData
  | PositionCloseEvent ClosedPosition
  | PositionActionEvent PositionId PositionAction

datatype NftEvent =
    NftMint Addr PositionId
  | NftBurn PositionId
  | NftTransfer Addr PositionId
  | NftApproval Addr PositionId Expiration
  | NftRevoke Addr PositionId
  | NftApproveAll Addr Expiration
  | NftRevokeAll Addr

datatype OrderEvent =
    PlaceLimitOrderEvent LimitOrder DirectionToBase NonZero
  | CancelLimitOrderEvent OrderId
  | ExecuteLimitOrderEvent OrderId "PositionId option" "error option"

datatype WorkEvent =
    DeferredExecQueuedEvent DeferredExecId DeferredExecTarget Addr
  | DeferredExecExecutedEvent DeferredExecId DeferredExecTarget Addr bool "error option"
  | CrankWorkInfoEvent CrankWorkInfo PricePoint
  | CrankExecBatchEvent nat nat "(CrankWorkInfo \<times> PricePoint) list"

datatype TokenEvent =
    TokenTransferEvent Addr Addr nat "Addr option"
  | TokenSendEvent Addr Addr nat "Addr option"
  | AllowanceChangeEvent bool Addr Addr nat "Expiration option"

datatype MarketEvent =
    LiquidityPoolSizeEvent PoolSizeData
  | DeltaNeutralityRatioEvent Collateral Notional Notional Signed Price Signed
  | DepositEvent NonZero NonZero NonZero
  | WithdrawEvent NonZero NonZero NonZero
  | LockEvent NonZero
  | UnlockEvent NonZero
  | LockUpdateEvent Signed
  | LpActionEvent Addr LpAction u64
  | LpDepositEvent Collateral Usd
  | LpYieldEvent Addr Collateral Usd
  | FeeEvent FeeEventData
  | InsufficientMarginEvent InsufficientMarginData
  | CrankFeeEvent TradeId Collateral Usd Collateral Collateral
  | CrankFeeEarnedEvent Addr NonZero NonZero
  | FeesReturnedEvent Addr NonZero NonZero
  | ReferralRewardEvent Addr Addr NonZero Usd
  | FundingPaymentEvent PositionId Signed Signed DirectionToBase
  | FundingRateChangeEvent Timestamp Number Number
  | BorrowFeeChangeEvent Timestamp Decimal256 Decimal256 Decimal256
  | DeltaNeutralityFeeEvent Signed Collateral Collateral DeltaNeutralityFeeReason Collateral
  | SpotPriceEvent Timestamp PriceCollateralInUsd Price PriceBaseInQuote
  | TradeVolumeEvent Usd
  | PnlEvent Signed Signed
  | PositionEvent PositionEvent
  | NftEvent NftEvent
  | OrderEvent OrderEvent
  | WorkEvent WorkEvent
  | TokenEvent TokenEvent

section \<open>The state\<close>

record Env =
  env_now :: Timestamp
  env_config :: Config
  env_market_id :: MarketId
  env_referrer_for :: "Addr \<Rightarrow> Addr option res"
  env_dao_addr :: "Addr res"
  env_contract_addr :: Addr
  env_semi_random :: "Timestamp \<Rightarrow> Addr \<Rightarrow> PositionId \<Rightarrow> nat"
  env_is_expired :: "Expiration \<Rightarrow> bool"
  env_expires_never :: Expiration
  env_addr_validate :: addr_api
  env_liquidity_token_addr :: "LiquidityTokenKind \<Rightarrow> Addr res"

record Ctx =
  liquidity_stats :: LiquidityStats
  stats_by_addr :: "(Addr, LiquidityStatsByAddr) fmap"
  reset_lp_status :: "ResetLpStatus option"
  yield_per_time_per_token :: "(u64, YieldPerToken) fmap"
  lp_history_summary :: "(Addr, LpHistorySummary) fmap"
  lp_history_by_address :: "(Addr \<times> u64, LpAction) fmap"
  all_fees :: Fees
  referral_stats_map :: "(Addr, ReferralStats) fmap"
  prices :: "(Timestamp, PriceStorage) fmap"
  open_long_interest :: Notional
  open_short_interest :: Notional
  lp_borrow_fee_series :: data_series
  xlp_borrow_fee_series :: data_series
  long_rf_series :: data_series
  short_rf_series :: data_series
  total_net_funding_paid :: Signed
  total_funding_margin :: Collateral
  delta_neutrality_fund :: "Collateral option"
  events :: "MarketEvent list"
  fund_transfers :: "(Addr, NonZero) fmap"
  pos_st :: PositionsState
  trade_st :: TradeHistoryState
  nft_st :: NftState
  order_st :: OrdersState
  deferred_st :: DeferredState
  crank_st :: CrankState
  allowance_st :: AllowanceState
  closing_all_positions :: bool
  deferred_submessages :: "(DeferredExecId \<times> Timestamp) list"
  receive_submessages :: "(Addr \<times> Cw20ReceiveMsg) list"

text \<open>\<open>ResponseBuilder::add_event\<close>: nothing is recorded when events are muted.\<close>

definition add_event :: "Env \<Rightarrow> MarketEvent \<Rightarrow> Ctx \<Rightarrow> Ctx" where
  "add_event env e ctx =
     (if cfg_mute_events (env_config env) then ctx else ctx\<lparr>events := events ctx @ [e]\<rparr>)"

text \<open>\<open>add_token_transfer_msg\<close>: the transfer is added to what the address already receives.\<close>

definition add_token_transfer_msg :: "dec256_api \<Rightarrow> Addr \<Rightarrow> NonZero \<Rightarrow> Ctx \<Rightarrow> Ctx res" where
  "add_token_transfer_msg D addr amount ctx =
     (case fmlookup (fund_transfers ctx) addr of
        Some old \<Rightarrow>
          and_then (nz_checked_add D old amount) (\<lambda>new_value.
          Inr (ctx\<lparr>fund_transfers := fmupd addr new_value (fund_transfers ctx)\<rparr>))
      | None \<Rightarrow> Inr (ctx\<lparr>fund_transfers := fmupd addr amount (fund_transfers ctx)\<rparr>))"

section \<open>Spot prices\<close>

definition make_price_point :: "Env \<Rightarrow> Timestamp \<Rightarrow> PriceStorage \<Rightarrow> PricePoint" where
  "make_price_point env timestamp p =
     \<lparr>price_notional = ps_price p, price_usd = ps_price_usd p, price_base = ps_price_base p,
      pp_timestamp = timestamp, is_notional_usd = is_notional_usd_id (env_market_id env),
      pp_market_type = mid_market_type (env_market_id env),
      pp_publish_time = ps_publish_time p, pp_publish_time_usd = ps_publish_time_usd p\<rparr>"

definition spot_price_inner_opt :: "Env \<Rightarrow> Ctx \<Rightarrow> Timestamp \<Rightarrow> PricePoint option" where
  "spot_price_inner_opt env ctx timestamp =
     Option.bind (fm_last_where (\<lambda>t. t \<le> timestamp) (prices ctx)) (\<lambda>t.
     map_option (make_price_point env t) (fmlookup (prices ctx) t))"

definition spot_price :: "Env \<Rightarrow> Ctx \<Rightarrow> Timestamp \<Rightarrow> PricePoint res" where
  "spot_price env ctx timestamp = ok_or (spot_price_inner_opt env ctx timestamp) (Perp PriceNotFound)"

definition current_spot_price :: "Env \<Rightarrow> Ctx \<Rightarrow> PricePoint res" where
  "current_spot_price env ctx = spot_price env ctx (env_now env)"

definition spot_price_after :: "Env \<Rightarrow> Ctx \<Rightarrow> bound option \<Rightarrow> PricePoint option" where
  "spot_price_after env ctx min_bound =
     Option.bind (fm_first_where (\<lambda>t. case min_bound of
         Some (Included a) \<Rightarrow> a \<le> t | Some (Excluded a) \<Rightarrow> a < t | _ \<Rightarrow> True) (prices ctx)) (\<lambda>t.
     map_option (make_price_point env t) (fmlookup (prices ctx) t))"

section \<open>Open interest\<close>

definition positions_net_open_interest :: "dec256_api \<Rightarrow> Ctx \<Rightarrow> Signed res" where
  "positions_net_open_interest D ctx =
     signed_checked_sub D (new_positive (open_long_interest ctx)) (new_positive (open_short_interest ctx))"

section \<open>Lemmas\<close>

lemma add_event_simps [simp]:
  "liquidity_stats (add_event env e ctx) = liquidity_stats ctx"
  "stats_by_addr (add_event env e ctx) = stats_by_addr ctx"
  "reset_lp_status (add_event env e ctx) = reset_lp_status ctx"
  "yield_per_time_per_token (add_event env e ctx) = yield_per_time_per_token ctx"
  "all_fees (add_event env e ctx) = all_fees ctx"
  "fund_transfers (add_event env e ctx) = fund_transfers ctx"
  "prices (add_event env e ctx) = prices ctx"
  "total_net_funding_paid (add_event env e ctx) = total_net_funding_paid ctx"
  "total_funding_margin (add_event env e ctx) = total_funding_margin ctx"
  "delta_neutrality_fund (add_event env e ctx) = delta_neutrality_fund ctx"
  "open_long_interest (add_event env e ctx) = open_long_interest ctx"
  "open_short_interest (add_event env e ctx) = open_short_interest ctx"
  "lp_borrow_fee_series (add_event env e ctx) = lp_borrow_fee_series ctx"
  "xlp_borrow_fee_series (add_event env e ctx) = xlp_borrow_fee_series ctx"
  "long_rf_series (add_event env e ctx) = long_rf_series ctx"
  "short_rf_series (add_event env e ctx) = short_rf_series ctx"
  "referral_stats_map (add_event env e ctx) = referral_stats_map ctx"
  "pos_st (add_event env e ctx) = pos_st ctx"
  "trade_st (add_event env e ctx) = trade_st ctx"
  "nft_st (add_event env e ctx) = nft_st ctx"
  "order_st (add_event env e ctx) = order_st ctx"
  "deferred_st (add_event env e ctx) = deferred_st ctx"
  "crank_st (add_event env e ctx) = crank_st ctx"
  "allowance_st (add_event env e ctx) = allowance_st ctx"
  "closing_all_positions (add_event env e ctx) = closing_all_positions ctx"
  "deferred_submessages (add_event env e ctx) = deferred_submessages ctx"
  "receive_submessages (add_event env e ctx) = receive_submessages ctx"
  "lp_history_summary (add_event env e ctx) = lp_history_summary ctx"
  "lp_history_by_address (add_event env e ctx) = lp_history_by_address ctx"
  by (simp_all add: add_event_def)

text \<open>What the transfers collected for the response owe in total.\<close>

definition transfers_total :: "Ctx \<Rightarrow> nat" where
  "transfers_total ctx = fmsum (\<lambda>v. v) (fund_transfers ctx)"

context decimal256
begin

lemma add_token_transfer_total:
  assumes "add_token_transfer_msg D addr amount ctx = Inr ctx'"
  shows "transfers_total ctx' = transfers_total ctx + amount
    \<and> (\<exists>m. ctx' = ctx\<lparr>fund_transfers := m\<rparr>)"
proof (cases "fmlookup (fund_transfers ctx) addr")
  case None
  with assms show ?thesis
    using fmsum_upd [of "\<lambda>v. v" addr amount "fund_transfers ctx"]
    by (auto simp: add_token_transfer_msg_def transfers_total_def fmval_def)
next
  case (Some old)
  with assms show ?thesis
    using fmsum_upd [of "\<lambda>v. v" addr "old + amount" "fund_transfers ctx"]
    by (auto simp: add_token_transfer_msg_def transfers_total_def fmval_def)
qed

end

lemma spot_price_latest:
  "spot_price env ctx t = Inr pp \<Longrightarrow>
     pp_timestamp pp \<le> t \<and> pp_timestamp pp \<in> fmdom' (prices ctx)
     \<and> (\<forall>k\<in>fmdom' (prices ctx). k \<le> t \<longrightarrow> k \<le> pp_timestamp pp)"
  by (auto simp: spot_price_def spot_price_inner_opt_def bind_eq_Some_conv make_price_point_def
      fm_last_where_Some)

end
