(* ===== verification/LiquidityPool.thy ===== *)
theory LiquidityPool
  imports MarketState
begin

text \<open>
  The liquidity pool: \<open>LiquidityStats\<close> (\<open>packages/perpswap/src/contracts/market/liquidity.rs\<close>),
  its storage and the reset of drained pools (\<open>contracts/market/src/state/liquidity/stats.rs\<close>),
  the provider operations, yield accounting and liquidity locking
  (\<open>contracts/market/src/state/liquidity.rs\<close>) and the provider history
  (\<open>contracts/market/src/state/history/lp.rs\<close>). The in-memory cache of \<open>stats.rs\<close> is
  written with every save and is transparent, so loads read the storage. An operation takes the
  context and returns the new one.
\<close>

section \<open>Liquidity statistics\<close>

definition total_collateral :: "dec256_api \<Rightarrow> LiquidityStats \<Rightarrow> Collateral res" where
  "total_collateral D s = d_add D (locked s) (unlocked s)"

definition total_tokens :: "dec256_api \<Rightarrow> LiquidityStats \<Rightarrow> LpToken res" where
  "total_tokens D s = d_add D (total_lp s) (total_xlp s)"

definition lp_to_collateral :: "dec256_api \<Rightarrow> LiquidityStats \<Rightarrow> LpToken \<Rightarrow> Collateral res" where
  "lp_to_collateral D s lp =
     (if lp = 0 then Inr 0
      else
        and_then (total_collateral D s) (\<lambda>collateral.
        and_then (u_approx_eq D collateral 0) (\<lambda>is_zero.
        and_then (ensure (\<not> is_zero) (Msg ''LiquidityStats::lp_to_collateral: no liquidity is in the pool'')) (\<lambda>_.
        and_then (total_tokens D s) (\<lambda>tokens.
        and_then (d_mul D collateral lp) (\<lambda>p. d_div D p tokens))))))"

definition lp_to_collateral_non_zero :: "dec256_api \<Rightarrow> LiquidityStats \<Rightarrow> NonZero \<Rightarrow> NonZero res" where
  "lp_to_collateral_non_zero D s lp =
     and_then (lp_to_collateral D s lp) (\<lambda>c.
     ok_or (nonzero_new c) (Msg ''lp_to_collateral_non_zero: amount of backing collateral rounded to 0''))"

definition collateral_to_lp :: "dec256_api \<Rightarrow> LiquidityStats \<Rightarrow> NonZero \<Rightarrow> NonZero res" where
  "collateral_to_lp D s amount =
     and_then (total_collateral D s) (\<lambda>collateral.
     and_then (if collateral = 0 then Inr amount
         else and_then (total_tokens D s) (\<lambda>tokens.
              and_then (d_mul D tokens amount) (\<lambda>p. d_div D p collateral))) (\<lambda>shares.
     ok_or (nonzero_new shares) (Msg ''liquidity_deposit_inner: new shares is (impossibly) 0'')))"

definition empty_stats :: LiquidityStats where
  "empty_stats = \<lparr>locked = 0, unlocked = 0, total_lp = 0, total_xlp = 0\<rparr>"

section \<open>Storage of the statistics\<close>

definition liquidity_init :: "Ctx \<Rightarrow> Ctx" where
  "liquidity_init ctx = ctx\<lparr>liquidity_stats := empty_stats\<rparr>"

definition yield_init :: "Ctx \<Rightarrow> Ctx" where
  "yield_init ctx = ctx\<lparr>yield_per_time_per_token :=
     fmupd 0 \<lparr>ypt_lp = 0, ypt_xlp = 0\<rparr> (yield_per_time_per_token ctx)\<rparr>"

definition save_liquidity_stats :: "dec256_api \<Rightarrow> LiquidityStats \<Rightarrow> Ctx \<Rightarrow> Ctx res" where
  "save_liquidity_stats D s ctx =
     and_then (total_collateral D s) (\<lambda>collateral.
     and_then (if collateral = 0 then map_res (\<lambda>t. t \<noteq> 0) (total_tokens D s) else Inr False) (\<lambda>drained.
     Inr (if drained
          then ctx\<lparr>liquidity_stats := empty_stats, reset_lp_status := Some ResetBegin\<rparr>
          else ctx\<lparr>liquidity_stats := s\<rparr>)))"

text \<open>The latest prefix sums; \<open>expect\<close> panics on an empty map.\<close>

definition latest_yield_per_token :: "Ctx \<Rightarrow> (u64 \<times> YieldPerToken) res" where
  "latest_yield_per_token ctx =
     ok_or (Option.bind (fm_last_where (\<lambda>_. True) (yield_per_time_per_token ctx)) (\<lambda>k.
            map_option (Pair k) (fmlookup (yield_per_time_per_token ctx) k)))
       (Panic ''YIELD_PER_TIME_PER_TOKEN cannot be empty'')"

definition new_addr_stats :: "Ctx \<Rightarrow> LiquidityStatsByAddr res" where
  "new_addr_stats ctx =
     and_then (latest_yield_per_token ctx) (\<lambda>(key, _).
     Inr \<lparr>addr_lp = 0, addr_xlp = 0, last_accrue_key = key, lp_accrued_yield = 0,
          xlp_accrued_yield = 0, crank_rewards = 0, referrer_rewards = 0,
          unstaking = None, cooldown_ends = None\<rparr>)"

definition is_empty_stats :: "LiquidityStatsByAddr \<Rightarrow> bool" where
  "is_empty_stats s = (addr_lp s = 0 \<and> addr_xlp s = 0 \<and> unstaking s = None
     \<and> lp_accrued_yield s = 0 \<and> xlp_accrued_yield s = 0 \<and> crank_rewards s = 0 \<and> referrer_rewards s = 0)"

definition total_yield :: "dec256_api \<Rightarrow> LiquidityStatsByAddr \<Rightarrow> Collateral res" where
  "total_yield D s =
     and_then (d_add D (lp_accrued_yield s) (xlp_accrued_yield s)) (\<lambda>a.
     and_then (d_add D a (crank_rewards s)) (\<lambda>b. d_add D b (referrer_rewards s)))"

definition load_liquidity_stats_addr :: "Ctx \<Rightarrow> Addr \<Rightarrow> LiquidityStatsByAddr res" where
  "load_liquidity_stats_addr ctx lp_addr =
     ok_or (fmlookup (stats_by_addr ctx) lp_addr) (Msg ''No liquidity stats found'')"

definition load_liquidity_stats_addr_default :: "Ctx \<Rightarrow> Addr \<Rightarrow> LiquidityStatsByAddr res" where
  "load_liquidity_stats_addr_default ctx lp_addr =
     (case fmlookup (stats_by_addr ctx) lp_addr of Some s \<Rightarrow> Inr s | None \<Rightarrow> new_addr_stats ctx)"

definition save_liquidity_stats_addr :: "Addr \<Rightarrow> LiquidityStatsByAddr \<Rightarrow> Ctx \<Rightarrow> Ctx" where
  "save_liquidity_stats_addr lp_addr s ctx =
     ctx\<lparr>stats_by_addr := (if is_empty_stats s then fmdrop lp_addr (stats_by_addr ctx)
                          else fmupd lp_addr s (stats_by_addr ctx))\<rparr>"

definition liquidity_providers :: "Ctx \<Rightarrow> Addr option \<Rightarrow> nat \<Rightarrow> Addr list" where
  "liquidity_providers ctx start limit =
     take limit (filter (\<lambda>a. case start of None \<Rightarrow> True | Some s \<Rightarrow> s < a) (fmkeys (stats_by_addr ctx)))"

section \<open>Provider history\<close>

definition next_action_id :: "Ctx \<Rightarrow> Addr \<Rightarrow> u64 res" where
  "next_action_id ctx addr =
     (case fm_last_where (\<lambda>(a, _). a = addr) (lp_history_by_address ctx) of
        None \<Rightarrow> Inr 0 | Some (_, i) \<Rightarrow> u64_add i 1)"

definition lp_history_add_action ::
    "dec256_api \<Rightarrow> Env \<Rightarrow> Addr \<Rightarrow> LpActionKind \<Rightarrow> NonZero option \<Rightarrow> NonZero \<Rightarrow> Ctx \<Rightarrow> Ctx res" where
  "lp_history_add_action D env addr kind tokens collateral ctx =
     and_then (current_spot_price env ctx) (\<lambda>price.
     and_then (collateral_to_usd D price collateral) (\<lambda>collateral_usd.
     and_then (next_action_id ctx addr) (\<lambda>action_id.
     let action = \<lparr>act_kind = kind, act_timestamp = env_now env, act_tokens = tokens,
                   act_collateral = collateral, act_collateral_usd = collateral_usd\<rparr>
     in Inr (add_event env (LpActionEvent addr action action_id)
          (ctx\<lparr>lp_history_by_address := fmupd (addr, action_id) action (lp_history_by_address ctx)\<rparr>)))))"

definition lp_history_get_summary :: "Ctx \<Rightarrow> Addr \<Rightarrow> LpHistorySummary" where
  "lp_history_get_summary ctx addr =
     (case fmlookup (lp_history_summary ctx) addr of
        Some s \<Rightarrow> s
      | None \<Rightarrow> \<lparr>hs_deposit = 0, hs_deposit_usd = 0, hs_yield = 0, hs_yield_usd = 0\<rparr>)"

definition lp_history_add_summary_deposit ::
    "dec256_api \<Rightarrow> Env \<Rightarrow> Addr \<Rightarrow> NonZero \<Rightarrow> Ctx \<Rightarrow> Ctx res" where
  "lp_history_add_summary_deposit D env addr deposit ctx =
     (let summary = lp_history_get_summary ctx addr in
     and_then (current_spot_price env ctx) (\<lambda>price.
     and_then (collateral_to_usd D price deposit) (\<lambda>deposit_usd.
     and_then (d_add D (hs_deposit summary) deposit) (\<lambda>total.
     and_then (d_add D (hs_deposit_usd summary) deposit_usd) (\<lambda>total_usd.
     Inr (add_event env (LpDepositEvent deposit deposit_usd)
       (ctx\<lparr>lp_history_summary := fmupd addr
          (summary\<lparr>hs_deposit := total, hs_deposit_usd := total_usd\<rparr>) (lp_history_summary ctx)\<rparr>)))))))"

definition lp_history_add_summary_yield ::
    "dec256_api \<Rightarrow> Env \<Rightarrow> Addr \<Rightarrow> NonZero \<Rightarrow> Ctx \<Rightarrow> Ctx res" where
  "lp_history_add_summary_yield D env addr yield_earned ctx =
     (let summary = lp_history_get_summary ctx addr in
     and_then (current_spot_price env ctx) (\<lambda>price.
     and_then (collateral_to_usd D price yield_earned) (\<lambda>yield_usd.
     and_then (d_add D (hs_yield summary) yield_earned) (\<lambda>total.
     and_then (d_add D (hs_yield_usd summary) yield_usd) (\<lambda>total_usd.
     Inr (add_event env (LpYieldEvent addr yield_earned yield_usd)
       (ctx\<lparr>lp_history_summary := fmupd addr
          (summary\<lparr>hs_yield := total, hs_yield_usd := total_usd\<rparr>) (lp_history_summary ctx)\<rparr>)))))))"

definition lp_history_add_deposit ::
    "dec256_api \<Rightarrow> Env \<Rightarrow> Addr \<Rightarrow> NonZero \<Rightarrow> NonZero \<Rightarrow> bool \<Rightarrow> Ctx \<Rightarrow> Ctx res" where
  "lp_history_add_deposit D env addr tokens collateral is_xlp ctx =
     and_then (lp_history_add_action D env addr (if is_xlp then DepositXlp else DepositLp)
       (Some tokens) collateral ctx) (\<lambda>ctx.
     lp_history_add_summary_deposit D env addr collateral ctx)"

definition lp_history_add_reinvest_yield ::
    "dec256_api \<Rightarrow> Env \<Rightarrow> Addr \<Rightarrow> NonZero \<Rightarrow> NonZero \<Rightarrow> bool \<Rightarrow> Ctx \<Rightarrow> Ctx res" where
  "lp_history_add_reinvest_yield D env addr tokens collateral is_xlp ctx =
     lp_history_add_action D env addr (if is_xlp then ReinvestYieldXlp else ReinvestYieldLp)
       (Some tokens) collateral ctx"

definition lp_history_add_unstake_xlp ::
    "dec256_api \<Rightarrow> Env \<Rightarrow> Addr \<Rightarrow> NonZero \<Rightarrow> NonZero \<Rightarrow> Ctx \<Rightarrow> Ctx res" where
  "lp_history_add_unstake_xlp D env addr tokens collateral ctx =
     lp_history_add_action D env addr UnstakeXlp (Some tokens) collateral ctx"

definition lp_history_add_withdraw ::
    "dec256_api \<Rightarrow> Env \<Rightarrow> Addr \<Rightarrow> NonZero \<Rightarrow> NonZero \<Rightarrow> Ctx \<Rightarrow> Ctx res" where
  "lp_history_add_withdraw D env addr tokens collateral ctx =
     lp_history_add_action D env addr Withdraw (Some tokens) collateral ctx"

definition lp_history_add_claim_yield ::
    "dec256_api \<Rightarrow> Env \<Rightarrow> Addr \<Rightarrow> NonZero \<Rightarrow> Ctx \<Rightarrow> Ctx res" where
  "lp_history_add_claim_yield D env addr collateral ctx =
     and_then (lp_history_add_action D env addr ClaimYield None collateral ctx) (\<lambda>ctx.
     lp_history_add_summary_yield D env addr collateral ctx)"

definition lp_history_add_collect_lp ::
    "dec256_api \<Rightarrow> Env \<Rightarrow> Addr \<Rightarrow> NonZero \<Rightarrow> NonZero \<Rightarrow> Ctx \<Rightarrow> Ctx res" where
  "lp_history_add_collect_lp D env addr tokens collateral ctx =
     lp_history_add_action D env addr CollectLp (Some tokens) collateral ctx"

section \<open>Pool events\<close>

definition pool_size_from_stats :: "dec256_api \<Rightarrow> LiquidityStats \<Rightarrow> PricePoint \<Rightarrow> PoolSizeData res" where
  "pool_size_from_stats D s price =
     and_then (total_collateral D s) (\<lambda>collateral.
     and_then (total_tokens D s) (\<lambda>tokens.
     and_then (if tokens = 0 then Inr (0, 0)
         else and_then (op_mul D collateral (total_lp s)) (\<lambda>p.
              and_then (op_div D p tokens) (\<lambda>lp_collateral.
              and_then (d_sub D collateral lp_collateral) (\<lambda>xlp_collateral.
              Inr (lp_collateral, xlp_collateral))))) (\<lambda>(lp_collateral, xlp_collateral).
     and_then (collateral_to_usd D price (locked s)) (\<lambda>locked_usd.
     and_then (collateral_to_usd D price (unlocked s)) (\<lambda>unlocked_usd.
     Inr \<lparr>psz_locked = locked s, psz_locked_usd = locked_usd, psz_unlocked = unlocked s,
          psz_unlocked_usd = unlocked_usd, psz_lp_collateral = lp_collateral,
          psz_xlp_collateral = xlp_collateral, psz_total_lp = total_lp s,
          psz_total_xlp = total_xlp s\<rparr>)))))"

definition add_delta_neutrality_ratio_event ::
    "dec256_api \<Rightarrow> Env \<Rightarrow> LiquidityStats \<Rightarrow> PricePoint \<Rightarrow> Ctx \<Rightarrow> Ctx res" where
  "add_delta_neutrality_ratio_event D env s price ctx =
     and_then (total_collateral D s) (\<lambda>total_liquidity.
     let (long_interest, short_interest) =
       (case mid_market_type (env_market_id env) of
          CollateralIsQuote \<Rightarrow> (open_long_interest ctx, open_short_interest ctx)
        | CollateralIsBase \<Rightarrow> (open_short_interest ctx, open_long_interest ctx)) in
     and_then (signed_checked_sub D (new_positive long_interest) (new_positive short_interest)) (\<lambda>net_notional.
     and_then (signed_map (notional_to_collateral D price) net_notional) (\<lambda>net_collateral.
     let ratio = (case ok (number_checked_div D net_collateral (new_positive total_liquidity)) of
                    Some r \<Rightarrow> r | None \<Rightarrow> signed_zero) in
     Inr (add_event env (DeltaNeutralityRatioEvent total_liquidity long_interest short_interest
            net_notional (price_notional price) ratio) ctx))))"

definition add_pool_size_change_events ::
    "dec256_api \<Rightarrow> Env \<Rightarrow> LiquidityStats \<Rightarrow> PricePoint \<Rightarrow> Ctx \<Rightarrow> Ctx res" where
  "add_pool_size_change_events D env s price ctx =
     and_then (pool_size_from_stats D s price) (\<lambda>e.
     add_delta_neutrality_ratio_event D env s price (add_event env (LiquidityPoolSizeEvent e) ctx))"

section \<open>Yield\<close>

definition div_by_tokens :: "dec256_api \<Rightarrow> Collateral \<Rightarrow> LpToken \<Rightarrow> Collateral res" where
  "div_by_tokens D amount tokens =
     (case nonzero_new tokens of None \<Rightarrow> Inr 0 | Some t \<Rightarrow> div_non_zero_dec D amount t)"

definition liquidity_process_new_yield :: "dec256_api \<Rightarrow> LpAndXlp \<Rightarrow> Ctx \<Rightarrow> (u64 \<times> YieldPerToken) res" where
  "liquidity_process_new_yield D new_yield ctx =
     and_then (div_by_tokens D (la_lp new_yield) (total_lp (liquidity_stats ctx))) (\<lambda>lp_yield_per_token.
     and_then (div_by_tokens D (la_xlp new_yield) (total_xlp (liquidity_stats ctx))) (\<lambda>xlp_yield_per_token.
     and_then (latest_yield_per_token ctx) (\<lambda>(last_index, last_yield).
     and_then (d_add D (ypt_lp last_yield) lp_yield_per_token) (\<lambda>lp.
     and_then (d_add D (ypt_xlp last_yield) xlp_yield_per_token) (\<lambda>xlp.
     and_then (u64_add last_index 1) (\<lambda>next_index.
     Inr (next_index, \<lparr>ypt_lp = lp, ypt_xlp = xlp\<rparr>)))))))"

definition new_yield_apply :: "u64 \<times> YieldPerToken \<Rightarrow> Ctx \<Rightarrow> Ctx" where
  "new_yield_apply y ctx = ctx\<lparr>yield_per_time_per_token :=
     fmupd (fst y) (snd y) (yield_per_time_per_token ctx)\<rparr>"

definition unstaking_lp :: "dec256_api \<Rightarrow> LiquidityStatsByAddr \<Rightarrow> LpToken res" where
  "unstaking_lp D s =
     (case unstaking s of
        Some u \<Rightarrow> and_then (d_sub D (xlp_amount u) (collected u)) (\<lambda>r. d_add D (addr_lp s) r)
      | None \<Rightarrow> Inr (addr_lp s))"

definition calculate_accrued_yield ::
    "dec256_api \<Rightarrow> Ctx \<Rightarrow> LiquidityStatsByAddr \<Rightarrow> (u64 \<times> LpAndXlp) option res" where
  "calculate_accrued_yield D ctx s =
     and_then (latest_yield_per_token ctx) (\<lambda>(end_index, end_yield).
     if end_index = last_accrue_key s then Inr None
     else
       and_then (ok_or (fmlookup (yield_per_time_per_token ctx) (last_accrue_key s)) (Std ''not found'')) (\<lambda>start_yield.
       and_then (unstaking_lp D s) (\<lambda>lp_amount.
       and_then (d_sub D (ypt_lp end_yield) (ypt_lp start_yield)) (\<lambda>lp_sum.
       and_then (checked_mul_dec D lp_sum lp_amount) (\<lambda>lp_accrued.
       and_then (d_sub D (ypt_xlp end_yield) (ypt_xlp start_yield)) (\<lambda>xlp_sum.
       and_then (checked_mul_dec D xlp_sum (addr_xlp s)) (\<lambda>xlp_accrued.
       Inr (Some (end_index, \<lparr>la_lp = lp_accrued, la_xlp = xlp_accrued\<rparr>)))))))))"

definition update_accrued_yield :: "dec256_api \<Rightarrow> Addr \<Rightarrow> Ctx \<Rightarrow> Ctx res" where
  "update_accrued_yield D lp_addr ctx =
     and_then (load_liquidity_stats_addr_default ctx lp_addr) (\<lambda>s.
     and_then (calculate_accrued_yield D ctx s) (\<lambda>r.
     case r of
       None \<Rightarrow> Inr ctx
     | Some (latest_index, accrued) \<Rightarrow>
         and_then (d_add D (lp_accrued_yield s) (la_lp accrued)) (\<lambda>lp.
         and_then (d_add D (xlp_accrued_yield s) (la_xlp accrued)) (\<lambda>xlp.
         Inr (save_liquidity_stats_addr lp_addr
           (s\<lparr>last_accrue_key := latest_index, lp_accrued_yield := lp, xlp_accrued_yield := xlp\<rparr>) ctx)))))"

definition add_lp_crank_rewards :: "dec256_api \<Rightarrow> Addr \<Rightarrow> NonZero \<Rightarrow> Ctx \<Rightarrow> Ctx res" where
  "add_lp_crank_rewards D lp_addr amount ctx =
     and_then (load_liquidity_stats_addr_default ctx lp_addr) (\<lambda>s.
     and_then (d_add D (crank_rewards s) amount) (\<lambda>r.
     Inr (save_liquidity_stats_addr lp_addr (s\<lparr>crank_rewards := r\<rparr>) ctx)))"

definition register_lp_claimed_yield :: "dec256_api \<Rightarrow> NonZero \<Rightarrow> Ctx \<Rightarrow> Ctx res" where
  "register_lp_claimed_yield D amount ctx =
     and_then (d_sub D (fees_wallets (all_fees ctx)) amount) (\<lambda>w.
     Inr (ctx\<lparr>all_fees := (all_fees ctx)\<lparr>fees_wallets := w\<rparr>\<rparr>))"

section \<open>Unstaking and book keeping\<close>

definition calculate_unstaked_lp :: "dec256_api \<Rightarrow> Env \<Rightarrow> UnstakingXlp \<Rightarrow> LpToken res" where
  "calculate_unstaked_lp D env u =
     and_then (ts_checked_sub (env_now env) (unstake_started u)) (\<lambda>elapsed_since_start.
     and_then (if unstake_duration u \<le> elapsed_since_start
         then signed_checked_sub D (new_positive (xlp_amount u)) (new_positive (collected u))
         else
           and_then (ts_checked_sub (env_now env) (last_collected u)) (\<lambda>elapsed_since_last_collected.
           and_then (number_from_u128 D elapsed_since_last_collected) (\<lambda>e.
           and_then (number_from_u128 D (unstake_duration u)) (\<lambda>d.
           and_then (number_checked_div D e d) (\<lambda>elapsed_ratio.
           number_checked_mul D elapsed_ratio (new_positive (xlp_amount u))))))) (\<lambda>amount.
     u_try_from_number amount))"

definition collect_unstaked_lp :: "dec256_api \<Rightarrow> Env \<Rightarrow> Addr \<Rightarrow> Ctx \<Rightarrow> (bool \<times> Ctx) res" where
  "collect_unstaked_lp D env lp_addr ctx =
     (case Option.bind (fmlookup (stats_by_addr ctx) lp_addr) unstaking of
        None \<Rightarrow> Inr (False, ctx)
      | Some _ \<Rightarrow>
     and_then (update_accrued_yield D lp_addr ctx) (\<lambda>ctx.
     and_then (load_liquidity_stats_addr ctx lp_addr) (\<lambda>s.
     and_then (ok_or (unstaking s) (Msg ''Withtin collect_unstaked_lp, unstaking is None'')) (\<lambda>u.
     and_then (calculate_unstaked_lp D env u) (\<lambda>unstaked.
     case nonzero_new unstaked of
       None \<Rightarrow> Inr (False, ctx)
     | Some unstaked_lp \<Rightarrow>
         and_then (d_add D (collected u) unstaked_lp) (\<lambda>c.
         let u' = u\<lparr>collected := c, last_collected := env_now env\<rparr> in
         and_then (if c < xlp_amount u then Inr (Some u')
             else if c = xlp_amount u then Inr None
             else Inl (Msg ''unable to collect LP, more than was unstaked'')) (\<lambda>new_unstaking.
         and_then (d_add D (addr_lp s) unstaked_lp) (\<lambda>lp.
         let ctx = save_liquidity_stats_addr lp_addr (s\<lparr>unstaking := new_unstaking, addr_lp := lp\<rparr>) ctx in
         and_then (lp_to_collateral_non_zero D (liquidity_stats ctx) unstaked_lp) (\<lambda>collateral.
         and_then (lp_history_add_collect_lp D env lp_addr unstaked_lp collateral ctx) (\<lambda>ctx.
         Inr (True, ctx)))))))))))"

definition perform_lp_book_keeping :: "dec256_api \<Rightarrow> Env \<Rightarrow> Addr \<Rightarrow> Ctx \<Rightarrow> Ctx res" where
  "perform_lp_book_keeping D env lp_addr ctx =
     and_then (update_accrued_yield D lp_addr ctx) (\<lambda>ctx.
     map_res snd (collect_unstaked_lp D env lp_addr ctx))"

section \<open>Deposit and withdrawal\<close>

definition ensure_max_liquidity :: "dec256_api \<Rightarrow> Env \<Rightarrow> NonZero \<Rightarrow> LiquidityStats \<Rightarrow> Ctx \<Rightarrow> unit res" where
  "ensure_max_liquidity D env deposit s ctx =
     (case cfg_max_liquidity (env_config env) of
        Unlimited \<Rightarrow> Inr ()
      | MaxLiquidity_Usd limit \<Rightarrow>
          and_then (current_spot_price env ctx) (\<lambda>price.
          and_then (collateral_to_usd D price deposit) (\<lambda>deposit_usd.
          and_then (total_collateral D s) (\<lambda>current_collateral.
          and_then (collateral_to_usd D price current_collateral) (\<lambda>current.
          and_then (d_add D current deposit_usd) (\<lambda>new_total.
          if limit < new_total
          then Inl (Market (MaxLiquidityError (price_usd price) current deposit_usd limit))
          else Inr ()))))))"

definition get_liquidity_cooldown :: "Env \<Rightarrow> LiquidityStatsByAddr \<Rightarrow> (Timestamp \<times> nat) option res" where
  "get_liquidity_cooldown env s =
     (case cooldown_ends s of
        None \<Rightarrow> Inr None
      | Some ends \<Rightarrow>
          if ends \<le> env_now env then Inr None
          else and_then (ts_checked_sub ends (env_now env)) (\<lambda>d. Inr (Some (ends, d div 1000000000))))"

definition ensure_liquidity_cooldown :: "Env \<Rightarrow> LiquidityStatsByAddr \<Rightarrow> unit res" where
  "ensure_liquidity_cooldown env s =
     and_then (get_liquidity_cooldown env s) (\<lambda>c.
     case c of
       Some (at, seconds) \<Rightarrow> Inl (Market (LiquidityCooldownError at seconds))
     | None \<Rightarrow> Inr ())"

definition liquidity_deposit_inner ::
    "dec256_api \<Rightarrow> Env \<Rightarrow> Addr \<Rightarrow> NonZero \<Rightarrow> bool \<Rightarrow> Ctx \<Rightarrow> (NonZero \<times> Ctx) res" where
  "liquidity_deposit_inner D env lp_addr amount start_cooldown ctx =
     (let stats = liquidity_stats ctx in
     and_then (ensure_max_liquidity D env amount stats ctx) (\<lambda>_.
     and_then (perform_lp_book_keeping D env lp_addr ctx) (\<lambda>ctx.
     and_then (collateral_to_lp D stats amount) (\<lambda>new_shares.
     and_then (d_add D (total_lp stats) new_shares) (\<lambda>lp.
     and_then (d_add D (unlocked stats) amount) (\<lambda>ul.
     let stats = stats\<lparr>total_lp := lp, unlocked := ul\<rparr> in
     and_then (save_liquidity_stats D stats ctx) (\<lambda>ctx.
     and_then (current_spot_price env ctx) (\<lambda>price.
     and_then (add_pool_size_change_events D env stats price ctx) (\<lambda>ctx.
     and_then (load_liquidity_stats_addr_default ctx lp_addr) (\<lambda>s.
     and_then (d_add D (addr_lp s) new_shares) (\<lambda>new_lp.
     and_then (if start_cooldown
         then map_res Some (ts_plus_seconds (env_now env) (cfg_liquidity_cooldown_seconds (env_config env)))
         else Inr (cooldown_ends s)) (\<lambda>cooldown.
     let ctx = save_liquidity_stats_addr lp_addr (s\<lparr>addr_lp := new_lp, cooldown_ends := cooldown\<rparr>) ctx in
     and_then (collateral_to_usd_non_zero D price amount) (\<lambda>amount_usd.
     Inr (new_shares, add_event env (DepositEvent amount amount_usd new_shares) ctx))))))))))))))"

definition min_unlocked_liquidity :: "dec256_api \<Rightarrow> Env \<Rightarrow> Signed \<Rightarrow> PricePoint \<Rightarrow> Collateral res" where
  "min_unlocked_liquidity D env net_notional price =
     and_then (notional_to_collateral D price (abs_unsigned net_notional)) (\<lambda>c.
     and_then (ok_or (nonzero_new (cfg_carry_leverage (env_config env)))
       (Msg ''Carry leverage of 0 configuration error'')) (\<lambda>carry.
     div_non_zero_dec D c carry))"

text \<open>The part of a withdrawal that computes the collateral to return and the new totals.\<close>

definition withdraw_stats :: "dec256_api \<Rightarrow> Env \<Rightarrow> NonZero \<Rightarrow> Ctx \<Rightarrow> (NonZero \<times> PricePoint \<times> LiquidityStats) res" where
  "withdraw_stats D env shares_to_withdraw ctx =
     (let stats = liquidity_stats ctx in
     and_then (d_add D (locked stats) (unlocked stats)) (\<lambda>_.
     and_then (lp_to_collateral_non_zero D stats shares_to_withdraw) (\<lambda>liquidity_to_return.
     and_then (positions_net_open_interest D ctx) (\<lambda>net_notional.
     and_then (current_spot_price env ctx) (\<lambda>price.
     and_then (min_unlocked_liquidity D env net_notional price) (\<lambda>min_unlocked.
     and_then (d_add D liquidity_to_return min_unlocked) (\<lambda>needed.
     and_then (if unlocked stats < needed
         then and_then (signed_checked_sub D (new_positive (unlocked stats)) (new_positive min_unlocked)) (\<lambda>free.
              Inl (Market (InsufficientLiquidityForWithdrawal shares_to_withdraw liquidity_to_return
                (abs_unsigned (max free (new_positive 0))))))
         else Inr ()) (\<lambda>_.
     and_then (d_sub D (total_lp stats) shares_to_withdraw) (\<lambda>lp.
     and_then (d_sub D (unlocked stats) liquidity_to_return) (\<lambda>ul.
     let stats = stats\<lparr>total_lp := lp, unlocked := ul\<rparr> in
     and_then (total_tokens D stats) (\<lambda>tokens.
     if tokens = 0 then
       and_then (total_collateral D stats) (\<lambda>rest.
       and_then (u_approx_eq D rest 0) (\<lambda>dust.
       and_then (ensure dust (Msg ''liquidity_withdraw: no lp tokens left, but collateral is not zero'')) (\<lambda>_.
       Inr (liquidity_to_return, price, empty_stats))))
     else Inr (liquidity_to_return, price, stats))))))))))))"

definition withdraw_shares :: "NonZero \<Rightarrow> NonZero option \<Rightarrow> NonZero res" where
  "withdraw_shares old_lp lp_amount =
     (case lp_amount of
        None \<Rightarrow> Inr old_lp
      | Some lp_amount \<Rightarrow>
          if old_lp < lp_amount then Inl (Market (WithdrawTooMuch lp_amount old_lp)) else Inr lp_amount)"

definition liquidity_withdraw ::
    "dec256_api \<Rightarrow> Env \<Rightarrow> Addr \<Rightarrow> NonZero option \<Rightarrow> Ctx \<Rightarrow> Ctx res" where
  "liquidity_withdraw D env lp_addr lp_amount ctx =
     and_then (perform_lp_book_keeping D env lp_addr ctx) (\<lambda>ctx.
     and_then (load_liquidity_stats_addr ctx lp_addr) (\<lambda>s.
     and_then (ensure_liquidity_cooldown env s) (\<lambda>_.
     and_then (ok_or (nonzero_new (addr_lp s)) (Msg ''unable to withdraw, no liquidity deposited'')) (\<lambda>old_lp.
     and_then (withdraw_shares old_lp lp_amount) (\<lambda>shares_to_withdraw.
     and_then (d_sub D (addr_lp s) shares_to_withdraw) (\<lambda>new_lp.
     let ctx = save_liquidity_stats_addr lp_addr (s\<lparr>addr_lp := new_lp\<rparr>) ctx in
     and_then (withdraw_stats D env shares_to_withdraw ctx) (\<lambda>(liquidity_to_return, price, stats).
     and_then (save_liquidity_stats D stats ctx) (\<lambda>ctx.
     and_then (add_pool_size_change_events D env stats price ctx) (\<lambda>ctx.
     and_then (add_token_transfer_msg D lp_addr liquidity_to_return ctx) (\<lambda>ctx.
     and_then (lp_history_add_withdraw D env lp_addr shares_to_withdraw liquidity_to_return ctx) (\<lambda>ctx.
     and_then (collateral_to_usd_non_zero D price liquidity_to_return) (\<lambda>usd.
     Inr (add_event env (WithdrawEvent shares_to_withdraw liquidity_to_return usd) ctx)))))))))))))"

section \<open>Staking and claiming\<close>

definition liquidity_stake_lp :: "dec256_api \<Rightarrow> Env \<Rightarrow> Addr \<Rightarrow> NonZero option \<Rightarrow> Ctx \<Rightarrow> Ctx res" where
  "liquidity_stake_lp D env lp_addr lp_amount ctx =
     and_then (perform_lp_book_keeping D env lp_addr ctx) (\<lambda>ctx.
     and_then (load_liquidity_stats_addr ctx lp_addr) (\<lambda>s.
     and_then (ok_or (nonzero_new (addr_lp s)) (Msg ''Cannot stake LP, no LP tokens found'')) (\<lambda>old_lp.
     let lp_amount = (case lp_amount of Some a \<Rightarrow> a | None \<Rightarrow> old_lp);
         stats = liquidity_stats ctx in
     and_then (ok_or (ok (d_sub D old_lp lp_amount)) (Perp InvalidStakeLp)) (\<lambda>new_lp.
     and_then (d_add D (addr_xlp s) lp_amount) (\<lambda>new_xlp.
     let ctx = save_liquidity_stats_addr lp_addr (s\<lparr>addr_lp := new_lp, addr_xlp := new_xlp\<rparr>) ctx in
     and_then (d_sub D (total_lp stats) lp_amount) (\<lambda>lp.
     and_then (d_add D (total_xlp stats) lp_amount) (\<lambda>xlp.
     save_liquidity_stats D (stats\<lparr>total_lp := lp, total_xlp := xlp\<rparr>) ctx)))))))"

definition liquidity_stop_unstaking_xlp ::
    "dec256_api \<Rightarrow> Env \<Rightarrow> Addr \<Rightarrow> bool \<Rightarrow> bool \<Rightarrow> Ctx \<Rightarrow> (LiquidityStatsByAddr \<times> Ctx) res" where
  "liquidity_stop_unstaking_xlp D env lp_addr fail_on_no_unstaking save_new_stats ctx =
     and_then (perform_lp_book_keeping D env lp_addr ctx) (\<lambda>ctx.
     and_then (load_liquidity_stats_addr ctx lp_addr) (\<lambda>s.
     and_then (case unstaking s of
         Some u \<Rightarrow>
           and_then (d_sub D (xlp_amount u) (collected u)) (\<lambda>xlp_to_restore.
           if xlp_to_restore \<noteq> 0 then
             let stats = liquidity_stats ctx in
             and_then (d_sub D (total_lp stats) xlp_to_restore) (\<lambda>lp.
             and_then (d_add D (total_xlp stats) xlp_to_restore) (\<lambda>xlp.
             and_then (save_liquidity_stats D (stats\<lparr>total_lp := lp, total_xlp := xlp\<rparr>) ctx) (\<lambda>ctx.
             and_then (d_add D (addr_xlp s) xlp_to_restore) (\<lambda>new_xlp.
             Inr (s\<lparr>unstaking := None, addr_xlp := new_xlp\<rparr>, ctx)))))
           else Inr (s\<lparr>unstaking := None\<rparr>, ctx))
       | None \<Rightarrow>
           if fail_on_no_unstaking
           then Inl (Msg ''Cannot stop unstaking, not currently unstaking xLP'')
           else Inr (s\<lparr>unstaking := None\<rparr>, ctx)) (\<lambda>(s, ctx).
     Inr (s, if save_new_stats then save_liquidity_stats_addr lp_addr s ctx else ctx))))"

definition liquidity_unstake_xlp :: "dec256_api \<Rightarrow> Env \<Rightarrow> Addr \<Rightarrow> NonZero option \<Rightarrow> Ctx \<Rightarrow> Ctx res" where
  "liquidity_unstake_xlp D env lp_addr amount ctx =
     and_then (liquidity_stop_unstaking_xlp D env lp_addr False False ctx) (\<lambda>(s, ctx).
     and_then (ok_or (nonzero_new (addr_xlp s)) (Msg ''Wallet does not have any xLP tokens to unstake'')) (\<lambda>owned_xlp.
     and_then (case amount of
         None \<Rightarrow> Inr owned_xlp
       | Some a \<Rightarrow> and_then (ensure (a \<le> owned_xlp) (Msg ''Insufficient xLP tokens for unstaking'')) (\<lambda>_. Inr a))
       (\<lambda>amount.
     and_then (duration_from_seconds (cfg_unstake_period_seconds (env_config env))) (\<lambda>duration.
     let u = \<lparr>xlp_amount = amount, collected = 0, unstake_started = env_now env,
              unstake_duration = duration, last_collected = env_now env\<rparr> in
     and_then (d_sub D (addr_xlp s) amount) (\<lambda>new_xlp.
     let ctx = save_liquidity_stats_addr lp_addr (s\<lparr>unstaking := Some u, addr_xlp := new_xlp\<rparr>) ctx;
         stats = liquidity_stats ctx in
     and_then (d_add D (total_lp stats) amount) (\<lambda>lp.
     and_then (d_sub D (total_xlp stats) amount) (\<lambda>xlp.
     let stats = stats\<lparr>total_lp := lp, total_xlp := xlp\<rparr> in
     and_then (save_liquidity_stats D stats ctx) (\<lambda>ctx.
     and_then (lp_to_collateral_non_zero D stats amount) (\<lambda>collateral.
     lp_history_add_unstake_xlp D env lp_addr amount collateral ctx)))))))))"

definition liquidity_claim_yield ::
    "dec256_api \<Rightarrow> Env \<Rightarrow> Addr \<Rightarrow> bool \<Rightarrow> Ctx \<Rightarrow> (NonZero \<times> Ctx) res" where
  "liquidity_claim_yield D env lp_addr send_to_wallet ctx =
     and_then (perform_lp_book_keeping D env lp_addr ctx) (\<lambda>ctx.
     and_then (load_liquidity_stats_addr ctx lp_addr) (\<lambda>s.
     and_then (total_yield D s) (\<lambda>t.
     and_then (ok_or (nonzero_new t) (Perp NoYieldToClaim)) (\<lambda>claimed.
     let ctx = save_liquidity_stats_addr lp_addr
         (s\<lparr>lp_accrued_yield := 0, xlp_accrued_yield := 0, crank_rewards := 0, referrer_rewards := 0\<rparr>) ctx in
     and_then (register_lp_claimed_yield D claimed ctx) (\<lambda>ctx.
     and_then (if send_to_wallet then
           and_then (add_token_transfer_msg D lp_addr claimed ctx) (\<lambda>ctx.
           lp_history_add_claim_yield D env lp_addr claimed ctx)
         else Inr ctx) (\<lambda>ctx.
     Inr (claimed, ctx)))))))"

definition liquidity_deposit ::
    "dec256_api \<Rightarrow> Env \<Rightarrow> Addr \<Rightarrow> NonZero \<Rightarrow> bool \<Rightarrow> Ctx \<Rightarrow> Ctx res" where
  "liquidity_deposit D env lp_addr amount stake_to_xlp ctx =
     and_then (liquidity_deposit_inner D env lp_addr amount (\<not> stake_to_xlp) ctx) (\<lambda>(lp_shares, ctx).
     and_then (lp_history_add_deposit D env lp_addr lp_shares amount stake_to_xlp ctx) (\<lambda>ctx.
     if stake_to_xlp then liquidity_stake_lp D env lp_addr (Some lp_shares) ctx else Inr ctx))"

definition reinvest_yield ::
    "dec256_api \<Rightarrow> Env \<Rightarrow> Addr \<Rightarrow> NonZero option \<Rightarrow> bool \<Rightarrow> Ctx \<Rightarrow> Ctx res" where
  "reinvest_yield D env lp_addr amount stake_to_xlp ctx =
     and_then (liquidity_claim_yield D env lp_addr False ctx) (\<lambda>(claimed, ctx).
     and_then (case amount of
         None \<Rightarrow> Inr (claimed, ctx)
       | Some amount \<Rightarrow>
           and_then (ok_or (ok (d_sub D claimed amount)) (Perp InsufficientForReinvest)) (\<lambda>remainder.
           case nonzero_new remainder of
             None \<Rightarrow> Inr (amount, ctx)
           | Some remainder \<Rightarrow>
               and_then (add_token_transfer_msg D lp_addr remainder ctx) (\<lambda>ctx.
               and_then (lp_history_add_claim_yield D env lp_addr remainder ctx) (\<lambda>ctx.
               Inr (amount, ctx))))) (\<lambda>(to_reinvest, ctx).
     and_then (liquidity_deposit_inner D env lp_addr to_reinvest False ctx) (\<lambda>(lp_shares, ctx).
     and_then (if stake_to_xlp then liquidity_stake_lp D env lp_addr (Some lp_shares) ctx else Inr ctx) (\<lambda>ctx.
     lp_history_add_reinvest_yield D env lp_addr lp_shares to_reinvest stake_to_xlp ctx))))"

section \<open>Locking liquidity\<close>

record LiquidityUnlock =
  ul_amount :: NonZero
  ul_price :: PricePoint
  ul_stats :: LiquidityStats

definition liquidity_unlock_new ::
    "dec256_api \<Rightarrow> Ctx \<Rightarrow> NonZero \<Rightarrow> PricePoint \<Rightarrow> LiquidityStats option \<Rightarrow> LiquidityUnlock res" where
  "liquidity_unlock_new D ctx amount price stats =
     (let stats = (case stats of Some s \<Rightarrow> s | None \<Rightarrow> liquidity_stats ctx) in
     if locked stats < amount then Inl (Market (InsufficientLiquidityForUnlock amount (locked stats)))
     else
       and_then (d_sub D (locked stats) amount) (\<lambda>l.
       and_then (d_add D (unlocked stats) amount) (\<lambda>ul.
       Inr \<lparr>ul_amount = amount, ul_price = price, ul_stats = stats\<lparr>locked := l, unlocked := ul\<rparr>\<rparr>)))"

definition liquidity_unlock_apply :: "dec256_api \<Rightarrow> Env \<Rightarrow> LiquidityUnlock \<Rightarrow> Ctx \<Rightarrow> Ctx res" where
  "liquidity_unlock_apply D env u ctx =
     and_then (save_liquidity_stats D (ul_stats u) ctx) (\<lambda>ctx.
     and_then (add_pool_size_change_events D env (ul_stats u) (ul_price u) ctx) (\<lambda>ctx.
     Inr (add_event env (UnlockEvent (ul_amount u)) ctx)))"

record LiquidityLock =
  ll_amount :: NonZero
  ll_stats :: LiquidityStats
  ll_price :: PricePoint

definition liquidity_lock_new ::
    "dec256_api \<Rightarrow> Env \<Rightarrow> Ctx \<Rightarrow> NonZero \<Rightarrow> PricePoint \<Rightarrow> Signed option \<Rightarrow> Signed option
      \<Rightarrow> LiquidityStats option \<Rightarrow> LiquidityLock res" where
  "liquidity_lock_new D env ctx amount price delta_notional net_notional_override stats =
     (let stats = (case stats of Some s \<Rightarrow> s | None \<Rightarrow> liquidity_stats ctx) in
     and_then (case net_notional_override of
         Some n \<Rightarrow> Inr n
       | None \<Rightarrow> positions_net_open_interest D ctx) (\<lambda>net.
     and_then (signed_checked_add D net (case delta_notional of Some d \<Rightarrow> d | None \<Rightarrow> new_positive 0)) (\<lambda>net_notional.
     and_then (min_unlocked_liquidity D env net_notional price) (\<lambda>min_unlocked.
     and_then (d_add D min_unlocked amount) (\<lambda>needed.
     if unlocked stats < needed
     then Inl (Market (Liquidity amount (unlocked stats) min_unlocked))
     else
       and_then (d_add D (locked stats) amount) (\<lambda>l.
       and_then (d_sub D (unlocked stats) amount) (\<lambda>ul.
       Inr \<lparr>ll_amount = amount, ll_stats = stats\<lparr>locked := l, unlocked := ul\<rparr>, ll_price = price\<rparr>)))))))"

definition liquidity_lock_apply :: "dec256_api \<Rightarrow> Env \<Rightarrow> LiquidityLock \<Rightarrow> Ctx \<Rightarrow> Ctx res" where
  "liquidity_lock_apply D env l ctx =
     and_then (save_liquidity_stats D (ll_stats l) ctx) (\<lambda>ctx.
     and_then (add_pool_size_change_events D env (ll_stats l) (ll_price l) ctx) (\<lambda>ctx.
     Inr (add_event env (LockEvent (ll_amount l)) ctx)))"

record LiquidityUpdateLocked =
  lu_amount :: Signed
  lu_price :: PricePoint
  lu_stats :: LiquidityStats

definition liquidity_update_locked_new ::
    "dec256_api \<Rightarrow> Ctx \<Rightarrow> Signed \<Rightarrow> PricePoint \<Rightarrow> LiquidityStats option \<Rightarrow> LiquidityUpdateLocked res" where
  "liquidity_update_locked_new D ctx amount price stats =
     (let stats = (case stats of Some s \<Rightarrow> s | None \<Rightarrow> liquidity_stats ctx) in
     and_then (signed_checked_add D (new_positive (locked stats)) amount) (\<lambda>l.
     and_then (ok_or (try_into_non_negative_value l) (Msg ''liquidity_update_locked'')) (\<lambda>l.
     Inr \<lparr>lu_amount = amount, lu_price = price, lu_stats = stats\<lparr>locked := l\<rparr>\<rparr>)))"

definition liquidity_update_locked_apply :: "dec256_api \<Rightarrow> Env \<Rightarrow> LiquidityUpdateLocked \<Rightarrow> Ctx \<Rightarrow> Ctx res" where
  "liquidity_update_locked_apply D env u ctx =
     and_then (save_liquidity_stats D (lu_stats u) ctx) (\<lambda>ctx.
     and_then (add_pool_size_change_events D env (lu_stats u) (lu_price u) ctx) (\<lambda>ctx.
     Inr (add_event env (LockUpdateEvent (lu_amount u)) ctx)))"

section \<open>Resetting a drained pool\<close>

definition should_reset_lp_balances :: "Ctx \<Rightarrow> bool" where
  "should_reset_lp_balances ctx = (reset_lp_status ctx \<noteq> None)"

definition reset_bound :: "ResetLpStatus \<Rightarrow> Addr \<Rightarrow> bool" where
  "reset_bound r a = (case r of ResetBegin \<Rightarrow> True | ResetLastSaw l \<Rightarrow> l < a)"

definition crank_reset_lp_balances :: "dec256_api \<Rightarrow> Ctx \<Rightarrow> Ctx res" where
  "crank_reset_lp_balances D ctx =
     and_then (ok_or (reset_lp_status ctx)
       (Msg ''crank_reset_lp_balances called, but RESET_LP_START_AFTER is empty'')) (\<lambda>status.
     case fm_first_where (reset_bound status) (stats_by_addr ctx) of
       None \<Rightarrow> Inr (ctx\<lparr>reset_lp_status := None\<rparr>)
     | Some addr \<Rightarrow>
         and_then (update_accrued_yield D addr ctx) (\<lambda>ctx.
         and_then (load_liquidity_stats_addr ctx addr) (\<lambda>s.
         and_then (latest_yield_per_token ctx) (\<lambda>(key, _).
         let ctx = save_liquidity_stats_addr addr (s\<lparr>addr_lp := 0, addr_xlp := 0,
             last_accrue_key := key, unstaking := None, cooldown_ends := None\<rparr>) ctx in
         Inr (ctx\<lparr>reset_lp_status := Some (ResetLastSaw addr)\<rparr>)))))"

datatype ExecuteMsgKind =
    MsgOwner | MsgReceive | MsgOpenPosition | MsgUpdateAddCollateralImpactLeverage
  | MsgUpdateAddCollateralImpactSize | MsgUpdateRemoveCollateralImpactLeverage
  | MsgUpdateRemoveCollateralImpactSize | MsgUpdateLeverage | MsgUpdateMaxGains
  | MsgUpdateTakeProfitPrice | MsgUpdateStopLossPrice | MsgSetTriggerOrder | MsgClosePosition
  | MsgDepositLiquidity | MsgReinvestYield | MsgWithdrawLiquidity | MsgClaimYield | MsgStakeLp
  | MsgUnstakeXlp | MsgStopUnstakingXlp | MsgCollectUnstakedLp | MsgCrank | MsgNftProxy
  | MsgLiquidityTokenProxy | MsgTransferDaoFees | MsgCloseAllPositions | MsgPlaceLimitOrder
  | MsgCancelLimitOrder | MsgProvideCrankFunds | MsgSetManualPrice | MsgPerformDeferredExec

definition touches_liquidity :: "ExecuteMsgKind \<Rightarrow> bool" where
  "touches_liquidity msg = (case msg of
       MsgOwner \<Rightarrow> False | MsgCrank \<Rightarrow> False | MsgProvideCrankFunds \<Rightarrow> False
     | MsgSetManualPrice \<Rightarrow> False | _ \<Rightarrow> True)"

definition ensure_not_resetting_lps :: "Ctx \<Rightarrow> ExecuteMsgKind \<Rightarrow> unit res" where
  "ensure_not_resetting_lps ctx msg =
     (if touches_liquidity msg \<and> should_reset_lp_balances ctx
      then Inl (Msg ''Protocol temporarily halted while we reset LP balances, please try again'')
      else Inr ())"

section \<open>Provider information\<close>

record UnstakingStatus =
  us_start :: Timestamp
  us_end :: Timestamp
  us_xlp_unstaking :: NonZero
  us_xlp_unstaking_collateral :: Collateral
  us_collected :: LpToken
  us_available :: LpToken
  us_pending :: LpToken

record LpInfoResp =
  li_lp_amount :: LpToken
  li_lp_collateral :: Collateral
  li_xlp_amount :: LpToken
  li_xlp_collateral :: Collateral
  li_available_yield :: Collateral
  li_available_yield_lp :: Collateral
  li_available_yield_xlp :: Collateral
  li_available_crank_rewards :: Collateral
  li_available_referrer_rewards :: Collateral
  li_unstaking :: "UnstakingStatus option"
  li_history :: LpHistorySummary
  li_liquidity_cooldown :: "(Timestamp \<times> nat) option"

definition lp_info_balances :: "dec256_api \<Rightarrow> Env \<Rightarrow> LiquidityStats \<Rightarrow> LiquidityStatsByAddr
    \<Rightarrow> (LpToken \<times> LpToken \<times> UnstakingStatus option) res" where
  "lp_info_balances D env stats s =
     (case unstaking s of
        None \<Rightarrow> Inr (addr_lp s, addr_xlp s, None)
      | Some u \<Rightarrow>
          and_then (calculate_unstaked_lp D env u) (\<lambda>unstaked_lp.
          and_then (d_add D (addr_lp s) unstaked_lp) (\<lambda>lp.
          and_then (d_add D (addr_xlp s) (xlp_amount u)) (\<lambda>x.
          and_then (d_sub D x (collected u)) (\<lambda>x.
          and_then (d_sub D x unstaked_lp) (\<lambda>xlp.
          and_then (ts_add (unstake_started u) (unstake_duration u)) (\<lambda>ends.
          and_then (lp_to_collateral D stats (xlp_amount u)) (\<lambda>c.
          and_then (d_sub D (xlp_amount u) unstaked_lp) (\<lambda>p.
          and_then (d_sub D p (collected u)) (\<lambda>pending.
          Inr (lp, xlp, Some \<lparr>us_start = unstake_started u, us_end = ends,
            us_xlp_unstaking = xlp_amount u, us_xlp_unstaking_collateral = c,
            us_collected = collected u, us_available = unstaked_lp, us_pending = pending\<rparr>)))))))))))"

definition lp_info :: "dec256_api \<Rightarrow> Env \<Rightarrow> Ctx \<Rightarrow> Addr \<Rightarrow> LpInfoResp res" where
  "lp_info D env ctx lp_addr =
     (let stats = liquidity_stats ctx in
     and_then (load_liquidity_stats_addr_default ctx lp_addr) (\<lambda>s.
     and_then (get_liquidity_cooldown env s) (\<lambda>cooldown.
     and_then (calculate_accrued_yield D ctx s) (\<lambda>r.
     let accrued = (case r of None \<Rightarrow> \<lparr>la_lp = 0, la_xlp = 0\<rparr> | Some (_, a) \<Rightarrow> a) in
     and_then (d_add D (lp_accrued_yield s) (la_lp accrued)) (\<lambda>available_lp.
     and_then (d_add D (xlp_accrued_yield s) (la_xlp accrued)) (\<lambda>available_xlp.
     and_then (d_add D available_lp available_xlp) (\<lambda>a.
     and_then (d_add D a (crank_rewards s)) (\<lambda>b.
     and_then (d_add D b (referrer_rewards s)) (\<lambda>available.
     and_then (lp_info_balances D env stats s) (\<lambda>(lp0, xlp0, unstaking0).
     and_then (total_collateral D stats) (\<lambda>c.
     let (lp, xlp, unstaking_status) = (if c = 0 then (0, 0, None) else (lp0, xlp0, unstaking0)) in
     and_then (lp_to_collateral D stats lp) (\<lambda>lp_collateral.
     and_then (lp_to_collateral D stats xlp) (\<lambda>xlp_collateral.
     Inr \<lparr>li_lp_amount = lp, li_lp_collateral = lp_collateral, li_xlp_amount = xlp,
       li_xlp_collateral = xlp_collateral, li_available_yield = available,
       li_available_yield_lp = available_lp, li_available_yield_xlp = available_xlp,
       li_available_crank_rewards = crank_rewards s,
       li_available_referrer_rewards = referrer_rewards s, li_unstaking = unstaking_status,
       li_history = lp_history_get_summary ctx lp_addr, li_liquidity_cooldown = cooldown\<rparr>)))))))))))))"

end
