(* ===== verification/LiquidityInvariant.thy ===== *)
theory LiquidityInvariant
  imports LiquidityPool
begin

text \<open>
  The accounting invariant of the liquidity pool and its preservation by every provider operation:
  the protocol-wide totals are the sums over the providers (with the part of an unstaking that is
  not collected yet counted as LP), every provider's last accrual refers to a stored prefix sum,
  the collateral set aside in \<open>wallets\<close> and \<open>referral\<close> covers everything the providers have
  accrued or can still accrue, and a pool without collateral has no tokens. While a drained pool is being reset
  the totals are zero and the providers already visited hold no tokens.
\<close>

section \<open>Measures of a provider\<close>

definition pending_unstake :: "LiquidityStatsByAddr \<Rightarrow> nat" where
  "pending_unstake s = (case unstaking s of None \<Rightarrow> 0 | Some u \<Rightarrow> xlp_amount u - collected u)"

definition lp_units :: "LiquidityStatsByAddr \<Rightarrow> nat" where
  "lp_units s = addr_lp s + pending_unstake s"

definition accrued_total :: "LiquidityStatsByAddr \<Rightarrow> nat" where
  "accrued_total s = lp_accrued_yield s + xlp_accrued_yield s + crank_rewards s + referrer_rewards s"

text \<open>Yield a provider has earned since the last accrual, scaled by \<open>dec_one\<close>.\<close>

definition yield_owed :: "YieldPerToken \<Rightarrow> YieldPerToken \<Rightarrow> LiquidityStatsByAddr \<Rightarrow> nat" where
  "yield_owed y0 y1 s = (ypt_lp y1 - ypt_lp y0) * lp_units s + (ypt_xlp y1 - ypt_xlp y0) * addr_xlp s"

definition claimable :: "Ctx \<Rightarrow> LiquidityStatsByAddr \<Rightarrow> nat" where
  "claimable ctx s = dec_one * accrued_total s
     + (case (latest_yield_per_token ctx, fmlookup (yield_per_time_per_token ctx) (last_accrue_key s)) of
          (Inr (_, y1), Some y0) \<Rightarrow> yield_owed y0 y1 s
        | _ \<Rightarrow> 0)"

text \<open>An unstaking has collected less than its amount, and at most the linear share of the time
  that had passed at the last collection.\<close>

definition wf_unstaking :: "UnstakingXlp \<Rightarrow> bool" where
  "wf_unstaking u \<longleftrightarrow> collected u < xlp_amount u \<and> xlp_amount u < dec_lim
     \<and> unstake_started u \<le> last_collected u
     \<and> collected u * unstake_duration u \<le> xlp_amount u * (last_collected u - unstake_started u)"

definition wf_balances :: "LiquidityStatsByAddr \<Rightarrow> bool" where
  "wf_balances s \<longleftrightarrow> addr_lp s < dec_lim \<and> addr_xlp s < dec_lim
     \<and> (case unstaking s of None \<Rightarrow> True | Some u \<Rightarrow> wf_unstaking u)"

definition wf_addr :: "Ctx \<Rightarrow> LiquidityStatsByAddr \<Rightarrow> bool" where
  "wf_addr ctx s \<longleftrightarrow> \<not> is_empty_stats s \<and> wf_balances s
     \<and> (\<exists>k y1 y0. latest_yield_per_token ctx = Inr (k, y1)
          \<and> fmlookup (yield_per_time_per_token ctx) (last_accrue_key s) = Some y0
          \<and> ypt_lp y0 \<le> ypt_lp y1 \<and> ypt_xlp y0 \<le> ypt_xlp y1)"

definition wf_totals :: "Ctx \<Rightarrow> bool" where
  "wf_totals ctx =
     (case reset_lp_status ctx of
        None \<Rightarrow> total_lp (liquidity_stats ctx) = fmsum lp_units (stats_by_addr ctx)
              \<and> total_xlp (liquidity_stats ctx) = fmsum addr_xlp (stats_by_addr ctx)
      | Some r \<Rightarrow> total_lp (liquidity_stats ctx) = 0 \<and> total_xlp (liquidity_stats ctx) = 0
              \<and> (\<forall>a s. fmlookup (stats_by_addr ctx) a = Some s \<longrightarrow> \<not> reset_bound r a \<longrightarrow>
                   lp_units s = 0 \<and> addr_xlp s = 0))"

text \<open>What is set aside for yield and rewards: the wallets balance and the referral balance. A shared
  trading fee credits the referrer's account and books the reward under referral.\<close>

abbreviation set_aside :: "Fees \<Rightarrow> nat" where
  "set_aside f \<equiv> fees_wallets f + fees_referral f"

definition pool_inv :: "Ctx \<Rightarrow> bool" where
  "pool_inv ctx \<longleftrightarrow>
     (\<exists>k y. latest_yield_per_token ctx = Inr (k, y))
   \<and> (\<forall>a s. fmlookup (stats_by_addr ctx) a = Some s \<longrightarrow> wf_addr ctx s)
   \<and> fmsum (claimable ctx) (stats_by_addr ctx) \<le> dec_one * set_aside (all_fees ctx)
   \<and> wf_totals ctx
   \<and> (locked (liquidity_stats ctx) + unlocked (liquidity_stats ctx) = 0 \<longrightarrow>
        total_lp (liquidity_stats ctx) + total_xlp (liquidity_stats ctx) = 0)"

text \<open>The part of the context the invariant reads.\<close>

definition same_pool :: "Ctx \<Rightarrow> Ctx \<Rightarrow> bool" where
  "same_pool c c' \<longleftrightarrow> liquidity_stats c' = liquidity_stats c \<and> stats_by_addr c' = stats_by_addr c
     \<and> reset_lp_status c' = reset_lp_status c
     \<and> yield_per_time_per_token c' = yield_per_time_per_token c \<and> all_fees c' = all_fees c"

definition fresh_accrual :: "Addr \<Rightarrow> Ctx \<Rightarrow> bool" where
  "fresh_accrual a ctx \<longleftrightarrow> (\<forall>s k y. fmlookup (stats_by_addr ctx) a = Some s \<longrightarrow>
     latest_yield_per_token ctx = Inr (k, y) \<longrightarrow> last_accrue_key s = k)"

section \<open>Basic facts\<close>

lemma same_pool_refl [simp]: "same_pool c c"
  by (simp add: same_pool_def)

lemma same_pool_trans: "same_pool a b \<Longrightarrow> same_pool b c \<Longrightarrow> same_pool a c"
  by (simp add: same_pool_def)

lemma same_pool_add_event [simp]: "same_pool c (add_event env e c') = same_pool c c'"
  by (simp add: same_pool_def)

lemma latest_cong: "yield_per_time_per_token c' = yield_per_time_per_token c \<Longrightarrow>
    latest_yield_per_token c' = latest_yield_per_token c"
  by (simp add: latest_yield_per_token_def)

lemma claimable_cong:
  assumes "yield_per_time_per_token c' = yield_per_time_per_token c"
  shows "claimable c' = claimable c"
  by (rule ext) (simp add: claimable_def latest_cong [OF assms] assms)

lemma wf_addr_cong:
  assumes "yield_per_time_per_token c' = yield_per_time_per_token c"
  shows "wf_addr c' = wf_addr c"
  by (rule ext) (simp add: wf_addr_def latest_cong [OF assms] assms)

lemma pool_inv_same:
  assumes "same_pool c c'"
  shows "pool_inv c' = pool_inv c"
proof -
  have e: "liquidity_stats c' = liquidity_stats c" "stats_by_addr c' = stats_by_addr c"
      "reset_lp_status c' = reset_lp_status c" "all_fees c' = all_fees c"
    and y: "yield_per_time_per_token c' = yield_per_time_per_token c"
    using assms by (simp_all add: same_pool_def)
  show ?thesis
    unfolding pool_inv_def wf_totals_def latest_cong [OF y] claimable_cong [OF y] wf_addr_cong [OF y] e ..
qed

lemma fresh_same:
  assumes "same_pool c c'"
  shows "fresh_accrual a c' = fresh_accrual a c"
proof -
  have y: "yield_per_time_per_token c' = yield_per_time_per_token c"
    using assms by (simp add: same_pool_def)
  show ?thesis using assms by (simp add: fresh_accrual_def same_pool_def latest_cong [OF y])
qed

text \<open>Accounts and yields do not depend on the totals.\<close>

lemma totals_free [simp]:
  "latest_yield_per_token (c\<lparr>liquidity_stats := st\<rparr>) = latest_yield_per_token c"
  "wf_addr (c\<lparr>liquidity_stats := st\<rparr>) = wf_addr c"
  "claimable (c\<lparr>liquidity_stats := st\<rparr>) = claimable c"
  "save_liquidity_stats_addr a s (c\<lparr>liquidity_stats := st\<rparr>) = (save_liquidity_stats_addr a s c)\<lparr>liquidity_stats := st\<rparr>"
  by (rule latest_cong wf_addr_cong claimable_cong; simp; fail)+ (simp add: save_liquidity_stats_addr_def)

lemma fresh_totals_free [simp]: "fresh_accrual a (c\<lparr>liquidity_stats := st\<rparr>) = fresh_accrual a c"
  by (simp add: fresh_accrual_def)

lemma latest_Inr: "(latest_yield_per_token ctx = Inr (k, y))
    = (fm_last_where (\<lambda>_. True) (yield_per_time_per_token ctx) = Some k
       \<and> fmlookup (yield_per_time_per_token ctx) k = Some y)"
  by (auto simp: latest_yield_per_token_def bind_eq_Some_conv)

lemma empty_units: "is_empty_stats s \<Longrightarrow> lp_units s = 0 \<and> addr_xlp s = 0 \<and> claimable ctx s = 0"
  by (auto simp: is_empty_stats_def lp_units_def pending_unstake_def claimable_def accrued_total_def
      yield_owed_def split: sum.splits option.splits)

lemma fmsum_save_addr:
  assumes "is_empty_stats s \<Longrightarrow> f s = 0"
  shows "fmsum f (stats_by_addr (save_liquidity_stats_addr a s ctx)) + fmval f (stats_by_addr ctx) a
     = fmsum f (stats_by_addr ctx) + f s"
  using assms fmsum_upd [of f a s "stats_by_addr ctx"] fmsum_drop [of f a "stats_by_addr ctx"]
  by (simp add: save_liquidity_stats_addr_def)

lemma save_addr_fields [simp]:
  "liquidity_stats (save_liquidity_stats_addr a s ctx) = liquidity_stats ctx"
  "reset_lp_status (save_liquidity_stats_addr a s ctx) = reset_lp_status ctx"
  "yield_per_time_per_token (save_liquidity_stats_addr a s ctx) = yield_per_time_per_token ctx"
  "all_fees (save_liquidity_stats_addr a s ctx) = all_fees ctx"
  "fund_transfers (save_liquidity_stats_addr a s ctx) = fund_transfers ctx"
  "prices (save_liquidity_stats_addr a s ctx) = prices ctx"
  "delta_neutrality_fund (save_liquidity_stats_addr a s ctx) = delta_neutrality_fund ctx"
  "open_long_interest (save_liquidity_stats_addr a s ctx) = open_long_interest ctx"
  "open_short_interest (save_liquidity_stats_addr a s ctx) = open_short_interest ctx"
  by (simp_all add: save_liquidity_stats_addr_def)

lemma save_addr_lookup:
  "fmlookup (stats_by_addr (save_liquidity_stats_addr a s ctx)) b
     = (if b = a then (if is_empty_stats s then None else Some s) else fmlookup (stats_by_addr ctx) b)"
  by (simp add: save_liquidity_stats_addr_def)

lemma claimable_fresh:
  assumes "latest_yield_per_token ctx = Inr (last_accrue_key s, y)"
  shows "claimable ctx s = dec_one * accrued_total s"
  using assms by (simp add: claimable_def yield_owed_def) (simp add: latest_Inr yield_owed_def)

section \<open>Updating one provider\<close>

text \<open>The invariant survives replacing one provider's statistics together with the totals and the
  wallets, when the totals move with the provider's tokens and the wallets with what the provider
  can claim.\<close>

lemma pool_inv_account_update:
  assumes inv: "pool_inv ctx" and r: "reset_lp_status ctx = None"
    and wf: "is_empty_stats s \<or> wf_addr ctx s"
    and lp: "total_lp (liquidity_stats ctx') + fmval lp_units (stats_by_addr ctx) a
        = total_lp (liquidity_stats ctx) + lp_units s"
    and xlp: "total_xlp (liquidity_stats ctx') + fmval addr_xlp (stats_by_addr ctx) a
        = total_xlp (liquidity_stats ctx) + addr_xlp s"
    and claim: "claimable ctx s + dec_one * set_aside (all_fees ctx)
        \<le> fmval (claimable ctx) (stats_by_addr ctx) a + dec_one * set_aside (all_fees ctx')"
    and ctx': "stats_by_addr ctx' = stats_by_addr (save_liquidity_stats_addr a s ctx)"
      "yield_per_time_per_token ctx' = yield_per_time_per_token ctx" "reset_lp_status ctx' = None"
    and c0: "locked (liquidity_stats ctx') + unlocked (liquidity_stats ctx') = 0 \<longrightarrow>
        total_lp (liquidity_stats ctx') + total_xlp (liquidity_stats ctx') = 0"
  shows "pool_inv ctx'"
proof -
  have "fmsum lp_units (stats_by_addr ctx') + fmval lp_units (stats_by_addr ctx) a
      = fmsum lp_units (stats_by_addr ctx) + lp_units s"
    unfolding ctx' by (rule fmsum_save_addr) (simp add: empty_units)
  moreover have "fmsum addr_xlp (stats_by_addr ctx') + fmval addr_xlp (stats_by_addr ctx) a
      = fmsum addr_xlp (stats_by_addr ctx) + addr_xlp s"
    unfolding ctx' by (rule fmsum_save_addr) (simp add: empty_units)
  moreover have "fmsum (claimable ctx) (stats_by_addr ctx') + fmval (claimable ctx) (stats_by_addr ctx) a
      = fmsum (claimable ctx) (stats_by_addr ctx) + claimable ctx s"
    unfolding ctx' by (rule fmsum_save_addr) (simp add: empty_units)
  ultimately show ?thesis
    using inv r wf lp xlp claim c0 ctx'(2,3)
    by (auto simp: pool_inv_def wf_totals_def latest_cong [OF ctx'(2)] claimable_cong [OF ctx'(2)]
        wf_addr_cong [OF ctx'(2)] ctx'(1) save_addr_lookup)
qed

text \<open>The same for statistics that keep the provider's tokens: no condition on the reset.\<close>

lemma pool_inv_account_same_tokens:
  assumes inv: "pool_inv ctx" and old: "fmlookup (stats_by_addr ctx) a = Some s0"
    and wf: "wf_addr ctx s" and tok: "lp_units s = lp_units s0" "addr_xlp s = addr_xlp s0"
    and claim: "claimable ctx s \<le> claimable ctx s0"
  shows "pool_inv (save_liquidity_stats_addr a s ctx)"
proof (cases "reset_lp_status ctx")
  case None
  have "total_lp (liquidity_stats ctx) + total_xlp (liquidity_stats ctx) = 0"
    if "locked (liquidity_stats ctx) + unlocked (liquidity_stats ctx) = 0"
    using inv that by (simp add: pool_inv_def)
  then show ?thesis
    using pool_inv_account_update [OF inv None, of s "save_liquidity_stats_addr a s ctx" a] wf tok claim old None
    by (simp add: fmval_lookup)
next
  case (Some r)
  have y: "yield_per_time_per_token (save_liquidity_stats_addr a s ctx) = yield_per_time_per_token ctx"
    by simp
  have "fmsum (claimable ctx) (stats_by_addr (save_liquidity_stats_addr a s ctx))
      + fmval (claimable ctx) (stats_by_addr ctx) a = fmsum (claimable ctx) (stats_by_addr ctx) + claimable ctx s"
    by (rule fmsum_save_addr) (simp add: empty_units)
  moreover have ne: "\<not> is_empty_stats s" using wf by (simp add: wf_addr_def)
  ultimately show ?thesis
    using inv Some wf tok claim old
    by (auto simp: pool_inv_def wf_totals_def latest_cong [OF y] claimable_cong [OF y] wf_addr_cong [OF y]
        save_addr_lookup fmval_lookup)
qed

section \<open>Accrual and collection of unstaked tokens\<close>

lemma pool_inv_latest: "pool_inv ctx \<Longrightarrow> \<exists>k y. latest_yield_per_token ctx = Inr (k, y)"
  by (simp add: pool_inv_def)

lemma pool_inv_addr: "pool_inv ctx \<Longrightarrow> fmlookup (stats_by_addr ctx) a = Some s \<Longrightarrow> wf_addr ctx s"
  by (simp add: pool_inv_def)

lemma scaled_floor: "dec_one * (a * b div dec_one) \<le> a * (b::nat)"
  by (metis mult.commute div_times_less_eq_dividend)

context decimal256
begin

lemma unstaking_lp_units:
  "unstaking_lp D s = Inr n \<Longrightarrow> n = lp_units s"
  by (auto simp: unstaking_lp_def lp_units_def pending_unstake_def split: option.splits)

lemma accrued_le_owed:
  assumes "calculate_accrued_yield D ctx s = Inr (Some (k, acc))"
    and "latest_yield_per_token ctx = Inr (k1, y1)"
    and "fmlookup (yield_per_time_per_token ctx) (last_accrue_key s) = Some y0"
  shows "k = k1 \<and> dec_one * (la_lp acc + la_xlp acc) \<le> yield_owed y0 y1 s"
proof -
  have "k = k1" and acc: "la_lp acc = (ypt_lp y1 - ypt_lp y0) * lp_units s div dec_one"
      "la_xlp acc = (ypt_xlp y1 - ypt_xlp y0) * addr_xlp s div dec_one"
    using assms by (auto simp: calculate_accrued_yield_def checked_mul_dec_def
        dest!: unstaking_lp_units split: if_splits)
  then show ?thesis
    using scaled_floor [of "ypt_lp y1 - ypt_lp y0" "lp_units s"]
      scaled_floor [of "ypt_xlp y1 - ypt_xlp y0" "addr_xlp s"]
    by (simp add: yield_owed_def add_mult_distrib2 add_mono)
qed

lemma update_accrued_yield_result:
  assumes inv: "pool_inv ctx" and u: "update_accrued_yield D a ctx = Inr ctx'"
  shows "pool_inv ctx' \<and> fresh_accrual a ctx' \<and> (\<exists>m. ctx' = ctx\<lparr>stats_by_addr := m\<rparr>)
    \<and> (case fmlookup (stats_by_addr ctx) a of
         None \<Rightarrow> ctx' = ctx
       | Some s \<Rightarrow> \<exists>k p q. fmlookup (stats_by_addr ctx') a
           = Some (s\<lparr>last_accrue_key := k, lp_accrued_yield := p, xlp_accrued_yield := q\<rparr>))"
proof (cases "fmlookup (stats_by_addr ctx) a")
  case None
  obtain k y where l: "latest_yield_per_token ctx = Inr (k, y)" using pool_inv_latest [OF inv] by blast
  with None u have "ctx' = ctx"
    by (auto simp: update_accrued_yield_def load_liquidity_stats_addr_default_def new_addr_stats_def
        calculate_accrued_yield_def)
  moreover have "\<exists>m. ctx = ctx\<lparr>stats_by_addr := m\<rparr>"
    by (rule exI [of _ "stats_by_addr ctx"]) simp
  ultimately show ?thesis using inv None by (auto simp: fresh_accrual_def)
next
  case (Some s)
  obtain k1 y1 y0 where l: "latest_yield_per_token ctx = Inr (k1, y1)"
    and y0: "fmlookup (yield_per_time_per_token ctx) (last_accrue_key s) = Some y0"
    and ne: "\<not> is_empty_stats s"
    and us: "wf_balances s"
    using pool_inv_addr [OF inv Some] by (auto simp: wf_addr_def)
  obtain r where r: "calculate_accrued_yield D ctx s = Inr r"
    using u Some by (auto simp: update_accrued_yield_def load_liquidity_stats_addr_default_def)
  show ?thesis
  proof (cases r)
    case None
    with r l have "last_accrue_key s = k1"
      by (auto simp: calculate_accrued_yield_def split: if_splits)
    moreover have "ctx' = ctx"
      using u Some r None by (simp add: update_accrued_yield_def load_liquidity_stats_addr_default_def)
    moreover have "\<exists>m. ctx = ctx\<lparr>stats_by_addr := m\<rparr>"
      by (rule exI [of _ "stats_by_addr ctx"]) simp
    moreover have "\<exists>k p q. s = s\<lparr>last_accrue_key := k, lp_accrued_yield := p, xlp_accrued_yield := q\<rparr>"
      by (rule exI [of _ "last_accrue_key s"], rule exI [of _ "lp_accrued_yield s"],
          rule exI [of _ "xlp_accrued_yield s"]) simp
    ultimately show ?thesis
      using inv \<open>fmlookup (stats_by_addr ctx) a = Some s\<close> l by (auto simp: fresh_accrual_def)
  next
    case (Some r')
    obtain k acc where r': "r' = (k, acc)" by (cases r')
    from accrued_le_owed [OF r [unfolded Some r'] l y0]
    have k: "k = k1" and le: "dec_one * (la_lp acc + la_xlp acc) \<le> yield_owed y0 y1 s" by auto
    define s' where "s' = s\<lparr>last_accrue_key := k1, lp_accrued_yield := lp_accrued_yield s + la_lp acc,
        xlp_accrued_yield := xlp_accrued_yield s + la_xlp acc\<rparr>"
    have ctx': "ctx' = save_liquidity_stats_addr a s' ctx"
      using u \<open>fmlookup (stats_by_addr ctx) a = Some s\<close> r Some r' k
      by (auto simp: update_accrued_yield_def load_liquidity_stats_addr_default_def s'_def)
    have ne': "\<not> is_empty_stats s'" using ne by (auto simp: is_empty_stats_def s'_def)
    have "wf_addr ctx s'"
      using ne' us l by (auto simp: wf_addr_def wf_balances_def latest_Inr s'_def)
    moreover have "claimable ctx s' \<le> claimable ctx s"
    proof -
      have "claimable ctx s' = dec_one * accrued_total s'"
        using l by (intro claimable_fresh) (simp add: s'_def)
      also have "\<dots> = dec_one * accrued_total s + dec_one * (la_lp acc + la_xlp acc)"
        by (simp add: accrued_total_def s'_def algebra_simps)
      finally show ?thesis using le l y0 by (simp add: claimable_def)
    qed
    moreover have "lp_units s' = lp_units s" "addr_xlp s' = addr_xlp s"
      by (simp_all add: lp_units_def pending_unstake_def s'_def)
    ultimately have "pool_inv ctx'"
      using pool_inv_account_same_tokens [OF inv \<open>fmlookup (stats_by_addr ctx) a = Some s\<close>] ctx' by blast
    moreover have lk: "fmlookup (stats_by_addr ctx') a = Some s'"
      using ne' by (simp add: ctx' save_addr_lookup)
    moreover have "fresh_accrual a ctx'"
      using lk l latest_cong [of ctx' ctx] by (simp add: fresh_accrual_def ctx' s'_def)
    moreover have "\<exists>m. ctx' = ctx\<lparr>stats_by_addr := m\<rparr>"
      by (auto simp: ctx' save_liquidity_stats_addr_def)
    ultimately show ?thesis
      using \<open>fmlookup (stats_by_addr ctx) a = Some s\<close> by (auto simp: s'_def)
  qed
qed

end

section \<open>Book keeping\<close>

text \<open>What book keeping leaves alone.\<close>

definition same_market :: "Ctx \<Rightarrow> Ctx \<Rightarrow> bool" where
  "same_market c c' \<longleftrightarrow> liquidity_stats c' = liquidity_stats c \<and> reset_lp_status c' = reset_lp_status c
     \<and> yield_per_time_per_token c' = yield_per_time_per_token c \<and> all_fees c' = all_fees c
     \<and> fund_transfers c' = fund_transfers c \<and> prices c' = prices c
     \<and> open_long_interest c' = open_long_interest c \<and> open_short_interest c' = open_short_interest c
     \<and> delta_neutrality_fund c' = delta_neutrality_fund c"

lemma same_market_refl [simp]: "same_market c c"
  by (simp add: same_market_def)

lemma same_market_trans: "same_market a b \<Longrightarrow> same_market b c \<Longrightarrow> same_market a c"
  by (simp add: same_market_def)

lemma history_action_same:
  "lp_history_add_action D env a kind t c ctx = Inr ctx' \<Longrightarrow> same_pool ctx ctx' \<and> same_market ctx ctx'"
  by (auto simp: lp_history_add_action_def Let_def same_pool_def same_market_def)

lemma history_summary_same:
  "lp_history_add_summary_deposit D env a c ctx = Inr ctx' \<Longrightarrow> same_pool ctx ctx' \<and> same_market ctx ctx'"
  "lp_history_add_summary_yield D env a c ctx = Inr ctx' \<Longrightarrow> same_pool ctx ctx' \<and> same_market ctx ctx'"
  by (auto simp: lp_history_add_summary_deposit_def lp_history_add_summary_yield_def Let_def
      same_pool_def same_market_def)

lemma history_same:
  "lp_history_add_deposit D env a t c x ctx = Inr ctx' \<Longrightarrow> same_pool ctx ctx' \<and> same_market ctx ctx'"
  "lp_history_add_reinvest_yield D env a t c x ctx = Inr ctx' \<Longrightarrow> same_pool ctx ctx' \<and> same_market ctx ctx'"
  "lp_history_add_unstake_xlp D env a t c ctx = Inr ctx' \<Longrightarrow> same_pool ctx ctx' \<and> same_market ctx ctx'"
  "lp_history_add_withdraw D env a t c ctx = Inr ctx' \<Longrightarrow> same_pool ctx ctx' \<and> same_market ctx ctx'"
  "lp_history_add_claim_yield D env a c ctx = Inr ctx' \<Longrightarrow> same_pool ctx ctx' \<and> same_market ctx ctx'"
  "lp_history_add_collect_lp D env a t c ctx = Inr ctx' \<Longrightarrow> same_pool ctx ctx' \<and> same_market ctx ctx'"
  unfolding lp_history_add_deposit_def lp_history_add_reinvest_yield_def lp_history_add_unstake_xlp_def
    lp_history_add_withdraw_def lp_history_add_claim_yield_def lp_history_add_collect_lp_def
  by (auto dest!: history_action_same history_summary_same intro: same_pool_trans same_market_trans)

lemma pool_events_same:
  "add_pool_size_change_events D env s p ctx = Inr ctx' \<Longrightarrow> same_pool ctx ctx' \<and> same_market ctx ctx'"
  by (cases "mid_market_type (env_market_id env)")
    (auto simp: add_pool_size_change_events_def add_delta_neutrality_ratio_event_def Let_def
      same_pool_def same_market_def)

lemma transfer_same:
  "add_token_transfer_msg D a x ctx = Inr ctx' \<Longrightarrow> same_pool ctx ctx'
     \<and> open_long_interest ctx' = open_long_interest ctx \<and> open_short_interest ctx' = open_short_interest ctx
     \<and> prices ctx' = prices ctx \<and> delta_neutrality_fund ctx' = delta_neutrality_fund ctx"
  by (auto simp: add_token_transfer_msg_def same_pool_def split: option.splits)

text \<open>A provider's view is kept up to moving unstaked tokens to the LP balance.\<close>

definition kept_provider :: "LiquidityStatsByAddr \<Rightarrow> LiquidityStatsByAddr \<Rightarrow> bool" where
  "kept_provider s s' \<longleftrightarrow> lp_units s' = lp_units s \<and> addr_xlp s' = addr_xlp s
     \<and> addr_lp s \<le> addr_lp s' \<and> cooldown_ends s' = cooldown_ends s"

context decimal256
begin

lemma calculate_unstaked_lp_bound:
  assumes wf: "wf_unstaking u" and c: "calculate_unstaked_lp D env u = Inr n"
  shows "last_collected u \<le> env_now env \<or> unstake_duration u \<le> env_now env - unstake_started u"
    and "unstake_duration u \<le> env_now env - unstake_started u \<Longrightarrow> n = xlp_amount u - collected u"
    and "\<not> unstake_duration u \<le> env_now env - unstake_started u \<Longrightarrow>
      last_collected u \<le> env_now env \<and> n * unstake_duration u \<le> xlp_amount u * (env_now env - last_collected u)"
proof -
  have x: "xlp_amount u < dec_lim" "collected u < xlp_amount u" using wf by (simp_all add: wf_unstaking_def)
  show 1: "unstake_duration u \<le> env_now env - unstake_started u \<Longrightarrow> n = xlp_amount u - collected u"
    using c x by (auto simp: calculate_unstaked_lp_def signed_sub_Inr u_try_from_number_iff)
  show 2: "\<not> unstake_duration u \<le> env_now env - unstake_started u \<Longrightarrow>
      last_collected u \<le> env_now env \<and> n * unstake_duration u \<le> xlp_amount u * (env_now env - last_collected u)"
  proof -
    let ?d = "unstake_duration u" and ?e = "env_now env - last_collected u"
    assume nd: "\<not> ?d \<le> env_now env - unstake_started u"
    obtain e d q m where lc: "last_collected u \<le> env_now env"
      and e: "number_from_u128 D ?e = Inr e" and d: "number_from_u128 D ?d = Inr d"
      and q: "number_checked_div D e d = Inr q"
      and m: "number_checked_mul D q (new_positive (xlp_amount u)) = Inr m"
      and n: "u_try_from_number m = Inr n"
      using c nd by (auto simp: calculate_unstaked_lp_def)
    have e': "wf_signed e" "num e = int (?e * dec_one)"
      using e by (auto simp: number_from_u128_def)
    have d': "wf_signed d" "num d = int (?d * dec_one)"
      using d by (auto simp: number_from_u128_def)
    have q': "wf_signed q" "num q = (int (?e * dec_one) * int dec_one) sdiv int (?d * dec_one)"
      using q e' d' by (auto simp: signed_div_Inr)
    have q'': "num q = int (?e * dec_one * dec_one div (?d * dec_one))"
      unfolding q'(2) by (simp flip: of_nat_mult)
    have wx: "wf_signed (new_positive (xlp_amount u))" using x by simp
    have m': "wf_signed m" "num m = (num q * int (xlp_amount u)) sdiv int dec_one"
      using m q'(1) wx by (auto simp: signed_mul_Inr)
    have "num m = int (?e * dec_one * dec_one div (?d * dec_one) * xlp_amount u div dec_one)"
      unfolding m'(2) q'' by (simp flip: of_nat_mult)
    moreover have "num m = int n" using n m'(1) by (simp add: u_try_from_number_iff)
    ultimately have neq: "n = ?e * dec_one * dec_one div (?d * dec_one) * xlp_amount u div dec_one" by simp
    let ?q = "?e * dec_one * dec_one div (?d * dec_one)"
    have "?q * (?d * dec_one) \<le> ?e * dec_one * dec_one" by simp
    then have qd: "?q * ?d \<le> ?e * dec_one" using dec_one_pos by (simp add: mult.assoc [symmetric])
    have "n * dec_one \<le> ?q * xlp_amount u" unfolding neq by simp
    then have "n * dec_one * ?d \<le> ?q * xlp_amount u * ?d" by (rule mult_le_mono1)
    also have "\<dots> = (?q * ?d) * xlp_amount u" by (simp add: mult_ac)
    also have "\<dots> \<le> ?e * dec_one * xlp_amount u" using qd by (rule mult_le_mono1)
    finally have "(n * ?d) * dec_one \<le> (xlp_amount u * ?e) * dec_one" by (simp add: mult_ac)
    then have "n * ?d \<le> xlp_amount u * ?e" using dec_one_pos by simp
    with lc show ?thesis by simp
  qed
  show "last_collected u \<le> env_now env \<or> unstake_duration u \<le> env_now env - unstake_started u"
    using 2 by blast
qed

text \<open>Collecting never exceeds the amount being unstaked and keeps the linear bound.\<close>

lemma unstaking_after_collect:
  assumes wf: "wf_unstaking u" and c: "calculate_unstaked_lp D env u = Inr n"
  shows "collected u + n \<le> xlp_amount u"
    and "collected u + n < xlp_amount u \<Longrightarrow>
      wf_unstaking (u\<lparr>collected := collected u + n, last_collected := env_now env\<rparr>)"
proof -
  note b = calculate_unstaked_lp_bound [OF wf c]
  have w: "collected u < xlp_amount u" "unstake_started u \<le> last_collected u"
      "collected u * unstake_duration u \<le> xlp_amount u * (last_collected u - unstake_started u)"
    using wf by (simp_all add: wf_unstaking_def)
  have lin: "last_collected u \<le> env_now env \<and> (collected u + n) * unstake_duration u
        \<le> xlp_amount u * (env_now env - unstake_started u)"
    if nd: "\<not> unstake_duration u \<le> env_now env - unstake_started u"
  proof -
    have lc: "last_collected u \<le> env_now env"
      and nb: "n * unstake_duration u \<le> xlp_amount u * (env_now env - last_collected u)"
      using b(3) [OF nd] by auto
    have "(collected u + n) * unstake_duration u
        \<le> xlp_amount u * (last_collected u - unstake_started u) + xlp_amount u * (env_now env - last_collected u)"
      using w(3) nb by (simp add: add_mult_distrib)
    also have "\<dots> = xlp_amount u * (env_now env - unstake_started u)"
      using lc w(2) by (simp flip: add_mult_distrib2)
    finally show ?thesis using lc by simp
  qed
  show "collected u + n \<le> xlp_amount u"
  proof (cases "unstake_duration u \<le> env_now env - unstake_started u")
    case True
    then show ?thesis using b(2) w(1) by simp
  next
    case False
    then have "(collected u + n) * unstake_duration u \<le> xlp_amount u * unstake_duration u"
      using lin by (meson le_trans mult_le_mono2 nat_le_linear)
    moreover have "0 < unstake_duration u" using False by simp
    ultimately show ?thesis by simp
  qed
  show "collected u + n < xlp_amount u \<Longrightarrow>
      wf_unstaking (u\<lparr>collected := collected u + n, last_collected := env_now env\<rparr>)"
  proof (cases "unstake_duration u \<le> env_now env - unstake_started u")
    case True
    assume "collected u + n < xlp_amount u"
    then show ?thesis using b(2) [OF True] w(1) by simp
  next
    case False
    assume "collected u + n < xlp_amount u"
    then show ?thesis using lin [OF False] wf by (simp add: wf_unstaking_def)
  qed
qed

text \<open>The operations on one provider keep the invariant for any totals \<open>st\<close> that fit the accounts: between
  the two sides of a transfer of tokens the stored totals do not.\<close>

lemma collect_unstaked_lp_at:
  assumes inv: "pool_inv (ctx\<lparr>liquidity_stats := st\<rparr>)" and fr: "fresh_accrual a ctx"
    and c: "collect_unstaked_lp D env a ctx = Inr (b, ctx')"
  shows "pool_inv (ctx'\<lparr>liquidity_stats := st\<rparr>) \<and> fresh_accrual a ctx' \<and> same_market ctx ctx'
    \<and> (case fmlookup (stats_by_addr ctx) a of
         None \<Rightarrow> fmlookup (stats_by_addr ctx') a = None
       | Some s \<Rightarrow> \<exists>s'. fmlookup (stats_by_addr ctx') a = Some s' \<and> kept_provider s s'
           \<and> claimable ctx' s' = claimable ctx s)"
proof (cases "Option.bind (fmlookup (stats_by_addr ctx) a) unstaking")
  case None
  then have "ctx' = ctx" using c by (simp add: collect_unstaked_lp_def)
  with inv fr show ?thesis by (auto simp: kept_provider_def split: option.split)
next
  case (Some u0)
  then obtain s0 where s0: "fmlookup (stats_by_addr ctx) a = Some s0" "unstaking s0 = Some u0"
    by (auto simp: bind_eq_Some_conv)
  obtain k y where l: "latest_yield_per_token ctx = Inr (k, y)" using pool_inv_latest [OF inv] by auto
  have k: "last_accrue_key s0 = k" using fr s0 l by (auto simp: fresh_accrual_def)
  have "update_accrued_yield D a ctx = Inr ctx"
    using s0 l k by (simp add: update_accrued_yield_def load_liquidity_stats_addr_default_def
        calculate_accrued_yield_def)
  with c Some s0 obtain n where n: "calculate_unstaked_lp D env u0 = Inr n"
    by (auto simp: collect_unstaked_lp_def load_liquidity_stats_addr_def)
  show ?thesis
  proof (cases "n = 0")
    case True
    then have "ctx' = ctx"
      using c Some s0 n \<open>update_accrued_yield D a ctx = Inr ctx\<close>
      by (simp add: collect_unstaked_lp_def load_liquidity_stats_addr_def nonzero_new_def)
    with inv fr show ?thesis by (auto simp: kept_provider_def split: option.split)
  next
    case False
    define ns where "ns = (if collected u0 + n < xlp_amount u0
        then Some (u0\<lparr>collected := collected u0 + n, last_collected := env_now env\<rparr>) else None)"
    define s' where "s' = s0\<lparr>unstaking := ns, addr_lp := addr_lp s0 + n\<rparr>"
    have le: "collected u0 + n \<le> xlp_amount u0" and lp: "addr_lp s0 + n < dec_lim"
      and hist: "\<exists>col. lp_history_add_collect_lp D env a n col (save_liquidity_stats_addr a s' ctx) = Inr ctx'"
      using c Some s0 n False \<open>update_accrued_yield D a ctx = Inr ctx\<close>
      by (auto simp: collect_unstaked_lp_def load_liquidity_stats_addr_def nonzero_new_def Let_def
          ns_def s'_def split: if_splits)
    have wf0: "wf_addr ctx s0" using pool_inv_addr [OF inv, of a s0] s0(1) by simp
    have ne: "\<not> is_empty_stats s'" using False by (simp add: is_empty_stats_def s'_def)
    have wu: "wf_unstaking u0" using wf0 s0(2) by (simp add: wf_addr_def wf_balances_def)
    have wf: "wf_addr ctx s'"
      using wf0 ne s0(2) lp unstaking_after_collect(2) [OF wu n]
      by (auto simp: wf_addr_def wf_balances_def s'_def ns_def)
    have units: "lp_units s' = lp_units s0" "addr_xlp s' = addr_xlp s0"
      using le s0(2) by (auto simp: lp_units_def pending_unstake_def s'_def ns_def)
    have cl: "claimable ctx s' = claimable ctx s0"
      using claimable_fresh [of ctx s' y] claimable_fresh [of ctx s0 y] l k
      by (simp add: accrued_total_def s'_def)
    from hist obtain col where hs: "same_pool (save_liquidity_stats_addr a s' ctx) ctx'"
        "same_market (save_liquidity_stats_addr a s' ctx) ctx'"
      using history_same(6) by blast
    have sp: "same_pool ((save_liquidity_stats_addr a s' ctx)\<lparr>liquidity_stats := st\<rparr>) (ctx'\<lparr>liquidity_stats := st\<rparr>)"
      using hs(1) by (simp add: same_pool_def)
    have "pool_inv (ctx'\<lparr>liquidity_stats := st\<rparr>)"
      using pool_inv_account_same_tokens [OF inv, of a s0 s'] s0(1) wf units cl pool_inv_same [OF sp] by simp
    moreover have lk: "fmlookup (stats_by_addr ctx') a = Some s'"
      using hs(1) ne by (simp add: same_pool_def save_addr_lookup)
    moreover have y: "yield_per_time_per_token ctx' = yield_per_time_per_token ctx"
      using hs(1) by (simp add: same_pool_def)
    moreover have "fresh_accrual a ctx'"
      using lk l k latest_cong [OF y] by (simp add: fresh_accrual_def s'_def)
    moreover have "same_market ctx ctx'"
      using hs(2) by (simp add: same_market_def save_liquidity_stats_addr_def)
    moreover have "claimable ctx' s' = claimable ctx s0"
      using cl claimable_cong [OF y] by simp
    ultimately show ?thesis
      using s0 units by (auto simp: kept_provider_def s'_def)
  qed
qed

lemma update_accrued_at:
  assumes inv: "pool_inv (ctx\<lparr>liquidity_stats := st\<rparr>)" and u: "update_accrued_yield D a ctx = Inr c1"
  shows "pool_inv (c1\<lparr>liquidity_stats := st\<rparr>) \<and> fresh_accrual a c1 \<and> (\<exists>m. c1 = ctx\<lparr>stats_by_addr := m\<rparr>)
    \<and> (case fmlookup (stats_by_addr ctx) a of
         None \<Rightarrow> c1 = ctx
       | Some s \<Rightarrow> \<exists>k p q. fmlookup (stats_by_addr c1) a
           = Some (s\<lparr>last_accrue_key := k, lp_accrued_yield := p, xlp_accrued_yield := q\<rparr>))"
proof -
  have l: "load_liquidity_stats_addr_default (ctx\<lparr>liquidity_stats := st\<rparr>) a = load_liquidity_stats_addr_default ctx a"
    by (simp add: load_liquidity_stats_addr_default_def new_addr_stats_def split: option.split)
  have c: "calculate_accrued_yield D (ctx\<lparr>liquidity_stats := st\<rparr>) s = calculate_accrued_yield D ctx s" for s
  proof -
    have "yield_per_time_per_token (ctx\<lparr>liquidity_stats := st\<rparr>) = yield_per_time_per_token ctx" by simp
    then show ?thesis unfolding calculate_accrued_yield_def totals_free by (simp only:)
  qed
  have "update_accrued_yield D a (ctx\<lparr>liquidity_stats := st\<rparr>) = Inr (c1\<lparr>liquidity_stats := st\<rparr>)"
    using u by (auto simp: update_accrued_yield_def l c split: option.splits)
  note v = update_accrued_yield_result [OF inv this]
  have "\<exists>m. c1 = ctx\<lparr>stats_by_addr := m\<rparr>"
    using u by (auto simp: update_accrued_yield_def save_liquidity_stats_addr_def split: option.splits)
      (rule exI [of _ "stats_by_addr ctx"], simp)
  moreover have "c1 = ctx" if "fmlookup (stats_by_addr ctx) a = None"
    using u that by (auto simp: update_accrued_yield_def load_liquidity_stats_addr_default_def
        new_addr_stats_def calculate_accrued_yield_def)
  ultimately show ?thesis using v by (auto split: option.splits)
qed

text \<open>Book keeping touches the account of its provider only.\<close>

lemma update_accrued_others:
  "update_accrued_yield D a ctx = Inr ctx' \<Longrightarrow> b \<noteq> a \<Longrightarrow>
     fmlookup (stats_by_addr ctx') b = fmlookup (stats_by_addr ctx) b"
  by (auto simp: update_accrued_yield_def save_addr_lookup split: option.splits)

lemma book_keeping_others:
  assumes p: "perform_lp_book_keeping D env a ctx = Inr ctx'" and ne: "b \<noteq> a"
  shows "fmlookup (stats_by_addr ctx') b = fmlookup (stats_by_addr ctx) b"
proof -
  obtain c1 f where u: "update_accrued_yield D a ctx = Inr c1" and c: "collect_unstaked_lp D env a c1 = Inr (f, ctx')"
    using p by (auto simp: perform_lp_book_keeping_def)
  have "ctx' = c1 \<or> (\<exists>c2. update_accrued_yield D a c1 = Inr c2
      \<and> (ctx' = c2 \<or> (\<exists>s n col. lp_history_add_collect_lp D env a n col (save_liquidity_stats_addr a s c2) = Inr ctx')))"
    using c by (auto simp: collect_unstaked_lp_def Let_def nonzero_new_def split: option.splits if_splits)
  then have "fmlookup (stats_by_addr ctx') b = fmlookup (stats_by_addr c1) b"
    using ne update_accrued_others [of a c1 _ b] history_same(6) by (fastforce simp: same_pool_def save_addr_lookup)
  with update_accrued_others [OF u ne] show ?thesis by simp
qed

lemma book_keeping_at:
  assumes inv: "pool_inv (ctx\<lparr>liquidity_stats := st\<rparr>)" and p: "perform_lp_book_keeping D env a ctx = Inr ctx'"
  shows "pool_inv (ctx'\<lparr>liquidity_stats := st\<rparr>) \<and> fresh_accrual a ctx' \<and> same_market ctx ctx'
    \<and> (case fmlookup (stats_by_addr ctx) a of
         None \<Rightarrow> fmlookup (stats_by_addr ctx') a = None
       | Some s \<Rightarrow> \<exists>s'. fmlookup (stats_by_addr ctx') a = Some s' \<and> kept_provider s s')"
proof -
  obtain c1 b where u: "update_accrued_yield D a ctx = Inr c1"
    and c: "collect_unstaked_lp D env a c1 = Inr (b, ctx')"
    using p by (auto simp: perform_lp_book_keeping_def)
  from update_accrued_at [OF inv u] have 1: "pool_inv (c1\<lparr>liquidity_stats := st\<rparr>)" "fresh_accrual a c1"
    and m: "\<exists>m. c1 = ctx\<lparr>stats_by_addr := m\<rparr>"
    and l1: "case fmlookup (stats_by_addr ctx) a of
         None \<Rightarrow> c1 = ctx
       | Some s \<Rightarrow> \<exists>k p q. fmlookup (stats_by_addr c1) a
           = Some (s\<lparr>last_accrue_key := k, lp_accrued_yield := p, xlp_accrued_yield := q\<rparr>)" by auto
  have sm: "same_market ctx c1" using m by (auto simp: same_market_def)
  from collect_unstaked_lp_at [OF 1 c] show ?thesis
    using l1 sm by (auto simp: kept_provider_def lp_units_def pending_unstake_def
        intro: same_market_trans split: option.splits)
qed

lemma collect_unstaked_lp_result:
  assumes "pool_inv ctx" and "fresh_accrual a ctx" and c: "collect_unstaked_lp D env a ctx = Inr (b, ctx')"
  shows "pool_inv ctx' \<and> fresh_accrual a ctx' \<and> same_market ctx ctx'
    \<and> (case fmlookup (stats_by_addr ctx) a of
         None \<Rightarrow> fmlookup (stats_by_addr ctx') a = None
       | Some s \<Rightarrow> \<exists>s'. fmlookup (stats_by_addr ctx') a = Some s' \<and> kept_provider s s'
           \<and> claimable ctx' s' = claimable ctx s)"
proof -
  have at: "pool_inv (ctx\<lparr>liquidity_stats := liquidity_stats ctx\<rparr>)" using assms(1) by simp
  note r = collect_unstaked_lp_at [OF at assms(2) c]
  then have "ctx'\<lparr>liquidity_stats := liquidity_stats ctx\<rparr> = ctx'" by (simp add: same_market_def)
  with r show ?thesis by simp
qed

lemma book_keeping_result:
  assumes "pool_inv ctx" and p: "perform_lp_book_keeping D env a ctx = Inr ctx'"
  shows "pool_inv ctx' \<and> fresh_accrual a ctx' \<and> same_market ctx ctx'
    \<and> (case fmlookup (stats_by_addr ctx) a of
         None \<Rightarrow> fmlookup (stats_by_addr ctx') a = None
       | Some s \<Rightarrow> \<exists>s'. fmlookup (stats_by_addr ctx') a = Some s' \<and> kept_provider s s')"
proof -
  have at: "pool_inv (ctx\<lparr>liquidity_stats := liquidity_stats ctx\<rparr>)" using assms(1) by simp
  note r = book_keeping_at [OF at p]
  then have "ctx'\<lparr>liquidity_stats := liquidity_stats ctx\<rparr> = ctx'" by (simp add: same_market_def)
  with r show ?thesis by simp
qed

end

section \<open>Saving the totals after a provider\<close>

definition stats_collateral :: "LiquidityStats \<Rightarrow> nat" where
  "stats_collateral s = locked s + unlocked s"

definition stats_tokens :: "LiquidityStats \<Rightarrow> nat" where
  "stats_tokens s = total_lp s + total_xlp s"

text \<open>Everything the contract owes: the pool, the fee balances and the delta neutrality fund,
  and the transfers of this call. Collateral of open positions is not part of it.\<close>

definition liabilities :: "Ctx \<Rightarrow> nat" where
  "liabilities ctx = stats_collateral (liquidity_stats ctx) + fees_wallets (all_fees ctx)
     + fees_protocol (all_fees ctx) + fees_crank (all_fees ctx) + fees_referral (all_fees ctx)
     + (case delta_neutrality_fund ctx of None \<Rightarrow> 0 | Some f \<Rightarrow> f) + transfers_total ctx"

context decimal256
begin

lemma save_stats_cases:
  "save_liquidity_stats D s c = Inr c' \<Longrightarrow>
     (stats_collateral s = 0 \<and> stats_tokens s \<noteq> 0
        \<and> c' = c\<lparr>liquidity_stats := empty_stats, reset_lp_status := Some ResetBegin\<rparr>)
     \<or> ((stats_collateral s = 0 \<longrightarrow> stats_tokens s = 0) \<and> c' = c\<lparr>liquidity_stats := s\<rparr>)"
  by (auto simp: save_liquidity_stats_def total_collateral_def total_tokens_def stats_collateral_def
      stats_tokens_def split: if_splits)

lemma provider_update:
  assumes inv: "pool_inv ctx" and r: "reset_lp_status ctx = None"
    and fr: "fresh_accrual a ctx" and s0: "fmlookup (stats_by_addr ctx) a = Some s0"
    and key: "last_accrue_key s = last_accrue_key s0" and wf: "wf_balances s"
    and acc: "accrued_total s + set_aside (all_fees ctx) \<le> accrued_total s0 + set_aside (all_fees ctx1)"
    and lp: "total_lp st + lp_units s0 = total_lp (liquidity_stats ctx) + lp_units s"
    and xlp: "total_xlp st + addr_xlp s0 = total_xlp (liquidity_stats ctx) + addr_xlp s"
    and c1: "stats_by_addr ctx1 = stats_by_addr (save_liquidity_stats_addr a s ctx)"
      "yield_per_time_per_token ctx1 = yield_per_time_per_token ctx" "reset_lp_status ctx1 = None"
    and sv: "save_liquidity_stats D st ctx1 = Inr ctx2"
  shows "pool_inv ctx2"
proof -
  obtain k y where l: "latest_yield_per_token ctx = Inr (k, y)" using pool_inv_latest [OF inv] by blast
  have k0: "last_accrue_key s0 = k" using fr s0 l by (simp add: fresh_accrual_def)
  have cl: "claimable ctx s = dec_one * accrued_total s" "claimable ctx s0 = dec_one * accrued_total s0"
    using l k0 key by (auto intro!: claimable_fresh)
  have wfa: "is_empty_stats s \<or> wf_addr ctx s"
    using wf l key k0 by (auto simp: wf_addr_def latest_Inr)
  have "dec_one * (accrued_total s + set_aside (all_fees ctx))
      \<le> dec_one * (accrued_total s0 + set_aside (all_fees ctx1))"
    using acc by (rule mult_le_mono2)
  then have claim: "claimable ctx s + dec_one * set_aside (all_fees ctx)
      \<le> fmval (claimable ctx) (stats_by_addr ctx) a + dec_one * set_aside (all_fees ctx1)"
    using cl s0 by (simp add: fmval_lookup add_mult_distrib2)
  from save_stats_cases [OF sv] consider
      (drained) "ctx2 = ctx1\<lparr>liquidity_stats := empty_stats, reset_lp_status := Some ResetBegin\<rparr>"
    | (kept) "stats_collateral st = 0 \<longrightarrow> stats_tokens st = 0" "ctx2 = ctx1\<lparr>liquidity_stats := st\<rparr>"
    by blast
  then show ?thesis
  proof cases
    case kept
    show ?thesis
      by (rule pool_inv_account_update [OF inv r wfa, where a = a])
        (use kept lp xlp claim c1 s0 in \<open>simp_all add: fmval_lookup stats_collateral_def stats_tokens_def\<close>)
  next
    case drained
    have y: "yield_per_time_per_token ctx2 = yield_per_time_per_token ctx" using drained c1 by simp
    have f: "liquidity_stats ctx2 = empty_stats" "reset_lp_status ctx2 = Some ResetBegin"
        "stats_by_addr ctx2 = stats_by_addr (save_liquidity_stats_addr a s ctx)" "all_fees ctx2 = all_fees ctx1"
      using drained c1 by simp_all
    have "fmsum (claimable ctx) (stats_by_addr ctx2) + fmval (claimable ctx) (stats_by_addr ctx) a
        = fmsum (claimable ctx) (stats_by_addr ctx) + claimable ctx s"
      using fmsum_save_addr [of s "claimable ctx" a ctx] f by (simp add: empty_units)
    then have "fmsum (claimable ctx) (stats_by_addr ctx2) \<le> dec_one * set_aside (all_fees ctx2)"
      using inv claim f(4) by (simp add: pool_inv_def)
    moreover have "wf_addr ctx t" if "fmlookup (stats_by_addr ctx2) b = Some t" for b t
      using that inv wfa by (auto simp: f(3) save_addr_lookup pool_inv_def split: if_splits)
    ultimately show ?thesis
      using l by (simp add: pool_inv_def wf_totals_def latest_cong [OF y] claimable_cong [OF y]
          wf_addr_cong [OF y] f(1,2) empty_stats_def reset_bound_def)
  qed
qed

end

section \<open>Preservation by the provider operations\<close>

lemma liabilities_same: "same_market c c' \<Longrightarrow> liabilities c' = liabilities c"
  by (simp add: same_market_def liabilities_def transfers_total_def)

lemma liabilities_save_addr [simp]: "liabilities (save_liquidity_stats_addr a s c) = liabilities c"
  by (simp add: liabilities_def transfers_total_def save_liquidity_stats_addr_def)

lemma liabilities_add_event [simp]: "liabilities (add_event env e c) = liabilities c"
  by (simp add: liabilities_def transfers_total_def)

context decimal256
begin

lemma save_stats_liabilities:
  "save_liquidity_stats D s c = Inr c' \<Longrightarrow>
     liabilities c' + stats_collateral (liquidity_stats c) = liabilities c + stats_collateral s"
  by (auto dest!: save_stats_cases simp: liabilities_def transfers_total_def stats_collateral_def empty_stats_def)

lemma save_stats_fields:
  "save_liquidity_stats D s c = Inr c' \<Longrightarrow> stats_by_addr c' = stats_by_addr c
     \<and> yield_per_time_per_token c' = yield_per_time_per_token c \<and> all_fees c' = all_fees c
     \<and> fund_transfers c' = fund_transfers c \<and> prices c' = prices c
     \<and> delta_neutrality_fund c' = delta_neutrality_fund c
     \<and> open_long_interest c' = open_long_interest c \<and> open_short_interest c' = open_short_interest c"
  by (auto dest!: save_stats_cases)

text \<open>A provider that holds tokens is known after book keeping, with its balances in range.\<close>

lemma book_kept:
  assumes "pool_inv ctx" "reset_lp_status ctx = None" "perform_lp_book_keeping D env a ctx = Inr c1"
  shows "pool_inv c1" "fresh_accrual a c1" "reset_lp_status c1 = None" "same_market ctx c1"
    "liabilities c1 = liabilities ctx" "liquidity_stats c1 = liquidity_stats ctx"
  using book_keeping_result [OF assms(1,3)] assms(2) liabilities_same by (auto simp: same_market_def)

lemma provider_wf:
  assumes "pool_inv c" "fmlookup (stats_by_addr c) a = Some s"
  shows "wf_balances s" "lp_units s \<le> fmsum lp_units (stats_by_addr c)"
    "addr_xlp s \<le> fmsum addr_xlp (stats_by_addr c)"
  using pool_inv_addr [OF assms] fmval_le_fmsum [of lp_units "stats_by_addr c" a]
    fmval_le_fmsum [of addr_xlp "stats_by_addr c" a] assms(2)
  by (auto simp: wf_addr_def fmval_lookup)

lemma stake_preserves:
  assumes inv: "pool_inv ctx" "reset_lp_status ctx = None"
    and st: "liquidity_stake_lp D env a amount ctx = Inr ctx'"
  shows "pool_inv ctx' \<and> liabilities ctx' = liabilities ctx"
proof -
  obtain c1 s n where bk: "perform_lp_book_keeping D env a ctx = Inr c1"
    and s: "fmlookup (stats_by_addr c1) a = Some s"
    and n: "n \<le> addr_lp s" "addr_xlp s + n < dec_lim"
    and sv: "save_liquidity_stats D ((liquidity_stats c1)\<lparr>total_lp := total_lp (liquidity_stats c1) - n,
        total_xlp := total_xlp (liquidity_stats c1) + n\<rparr>)
      (save_liquidity_stats_addr a (s\<lparr>addr_lp := addr_lp s - n, addr_xlp := addr_xlp s + n\<rparr>) c1) = Inr ctx'"
    and nt: "n \<le> total_lp (liquidity_stats c1)"
    using st by (auto simp: liquidity_stake_lp_def load_liquidity_stats_addr_def Let_def)
  note b = book_kept [OF inv bk]
  have w: "wf_balances s" using provider_wf [OF b(1) s] by simp
  have "pool_inv ctx'"
  proof (rule provider_update [OF b(1,3,2) s _ _ _ _ _ _ _ _ sv])
    show "wf_balances (s\<lparr>addr_lp := addr_lp s - n, addr_xlp := addr_xlp s + n\<rparr>)"
      using w n less_imp_diff_less [of "addr_lp s" dec_lim n] by (simp add: wf_balances_def)
  qed (use n nt b(3) in \<open>simp_all add: accrued_total_def lp_units_def pending_unstake_def\<close>)
  moreover have "liabilities ctx' = liabilities ctx"
    using save_stats_liabilities [OF sv] b(5) by (simp add: stats_collateral_def)
  ultimately show ?thesis by simp
qed

lemma stop_unstaking_result:
  assumes inv: "pool_inv ctx" "reset_lp_status ctx = None"
    and st: "liquidity_stop_unstaking_xlp D env a fail False ctx = Inr (s, c2)"
  obtains c1 s0 where "pool_inv c1" "fresh_accrual a c1" "reset_lp_status c1 = None"
    "liabilities c1 = liabilities ctx" "fmlookup (stats_by_addr c1) a = Some s0"
    "s = s0\<lparr>unstaking := None, addr_xlp := addr_xlp s0 + pending_unstake s0\<rparr>"
    "addr_xlp s0 + pending_unstake s0 < dec_lim" "pending_unstake s0 \<le> total_lp (liquidity_stats c1)"
    "c2 = c1\<lparr>liquidity_stats := (liquidity_stats c1)\<lparr>total_lp := total_lp (liquidity_stats c1) - pending_unstake s0,
        total_xlp := total_xlp (liquidity_stats c1) + pending_unstake s0\<rparr>\<rparr>"
proof -
  obtain c1 s0 where bk: "perform_lp_book_keeping D env a ctx = Inr c1"
    and s0: "fmlookup (stats_by_addr c1) a = Some s0"
    using st by (auto simp: liquidity_stop_unstaking_xlp_def load_liquidity_stats_addr_def)
  note b = book_kept [OF inv bk]
  have w: "wf_balances s0" using provider_wf [OF b(1) s0] by simp
  show thesis
  proof (cases "unstaking s0")
    case None
    then have "s = s0\<lparr>unstaking := None\<rparr>" "c2 = c1"
      using st bk s0 by (auto simp: liquidity_stop_unstaking_xlp_def load_liquidity_stats_addr_def split: if_splits)
    with None w show thesis
      by (intro that [OF b(1,2,3,5) s0]) (simp_all add: pending_unstake_def wf_balances_def)
  next
    case (Some u)
    have u: "wf_unstaking u" using w Some by (simp add: wf_balances_def)
    then have p: "pending_unstake s0 = xlp_amount u - collected u" "0 < pending_unstake s0"
      using Some by (simp_all add: pending_unstake_def wf_unstaking_def)
    define st1 where "st1 = (liquidity_stats c1)\<lparr>total_lp := total_lp (liquidity_stats c1) - pending_unstake s0,
        total_xlp := total_xlp (liquidity_stats c1) + pending_unstake s0\<rparr>"
    have sv: "save_liquidity_stats D st1 c1 = Inr c2"
      and s: "s = s0\<lparr>unstaking := None, addr_xlp := addr_xlp s0 + pending_unstake s0\<rparr>"
        "addr_xlp s0 + pending_unstake s0 < dec_lim" "pending_unstake s0 \<le> total_lp (liquidity_stats c1)"
      using st bk s0 Some p u
      by (auto simp: liquidity_stop_unstaking_xlp_def load_liquidity_stats_addr_def st1_def Let_def
          split: if_splits)
    have "stats_collateral st1 \<noteq> 0"
      using b(1) s(3) p(2) by (auto simp: pool_inv_def st1_def stats_collateral_def)
    then have "c2 = c1\<lparr>liquidity_stats := st1\<rparr>" using save_stats_cases [OF sv] by auto
    then show thesis using that [OF b(1,2,3,5) s0 s] by (simp add: st1_def)
  qed
qed

lemma stop_save_is_save:
  "liquidity_stop_unstaking_xlp D env a fail True ctx =
     map_res (\<lambda>(s, c). (s, save_liquidity_stats_addr a s c))
       (liquidity_stop_unstaking_xlp D env a fail False ctx)"
proof -
  have pull: "and_then m (\<lambda>(s, c). Inr (s, save_liquidity_stats_addr a s c))
      = map_res (\<lambda>(s, c). (s, save_liquidity_stats_addr a s c)) (and_then m (\<lambda>(s, c). Inr (s, c)))"
    for m :: "(LiquidityStatsByAddr \<times> Ctx) res"
    by (cases m) auto
  show ?thesis
    unfolding liquidity_stop_unstaking_xlp_def
    by (simp only: if_True if_False pull map_res_and_then)
qed

lemma save_stats_total:
  "stats_collateral st < dec_lim \<Longrightarrow> stats_tokens st < dec_lim \<Longrightarrow>
     (stats_collateral st = 0 \<longrightarrow> stats_tokens st = 0) \<Longrightarrow>
     save_liquidity_stats D st c = Inr (c\<lparr>liquidity_stats := st\<rparr>)"
  by (auto simp: save_liquidity_stats_def total_collateral_def total_tokens_def stats_collateral_def
      stats_tokens_def d_add_def add_law)

lemma stop_unstaking_preserves:
  assumes inv: "pool_inv ctx" "reset_lp_status ctx = None"
    and st: "liquidity_stop_unstaking_xlp D env a fail True ctx = Inr (s, ctx')"
  shows "pool_inv ctx' \<and> liabilities ctx' = liabilities ctx"
proof -
  obtain c2 where "liquidity_stop_unstaking_xlp D env a fail False ctx = Inr (s, c2)"
    and ctx': "ctx' = save_liquidity_stats_addr a s c2"
    using st unfolding stop_save_is_save by auto
  then obtain c1 s0 where c1: "pool_inv c1" "fresh_accrual a c1" "reset_lp_status c1 = None"
    and l: "liabilities c1 = liabilities ctx" and s0: "fmlookup (stats_by_addr c1) a = Some s0"
    and s: "s = s0\<lparr>unstaking := None, addr_xlp := addr_xlp s0 + pending_unstake s0\<rparr>"
      "addr_xlp s0 + pending_unstake s0 < dec_lim" "pending_unstake s0 \<le> total_lp (liquidity_stats c1)"
    and c2: "c2 = c1\<lparr>liquidity_stats := (liquidity_stats c1)\<lparr>total_lp := total_lp (liquidity_stats c1) - pending_unstake s0,
        total_xlp := total_xlp (liquidity_stats c1) + pending_unstake s0\<rparr>\<rparr>"
    using stop_unstaking_result [OF inv] by metis
  have w: "wf_balances s" using provider_wf(1) [OF c1(1) s0] s by (simp add: wf_balances_def)
  obtain k y where lt: "latest_yield_per_token c1 = Inr (k, y)" using pool_inv_latest [OF c1(1)] by blast
  have k0: "last_accrue_key s0 = k" using c1(2) s0 lt by (simp add: fresh_accrual_def)
  have "pool_inv ctx'"
  proof (rule pool_inv_account_update [OF c1(1,3), where a = a and s = s])
    show "is_empty_stats s \<or> wf_addr c1 s"
      using w lt k0 s by (auto simp: wf_addr_def latest_Inr)
    show "claimable c1 s + dec_one * set_aside (all_fees c1)
        \<le> fmval (claimable c1) (stats_by_addr c1) a + dec_one * set_aside (all_fees ctx')"
      using claimable_fresh [of c1 s y] claimable_fresh [of c1 s0 y] lt k0 s s0
      by (simp add: fmval_lookup accrued_total_def ctx' c2)
    show "stats_by_addr ctx' = stats_by_addr (save_liquidity_stats_addr a s c1)"
      by (simp add: ctx' c2 save_liquidity_stats_addr_def)
    show "locked (liquidity_stats ctx') + unlocked (liquidity_stats ctx') = 0 \<longrightarrow>
        total_lp (liquidity_stats ctx') + total_xlp (liquidity_stats ctx') = 0"
      using c1(1) s(3) by (auto simp: ctx' c2 pool_inv_def)
  qed (use s s0 c1(3) in \<open>simp_all add: ctx' c2 fmval_lookup lp_units_def pending_unstake_def\<close>)
  moreover have "liabilities ctx' = liabilities ctx"
    unfolding l [symmetric] by (simp add: ctx' c2 liabilities_def transfers_total_def stats_collateral_def)
  ultimately show ?thesis by simp
qed

end

end
