(* ===== verification/PoolOperations.thy ===== *)
theory PoolOperations
  imports LiquidityInvariant
begin

text \<open>
  The remaining operations of the liquidity pool keep the accounting invariant: claiming, collecting,
  unstaking, depositing, withdrawing, reinvesting, locking and unlocking, crediting yield and crank
  rewards, and the steps of a pool reset. Each lemma also says what the operation does to the
  collateral the contract owes (\<open>liabilities\<close>) and to the price of a share.
\<close>

section \<open>Changing the totals only\<close>

context decimal256
begin

lemma stats_update:
  assumes inv: "pool_inv ctx"
    and tok: "total_lp st = total_lp (liquidity_stats ctx)" "total_xlp st = total_xlp (liquidity_stats ctx)"
    and sv: "save_liquidity_stats D st ctx = Inr ctx'"
  shows "pool_inv ctx'"
proof -
  have y: "yield_per_time_per_token ctx' = yield_per_time_per_token ctx"
    and e: "stats_by_addr ctx' = stats_by_addr ctx" "all_fees ctx' = all_fees ctx"
    using save_stats_fields [OF sv] by simp_all
  from save_stats_cases [OF sv] have
    "(liquidity_stats ctx' = empty_stats \<and> reset_lp_status ctx' = Some ResetBegin)
     \<or> ((stats_collateral st = 0 \<longrightarrow> stats_tokens st = 0) \<and> liquidity_stats ctx' = st
        \<and> reset_lp_status ctx' = reset_lp_status ctx)" by auto
  then show ?thesis
  proof (elim disjE conjE)
    assume "liquidity_stats ctx' = empty_stats" "reset_lp_status ctx' = Some ResetBegin"
    then show ?thesis
      using inv unfolding pool_inv_def latest_cong [OF y] claimable_cong [OF y] wf_addr_cong [OF y] e
      by (simp add: wf_totals_def empty_stats_def reset_bound_def)
  next
    assume "stats_collateral st = 0 \<longrightarrow> stats_tokens st = 0" "liquidity_stats ctx' = st"
      "reset_lp_status ctx' = reset_lp_status ctx"
    then show ?thesis
      using inv tok unfolding pool_inv_def latest_cong [OF y] claimable_cong [OF y] wf_addr_cong [OF y] e
      by (simp add: wf_totals_def stats_collateral_def stats_tokens_def e split: option.splits)
  qed
qed

section \<open>Replacing a provider that may be new\<close>

lemma load_default_loaded:
  "load_liquidity_stats_addr c a = Inr s \<Longrightarrow> load_liquidity_stats_addr_default c a = Inr s"
  by (simp add: load_liquidity_stats_addr_def load_liquidity_stats_addr_default_def)

lemma load_default_cong:
  assumes "stats_by_addr c' = stats_by_addr c" "yield_per_time_per_token c' = yield_per_time_per_token c"
  shows "load_liquidity_stats_addr_default c' a = load_liquidity_stats_addr_default c a"
  unfolding load_liquidity_stats_addr_default_def new_addr_stats_def assms latest_cong [OF assms(2)] ..

lemma default_provider:
  assumes inv: "pool_inv c" and fr: "fresh_accrual a c"
    and ld: "load_liquidity_stats_addr_default c a = Inr s"
  shows "wf_balances s" "fmval lp_units (stats_by_addr c) a = lp_units s"
    "fmval addr_xlp (stats_by_addr c) a = addr_xlp s"
    "fmval (claimable c) (stats_by_addr c) a = dec_one * accrued_total s"
    "\<exists>y. latest_yield_per_token c = Inr (last_accrue_key s, y)"
proof -
  obtain k y where l: "latest_yield_per_token c = Inr (k, y)" using pool_inv_latest [OF inv] by blast
  have "wf_balances s \<and> fmval lp_units (stats_by_addr c) a = lp_units s
      \<and> fmval addr_xlp (stats_by_addr c) a = addr_xlp s
      \<and> fmval (claimable c) (stats_by_addr c) a = dec_one * accrued_total s \<and> last_accrue_key s = k"
  proof (cases "fmlookup (stats_by_addr c) a")
    case None
    with ld l show ?thesis
      by (auto simp: load_liquidity_stats_addr_default_def new_addr_stats_def wf_balances_def fmval_None
          lp_units_def pending_unstake_def accrued_total_def)
  next
    case (Some t)
    with ld have t: "t = s" by (simp add: load_liquidity_stats_addr_default_def)
    have k: "last_accrue_key s = k" using fr Some l t by (simp add: fresh_accrual_def)
    show ?thesis
      using provider_wf(1) [OF inv Some] Some t k l claimable_fresh [of c s y] by (simp add: fmval_lookup)
  qed
  with l show "wf_balances s" "fmval lp_units (stats_by_addr c) a = lp_units s"
    "fmval addr_xlp (stats_by_addr c) a = addr_xlp s"
    "fmval (claimable c) (stats_by_addr c) a = dec_one * accrued_total s"
    "\<exists>y. latest_yield_per_token c = Inr (last_accrue_key s, y)" by auto
qed

lemma provider_save:
  assumes inv: "pool_inv c" and r: "reset_lp_status c = None" and fr: "fresh_accrual a c"
    and ld: "load_liquidity_stats_addr_default c a = Inr s0"
    and key: "last_accrue_key s = last_accrue_key s0" and wf: "wf_balances s"
    and acc: "accrued_total s + set_aside (all_fees c) \<le> accrued_total s0 + set_aside (all_fees c')"
    and lp: "total_lp (liquidity_stats c') + lp_units s0 = total_lp (liquidity_stats c) + lp_units s"
    and xlp: "total_xlp (liquidity_stats c') + addr_xlp s0 = total_xlp (liquidity_stats c) + addr_xlp s"
    and c': "stats_by_addr c' = stats_by_addr (save_liquidity_stats_addr a s c)"
      "yield_per_time_per_token c' = yield_per_time_per_token c" "reset_lp_status c' = None"
    and c0: "stats_collateral (liquidity_stats c') = 0 \<longrightarrow> stats_tokens (liquidity_stats c') = 0"
  shows "pool_inv c'"
proof -
  note d = default_provider [OF inv fr ld]
  obtain y where l: "latest_yield_per_token c = Inr (last_accrue_key s0, y)" using d(5) by blast
  have cl: "claimable c s = dec_one * accrued_total s"
    using l key by (intro claimable_fresh) simp
  have wfa: "is_empty_stats s \<or> wf_addr c s"
    using wf l key by (auto simp: wf_addr_def latest_Inr)
  have "dec_one * (accrued_total s + set_aside (all_fees c))
      \<le> dec_one * (accrued_total s0 + set_aside (all_fees c'))"
    using acc by (rule mult_le_mono2)
  then have claim: "claimable c s + dec_one * set_aside (all_fees c)
      \<le> fmval (claimable c) (stats_by_addr c) a + dec_one * set_aside (all_fees c')"
    using cl d(4) by (simp add: add_mult_distrib2)
  show ?thesis
    by (rule pool_inv_account_update [OF inv r wfa _ _ claim])
      (use lp xlp c' c0 d in \<open>simp_all add: stats_collateral_def stats_tokens_def\<close>)
qed

section \<open>Claiming and collecting\<close>

lemma total_yield_Inr: "total_yield D s = Inr t \<Longrightarrow> t = accrued_total s"
  by (auto simp: total_yield_def accrued_total_def)

lemma transfer_liabilities:
  "add_token_transfer_msg D a x c = Inr c' \<Longrightarrow> liabilities c' = liabilities c + x"
  by (drule add_token_transfer_total) (auto simp: liabilities_def transfers_total_def)

lemma transfer_liabilities_same:
  "add_token_transfer_msg D a x c = Inr c' \<Longrightarrow> liabilities c' = liabilities c + x \<and> same_pool c c'"
  using transfer_liabilities transfer_same by blast

lemma claim_result:
  assumes inv: "pool_inv ctx" "reset_lp_status ctx = None"
    and cl: "liquidity_claim_yield D env a send ctx = Inr (n, ctx')"
  shows "pool_inv ctx' \<and> reset_lp_status ctx' = None \<and> liquidity_stats ctx' = liquidity_stats ctx
    \<and> 0 < n \<and> liabilities ctx' + (if send then 0 else n) = liabilities ctx"
proof -
  obtain c1 s c3 where bk: "perform_lp_book_keeping D env a ctx = Inr c1"
    and ld: "load_liquidity_stats_addr c1 a = Inr s" and t: "total_yield D s = Inr n" and n0: "0 < n"
    and s: "\<exists>s'. s' = s\<lparr>lp_accrued_yield := 0, xlp_accrued_yield := 0, crank_rewards := 0, referrer_rewards := 0\<rparr>
        \<and> register_lp_claimed_yield D n (save_liquidity_stats_addr a s' c1) = Inr c3"
    and tl: "(if send then and_then (add_token_transfer_msg D a n c3) (\<lambda>ctx.
           lp_history_add_claim_yield D env a n ctx) else Inr c3) = Inr ctx'"
    using cl by (auto simp: liquidity_claim_yield_def Let_def)
  note b = book_kept [OF inv bk]
  define s' where "s' = s\<lparr>lp_accrued_yield := 0, xlp_accrued_yield := 0, crank_rewards := 0, referrer_rewards := 0\<rparr>"
  have rg: "register_lp_claimed_yield D n (save_liquidity_stats_addr a s' c1) = Inr c3"
    using s by (simp add: s'_def)
  then have w: "n \<le> fees_wallets (all_fees c1)"
    and c3: "c3 = (save_liquidity_stats_addr a s' c1)\<lparr>all_fees :=
        (all_fees c1)\<lparr>fees_wallets := fees_wallets (all_fees c1) - n\<rparr>\<rparr>"
    by (auto simp: register_lp_claimed_yield_def)
  have tn: "n = accrued_total s" using total_yield_Inr [OF t] .
  have ld': "load_liquidity_stats_addr_default c1 a = Inr s" using load_default_loaded [OF ld] .
  have "pool_inv c3"
  proof (rule provider_save [OF b(1,3,2) ld'])
    show "wf_balances s'" using default_provider(1) [OF b(1,2) ld'] by (simp add: wf_balances_def s'_def)
    show "stats_collateral (liquidity_stats c3) = 0 \<longrightarrow> stats_tokens (liquidity_stats c3) = 0"
      using b(1) by (simp add: c3 pool_inv_def stats_collateral_def stats_tokens_def)
  qed (use tn w b(3) in \<open>simp_all add: c3 s'_def lp_units_def pending_unstake_def accrued_total_def\<close>)
  moreover have "reset_lp_status c3 = None" "liquidity_stats c3 = liquidity_stats ctx"
    using b by (simp_all add: c3)
  moreover have "liabilities c3 + n = liabilities ctx"
    unfolding b(5) [symmetric] using w by (simp add: c3 liabilities_def transfers_total_def)
  moreover have "same_pool c3 ctx' \<and> liabilities ctx' = liabilities c3 + (if send then n else 0)"
    using tl by (auto split: if_splits dest!: transfer_liabilities_same history_same(5)
        simp: liabilities_same intro: same_pool_trans)
  ultimately show ?thesis using n0 pool_inv_same [of c3 ctx'] by (auto simp: same_pool_def)
qed

lemma collect_preserves:
  assumes inv: "pool_inv ctx" and c: "collect_unstaked_lp D env a ctx = Inr (b, ctx')"
  shows "pool_inv ctx' \<and> same_market ctx ctx'"
proof (cases "Option.bind (fmlookup (stats_by_addr ctx) a) unstaking")
  case None
  with c inv show ?thesis by (simp add: collect_unstaked_lp_def)
next
  case (Some u)
  then obtain c1 where u: "update_accrued_yield D a ctx = Inr c1"
    using c by (auto simp: collect_unstaked_lp_def)
  have "perform_lp_book_keeping D env a ctx = map_res snd (collect_unstaked_lp D env a c1)"
    by (simp add: perform_lp_book_keeping_def u)
  moreover have "collect_unstaked_lp D env a c1 = collect_unstaked_lp D env a ctx"
  proof -
    note r = update_accrued_yield_result [OF inv u]
    obtain s where s: "fmlookup (stats_by_addr ctx) a = Some s" "unstaking s = Some u"
      using Some by (auto simp: bind_eq_Some_conv)
    then obtain s' where s': "fmlookup (stats_by_addr c1) a = Some s'" "unstaking s' = Some u"
      using r by auto
    obtain k y where l: "latest_yield_per_token c1 = Inr (k, y)" using pool_inv_latest r by blast
    then have "last_accrue_key s' = k" using r s' by (auto simp: fresh_accrual_def)
    then have "update_accrued_yield D a c1 = Inr c1"
      using s' l by (simp add: update_accrued_yield_def load_liquidity_stats_addr_default_def
          calculate_accrued_yield_def)
    with u s s' show ?thesis by (simp add: collect_unstaked_lp_def)
  qed
  ultimately show ?thesis using book_keeping_result [OF inv, of env a ctx'] c by simp
qed

end

section \<open>Shares\<close>

text \<open>The price of a share does not fall when the collateral per token of \<open>s'\<close> is at least the one
  of \<open>s\<close> (compared without dividing).\<close>

definition share_price_kept :: "LiquidityStats \<Rightarrow> LiquidityStats \<Rightarrow> bool" where
  "share_price_kept s s' \<longleftrightarrow>
     stats_collateral s * stats_tokens s' \<le> stats_collateral s' * stats_tokens s"

lemma two_floors: "(a * b div c * c div d) * d \<le> a * (b::nat)"
  by (meson div_times_less_eq_dividend le_trans)

context decimal256
begin

lemma lp_to_collateral_bound:
  assumes "lp_to_collateral_non_zero D s n = Inr r"
  shows "0 < r" "r * stats_tokens s \<le> stats_collateral s * n"
proof -
  obtain c where c: "lp_to_collateral D s n = Inr c" "r = c" "c \<noteq> 0"
    using assms by (auto simp: lp_to_collateral_non_zero_def)
  then show "0 < r" by simp
  have "n \<noteq> 0" using c by (auto simp: lp_to_collateral_def split: if_splits)
  then have "c = stats_collateral s * n div dec_one * dec_one div stats_tokens s"
    using c by (auto simp: lp_to_collateral_def total_collateral_def total_tokens_def
        stats_collateral_def stats_tokens_def)
  then show "r * stats_tokens s \<le> stats_collateral s * n" using c two_floors by simp
qed

lemma collateral_to_lp_bound:
  assumes "collateral_to_lp D s n = Inr x"
  shows "0 < x" "stats_collateral s = 0 \<Longrightarrow> x = n"
    "stats_collateral s \<noteq> 0 \<Longrightarrow> x * stats_collateral s \<le> stats_tokens s * n"
  using assms two_floors
  by (auto simp: collateral_to_lp_def total_collateral_def total_tokens_def
      stats_collateral_def stats_tokens_def)

lemma u_approx_zero: "u_approx_eq D x 0 = Inr b \<Longrightarrow> b = (x < dec_one div 10000000)"
  by (auto simp: u_approx_eq_def u_diff_def split: if_splits)

section \<open>Depositing\<close>

text \<open>A deposit keeps the invariant, takes exactly the amount into the pool, and never lowers the
  price of the shares held by the others.\<close>

lemma deposit_inner_result:
  assumes inv: "pool_inv ctx" "reset_lp_status ctx = None" and n: "0 < n"
    and dp: "liquidity_deposit_inner D env a n cool ctx = Inr (x, ctx')"
  shows "pool_inv ctx' \<and> reset_lp_status ctx' = None \<and> 0 < x \<and> liabilities ctx' = liabilities ctx + n
    \<and> unlocked (liquidity_stats ctx') = unlocked (liquidity_stats ctx) + n
    \<and> total_lp (liquidity_stats ctx') = total_lp (liquidity_stats ctx) + x
    \<and> share_price_kept (liquidity_stats ctx) (liquidity_stats ctx')"
proof -
  define st where "st = (liquidity_stats ctx)\<lparr>total_lp := total_lp (liquidity_stats ctx) + x,
      unlocked := unlocked (liquidity_stats ctx) + n\<rparr>"
  obtain c1 c2 c3 price s0 cool' usd where bk: "perform_lp_book_keeping D env a ctx = Inr c1"
    and x: "collateral_to_lp D (liquidity_stats ctx) n = Inr x"
    and sv: "save_liquidity_stats D st c1 = Inr c2"
    and ev: "add_pool_size_change_events D env st price c2 = Inr c3"
    and ld: "load_liquidity_stats_addr_default c3 a = Inr s0" and lim: "addr_lp s0 + x < dec_lim"
    and ctx': "ctx' = add_event env (DepositEvent n usd x)
        (save_liquidity_stats_addr a (s0\<lparr>addr_lp := addr_lp s0 + x, cooldown_ends := cool'\<rparr>) c3)"
    using dp by (auto simp: liquidity_deposit_inner_def Let_def st_def)
  define s where "s = s0\<lparr>addr_lp := addr_lp s0 + x, cooldown_ends := cool'\<rparr>"
  note b = book_kept [OF inv bk]
  have c2: "c2 = c1\<lparr>liquidity_stats := st\<rparr>"
    using save_stats_cases [OF sv] n by (auto simp: st_def stats_collateral_def)
  have e3: "same_pool c2 c3" "same_market c2 c3" using pool_events_same [OF ev] by auto
  have e: "stats_by_addr c3 = stats_by_addr c1" "yield_per_time_per_token c3 = yield_per_time_per_token c1"
    using e3(1) by (simp_all add: same_pool_def c2)
  have ld1: "load_liquidity_stats_addr_default c1 a = Inr s0" using ld load_default_cong [OF e] by simp
  have "pool_inv ctx'"
  proof (rule provider_save [OF b(1,3,2) ld1])
    show "wf_balances s"
      using default_provider(1) [OF b(1,2) ld1] lim by (simp add: wf_balances_def s_def)
  qed (use e3 b e n in \<open>simp_all add: ctx' s_def [symmetric] same_pool_def c2 st_def
      stats_collateral_def save_liquidity_stats_addr_def\<close>,
      simp_all add: s_def accrued_total_def lp_units_def pending_unstake_def)
  moreover have "liabilities ctx' = liabilities ctx + n"
    using liabilities_same [OF e3(2)] save_stats_liabilities [OF sv] b(5,6)
    by (simp add: ctx' st_def stats_collateral_def)
  moreover have "share_price_kept (liquidity_stats ctx) st"
    using collateral_to_lp_bound [OF x] by (cases "stats_collateral (liquidity_stats ctx) = 0")
      (simp_all add: share_price_kept_def st_def stats_collateral_def stats_tokens_def algebra_simps)
  moreover have "liquidity_stats ctx' = st" "reset_lp_status ctx' = None"
    using e3(1) b(3) by (simp_all add: ctx' same_pool_def c2)
  ultimately show ?thesis
    using collateral_to_lp_bound(1) [OF x] by (simp add: st_def)
qed

end

section \<open>Withdrawing\<close>

definition dust :: nat where
  "dust = dec_one div 10000000"

context decimal256
begin

lemma withdraw_shares_result:
  "withdraw_shares old amount = Inr n \<Longrightarrow> amount \<noteq> Some 0 \<Longrightarrow> 0 < old \<Longrightarrow>
     n \<le> old \<and> 0 < n \<and> (case amount of None \<Rightarrow> True | Some x \<Rightarrow> n = x)"
  by (auto simp: withdraw_shares_def split: option.splits if_splits)

lemma withdraw_stats_result:
  assumes "withdraw_stats D env n c = Inr (r, price, st)"
  obtains net reserve where "positions_net_open_interest D c = Inr net" "current_spot_price env c = Inr price"
    "min_unlocked_liquidity D env net price = Inr reserve" "r + reserve \<le> unlocked (liquidity_stats c)"
    "lp_to_collateral_non_zero D (liquidity_stats c) n = Inr r" "n \<le> total_lp (liquidity_stats c)"
    "total_lp st = total_lp (liquidity_stats c) - n" "total_xlp st = total_xlp (liquidity_stats c)"
    "stats_collateral st + r \<le> stats_collateral (liquidity_stats c)"
    "stats_collateral (liquidity_stats c) < stats_collateral st + r + dust"
    "stats_tokens st \<noteq> 0 \<Longrightarrow> st = (liquidity_stats c)\<lparr>total_lp := total_lp (liquidity_stats c) - n,
       unlocked := unlocked (liquidity_stats c) - r\<rparr>"
    "stats_tokens st = 0 \<Longrightarrow> st = empty_stats \<and> stats_collateral (liquidity_stats c) < r + dust"
proof -
  have d0: "0 < dust" by (simp add: dust_def dec_one_def)
  define s where "s = (liquidity_stats c)\<lparr>total_lp := total_lp (liquidity_stats c) - n,
       unlocked := unlocked (liquidity_stats c) - r\<rparr>"
  have inv: "\<exists>net reserve. positions_net_open_interest D c = Inr net \<and> current_spot_price env c = Inr price
    \<and> min_unlocked_liquidity D env net price = Inr reserve \<and> r + reserve \<le> unlocked (liquidity_stats c)
    \<and> lp_to_collateral_non_zero D (liquidity_stats c) n = Inr r \<and> n \<le> total_lp (liquidity_stats c)
    \<and> (if total_lp s + total_xlp s = 0 then st = empty_stats \<and> locked s + unlocked s < dust else st = s)"
    using assms unfolding withdraw_stats_def Let_def dust_def s_def
    by (auto simp: total_tokens_def total_collateral_def simp del: add_is_0 split: if_splits dest!: u_approx_zero)
  then obtain net reserve where 1: "positions_net_open_interest D c = Inr net" "current_spot_price env c = Inr price"
    "min_unlocked_liquidity D env net price = Inr reserve" "r + reserve \<le> unlocked (liquidity_stats c)"
    "lp_to_collateral_non_zero D (liquidity_stats c) n = Inr r" "n \<le> total_lp (liquidity_stats c)"
    by blast
  have st: "if total_lp s + total_xlp s = 0 then st = empty_stats \<and> locked s + unlocked s < dust else st = s"
    using inv by blast
  show thesis
    by (rule that [OF 1])
      (use st 1(4,6) d0 in \<open>auto simp: s_def stats_tokens_def stats_collateral_def empty_stats_def split: if_splits\<close>)
qed

text \<open>A withdrawal pays the collateral behind the tokens, rounded down, from the unlocked liquidity
  above the reserve for the carry trade. Only what is left when the last token is withdrawn, less
  than \<open>dust\<close>, is dropped from the pool.\<close>

lemma transfer_recipient:
  "add_token_transfer_msg D a n c = Inr c' \<Longrightarrow>
     fund_transfers c' = fmupd a (fmval (\<lambda>v. v) (fund_transfers c) a + n) (fund_transfers c)"
  by (auto simp: add_token_transfer_msg_def fmval_def nz_checked_add_def split: option.splits)

lemma withdraw_result:
  assumes inv: "pool_inv ctx" "reset_lp_status ctx = None" and na: "amount \<noteq> Some 0"
    and wd: "liquidity_withdraw D env a amount ctx = Inr ctx'"
  obtains n r net price reserve s0 where
    "pool_inv ctx'" "0 < n" "0 < r" "case amount of None \<Rightarrow> True | Some x \<Rightarrow> n = x"
    "r * stats_tokens (liquidity_stats ctx) \<le> stats_collateral (liquidity_stats ctx) * n"
    "positions_net_open_interest D ctx = Inr net" "current_spot_price env ctx = Inr price"
    "min_unlocked_liquidity D env net price = Inr reserve" "r + reserve \<le> unlocked (liquidity_stats ctx)"
    "fmlookup (stats_by_addr ctx) a = Some s0" "ensure_liquidity_cooldown env s0 = Inr ()"
    "n \<le> lp_units s0" "transfers_total ctx' = transfers_total ctx + r" "liabilities ctx' \<le> liabilities ctx"
    "liabilities ctx < liabilities ctx' + dust"
    "stats_tokens (liquidity_stats ctx') \<noteq> 0 \<Longrightarrow> liabilities ctx' = liabilities ctx
      \<and> share_price_kept (liquidity_stats ctx) (liquidity_stats ctx')"
    "if n = stats_tokens (liquidity_stats ctx)
      then liquidity_stats ctx' = empty_stats \<and> stats_collateral (liquidity_stats ctx) < r + dust
      else liquidity_stats ctx' = (liquidity_stats ctx)\<lparr>total_lp := total_lp (liquidity_stats ctx) - n,
        unlocked := unlocked (liquidity_stats ctx) - r\<rparr>"
    "n \<le> total_lp (liquidity_stats ctx)" "reset_lp_status ctx' = None" "all_fees ctx' = all_fees ctx"
    "fmval lp_units (stats_by_addr ctx') a + n = lp_units s0" "fmval addr_xlp (stats_by_addr ctx') a = addr_xlp s0"
    "\<And>b. b \<noteq> a \<Longrightarrow> fmlookup (stats_by_addr ctx') b = fmlookup (stats_by_addr ctx) b"
    "fund_transfers ctx' = fmupd a (fmval (\<lambda>v. v) (fund_transfers ctx) a + r) (fund_transfers ctx)"
proof -
  obtain c1 s n r price st c2 c3 c4 c5 usd where bk: "perform_lp_book_keeping D env a ctx = Inr c1"
    and ld: "load_liquidity_stats_addr c1 a = Inr s" and cool: "ensure_liquidity_cooldown env s = Inr ()"
    and n: "n \<le> addr_lp s" "0 < n" "case amount of None \<Rightarrow> True | Some x \<Rightarrow> n = x"
    and ws: "withdraw_stats D env n (save_liquidity_stats_addr a (s\<lparr>addr_lp := addr_lp s - n\<rparr>) c1) = Inr (r, price, st)"
    and sv: "save_liquidity_stats D st (save_liquidity_stats_addr a (s\<lparr>addr_lp := addr_lp s - n\<rparr>) c1) = Inr c2"
    and ev: "add_pool_size_change_events D env st price c2 = Inr c3"
    and tr: "add_token_transfer_msg D a r c3 = Inr c4" and hi: "lp_history_add_withdraw D env a n r c4 = Inr c5"
    and ctx': "ctx' = add_event env (WithdrawEvent n r usd) c5"
    using wd na by (auto simp: liquidity_withdraw_def Let_def dest!: withdraw_shares_result)
  note b = book_kept [OF inv bk]
  obtain net reserve where w: "positions_net_open_interest D c1 = Inr net" "current_spot_price env c1 = Inr price"
    "min_unlocked_liquidity D env net price = Inr reserve" "r + reserve \<le> unlocked (liquidity_stats c1)"
    "lp_to_collateral_non_zero D (liquidity_stats c1) n = Inr r" "n \<le> total_lp (liquidity_stats c1)"
    "total_lp st = total_lp (liquidity_stats c1) - n" "total_xlp st = total_xlp (liquidity_stats c1)"
    "stats_collateral st + r \<le> stats_collateral (liquidity_stats c1)"
    "stats_collateral (liquidity_stats c1) < stats_collateral st + r + dust"
    "stats_tokens st \<noteq> 0 \<Longrightarrow> st = (liquidity_stats c1)\<lparr>total_lp := total_lp (liquidity_stats c1) - n,
       unlocked := unlocked (liquidity_stats c1) - r\<rparr>"
    "stats_tokens st = 0 \<Longrightarrow> st = empty_stats \<and> stats_collateral (liquidity_stats c1) < r + dust"
    using withdraw_stats_result [OF ws]
    by (auto simp: positions_net_open_interest_def current_spot_price_def spot_price_def spot_price_inner_opt_def)
  define s' where "s' = s\<lparr>addr_lp := addr_lp s - n\<rparr>"
  have s: "fmlookup (stats_by_addr c1) a = Some s" using ld by (simp add: load_liquidity_stats_addr_def)
  obtain s0 where s0: "fmlookup (stats_by_addr ctx) a = Some s0" "kept_provider s0 s"
    using book_keeping_result [OF inv(1) bk] s by (auto split: option.splits)
  have cool0: "ensure_liquidity_cooldown env s0 = Inr ()"
    using cool s0(2) by (simp add: ensure_liquidity_cooldown_def get_liquidity_cooldown_def kept_provider_def)
  have wb: "wf_balances s" using provider_wf(1) [OF b(1) s] .
  have "pool_inv c2"
  proof (rule provider_update [OF b(1,3,2) s _ _ _ _ _ _ _ _ sv])
    show "wf_balances (s\<lparr>addr_lp := addr_lp s - n\<rparr>)"
      using wb less_imp_diff_less [of "addr_lp s" dec_lim n] by (simp add: wf_balances_def)
  qed (use n w(6-8) b(3) in \<open>simp_all add: accrued_total_def lp_units_def pending_unstake_def\<close>)
  moreover have sp: "same_pool c2 ctx'"
    using pool_events_same [OF ev] transfer_same [OF tr] history_same(4) [OF hi]
    by (auto simp: ctx' intro: same_pool_trans)
  ultimately have "pool_inv ctx'" using pool_inv_same by blast
  have t2: "transfers_total c2 = transfers_total ctx"
    using save_stats_fields [OF sv] b(4) by (simp add: transfers_total_def same_market_def)
  have t3: "transfers_total c3 = transfers_total c2" "transfers_total c5 = transfers_total c4"
    using pool_events_same [OF ev] history_same(4) [OF hi] by (simp_all add: transfers_total_def same_market_def)
  have "transfers_total c4 = transfers_total c3 + r" using add_token_transfer_total [OF tr] by simp
  with t2 t3 have tt: "transfers_total ctx' = transfers_total ctx + r"
    by (simp add: ctx' transfers_total_def)
  have l: "liabilities ctx' + stats_collateral (liquidity_stats ctx) = liabilities ctx + stats_collateral st + r"
    using save_stats_liabilities [OF sv] liabilities_same [of c2 c3] liabilities_same [of c4 c5]
      pool_events_same [OF ev] history_same(4) [OF hi] transfer_liabilities [OF tr] b(5,6)
    by (simp add: ctx')
  have kept: "liabilities ctx' = liabilities ctx \<and> share_price_kept (liquidity_stats ctx) (liquidity_stats ctx')"
    if "stats_tokens (liquidity_stats ctx') \<noteq> 0"
  proof -
    have "liquidity_stats ctx' = st"
      using save_stats_cases [OF sv] sp that by (auto simp: same_pool_def stats_tokens_def empty_stats_def)
    with that w(11) have st: "st = (liquidity_stats ctx)\<lparr>total_lp := total_lp (liquidity_stats ctx) - n,
        unlocked := unlocked (liquidity_stats ctx) - r\<rparr>" "liquidity_stats ctx' = st"
      using b(6) by simp_all
    have r: "r \<le> unlocked (liquidity_stats ctx)" "n \<le> total_lp (liquidity_stats ctx)" using w(4,6) b(6) by simp_all
    have c: "stats_collateral st + r = stats_collateral (liquidity_stats ctx)"
      and t: "stats_tokens st + n = stats_tokens (liquidity_stats ctx)"
      using r by (simp_all add: st stats_collateral_def stats_tokens_def)
    have "r * (stats_tokens st + n) \<le> (stats_collateral st + r) * n"
      using lp_to_collateral_bound(2) [OF w(5)] b(6) unfolding c t by simp
    then have "(stats_collateral st + r) * stats_tokens st \<le> stats_collateral st * (stats_tokens st + n)"
      by (simp add: add_mult_distrib add_mult_distrib2 mult.commute)
    with l c t st(2) show ?thesis by (simp add: share_price_kept_def)
  qed
  have same: "stats_by_addr ctx' = stats_by_addr (save_liquidity_stats_addr a s' c1)" "all_fees ctx' = all_fees ctx"
    using sp save_stats_fields [OF sv] b(4) by (simp_all add: same_pool_def same_market_def s'_def)
  have units: "fmval lp_units (stats_by_addr ctx') a + n = lp_units s0" "fmval addr_xlp (stats_by_addr ctx') a = addr_xlp s0"
  proof -
    have "lp_units s' + n = lp_units s0" "addr_xlp s' = addr_xlp s0"
      using n(1) s0(2) by (simp_all add: kept_provider_def s'_def lp_units_def pending_unstake_def)
    then show "fmval lp_units (stats_by_addr ctx') a + n = lp_units s0" "fmval addr_xlp (stats_by_addr ctx') a = addr_xlp s0"
      using empty_units [of s'] by (auto simp: same fmval_def save_addr_lookup)
  qed
  have others: "fmlookup (stats_by_addr ctx') b = fmlookup (stats_by_addr ctx) b" if "b \<noteq> a" for b
    using that book_keeping_others [OF bk that] by (simp add: same save_addr_lookup)
  have "fund_transfers c3 = fund_transfers ctx" "fund_transfers ctx' = fund_transfers c4"
    using save_stats_fields [OF sv] b(4) pool_events_same [OF ev] history_same(4) [OF hi]
    by (simp_all add: same_market_def ctx')
  then have paid: "fund_transfers ctx' = fmupd a (fmval (\<lambda>v. v) (fund_transfers ctx) a + r) (fund_transfers ctx)"
    using transfer_recipient [OF tr] by simp
  have pool: "reset_lp_status ctx' = None \<and> (if n = stats_tokens (liquidity_stats ctx)
      then liquidity_stats ctx' = empty_stats \<and> stats_collateral (liquidity_stats ctx) < r + dust
      else liquidity_stats ctx' = (liquidity_stats ctx)\<lparr>total_lp := total_lp (liquidity_stats ctx) - n,
        unlocked := unlocked (liquidity_stats ctx) - r\<rparr>)"
  proof (cases "stats_tokens st = 0")
    case True
    then have "st = empty_stats" "stats_collateral (liquidity_stats ctx) < r + dust"
      "n = stats_tokens (liquidity_stats ctx)"
      using w(6-8,12) b(6) by (auto simp: stats_tokens_def)
    moreover have "liquidity_stats c2 = empty_stats \<and> reset_lp_status c2 = None"
      using save_stats_cases [OF sv] \<open>st = empty_stats\<close> b(3) by (auto simp: stats_tokens_def empty_stats_def)
    ultimately show ?thesis using sp by (simp add: same_pool_def)
  next
    case False
    with w(11) have st: "st = (liquidity_stats ctx)\<lparr>total_lp := total_lp (liquidity_stats ctx) - n,
        unlocked := unlocked (liquidity_stats ctx) - r\<rparr>"
      using b(6) by simp
    have rn: "r \<le> unlocked (liquidity_stats ctx)" "n \<le> total_lp (liquidity_stats ctx)" using w(4,6) b(6) by simp_all
    then have c: "stats_collateral st + r = stats_collateral (liquidity_stats ctx)"
      and t: "stats_tokens st + n = stats_tokens (liquidity_stats ctx)"
      by (simp_all add: st stats_collateral_def stats_tokens_def)
    have "r * (stats_tokens st + n) \<le> (stats_collateral st + r) * n" "0 < r"
      using lp_to_collateral_bound [OF w(5)] b(6) unfolding c t by simp_all
    then have "stats_collateral st \<noteq> 0" using False by (intro notI) simp
    then have "liquidity_stats c2 = st \<and> reset_lp_status c2 = None"
      using save_stats_cases [OF sv] b(3) by auto
    then show ?thesis using sp t False by (auto simp: same_pool_def st)
  qed
  show thesis
    by (rule that [OF \<open>pool_inv ctx'\<close> n(2) lp_to_collateral_bound(1) [OF w(5)] n(3) _ _ _ w(3) _ s0(1) cool0
          _ _ _ _ _ conjunct2 [OF pool] _ conjunct1 [OF pool] same(2) units others paid])
      (use lp_to_collateral_bound(2) [OF w(5)] w(1,2,4,6,9,10) b(4,6) n(1) s0(2) tt l kept in
        \<open>auto simp: same_market_def positions_net_open_interest_def current_spot_price_def spot_price_def
          spot_price_inner_opt_def kept_provider_def lp_units_def\<close>)
qed

end

section \<open>Unstaking and reinvesting\<close>

context decimal256
begin

lemma preserves_same:
  "same_pool c c' \<Longrightarrow> same_market c c' \<Longrightarrow> pool_inv c \<Longrightarrow> pool_inv c' \<and> liabilities c' = liabilities c
     \<and> reset_lp_status c' = reset_lp_status c \<and> liquidity_stats c' = liquidity_stats c"
  using pool_inv_same [of c c'] liabilities_same [of c c'] by (simp add: same_pool_def)

lemma unstake_amount_result:
  "(case amount of None \<Rightarrow> Inr owned | Some a \<Rightarrow> and_then (ensure (a \<le> owned) e) (\<lambda>_. Inr a)) = Inr n \<Longrightarrow>
     amount \<noteq> Some 0 \<Longrightarrow> 0 < owned \<Longrightarrow> 0 < (n::nat)"
  by (auto split: option.splits)

lemma unstake_preserves:
  assumes inv: "pool_inv ctx" "reset_lp_status ctx = None" and na: "amount \<noteq> Some 0"
    and un: "liquidity_unstake_xlp D env a amount ctx = Inr ctx'"
  shows "pool_inv ctx' \<and> liabilities ctx' = liabilities ctx"
proof -
  obtain s c2 n d c4 col where sp: "liquidity_stop_unstaking_xlp D env a False False ctx = Inr (s, c2)"
    and n: "0 < n" "n \<le> addr_xlp s" "n \<le> total_xlp (liquidity_stats c2)"
    and sv: "save_liquidity_stats D ((liquidity_stats c2)\<lparr>total_lp := total_lp (liquidity_stats c2) + n,
        total_xlp := total_xlp (liquidity_stats c2) - n\<rparr>)
      (save_liquidity_stats_addr a (s\<lparr>unstaking := Some \<lparr>xlp_amount = n, collected = 0,
        unstake_started = env_now env, unstake_duration = d, last_collected = env_now env\<rparr>,
        addr_xlp := addr_xlp s - n\<rparr>) c2) = Inr c4"
    and hi: "lp_history_add_unstake_xlp D env a n col c4 = Inr ctx'"
    using un na by (auto simp: liquidity_unstake_xlp_def Let_def dest!: unstake_amount_result)
  obtain c1 s0 where c1: "pool_inv c1" "fresh_accrual a c1" "reset_lp_status c1 = None"
    and l: "liabilities c1 = liabilities ctx" and s0: "fmlookup (stats_by_addr c1) a = Some s0"
    and s: "s = s0\<lparr>unstaking := None, addr_xlp := addr_xlp s0 + pending_unstake s0\<rparr>"
      "addr_xlp s0 + pending_unstake s0 < dec_lim" "pending_unstake s0 \<le> total_lp (liquidity_stats c1)"
    and c2: "c2 = c1\<lparr>liquidity_stats := (liquidity_stats c1)\<lparr>total_lp := total_lp (liquidity_stats c1) - pending_unstake s0,
        total_xlp := total_xlp (liquidity_stats c1) + pending_unstake s0\<rparr>\<rparr>"
    using stop_unstaking_result [OF inv sp] by metis
  define u where "u = \<lparr>xlp_amount = n, collected = 0, unstake_started = env_now env,
      unstake_duration = d, last_collected = env_now env\<rparr>"
  define s' where "s' = s\<lparr>unstaking := Some u, addr_xlp := addr_xlp s - n\<rparr>"
  have w: "wf_balances s0" using provider_wf(1) [OF c1(1) s0] .
  have "pool_inv c4"
  proof (rule provider_update [OF c1(1,3,2) s0 _ _ _ _ _ _ _ _ sv, folded u_def, folded s'_def])
    show "wf_balances s'"
      using w n s(1,2) less_imp_diff_less [of "addr_xlp s0 + pending_unstake s0" dec_lim n]
      by (simp add: wf_balances_def s'_def wf_unstaking_def u_def)
  qed (use n s c2 c1(3) in \<open>simp_all add: s'_def u_def accrued_total_def lp_units_def pending_unstake_def
      save_liquidity_stats_addr_def\<close>)
  moreover have "liabilities c4 = liabilities ctx"
    using save_stats_liabilities [OF sv] n
    unfolding l [symmetric] by (simp add: c2 stats_collateral_def liabilities_def transfers_total_def)
  ultimately show ?thesis using history_same(3) [OF hi] preserves_same by auto
qed

lemma deposit_preserves:
  assumes inv: "pool_inv ctx" "reset_lp_status ctx = None" and n: "0 < n"
    and dp: "liquidity_deposit D env a n stake ctx = Inr ctx'"
  shows "pool_inv ctx' \<and> liabilities ctx' = liabilities ctx + n"
proof -
  obtain x c1 c2 where d: "liquidity_deposit_inner D env a n (\<not> stake) ctx = Inr (x, c1)"
    and hi: "lp_history_add_deposit D env a x n stake c1 = Inr c2"
    and st: "(if stake then liquidity_stake_lp D env a (Some x) c2 else Inr c2) = Inr ctx'"
    using dp by (auto simp: liquidity_deposit_def)
  have c2: "pool_inv c2" "reset_lp_status c2 = None" "liabilities c2 = liabilities ctx + n"
    using deposit_inner_result [OF inv n d] history_same(1) [OF hi] preserves_same by auto
  show ?thesis
    using st stake_preserves [OF c2(1,2), of env a "Some x" ctx'] c2 by (auto split: if_splits)
qed

lemma reinvest_preserves:
  assumes inv: "pool_inv ctx" "reset_lp_status ctx = None" and na: "amount \<noteq> Some 0"
    and re: "reinvest_yield D env a amount stake ctx = Inr ctx'"
  shows "pool_inv ctx' \<and> liabilities ctx' = liabilities ctx"
proof -
  obtain claimed c1 n c2 x c3 c4 where cl: "liquidity_claim_yield D env a False ctx = Inr (claimed, c1)"
    and am: "(case amount of
         None \<Rightarrow> Inr (claimed, c1)
       | Some amount \<Rightarrow>
           and_then (ok_or (ok (d_sub D claimed amount)) (Perp InsufficientForReinvest)) (\<lambda>remainder.
           case nonzero_new remainder of
             None \<Rightarrow> Inr (amount, c1)
           | Some remainder \<Rightarrow>
               and_then (add_token_transfer_msg D a remainder c1) (\<lambda>ctx.
               and_then (lp_history_add_claim_yield D env a remainder ctx) (\<lambda>ctx.
               Inr (amount, ctx))))) = Inr (n, c2)"
    and dp: "liquidity_deposit_inner D env a n False c2 = Inr (x, c3)"
    and st: "(if stake then liquidity_stake_lp D env a (Some x) c3 else Inr c3) = Inr c4"
    and hi: "lp_history_add_reinvest_yield D env a x n stake c4 = Inr ctx'"
    using re by (auto simp: reinvest_yield_def simp del: ok_or_eq_Inr)
  note c1 = claim_result [OF inv cl, simplified]
  have c2: "0 < n \<and> pool_inv c2 \<and> reset_lp_status c2 = None \<and> liabilities c2 + n = liabilities ctx"
  proof (cases amount)
    case None
    with am c1 show ?thesis by auto
  next
    case (Some k)
    show ?thesis
    proof (cases "claimed = k")
      case True
      with am Some na c1 show ?thesis by (auto simp: nonzero_new_def)
    next
      case False
      then obtain c where k: "k < claimed" "n = k" and t: "add_token_transfer_msg D a (claimed - k) c1 = Inr c"
        and h: "lp_history_add_claim_yield D env a (claimed - k) c = Inr c2"
        using am Some by (auto simp: nonzero_new_def split: if_splits)
      have "pool_inv c" "reset_lp_status c = None" "liabilities c = liabilities c1 + (claimed - k)"
        using transfer_liabilities_same [OF t] c1 pool_inv_same [of c1 c] by (auto simp: same_pool_def)
      then show ?thesis using history_same(5) [OF h] preserves_same [of c c2] k c1 Some na by auto
    qed
  qed
  then have c3: "pool_inv c3" "reset_lp_status c3 = None" "liabilities c3 = liabilities ctx"
    using deposit_inner_result [OF _ _ _ dp] by auto
  have "pool_inv c4 \<and> liabilities c4 = liabilities ctx"
    using st stake_preserves [OF c3(1,2), of env a "Some x" c4] c3 by (auto split: if_splits)
  then show ?thesis using history_same(2) [OF hi] preserves_same by auto
qed

end

section \<open>Locking and unlocking\<close>

context decimal256
begin

text \<open>New totals with the same tokens, saved and announced.\<close>

lemma stats_apply:
  assumes inv: "pool_inv ctx"
    and tok: "total_lp st = total_lp (liquidity_stats ctx)" "total_xlp st = total_xlp (liquidity_stats ctx)"
    and ap: "and_then (save_liquidity_stats D st ctx) (\<lambda>ctx.
      and_then (add_pool_size_change_events D env st price ctx) (\<lambda>ctx. Inr (add_event env e ctx))) = Inr ctx'"
  shows "pool_inv ctx' \<and> liabilities ctx' + stats_collateral (liquidity_stats ctx) = liabilities ctx + stats_collateral st
    \<and> stats_by_addr ctx' = stats_by_addr ctx
    \<and> (stats_collateral st \<noteq> 0 \<or> stats_tokens (liquidity_stats ctx) = 0 \<longrightarrow>
         liquidity_stats ctx' = st \<and> reset_lp_status ctx' = reset_lp_status ctx)"
proof -
  obtain c1 c2 where sv: "save_liquidity_stats D st ctx = Inr c1"
    and ev: "add_pool_size_change_events D env st price c1 = Inr c2" and ctx': "ctx' = add_event env e c2"
    using ap by auto
  have "pool_inv c1" using stats_update [OF inv tok sv] .
  moreover have "same_pool c1 ctx'" "same_market c1 c2" using pool_events_same [OF ev] by (simp_all add: ctx')
  ultimately show ?thesis
    using pool_inv_same [of c1 ctx'] save_stats_liabilities [OF sv] liabilities_same [of c1 c2] save_stats_cases [OF sv] tok
    by (auto simp: same_pool_def ctx' stats_tokens_def)
qed

lemma lock_result:
  assumes inv: "pool_inv ctx" and nw: "liquidity_lock_new D env ctx n price dn over None = Inr l"
    and ap: "liquidity_lock_apply D env l ctx = Inr ctx'"
  shows "pool_inv ctx' \<and> liabilities ctx' = liabilities ctx
    \<and> liquidity_stats ctx' = (liquidity_stats ctx)\<lparr>locked := locked (liquidity_stats ctx) + n,
        unlocked := unlocked (liquidity_stats ctx) - n\<rparr> \<and> n \<le> unlocked (liquidity_stats ctx)
    \<and> reset_lp_status ctx' = reset_lp_status ctx"
proof -
  define st where "st = (liquidity_stats ctx)\<lparr>locked := locked (liquidity_stats ctx) + n,
        unlocked := unlocked (liquidity_stats ctx) - n\<rparr>"
  have l: "l = \<lparr>ll_amount = n, ll_stats = st, ll_price = price\<rparr>" and n: "n \<le> unlocked (liquidity_stats ctx)"
    using nw by (auto simp: liquidity_lock_new_def Let_def st_def split: option.splits if_splits)
  have c: "stats_collateral st = stats_collateral (liquidity_stats ctx)"
    using n by (simp add: st_def stats_collateral_def)
  have "stats_collateral st \<noteq> 0 \<or> stats_tokens (liquidity_stats ctx) = 0"
    unfolding c using inv by (auto simp: pool_inv_def stats_collateral_def stats_tokens_def)
  then show ?thesis
    using stats_apply [OF inv _ _ ap [unfolded l liquidity_lock_apply_def]] c n by (simp add: st_def)
qed

lemma unlock_result:
  assumes inv: "pool_inv ctx" and nw: "liquidity_unlock_new D ctx n price None = Inr u"
    and ap: "liquidity_unlock_apply D env u ctx = Inr ctx'"
  shows "pool_inv ctx' \<and> liabilities ctx' = liabilities ctx
    \<and> liquidity_stats ctx' = (liquidity_stats ctx)\<lparr>locked := locked (liquidity_stats ctx) - n,
        unlocked := unlocked (liquidity_stats ctx) + n\<rparr> \<and> n \<le> locked (liquidity_stats ctx)
    \<and> reset_lp_status ctx' = reset_lp_status ctx"
proof -
  define st where "st = (liquidity_stats ctx)\<lparr>locked := locked (liquidity_stats ctx) - n,
        unlocked := unlocked (liquidity_stats ctx) + n\<rparr>"
  have u: "u = \<lparr>ul_amount = n, ul_price = price, ul_stats = st\<rparr>" and n: "n \<le> locked (liquidity_stats ctx)"
    using nw by (auto simp: liquidity_unlock_new_def Let_def st_def split: if_splits)
  have c: "stats_collateral st = stats_collateral (liquidity_stats ctx)"
    using n by (simp add: st_def stats_collateral_def)
  have "stats_collateral st \<noteq> 0 \<or> stats_tokens (liquidity_stats ctx) = 0"
    unfolding c using inv by (auto simp: pool_inv_def stats_collateral_def stats_tokens_def)
  then show ?thesis
    using stats_apply [OF inv _ _ ap [unfolded u liquidity_unlock_apply_def]] c n by (simp add: st_def)
qed

lemma update_locked_result:
  assumes inv: "pool_inv ctx" and wf: "locked (liquidity_stats ctx) < dec_lim" "wf_signed n"
    and nw: "liquidity_update_locked_new D ctx n price None = Inr u"
    and ap: "liquidity_update_locked_apply D env u ctx = Inr ctx'"
  shows "pool_inv ctx' \<and> int (liabilities ctx') = int (liabilities ctx) + num n
    \<and> (int (locked (liquidity_stats ctx')) = int (locked (liquidity_stats ctx)) + num n
       \<or> reset_lp_status ctx' = Some ResetBegin)"
proof -
  obtain k where u: "u = \<lparr>lu_amount = n, lu_price = price, lu_stats = (liquidity_stats ctx)\<lparr>locked := k\<rparr>\<rparr>"
    and k: "int k = int (locked (liquidity_stats ctx)) + num n"
    using nw wf by (auto simp: liquidity_update_locked_new_def Let_def signed_add_Inr non_negative_value_iff)
  have l: "pool_inv ctx'" "liabilities ctx' + stats_collateral (liquidity_stats ctx)
      = liabilities ctx + stats_collateral ((liquidity_stats ctx)\<lparr>locked := k\<rparr>)"
    using stats_apply [OF inv _ _ ap [unfolded u liquidity_update_locked_apply_def]] by simp_all
  have "int (liabilities ctx') + int (stats_collateral (liquidity_stats ctx))
      = int (liabilities ctx) + int (stats_collateral ((liquidity_stats ctx)\<lparr>locked := k\<rparr>))"
    using l(2) by linarith
  then have "int (liabilities ctx') = int (liabilities ctx) + num n"
    using k by (simp add: stats_collateral_def)
  moreover obtain c1 c2 where sv: "save_liquidity_stats D ((liquidity_stats ctx)\<lparr>locked := k\<rparr>) ctx = Inr c1"
    and ev: "add_pool_size_change_events D env ((liquidity_stats ctx)\<lparr>locked := k\<rparr>) price c1 = Inr c2"
    and ctx': "ctx' = add_event env (LockUpdateEvent n) c2"
    using ap by (auto simp: liquidity_update_locked_apply_def u)
  moreover have "same_pool c1 ctx'" using pool_events_same [OF ev] by (simp add: ctx')
  ultimately show ?thesis
    using l(1) save_stats_cases [OF sv] k by (auto simp: same_pool_def)
qed

end

section \<open>Crediting yield\<close>

context decimal256
begin

lemma div_by_tokens_bound:
  "div_by_tokens D x t = Inr q \<Longrightarrow> q * t \<le> x * dec_one"
  by (auto simp: div_by_tokens_def div_non_zero_dec_def nonzero_new_def split: if_splits)

lemma latest_upd:
  assumes l: "latest_yield_per_token c = Inr (k, y)" and "k < j"
    and m: "yield_per_time_per_token c' = fmupd j y' (yield_per_time_per_token c)"
  shows "latest_yield_per_token c' = Inr (j, y')"
  using l assms(2) unfolding latest_Inr m fm_last_where_Some by (auto intro: less_imp_le order_trans)

text \<open>New yield raises the prefix sums by the yield per token, rounded down, so what the providers can
  claim grows by at most the collateral that is set aside for them.\<close>

lemma new_yield_preserves:
  assumes inv: "pool_inv ctx" and py: "liquidity_process_new_yield D ny ctx = Inr (j, y')"
    and m: "yield_per_time_per_token ctx' = fmupd j y' (yield_per_time_per_token ctx)"
    and same: "stats_by_addr ctx' = stats_by_addr ctx" "liquidity_stats ctx' = liquidity_stats ctx"
      "reset_lp_status ctx' = reset_lp_status ctx"
    and w: "set_aside (all_fees ctx) + la_lp ny + la_xlp ny \<le> set_aside (all_fees ctx')"
  shows "pool_inv ctx'"
proof -
  obtain k y where l: "latest_yield_per_token ctx = Inr (k, y)" using pool_inv_latest [OF inv] by blast
  obtain dl dx where d: "div_by_tokens D (la_lp ny) (total_lp (liquidity_stats ctx)) = Inr dl"
      "div_by_tokens D (la_xlp ny) (total_xlp (liquidity_stats ctx)) = Inr dx"
    and y': "y' = \<lparr>ypt_lp = ypt_lp y + dl, ypt_xlp = ypt_xlp y + dx\<rparr>" "j = k + 1"
    using py l by (auto simp: liquidity_process_new_yield_def res_simps)
  have l': "latest_yield_per_token ctx' = Inr (j, y')" using latest_upd [OF l _ m] y' by simp
  have step: "wf_addr ctx' s \<and> claimable ctx' s = claimable ctx s + (dl * lp_units s + dx * addr_xlp s)"
    if lk: "fmlookup (stats_by_addr ctx) a = Some s" for a s
  proof -
    obtain y0 where y0: "fmlookup (yield_per_time_per_token ctx) (last_accrue_key s) = Some y0"
      and le: "ypt_lp y0 \<le> ypt_lp y" "ypt_xlp y0 \<le> ypt_xlp y" and w: "\<not> is_empty_stats s" "wf_balances s"
      using pool_inv_addr [OF inv lk] l by (auto simp: wf_addr_def)
    have "last_accrue_key s \<le> k"
      using l y0 unfolding latest_Inr fm_last_where_Some by (auto intro: fmdom'I)
    then have y0': "fmlookup (yield_per_time_per_token ctx') (last_accrue_key s) = Some y0"
      using y0 y' m by simp
    have "yield_owed y0 y' s = yield_owed y0 y s + (dl * lp_units s + dx * addr_xlp s)"
    proof -
      have "ypt_lp y + dl - ypt_lp y0 = ypt_lp y - ypt_lp y0 + dl"
          "ypt_xlp y + dx - ypt_xlp y0 = ypt_xlp y - ypt_xlp y0 + dx" using le by simp_all
      then show ?thesis by (simp add: yield_owed_def y' add_mult_distrib)
    qed
    then show ?thesis
      using y0 y0' l l' le w by (simp add: wf_addr_def claimable_def y')
  qed
  have "fmsum (claimable ctx') (stats_by_addr ctx)
      = fmsum (\<lambda>s. claimable ctx s + (dl * lp_units s + dx * addr_xlp s)) (stats_by_addr ctx)"
    by (rule fmsum_cong) (use step in blast)
  also have "\<dots> = fmsum (claimable ctx) (stats_by_addr ctx)
      + (dl * fmsum lp_units (stats_by_addr ctx) + dx * fmsum addr_xlp (stats_by_addr ctx))"
    by (simp add: fmsum_add fmsum_cmult)
  also have "\<dots> \<le> dec_one * set_aside (all_fees ctx) + (la_lp ny * dec_one + la_xlp ny * dec_one)"
  proof (rule add_mono)
    show "fmsum (claimable ctx) (stats_by_addr ctx) \<le> dec_one * set_aside (all_fees ctx)"
      using inv by (simp add: pool_inv_def)
    show "dl * fmsum lp_units (stats_by_addr ctx) + dx * fmsum addr_xlp (stats_by_addr ctx)
        \<le> la_lp ny * dec_one + la_xlp ny * dec_one"
    proof (cases "reset_lp_status ctx")
      case None
      then show ?thesis
        using inv div_by_tokens_bound [OF d(1)] div_by_tokens_bound [OF d(2)]
        by (simp add: pool_inv_def wf_totals_def add_mono)
    next
      case (Some r)
      then have "dl = 0" "dx = 0"
        using inv d by (simp_all add: pool_inv_def wf_totals_def div_by_tokens_def nonzero_new_def)
      then show ?thesis by simp
    qed
  qed
  also have "\<dots> = dec_one * (set_aside (all_fees ctx) + la_lp ny + la_xlp ny)"
    by (simp add: add_mult_distrib2)
  also have "\<dots> \<le> dec_one * set_aside (all_fees ctx')" using w by (rule mult_le_mono2)
  finally show ?thesis
    using inv l' step by (auto simp: pool_inv_def same wf_totals_def split: option.splits)
qed

text \<open>Rewards credited to one provider, covered by the wallets.\<close>

lemma credit_preserves:
  assumes inv: "pool_inv ctx" and ld: "load_liquidity_stats_addr_default ctx a = Inr s0"
    and s: "addr_lp s = addr_lp s0" "addr_xlp s = addr_xlp s0" "unstaking s = unstaking s0"
      "last_accrue_key s = last_accrue_key s0" "accrued_total s = accrued_total s0 + n"
    and c': "stats_by_addr ctx' = stats_by_addr (save_liquidity_stats_addr a s ctx)"
      "yield_per_time_per_token ctx' = yield_per_time_per_token ctx"
      "liquidity_stats ctx' = liquidity_stats ctx" "reset_lp_status ctx' = reset_lp_status ctx"
      "set_aside (all_fees ctx) + n \<le> set_aside (all_fees ctx')"
  shows "pool_inv ctx'"
proof -
  have u: "lp_units s = lp_units s0" using s by (simp add: lp_units_def pending_unstake_def)
  obtain k y where l: "latest_yield_per_token ctx = Inr (k, y)" using pool_inv_latest [OF inv] by blast
  have "(is_empty_stats s \<or> wf_addr ctx s) \<and> claimable ctx s = fmval (claimable ctx) (stats_by_addr ctx) a + dec_one * n
    \<and> fmval lp_units (stats_by_addr ctx) a = lp_units s \<and> fmval addr_xlp (stats_by_addr ctx) a = addr_xlp s
    \<and> (fmlookup (stats_by_addr ctx) a = None \<longrightarrow> lp_units s = 0 \<and> addr_xlp s = 0)"
  proof (cases "fmlookup (stats_by_addr ctx) a")
    case None
    then have s0: "s0 = \<lparr>addr_lp = 0, addr_xlp = 0, last_accrue_key = k, lp_accrued_yield = 0,
        xlp_accrued_yield = 0, crank_rewards = 0, referrer_rewards = 0, unstaking = None, cooldown_ends = None\<rparr>"
      using ld l by (simp add: load_liquidity_stats_addr_default_def new_addr_stats_def)
    have "claimable ctx s = dec_one * accrued_total s"
      using l s s0 by (intro claimable_fresh) simp
    then show ?thesis
      using None l s by (auto simp: s0 fmval_None lp_units_def pending_unstake_def wf_addr_def wf_balances_def
          latest_Inr accrued_total_def)
  next
    case (Some t)
    then have t: "t = s0" using ld by (simp add: load_liquidity_stats_addr_default_def)
    have "claimable ctx s = claimable ctx s0 + dec_one * n"
      using s by (simp add: claimable_def yield_owed_def u add_mult_distrib2 split: sum.splits option.splits)
    then show ?thesis
      using Some t u s pool_inv_addr [OF inv Some] by (auto simp: fmval_lookup wf_addr_def wf_balances_def)
  qed
  then have wfa: "is_empty_stats s \<or> wf_addr ctx s"
    and cl: "claimable ctx s = fmval (claimable ctx) (stats_by_addr ctx) a + dec_one * n"
    and un: "fmval lp_units (stats_by_addr ctx) a = lp_units s" "fmval addr_xlp (stats_by_addr ctx) a = addr_xlp s"
    and new: "fmlookup (stats_by_addr ctx) a = None \<longrightarrow> lp_units s = 0 \<and> addr_xlp s = 0" by auto
  have "fmsum (claimable ctx) (stats_by_addr ctx') = fmsum (claimable ctx) (stats_by_addr ctx) + dec_one * n"
    using fmsum_save_addr [of s "claimable ctx" a ctx, OF conjunct2 [OF conjunct2 [OF empty_units]]] cl
    by (simp add: c'(1))
  also have "\<dots> \<le> dec_one * (set_aside (all_fees ctx) + n)"
    using inv by (simp add: pool_inv_def add_mult_distrib2)
  also have "\<dots> \<le> dec_one * set_aside (all_fees ctx')" using c'(5) by (rule mult_le_mono2)
  finally have "fmsum (claimable ctx) (stats_by_addr ctx') \<le> dec_one * set_aside (all_fees ctx')" .
  moreover have "fmsum lp_units (stats_by_addr ctx') = fmsum lp_units (stats_by_addr ctx)"
      "fmsum addr_xlp (stats_by_addr ctx') = fmsum addr_xlp (stats_by_addr ctx)"
    using fmsum_save_addr [of s lp_units a ctx] fmsum_save_addr [of s addr_xlp a ctx] un
    by (simp_all add: empty_units c'(1))
  moreover have "wf_totals ctx'"
  proof (cases "reset_lp_status ctx")
    case None
    with inv calculation show ?thesis by (simp add: wf_totals_def pool_inv_def c')
  next
    case (Some r)
    have "lp_units t = 0 \<and> addr_xlp t = 0" if "fmlookup (stats_by_addr ctx') b = Some t" "\<not> reset_bound r b" for b t
    proof (cases "b = a")
      case True
      then have "t = s" using that by (simp add: c'(1) save_addr_lookup split: if_splits)
      then show ?thesis
        using new inv Some that(2) True un by (cases "fmlookup (stats_by_addr ctx) a")
          (auto simp: pool_inv_def wf_totals_def fmval_lookup)
    next
      case False
      then show ?thesis
        using inv Some that by (simp add: c'(1) save_addr_lookup pool_inv_def wf_totals_def)
    qed
    with inv Some show ?thesis by (simp add: wf_totals_def pool_inv_def c')
  qed
  ultimately show ?thesis
    using inv wfa by (auto simp: pool_inv_def latest_cong [OF c'(2)] claimable_cong [OF c'(2)]
        wf_addr_cong [OF c'(2)] c'(1,3) save_addr_lookup split: if_splits)
qed

end

section \<open>Resetting a drained pool\<close>

text \<open>The providers a reset still has to visit.\<close>

definition reset_pending :: "Ctx \<Rightarrow> Addr set" where
  "reset_pending ctx = {a \<in> fmdom' (stats_by_addr ctx).
     case reset_lp_status ctx of None \<Rightarrow> False | Some r \<Rightarrow> reset_bound r a}"

lemma reset_pending_finite [simp]: "finite (reset_pending ctx)"
  by (simp add: reset_pending_def)

context decimal256
begin

text \<open>One step of a reset keeps the invariant and ends the reset or shrinks the set of providers left;
  the yield of the visited provider is accrued before the tokens are erased.\<close>

lemma reset_result:
  assumes inv: "pool_inv ctx" and cr: "crank_reset_lp_balances D ctx = Inr ctx'"
  shows "pool_inv ctx' \<and> liabilities ctx' = liabilities ctx
    \<and> (if reset_pending ctx = {} then reset_lp_status ctx' = None
       else reset_lp_status ctx' \<noteq> None \<and> reset_pending ctx' \<subset> reset_pending ctx)"
proof -
  obtain r where r: "reset_lp_status ctx = Some r"
    using cr by (auto simp: crank_reset_lp_balances_def)
  have tot: "total_lp (liquidity_stats ctx) = 0" "total_xlp (liquidity_stats ctx) = 0"
    and zero: "\<And>a s. fmlookup (stats_by_addr ctx) a = Some s \<Longrightarrow> \<not> reset_bound r a \<Longrightarrow>
      lp_units s = 0 \<and> addr_xlp s = 0"
    using inv r by (auto simp: pool_inv_def wf_totals_def)
  show ?thesis
  proof (cases "fm_first_where (reset_bound r) (stats_by_addr ctx)")
    case None
    then have ctx': "ctx' = ctx\<lparr>reset_lp_status := None\<rparr>"
      using cr r by (simp add: crank_reset_lp_balances_def)
    have e: "reset_pending ctx = {}"
      using None r by (auto simp: fm_first_where_None reset_pending_def)
    have z: "lp_units s = 0 \<and> addr_xlp s = 0" if "fmlookup (stats_by_addr ctx) a = Some s" for a s
      using that zero None by (auto simp: fm_first_where_None fmlookup_dom'_iff)
    have "fmsum lp_units (stats_by_addr ctx) = 0" "fmsum addr_xlp (stats_by_addr ctx) = 0"
      using z by (auto intro!: fmsum_eq_0)
    moreover have y: "yield_per_time_per_token ctx' = yield_per_time_per_token ctx" by (simp add: ctx')
    ultimately have "pool_inv ctx'"
      using inv tot unfolding pool_inv_def latest_cong [OF y] claimable_cong [OF y] wf_addr_cong [OF y]
      by (simp add: ctx' wf_totals_def)
    then show ?thesis using e by (simp add: ctx' liabilities_def transfers_total_def)
  next
    case (Some a)
    then have a: "a \<in> fmdom' (stats_by_addr ctx)" "reset_bound r a"
        "\<And>b. b \<in> fmdom' (stats_by_addr ctx) \<Longrightarrow> reset_bound r b \<Longrightarrow> a \<le> b"
      by (auto simp: fm_first_where_Some)
    obtain c1 s k y where u: "update_accrued_yield D a ctx = Inr c1"
      and s: "fmlookup (stats_by_addr c1) a = Some s" and l: "latest_yield_per_token c1 = Inr (k, y)"
      and c': "ctx' = (save_liquidity_stats_addr a (s\<lparr>addr_lp := 0, addr_xlp := 0,
        last_accrue_key := k, unstaking := None, cooldown_ends := None\<rparr>) c1)\<lparr>reset_lp_status := Some (ResetLastSaw a)\<rparr>"
      using cr r Some by (auto simp: crank_reset_lp_balances_def load_liquidity_stats_addr_def)
    define s' where "s' = s\<lparr>addr_lp := 0, addr_xlp := 0, last_accrue_key := k, unstaking := None, cooldown_ends := None\<rparr>"
    have ctx': "ctx' = (save_liquidity_stats_addr a s' c1)\<lparr>reset_lp_status := Some (ResetLastSaw a)\<rparr>"
      by (simp add: c' s'_def)
    note up = update_accrued_yield_result [OF inv u]
    then have c1: "pool_inv c1" "fresh_accrual a c1" and "\<exists>m. c1 = ctx\<lparr>stats_by_addr := m\<rparr>" by auto
    then have m: "liquidity_stats c1 = liquidity_stats ctx" "reset_lp_status c1 = Some r" "liabilities c1 = liabilities ctx"
      using r by (auto simp: liabilities_def transfers_total_def)
    have y: "yield_per_time_per_token ctx' = yield_per_time_per_token c1"
      and f: "all_fees ctx' = all_fees c1" "liquidity_stats ctx' = liquidity_stats c1"
        "stats_by_addr ctx' = stats_by_addr (save_liquidity_stats_addr a s' c1)"
        "reset_lp_status ctx' = Some (ResetLastSaw a)" by (simp_all add: ctx')
    have k: "last_accrue_key s = k" using c1(2) s l by (simp add: fresh_accrual_def)
    have cl: "claimable c1 s' = claimable c1 s"
      using claimable_fresh [of c1 s' y] claimable_fresh [of c1 s y] l k by (simp add: s'_def accrued_total_def)
    have wfa: "is_empty_stats s' \<or> wf_addr c1 s'"
      using l by (auto simp: wf_addr_def wf_balances_def latest_Inr s'_def)
    have "fmsum (claimable c1) (stats_by_addr ctx') \<le> dec_one * set_aside (all_fees c1)"
      using fmsum_save_addr [of s' "claimable c1" a c1, OF conjunct2 [OF conjunct2 [OF empty_units]]] cl s c1(1)
      by (simp add: f(3) fmval_lookup pool_inv_def)
    moreover have "lp_units t = 0 \<and> addr_xlp t = 0"
      if "fmlookup (stats_by_addr ctx') b = Some t" "\<not> a < b" for b t
    proof (cases "b = a")
      case True
      then have "t = s'" using that by (simp add: f(3) save_addr_lookup split: if_splits)
      then show ?thesis by (simp add: s'_def lp_units_def pending_unstake_def)
    next
      case False
      then have lk: "fmlookup (stats_by_addr ctx) b = Some t"
        using that(1) update_accrued_others [OF u False] by (simp add: f(3) save_addr_lookup)
      moreover have "\<not> reset_bound r b"
        using a(3) [of b] fmdom'I [OF lk] that(2) False by auto
      ultimately show ?thesis using zero by blast
    qed
    ultimately have "pool_inv ctx'"
      using c1(1) wfa tot unfolding pool_inv_def latest_cong [OF y] claimable_cong [OF y] wf_addr_cong [OF y]
      by (auto simp: f wf_totals_def reset_bound_def save_addr_lookup m split: if_splits)
    moreover have "liabilities ctx' = liabilities ctx"
      unfolding m(3) [symmetric] by (simp add: ctx' liabilities_def transfers_total_def)
    moreover have "reset_pending ctx' \<subset> reset_pending ctx"
    proof -
      have dom: "b \<in> fmdom' (stats_by_addr ctx)" if "b \<in> fmdom' (stats_by_addr ctx')" for b
        using that update_accrued_others [OF u, of b] a(1)
        by (auto simp: fmlookup_dom'_iff f(3) save_addr_lookup split: if_splits)
      have "reset_pending ctx' \<subseteq> reset_pending ctx - {a}"
        using dom a(2) by (auto simp: reset_pending_def f(4) r reset_bound_def split: ResetLpStatus.splits)
      moreover have "a \<in> reset_pending ctx" using a by (simp add: reset_pending_def r)
      ultimately show ?thesis by blast
    qed
    moreover have "reset_pending ctx \<noteq> {}" using a by (auto simp: reset_pending_def r)
    ultimately show ?thesis using f(4) by simp
  qed
qed

end

text \<open>The account of a provider the reset has visited: the yield accrued up to now is credited, the
  rewards are kept and the tokens are gone.\<close>

definition settled :: "dec256_api \<Rightarrow> Ctx \<Rightarrow> LiquidityStatsByAddr \<Rightarrow> Addr \<Rightarrow> Ctx \<Rightarrow> bool" where
  "settled D ctx s a ctx' \<longleftrightarrow> (\<exists>r. calculate_accrued_yield D ctx s = Inr r
     \<and> fmval lp_accrued_yield (stats_by_addr ctx') a
         = lp_accrued_yield s + (case r of None \<Rightarrow> 0 | Some (_, acc) \<Rightarrow> la_lp acc)
     \<and> fmval xlp_accrued_yield (stats_by_addr ctx') a
         = xlp_accrued_yield s + (case r of None \<Rightarrow> 0 | Some (_, acc) \<Rightarrow> la_xlp acc)
     \<and> fmval crank_rewards (stats_by_addr ctx') a = crank_rewards s
     \<and> fmval referrer_rewards (stats_by_addr ctx') a = referrer_rewards s
     \<and> fmval lp_units (stats_by_addr ctx') a = 0 \<and> fmval addr_xlp (stats_by_addr ctx') a = 0)"

text \<open>What the reset does to the accounts: those still to visit are settled, the others stay.\<close>

definition reset_accounts :: "dec256_api \<Rightarrow> Ctx \<Rightarrow> Ctx \<Rightarrow> bool" where
  "reset_accounts D ctx ctx' \<longleftrightarrow> (\<forall>a. if a \<in> reset_pending ctx
     then \<exists>s. fmlookup (stats_by_addr ctx) a = Some s \<and> settled D ctx s a ctx'
     else fmlookup (stats_by_addr ctx') a = fmlookup (stats_by_addr ctx) a)"

lemma settled_account_cong:
  "fmlookup (stats_by_addr c1) a = fmlookup (stats_by_addr c2) a \<Longrightarrow> settled D ctx s a c1 = settled D ctx s a c2"
  by (simp add: settled_def fmval_def)

lemma settled_yield_cong:
  assumes "yield_per_time_per_token c1 = yield_per_time_per_token c2"
  shows "settled D c1 s a ctx' = settled D c2 s a ctx'"
proof -
  have "calculate_accrued_yield D c1 s = calculate_accrued_yield D c2 s"
    unfolding calculate_accrued_yield_def latest_cong [OF assms] by (simp only: assms)
  then show ?thesis by (simp add: settled_def)
qed

context decimal256
begin

lemma reset_visit_settles:
  assumes u: "update_accrued_yield D a ctx = Inr c1" and s: "fmlookup (stats_by_addr ctx) a = Some s"
    and t: "fmlookup (stats_by_addr c1) a = Some t"
    and lk: "fmlookup (stats_by_addr ctx') a = (if is_empty_stats t' then None else Some t')"
    and t': "t' = t\<lparr>addr_lp := 0, addr_xlp := 0, last_accrue_key := k, unstaking := None, cooldown_ends := None\<rparr>"
  shows "settled D ctx s a ctx'"
proof -
  obtain r where r: "calculate_accrued_yield D ctx s = Inr r"
    using u s by (auto simp: update_accrued_yield_def load_liquidity_stats_addr_default_def)
  have "lp_accrued_yield t = lp_accrued_yield s + (case r of None \<Rightarrow> 0 | Some (_, acc) \<Rightarrow> la_lp acc)
      \<and> xlp_accrued_yield t = xlp_accrued_yield s + (case r of None \<Rightarrow> 0 | Some (_, acc) \<Rightarrow> la_xlp acc)
      \<and> crank_rewards t = crank_rewards s \<and> referrer_rewards t = referrer_rewards s"
    using u s t r by (auto simp: update_accrued_yield_def load_liquidity_stats_addr_default_def save_addr_lookup
        split: option.splits if_splits)
  then show ?thesis
    unfolding settled_def using r lk
    by (intro exI [of _ r]) (auto simp: fmval_def t' is_empty_stats_def lp_units_def pending_unstake_def)
qed

lemma reset_step_accounts:
  assumes cr: "crank_reset_lp_balances D ctx = Inr ctx'"
  shows "ctx' = ctx\<lparr>stats_by_addr := stats_by_addr ctx', reset_lp_status := reset_lp_status ctx'\<rparr>
    \<and> (if reset_pending ctx = {} then ctx' = ctx\<lparr>reset_lp_status := None\<rparr>
       else \<exists>a s. a \<in> reset_pending ctx \<and> reset_pending ctx' = reset_pending ctx - {a}
         \<and> fmlookup (stats_by_addr ctx) a = Some s \<and> settled D ctx s a ctx'
         \<and> (\<forall>b. b \<noteq> a \<longrightarrow> fmlookup (stats_by_addr ctx') b = fmlookup (stats_by_addr ctx) b))"
proof -
  obtain r where r: "reset_lp_status ctx = Some r" using cr by (auto simp: crank_reset_lp_balances_def)
  show ?thesis
  proof (cases "fm_first_where (reset_bound r) (stats_by_addr ctx)")
    case None
    then have "reset_pending ctx = {}" using r by (auto simp: fm_first_where_None reset_pending_def)
    moreover have "ctx' = ctx\<lparr>reset_lp_status := None\<rparr>" using cr r None by (simp add: crank_reset_lp_balances_def)
    ultimately show ?thesis by simp
  next
    case (Some a)
    then have a: "a \<in> fmdom' (stats_by_addr ctx)" "reset_bound r a"
        "\<And>b. b \<in> fmdom' (stats_by_addr ctx) \<Longrightarrow> reset_bound r b \<Longrightarrow> a \<le> b"
      by (auto simp: fm_first_where_Some)
    obtain c1 t k y where u: "update_accrued_yield D a ctx = Inr c1"
      and t: "fmlookup (stats_by_addr c1) a = Some t"
      and ctx': "ctx' = (save_liquidity_stats_addr a (t\<lparr>addr_lp := 0, addr_xlp := 0,
        last_accrue_key := k, unstaking := None, cooldown_ends := None\<rparr>) c1)\<lparr>reset_lp_status := Some (ResetLastSaw a)\<rparr>"
      using cr r Some by (auto simp: crank_reset_lp_balances_def load_liquidity_stats_addr_def)
    obtain s where s: "fmlookup (stats_by_addr ctx) a = Some s" using a(1) by (auto simp: fmlookup_dom'_iff)
    have "\<exists>m. c1 = ctx\<lparr>stats_by_addr := m\<rparr>"
      using u by (auto simp: update_accrued_yield_def save_liquidity_stats_addr_def split: option.splits)
        (rule exI [of _ "stats_by_addr ctx"], simp)
    then have f: "ctx' = ctx\<lparr>stats_by_addr := stats_by_addr ctx', reset_lp_status := reset_lp_status ctx'\<rparr>"
      by (auto simp: ctx' save_liquidity_stats_addr_def)
    have others: "fmlookup (stats_by_addr ctx') b = fmlookup (stats_by_addr ctx) b" if "b \<noteq> a" for b
      using that update_accrued_others [OF u that] by (simp add: ctx' save_addr_lookup)
    have st: "settled D ctx s a ctx'"
      by (rule reset_visit_settles [OF u s t _ refl]) (simp add: ctx' save_addr_lookup)
    have "b \<in> reset_pending ctx' \<longleftrightarrow> b \<in> reset_pending ctx - {a}" for b
    proof (cases "b = a")
      case True
      then show ?thesis by (simp add: reset_pending_def ctx' reset_bound_def)
    next
      case False
      then have "b \<in> fmdom' (stats_by_addr ctx') \<longleftrightarrow> b \<in> fmdom' (stats_by_addr ctx)"
        using others by (simp add: fmlookup_dom'_iff)
      moreover have "reset_bound r b \<longleftrightarrow> a < b" if "b \<in> fmdom' (stats_by_addr ctx)"
        using a(2) a(3) [OF that] False by (auto simp: reset_bound_def split: ResetLpStatus.splits)
      ultimately show ?thesis using False r by (auto simp: reset_pending_def ctx' reset_bound_def)
    qed
    then have "reset_pending ctx' = reset_pending ctx - {a}" by blast
    moreover have "a \<in> reset_pending ctx" using a by (simp add: reset_pending_def r)
    ultimately show ?thesis using f st s others by auto
  qed
qed

end

text \<open>A pending reset never gets stuck and ends after visiting every provider once.\<close>

fun crank_resets :: "dec256_api \<Rightarrow> nat \<Rightarrow> Ctx \<Rightarrow> Ctx res" where
  "crank_resets D 0 ctx = Inr ctx"
| "crank_resets D (Suc n) ctx = and_then (crank_reset_lp_balances D ctx) (crank_resets D n)"

definition units_fit :: "Ctx \<Rightarrow> bool" where
  "units_fit ctx \<longleftrightarrow> set_aside (all_fees ctx) < dec_lim
     \<and> (\<forall>a s. fmlookup (stats_by_addr ctx) a = Some s \<longrightarrow> lp_units s < dec_lim)"

context decimal256
begin

lemma claimable_le_wallets:
  assumes "pool_inv ctx" "fmlookup (stats_by_addr ctx) a = Some s"
  shows "claimable ctx s \<le> dec_one * set_aside (all_fees ctx)"
  using assms fmval_le_fmsum [of "claimable ctx" "stats_by_addr ctx" a]
  by (simp add: pool_inv_def fmval_lookup)

lemma accrued_le_wallets:
  assumes "pool_inv ctx"
  shows "fmsum accrued_total (stats_by_addr ctx) \<le> set_aside (all_fees ctx)"
proof -
  have "dec_one * fmsum accrued_total (stats_by_addr ctx) \<le> fmsum (claimable ctx) (stats_by_addr ctx)"
    unfolding fmsum_cmult [symmetric] by (rule fmsum_mono) (simp add: claimable_def)
  also have "\<dots> \<le> dec_one * set_aside (all_fees ctx)" using assms by (simp add: pool_inv_def)
  finally show ?thesis by simp
qed

lemma update_accrued_succeeds:
  assumes inv: "pool_inv ctx" and fit: "units_fit ctx" and s: "fmlookup (stats_by_addr ctx) a = Some s"
  shows "\<exists>ctx'. update_accrued_yield D a ctx = Inr ctx'"
proof -
  obtain k y1 y0 where l: "latest_yield_per_token ctx = Inr (k, y1)"
    and y0: "fmlookup (yield_per_time_per_token ctx) (last_accrue_key s) = Some y0"
    and le: "ypt_lp y0 \<le> ypt_lp y1" "ypt_xlp y0 \<le> ypt_xlp y1" and w: "wf_balances s"
    using pool_inv_addr [OF inv s] by (auto simp: wf_addr_def)
  show ?thesis
  proof (cases "k = last_accrue_key s")
    case True
    then show ?thesis
      using s l by (simp add: update_accrued_yield_def load_liquidity_stats_addr_default_def calculate_accrued_yield_def)
  next
    case False
    define p where "p = (ypt_lp y1 - ypt_lp y0) * lp_units s div dec_one"
    define q where "q = (ypt_xlp y1 - ypt_xlp y0) * addr_xlp s div dec_one"
    have "claimable ctx s = dec_one * accrued_total s + yield_owed y0 y1 s"
      using l y0 by (simp add: claimable_def)
    moreover have "dec_one * p \<le> (ypt_lp y1 - ypt_lp y0) * lp_units s"
        "dec_one * q \<le> (ypt_xlp y1 - ypt_xlp y0) * addr_xlp s"
      by (simp_all add: p_def q_def scaled_floor)
    ultimately have "dec_one * (accrued_total s + p + q) \<le> dec_one * set_aside (all_fees ctx)"
      using claimable_le_wallets [OF inv s] by (simp add: yield_owed_def add_mult_distrib2)
    then have "accrued_total s + p + q < dec_lim"
      using fit by (simp add: units_fit_def)
    then have b: "lp_accrued_yield s + p < dec_lim" "xlp_accrued_yield s + q < dec_lim" "p < dec_lim" "q < dec_lim"
      by (simp_all add: accrued_total_def)
    have lim: "lp_units s < dec_lim" using fit s by (simp add: units_fit_def)
    have "unstaking_lp D s = Inr (lp_units s)"
    proof (cases "unstaking s")
      case None
      then show ?thesis by (simp add: unstaking_lp_def lp_units_def pending_unstake_def)
    next
      case (Some u)
      then have "collected u \<le> xlp_amount u" using w by (simp add: wf_balances_def wf_unstaking_def)
      then show ?thesis using Some lim by (simp add: unstaking_lp_def lp_units_def pending_unstake_def)
    qed
    then have "calculate_accrued_yield D ctx s = Inr (Some (k, \<lparr>la_lp = p, la_xlp = q\<rparr>))"
      using l y0 False le b by (simp add: calculate_accrued_yield_def checked_mul_dec_def p_def q_def)
    then show ?thesis
      using s b by (simp add: update_accrued_yield_def load_liquidity_stats_addr_default_def)
  qed
qed

lemma reset_succeeds:
  assumes inv: "pool_inv ctx" and fit: "units_fit ctx" and r: "reset_lp_status ctx \<noteq> None"
  shows "\<exists>ctx'. crank_reset_lp_balances D ctx = Inr ctx' \<and> units_fit ctx'"
proof -
  obtain r where r: "reset_lp_status ctx = Some r" using r by auto
  show ?thesis
  proof (cases "fm_first_where (reset_bound r) (stats_by_addr ctx)")
    case None
    with r fit show ?thesis by (simp add: crank_reset_lp_balances_def units_fit_def)
  next
    case (Some a)
    then obtain s where s: "fmlookup (stats_by_addr ctx) a = Some s"
      by (auto simp: fm_first_where_Some fmlookup_dom'_iff)
    obtain c1 where u: "update_accrued_yield D a ctx = Inr c1"
      using update_accrued_succeeds [OF inv fit s] by blast
    note up = update_accrued_yield_result [OF inv u]
    then obtain m t k y where c1: "c1 = ctx\<lparr>stats_by_addr := m\<rparr>" and t: "fmlookup (stats_by_addr c1) a = Some t"
      and l: "latest_yield_per_token c1 = Inr (k, y)"
      using s pool_inv_latest by fastforce
    have fit1: "units_fit (save_liquidity_stats_addr a (t\<lparr>addr_lp := 0, addr_xlp := 0,
        last_accrue_key := k, unstaking := None, cooldown_ends := None\<rparr>) c1)"
      using fit update_accrued_others [OF u] c1
      by (auto simp: units_fit_def save_addr_lookup lp_units_def pending_unstake_def split: if_splits)
    show ?thesis
      using r Some u t l fit1 by (simp add: crank_reset_lp_balances_def load_liquidity_stats_addr_def units_fit_def)
  qed
qed

lemma reset_finishes:
  "pool_inv ctx \<Longrightarrow> units_fit ctx \<Longrightarrow> reset_lp_status ctx \<noteq> None \<Longrightarrow>
     \<exists>n ctx'. n \<le> Suc (card (reset_pending ctx)) \<and> crank_resets D n ctx = Inr ctx'
       \<and> pool_inv ctx' \<and> ctx' = ctx\<lparr>stats_by_addr := stats_by_addr ctx', reset_lp_status := None\<rparr>
       \<and> reset_accounts D ctx ctx'"
proof (induction "card (reset_pending ctx)" arbitrary: ctx rule: less_induct)
  case less
  obtain c1 where c1: "crank_reset_lp_balances D ctx = Inr c1" "units_fit c1"
    using reset_succeeds [OF less.prems] by blast
  note r = reset_result [OF less.prems(1) c1(1)] and st = reset_step_accounts [OF c1(1)]
  show ?case
  proof (cases "reset_pending ctx = {}")
    case True
    then have e: "c1 = ctx\<lparr>reset_lp_status := None\<rparr>" using st by simp
    then have "pool_inv c1 \<and> c1 = ctx\<lparr>stats_by_addr := stats_by_addr c1, reset_lp_status := None\<rparr> \<and> reset_accounts D ctx c1"
      using r True by (simp add: reset_accounts_def)
    then show ?thesis using c1(1) by (intro exI [of _ 1] exI [of _ c1]) simp
  next
    case False
    then obtain a s where a: "a \<in> reset_pending ctx" "reset_pending c1 = reset_pending ctx - {a}"
      "fmlookup (stats_by_addr ctx) a = Some s" "settled D ctx s a c1"
      "\<And>b. b \<noteq> a \<Longrightarrow> fmlookup (stats_by_addr c1) b = fmlookup (stats_by_addr ctx) b"
      and f: "c1 = ctx\<lparr>stats_by_addr := stats_by_addr c1, reset_lp_status := reset_lp_status c1\<rparr>"
      using st by auto
    have i: "pool_inv c1" "reset_lp_status c1 \<noteq> None" using r False by auto
    have lt: "card (reset_pending c1) < card (reset_pending ctx)"
      unfolding a(2) using a(1) by (intro psubset_card_mono) auto
    obtain n c2 where n: "n \<le> Suc (card (reset_pending c1))" "crank_resets D n c1 = Inr c2" "pool_inv c2"
      "c2 = c1\<lparr>stats_by_addr := stats_by_addr c2, reset_lp_status := None\<rparr>" and ac: "reset_accounts D c1 c2"
      using less.hyps [OF lt i(1) c1(2) i(2)] by blast
    have y: "yield_per_time_per_token c1 = yield_per_time_per_token ctx" by (subst f) simp
    have "c2 = ctx\<lparr>stats_by_addr := stats_by_addr c2, reset_lp_status := None\<rparr>"
      by (subst n(4), subst f) simp
    moreover have "reset_accounts D ctx c2"
      unfolding reset_accounts_def
    proof (rule allI)
      fix b
      have ab: "if b \<in> reset_pending c1 then \<exists>s. fmlookup (stats_by_addr c1) b = Some s \<and> settled D c1 s b c2
          else fmlookup (stats_by_addr c2) b = fmlookup (stats_by_addr c1) b"
        using ac by (simp add: reset_accounts_def)
      show "if b \<in> reset_pending ctx then \<exists>s. fmlookup (stats_by_addr ctx) b = Some s \<and> settled D ctx s b c2
          else fmlookup (stats_by_addr c2) b = fmlookup (stats_by_addr ctx) b"
      proof (cases "b = a")
        case True
        then show ?thesis using ab a(1-4) settled_account_cong [of c2 a c1 D ctx s] by simp
      next
        case False
        then show ?thesis using ab a(2) a(5) [OF False] settled_yield_cong [OF y] by (simp split: if_splits)
      qed
    qed
    ultimately show ?thesis using n lt c1(1) by (intro exI [of _ "Suc n"] exI [of _ c2]) simp
  qed
qed

end

end
