(* ===== verification/Fees.thy ===== *)
theory Fees
  imports PoolOperations
begin

text \<open>
  Fees: the trade fee of \<open>Config\<close> (\<open>packages/perpswap/src/contracts/market/fees.rs\<close>), the fee
  balances of \<open>contracts/market/src/state/fees.rs\<close> (wallets, protocol, crank, referral) with
  the split of borrow and trading fees between providers and the protocol, the crank fund and its
  rewards, and the referral statistics of \<open>contracts/market/src/state/referral.rs\<close>. The
  lemmas show that a fee is split without losing an atom, that the crank fund is never overdrawn,
  and that the pool's accounting invariant survives every fee, shared with a referrer or not: a
  shared fee credits the referrer's account and books the reward in the referral balance.
\<close>

section \<open>The trade fee\<close>

definition fee_delta :: "dec256_api \<Rightarrow> Collateral \<Rightarrow> Collateral \<Rightarrow> Decimal256 \<Rightarrow> Collateral res" where
  "fee_delta D old new rate =
     (case ok (d_sub D new old) of
        Some delta \<Rightarrow> checked_mul_dec D delta rate
      | None \<Rightarrow> Inr 0)"

definition calculate_trade_fee ::
    "dec256_api \<Rightarrow> Config \<Rightarrow> Signed \<Rightarrow> Signed \<Rightarrow> Collateral \<Rightarrow> Collateral \<Rightarrow> Collateral res" where
  "calculate_trade_fee D cfg old_notional_size_in_collateral new_notional_size_in_collateral
       old_counter_collateral new_counter_collateral =
     and_then (fee_delta D (abs_unsigned old_notional_size_in_collateral)
       (abs_unsigned new_notional_size_in_collateral) (cfg_trading_fee_notional_size cfg)) (\<lambda>notional_size_fee.
     and_then (fee_delta D old_counter_collateral new_counter_collateral
       (cfg_trading_fee_counter_collateral cfg)) (\<lambda>counter_collateral_fee.
     d_add D notional_size_fee counter_collateral_fee))"

definition calculate_trade_fee_open :: "dec256_api \<Rightarrow> Config \<Rightarrow> Signed \<Rightarrow> Collateral \<Rightarrow> Collateral res" where
  "calculate_trade_fee_open D cfg notional_in_collateral counter_collateral =
     calculate_trade_fee D cfg signed_zero notional_in_collateral 0 counter_collateral"

section \<open>Splitting fees\<close>

definition fees_init :: "Ctx \<Rightarrow> Ctx" where
  "fees_init ctx = ctx\<lparr>all_fees := \<lparr>fees_wallets = 0, fees_protocol = 0, fees_crank = 0, fees_referral = 0\<rparr>\<rparr>"

definition fee_event ::
    "dec256_api \<Rightarrow> PricePoint \<Rightarrow> TradeId \<Rightarrow> FeeSource \<Rightarrow> Collateral \<Rightarrow> Collateral \<Rightarrow> Collateral \<Rightarrow> FeeEventData res" where
  "fee_event D price trade_id src lp_fee xlp_fee protocol_fee =
     and_then (collateral_to_usd D price lp_fee) (\<lambda>lp_usd.
     and_then (collateral_to_usd D price xlp_fee) (\<lambda>xlp_usd.
     and_then (collateral_to_usd D price protocol_fee) (\<lambda>protocol_usd.
     Inr \<lparr>fe_trade_id = trade_id, fe_fee_source = src, fe_lp_amount = lp_fee, fe_lp_amount_usd = lp_usd,
       fe_xlp_amount = xlp_fee, fe_xlp_amount_usd = xlp_usd, fe_protocol_amount = protocol_fee,
       fe_protocol_amount_usd = protocol_usd\<rparr>)))"

record BorrowFeeCollection =
  bfc_event :: FeeEventData
  bfc_yield :: "u64 \<times> YieldPerToken"

definition collect_borrow_fee ::
    "dec256_api \<Rightarrow> Env \<Rightarrow> Ctx \<Rightarrow> PositionId \<Rightarrow> LpAndXlp \<Rightarrow> PricePoint \<Rightarrow> BorrowFeeCollection res" where
  "collect_borrow_fee D env ctx pid amount price =
     (let protocol_tax = cfg_protocol_tax (env_config env) in
     and_then (checked_mul_dec D (la_lp amount) protocol_tax) (\<lambda>protocol_fee_lp.
     and_then (checked_mul_dec D (la_xlp amount) protocol_tax) (\<lambda>protocol_fee_xlp.
     and_then (d_sub D (la_lp amount) protocol_fee_lp) (\<lambda>lp_fee.
     and_then (d_sub D (la_xlp amount) protocol_fee_xlp) (\<lambda>xlp_fee.
     and_then (d_add D protocol_fee_lp protocol_fee_xlp) (\<lambda>protocol_fee.
     and_then (liquidity_process_new_yield D \<lparr>la_lp = lp_fee, la_xlp = xlp_fee\<rparr> ctx) (\<lambda>y.
     and_then (fee_event D price (TradePosition pid) FeeBorrow lp_fee xlp_fee protocol_fee) (\<lambda>e.
     Inr \<lparr>bfc_event = e, bfc_yield = y\<rparr>))))))))"

definition add_earned_fees ::
    "dec256_api \<Rightarrow> Collateral \<Rightarrow> Collateral \<Rightarrow> Collateral \<Rightarrow> Ctx \<Rightarrow> Ctx res" where
  "add_earned_fees D lp_fee xlp_fee protocol_fee ctx =
     and_then (d_add D lp_fee xlp_fee) (\<lambda>both.
     and_then (d_add D (fees_wallets (all_fees ctx)) both) (\<lambda>w.
     and_then (d_add D (fees_protocol (all_fees ctx)) protocol_fee) (\<lambda>p.
     Inr (ctx\<lparr>all_fees := (all_fees ctx)\<lparr>fees_wallets := w, fees_protocol := p\<rparr>\<rparr>))))"

definition borrow_fee_apply :: "dec256_api \<Rightarrow> Env \<Rightarrow> BorrowFeeCollection \<Rightarrow> Ctx \<Rightarrow> Ctx res" where
  "borrow_fee_apply D env b ctx =
     (let e = bfc_event b in
     map_res (add_event env (FeeEvent e))
       (add_earned_fees D (fe_lp_amount e) (fe_xlp_amount e) (fe_protocol_amount e)
         (new_yield_apply (bfc_yield b) ctx)))"

text \<open>The current borrow fee rates of LP and xLP, zero when there is no data point.\<close>

definition last_rate :: "data_series \<Rightarrow> string \<Rightarrow> Decimal256 res" where
  "last_rate m err =
     ok_or (try_into_non_negative_value
         (case ds_try_load_last m of None \<Rightarrow> signed_zero | Some (_, p) \<Rightarrow> dp_value p)) (Msg err)"

definition split_trading_fee :: "dec256_api \<Rightarrow> Collateral \<Rightarrow> Decimal256 \<Rightarrow> Decimal256 \<Rightarrow> (Collateral \<times> Collateral) res" where
  "split_trading_fee D fee lp xlp =
     (if lp = 0 then Inr (0, fee)
      else if xlp = 0 then Inr (fee, 0)
      else
        and_then (d_mul D fee lp) (\<lambda>m.
        and_then (d_add D lp xlp) (\<lambda>t.
        and_then (d_div D m t) (\<lambda>lp_fee.
        and_then (d_sub D fee lp_fee) (\<lambda>xlp_fee. Inr (lp_fee, xlp_fee))))))"

definition collect_trading_fee_inner ::
    "dec256_api \<Rightarrow> Env \<Rightarrow> Collateral \<Rightarrow> PricePoint \<Rightarrow> TradeId \<Rightarrow> FeeSource \<Rightarrow> Ctx \<Rightarrow> Ctx res" where
  "collect_trading_fee_inner D env amount price trade_id fee_source ctx =
     and_then (checked_mul_dec D amount (cfg_protocol_tax (env_config env))) (\<lambda>protocol_fee.
     and_then (d_sub D amount protocol_fee) (\<lambda>lp_and_xlp_fee.
     and_then (last_rate (lp_borrow_fee_series ctx) ''LP_BORROW_FEE_DATA_SERIES gave a negative value'') (\<lambda>lp.
     and_then (last_rate (xlp_borrow_fee_series ctx) ''XLP_BORROW_FEE_DATA_SERIES gave a negative value'') (\<lambda>xlp.
     and_then (ensure (lp \<noteq> 0 \<or> xlp \<noteq> 0)
       (Msg ''Cannot receive a trading fee if there is no liquidity in the system'')) (\<lambda>_.
     and_then (split_trading_fee D lp_and_xlp_fee lp xlp) (\<lambda>(lp_fee, xlp_fee).
     and_then (add_earned_fees D lp_fee xlp_fee protocol_fee ctx) (\<lambda>ctx.
     and_then (liquidity_process_new_yield D \<lparr>la_lp = lp_fee, la_xlp = xlp_fee\<rparr> ctx) (\<lambda>y.
     and_then (fee_event D price trade_id fee_source lp_fee xlp_fee protocol_fee) (\<lambda>e.
     Inr (add_event env (FeeEvent e) (new_yield_apply y ctx)))))))))))"

section \<open>Referrals\<close>

definition referral_stats_of :: "Ctx \<Rightarrow> Addr \<Rightarrow> ReferralStats" where
  "referral_stats_of ctx a =
     (case fmlookup (referral_stats_map ctx) a of
        Some s \<Rightarrow> s
      | None \<Rightarrow> \<lparr>rs_generated = \<lparr>cu_collateral = 0, cu_usd = 0\<rparr>, rs_received = \<lparr>cu_collateral = 0, cu_usd = 0\<rparr>\<rparr>)"

definition add_summary_referral :: "dec256_api \<Rightarrow> Env \<Rightarrow> Addr \<Rightarrow> Addr \<Rightarrow> NonZero \<Rightarrow> Ctx \<Rightarrow> Ctx res" where
  "add_summary_referral D env referee referrer referral_earned ctx =
     and_then (current_spot_price env ctx) (\<lambda>price.
     let referee_stats = referral_stats_of ctx referee in
     and_then (cu_checked_add_assign D (rs_generated referee_stats) referral_earned price) (\<lambda>g.
     let ctx = ctx\<lparr>referral_stats_map := fmupd referee (referee_stats\<lparr>rs_generated := g\<rparr>) (referral_stats_map ctx)\<rparr>;
         referrer_stats = referral_stats_of ctx referrer in
     and_then (cu_checked_add_assign D (rs_received referrer_stats) referral_earned price) (\<lambda>r.
     let ctx = ctx\<lparr>referral_stats_map := fmupd referrer (referrer_stats\<lparr>rs_received := r\<rparr>) (referral_stats_map ctx)\<rparr> in
     and_then (collateral_to_usd D price referral_earned) (\<lambda>usd.
     Inr (add_event env (ReferralRewardEvent referrer referee referral_earned usd) ctx)))))"

text \<open>The answer of the factory to \<open>get_referrer_for\<close> is part of the environment.\<close>

definition collect_trading_fee ::
    "dec256_api \<Rightarrow> Env \<Rightarrow> PositionId \<Rightarrow> Collateral \<Rightarrow> PricePoint \<Rightarrow> FeeSource \<Rightarrow> Addr \<Rightarrow> Ctx \<Rightarrow> Ctx res" where
  "collect_trading_fee D env pid amount price fee_source owner ctx =
     and_then (env_referrer_for env owner) (\<lambda>referrer.
     and_then (case referrer of
         None \<Rightarrow> Inr (amount, ctx)
       | Some referrer \<Rightarrow>
           and_then (checked_mul_dec D amount (cfg_referral_reward_ratio (env_config env))) (\<lambda>reward.
           and_then (d_add D (fees_referral (all_fees ctx)) reward) (\<lambda>total.
           let ctx = ctx\<lparr>all_fees := (all_fees ctx)\<lparr>fees_referral := total\<rparr>\<rparr> in
           and_then (load_liquidity_stats_addr_default ctx referrer) (\<lambda>s.
           and_then (d_add D (referrer_rewards s) reward) (\<lambda>r.
           let ctx = save_liquidity_stats_addr referrer (s\<lparr>referrer_rewards := r\<rparr>) ctx in
           and_then (if reward = 0 then Inr ctx else add_summary_referral D env owner referrer reward ctx) (\<lambda>ctx.
           and_then (d_sub D amount reward) (\<lambda>rest. Inr (rest, ctx)))))))) (\<lambda>(amount, ctx).
     collect_trading_fee_inner D env amount price (TradePosition pid) fee_source ctx))"

definition collect_delta_neutrality_fee_for_protocol ::
    "dec256_api \<Rightarrow> Env \<Rightarrow> PositionId \<Rightarrow> Collateral \<Rightarrow> PricePoint \<Rightarrow> Ctx \<Rightarrow> Ctx res" where
  "collect_delta_neutrality_fee_for_protocol D env pid amount price ctx =
     collect_trading_fee_inner D env amount price (TradePosition pid) FeeDeltaNeutrality ctx"

section \<open>Protocol fees and the crank fund\<close>

definition transfer_fees_to_dao :: "dec256_api \<Rightarrow> Env \<Rightarrow> Ctx \<Rightarrow> Ctx res" where
  "transfer_fees_to_dao D env ctx =
     and_then (ok_or (nonzero_new (fees_protocol (all_fees ctx))) (Msg ''No DAO fees available to transfer'')) (\<lambda>amount.
     let ctx = ctx\<lparr>all_fees := (all_fees ctx)\<lparr>fees_protocol := 0\<rparr>\<rparr> in
     and_then (env_dao_addr env) (\<lambda>dao_addr.
     add_token_transfer_msg D dao_addr amount ctx))"

definition provide_crank_funds :: "dec256_api \<Rightarrow> NonZero \<Rightarrow> Ctx \<Rightarrow> Ctx res" where
  "provide_crank_funds D added ctx =
     and_then (d_add D (fees_crank (all_fees ctx)) added) (\<lambda>c.
     Inr (ctx\<lparr>all_fees := (all_fees ctx)\<lparr>fees_crank := c\<rparr>\<rparr>))"

definition allocate_crank_fees :: "dec256_api \<Rightarrow> Env \<Rightarrow> Addr \<Rightarrow> nat \<Rightarrow> Ctx \<Rightarrow> Ctx res" where
  "allocate_crank_fees D env addr cranks ctx =
     (if cranks = 0 then Inr ctx
      else
        and_then (d_from_atomics D cranks 0) (\<lambda>n.
        and_then (d_mul D (cfg_crank_fee_reward (env_config env)) n) (\<lambda>max_payments.
        let fees = all_fees ctx;
            payment = min max_payments (fees_crank fees) in
        case nonzero_new payment of
          None \<Rightarrow> Inr ctx
        | Some payment \<Rightarrow>
            and_then (d_sub D (fees_crank fees) payment) (\<lambda>c.
            and_then (d_add D (fees_wallets fees) payment) (\<lambda>w.
            let ctx = ctx\<lparr>all_fees := fees\<lparr>fees_crank := c, fees_wallets := w\<rparr>\<rparr> in
            and_then (add_lp_crank_rewards D addr payment ctx) (\<lambda>ctx.
            and_then (current_spot_price env ctx) (\<lambda>price_point.
            and_then (collateral_to_usd_non_zero D price_point payment) (\<lambda>usd.
            Inr (add_event env (CrankFeeEarnedEvent addr payment usd) ctx)))))))))"

definition return_funds_to_user :: "dec256_api \<Rightarrow> Env \<Rightarrow> Addr \<Rightarrow> NonZero \<Rightarrow> PricePoint \<Rightarrow> Ctx \<Rightarrow> Ctx res" where
  "return_funds_to_user D env addr amount price_point ctx =
     and_then (d_add D (fees_wallets (all_fees ctx)) amount) (\<lambda>w.
     let ctx = ctx\<lparr>all_fees := (all_fees ctx)\<lparr>fees_wallets := w\<rparr>\<rparr> in
     and_then (add_lp_crank_rewards D addr amount ctx) (\<lambda>ctx.
     and_then (collateral_to_usd_non_zero D price_point amount) (\<lambda>usd.
     Inr (add_event env (FeesReturnedEvent addr amount usd) ctx))))"

record CapCrankFee =
  ccf_amount :: Collateral
  ccf_amount_usd :: Usd
  ccf_insufficient_margin_event :: "InsufficientMarginData option"
  ccf_trade_id :: TradeId

definition cap_crank_fee_new :: "Collateral \<Rightarrow> Usd \<Rightarrow> TradeId \<Rightarrow> CapCrankFee" where
  "cap_crank_fee_new amount amount_usd trade_id =
     \<lparr>ccf_amount = amount, ccf_amount_usd = amount_usd, ccf_insufficient_margin_event = None,
      ccf_trade_id = trade_id\<rparr>"

definition cap_crank_fee_apply :: "dec256_api \<Rightarrow> Env \<Rightarrow> CapCrankFee \<Rightarrow> Ctx \<Rightarrow> Ctx res" where
  "cap_crank_fee_apply D env c ctx =
     (let ctx = (case ccf_insufficient_margin_event c of
         Some e \<Rightarrow> add_event env (InsufficientMarginEvent e) ctx | None \<Rightarrow> ctx);
         old_balance = fees_crank (all_fees ctx) in
     and_then (d_add D old_balance (ccf_amount c)) (\<lambda>new_balance.
     Inr (add_event env (CrankFeeEvent (ccf_trade_id c) (ccf_amount c) (ccf_amount_usd c) old_balance new_balance)
       (ctx\<lparr>all_fees := (all_fees ctx)\<lparr>fees_crank := new_balance\<rparr>\<rparr>))))"

section \<open>Lemmas\<close>

text \<open>The LP part of a trading fee and the yield per token of an amount, as closed formulas.\<close>

definition lp_fee_part :: "nat \<Rightarrow> nat \<Rightarrow> nat \<Rightarrow> nat" where
  "lp_fee_part fee lp xlp =
     (if lp = 0 then 0 else if xlp = 0 then fee else fee * lp div dec_one * dec_one div (lp + xlp))"

definition per_token :: "nat \<Rightarrow> nat \<Rightarrow> nat" where
  "per_token amount tokens = (if tokens = 0 then 0 else amount * dec_one div tokens)"

lemma same_pool_fees:
  "pool_inv ctx \<Longrightarrow> set_aside f = set_aside (all_fees ctx) \<Longrightarrow> pool_inv (ctx\<lparr>all_fees := f\<rparr>)"
proof -
  assume inv: "pool_inv ctx" and f: "set_aside f = set_aside (all_fees ctx)"
  have y: "yield_per_time_per_token (ctx\<lparr>all_fees := f\<rparr>) = yield_per_time_per_token ctx" by simp
  show ?thesis
    using inv f unfolding pool_inv_def latest_cong [OF y] claimable_cong [OF y] wf_addr_cong [OF y]
    by (simp add: wf_totals_def cong: option.case_cong)
qed

lemma liabilities_event_option:
  "liabilities (case e of None \<Rightarrow> ctx | Some e \<Rightarrow> add_event env (InsufficientMarginEvent e) ctx) = liabilities ctx"
  by (cases e) simp_all

context decimal256
begin

lemma from_atomics_whole [simp]: "(d_from_atomics D n 0 = Inr c) = (n * dec_one < dec_lim \<and> c = n * dec_one)"
  by (simp add: from_atomics_Inr dec_one_def)

lemma fee_delta_Inr:
  "fee_delta D old new rate = Inr f \<Longrightarrow> f = (new - old) * rate div dec_one"
  by (cases "old \<le> new") (auto simp: fee_delta_def checked_mul_dec_def d_sub_def sub_law)

lemma trade_fee_formula:
  "calculate_trade_fee D cfg old new oc nc = Inr f \<Longrightarrow>
     f = (sg_value new - sg_value old) * cfg_trading_fee_notional_size cfg div dec_one
       + (nc - oc) * cfg_trading_fee_counter_collateral cfg div dec_one"
  by (auto simp: calculate_trade_fee_def abs_unsigned_def dest!: fee_delta_Inr)

lemma split_trading_fee_exact:
  "split_trading_fee D fee lp xlp = Inr (l, x) \<Longrightarrow> l + x = fee \<and> l = lp_fee_part fee lp xlp"
  by (auto simp: split_trading_fee_def lp_fee_part_def split: if_splits)

text \<open>The LP part is the proportional share up to the two roundings.\<close>

lemma lp_fee_part_bounds:
  assumes "lp \<noteq> 0 \<or> xlp \<noteq> 0"
  shows "lp_fee_part fee lp xlp * (lp + xlp) \<le> fee * lp"
    and "fee * lp < (lp_fee_part fee lp xlp + 1) * (lp + xlp) + dec_one"
proof -
  define m where "m = fee * lp div dec_one"
  have t: "0 < lp + xlp" using assms by auto
  have one: "0 < dec_one" by (simp add: dec_one_def)
  have "fee * lp < m * dec_one + dec_one"
    using dividend_less_div_times [OF one, of "fee * lp"] by (simp add: m_def)
  moreover have "m * dec_one < (m * dec_one div (lp + xlp) + 1) * (lp + xlp)"
    using dividend_less_div_times [OF t, of "m * dec_one"] by simp
  ultimately show "fee * lp < (lp_fee_part fee lp xlp + 1) * (lp + xlp) + dec_one"
    using t by (auto simp: lp_fee_part_def m_def)
  show "lp_fee_part fee lp xlp * (lp + xlp) \<le> fee * lp"
    using two_floors [of fee lp dec_one "lp + xlp"] by (simp add: lp_fee_part_def)
qed

text \<open>What new yield does to the yield per token of each kind.\<close>

lemma process_new_yield_Inr:
  assumes "liquidity_process_new_yield D \<lparr>la_lp = l, la_xlp = x\<rparr> ctx = Inr y"
  obtains k v where "latest_yield_per_token ctx = Inr (k, v)"
    "y = (k + 1, \<lparr>ypt_lp = ypt_lp v + per_token l (total_lp (liquidity_stats ctx)),
       ypt_xlp = ypt_xlp v + per_token x (total_xlp (liquidity_stats ctx))\<rparr>)"
  using assms by (auto simp: liquidity_process_new_yield_def res_simps div_by_tokens_def div_non_zero_dec_def
      nonzero_new_def per_token_def split: if_splits)

lemma add_earned_fees_Inr:
  "add_earned_fees D l x p ctx = Inr c \<Longrightarrow> c = ctx\<lparr>all_fees := (all_fees ctx)\<lparr>
     fees_wallets := fees_wallets (all_fees ctx) + (l + x), fees_protocol := fees_protocol (all_fees ctx) + p\<rparr>\<rparr>"
  by (auto simp: add_earned_fees_def)

lemma process_yield_cong:
  assumes "liquidity_stats c' = liquidity_stats c" "yield_per_time_per_token c' = yield_per_time_per_token c"
  shows "liquidity_process_new_yield D ny c' = liquidity_process_new_yield D ny c"
  unfolding liquidity_process_new_yield_def assms latest_cong [OF assms(2)] ..

text \<open>Fees split between the providers and the protocol.\<close>

lemma earned_result:
  assumes inv: "pool_inv ctx"
    and y: "liquidity_process_new_yield D \<lparr>la_lp = l, la_xlp = x\<rparr> ctx = Inr y"
    and c: "c = ctx\<lparr>all_fees := (all_fees ctx)\<lparr>fees_wallets := fees_wallets (all_fees ctx) + (l + x),
        fees_protocol := fees_protocol (all_fees ctx) + p\<rparr>,
        yield_per_time_per_token := fmupd (fst y) (snd y) (yield_per_time_per_token ctx)\<rparr>"
  shows "pool_inv c \<and> liabilities c = liabilities ctx + (l + x + p)"
proof -
  obtain j v where jv: "y = (j, v)" by (cases y)
  have "pool_inv c"
    by (rule new_yield_preserves [OF inv y [unfolded jv]]) (simp_all add: c jv)
  then show ?thesis by (simp add: c liabilities_def transfers_total_def)
qed

lemma trading_fee_inner_result:
  assumes inv: "pool_inv ctx"
    and c: "collect_trading_fee_inner D env amount price tid src ctx = Inr ctx'"
  obtains l x p lp xlp ev k v where "pool_inv ctx'" "liabilities ctx' = liabilities ctx + amount"
    "p = amount * cfg_protocol_tax (env_config env) div dec_one" "l + x + p = amount"
    "last_rate (lp_borrow_fee_series ctx) ''LP_BORROW_FEE_DATA_SERIES gave a negative value'' = Inr lp"
    "last_rate (xlp_borrow_fee_series ctx) ''XLP_BORROW_FEE_DATA_SERIES gave a negative value'' = Inr xlp"
    "lp \<noteq> 0 \<or> xlp \<noteq> 0" "l = lp_fee_part (amount - p) lp xlp"
    "latest_yield_per_token ctx = Inr (k, v)"
    "yield_per_time_per_token ctx' = fmupd (k + 1)
       \<lparr>ypt_lp = ypt_lp v + per_token l (total_lp (liquidity_stats ctx)),
        ypt_xlp = ypt_xlp v + per_token x (total_xlp (liquidity_stats ctx))\<rparr> (yield_per_time_per_token ctx)"
    "all_fees ctx' = (all_fees ctx)\<lparr>fees_wallets := fees_wallets (all_fees ctx) + (l + x),
      fees_protocol := fees_protocol (all_fees ctx) + p\<rparr>"
    "liquidity_stats ctx' = liquidity_stats ctx" "stats_by_addr ctx' = stats_by_addr ctx"
    "fe_lp_amount ev = l" "fe_xlp_amount ev = x" "fe_protocol_amount ev = p"
    "ctx' = add_event env (FeeEvent ev) (ctx'\<lparr>events := events ctx\<rparr>)"
proof -
  obtain p lp xlp l x c1 y ev where p: "p = amount * cfg_protocol_tax (env_config env) div dec_one" "p \<le> amount"
    and lp: "last_rate (lp_borrow_fee_series ctx) ''LP_BORROW_FEE_DATA_SERIES gave a negative value'' = Inr lp"
      "last_rate (xlp_borrow_fee_series ctx) ''XLP_BORROW_FEE_DATA_SERIES gave a negative value'' = Inr xlp"
    and nz: "lp \<noteq> 0 \<or> xlp \<noteq> 0"
    and sp: "split_trading_fee D (amount - p) lp xlp = Inr (l, x)"
    and c1: "add_earned_fees D l x p ctx = Inr c1"
    and y: "liquidity_process_new_yield D \<lparr>la_lp = l, la_xlp = x\<rparr> c1 = Inr y"
    and ev: "fee_event D price tid src l x p = Inr ev"
    and ctx': "ctx' = add_event env (FeeEvent ev) (new_yield_apply y c1)"
    using c by (auto simp: collect_trading_fee_inner_def checked_mul_dec_def)
  note c1' = add_earned_fees_Inr [OF c1]
  have y0: "liquidity_process_new_yield D \<lparr>la_lp = l, la_xlp = x\<rparr> ctx = Inr y"
    using y process_yield_cong [of c1 ctx] by (simp add: c1')
  note e = split_trading_fee_exact [OF sp]
  obtain k v where kv: "latest_yield_per_token ctx = Inr (k, v)"
    "y = (k + 1, \<lparr>ypt_lp = ypt_lp v + per_token l (total_lp (liquidity_stats ctx)),
       ypt_xlp = ypt_xlp v + per_token x (total_xlp (liquidity_stats ctx))\<rparr>)"
    by (rule process_new_yield_Inr [OF y0])
  have r: "pool_inv (new_yield_apply y c1) \<and> liabilities (new_yield_apply y c1) = liabilities ctx + (l + x + p)"
    by (rule earned_result [OF inv y0]) (simp add: new_yield_apply_def c1')
  have "pool_inv ctx'" using r pool_inv_same [of "new_yield_apply y c1" ctx'] by (simp add: ctx')
  moreover have "fe_lp_amount ev = l" "fe_xlp_amount ev = x" "fe_protocol_amount ev = p"
    using ev by (auto simp: fee_event_def)
  moreover have "ctx' = add_event env (FeeEvent ev) (ctx'\<lparr>events := events ctx\<rparr>)"
    by (simp add: ctx' add_event_def new_yield_apply_def c1')
  ultimately show thesis
    by (intro that [OF _ _ p(1) _ lp nz _ kv(1)]) (use r e p in \<open>auto simp: ctx' new_yield_apply_def c1' kv(2)\<close>)
qed

lemma summary_referral_same:
  "add_summary_referral D env a b n c = Inr c' \<Longrightarrow> same_pool c c' \<and> liabilities c' = liabilities c"
  by (auto simp: add_summary_referral_def Let_def same_pool_def liabilities_def transfers_total_def)

text \<open>The reward of a referrer: the account is credited with what the referral balance gains.\<close>

lemma referral_reward_result:
  assumes inv: "pool_inv ctx" and f: "f = (all_fees ctx)\<lparr>fees_referral := fees_referral (all_fees ctx) + reward\<rparr>"
    and ld: "load_liquidity_stats_addr_default (ctx\<lparr>all_fees := f\<rparr>) a = Inr s"
    and c: "c = save_liquidity_stats_addr a (s\<lparr>referrer_rewards := referrer_rewards s + reward\<rparr>) (ctx\<lparr>all_fees := f\<rparr>)"
  shows "pool_inv c \<and> liabilities c = liabilities ctx + reward"
proof -
  have ld': "load_liquidity_stats_addr_default ctx a = Inr s"
    using ld load_default_cong [of "ctx\<lparr>all_fees := f\<rparr>" ctx a] by simp
  have "pool_inv c"
    by (rule credit_preserves [OF inv ld', of "s\<lparr>referrer_rewards := referrer_rewards s + reward\<rparr>" reward])
      (simp_all add: c f accrued_total_def save_liquidity_stats_addr_def)
  then show ?thesis by (simp add: c f liabilities_def transfers_total_def save_liquidity_stats_addr_def)
qed

lemma trading_fee_result:
  assumes inv: "pool_inv ctx" and t: "collect_trading_fee D env pid amount price src owner ctx = Inr ctx'"
  shows "pool_inv ctx' \<and> liabilities ctx' = liabilities ctx + amount"
proof -
  obtain ref where ref: "env_referrer_for env owner = Inr ref" using t by (auto simp: collect_trading_fee_def)
  show ?thesis
  proof (cases ref)
    case None
    with t ref have "collect_trading_fee_inner D env amount price (TradePosition pid) src ctx = Inr ctx'"
      by (simp add: collect_trading_fee_def)
    from trading_fee_inner_result [OF inv this] show ?thesis by blast
  next
    case (Some a)
    then obtain r s f c1 c2 where r: "r \<le> amount"
      and f: "f = (all_fees ctx)\<lparr>fees_referral := fees_referral (all_fees ctx) + r\<rparr>"
      and ld: "load_liquidity_stats_addr_default (ctx\<lparr>all_fees := f\<rparr>) a = Inr s"
      and c1: "c1 = save_liquidity_stats_addr a (s\<lparr>referrer_rewards := referrer_rewards s + r\<rparr>) (ctx\<lparr>all_fees := f\<rparr>)"
      and c2: "(if r = 0 then Inr c1 else add_summary_referral D env owner a r c1) = Inr c2"
      and c': "collect_trading_fee_inner D env (amount - r) price (TradePosition pid) src c2 = Inr ctx'"
      using t ref by (auto simp: collect_trading_fee_def Let_def)
    note 1 = referral_reward_result [OF inv f ld c1]
    have "pool_inv c2 \<and> liabilities c2 = liabilities c1"
    proof (cases "r = 0")
      case True
      then show ?thesis using c2 1 by simp
    next
      case False
      then have "same_pool c1 c2" "liabilities c2 = liabilities c1" using c2 summary_referral_same by auto
      then show ?thesis using 1 pool_inv_same by blast
    qed
    then have 2: "pool_inv c2" "liabilities c2 = liabilities ctx + r" using 1 by simp_all
    have "pool_inv ctx' \<and> liabilities ctx' = liabilities c2 + (amount - r)"
      by (rule trading_fee_inner_result [OF 2(1) c']) simp
    then show ?thesis using 2 r by simp
  qed
qed

lemma borrow_fee_result:
  assumes inv: "pool_inv ctx" and b: "collect_borrow_fee D env ctx pid amount price = Inr b"
    and ap: "borrow_fee_apply D env b ctx = Inr ctx'"
  shows "pool_inv ctx' \<and> liabilities ctx' = liabilities ctx + (la_lp amount + la_xlp amount)
    \<and> fe_lp_amount (bfc_event b) + fe_xlp_amount (bfc_event b) + fe_protocol_amount (bfc_event b)
       = la_lp amount + la_xlp amount"
proof -
  define t where "t = cfg_protocol_tax (env_config env)"
  define pl where "pl = la_lp amount * t div dec_one"
  define px where "px = la_xlp amount * t div dec_one"
  obtain y e where le: "pl \<le> la_lp amount" "px \<le> la_xlp amount"
    and y: "liquidity_process_new_yield D \<lparr>la_lp = la_lp amount - pl, la_xlp = la_xlp amount - px\<rparr> ctx = Inr y"
    and e: "fee_event D price (TradePosition pid) FeeBorrow (la_lp amount - pl) (la_xlp amount - px) (pl + px) = Inr e"
    and b': "b = \<lparr>bfc_event = e, bfc_yield = y\<rparr>"
    using b by (auto simp: collect_borrow_fee_def Let_def checked_mul_dec_def t_def pl_def px_def)
  have ev: "fe_lp_amount e = la_lp amount - pl" "fe_xlp_amount e = la_xlp amount - px" "fe_protocol_amount e = pl + px"
    using e by (auto simp: fee_event_def)
  obtain c where c: "add_earned_fees D (la_lp amount - pl) (la_xlp amount - px) (pl + px) (new_yield_apply y ctx) = Inr c"
    and ctx': "ctx' = add_event env (FeeEvent e) c"
    using ap by (auto simp: borrow_fee_apply_def Let_def b' ev)
  have "pool_inv c \<and> liabilities c = liabilities ctx
      + ((la_lp amount - pl) + (la_xlp amount - px) + (pl + px))"
    by (rule earned_result [OF inv y]) (simp add: add_earned_fees_Inr [OF c] new_yield_apply_def)
  then show ?thesis using le pool_inv_same [of c ctx'] by (simp add: ctx' b' ev)
qed

text \<open>Crank rewards move collateral from the crank fund to the wallets.\<close>

lemma crank_rewards_result:
  assumes inv: "pool_inv ctx" and w: "set_aside f = set_aside (all_fees ctx) + n"
    and a: "add_lp_crank_rewards D a n (ctx\<lparr>all_fees := f\<rparr>) = Inr c"
  shows "pool_inv c \<and> (\<exists>m. c = ctx\<lparr>all_fees := f, stats_by_addr := m\<rparr>)"
proof -
  obtain s where ld: "load_liquidity_stats_addr_default (ctx\<lparr>all_fees := f\<rparr>) a = Inr s"
    and c: "c = save_liquidity_stats_addr a (s\<lparr>crank_rewards := crank_rewards s + n\<rparr>) (ctx\<lparr>all_fees := f\<rparr>)"
    using a by (auto simp: add_lp_crank_rewards_def)
  have ld': "load_liquidity_stats_addr_default ctx a = Inr s"
    using ld load_default_cong [of "ctx\<lparr>all_fees := f\<rparr>" ctx a] by simp
  have "pool_inv c"
    by (rule credit_preserves [OF inv ld', of "s\<lparr>crank_rewards := crank_rewards s + n\<rparr>" n])
      (use w in \<open>simp_all add: c accrued_total_def save_liquidity_stats_addr_def\<close>)
  moreover have "\<exists>m. c = ctx\<lparr>all_fees := f, stats_by_addr := m\<rparr>"
    by (auto simp: c save_liquidity_stats_addr_def)
  ultimately show ?thesis by simp
qed

lemma allocate_crank_result:
  assumes inv: "pool_inv ctx" and a: "allocate_crank_fees D env addr k ctx = Inr ctx'"
  shows "pool_inv ctx' \<and> liabilities ctx' = liabilities ctx
    \<and> (\<exists>n \<le> fees_crank (all_fees ctx). n \<le> cfg_crank_fee_reward (env_config env) * k
         \<and> all_fees ctx' = (all_fees ctx)\<lparr>fees_crank := fees_crank (all_fees ctx) - n,
             fees_wallets := fees_wallets (all_fees ctx) + n\<rparr>)"
proof -
  have noop: "\<exists>n \<le> fees_crank (all_fees ctx). n \<le> cfg_crank_fee_reward (env_config env) * k
      \<and> all_fees ctx = (all_fees ctx)\<lparr>fees_crank := fees_crank (all_fees ctx) - n,
          fees_wallets := fees_wallets (all_fees ctx) + n\<rparr>"
    by (rule exI [of _ 0]) simp
  define n where "n = min (cfg_crank_fee_reward (env_config env) * k) (fees_crank (all_fees ctx))"
  consider "ctx' = ctx" | c e where "add_lp_crank_rewards D addr n (ctx\<lparr>all_fees := (all_fees ctx)\<lparr>
        fees_crank := fees_crank (all_fees ctx) - n, fees_wallets := fees_wallets (all_fees ctx) + n\<rparr>\<rparr>) = Inr c"
      "ctx' = add_event env e c"
    using a by (auto simp: allocate_crank_fees_def Let_def n_def nonzero_new_def
        split: if_splits)
  then show ?thesis
  proof cases
    case 1
    then show ?thesis using inv noop by simp
  next
    case 2
    from crank_rewards_result [OF inv _ 2(1)] have c: "pool_inv c" and m: "\<exists>m. c = ctx\<lparr>all_fees := (all_fees ctx)\<lparr>
        fees_crank := fees_crank (all_fees ctx) - n, fees_wallets := fees_wallets (all_fees ctx) + n\<rparr>, stats_by_addr := m\<rparr>"
      by auto
    have n: "n \<le> fees_crank (all_fees ctx)" "n \<le> cfg_crank_fee_reward (env_config env) * k"
      by (simp_all add: n_def)
    have "liabilities c = liabilities ctx" using m n(1) by (auto simp: liabilities_def transfers_total_def)
    moreover have "all_fees c = (all_fees ctx)\<lparr>fees_crank := fees_crank (all_fees ctx) - n,
        fees_wallets := fees_wallets (all_fees ctx) + n\<rparr>" using m by auto
    ultimately show ?thesis using c n pool_inv_same [of c ctx'] by (auto simp: 2(2))
  qed
qed

lemma return_funds_result:
  assumes inv: "pool_inv ctx" and a: "return_funds_to_user D env addr n price ctx = Inr ctx'"
  shows "pool_inv ctx' \<and> liabilities ctx' = liabilities ctx + n"
proof -
  obtain c e where c: "add_lp_crank_rewards D addr n (ctx\<lparr>all_fees := (all_fees ctx)\<lparr>
      fees_wallets := fees_wallets (all_fees ctx) + n\<rparr>\<rparr>) = Inr c" and ctx': "ctx' = add_event env e c"
    using a by (auto simp: return_funds_to_user_def Let_def)
  from crank_rewards_result [OF inv _ c] show ?thesis
    using pool_inv_same [of c ctx'] by (auto simp: ctx' liabilities_def transfers_total_def)
qed

lemma dao_transfer_result:
  assumes inv: "pool_inv ctx" and a: "transfer_fees_to_dao D env ctx = Inr ctx'"
  shows "pool_inv ctx' \<and> liabilities ctx' = liabilities ctx \<and> 0 < fees_protocol (all_fees ctx)
    \<and> all_fees ctx' = (all_fees ctx)\<lparr>fees_protocol := 0\<rparr>
    \<and> transfers_total ctx' = transfers_total ctx + fees_protocol (all_fees ctx)"
proof -
  obtain dao where t: "add_token_transfer_msg D dao (fees_protocol (all_fees ctx))
      (ctx\<lparr>all_fees := (all_fees ctx)\<lparr>fees_protocol := 0\<rparr>\<rparr>) = Inr ctx'" and p: "0 < fees_protocol (all_fees ctx)"
    using a by (auto simp: transfer_fees_to_dao_def Let_def)
  show ?thesis
    using same_pool_fees [OF inv, of "(all_fees ctx)\<lparr>fees_protocol := 0\<rparr>"] transfer_liabilities_same [OF t]
      pool_inv_same [of "ctx\<lparr>all_fees := (all_fees ctx)\<lparr>fees_protocol := 0\<rparr>\<rparr>" ctx'] add_token_transfer_total [OF t] p
    by (auto simp: same_pool_def liabilities_def transfers_total_def)
qed

lemma crank_fund_result:
  assumes inv: "pool_inv ctx" and a: "provide_crank_funds D n ctx = Inr ctx' \<or> cap_crank_fee_apply D env c ctx = Inr ctx' \<and> ccf_amount c = n"
  shows "pool_inv ctx' \<and> liabilities ctx' = liabilities ctx + n"
proof -
  define c0 where "c0 = (case ccf_insufficient_margin_event c of
      None \<Rightarrow> ctx | Some e \<Rightarrow> add_event env (InsufficientMarginEvent e) ctx)"
  have c0: "same_pool ctx c0" "liabilities c0 = liabilities ctx"
    by (simp_all add: c0_def liabilities_event_option split: option.split)
  have key: "pool_inv (x\<lparr>all_fees := (all_fees x)\<lparr>fees_crank := fees_crank (all_fees x) + n\<rparr>\<rparr>)
      \<and> liabilities (x\<lparr>all_fees := (all_fees x)\<lparr>fees_crank := fees_crank (all_fees x) + n\<rparr>\<rparr>) = liabilities x + n"
    if "pool_inv x" for x
    using same_pool_fees [OF that] by (simp add: liabilities_def transfers_total_def)
  from a show ?thesis
  proof (elim disjE conjE)
    assume "provide_crank_funds D n ctx = Inr ctx'"
    then show ?thesis using key [OF inv] by (auto simp: provide_crank_funds_def)
  next
    assume ap: "cap_crank_fee_apply D env c ctx = Inr ctx'" and n: "ccf_amount c = n"
    obtain e where ctx': "ctx' = add_event env e (c0\<lparr>all_fees := (all_fees c0)\<lparr>fees_crank := fees_crank (all_fees c0) + n\<rparr>\<rparr>)"
      using ap n by (auto simp: cap_crank_fee_apply_def Let_def c0_def)
    have "pool_inv c0" using inv pool_inv_same [OF c0(1)] by simp
    from key [OF this] show ?thesis
      using pool_inv_same [of "c0\<lparr>all_fees := (all_fees c0)\<lparr>fees_crank := fees_crank (all_fees c0) + n\<rparr>\<rparr>" ctx'] c0(2)
      by (simp add: ctx')
  qed
qed

end

end
