(* ===== verification/Allowances.thy ===== *)
theory Allowances
  imports MarketData
begin

text \<open>
  Allowances, as the token contract (\<open>contracts/cw20/src/state/cw20.rs\<close>) and the liquidity tokens of the
  market (\<open>contracts/market/src/state/liquidity/cw20.rs\<close>) keep them: what a spender may take from an owner,
  stored twice, by owner and by spender. The amounts are \<open>u128\<close> values; \<open>never\<close> is the default of
  \<open>Expiration\<close>, and \<open>expired\<close> judges an expiration at the time of the block.

  The locale \<open>spendable_token\<close> is the promise of both tokens to a holder: nobody else can take
  more than the holder granted.
\<close>

section \<open>Operations\<close>

type_synonym allowance_map = "(Addr \<times> Addr, AllowanceResponse) fmap"

definition raise_allowance ::
    "Expiration \<Rightarrow> nat \<Rightarrow> Expiration option \<Rightarrow> AllowanceResponse option \<Rightarrow> AllowanceResponse res" where
  "raise_allowance never amount expires allow =
     (let val = (case allow of Some v \<Rightarrow> v | None \<Rightarrow> \<lparr>al_allowance = 0, al_expires = never\<rparr>);
          val = (case expires of Some e \<Rightarrow> val\<lparr>al_expires := e\<rparr> | None \<Rightarrow> val) in
     and_then (u128_add (al_allowance val) amount) (\<lambda>n. Inr (val\<lparr>al_allowance := n\<rparr>)))"

definition increase_allowance ::
    "Expiration \<Rightarrow> Addr \<Rightarrow> Addr \<Rightarrow> nat \<Rightarrow> Expiration option \<Rightarrow> allowance_map \<times> allowance_map
       \<Rightarrow> (allowance_map \<times> allowance_map) res" where
  "increase_allowance never owner spender amount expires = (\<lambda>(by_owner, by_spender).
     if spender = owner then Inl (Perp Auth)
     else
       and_then (raise_allowance never amount expires (fmlookup by_owner (owner, spender))) (\<lambda>v.
       and_then (raise_allowance never amount expires (fmlookup by_spender (spender, owner))) (\<lambda>w.
       Inr (fmupd (owner, spender) v by_owner, fmupd (spender, owner) w by_spender))))"

definition decrease_allowance ::
    "Addr \<Rightarrow> Addr \<Rightarrow> nat \<Rightarrow> Expiration option \<Rightarrow> allowance_map \<times> allowance_map
       \<Rightarrow> (allowance_map \<times> allowance_map) res" where
  "decrease_allowance owner spender amount expires = (\<lambda>(by_owner, by_spender).
     if spender = owner then Inl (Perp Auth)
     else
       and_then (ok_or (fmlookup by_owner (owner, spender)) (Std ''not found'')) (\<lambda>v.
       if amount < al_allowance v then
         and_then (u128_checked_sub (al_allowance v) amount) (\<lambda>n.
         let v = v\<lparr>al_allowance := n\<rparr>;
             v = (case expires of Some e \<Rightarrow> v\<lparr>al_expires := e\<rparr> | None \<Rightarrow> v) in
         Inr (fmupd (owner, spender) v by_owner, fmupd (spender, owner) v by_spender))
       else Inr (fmdrop (owner, spender) by_owner, fmdrop (spender, owner) by_spender)))"

definition spend_allowance ::
    "(Expiration \<Rightarrow> bool) \<Rightarrow> nat \<Rightarrow> AllowanceResponse option \<Rightarrow> AllowanceResponse res" where
  "spend_allowance expired amount current =
     (case current of
        Some a \<Rightarrow>
          if expired (al_expires a) then Inl (Perp Expired)
          else and_then (u128_checked_sub (al_allowance a) amount) (\<lambda>n. Inr (a\<lparr>al_allowance := n\<rparr>))
      | None \<Rightarrow> Inl (Perp Auth))"

definition deduct_allowance ::
    "(Expiration \<Rightarrow> bool) \<Rightarrow> Addr \<Rightarrow> Addr \<Rightarrow> nat \<Rightarrow> allowance_map \<times> allowance_map
       \<Rightarrow> (allowance_map \<times> allowance_map) res" where
  "deduct_allowance expired owner spender amount = (\<lambda>(by_owner, by_spender).
     and_then (spend_allowance expired amount (fmlookup by_owner (owner, spender))) (\<lambda>v.
     and_then (spend_allowance expired amount (fmlookup by_spender (spender, owner))) (\<lambda>w.
     Inr (fmupd (owner, spender) v by_owner, fmupd (spender, owner) w by_spender))))"

text \<open>The queries: one allowance, zero when there is none, and a page of the allowances of an owner or of a
  spender, after a given address.\<close>

definition allowance_query :: "Expiration \<Rightarrow> allowance_map \<Rightarrow> Addr \<Rightarrow> Addr \<Rightarrow> AllowanceResponse" where
  "allowance_query never m owner spender =
     (case fmlookup m (owner, spender) of Some v \<Rightarrow> v | None \<Rightarrow> \<lparr>al_allowance = 0, al_expires = never\<rparr>)"

definition allowances_page ::
    "allowance_map \<Rightarrow> Addr \<Rightarrow> Addr option \<Rightarrow> nat \<Rightarrow> (Addr \<times> AllowanceResponse) list" where
  "allowances_page m addr start_after limit =
     take limit (List.map_filter (\<lambda>k. map_option (Pair (snd k)) (fmlookup m k))
       (filter (\<lambda>(a, b). a = addr \<and> (case start_after of None \<Rightarrow> True | Some s \<Rightarrow> s < b)) (fmkeys m)))"

section \<open>What an owner has granted\<close>

definition granted :: "allowance_map \<Rightarrow> Addr \<Rightarrow> nat" where
  "granted m a = fmsum al_allowance (fmfilter (\<lambda>k. fst k = a) m)"

definition mirrored :: "allowance_map \<times> allowance_map \<Rightarrow> bool" where
  "mirrored = (\<lambda>(m, m'). \<forall>a b. fmlookup m' (b, a) = fmlookup m (a, b))"

lemma granted_other [simp]:
  "fst k \<noteq> a \<Longrightarrow> granted (fmupd k v m) a = granted m a"
  "fst k \<noteq> a \<Longrightarrow> granted (fmdrop k m) a = granted m a"
proof -
  assume k: "fst k \<noteq> a"
  have "fmfilter (\<lambda>k. fst k = a) (fmupd k v m) = fmfilter (\<lambda>k. fst k = a) m"
    by (rule fmap_ext) (use k in auto)
  then show "granted (fmupd k v m) a = granted m a" by (simp only: granted_def)
  have "fmfilter (\<lambda>k. fst k = a) (fmdrop k m) = fmfilter (\<lambda>k. fst k = a) m"
    by (rule fmap_ext) (use k in auto)
  then show "granted (fmdrop k m) a = granted m a" by (simp only: granted_def)
qed

lemma granted_own:
  "granted (fmupd (a, b) v m) a + fmval al_allowance m (a, b) = granted m a + al_allowance v"
  "granted (fmdrop (a, b) m) a + fmval al_allowance m (a, b) = granted m a"
proof -
  have f: "fmval al_allowance (fmfilter (\<lambda>k. fst k = a) m) (a, b) = fmval al_allowance m (a, b)"
    by (simp add: fmval_def)
  have u: "fmfilter (\<lambda>k. fst k = a) (fmupd (a, b) v m) = fmupd (a, b) v (fmfilter (\<lambda>k. fst k = a) m)"
    by (rule fmap_ext) auto
  show "granted (fmupd (a, b) v m) a + fmval al_allowance m (a, b) = granted m a + al_allowance v"
    unfolding granted_def u using fmsum_upd [of al_allowance "(a, b)" v "fmfilter (\<lambda>k. fst k = a) m"] f by simp
  have d: "fmfilter (\<lambda>k. fst k = a) (fmdrop (a, b) m) = fmdrop (a, b) (fmfilter (\<lambda>k. fst k = a) m)"
    by (rule fmap_ext) auto
  show "granted (fmdrop (a, b) m) a + fmval al_allowance m (a, b) = granted m a"
    unfolding granted_def d using fmsum_drop [of al_allowance "(a, b)" "fmfilter (\<lambda>k. fst k = a) m"] f by simp
qed

lemma increase_result:
  assumes "increase_allowance never owner spender n e ms = Inr ms'" and "mirrored ms"
  shows "mirrored ms'" and "a \<noteq> owner \<Longrightarrow> granted (fst ms') a = granted (fst ms) a"
    and "granted (fst ms') owner = granted (fst ms) owner + n"
proof -
  obtain m1 m2 where ms: "ms = (m1, m2)" by (cases ms)
  have eq: "fmlookup m2 (spender, owner) = fmlookup m1 (owner, spender)"
    using assms(2) by (simp add: ms mirrored_def)
  obtain v where ne: "spender \<noteq> owner"
    and v: "raise_allowance never n e (fmlookup m1 (owner, spender)) = Inr v"
    and ms': "ms' = (fmupd (owner, spender) v m1, fmupd (spender, owner) v m2)"
    using assms(1) by (auto simp: ms increase_allowance_def eq split: if_splits)
  show "mirrored ms'" using assms(2) by (auto simp: ms ms' mirrored_def)
  show "a \<noteq> owner \<Longrightarrow> granted (fst ms') a = granted (fst ms) a" by (simp add: ms ms')
  have "al_allowance v = fmval al_allowance m1 (owner, spender) + n"
    using v by (auto simp: raise_allowance_def Let_def fmval_def split: option.splits)
  then show "granted (fst ms') owner = granted (fst ms) owner + n"
    using granted_own(1) [of owner spender v m1] by (simp add: ms ms')
qed

lemma decrease_result:
  assumes "decrease_allowance owner spender n e ms = Inr ms'" and "mirrored ms"
  shows "mirrored ms'" and "a \<noteq> owner \<Longrightarrow> granted (fst ms') a = granted (fst ms) a"
    and "granted (fst ms') owner \<le> granted (fst ms) owner"
proof -
  obtain m1 m2 where ms: "ms = (m1, m2)" by (cases ms)
  obtain v where v: "fmlookup m1 (owner, spender) = Some v" and ne: "spender \<noteq> owner"
    using assms(1) by (auto simp: ms decrease_allowance_def split: if_splits)
  have cs: "(\<exists>w. al_allowance w = al_allowance v - n
          \<and> ms' = (fmupd (owner, spender) w m1, fmupd (spender, owner) w m2))
        \<or> ms' = (fmdrop (owner, spender) m1, fmdrop (spender, owner) m2)"
  proof (cases "n < al_allowance v")
    case True
    then have "ms' = (let w = (case e of Some e \<Rightarrow> v\<lparr>al_allowance := al_allowance v - n, al_expires := e\<rparr>
          | None \<Rightarrow> v\<lparr>al_allowance := al_allowance v - n\<rparr>) in
        (fmupd (owner, spender) w m1, fmupd (spender, owner) w m2))"
      using assms(1) v ne by (auto simp: ms decrease_allowance_def Let_def u128_checked_sub_def split: option.splits)
    then show ?thesis
      by (intro disjI1 exI [of _ "case e of Some e \<Rightarrow> v\<lparr>al_allowance := al_allowance v - n, al_expires := e\<rparr>
          | None \<Rightarrow> v\<lparr>al_allowance := al_allowance v - n\<rparr>"])
        (simp add: Let_def split: option.splits)
  qed (use assms(1) v ne in \<open>simp add: ms decrease_allowance_def\<close>)
  show "mirrored ms'" using assms(2) cs by (auto simp: ms mirrored_def)
  show "a \<noteq> owner \<Longrightarrow> granted (fst ms') a = granted (fst ms) a" using cs by (auto simp: ms)
  show "granted (fst ms') owner \<le> granted (fst ms) owner"
    using cs
  proof (elim disjE exE conjE)
    fix w assume "al_allowance w = al_allowance v - n"
      "ms' = (fmupd (owner, spender) w m1, fmupd (spender, owner) w m2)"
    then show ?thesis using granted_own(1) [of owner spender w m1] v by (simp add: ms fmval_lookup)
  next
    assume "ms' = (fmdrop (owner, spender) m1, fmdrop (spender, owner) m2)"
    then show ?thesis using granted_own(2) [of owner spender m1] by (simp add: ms)
  qed
qed

lemma deduct_result:
  assumes "deduct_allowance expired owner spender n ms = Inr ms'" and "mirrored ms"
  shows "mirrored ms'" and "a \<noteq> owner \<Longrightarrow> granted (fst ms') a = granted (fst ms) a"
    and "granted (fst ms') owner + n = granted (fst ms) owner"
    and "\<exists>v. fmlookup (fst ms) (owner, spender) = Some v \<and> \<not> expired (al_expires v) \<and> n \<le> al_allowance v"
proof -
  obtain m1 m2 where ms: "ms = (m1, m2)" by (cases ms)
  have eq: "fmlookup m2 (spender, owner) = fmlookup m1 (owner, spender)"
    using assms(2) by (simp add: ms mirrored_def)
  obtain v where v: "fmlookup m1 (owner, spender) = Some v" "\<not> expired (al_expires v)" "n \<le> al_allowance v"
    and ms': "ms' = (fmupd (owner, spender) (v\<lparr>al_allowance := al_allowance v - n\<rparr>) m1,
        fmupd (spender, owner) (v\<lparr>al_allowance := al_allowance v - n\<rparr>) m2)"
    using assms(1) by (auto simp: ms deduct_allowance_def spend_allowance_def eq split: if_splits option.splits)
  show "mirrored ms'" using assms(2) by (auto simp: ms ms' mirrored_def)
  show "a \<noteq> owner \<Longrightarrow> granted (fst ms') a = granted (fst ms) a" by (simp add: ms ms')
  show "granted (fst ms') owner + n = granted (fst ms) owner"
    using granted_own(1) [of owner spender "v\<lparr>al_allowance := al_allowance v - n\<rparr>" m1] v
    by (simp add: ms ms' fmval_lookup)
  show "\<exists>v. fmlookup (fst ms) (owner, spender) = Some v \<and> \<not> expired (al_expires v) \<and> n \<le> al_allowance v"
    using v by (simp add: ms)
qed

section \<open>A token that others cannot spend\<close>

text \<open>\<open>holds\<close> is the balance of an account, \<open>grants\<close> what the account has granted in total, in the
  same unit, and \<open>exec\<close> a message with its sender. The law is about one message of somebody else.\<close>

fun run_msgs :: "('e \<Rightarrow> Addr \<Rightarrow> 'm \<Rightarrow> 's \<Rightarrow> 's res) \<Rightarrow> ('e \<times> Addr \<times> 'm) list \<Rightarrow> 's \<Rightarrow> 's res" where
  "run_msgs exec [] s = Inr s"
| "run_msgs exec ((e, sender, m) # ms) s = and_then (exec e sender m s) (run_msgs exec ms)"

locale spendable_token =
  fixes holds :: "'s \<Rightarrow> Addr \<Rightarrow> nat" and grants :: "'s \<Rightarrow> Addr \<Rightarrow> nat"
    and sound :: "'s \<Rightarrow> bool" and exec :: "'e \<Rightarrow> Addr \<Rightarrow> 'm \<Rightarrow> 's \<Rightarrow> 's res"
  assumes exec_sound: "sound s \<Longrightarrow> exec e sender m s = Inr s' \<Longrightarrow> sound s'"
    and exec_spends: "sound s \<Longrightarrow> exec e sender m s = Inr s' \<Longrightarrow> sender \<noteq> a
      \<Longrightarrow> holds s a + grants s' a \<le> holds s' a + grants s a \<and> grants s' a \<le> grants s a"
begin

lemma run_spends:
  "sound s \<Longrightarrow> run_msgs exec ms s = Inr s' \<Longrightarrow> a \<notin> (\<lambda>(e, sender, m). sender) ` set ms
    \<Longrightarrow> holds s a + grants s' a \<le> holds s' a + grants s a \<and> grants s' a \<le> grants s a \<and> sound s'"
proof (induction ms arbitrary: s)
  case (Cons x ms)
  obtain e sender m where x: "x = (e, sender, m)" by (cases x)
  obtain s1 where s1: "exec e sender m s = Inr s1" "run_msgs exec ms s1 = Inr s'"
    using Cons.prems(2) by (auto simp: x)
  have "sender \<noteq> a" "a \<notin> (\<lambda>(e, sender, m). sender) ` set ms" using Cons.prems(3) by (auto simp: x)
  then show ?case
    using Cons.IH [OF exec_sound [OF Cons.prems(1) s1(1)] s1(2)] exec_spends [OF Cons.prems(1) s1(1)] by force
qed simp

text \<open>Whatever the others send, a holder keeps the balance up to what it had granted.\<close>

lemma others_take_at_most_grants:
  "sound s \<Longrightarrow> run_msgs exec ms s = Inr s' \<Longrightarrow> a \<notin> (\<lambda>(e, sender, m). sender) ` set ms
    \<Longrightarrow> holds s a \<le> holds s' a + grants s a"
  using run_spends [of s ms s' a] by linarith

end

end
