(* ===== verification/LiquidityTokens.thy ===== *)
theory LiquidityTokens
  imports PoolOperations Allowances
begin

text \<open>
  The LP and xLP tokens as CW20 tokens, \<open>contracts/market/src/state/liquidity/cw20.rs\<close>: balances are the
  statistics of the providers, allowances are stored for each kind, and a token amount has six decimal
  places. Every transfer settles the accounts of both sides first. The conversions of token amounts are
  those of \<open>packages/perpswap/src/token.rs\<close>.

  The lemmas show that a transfer keeps the invariant of the pool, although between its two sides the
  stored totals do not match the accounts, and that nobody but its owner, or a spender within an
  allowance, takes tokens from an account.
\<close>

section \<open>Token amounts\<close>

definition token_from_u128 :: "dec256_api \<Rightarrow> nat \<Rightarrow> nat \<Rightarrow> Decimal256 res" where
  "token_from_u128 D decimal_places amount = d_from_atomics D amount decimal_places"

definition token_into_u128 :: "dec256_api \<Rightarrow> nat \<Rightarrow> Decimal256 \<Rightarrow> nat option res" where
  "token_into_u128 D decimal_places amount =
     and_then (to_u128_with_precision D (new_positive amount) decimal_places) (\<lambda>v.
     and_then (ok_or v (Perp Conversion)) (\<lambda>value.
     Inr (if 0 < value then Some value else None)))"

definition DECIMAL_PLACES :: nat where
  "DECIMAL_PLACES = 6"

definition lp_token_into_uint_128 :: "dec256_api \<Rightarrow> LpToken \<Rightarrow> nat res" where
  "lp_token_into_uint_128 D amount =
     map_res (\<lambda>v. case v of Some n \<Rightarrow> n | None \<Rightarrow> 0) (token_into_u128 D DECIMAL_PLACES amount)"

definition uint_128_into_lp_token :: "dec256_api \<Rightarrow> nat \<Rightarrow> LpToken res" where
  "uint_128_into_lp_token D amount = token_from_u128 D DECIMAL_PLACES amount"

section \<open>Allowances of a kind\<close>

definition allowances_of :: "LiquidityTokenKind \<Rightarrow> Ctx \<Rightarrow> allowance_map \<times> allowance_map" where
  "allowances_of kind ctx = (case kind of
       KindLp \<Rightarrow> (lp_allowances (allowance_st ctx), lp_allowances_spender (allowance_st ctx))
     | KindXlp \<Rightarrow> (xlp_allowances (allowance_st ctx), xlp_allowances_spender (allowance_st ctx)))"

definition set_allowances :: "LiquidityTokenKind \<Rightarrow> allowance_map \<times> allowance_map \<Rightarrow> Ctx \<Rightarrow> Ctx" where
  "set_allowances kind ms ctx = ctx\<lparr>allowance_st := (case kind of
       KindLp \<Rightarrow> (allowance_st ctx)\<lparr>lp_allowances := fst ms, lp_allowances_spender := snd ms\<rparr>
     | KindXlp \<Rightarrow> (allowance_st ctx)\<lparr>xlp_allowances := fst ms, xlp_allowances_spender := snd ms\<rparr>)\<rparr>"

definition liquidity_token_increase_allowance ::
    "Env \<Rightarrow> Addr \<Rightarrow> Addr \<Rightarrow> nat \<Rightarrow> Expiration option \<Rightarrow> LiquidityTokenKind \<Rightarrow> Ctx \<Rightarrow> Ctx res" where
  "liquidity_token_increase_allowance env owner spender amount expires kind ctx =
     (let ctx = add_event env (TokenEvent (AllowanceChangeEvent True owner spender amount expires)) ctx in
     map_res (\<lambda>ms. set_allowances kind ms ctx)
       (increase_allowance (env_expires_never env) owner spender amount expires (allowances_of kind ctx)))"

definition liquidity_token_decrease_allowance ::
    "Env \<Rightarrow> Addr \<Rightarrow> Addr \<Rightarrow> nat \<Rightarrow> Expiration option \<Rightarrow> LiquidityTokenKind \<Rightarrow> Ctx \<Rightarrow> Ctx res" where
  "liquidity_token_decrease_allowance env owner spender amount expires kind ctx =
     (let ctx = add_event env (TokenEvent (AllowanceChangeEvent False owner spender amount expires)) ctx in
     map_res (\<lambda>ms. set_allowances kind ms ctx)
       (decrease_allowance owner spender amount expires (allowances_of kind ctx)))"

definition liquidity_token_deduct_allowance_inner ::
    "Env \<Rightarrow> Addr \<Rightarrow> Addr \<Rightarrow> nat \<Rightarrow> LiquidityTokenKind \<Rightarrow> Ctx \<Rightarrow> Ctx res" where
  "liquidity_token_deduct_allowance_inner env owner spender amount kind ctx =
     map_res (\<lambda>ms. set_allowances kind ms ctx)
       (deduct_allowance (env_is_expired env) owner spender amount (allowances_of kind ctx))"

section \<open>Transfers\<close>

definition liquidity_token_balance_change_inner ::
    "dec256_api \<Rightarrow> Env \<Rightarrow> Addr \<Rightarrow> Signed \<Rightarrow> LiquidityTokenKind \<Rightarrow> Ctx \<Rightarrow> Ctx res" where
  "liquidity_token_balance_change_inner D env owner delta kind ctx =
     and_then (perform_lp_book_keeping D env owner ctx) (\<lambda>ctx.
     and_then (load_liquidity_stats_addr_default ctx owner) (\<lambda>s.
     and_then (if is_negative delta \<and> kind = KindLp then ensure_liquidity_cooldown env s else Inr ()) (\<lambda>_.
     let m = (case kind of KindLp \<Rightarrow> addr_lp s | KindXlp \<Rightarrow> addr_xlp s) in
     and_then (signed_checked_add D (new_positive m) delta) (\<lambda>new_balance.
     and_then (ok_or (try_into_non_negative_value new_balance) (Perp Cw20Funds)) (\<lambda>new_balance.
     let s = (case kind of KindLp \<Rightarrow> s\<lparr>addr_lp := new_balance\<rparr> | KindXlp \<Rightarrow> s\<lparr>addr_xlp := new_balance\<rparr>) in
     Inr (save_liquidity_stats_addr owner s ctx))))))"

text \<open>The two balance changes every kind of transfer ends with.\<close>

definition move_liquidity_tokens ::
    "dec256_api \<Rightarrow> Env \<Rightarrow> Addr \<Rightarrow> Addr \<Rightarrow> nat \<Rightarrow> LiquidityTokenKind \<Rightarrow> Ctx \<Rightarrow> Ctx res" where
  "move_liquidity_tokens D env owner recipient amount kind ctx =
     and_then (uint_128_into_lp_token D amount) (\<lambda>n.
     and_then (liquidity_token_balance_change_inner D env owner (signed_neg (new_positive n)) kind ctx) (\<lambda>ctx.
     liquidity_token_balance_change_inner D env recipient (new_positive n) kind ctx))"

definition liquidity_token_transfer ::
    "dec256_api \<Rightarrow> Env \<Rightarrow> Addr \<Rightarrow> Addr \<Rightarrow> nat \<Rightarrow> LiquidityTokenKind \<Rightarrow> Ctx \<Rightarrow> Ctx res" where
  "liquidity_token_transfer D env owner recipient amount kind ctx =
     move_liquidity_tokens D env owner recipient amount kind
       (add_event env (TokenEvent (TokenTransferEvent owner recipient amount None)) ctx)"

definition liquidity_token_transfer_from ::
    "dec256_api \<Rightarrow> Env \<Rightarrow> Addr \<Rightarrow> Addr \<Rightarrow> Addr \<Rightarrow> nat \<Rightarrow> LiquidityTokenKind \<Rightarrow> Ctx \<Rightarrow> Ctx res" where
  "liquidity_token_transfer_from D env sender owner recipient amount kind ctx =
     (let ctx = add_event env (TokenEvent (TokenTransferEvent owner recipient amount (Some sender))) ctx in
     and_then (liquidity_token_deduct_allowance_inner env owner sender amount kind ctx) (\<lambda>ctx.
     move_liquidity_tokens D env owner recipient amount kind ctx))"

text \<open>\<open>add_execute_submessage_oneshot\<close> with \<open>ReceiverExecuteMsg::Receive\<close>.\<close>

definition notify_receiver :: "Addr \<Rightarrow> Cw20ReceiveMsg \<Rightarrow> Ctx \<Rightarrow> Ctx" where
  "notify_receiver contract msg ctx = ctx\<lparr>receive_submessages := receive_submessages ctx @ [(contract, msg)]\<rparr>"

definition liquidity_token_send_with_msg ::
    "dec256_api \<Rightarrow> Env \<Rightarrow> Addr \<Rightarrow> Addr \<Rightarrow> nat \<Rightarrow> string \<Rightarrow> LiquidityTokenKind \<Rightarrow> Ctx \<Rightarrow> Ctx res" where
  "liquidity_token_send_with_msg D env owner contract amount msg kind ctx =
     (let ctx = add_event env (TokenEvent (TokenSendEvent owner contract amount None)) ctx;
          ctx = notify_receiver contract \<lparr>rc_sender = owner, rc_amount = amount, rc_msg = msg\<rparr> ctx in
     move_liquidity_tokens D env owner contract amount kind ctx)"

definition liquidity_token_send_with_msg_from ::
    "dec256_api \<Rightarrow> Env \<Rightarrow> Addr \<Rightarrow> Addr \<Rightarrow> Addr \<Rightarrow> nat \<Rightarrow> string \<Rightarrow> LiquidityTokenKind \<Rightarrow> Ctx \<Rightarrow> Ctx res" where
  "liquidity_token_send_with_msg_from D env sender owner contract amount msg kind ctx =
     (let ctx = add_event env (TokenEvent (TokenSendEvent owner contract amount (Some sender))) ctx in
     and_then (liquidity_token_deduct_allowance_inner env owner sender amount kind ctx) (\<lambda>ctx.
     let ctx = notify_receiver contract \<lparr>rc_sender = sender, rc_amount = amount, rc_msg = msg\<rparr> ctx in
     move_liquidity_tokens D env owner contract amount kind ctx))"

section \<open>Messages and queries\<close>

datatype LiquidityTokenMsg =
    LtTransfer RawAddr nat
  | LtSend RawAddr nat string
  | LtIncreaseAllowance RawAddr nat "Expiration option"
  | LtDecreaseAllowance RawAddr nat "Expiration option"
  | LtTransferFrom RawAddr RawAddr nat
  | LtSendFrom RawAddr RawAddr nat string

definition liquidity_token_handle_exec ::
    "dec256_api \<Rightarrow> Env \<Rightarrow> Addr \<Rightarrow> LiquidityTokenKind \<Rightarrow> LiquidityTokenMsg \<Rightarrow> Ctx \<Rightarrow> Ctx res" where
  "liquidity_token_handle_exec D env msg_sender kind msg ctx =
     (let valid = addr_validate (env_addr_validate env) in
     case msg of
       LtTransfer recipient amount \<Rightarrow>
         and_then (valid recipient) (\<lambda>recipient.
         liquidity_token_transfer D env msg_sender recipient amount kind ctx)
     | LtSend contract amount payload \<Rightarrow>
         and_then (valid contract) (\<lambda>contract.
         liquidity_token_send_with_msg D env msg_sender contract amount payload kind ctx)
     | LtIncreaseAllowance spender amount expires \<Rightarrow>
         and_then (valid spender) (\<lambda>spender.
         liquidity_token_increase_allowance env msg_sender spender amount expires kind ctx)
     | LtDecreaseAllowance spender amount expires \<Rightarrow>
         and_then (valid spender) (\<lambda>spender.
         liquidity_token_decrease_allowance env msg_sender spender amount expires kind ctx)
     | LtTransferFrom owner recipient amount \<Rightarrow>
         and_then (valid owner) (\<lambda>owner.
         and_then (valid recipient) (\<lambda>recipient.
         liquidity_token_transfer_from D env msg_sender owner recipient amount kind ctx))
     | LtSendFrom owner contract amount payload \<Rightarrow>
         and_then (valid owner) (\<lambda>owner.
         and_then (valid contract) (\<lambda>contract.
         liquidity_token_send_with_msg_from D env msg_sender owner contract amount payload kind ctx)))"

text \<open>The arm \<open>LiquidityTokenProxy\<close> of \<open>execute\<close>: only the token contract of the kind may speak for a sender.\<close>

definition liquidity_token_proxy ::
    "dec256_api \<Rightarrow> Env \<Rightarrow> Addr \<Rightarrow> RawAddr \<Rightarrow> LiquidityTokenKind \<Rightarrow> LiquidityTokenMsg \<Rightarrow> Ctx \<Rightarrow> Ctx res" where
  "liquidity_token_proxy D env info_sender sender kind msg ctx =
     and_then (env_liquidity_token_addr env kind) (\<lambda>token_addr.
     and_then (ensure (info_sender = token_addr) (Perp Auth)) (\<lambda>_.
     and_then (addr_validate (env_addr_validate env) sender) (\<lambda>sender.
     liquidity_token_handle_exec D env sender kind msg ctx)))"

definition liquidity_token_balance ::
    "dec256_api \<Rightarrow> Env \<Rightarrow> Ctx \<Rightarrow> Addr \<Rightarrow> LiquidityTokenKind \<Rightarrow> nat res" where
  "liquidity_token_balance D env ctx addr kind =
     and_then (case kind of
         KindLp \<Rightarrow> map_res li_lp_amount (lp_info D env ctx addr)
       | KindXlp \<Rightarrow> map_res addr_xlp (load_liquidity_stats_addr_default ctx addr)) (\<lambda>amount.
     lp_token_into_uint_128 D amount)"

definition liquidity_token_total_supply :: "dec256_api \<Rightarrow> Ctx \<Rightarrow> LiquidityTokenKind \<Rightarrow> nat res" where
  "liquidity_token_total_supply D ctx kind =
     lp_token_into_uint_128 D (case kind of
         KindLp \<Rightarrow> total_lp (liquidity_stats ctx) | KindXlp \<Rightarrow> total_xlp (liquidity_stats ctx))"

definition liquidity_token_allowance :: "Env \<Rightarrow> Ctx \<Rightarrow> Addr \<Rightarrow> Addr \<Rightarrow> LiquidityTokenKind \<Rightarrow> AllowanceResponse" where
  "liquidity_token_allowance env ctx owner spender kind =
     allowance_query (env_expires_never env) (fst (allowances_of kind ctx)) owner spender"

definition liquidity_token_owner_allowances ::
    "Ctx \<Rightarrow> Addr \<Rightarrow> Addr option \<Rightarrow> nat option \<Rightarrow> LiquidityTokenKind \<Rightarrow> (Addr \<times> AllowanceResponse) list" where
  "liquidity_token_owner_allowances ctx owner start_after limit kind =
     allowances_page (fst (allowances_of kind ctx)) owner start_after
       (min (case limit of Some l \<Rightarrow> l | None \<Rightarrow> 10) QUERY_MAX_LIMIT)"

definition liquidity_token_spender_allowances ::
    "Ctx \<Rightarrow> Addr \<Rightarrow> Addr option \<Rightarrow> nat option \<Rightarrow> LiquidityTokenKind \<Rightarrow> (Addr \<times> AllowanceResponse) list" where
  "liquidity_token_spender_allowances ctx spender start_after limit kind =
     allowances_page (snd (allowances_of kind ctx)) spender start_after
       (min (case limit of Some l \<Rightarrow> l | None \<Rightarrow> 10) QUERY_MAX_LIMIT)"

definition liquidity_token_all_accounts :: "Ctx \<Rightarrow> Addr option \<Rightarrow> nat option \<Rightarrow> Addr list" where
  "liquidity_token_all_accounts ctx start_after limit =
     liquidity_providers ctx start_after (min (case limit of Some l \<Rightarrow> l | None \<Rightarrow> 10) QUERY_MAX_LIMIT)"

section \<open>A transfer keeps the books\<close>

definition kind_units :: "LiquidityTokenKind \<Rightarrow> LiquidityStatsByAddr \<Rightarrow> nat" where
  "kind_units kind = (case kind of KindLp \<Rightarrow> lp_units | KindXlp \<Rightarrow> addr_xlp)"

context decimal256
begin

lemma book_keeping_units:
  assumes inv: "pool_inv (ctx\<lparr>liquidity_stats := st\<rparr>)" and p: "perform_lp_book_keeping D env a ctx = Inr c1"
  shows "fmval (kind_units k) (stats_by_addr c1) b = fmval (kind_units k) (stats_by_addr ctx) b"
proof (cases "b = a")
  case True
  then show ?thesis
    using book_keeping_at [OF inv p]
    by (cases k) (auto simp: fmval_def kind_units_def kept_provider_def split: option.splits)
next
  case False
  from book_keeping_others [OF p this] show ?thesis by (simp add: fmval_def)
qed

text \<open>One side of a transfer, for totals that fit the accounts before and after it.\<close>

lemma balance_change_at:
  assumes inv: "pool_inv (ctx\<lparr>liquidity_stats := st\<rparr>)" and r: "reset_lp_status ctx = None"
    and bc: "liquidity_token_balance_change_inner D env a delta kind ctx = Inr ctx'" and wf: "wf_signed delta"
  shows "0 \<le> int (fmval (kind_units kind) (stats_by_addr ctx) a) + num delta" (is ?covered)
    and "same_market ctx ctx'" (is ?market)
    and "int (fmval (kind_units k) (stats_by_addr ctx') b) = int (fmval (kind_units k) (stats_by_addr ctx) b)
        + (if b = a \<and> k = kind then num delta else 0)" (is ?units)
    and "int (total_lp st') = int (total_lp st) + (if kind = KindLp then num delta else 0) \<Longrightarrow>
      int (total_xlp st') = int (total_xlp st) + (if kind = KindXlp then num delta else 0) \<Longrightarrow>
      (stats_collateral st' = 0 \<longrightarrow> stats_tokens st' = 0) \<Longrightarrow> pool_inv (ctx'\<lparr>liquidity_stats := st'\<rparr>)"
proof -
  obtain c1 s v where bk: "perform_lp_book_keeping D env a ctx = Inr c1"
    and ld: "load_liquidity_stats_addr_default c1 a = Inr s"
    and v: "signed_checked_add D (new_positive (case kind of KindLp \<Rightarrow> addr_lp s | KindXlp \<Rightarrow> addr_xlp s)) delta = Inr v"
    and nn: "\<not> is_negative v"
    and ctx': "ctx' = save_liquidity_stats_addr a (case kind of KindLp \<Rightarrow> s\<lparr>addr_lp := sg_value v\<rparr>
        | KindXlp \<Rightarrow> s\<lparr>addr_xlp := sg_value v\<rparr>) c1"
    using bc by (auto simp: liquidity_token_balance_change_inner_def Let_def try_into_non_negative_value_def
        split: if_splits)
  define m where "m = (case kind of KindLp \<Rightarrow> addr_lp s | KindXlp \<Rightarrow> addr_xlp s)"
  define s' where "s' = (case kind of KindLp \<Rightarrow> s\<lparr>addr_lp := sg_value v\<rparr> | KindXlp \<Rightarrow> s\<lparr>addr_xlp := sg_value v\<rparr>)"
  note b = book_keeping_at [OF inv bk]
  have vinv: "pool_inv (c1\<lparr>liquidity_stats := st\<rparr>)" and fr: "fresh_accrual a (c1\<lparr>liquidity_stats := st\<rparr>)"
    and sm: "same_market ctx c1" using b by simp_all
  have ldv: "load_liquidity_stats_addr_default (c1\<lparr>liquidity_stats := st\<rparr>) a = Inr s"
    using ld load_default_cong [of "c1\<lparr>liquidity_stats := st\<rparr>" c1] by simp
  note d = default_provider [OF vinv fr ldv]
  have wfm: "wf_signed (new_positive m)" using d(1) by (cases kind) (simp_all add: m_def wf_balances_def)
  have nv: "num v = int m + num delta" "wf_signed v" using v signed_add_Inr [OF wfm wf] by (auto simp: m_def)
  have val: "int (sg_value v) = int m + num delta" "sg_value v < dec_lim"
    using nn nv by (auto simp: num_def is_negative_def wf_signed_def)
  have units: "int (lp_units s') = int (lp_units s) + (if kind = KindLp then num delta else 0)"
      "int (addr_xlp s') = int (addr_xlp s) + (if kind = KindXlp then num delta else 0)"
    using val by (cases kind; simp add: s'_def m_def lp_units_def pending_unstake_def)+
  have old: "fmval lp_units (stats_by_addr ctx) a = lp_units s" "fmval addr_xlp (stats_by_addr ctx) a = addr_xlp s"
    using d(2,3) book_keeping_units [OF inv bk, of KindLp a] book_keeping_units [OF inv bk, of KindXlp a]
    by (simp_all add: kind_units_def)
  show ?covered
    using units old by (cases kind) (simp_all add: kind_units_def)
  have new: "fmval f (stats_by_addr ctx') b = (if b = a then f s' else fmval f (stats_by_addr c1) b)"
    if "is_empty_stats s' \<Longrightarrow> f s' = 0" for f :: "LiquidityStatsByAddr \<Rightarrow> nat" and b
    using that by (auto simp: ctx' s'_def [symmetric] fmval_def save_addr_lookup)
  show ?units
  proof (cases "b = a")
    case True
    then show ?thesis
      using new [of "kind_units k" a] units old by (cases k; cases kind) (auto simp: kind_units_def empty_units)
  next
    case False
    then show ?thesis
      using new [of "kind_units k" b] book_keeping_units [OF inv bk, of k b]
      by (cases k) (auto simp: kind_units_def empty_units)
  qed
  show ?market using sm by (simp add: ctx' same_market_def)
  assume t: "int (total_lp st') = int (total_lp st) + (if kind = KindLp then num delta else 0)"
      "int (total_xlp st') = int (total_xlp st) + (if kind = KindXlp then num delta else 0)"
    and c0: "stats_collateral st' = 0 \<longrightarrow> stats_tokens st' = 0"
  show "pool_inv (ctx'\<lparr>liquidity_stats := st'\<rparr>)"
  proof (rule provider_save [OF vinv _ fr ldv, of s'])
    show "reset_lp_status (c1\<lparr>liquidity_stats := st\<rparr>) = None" using sm r by (simp add: same_market_def)
    show "last_accrue_key s' = last_accrue_key s" by (cases kind) (simp_all add: s'_def)
    show "wf_balances s'" using d(1) val(2) by (cases kind) (simp_all add: s'_def wf_balances_def)
    show "accrued_total s' + set_aside (all_fees (c1\<lparr>liquidity_stats := st\<rparr>))
        \<le> accrued_total s + set_aside (all_fees (ctx'\<lparr>liquidity_stats := st'\<rparr>))"
      by (cases kind) (simp_all add: s'_def accrued_total_def ctx')
    show "total_lp (liquidity_stats (ctx'\<lparr>liquidity_stats := st'\<rparr>)) + lp_units s
        = total_lp (liquidity_stats (c1\<lparr>liquidity_stats := st\<rparr>)) + lp_units s'" using t units by simp
    show "total_xlp (liquidity_stats (ctx'\<lparr>liquidity_stats := st'\<rparr>)) + addr_xlp s
        = total_xlp (liquidity_stats (c1\<lparr>liquidity_stats := st\<rparr>)) + addr_xlp s'" using t units by simp
    show "stats_by_addr (ctx'\<lparr>liquidity_stats := st'\<rparr>)
        = stats_by_addr (save_liquidity_stats_addr a s' (c1\<lparr>liquidity_stats := st\<rparr>))"
      by (simp add: ctx' s'_def)
    show "reset_lp_status (ctx'\<lparr>liquidity_stats := st'\<rparr>) = None" using sm r by (simp add: ctx' same_market_def)
  qed (use c0 in \<open>simp_all add: ctx'\<close>)
qed

end

text \<open>A token amount in atomics of the pool.\<close>

definition token_atomics :: "nat \<Rightarrow> nat" where
  "token_atomics amount = amount * 10 ^ 12"

definition units_of :: "LiquidityTokenKind \<Rightarrow> Ctx \<Rightarrow> Addr \<Rightarrow> nat" where
  "units_of kind ctx a = fmval (kind_units kind) (stats_by_addr ctx) a"

context decimal256
begin

lemma move_tokens_result:
  assumes inv: "pool_inv ctx" and r: "reset_lp_status ctx = None"
    and mv: "move_liquidity_tokens D env owner recipient amount kind ctx = Inr ctx'"
  shows "pool_inv ctx' \<and> same_market ctx ctx'"
    and "units_of k ctx' b + (if b = owner \<and> k = kind then token_atomics amount else 0)
      = units_of k ctx b + (if b = recipient \<and> k = kind then token_atomics amount else 0)"
proof -
  define st where "st = liquidity_stats ctx"
  obtain n c1 where n: "uint_128_into_lp_token D amount = Inr n"
    and c1: "liquidity_token_balance_change_inner D env owner (signed_neg (new_positive n)) kind ctx = Inr c1"
    and c2: "liquidity_token_balance_change_inner D env recipient (new_positive n) kind c1 = Inr ctx'"
    using mv by (auto simp: move_liquidity_tokens_def)
  have n': "n = token_atomics amount" "n < dec_lim"
    using n by (simp_all add: uint_128_into_lp_token_def token_from_u128_def DECIMAL_PLACES_def from_atomics_Inr
        token_atomics_def)
  have inv0: "pool_inv (ctx\<lparr>liquidity_stats := st\<rparr>)" using inv by (simp add: st_def)
  have wf: "wf_signed (signed_neg (new_positive n))" "wf_signed (new_positive n)" using n' by simp_all
  note one = balance_change_at [OF inv0 r c1 wf(1)]
  have cov: "n \<le> units_of kind ctx owner" using one(1) by (simp add: units_of_def)
  also have "\<dots> \<le> (case kind of KindLp \<Rightarrow> total_lp st | KindXlp \<Rightarrow> total_xlp st)"
    using inv r fmval_le_fmsum [of lp_units "stats_by_addr ctx" owner]
      fmval_le_fmsum [of addr_xlp "stats_by_addr ctx" owner]
    by (cases kind) (simp_all add: units_of_def kind_units_def pool_inv_def wf_totals_def st_def)
  finally have le: "n \<le> (case kind of KindLp \<Rightarrow> total_lp st | KindXlp \<Rightarrow> total_xlp st)" .
  have c0: "stats_collateral st = 0 \<longrightarrow> stats_tokens st = 0"
    using inv by (auto simp: pool_inv_def st_def stats_collateral_def stats_tokens_def)
  define st1 where "st1 = (case kind of KindLp \<Rightarrow> st\<lparr>total_lp := total_lp st - n\<rparr>
      | KindXlp \<Rightarrow> st\<lparr>total_xlp := total_xlp st - n\<rparr>)"
  have inv1: "pool_inv (c1\<lparr>liquidity_stats := st1\<rparr>)"
    by (rule one(4)) (use le c0 in \<open>cases kind; auto simp: st1_def stats_collateral_def stats_tokens_def\<close>)+
  have sm1: "same_market ctx c1" by (rule one(2))
  then have r1: "reset_lp_status c1 = None" using r by (simp add: same_market_def)
  note two = balance_change_at [OF inv1 r1 c2 wf(2)]
  have sm: "same_market ctx ctx'" using same_market_trans [OF sm1 two(2)] .
  have "pool_inv (ctx'\<lparr>liquidity_stats := st\<rparr>)"
    by (rule two(4)) (use le c0 in \<open>cases kind; auto simp: st1_def\<close>)+
  moreover have "ctx'\<lparr>liquidity_stats := st\<rparr> = ctx'" using sm by (simp add: same_market_def st_def)
  ultimately show "pool_inv ctx' \<and> same_market ctx ctx'" using sm by simp
  show "units_of k ctx' b + (if b = owner \<and> k = kind then token_atomics amount else 0)
      = units_of k ctx b + (if b = recipient \<and> k = kind then token_atomics amount else 0)"
    using one(3) [of k b] two(3) [of k b] by (auto simp: units_of_def n'(1) split: if_splits)
qed

end

section \<open>Nobody else spends\<close>

text \<open>Allowances and notes do not touch the pool.\<close>

lemma set_allowances_fields [simp]:
  "same_pool (set_allowances kind ms ctx) = same_pool ctx" "same_market (set_allowances kind ms ctx) = same_market ctx"
  "reset_lp_status (set_allowances kind ms ctx) = reset_lp_status ctx"
  "units_of k (set_allowances kind ms ctx) = units_of k ctx"
  "allowances_of k (set_allowances kind ms ctx) = (if k = kind then ms else allowances_of k ctx)"
  by (cases k; cases kind; simp add: set_allowances_def allowances_of_def units_of_def fun_eq_iff
      same_pool_def same_market_def)+

lemma notify_fields [simp]:
  "same_pool (notify_receiver c m ctx) = same_pool ctx" "same_market (notify_receiver c m ctx) = same_market ctx"
  "reset_lp_status (notify_receiver c m ctx) = reset_lp_status ctx"
  "units_of k (notify_receiver c m ctx) = units_of k ctx"
  "allowances_of k (notify_receiver c m ctx) = allowances_of k ctx"
  by (cases k; simp add: notify_receiver_def allowances_of_def units_of_def fun_eq_iff same_pool_def same_market_def)+

lemma event_token_fields [simp]:
  "same_pool (add_event env e ctx) = same_pool ctx" "same_market (add_event env e ctx) = same_market ctx"
  "units_of k (add_event env e ctx) = units_of k ctx" "allowances_of k (add_event env e ctx) = allowances_of k ctx"
  by (cases k; simp add: allowances_of_def units_of_def fun_eq_iff same_pool_def same_market_def)+

lemma pool_inv_touched [simp]:
  "pool_inv (set_allowances kind ms ctx) = pool_inv ctx" "pool_inv (notify_receiver c m ctx) = pool_inv ctx"
  "pool_inv (add_event env e ctx) = pool_inv ctx"
proof -
  have "same_pool ctx (set_allowances kind ms ctx)" "same_pool ctx (notify_receiver c m ctx)"
    "same_pool ctx (add_event env e ctx)"
    by (simp_all add: set_allowances_def notify_receiver_def same_pool_def)
  then show "pool_inv (set_allowances kind ms ctx) = pool_inv ctx" "pool_inv (notify_receiver c m ctx) = pool_inv ctx"
    "pool_inv (add_event env e ctx) = pool_inv ctx" by (simp_all add: pool_inv_same)
qed

lemma history_allowances: "lp_history_add_collect_lp D env a n col c = Inr c' \<Longrightarrow> allowance_st c' = allowance_st c"
  by (auto simp: lp_history_add_collect_lp_def lp_history_add_action_def Let_def)

lemma save_addr_allowances [simp]: "allowance_st (save_liquidity_stats_addr a s c) = allowance_st c"
  by (simp add: save_liquidity_stats_addr_def)

lemma book_keeping_allowances: "perform_lp_book_keeping D env a c = Inr c' \<Longrightarrow> allowance_st c' = allowance_st c"
  by (auto simp: perform_lp_book_keeping_def update_accrued_yield_def collect_unstaked_lp_def Let_def
      dest!: history_allowances split: option.splits)

lemma allowances_moved: "move_liquidity_tokens D env owner recipient amount kind ctx = Inr ctx'
    \<Longrightarrow> allowance_st ctx' = allowance_st ctx"
  by (auto simp: move_liquidity_tokens_def liquidity_token_balance_change_inner_def Let_def
      dest!: book_keeping_allowances)

definition tokens_sound :: "Ctx \<Rightarrow> bool" where
  "tokens_sound ctx \<longleftrightarrow> pool_inv ctx \<and> reset_lp_status ctx = None \<and> (\<forall>k. mirrored (allowances_of k ctx))"

definition grants_of :: "LiquidityTokenKind \<Rightarrow> Ctx \<Rightarrow> Addr \<Rightarrow> nat" where
  "grants_of kind ctx a = token_atomics (granted (fst (allowances_of kind ctx)) a)"

text \<open>What a message of somebody else may do to an account.\<close>

definition spends_within :: "Ctx \<Rightarrow> Ctx \<Rightarrow> LiquidityTokenKind \<Rightarrow> Addr \<Rightarrow> bool" where
  "spends_within c c' k a \<longleftrightarrow> units_of k c a + grants_of k c' a \<le> units_of k c' a + grants_of k c a
     \<and> grants_of k c' a \<le> grants_of k c a"

context decimal256
begin

lemma move_sound:
  assumes t: "tokens_sound ctx" and mv: "move_liquidity_tokens D env owner recipient amount kind ctx = Inr ctx'"
  shows "tokens_sound ctx'" "same_market ctx ctx'" "a \<noteq> owner \<Longrightarrow> spends_within ctx ctx' k a"
proof -
  have t': "pool_inv ctx" "reset_lp_status ctx = None" using t by (simp_all add: tokens_sound_def)
  note m = move_tokens_result [OF t' mv]
  have al: "allowances_of k ctx' = allowances_of k ctx" for k
    using allowances_moved [OF mv] by (cases k) (simp_all add: allowances_of_def)
  show "tokens_sound ctx'" "same_market ctx ctx'"
    using t m(1) by (simp_all add: tokens_sound_def al same_market_def)
  show "a \<noteq> owner \<Longrightarrow> spends_within ctx ctx' k a"
    using m(2) [of k a] by (simp add: spends_within_def grants_of_def al split: if_splits)
qed

lemma spend_sound:
  assumes t: "tokens_sound ctx"
    and de: "liquidity_token_deduct_allowance_inner env owner sender amount kind ctx = Inr c1"
    and c2: "allowance_st c2 = allowance_st c1" "same_pool c1 c2" "same_market c1 c2"
    and mv: "move_liquidity_tokens D env owner recipient amount kind c2 = Inr ctx'"
  shows "tokens_sound ctx'" "same_market ctx ctx'" "spends_within ctx ctx' k a"
proof -
  obtain ms where ms: "deduct_allowance (env_is_expired env) owner sender amount (allowances_of kind ctx) = Inr ms"
    and c1: "c1 = set_allowances kind ms ctx"
    using de by (auto simp: liquidity_token_deduct_allowance_inner_def)
  have mir: "mirrored (allowances_of kind ctx)" using t by (simp add: tokens_sound_def)
  note d = deduct_result [OF ms mir]
  have al: "allowances_of k c2 = (if k = kind then ms else allowances_of k ctx)" for k
    using c2(1) c1 set_allowances_fields(5) [of k kind ms ctx] by (cases k) (simp_all add: allowances_of_def)
  have un: "units_of k c2 = units_of k ctx" for k
    using c2(2) c1 set_allowances_fields(4) [of k kind ms ctx] by (simp add: units_of_def same_pool_def fun_eq_iff)
  have t2: "tokens_sound c2"
    using t c2(2,3) d(1) c1 pool_inv_same [OF c2(2)] by (auto simp: tokens_sound_def al same_market_def same_pool_def)
  have al': "allowances_of k ctx' = allowances_of k c2" for k
    using allowances_moved [OF mv] by (cases k) (simp_all add: allowances_of_def)
  note m = move_sound [OF t2 mv]
  show "tokens_sound ctx'" by (rule m(1))
  show "same_market ctx ctx'"
    using c2(3) m(2) c1 by (auto intro: same_market_trans)
  have t2': "pool_inv c2" "reset_lp_status c2 = None" using t2 by (simp_all add: tokens_sound_def)
  show "spends_within ctx ctx' k a"
    using move_tokens_result(2) [OF t2' mv, of k a] d(2) [of a] d(3) un [of k]
    by (auto simp: spends_within_def grants_of_def al' al token_atomics_def algebra_simps split: if_splits)
qed

lemma allowance_change_sound:
  assumes t: "tokens_sound ctx" and mir: "mirrored ms"
    and own: "a \<noteq> owner \<Longrightarrow> granted (fst ms) a = granted (fst (allowances_of kind ctx)) a"
  shows "tokens_sound (set_allowances kind ms (add_event env e ctx))"
    "same_market ctx (set_allowances kind ms (add_event env e ctx))"
    "a \<noteq> owner \<Longrightarrow> spends_within ctx (set_allowances kind ms (add_event env e ctx)) k a"
proof -
  show "same_market ctx (set_allowances kind ms (add_event env e ctx))"
    by (simp add: same_market_def set_allowances_def)
qed (use assms in \<open>auto simp: tokens_sound_def spends_within_def grants_of_def\<close>)

lemma token_exec_result:
  assumes t: "tokens_sound ctx" and ex: "liquidity_token_handle_exec D env sender kind msg ctx = Inr ctx'"
  shows "tokens_sound ctx'" "same_market ctx ctx'" "a \<noteq> sender \<Longrightarrow> spends_within ctx ctx' k a"
proof -
  have te: "tokens_sound (add_event env e ctx)" for e using t by (simp add: tokens_sound_def)
  have tn: "tokens_sound (notify_receiver c m (add_event env e ctx))" for c m e using t by (simp add: tokens_sound_def)
  have sw: "spends_within (add_event env e ctx) c = spends_within ctx c"
      "spends_within (notify_receiver d m (add_event env e ctx)) c = spends_within ctx c" for e c d m
    by (simp_all add: spends_within_def grants_of_def fun_eq_iff)
  have mir: "mirrored (allowances_of kind ctx)" using t by (simp add: tokens_sound_def)
  have "tokens_sound ctx' \<and> same_market ctx ctx' \<and> (a \<noteq> sender \<longrightarrow> spends_within ctx ctx' k a)"
  proof (cases msg)
    case (LtTransfer r n)
    then show ?thesis
      using ex move_sound [OF te] by (auto simp: liquidity_token_handle_exec_def liquidity_token_transfer_def sw)
  next
    case (LtSend r n m)
    then show ?thesis
      using ex move_sound [OF tn]
      by (auto simp: liquidity_token_handle_exec_def liquidity_token_send_with_msg_def Let_def sw)
  next
    case (LtIncreaseAllowance sp n e)
    then obtain ms x where "increase_allowance (env_expires_never env) sender x n e (allowances_of kind ctx) = Inr ms"
      and "ctx' = set_allowances kind ms (add_event env (TokenEvent (AllowanceChangeEvent True sender x n e)) ctx)"
      using ex by (auto simp: liquidity_token_handle_exec_def liquidity_token_increase_allowance_def Let_def)
    then show ?thesis
      using allowance_change_sound [OF t, of ms a sender kind] increase_result(1,2) [OF _ mir] by metis
  next
    case (LtDecreaseAllowance sp n e)
    then obtain ms x where "decrease_allowance sender x n e (allowances_of kind ctx) = Inr ms"
      and "ctx' = set_allowances kind ms (add_event env (TokenEvent (AllowanceChangeEvent False sender x n e)) ctx)"
      using ex by (auto simp: liquidity_token_handle_exec_def liquidity_token_decrease_allowance_def Let_def)
    then show ?thesis
      using allowance_change_sound [OF t, of ms a sender kind] decrease_result(1,2) [OF _ mir] by metis
  next
    case (LtTransferFrom ow r n)
    then obtain ow' r' c1 where d: "liquidity_token_deduct_allowance_inner env ow' sender n kind
          (add_event env (TokenEvent (TokenTransferEvent ow' r' n (Some sender))) ctx) = Inr c1"
      and mv: "move_liquidity_tokens D env ow' r' n kind c1 = Inr ctx'"
      using ex by (auto simp: liquidity_token_handle_exec_def liquidity_token_transfer_from_def Let_def)
    show ?thesis using spend_sound [OF te d _ _ _ mv] by (simp add: sw)
  next
    case (LtSendFrom ow r n m)
    then obtain ow' r' c1 where d: "liquidity_token_deduct_allowance_inner env ow' sender n kind
          (add_event env (TokenEvent (TokenSendEvent ow' r' n (Some sender))) ctx) = Inr c1"
      and mv: "move_liquidity_tokens D env ow' r' n kind
          (notify_receiver r' \<lparr>rc_sender = sender, rc_amount = n, rc_msg = m\<rparr> c1) = Inr ctx'"
      using ex by (auto simp: liquidity_token_handle_exec_def liquidity_token_send_with_msg_from_def Let_def)
    show ?thesis
      using spend_sound [OF te d _ _ _ mv] by (simp add: sw) (simp add: notify_receiver_def same_pool_def same_market_def)
  qed
  then show "tokens_sound ctx'" "same_market ctx ctx'" "a \<noteq> sender \<Longrightarrow> spends_within ctx ctx' k a" by auto
qed

end

text \<open>The books of the pool are kept whatever the allowances are.\<close>

context decimal256
begin

lemma token_exec_books:
  assumes inv: "pool_inv ctx" "reset_lp_status ctx = None"
    and ex: "liquidity_token_handle_exec D env sender kind msg ctx = Inr ctx'"
  shows "pool_inv ctx' \<and> same_market ctx ctx'"
proof -
  have mv: "pool_inv ctx' \<and> same_market c ctx'" if "move_liquidity_tokens D env o' r n kind c = Inr ctx'"
    and "pool_inv c" "reset_lp_status c = None" for o' r n c
    using move_tokens_result(1) [OF that(2,3,1)] .
  have sa: "same_market ctx (set_allowances kind ms (add_event env e ctx))" for ms e
    by (simp add: same_market_def set_allowances_def)
  show ?thesis
    using inv ex
    by (cases msg; auto simp: liquidity_token_handle_exec_def liquidity_token_transfer_def
        liquidity_token_send_with_msg_def liquidity_token_transfer_from_def liquidity_token_send_with_msg_from_def
        liquidity_token_increase_allowance_def liquidity_token_decrease_allowance_def
        liquidity_token_deduct_allowance_inner_def Let_def sa dest!: mv)
qed

lemma token_proxy_books:
  assumes "pool_inv ctx" "reset_lp_status ctx = None"
    and "liquidity_token_proxy D env info_sender raw kind msg ctx = Inr ctx'"
  shows "pool_inv ctx' \<and> same_market ctx ctx'"
  using assms token_exec_books [OF assms(1,2)] by (auto simp: liquidity_token_proxy_def)

end

text \<open>The messages with the kind of token they are about.\<close>

definition liquidity_token_exec ::
    "dec256_api \<Rightarrow> Env \<Rightarrow> Addr \<Rightarrow> LiquidityTokenKind \<times> LiquidityTokenMsg \<Rightarrow> Ctx \<Rightarrow> Ctx res" where
  "liquidity_token_exec D env sender = (\<lambda>(kind, msg). liquidity_token_handle_exec D env sender kind msg)"

sublocale decimal256 \<subseteq> liquidity_token: spendable_token "units_of k" "grants_of k" tokens_sound "liquidity_token_exec D"
  for k
  by unfold_locales
    (use token_exec_result(1,3) in \<open>fastforce simp: liquidity_token_exec_def spends_within_def\<close>)+

end
