(* ===== verification/PoolMessages.thy ===== *)
theory PoolMessages
  imports Fees LiquidityTokens
begin

text \<open>
  The messages of \<open>execute\<close> (\<open>contracts/market/src/contract.rs\<close>) that touch the pool and
  the fees only (the tokens of the liquidity included), with the guard that rejects them while a drained pool is reset, and the states the
  pool can reach: through these messages, the internal operations of the market (locking and
  unlocking counter collateral, fees, crank rewards), the steps of a reset, and anything the market does
  outside the pool. The invariant holds in every reachable state, and every message accounts
  for the collateral it moves.
\<close>

section \<open>Messages\<close>

datatype LpMsg =
    DepositLiquidityMsg NonZero bool
  | ReinvestYieldMsg "NonZero option" bool
  | WithdrawLiquidityMsg "NonZero option" bool
  | ClaimYieldMsg
  | StakeLpMsg "NonZero option"
  | UnstakeXlpMsg "NonZero option"
  | StopUnstakingXlpMsg
  | CollectUnstakedLpMsg
  | TransferDaoFeesMsg
  | ProvideCrankFundsMsg NonZero
  | LiquidityTokenProxyMsg RawAddr LiquidityTokenKind LiquidityTokenMsg

definition msg_kind :: "LpMsg \<Rightarrow> ExecuteMsgKind" where
  "msg_kind msg = (case msg of
       DepositLiquidityMsg _ _ \<Rightarrow> MsgDepositLiquidity
     | ReinvestYieldMsg _ _ \<Rightarrow> MsgReinvestYield
     | WithdrawLiquidityMsg _ _ \<Rightarrow> MsgWithdrawLiquidity
     | ClaimYieldMsg \<Rightarrow> MsgClaimYield
     | StakeLpMsg _ \<Rightarrow> MsgStakeLp
     | UnstakeXlpMsg _ \<Rightarrow> MsgUnstakeXlp
     | StopUnstakingXlpMsg \<Rightarrow> MsgStopUnstakingXlp
     | CollectUnstakedLpMsg \<Rightarrow> MsgCollectUnstakedLp
     | TransferDaoFeesMsg \<Rightarrow> MsgTransferDaoFees
     | ProvideCrankFundsMsg _ \<Rightarrow> MsgProvideCrankFunds
     | LiquidityTokenProxyMsg _ _ _ \<Rightarrow> MsgLiquidityTokenProxy)"

definition execute_lp_msg :: "dec256_api \<Rightarrow> Env \<Rightarrow> Addr \<Rightarrow> LpMsg \<Rightarrow> Ctx \<Rightarrow> Ctx res" where
  "execute_lp_msg D env sender msg ctx =
     and_then (ensure_not_resetting_lps ctx (msg_kind msg)) (\<lambda>_.
     case msg of
       DepositLiquidityMsg amount stake_to_xlp \<Rightarrow> liquidity_deposit D env sender amount stake_to_xlp ctx
     | ReinvestYieldMsg amount stake_to_xlp \<Rightarrow> reinvest_yield D env sender amount stake_to_xlp ctx
     | WithdrawLiquidityMsg lp_amount claim_yield \<Rightarrow>
         and_then (if claim_yield then map_res snd (liquidity_claim_yield D env sender True ctx) else Inr ctx) (\<lambda>ctx.
         liquidity_withdraw D env sender lp_amount ctx)
     | ClaimYieldMsg \<Rightarrow> map_res snd (liquidity_claim_yield D env sender True ctx)
     | StakeLpMsg amount \<Rightarrow> liquidity_stake_lp D env sender amount ctx
     | UnstakeXlpMsg amount \<Rightarrow> liquidity_unstake_xlp D env sender amount ctx
     | StopUnstakingXlpMsg \<Rightarrow> map_res snd (liquidity_stop_unstaking_xlp D env sender True True ctx)
     | CollectUnstakedLpMsg \<Rightarrow>
         and_then (collect_unstaked_lp D env sender ctx) (\<lambda>(collected, ctx).
         and_then (ensure collected (Msg ''There is no unstaked LP'')) (\<lambda>_. Inr ctx))
     | TransferDaoFeesMsg \<Rightarrow> transfer_fees_to_dao D env ctx
     | ProvideCrankFundsMsg amount \<Rightarrow> provide_crank_funds D amount ctx
     | LiquidityTokenProxyMsg raw_sender kind token_msg \<Rightarrow>
         liquidity_token_proxy D env sender raw_sender kind token_msg ctx)"

text \<open>The funds a message brings, and the type invariant of its amounts.\<close>

definition funds_in :: "LpMsg \<Rightarrow> nat" where
  "funds_in msg = (case msg of DepositLiquidityMsg n _ \<Rightarrow> n | ProvideCrankFundsMsg n \<Rightarrow> n | _ \<Rightarrow> 0)"

definition valid_msg :: "LpMsg \<Rightarrow> bool" where
  "valid_msg msg = (case msg of
       DepositLiquidityMsg n _ \<Rightarrow> n \<noteq> 0 | ReinvestYieldMsg n _ \<Rightarrow> n \<noteq> Some 0
     | WithdrawLiquidityMsg n _ \<Rightarrow> n \<noteq> Some 0 | StakeLpMsg n \<Rightarrow> n \<noteq> Some 0
     | UnstakeXlpMsg n \<Rightarrow> n \<noteq> Some 0 | ProvideCrankFundsMsg n \<Rightarrow> n \<noteq> 0 | _ \<Rightarrow> True)"

definition is_withdraw :: "LpMsg \<Rightarrow> bool" where
  "is_withdraw msg = (case msg of WithdrawLiquidityMsg _ _ \<Rightarrow> True | _ \<Rightarrow> False)"

section \<open>Every message keeps the books\<close>

lemma not_resetting:
  "ensure_not_resetting_lps ctx (msg_kind msg) = Inr u \<Longrightarrow>
     reset_lp_status ctx = None \<or> (\<exists>n. msg = ProvideCrankFundsMsg n)"
  by (cases msg) (auto simp: ensure_not_resetting_lps_def touches_liquidity_def msg_kind_def
      should_reset_lp_balances_def split: if_splits)

context decimal256
begin

lemma execute_result:
  assumes inv: "pool_inv ctx" and v: "valid_msg msg" and ex: "execute_lp_msg D env sender msg ctx = Inr ctx'"
  shows "pool_inv ctx' \<and> liabilities ctx' \<le> liabilities ctx + funds_in msg
    \<and> (if is_withdraw msg \<and> stats_tokens (liquidity_stats ctx') = 0
       then liabilities ctx < liabilities ctx' + dust
       else liabilities ctx' = liabilities ctx + funds_in msg)"
proof -
  have r: "reset_lp_status ctx = None \<or> (\<exists>n. msg = ProvideCrankFundsMsg n)"
    using ex not_resetting [of ctx msg] by (auto simp: execute_lp_msg_def)
  show ?thesis
  proof (cases msg)
    case (DepositLiquidityMsg n st)
    then show ?thesis
      using ex r v deposit_preserves [OF inv] by (auto simp: execute_lp_msg_def funds_in_def valid_msg_def is_withdraw_def)
  next
    case (ReinvestYieldMsg n st)
    then show ?thesis
      using ex r v reinvest_preserves [OF inv] by (auto simp: execute_lp_msg_def funds_in_def valid_msg_def is_withdraw_def)
  next
    case (WithdrawLiquidityMsg n cl)
    then obtain c1 where c1: "(if cl then map_res snd (liquidity_claim_yield D env sender True ctx) else Inr ctx) = Inr c1"
      and w: "liquidity_withdraw D env sender n c1 = Inr ctx'" and n: "n \<noteq> Some 0"
      using ex v by (auto simp: execute_lp_msg_def valid_msg_def)
    have 1: "pool_inv c1 \<and> reset_lp_status c1 = None \<and> liabilities c1 = liabilities ctx"
      using c1 r inv claim_result [OF inv, of env sender True] WithdrawLiquidityMsg by (auto split: if_splits)
    have "pool_inv ctx' \<and> liabilities ctx' \<le> liabilities c1 \<and> liabilities c1 < liabilities ctx' + dust
      \<and> (stats_tokens (liquidity_stats ctx') \<noteq> 0 \<longrightarrow> liabilities ctx' = liabilities c1)"
      by (rule withdraw_result [OF _ _ n w]) (use 1 in simp_all)
    then show ?thesis using 1 by (simp add: WithdrawLiquidityMsg funds_in_def is_withdraw_def)
  next
    case ClaimYieldMsg
    then obtain n where c: "liquidity_claim_yield D env sender True ctx = Inr (n, ctx')" and r': "reset_lp_status ctx = None"
      using ex r by (auto simp: execute_lp_msg_def)
    show ?thesis using claim_result [OF inv r' c] ClaimYieldMsg by (simp add: funds_in_def is_withdraw_def)
  next
    case (StakeLpMsg n)
    then show ?thesis
      using ex r stake_preserves [OF inv] by (auto simp: execute_lp_msg_def funds_in_def is_withdraw_def)
  next
    case (UnstakeXlpMsg n)
    then show ?thesis
      using ex r v unstake_preserves [OF inv] by (auto simp: execute_lp_msg_def funds_in_def valid_msg_def is_withdraw_def)
  next
    case StopUnstakingXlpMsg
    then show ?thesis
      using ex r stop_unstaking_preserves [OF inv] by (auto simp: execute_lp_msg_def funds_in_def is_withdraw_def)
  next
    case CollectUnstakedLpMsg
    then show ?thesis
      using ex collect_preserves [OF inv] liabilities_same [of ctx ctx'] by (auto simp: execute_lp_msg_def funds_in_def is_withdraw_def)
  next
    case TransferDaoFeesMsg
    then show ?thesis
      using ex dao_transfer_result [OF inv] by (auto simp: execute_lp_msg_def funds_in_def is_withdraw_def)
  next
    case (ProvideCrankFundsMsg n)
    then show ?thesis
      using ex crank_fund_result [OF inv, of n ctx'] by (auto simp: execute_lp_msg_def funds_in_def is_withdraw_def)
  next
    case (LiquidityTokenProxyMsg a k m)
    then show ?thesis
      using ex r token_proxy_books [OF inv] liabilities_same [of ctx ctx']
      by (auto simp: execute_lp_msg_def funds_in_def is_withdraw_def)
  qed
qed

lemma update_locked_preserves:
  assumes inv: "pool_inv ctx" and nw: "liquidity_update_locked_new D ctx n price None = Inr u"
    and ap: "liquidity_update_locked_apply D env u ctx = Inr ctx'"
  shows "pool_inv ctx'"
proof -
  obtain k where u: "u = \<lparr>lu_amount = n, lu_price = price, lu_stats = (liquidity_stats ctx)\<lparr>locked := k\<rparr>\<rparr>"
    using nw by (auto simp: liquidity_update_locked_new_def Let_def)
  show ?thesis
    using stats_apply [OF inv _ _ ap [unfolded u liquidity_update_locked_apply_def]] by simp
qed

end

section \<open>Reachable states\<close>

definition pool_start :: "Ctx \<Rightarrow> bool" where
  "pool_start ctx \<longleftrightarrow> (\<exists>c. yield_per_time_per_token c = fmempty \<and> stats_by_addr c = fmempty
     \<and> reset_lp_status c = None \<and> ctx = yield_init (liquidity_init (fees_init c)))"

inductive pool_step :: "dec256_api \<Rightarrow> Ctx \<Rightarrow> Ctx \<Rightarrow> bool" for D where
  message: "execute_lp_msg D env sender msg ctx = Inr ctx' \<Longrightarrow> valid_msg msg \<Longrightarrow> pool_step D ctx ctx'"
| reset: "crank_reset_lp_balances D ctx = Inr ctx' \<Longrightarrow> pool_step D ctx ctx'"
| lock: "liquidity_lock_new D env ctx n price dn over None = Inr l \<Longrightarrow>
    liquidity_lock_apply D env l ctx = Inr ctx' \<Longrightarrow> pool_step D ctx ctx'"
| unlock: "liquidity_unlock_new D ctx n price None = Inr ul \<Longrightarrow>
    liquidity_unlock_apply D env ul ctx = Inr ctx' \<Longrightarrow> pool_step D ctx ctx'"
| update_locked: "liquidity_update_locked_new D ctx s price None = Inr up \<Longrightarrow>
    liquidity_update_locked_apply D env up ctx = Inr ctx' \<Longrightarrow> pool_step D ctx ctx'"
| borrow_fee: "collect_borrow_fee D env ctx pid fee price = Inr b \<Longrightarrow>
    borrow_fee_apply D env b ctx = Inr ctx' \<Longrightarrow> pool_step D ctx ctx'"
| trading_fee: "collect_trading_fee D env pid n price src owner ctx = Inr ctx' \<Longrightarrow> pool_step D ctx ctx'"
| delta_neutrality_fee: "collect_delta_neutrality_fee_for_protocol D env pid n price ctx = Inr ctx' \<Longrightarrow>
    pool_step D ctx ctx'"
| crank_fee: "cap_crank_fee_apply D env cf ctx = Inr ctx' \<Longrightarrow> pool_step D ctx ctx'"
| crank_reward: "allocate_crank_fees D env a k ctx = Inr ctx' \<Longrightarrow> pool_step D ctx ctx'"
| return_funds: "return_funds_to_user D env a n price ctx = Inr ctx' \<Longrightarrow> pool_step D ctx ctx'"
| outside: "same_pool ctx ctx' \<Longrightarrow> pool_step D ctx ctx'"

lemma pool_start_inv:
  assumes "pool_start ctx"
  shows "pool_inv ctx"
proof -
  obtain c where c: "yield_per_time_per_token c = fmempty" "stats_by_addr c = fmempty" "reset_lp_status c = None"
    and ctx: "ctx = yield_init (liquidity_init (fees_init c))"
    using assms by (auto simp: pool_start_def)
  have "latest_yield_per_token ctx = Inr (0, \<lparr>ypt_lp = 0, ypt_xlp = 0\<rparr>)"
    using c by (simp add: latest_yield_per_token_def ctx yield_init_def liquidity_init_def fees_init_def fm_last_where_eval)
  then show ?thesis
    using c by (simp add: pool_inv_def wf_totals_def)
      (simp add: ctx yield_init_def liquidity_init_def fees_init_def empty_stats_def)
qed

context decimal256
begin

lemma pool_step_inv: "pool_inv ctx \<Longrightarrow> pool_step D ctx ctx' \<Longrightarrow> pool_inv ctx'"
proof -
  assume inv: "pool_inv ctx" and st: "pool_step D ctx ctx'"
  from st show "pool_inv ctx'"
  proof cases
    case message
    then show ?thesis using execute_result [OF inv] by blast
  next
    case reset
    then show ?thesis using reset_result [OF inv] by blast
  next
    case lock
    then show ?thesis using lock_result [OF inv] by blast
  next
    case unlock
    then show ?thesis using unlock_result [OF inv] by blast
  next
    case update_locked
    then show ?thesis using update_locked_preserves [OF inv] by blast
  next
    case borrow_fee
    then show ?thesis using borrow_fee_result [OF inv] by blast
  next
    case trading_fee
    then show ?thesis using trading_fee_result [OF inv] by blast
  next
    case delta_neutrality_fee
    then show ?thesis
      unfolding collect_delta_neutrality_fee_for_protocol_def using trading_fee_inner_result [OF inv] by metis
  next
    case crank_fee
    then show ?thesis using crank_fund_result [OF inv] by blast
  next
    case crank_reward
    then show ?thesis using allocate_crank_result [OF inv] by blast
  next
    case return_funds
    then show ?thesis using return_funds_result [OF inv] by blast
  next
    case outside
    then show ?thesis using pool_inv_same inv by blast
  qed
qed

end

sublocale decimal256 \<subseteq> pool: invariant_system pool_start "pool_step D" pool_inv
  by unfold_locales (blast intro: pool_start_inv pool_step_inv)+

end
