(* ===== verification/PoolExamples.thy ===== *)
theory PoolExamples
  imports PoolMessages
begin

text \<open>
  A small pool in which the operations are evaluated: Alice holds LP tokens, Bob xLP tokens, Carol is
  half way through unstaking. The theorems of \<open>PoolProperties\<close> are applied to it.
\<close>

section \<open>Amounts with six digits\<close>

text \<open>Evaluating products and quotients of 256-bit numerals in the kernel is slow. The samples use amounts with
  at most six fractional digits, written \<open>mic n\<close> for \<open>n\<close> millionths; the calls of \<open>dec18\<close> on
  them are rewritten to arithmetic on the millionths, wherever the result is exact.\<close>

definition mic :: "nat \<Rightarrow> Decimal256" where
  "mic n = n * 10 ^ 12"

definition mic_lim :: nat where
  "mic_lim = 10 ^ 50"

lemma mic_fits: "n < mic_lim \<Longrightarrow> mic n < dec_lim"
  by (simp add: mic_def mic_lim_def dec_lim_def)

lemma mic_simps [simp]: "(mic a = mic b) = (a = b)" "(mic a < mic b) = (a < b)" "(mic a \<le> mic b) = (a \<le> b)"
  "(mic a = 0) = (a = 0)" "(0 < mic a) = (0 < a)" "(0 = mic a) = (a = 0)" "mic a \<noteq> 0 \<longleftrightarrow> a \<noteq> 0"
  "max (mic a) (mic b) = mic (max a b)" "min (mic a) (mic b) = mic (min a b)"
  by (auto simp: mic_def max_def min_def)

lemma mic_small: "(mic a < 100000000000) = (a = 0)" "(mic a \<le> 100000000000) = (a = 0)"
    "(100000000000 < mic a) = (a \<noteq> 0)" "(100000000000 \<le> mic a) = (a \<noteq> 0)"
  by (auto simp: mic_def)

lemma dec_one_mic: "dec_one = mic 1000000"
  by (simp add: mic_def dec_one_def)

lemma mic_zero: "mic 0 = 0"
  by (simp add: mic_def)

lemma mic_add [simp]: "a + b < mic_lim \<Longrightarrow> d_add dec18 (mic a) (mic b) = Inr (mic (a + b))"
    "a + b < mic_lim \<Longrightarrow> op_add dec18 (mic a) (mic b) = Inr (mic (a + b))"
  using mic_fits [of "a + b"] by (simp_all add: call_defs dec18_def fit_def mic_def algebra_simps)

lemma mic_sub [simp]: "d_sub dec18 (mic a) (mic b) = (if b \<le> a then Inr (mic (a - b)) else Inl (Std ''sub overflow''))"
    "op_sub dec18 (mic a) (mic b) = (if b \<le> a then Inr (mic (a - b)) else Inl (Panic ''attempt to subtract with overflow''))"
  by (simp_all add: call_defs dec18_def mic_def diff_mult_distrib)

lemma mic_product: "1000000 dvd a * b \<Longrightarrow> mic a * mic b div dec_one = mic (a * b div 1000000)"
  by (auto simp: dec_one_def mic_def elim!: dvdE)

lemma mic_mul [simp]: "1000000 dvd a * b \<Longrightarrow> a * b div 1000000 < mic_lim \<Longrightarrow>
      d_mul dec18 (mic a) (mic b) = Inr (mic (a * b div 1000000))"
    "1000000 dvd a * b \<Longrightarrow> a * b div 1000000 < mic_lim \<Longrightarrow>
      op_mul dec18 (mic a) (mic b) = Inr (mic (a * b div 1000000))"
  using mic_fits [of "a * b div 1000000"] by (simp_all add: call_defs dec18_def fit_def mic_product)

lemma mic_quotient: "b \<noteq> 0 \<Longrightarrow> b dvd a * 1000000 \<Longrightarrow> mic a * dec_one div mic b = mic (a * 1000000 div b)"
proof -
  assume b: "b \<noteq> 0" "b dvd a * 1000000"
  then obtain k where k: "a * 1000000 = b * k" by (auto elim: dvdE)
  have "mic a * dec_one = mic k * mic b"
    unfolding dec_one_mic mic_def using k by (simp add: algebra_simps)
  then have "mic a * dec_one div mic b = mic k" using b by simp
  then show ?thesis using b by (simp add: k)
qed

lemma mic_div [simp]: "b \<noteq> 0 \<Longrightarrow> b dvd a * 1000000 \<Longrightarrow> a * 1000000 div b < mic_lim \<Longrightarrow>
      d_div dec18 (mic a) (mic b) = Inr (mic (a * 1000000 div b))"
    "b \<noteq> 0 \<Longrightarrow> b dvd a * 1000000 \<Longrightarrow> a * 1000000 div b < mic_lim \<Longrightarrow>
      op_div dec18 (mic a) (mic b) = Inr (mic (a * 1000000 div b))"
    "d_div dec18 (mic a) 0 = Inl (Std ''div error'')"
  using mic_fits [of "a * 1000000 div b"]
  by (simp_all add: call_defs dec18_def fit_def mic_quotient)

lemma mic_with_zero [simp]:
  "a < mic_lim \<Longrightarrow> d_add dec18 (mic a) 0 = Inr (mic a)" "a < mic_lim \<Longrightarrow> d_add dec18 0 (mic a) = Inr (mic a)"
  "d_add dec18 0 0 = Inr 0" "d_sub dec18 x 0 = Inr x" "op_sub dec18 x 0 = Inr x" "d_sub dec18 0 0 = Inr 0"
  "d_mul dec18 x 0 = Inr 0" "d_mul dec18 0 x = Inr 0" "a \<noteq> 0 \<Longrightarrow> d_div dec18 0 (mic a) = Inr 0"
  "op_mul dec18 x 0 = Inr 0" "op_mul dec18 0 x = Inr 0" "a \<noteq> 0 \<Longrightarrow> op_div dec18 0 (mic a) = Inr 0"
  "a < mic_lim \<Longrightarrow> op_add dec18 (mic a) 0 = Inr (mic a)" "a < mic_lim \<Longrightarrow> op_add dec18 0 (mic a) = Inr (mic a)"
  "op_add dec18 0 0 = Inr 0"
  using mic_fits [of a] by (auto simp: call_defs dec18_def fit_def mic_def)

lemma mic_epsilon [simp]: "d_from_ratio dec18 1 10000000 = Inr 100000000000" "d_from_ratio dec18 (Suc 0) 10000000 = Inr 100000000000"
  by (simp_all add: call_defs dec18_def fit_def dec_one_def dec_lim_def)

lemmas mic_eval = dec_one_mic mic_zero mic_small mic_lim_def

section \<open>The sample pool\<close>

definition sample_env :: Env where
  "sample_env = \<lparr>env_now = 600, env_config = sample_config\<lparr>cfg_mute_events := True\<rparr>,
     env_market_id = market_id_new ''ETH'' ''USDC'' CollateralIsQuote,
     env_referrer_for = (\<lambda>a. Inr (if a = ''carol'' then Some ''dave'' else None)), env_dao_addr = Inr ''dao'',
     env_contract_addr = ''market'', env_semi_random = (\<lambda>t a i. t + i), env_is_expired = (\<lambda>e. e < 600),
     env_expires_never = 1000, env_addr_validate = Some,
     env_liquidity_token_addr = (\<lambda>k. Inr (case k of KindLp \<Rightarrow> ''lp-token'' | KindXlp \<Rightarrow> ''xlp-token''))\<rparr>"

definition sample_alice :: LiquidityStatsByAddr where
  "sample_alice = \<lparr>addr_lp = mic 60000000, addr_xlp = 0, last_accrue_key = 0, lp_accrued_yield = mic 1000000,
     xlp_accrued_yield = 0, crank_rewards = 0, referrer_rewards = 0, unstaking = None, cooldown_ends = Some 300\<rparr>"

definition sample_bob :: LiquidityStatsByAddr where
  "sample_bob = \<lparr>addr_lp = 0, addr_xlp = mic 40000000, last_accrue_key = 1, lp_accrued_yield = 0,
     xlp_accrued_yield = mic 1000000, crank_rewards = 0, referrer_rewards = 0, unstaking = None, cooldown_ends = None\<rparr>"

definition sample_unstaking :: UnstakingXlp where
  "sample_unstaking = \<lparr>xlp_amount = mic 10000000, collected = mic 4000000, unstake_started = 100,
     unstake_duration = 1000, last_collected = 500\<rparr>"

definition sample_carol :: LiquidityStatsByAddr where
  "sample_carol = \<lparr>addr_lp = mic 4000000, addr_xlp = 0, last_accrue_key = 1, lp_accrued_yield = 0,
     xlp_accrued_yield = 0, crank_rewards = mic 1000000, referrer_rewards = 0,
     unstaking = Some sample_unstaking, cooldown_ends = None\<rparr>"

definition sample_pool :: Ctx where
  "sample_pool = \<lparr>
     liquidity_stats = \<lparr>locked = mic 20000000, unlocked = mic 90000000, total_lp = mic 70000000, total_xlp = mic 40000000\<rparr>,
     stats_by_addr = fmupd ''carol'' sample_carol (fmupd ''bob'' sample_bob (fmupd ''alice'' sample_alice fmempty)),
     reset_lp_status = None,
     yield_per_time_per_token = fmupd 1 \<lparr>ypt_lp = mic 10000, ypt_xlp = mic 20000\<rparr>
       (fmupd 0 \<lparr>ypt_lp = 0, ypt_xlp = 0\<rparr> fmempty),
     lp_history_summary = fmempty, lp_history_by_address = fmempty,
     all_fees = \<lparr>fees_wallets = mic 5000000, fees_protocol = mic 3000000, fees_crank = mic 2000000, fees_referral = 0\<rparr>,
     referral_stats_map = fmempty,
     prices = fmupd 500 \<lparr>ps_price = mic 3000000, ps_price_usd = mic 1000000, ps_price_base = mic 3000000,
       ps_publish_time = None, ps_publish_time_usd = None, ps_block_time = None\<rparr> fmempty,
     open_long_interest = mic 2000000, open_short_interest = mic 1000000,
     lp_borrow_fee_series = fmupd 400 \<lparr>dp_prefix_sum = signed_zero, dp_value = new_positive (mic 20000)\<rparr> fmempty,
     xlp_borrow_fee_series = fmupd 400 \<lparr>dp_prefix_sum = signed_zero, dp_value = new_positive (mic 30000)\<rparr> fmempty,
     long_rf_series = fmempty, short_rf_series = fmempty,
     total_net_funding_paid = signed_zero, total_funding_margin = mic 10000000, delta_neutrality_fund = Some (mic 1000000),
     events = [], fund_transfers = fmempty, pos_st = positions_empty, trade_st = trades_empty, nft_st = nft_empty,
     order_st = orders_empty, deferred_st = deferred_empty, crank_st = crank_empty, allowance_st = allowances_empty,
     closing_all_positions = False, deferred_submessages = [], receive_submessages = []\<rparr>"

lemma sample_config_fields [simp]:
  "cfg_mute_events sample_config = False"
  "cfg_protocol_tax sample_config = mic 300000"
  "cfg_max_liquidity sample_config = Unlimited"
  "cfg_liquidity_cooldown_seconds sample_config = 3600"
  "cfg_unstake_period_seconds sample_config = 3888000"
  "cfg_carry_leverage sample_config = mic 10000000"
  "cfg_crank_fee_reward sample_config = mic 90000"
  "cfg_referral_reward_ratio sample_config = mic 50000"
  by (simp_all add: sample_config_def default_config_def config_new_def default_bfs_dec18 mic_def dec_one_def)

lemma sample_env_fields [simp]:
  "env_now sample_env = 600" "env_config sample_env = sample_config\<lparr>cfg_mute_events := True\<rparr>"
  "mid_market_type (env_market_id sample_env) = CollateralIsQuote"
  "is_notional_usd_id (env_market_id sample_env) = False"
  "env_referrer_for sample_env ''alice'' = Inr None" "env_referrer_for sample_env ''carol'' = Inr (Some ''dave'')"
  "env_dao_addr sample_env = Inr ''dao''"
  by (simp_all add: sample_env_def market_id_new_def is_notional_usd_id_def get_notional_def)

lemma sample_provider_fields [simp]:
  "addr_lp sample_alice = mic 60000000" "addr_xlp sample_alice = 0" "last_accrue_key sample_alice = 0"
  "lp_accrued_yield sample_alice = mic 1000000" "xlp_accrued_yield sample_alice = 0" "crank_rewards sample_alice = 0"
  "referrer_rewards sample_alice = 0" "unstaking sample_alice = None" "cooldown_ends sample_alice = Some 300"
  "addr_lp sample_bob = 0" "addr_xlp sample_bob = mic 40000000" "last_accrue_key sample_bob = 1"
  "lp_accrued_yield sample_bob = 0" "xlp_accrued_yield sample_bob = mic 1000000" "crank_rewards sample_bob = 0"
  "referrer_rewards sample_bob = 0" "unstaking sample_bob = None" "cooldown_ends sample_bob = None"
  "addr_lp sample_carol = mic 4000000" "addr_xlp sample_carol = 0" "last_accrue_key sample_carol = 1"
  "lp_accrued_yield sample_carol = 0" "xlp_accrued_yield sample_carol = 0" "crank_rewards sample_carol = mic 1000000"
  "referrer_rewards sample_carol = 0" "unstaking sample_carol = Some sample_unstaking" "cooldown_ends sample_carol = None"
  "xlp_amount sample_unstaking = mic 10000000" "collected sample_unstaking = mic 4000000"
  "unstake_started sample_unstaking = 100" "unstake_duration sample_unstaking = 1000" "last_collected sample_unstaking = 500"
  by (simp_all add: sample_alice_def sample_bob_def sample_carol_def sample_unstaking_def)

definition sample_stats :: LiquidityStats where
  "sample_stats = \<lparr>locked = mic 20000000, unlocked = mic 90000000, total_lp = mic 70000000, total_xlp = mic 40000000\<rparr>"

definition sample_fees :: Fees where
  "sample_fees = \<lparr>fees_wallets = mic 5000000, fees_protocol = mic 3000000, fees_crank = mic 2000000, fees_referral = 0\<rparr>"

definition sample_pp :: PricePoint where
  "sample_pp = \<lparr>price_notional = mic 3000000, price_usd = mic 1000000, price_base = mic 3000000, pp_timestamp = 500,
     is_notional_usd = False, pp_market_type = CollateralIsQuote, pp_publish_time = None, pp_publish_time_usd = None\<rparr>"

lemma sample_record_fields [simp]:
  "locked sample_stats = mic 20000000" "unlocked sample_stats = mic 90000000" "total_lp sample_stats = mic 70000000"
  "total_xlp sample_stats = mic 40000000" "fees_wallets sample_fees = mic 5000000" "fees_protocol sample_fees = mic 3000000"
  "fees_crank sample_fees = mic 2000000" "fees_referral sample_fees = 0" "price_notional sample_pp = mic 3000000"
  "price_usd sample_pp = mic 1000000" "price_base sample_pp = mic 3000000" "pp_market_type sample_pp = CollateralIsQuote"
  "is_notional_usd sample_pp = False"
  by (simp_all add: sample_stats_def sample_fees_def sample_pp_def)

lemma sample_pool_fields [simp]:
  "liquidity_stats sample_pool = sample_stats"
  "stats_by_addr sample_pool = fmupd ''carol'' sample_carol (fmupd ''bob'' sample_bob (fmupd ''alice'' sample_alice fmempty))"
  "reset_lp_status sample_pool = None"
  "lp_history_summary sample_pool = fmempty" "lp_history_by_address sample_pool = fmempty"
  "all_fees sample_pool = sample_fees" "referral_stats_map sample_pool = fmempty"
  "open_long_interest sample_pool = mic 2000000" "open_short_interest sample_pool = mic 1000000"
  "total_net_funding_paid sample_pool = signed_zero" "total_funding_margin sample_pool = mic 10000000"
  "delta_neutrality_fund sample_pool = Some (mic 1000000)" "events sample_pool = []" "fund_transfers sample_pool = fmempty"
  by (simp_all add: sample_pool_def sample_stats_def sample_fees_def)

lemma sample_latest [simp]: "yield_per_time_per_token c = yield_per_time_per_token sample_pool \<Longrightarrow>
    latest_yield_per_token c = Inr (1, \<lparr>ypt_lp = mic 10000, ypt_xlp = mic 20000\<rparr>)"
  by (simp add: latest_yield_per_token_def) (simp add: sample_pool_def fm_last_where_eval)

lemma sample_yield [simp]: "fmlookup (yield_per_time_per_token sample_pool) 0 = Some \<lparr>ypt_lp = 0, ypt_xlp = 0\<rparr>"
  by (simp add: sample_pool_def)

lemma sample_price [simp]: "prices c = prices sample_pool \<Longrightarrow> current_spot_price sample_env c = Inr sample_pp"
  by (simp add: current_spot_price_def spot_price_def spot_price_inner_opt_def)
    (simp add: sample_pool_def sample_pp_def fm_last_where_eval make_price_point_def)

lemma fmsum_upd_eval: "fmsum f (fmupd k v m) = f v + fmsum f m - fmval f m k"
  using fmsum_upd [of f k v m] by simp

lemma sample_pool_inv: "pool_inv sample_pool"
proof -
  have l: "latest_yield_per_token sample_pool = Inr (1, \<lparr>ypt_lp = mic 10000, ypt_xlp = mic 20000\<rparr>)"
    by (simp add: latest_yield_per_token_def sample_pool_def fm_last_where_eval)
  have w: "wf_addr sample_pool s" if "fmlookup (stats_by_addr sample_pool) a = Some s" for a s
  proof -
    have "s = sample_alice \<or> s = sample_bob \<or> s = sample_carol"
      using that by (auto split: if_splits)
    moreover have "wf_unstaking sample_unstaking"
      by (simp add: wf_unstaking_def mic_def dec_lim_def)
    moreover have "fmlookup (yield_per_time_per_token sample_pool) 1
        = Some \<lparr>ypt_lp = mic 10000, ypt_xlp = mic 20000\<rparr>"
      by (simp add: sample_pool_def)
    ultimately show ?thesis
      by (elim disjE) (simp_all add: wf_addr_def l wf_balances_def is_empty_stats_def mic_fits mic_lim_def)
  qed
  have c: "claimable sample_pool sample_alice = dec_one * mic 1000000 + mic 10000 * mic 60000000"
    "claimable sample_pool sample_bob = dec_one * mic 1000000" "claimable sample_pool sample_carol = dec_one * mic 1000000"
    by (simp_all add: claimable_def l) (simp_all add: sample_pool_def sample_alice_def sample_bob_def sample_carol_def
        accrued_total_def yield_owed_def lp_units_def pending_unstake_def)
  have u: "lp_units sample_alice = mic 60000000" "lp_units sample_bob = 0" "lp_units sample_carol = mic 10000000"
    by (simp_all add: lp_units_def pending_unstake_def sample_alice_def sample_bob_def sample_carol_def sample_unstaking_def)
  have s: "fmsum f (stats_by_addr sample_pool) = f sample_alice + f sample_bob + f sample_carol" for f
    by (simp add: sample_pool_def fmsum_upd_eval fmval_def)
  show ?thesis
    unfolding pool_inv_def wf_totals_def s c u using l w
    by (simp add: s c u) (simp add: sample_pool_def sample_alice_def sample_bob_def sample_carol_def dec_one_mic mic_def)
qed

section \<open>Evaluating the operations\<close>

lemmas pool_eval = perform_lp_book_keeping_def update_accrued_yield_def calculate_accrued_yield_def
  load_liquidity_stats_addr_def load_liquidity_stats_addr_default_def new_addr_stats_def
  fm_last_where_eval unstaking_lp_def checked_mul_dec_def collect_unstaked_lp_def save_liquidity_stats_addr_def
  is_empty_stats_def save_liquidity_stats_def total_collateral_def total_tokens_def lp_to_collateral_non_zero_def
  lp_to_collateral_def collateral_to_lp_def u_approx_eq_def u_diff_def nonzero_new_def Let_def
  positions_net_open_interest_def
  signed_checked_sub_def signed_checked_add_def min_unlocked_liquidity_def div_non_zero_dec_def
  notional_to_collateral_def price_notional_to_collateral_def collateral_to_usd_def collateral_to_usd_non_zero_def
  add_pool_size_change_events_def add_delta_neutrality_ratio_event_def pool_size_from_stats_def signed_map_def
  number_checked_div_def add_event_def add_token_transfer_msg_def lp_history_add_action_def next_action_id_def
  lp_history_add_summary_deposit_def lp_history_add_summary_yield_def lp_history_get_summary_def
  ts_plus_seconds_def ts_checked_sub_def

lemma mic_from_u128 [simp]: "n < mic_lim \<Longrightarrow> number_from_u128 dec18 n = Inr (new_positive (mic (n * 1000000)))"
  by (simp add: number_from_u128_def call_defs dec18_def fit_def mic_def mic_lim_def dec_lim_def dec_one_def mult.commute)

lemma mic_from_atomics [simp]: "n < mic_lim \<Longrightarrow> d_from_atomics dec18 n 0 = Inr (mic (n * 1000000))"
  by (simp add: call_defs dec18_def fit_def mic_def mic_lim_def dec_lim_def)

lemmas operation_eval = liquidity_withdraw_def withdraw_shares_def withdraw_stats_def ensure_liquidity_cooldown_def
  get_liquidity_cooldown_def lp_history_add_withdraw_def liquidity_deposit_def liquidity_deposit_inner_def
  ensure_max_liquidity_def lp_history_add_deposit_def liquidity_stake_lp_def liquidity_claim_yield_def total_yield_def
  register_lp_claimed_yield_def lp_history_add_claim_yield_def calculate_unstaked_lp_def lp_history_add_collect_lp_def
  number_checked_mul_def u_try_from_number_def liquidity_lock_new_def liquidity_lock_apply_def
  liquidity_unlock_new_def liquidity_unlock_apply_def
  duration_from_seconds_def ts_add_def
  pool_eval signed_defs mic_eval u64_add_def u64_mul_def u64_lim_def

lemmas fee_eval = collect_trading_fee_inner_def collect_trading_fee_def checked_mul_dec_def
  split_trading_fee_def add_earned_fees_def liquidity_process_new_yield_def div_by_tokens_def fee_event_def
  new_yield_apply_def allocate_crank_fees_def add_lp_crank_rewards_def
  collect_borrow_fee_def borrow_fee_apply_def add_summary_referral_def referral_stats_of_def

lemma sample_withdraw: "is_ok (liquidity_withdraw dec18 sample_env ''alice'' (Some (mic 10000000)) sample_pool)"
  by (simp add: operation_eval)

lemma sample_deposit: "is_ok (liquidity_deposit_inner dec18 sample_env ''bob'' (mic 5000000) True sample_pool)"
  by (simp add: operation_eval)

lemma sample_claim: "is_ok (liquidity_claim_yield dec18 sample_env ''alice'' True sample_pool)"
  by (simp add: operation_eval)

lemma sample_info: "is_ok (lp_info dec18 sample_env sample_pool ''alice'')"
  by (simp add: lp_info_def lp_info_balances_def operation_eval)

lemma sample_collect: "calculate_unstaked_lp dec18 sample_env sample_unstaking = Inr (mic 1000000)"
  by (simp add: operation_eval)

definition sample_lock :: LiquidityLock where
  "sample_lock = \<lparr>ll_amount = mic 3000000, ll_stats = sample_stats\<lparr>locked := mic 23000000, unlocked := mic 87000000\<rparr>,
     ll_price = sample_pp\<rparr>"

lemma sample_lock_new: "liquidity_lock_new dec18 sample_env sample_pool (mic 3000000) sample_pp None None None = Inr sample_lock"
  by (simp add: sample_lock_def operation_eval)

lemma sample_last_rates [simp]:
  "last_rate (lp_borrow_fee_series sample_pool) e = Inr (mic 20000)"
  "last_rate (xlp_borrow_fee_series sample_pool) e = Inr (mic 30000)"
  by (simp_all add: last_rate_def ds_try_load_last_def sample_pool_def fm_last_where_eval signed_defs)

lemma sample_trading_fee: "is_ok (collect_trading_fee_inner dec18 sample_env (mic 10000000) sample_pp
    (TradePosition 7) FeeTrading sample_pool)"
  by (simp add: fee_eval operation_eval)

lemma sample_crank_reward: "is_ok (allocate_crank_fees dec18 sample_env ''alice'' 5 sample_pool)"
  by (simp add: fee_eval operation_eval)

text \<open>The same pool after a loss of all its collateral, at the start of the reset.\<close>

definition drained_pool :: Ctx where
  "drained_pool = sample_pool\<lparr>liquidity_stats := empty_stats, reset_lp_status := Some ResetBegin\<rparr>"

lemma drained_pool_inv: "pool_inv drained_pool"
proof -
  have y: "yield_per_time_per_token drained_pool = yield_per_time_per_token sample_pool"
    by (simp add: drained_pool_def)
  show ?thesis
    using sample_pool_inv
    unfolding pool_inv_def latest_cong [OF y] claimable_cong [OF y] wf_addr_cong [OF y]
    by (auto simp: drained_pool_def wf_totals_def empty_stats_def reset_bound_def simp del: sample_pool_fields(2))
qed

lemma drained_units: "units_fit drained_pool"
  by (auto simp: units_fit_def drained_pool_def lp_units_def pending_unstake_def mic_fits mic_lim_def split: if_splits)

end
