(* ===== verification/PoolProperties.thy ===== *)
theory PoolProperties
  imports PoolExamples
begin

text \<open>
  The properties of the liquidity pool and of the fees: what every reachable state satisfies, what a
  message does to the money the contract owes, and the results of the single operations, each with
  an evaluation on the sample pool.
\<close>

section \<open>Supporting facts\<close>

context decimal256
begin

lemma reachable_pool_inv: "reachable pool_start (pool_step D) ctx \<Longrightarrow> pool_inv ctx"
  by (rule pool.reachable_inv)

lemma fresh_claimable:
  assumes "pool_inv c" "fresh_accrual a c" "fmlookup (stats_by_addr c) a = Some s"
  shows "claimable c s = dec_one * accrued_total s"
proof -
  obtain k y where "latest_yield_per_token c = Inr (k, y)" using pool_inv_latest [OF assms(1)] by blast
  then show ?thesis using assms(2,3) by (intro claimable_fresh) (auto simp: fresh_accrual_def)
qed

lemma accrued_after_update:
  assumes inv: "pool_inv ctx" and u: "update_accrued_yield D a ctx = Inr c"
    and s: "fmlookup (stats_by_addr ctx) a = Some s" and r: "calculate_accrued_yield D ctx s = Inr r"
  shows "\<exists>s1. fmlookup (stats_by_addr c) a = Some s1 \<and> accrued_total s1 = accrued_total s
    + (case r of None \<Rightarrow> 0 | Some (_, acc) \<Rightarrow> la_lp acc + la_xlp acc)"
proof (cases r)
  case None
  with u s r have "c = ctx"
    by (simp add: update_accrued_yield_def load_liquidity_stats_addr_default_def)
  with s None show ?thesis by simp
next
  case (Some x)
  obtain k acc where x: "x = (k, acc)" by (cases x)
  define s' where "s' = s\<lparr>last_accrue_key := k, lp_accrued_yield := lp_accrued_yield s + la_lp acc,
      xlp_accrued_yield := xlp_accrued_yield s + la_xlp acc\<rparr>"
  have "c = save_liquidity_stats_addr a s' ctx"
    using u s r Some x by (auto simp: update_accrued_yield_def load_liquidity_stats_addr_default_def s'_def)
  moreover have "fmlookup (stats_by_addr c) a \<noteq> None"
    using update_accrued_yield_result [OF inv u] s by auto
  ultimately have "fmlookup (stats_by_addr c) a = Some s'"
    by (simp add: save_liquidity_stats_addr_def split: if_splits)
  then show ?thesis by (simp add: Some x s'_def accrued_total_def)
qed

lemma claim_matches_info:
  assumes inv: "pool_inv ctx" and info: "lp_info D env ctx a = Inr r"
    and cl: "liquidity_claim_yield D env a send ctx = Inr (n, ctx')"
  shows "n = li_available_yield r"
proof -
  obtain c1 s2 where bk: "perform_lp_book_keeping D env a ctx = Inr c1"
    and s2: "fmlookup (stats_by_addr c1) a = Some s2" and n: "n = accrued_total s2"
    using cl by (auto simp: liquidity_claim_yield_def load_liquidity_stats_addr_def total_yield_def accrued_total_def)
  obtain s where s: "fmlookup (stats_by_addr ctx) a = Some s"
    using book_keeping_result [OF inv bk] s2 by (auto split: option.splits)
  obtain c0 b where u: "update_accrued_yield D a ctx = Inr c0" and c: "collect_unstaked_lp D env a c0 = Inr (b, c1)"
    using bk by (auto simp: perform_lp_book_keeping_def)
  obtain rr where rr: "calculate_accrued_yield D ctx s = Inr rr"
    using u s by (auto simp: update_accrued_yield_def load_liquidity_stats_addr_default_def)
  obtain s1 where s1: "fmlookup (stats_by_addr c0) a = Some s1" "accrued_total s1 = accrued_total s
      + (case rr of None \<Rightarrow> 0 | Some (_, acc) \<Rightarrow> la_lp acc + la_xlp acc)"
    using accrued_after_update [OF inv u s rr] by blast
  have i0: "pool_inv c0" "fresh_accrual a c0" using update_accrued_yield_result [OF inv u] by auto
  note cr = collect_unstaked_lp_result [OF i0 c]
  have "claimable c1 s2 = claimable c0 s1" using cr s1 s2 by auto
  moreover have "claimable c0 s1 = dec_one * accrued_total s1" by (rule fresh_claimable [OF i0 s1(1)])
  moreover have "claimable c1 s2 = dec_one * accrued_total s2" using fresh_claimable [of c1 a] cr s2 by blast
  ultimately have "accrued_total s2 = accrued_total s1" by simp
  then show ?thesis
    using info s rr s1 n by (auto simp: lp_info_def load_liquidity_stats_addr_default_def accrued_total_def
        Let_def split: option.splits if_splits)
qed

lemma deposit_reset:
  assumes inv: "pool_inv ctx" "reset_lp_status ctx = None" and n: "0 < n"
    and dp: "liquidity_deposit D env a n False ctx = Inr ctx'"
  shows "reset_lp_status ctx' = None \<and> 0 < total_lp (liquidity_stats ctx')"
proof -
  obtain x c1 where d: "liquidity_deposit_inner D env a n True ctx = Inr (x, c1)"
    and hi: "lp_history_add_deposit D env a x n False c1 = Inr ctx'"
    using dp by (auto simp: liquidity_deposit_def)
  have "reset_lp_status c1 = None" "0 < total_lp (liquidity_stats c1)"
    using deposit_inner_result [OF inv n d] by auto
  then show ?thesis using history_same(1) [OF hi] by (auto simp: same_pool_def)
qed

end

section \<open>Reachable states\<close>

text \<open>C2: In every state the pool can reach through provider messages, liquidity locking, the collection of borrow,
  trading and delta neutrality fees (trading fees shared with a referrer included), crank rewards and the steps of a
  reset: outside a reset the protocol-wide LP and xLP totals are exactly the sums over the providers (tokens still
  unstaking count as LP); a pool without collateral has no tokens; and the wallets and the referral balance together
  cover the sum of all the yield, crank and referrer rewards credited to providers.\<close>

theorem pool_books_balance:
  assumes "decimal256 D" "reachable pool_start (pool_step D) ctx"
  shows "(reset_lp_status ctx = None \<longrightarrow>
        total_lp (liquidity_stats ctx) = fmsum lp_units (stats_by_addr ctx)
        \<and> total_xlp (liquidity_stats ctx) = fmsum addr_xlp (stats_by_addr ctx))
    \<and> (locked (liquidity_stats ctx) + unlocked (liquidity_stats ctx) = 0 \<longrightarrow>
        total_lp (liquidity_stats ctx) = 0 \<and> total_xlp (liquidity_stats ctx) = 0)
    \<and> fmsum accrued_total (stats_by_addr ctx) \<le> fees_wallets (all_fees ctx) + fees_referral (all_fees ctx)"
proof -
  have inv: "pool_inv ctx" by (rule decimal256.reachable_pool_inv [OF assms])
  then show ?thesis using decimal256.accrued_le_wallets [OF assms(1) inv]
    by (auto simp: pool_inv_def wf_totals_def split: option.splits)
qed

definition funded_pool :: Ctx where
  "funded_pool = yield_init (liquidity_init (fees_init (sample_pool\<lparr>yield_per_time_per_token := fmempty,
     stats_by_addr := fmempty\<rparr>)))"

lemma funded_pool_start: "pool_start funded_pool"
  unfolding pool_start_def funded_pool_def by (rule exI, intro conjI; (rule refl)?) simp_all

lemma funded_deposit: "is_ok (execute_lp_msg dec18 sample_env ''alice'' (DepositLiquidityMsg (mic 5000000) False) funded_pool)"
proof -
  have [simp]: "prices funded_pool = prices sample_pool" "liquidity_stats funded_pool = empty_stats"
    "stats_by_addr funded_pool = fmempty" "reset_lp_status funded_pool = None"
    "yield_per_time_per_token funded_pool = fmupd 0 \<lparr>ypt_lp = 0, ypt_xlp = 0\<rparr> fmempty"
    "open_long_interest funded_pool = mic 2000000" "open_short_interest funded_pool = mic 1000000"
    "lp_history_summary funded_pool = fmempty" "lp_history_by_address funded_pool = fmempty"
    by (simp_all add: funded_pool_def yield_init_def liquidity_init_def fees_init_def)
  show ?thesis
    by (simp add: execute_lp_msg_def msg_kind_def ensure_not_resetting_lps_def should_reset_lp_balances_def
      latest_yield_per_token_def operation_eval empty_stats_def mic_with_zero)
qed

theorem pool_books_balance_witness:
  "\<exists>ctx :: Ctx. stats_by_addr ctx \<noteq> fmempty \<and> total_lp (liquidity_stats ctx) = fmsum lp_units (stats_by_addr ctx)
     \<and> fmsum accrued_total (stats_by_addr ctx) \<le> fees_wallets (all_fees ctx) + fees_referral (all_fees ctx)"
proof -
  obtain ctx where e: "execute_lp_msg dec18 sample_env ''alice'' (DepositLiquidityMsg (mic 5000000) False) funded_pool = Inr ctx"
    using funded_deposit by (auto simp: is_ok_iff)
  have "pool_step dec18 funded_pool ctx" using e by (rule pool_step.message) (simp add: valid_msg_def)
  moreover have "reachable pool_start (pool_step dec18) funded_pool"
    using funded_pool_start by (rule reachable.start)
  ultimately have r: "reachable pool_start (pool_step dec18) ctx" by (rule reachable.move [rotated])
  have d: "liquidity_deposit dec18 sample_env ''alice'' (mic 5000000) False funded_pool = Inr ctx"
    using e by (simp add: execute_lp_msg_def)
  note i = pool_start_inv [OF funded_pool_start]
  have "reset_lp_status funded_pool = None"
    by (simp add: funded_pool_def yield_init_def liquidity_init_def fees_init_def)
  note dr = d18.deposit_reset [OF i this _ d]
  have "reset_lp_status ctx = None \<and> 0 < total_lp (liquidity_stats ctx)" using dr by simp
  moreover from this have "stats_by_addr ctx \<noteq> fmempty"
    using pool_books_balance [OF d18.decimal256_axioms r] by auto
  ultimately have "stats_by_addr ctx \<noteq> fmempty \<and> total_lp (liquidity_stats ctx) = fmsum lp_units (stats_by_addr ctx)
     \<and> fmsum accrued_total (stats_by_addr ctx) \<le> fees_wallets (all_fees ctx) + fees_referral (all_fees ctx)"
    using pool_books_balance [OF d18.decimal256_axioms r] by simp
  then show ?thesis by blast
qed

text \<open>C5: A message that touches the pool or the fees only, in a state that satisfies the books' invariant, keeps the
  invariant and accounts for every unit of collateral: what the contract owes afterwards (pool, fee balances, delta
  neutrality fund and the transfers it sends) is what it owed before plus the funds sent with the message. Only a
  withdrawal that burns the last token of the pool can leave something behind, and then less than the dust
  threshold.\<close>

theorem messages_conserve_collateral:
  assumes "decimal256 D" "pool_inv ctx" "valid_msg msg" "execute_lp_msg D env sender msg ctx = Inr ctx'"
  shows "pool_inv ctx' \<and> liabilities ctx' \<le> liabilities ctx + funds_in msg
    \<and> (if is_withdraw msg \<and> stats_tokens (liquidity_stats ctx') = 0
       then liabilities ctx < liabilities ctx' + dust
       else liabilities ctx' = liabilities ctx + funds_in msg)"
  by (rule decimal256.execute_result [OF assms])

lemma sample_message: "is_ok (execute_lp_msg dec18 sample_env ''bob'' (DepositLiquidityMsg (mic 5000000) False) sample_pool)"
  by (simp add: execute_lp_msg_def msg_kind_def ensure_not_resetting_lps_def should_reset_lp_balances_def operation_eval)

theorem messages_conserve_collateral_witness:
  "\<exists>ctx'. execute_lp_msg dec18 sample_env ''bob'' (DepositLiquidityMsg (mic 5000000) False) sample_pool = Inr ctx'
     \<and> pool_inv ctx' \<and> liabilities ctx' = liabilities sample_pool + mic 5000000"
proof -
  obtain ctx' where e: "execute_lp_msg dec18 sample_env ''bob'' (DepositLiquidityMsg (mic 5000000) False) sample_pool = Inr ctx'"
    using sample_message by (auto simp: is_ok_iff)
  have v: "valid_msg (DepositLiquidityMsg (mic 5000000) False)" by (simp add: valid_msg_def)
  show ?thesis
    using e messages_conserve_collateral [OF d18.decimal256_axioms sample_pool_inv v e] by (simp add: is_withdraw_def funds_in_def)
qed

section \<open>Providers\<close>

text \<open>C17: A deposit mints a positive number of LP tokens, adds exactly the deposited collateral to the unlocked part of
  the pool, and never lowers the collateral behind each of the tokens that existed before.\<close>

theorem deposit_never_dilutes:
  assumes "decimal256 D" "pool_inv ctx" "reset_lp_status ctx = None" "0 < amount"
    "liquidity_deposit_inner D env lp_addr amount start_cooldown ctx = Inr (shares, ctx')"
  shows "0 < shares
    \<and> unlocked (liquidity_stats ctx') = unlocked (liquidity_stats ctx) + amount
    \<and> total_lp (liquidity_stats ctx') = total_lp (liquidity_stats ctx) + shares
    \<and> stats_collateral (liquidity_stats ctx) * stats_tokens (liquidity_stats ctx')
       \<le> stats_collateral (liquidity_stats ctx') * stats_tokens (liquidity_stats ctx)
    \<and> liabilities ctx' = liabilities ctx + amount \<and> pool_inv ctx'"
  using decimal256.deposit_inner_result [OF assms] by (simp add: share_price_kept_def)

theorem deposit_never_dilutes_witness:
  "\<exists>shares ctx'. liquidity_deposit_inner dec18 sample_env ''bob'' (mic 5000000) True sample_pool = Inr (shares, ctx')
     \<and> 0 < shares \<and> unlocked (liquidity_stats ctx') = mic 90000000 + mic 5000000"
proof -
  obtain r where "liquidity_deposit_inner dec18 sample_env ''bob'' (mic 5000000) True sample_pool = Inr r"
    using sample_deposit by (auto simp: is_ok_iff)
  then have e: "liquidity_deposit_inner dec18 sample_env ''bob'' (mic 5000000) True sample_pool = Inr (fst r, snd r)"
    by simp
  show ?thesis
    using e deposit_never_dilutes [OF d18.decimal256_axioms sample_pool_inv _ _ e] by (intro exI [of _ "fst r"] exI [of _ "snd r"]) simp
qed

text \<open>C15: A withdrawal happens only after the cooldown, burns at most what the provider owns and exactly the requested
  amount when one is given, pays a positive amount that is at most the share of the burnt tokens in the pool, leaves
  the liquidity the net open interest requires unlocked, sends the provider exactly what it takes from the unlocked
  liquidity (a withdrawal of the last token empties the pool and leaves less than the dust threshold behind), takes
  exactly the burnt tokens from the LP total and from the provider, changes no fee balance and no other account, and
  never lowers the collateral behind each remaining token.\<close>

theorem withdrawal_is_bounded:
  assumes "decimal256 D" "pool_inv ctx" "reset_lp_status ctx = None" "lp_amount \<noteq> Some 0"
    "liquidity_withdraw D env lp_addr lp_amount ctx = Inr ctx'"
  shows "\<exists>burnt paid net price reserve s.
      fmlookup (stats_by_addr ctx) lp_addr = Some s \<and> ensure_liquidity_cooldown env s = Inr ()
    \<and> 0 < burnt \<and> burnt \<le> lp_units s \<and> (case lp_amount of None \<Rightarrow> True | Some x \<Rightarrow> burnt = x)
    \<and> 0 < paid \<and> paid * stats_tokens (liquidity_stats ctx) \<le> stats_collateral (liquidity_stats ctx) * burnt
    \<and> positions_net_open_interest D ctx = Inr net \<and> current_spot_price env ctx = Inr price
    \<and> min_unlocked_liquidity D env net price = Inr reserve \<and> paid + reserve \<le> unlocked (liquidity_stats ctx)
    \<and> transfers_total ctx' = transfers_total ctx + paid \<and> pool_inv ctx'
    \<and> fund_transfers ctx' = fmupd lp_addr (fmval (\<lambda>v. v) (fund_transfers ctx) lp_addr + paid) (fund_transfers ctx)
    \<and> burnt \<le> total_lp (liquidity_stats ctx)
    \<and> (if burnt = stats_tokens (liquidity_stats ctx)
       then liquidity_stats ctx' = empty_stats \<and> stats_collateral (liquidity_stats ctx) < paid + dust
       else liquidity_stats ctx' = (liquidity_stats ctx)\<lparr>total_lp := total_lp (liquidity_stats ctx) - burnt,
         unlocked := unlocked (liquidity_stats ctx) - paid\<rparr>)
    \<and> fmval lp_units (stats_by_addr ctx') lp_addr + burnt = lp_units s
    \<and> fmval addr_xlp (stats_by_addr ctx') lp_addr = addr_xlp s
    \<and> (\<forall>b. b \<noteq> lp_addr \<longrightarrow> fmlookup (stats_by_addr ctx') b = fmlookup (stats_by_addr ctx) b)
    \<and> all_fees ctx' = all_fees ctx \<and> reset_lp_status ctx' = None
    \<and> (stats_tokens (liquidity_stats ctx') \<noteq> 0 \<longrightarrow>
         stats_collateral (liquidity_stats ctx) * stats_tokens (liquidity_stats ctx')
           \<le> stats_collateral (liquidity_stats ctx') * stats_tokens (liquidity_stats ctx))"
proof (rule decimal256.withdraw_result [OF assms])
  fix burnt paid net price reserve s
  assume *: "pool_inv ctx'" "0 < burnt" "0 < paid" "case lp_amount of None \<Rightarrow> True | Some x \<Rightarrow> burnt = x"
    "paid * stats_tokens (liquidity_stats ctx) \<le> stats_collateral (liquidity_stats ctx) * burnt"
    "positions_net_open_interest D ctx = Inr net" "current_spot_price env ctx = Inr price"
    "min_unlocked_liquidity D env net price = Inr reserve" "paid + reserve \<le> unlocked (liquidity_stats ctx)"
    "fmlookup (stats_by_addr ctx) lp_addr = Some s" "ensure_liquidity_cooldown env s = Inr ()"
    "burnt \<le> lp_units s" "transfers_total ctx' = transfers_total ctx + paid"
    "if burnt = stats_tokens (liquidity_stats ctx)
      then liquidity_stats ctx' = empty_stats \<and> stats_collateral (liquidity_stats ctx) < paid + dust
      else liquidity_stats ctx' = (liquidity_stats ctx)\<lparr>total_lp := total_lp (liquidity_stats ctx) - burnt,
        unlocked := unlocked (liquidity_stats ctx) - paid\<rparr>"
    "burnt \<le> total_lp (liquidity_stats ctx)" "reset_lp_status ctx' = None" "all_fees ctx' = all_fees ctx"
    "fmval lp_units (stats_by_addr ctx') lp_addr + burnt = lp_units s"
    "fmval addr_xlp (stats_by_addr ctx') lp_addr = addr_xlp s"
    "fund_transfers ctx' = fmupd lp_addr (fmval (\<lambda>v. v) (fund_transfers ctx) lp_addr + paid) (fund_transfers ctx)"
  assume "\<And>b. b \<noteq> lp_addr \<Longrightarrow> fmlookup (stats_by_addr ctx') b = fmlookup (stats_by_addr ctx) b"
    and "stats_tokens (liquidity_stats ctx') \<noteq> 0 \<Longrightarrow> liabilities ctx' = liabilities ctx
      \<and> share_price_kept (liquidity_stats ctx) (liquidity_stats ctx')"
  with * show ?thesis
    unfolding share_price_kept_def
    by (intro exI [of _ burnt] exI [of _ paid] exI [of _ net] exI [of _ price] exI [of _ reserve] exI [of _ s] conjI)
      (assumption | simp; fail)+
qed

theorem withdrawal_is_bounded_witness:
  "\<exists>ctx' paid. liquidity_withdraw dec18 sample_env ''alice'' (Some (mic 10000000)) sample_pool = Inr ctx'
     \<and> 0 < paid \<and> paid * mic 110000000 \<le> mic 110000000 * mic 10000000 \<and> transfers_total ctx' = paid"
proof -
  obtain ctx' where e: "liquidity_withdraw dec18 sample_env ''alice'' (Some (mic 10000000)) sample_pool = Inr ctx'"
    using sample_withdraw by (auto simp: is_ok_iff)
  have t: "stats_tokens sample_stats = mic 110000000" "stats_collateral sample_stats = mic 110000000"
      "transfers_total sample_pool = 0"
    by (simp_all add: stats_tokens_def stats_collateral_def transfers_total_def) (simp_all add: mic_def)
  show ?thesis
    using e withdrawal_is_bounded [OF d18.decimal256_axioms sample_pool_inv _ _ e] by (auto simp: t)
qed

text \<open>C18: What a provider receives when it claims its yield is exactly the available yield the query
  reported in the same state, although the claim first accrues the latest yield and collects unstaked tokens.\<close>

theorem claimed_yield_matches_query:
  assumes "decimal256 D" "pool_inv ctx" "lp_info D env ctx lp_addr = Inr info"
    "liquidity_claim_yield D env lp_addr send_to_wallet ctx = Inr (claimed, ctx')"
  shows "claimed = li_available_yield info"
  by (rule decimal256.claim_matches_info [OF assms])

theorem claimed_yield_matches_query_witness:
  "\<exists>claimed ctx' info. lp_info dec18 sample_env sample_pool ''alice'' = Inr info
     \<and> liquidity_claim_yield dec18 sample_env ''alice'' True sample_pool = Inr (claimed, ctx')
     \<and> claimed = li_available_yield info"
proof -
  obtain r info where e: "liquidity_claim_yield dec18 sample_env ''alice'' True sample_pool = Inr (fst r, snd r)"
    and i: "lp_info dec18 sample_env sample_pool ''alice'' = Inr info"
    using sample_claim sample_info by (auto simp: is_ok_iff)
  show ?thesis
    using e i claimed_yield_matches_query [OF d18.decimal256_axioms sample_pool_inv i e] by (intro exI) simp
qed

text \<open>A claim of yield never fails for lack of funds: it pays a positive amount out of the wallets balance, which
  covers it, leaves the pool itself untouched, and what is sent to the provider is what the books lose.\<close>

theorem yield_claim_is_covered:
  assumes "decimal256 D" "pool_inv ctx" "reset_lp_status ctx = None"
    "liquidity_claim_yield D env lp_addr send_to_wallet ctx = Inr (claimed, ctx')"
  shows "0 < claimed \<and> liquidity_stats ctx' = liquidity_stats ctx \<and> pool_inv ctx'
    \<and> liabilities ctx' + (if send_to_wallet then 0 else claimed) = liabilities ctx"
  using decimal256.claim_result [OF assms] by simp

theorem yield_claim_is_covered_witness:
  "\<exists>claimed ctx'. liquidity_claim_yield dec18 sample_env ''alice'' True sample_pool = Inr (claimed, ctx')
     \<and> 0 < claimed \<and> liabilities ctx' = liabilities sample_pool"
proof -
  obtain r where e: "liquidity_claim_yield dec18 sample_env ''alice'' True sample_pool = Inr (fst r, snd r)"
    using sample_claim by (auto simp: is_ok_iff)
  show ?thesis
    using e yield_claim_is_covered [OF d18.decimal256_axioms sample_pool_inv _ e] by (intro exI [of _ "fst r"] exI [of _ "snd r"]) simp
qed

text \<open>Unstaking releases tokens linearly: a collection never takes more than the remaining tokens, after the
  unstaking period it takes exactly the rest, and before that the total collected stays below the share of the period
  that has passed.\<close>

theorem unstaking_is_linear:
  assumes "decimal256 D" "wf_unstaking u" "calculate_unstaked_lp D env u = Inr n"
  shows "collected u + n \<le> xlp_amount u
    \<and> (unstake_duration u \<le> env_now env - unstake_started u \<longrightarrow> collected u + n = xlp_amount u)
    \<and> (env_now env - unstake_started u < unstake_duration u \<longrightarrow>
         (collected u + n) * unstake_duration u \<le> xlp_amount u * (env_now env - unstake_started u))"
proof -
  note b = decimal256.calculate_unstaked_lp_bound [OF assms]
  have le: "collected u + n \<le> xlp_amount u" by (rule decimal256.unstaking_after_collect(1) [OF assms])
  have w: "collected u < xlp_amount u" "unstake_started u \<le> last_collected u"
      "collected u * unstake_duration u \<le> xlp_amount u * (last_collected u - unstake_started u)"
    using assms(2) by (simp_all add: wf_unstaking_def)
  have "(collected u + n) * unstake_duration u \<le> xlp_amount u * (env_now env - unstake_started u)"
    if d: "env_now env - unstake_started u < unstake_duration u"
  proof -
    have "last_collected u \<le> env_now env" "n * unstake_duration u \<le> xlp_amount u * (env_now env - last_collected u)"
      using b(3) d by auto
    moreover from this have "env_now env - unstake_started u = (last_collected u - unstake_started u) + (env_now env - last_collected u)"
      using w by simp
    ultimately show ?thesis using w by (simp only: add_mult_distrib add_mult_distrib2)
  qed
  then show ?thesis using le b(2) w by auto
qed

theorem unstaking_is_linear_witness:
  "calculate_unstaked_lp dec18 sample_env sample_unstaking = Inr (mic 1000000)
     \<and> (mic 4000000 + mic 1000000) * 1000 \<le> mic 10000000 * 500"
proof -
  have w: "wf_unstaking sample_unstaking" by (simp add: wf_unstaking_def mic_def dec_lim_def)
  show ?thesis
    using unstaking_is_linear [OF d18.decimal256_axioms w sample_collect] sample_collect by simp
qed

section \<open>Locking, resets and fees\<close>

text \<open>Locking counter collateral moves it from the unlocked to the locked part and unlocking the same amount moves
  it back: the totals of the pool are restored, and at no moment does the contract owe more or less.\<close>

theorem lock_unlock_restores:
  assumes "decimal256 D" "pool_inv ctx"
    "liquidity_lock_new D env ctx n price delta over None = Inr l" "liquidity_lock_apply D env l ctx = Inr ctx1"
    "liquidity_unlock_new D ctx1 n price' None = Inr ul" "liquidity_unlock_apply D env' ul ctx1 = Inr ctx2"
  shows "liquidity_stats ctx2 = liquidity_stats ctx \<and> liabilities ctx1 = liabilities ctx
    \<and> liabilities ctx2 = liabilities ctx \<and> pool_inv ctx2
    \<and> locked (liquidity_stats ctx1) = locked (liquidity_stats ctx) + n
    \<and> unlocked (liquidity_stats ctx1) + n = unlocked (liquidity_stats ctx)"
proof -
  note l = decimal256.lock_result [OF assms(1-4)]
  then have i: "pool_inv ctx1" by simp
  show ?thesis using l decimal256.unlock_result [OF assms(1) i assms(5,6)] by simp
qed

lemma sample_unlock:
  "is_ok (and_then (liquidity_lock_apply dec18 sample_env sample_lock sample_pool) (\<lambda>ctx1.
     and_then (liquidity_unlock_new dec18 ctx1 (mic 3000000) sample_pp None) (\<lambda>ul.
     liquidity_unlock_apply dec18 sample_env ul ctx1)))"
  by (simp add: sample_lock_def operation_eval)

theorem lock_unlock_restores_witness:
  "\<exists>ctx1 ul ctx2. liquidity_lock_apply dec18 sample_env sample_lock sample_pool = Inr ctx1
     \<and> liquidity_unlock_new dec18 ctx1 (mic 3000000) sample_pp None = Inr ul
     \<and> liquidity_unlock_apply dec18 sample_env ul ctx1 = Inr ctx2 \<and> liquidity_stats ctx2 = sample_stats"
proof -
  obtain ctx1 ul ctx2 where e: "liquidity_lock_apply dec18 sample_env sample_lock sample_pool = Inr ctx1"
    "liquidity_unlock_new dec18 ctx1 (mic 3000000) sample_pp None = Inr ul"
    "liquidity_unlock_apply dec18 sample_env ul ctx1 = Inr ctx2"
    using sample_unlock unfolding is_ok_iff and_then_eq_Inr by blast
  show ?thesis
    using e lock_unlock_restores [OF d18.decimal256_axioms sample_pool_inv sample_lock_new e] by (metis sample_pool_fields(1))
qed

text \<open>C16: The reset of a drained pool terminates: from any state of a reset a bounded number of cranks, one per
  provider still to be visited and one more, finishes it without an error. No credited yield is lost on the way: the
  account of every provider still to be visited ends without tokens, with its LP and xLP yield raised by exactly the
  yield it had earned since its last accrual and with its crank and referrer rewards unchanged, every other account
  stays as it is, and nothing but the accounts and the status of the reset changes.\<close>

theorem reset_terminates:
  assumes "decimal256 D" "pool_inv ctx" "units_fit ctx" "reset_lp_status ctx \<noteq> None"
  shows "\<exists>n ctx'. n \<le> Suc (card (reset_pending ctx)) \<and> crank_resets D n ctx = Inr ctx'
    \<and> pool_inv ctx' \<and> ctx' = ctx\<lparr>stats_by_addr := stats_by_addr ctx', reset_lp_status := None\<rparr>
    \<and> (\<forall>a. if a \<in> reset_pending ctx
         then \<exists>s. fmlookup (stats_by_addr ctx) a = Some s \<and> settled D ctx s a ctx'
         else fmlookup (stats_by_addr ctx') a = fmlookup (stats_by_addr ctx) a)"
  using decimal256.reset_finishes [OF assms] unfolding reset_accounts_def .

theorem reset_terminates_witness:
  "\<exists>n ctx'. n \<le> 4 \<and> crank_resets dec18 n drained_pool = Inr ctx' \<and> reset_lp_status ctx' = None"
proof -
  have r: "reset_lp_status drained_pool \<noteq> None" by (simp add: drained_pool_def)
  have "fmdom' (stats_by_addr drained_pool) = {''alice'', ''bob'', ''carol''}"
    by (auto simp: drained_pool_def)
  then have "card (reset_pending drained_pool) \<le> card {''alice'', ''bob'', ''carol''}"
    unfolding reset_pending_def by (intro card_mono) auto
  then have c: "Suc (card (reset_pending drained_pool)) \<le> 4" by simp
  show ?thesis
    using reset_terminates [OF d18.decimal256_axioms drained_pool_inv drained_units r]
  proof (elim exE conjE)
    fix n ctx'
    assume n: "n \<le> Suc (card (reset_pending drained_pool))" "crank_resets dec18 n drained_pool = Inr ctx'"
      and e: "ctx' = drained_pool\<lparr>stats_by_addr := stats_by_addr ctx', reset_lp_status := None\<rparr>"
    have "reset_lp_status ctx' = None" by (subst e) simp
    then show ?thesis using n c by (meson le_trans)
  qed
qed

text \<open>C19: A trading fee is split completely: the protocol gets its tax rounded down; of the rest the LP side gets
  everything when the xLP borrow rate is zero, nothing when the LP rate is zero, and else its share in proportion to the
  two rates, rounded down twice; the xLP side gets what remains. The wallets grow by the two parts and the protocol
  balance by the tax, and the yield per LP token and per xLP token rise by their own part divided by the tokens of
  their kind (not at all when there are none).\<close>

theorem trading_fee_is_split:
  assumes "decimal256 D" "pool_inv ctx" "collect_trading_fee_inner D env amount price trade_id source ctx = Inr ctx'"
  shows "\<exists>l x p lp xlp k v. l + x + p = amount \<and> p = amount * cfg_protocol_tax (env_config env) div dec_one
    \<and> last_rate (lp_borrow_fee_series ctx) ''LP_BORROW_FEE_DATA_SERIES gave a negative value'' = Inr lp
    \<and> last_rate (xlp_borrow_fee_series ctx) ''XLP_BORROW_FEE_DATA_SERIES gave a negative value'' = Inr xlp
    \<and> (lp \<noteq> 0 \<or> xlp \<noteq> 0)
    \<and> l = (if lp = 0 then 0 else if xlp = 0 then amount - p
           else (amount - p) * lp div dec_one * dec_one div (lp + xlp))
    \<and> l * (lp + xlp) \<le> (amount - p) * lp \<and> (amount - p) * lp < (l + 1) * (lp + xlp) + dec_one
    \<and> latest_yield_per_token ctx = Inr (k, v)
    \<and> latest_yield_per_token ctx' = Inr (k + 1,
        \<lparr>ypt_lp = ypt_lp v + per_token l (total_lp (liquidity_stats ctx)),
         ypt_xlp = ypt_xlp v + per_token x (total_xlp (liquidity_stats ctx))\<rparr>)
    \<and> all_fees ctx' = (all_fees ctx)\<lparr>fees_wallets := fees_wallets (all_fees ctx) + (l + x),
         fees_protocol := fees_protocol (all_fees ctx) + p\<rparr> \<and> pool_inv ctx'"
proof (rule decimal256.trading_fee_inner_result [OF assms])
  fix l x p lp xlp ev k and v :: YieldPerToken
  let ?y = "\<lparr>ypt_lp = ypt_lp v + per_token l (total_lp (liquidity_stats ctx)),
      ypt_xlp = ypt_xlp v + per_token x (total_xlp (liquidity_stats ctx))\<rparr>"
  assume *: "pool_inv ctx'" "p = amount * cfg_protocol_tax (env_config env) div dec_one" "l + x + p = amount"
    "last_rate (lp_borrow_fee_series ctx) ''LP_BORROW_FEE_DATA_SERIES gave a negative value'' = Inr lp"
    "last_rate (xlp_borrow_fee_series ctx) ''XLP_BORROW_FEE_DATA_SERIES gave a negative value'' = Inr xlp"
    "lp \<noteq> 0 \<or> xlp \<noteq> 0" "l = lp_fee_part (amount - p) lp xlp" "latest_yield_per_token ctx = Inr (k, v)"
    "all_fees ctx' = (all_fees ctx)\<lparr>fees_wallets := fees_wallets (all_fees ctx) + (l + x),
      fees_protocol := fees_protocol (all_fees ctx) + p\<rparr>"
    and up: "yield_per_time_per_token ctx' = fmupd (k + 1) ?y (yield_per_time_per_token ctx)"
  have y: "latest_yield_per_token ctx' = Inr (k + 1, ?y)"
    by (rule decimal256.latest_upd [OF assms(1) *(8) _ up]) simp
  note b = decimal256.lp_fee_part_bounds [OF assms(1) *(6), of "amount - p", folded *(7)]
  note l = *(7) [unfolded lp_fee_part_def]
  show ?thesis
    by (intro exI [of _ l] exI [of _ x] exI [of _ p] exI [of _ lp] exI [of _ xlp] exI [of _ k] exI [of _ v] conjI)
      (fact * y b l)+
qed

theorem trading_fee_is_split_witness:
  "\<exists>ctx' l x p. collect_trading_fee_inner dec18 sample_env (mic 10000000) sample_pp (TradePosition 7) FeeTrading sample_pool
       = Inr ctx' \<and> l + x + p = mic 10000000 \<and> fees_wallets (all_fees ctx') = mic 5000000 + (l + x)
     \<and> fees_protocol (all_fees ctx') = mic 3000000 + p"
proof -
  obtain ctx' where e: "collect_trading_fee_inner dec18 sample_env (mic 10000000) sample_pp (TradePosition 7) FeeTrading sample_pool = Inr ctx'"
    using sample_trading_fee by (auto simp: is_ok_iff)
  obtain l x p where "l + x + p = mic 10000000" "all_fees ctx' = sample_fees\<lparr>fees_wallets := mic 5000000 + (l + x),
         fees_protocol := mic 3000000 + p\<rparr>"
    using trading_fee_is_split [OF d18.decimal256_axioms sample_pool_inv e] by auto
  then show ?thesis using e by (intro exI [of _ ctx'] exI [of _ l] exI [of _ x] exI [of _ p]) simp
qed

text \<open>What the referral statistics and the providers' accounts see of a fee that has a referrer.\<close>

context decimal256
begin

lemma trading_fee_inner_keeps_referrals:
  "collect_trading_fee_inner D env n price tid src c = Inr c' \<Longrightarrow>
     referral_stats_map c' = referral_stats_map c \<and> stats_by_addr c' = stats_by_addr c"
  by (auto simp: collect_trading_fee_inner_def add_earned_fees_def new_yield_apply_def)

lemma summary_referral_counts:
  assumes "add_summary_referral D env owner a r c = Inr c'"
  shows "all_fees c' = all_fees c \<and> stats_by_addr c' = stats_by_addr c
    \<and> cu_collateral (rs_generated (referral_stats_of c' b))
      = cu_collateral (rs_generated (referral_stats_of c b)) + (if b = owner then r else 0)
    \<and> cu_collateral (rs_received (referral_stats_of c' b))
      = cu_collateral (rs_received (referral_stats_of c b)) + (if b = a then r else 0)"
  using assms by (auto simp: add_summary_referral_def Let_def referral_stats_of_def cu_checked_add_assign_def)

lemma referred_fee_parts:
  assumes "env_referrer_for env owner = Inr (Some a)"
    "collect_trading_fee D env pid amount price source owner ctx = Inr ctx'"
  obtains r s f c1 c2 where "r = amount * cfg_referral_reward_ratio (env_config env) div dec_one" "r \<le> amount"
    "f = (all_fees ctx)\<lparr>fees_referral := fees_referral (all_fees ctx) + r\<rparr>"
    "load_liquidity_stats_addr_default (ctx\<lparr>all_fees := f\<rparr>) a = Inr s"
    "c1 = save_liquidity_stats_addr a (s\<lparr>referrer_rewards := referrer_rewards s + r\<rparr>) (ctx\<lparr>all_fees := f\<rparr>)"
    "(if r = 0 then Inr c1 else add_summary_referral D env owner a r c1) = Inr c2"
    "collect_trading_fee_inner D env (amount - r) price (TradePosition pid) source c2 = Inr ctx'"
  using assms by (auto simp: collect_trading_fee_def Let_def checked_mul_dec_def)

end

text \<open>C20: The reward of a referrer comes out of the trading fee: of a fee of a trader with a referrer the configured
  share, rounded down, is credited to the account of the referrer and to the referral balance, and only the rest is
  split between the protocol and the wallets, the protocol taking its tax of the rest. No other account changes, the
  claims on the contract grow by the fee, the pool stays consistent, and the statistics count the reward once as
  generated by the trader and once as received by the referrer.\<close>

theorem referral_reward_is_booked:
  assumes "decimal256 D" "pool_inv ctx" "env_referrer_for env owner = Inr (Some a)"
    "collect_trading_fee D env pid amount price source owner ctx = Inr ctx'"
  shows "\<exists>r p s. r = amount * cfg_referral_reward_ratio (env_config env) div dec_one \<and> r \<le> amount
    \<and> p = (amount - r) * cfg_protocol_tax (env_config env) div dec_one \<and> p \<le> amount - r
    \<and> all_fees ctx' = (all_fees ctx)\<lparr>fees_referral := fees_referral (all_fees ctx) + r,
         fees_wallets := fees_wallets (all_fees ctx) + (amount - r - p), fees_protocol := fees_protocol (all_fees ctx) + p\<rparr>
    \<and> load_liquidity_stats_addr_default ctx a = Inr s
    \<and> stats_by_addr ctx' = stats_by_addr
         (save_liquidity_stats_addr a (s\<lparr>referrer_rewards := referrer_rewards s + r\<rparr>) ctx)
    \<and> liabilities ctx' = liabilities ctx + amount \<and> pool_inv ctx'
    \<and> (\<forall>b. cu_collateral (rs_generated (referral_stats_of ctx' b))
           = cu_collateral (rs_generated (referral_stats_of ctx b)) + (if b = owner then r else 0)
         \<and> cu_collateral (rs_received (referral_stats_of ctx' b))
           = cu_collateral (rs_received (referral_stats_of ctx b)) + (if b = a then r else 0))"
proof -
  obtain r s f c1 c2 where r: "r = amount * cfg_referral_reward_ratio (env_config env) div dec_one" "r \<le> amount"
    and f: "f = (all_fees ctx)\<lparr>fees_referral := fees_referral (all_fees ctx) + r\<rparr>"
    and ld: "load_liquidity_stats_addr_default (ctx\<lparr>all_fees := f\<rparr>) a = Inr s"
    and c1: "c1 = save_liquidity_stats_addr a (s\<lparr>referrer_rewards := referrer_rewards s + r\<rparr>) (ctx\<lparr>all_fees := f\<rparr>)"
    and c2: "(if r = 0 then Inr c1 else add_summary_referral D env owner a r c1) = Inr c2"
    and c': "collect_trading_fee_inner D env (amount - r) price (TradePosition pid) source c2 = Inr ctx'"
    by (rule decimal256.referred_fee_parts [OF assms(1,3,4)])
  have g: "referral_stats_of c1 = referral_stats_of ctx"
    by (simp add: fun_eq_iff referral_stats_of_def c1 save_liquidity_stats_addr_def)
  have count: "cu_collateral (rs_generated (referral_stats_of c2 b))
      = cu_collateral (rs_generated (referral_stats_of ctx b)) + (if b = owner then r else 0)
    \<and> cu_collateral (rs_received (referral_stats_of c2 b))
      = cu_collateral (rs_received (referral_stats_of ctx b)) + (if b = a then r else 0)" for b
    using c2 g decimal256.summary_referral_counts [OF assms(1), of env owner a r c1 c2 b] by (cases "r = 0") auto
  have same: "all_fees c2 = f" "stats_by_addr c2 = stats_by_addr c1"
    using c2 decimal256.summary_referral_counts [OF assms(1), of env owner a r c1 c2]
    by (auto simp: c1 save_liquidity_stats_addr_def split: if_splits)
  note kept = decimal256.trading_fee_inner_keeps_referrals [OF assms(1) c']
  have p2: "pool_inv c2"
    using decimal256.referral_reward_result [OF assms(1,2) f ld c1] c2 decimal256.summary_referral_same [OF assms(1), of env owner a r c1 c2]
    by (auto simp: pool_inv_same split: if_splits)
  obtain l x p where p: "p = (amount - r) * cfg_protocol_tax (env_config env) div dec_one" "l + x + p = amount - r"
    "all_fees ctx' = (all_fees c2)\<lparr>fees_wallets := fees_wallets (all_fees c2) + (l + x),
      fees_protocol := fees_protocol (all_fees c2) + p\<rparr>"
    by (rule decimal256.trading_fee_inner_result [OF assms(1) p2 c'])
  have ld': "load_liquidity_stats_addr_default ctx a = Inr s"
    using ld decimal256.load_default_cong [OF assms(1), of "ctx\<lparr>all_fees := f\<rparr>" ctx a] by simp
  have "l + x = amount - r - p" "p \<le> amount - r" using p(2) by simp_all
  then have fees: "all_fees ctx' = (all_fees ctx)\<lparr>fees_referral := fees_referral (all_fees ctx) + r,
      fees_wallets := fees_wallets (all_fees ctx) + (amount - r - p), fees_protocol := fees_protocol (all_fees ctx) + p\<rparr>"
    using p(3) by (simp add: same f)
  have "stats_by_addr ctx' = stats_by_addr (save_liquidity_stats_addr a (s\<lparr>referrer_rewards := referrer_rewards s + r\<rparr>) ctx)"
    using kept same by (simp add: c1 save_liquidity_stats_addr_def)
  moreover have "referral_stats_of ctx' = referral_stats_of c2"
    using kept by (simp add: fun_eq_iff referral_stats_of_def)
  ultimately show ?thesis
    using r p(1) \<open>p \<le> amount - r\<close> fees ld' count decimal256.trading_fee_result [OF assms(1,2,4)]
    by (intro exI [of _ r] exI [of _ p] exI [of _ s]) simp
qed

lemma sample_referred_fee: "is_ok (collect_trading_fee dec18 sample_env 7 (mic 10000000) sample_pp FeeTrading ''carol'' sample_pool)"
  by (simp add: fee_eval operation_eval cu_checked_add_assign_def collateral_to_usd_def)

theorem referral_reward_is_booked_witness:
  "\<exists>ctx' r. collect_trading_fee dec18 sample_env 7 (mic 10000000) sample_pp FeeTrading ''carol'' sample_pool = Inr ctx'
     \<and> r = mic 10000000 * cfg_referral_reward_ratio sample_config div dec_one
     \<and> fees_referral (all_fees ctx') = r \<and> liabilities ctx' = liabilities sample_pool + mic 10000000 \<and> pool_inv ctx'
     \<and> cu_collateral (rs_received (referral_stats_of ctx' ''dave'')) = r"
proof -
  obtain ctx' where e: "collect_trading_fee dec18 sample_env 7 (mic 10000000) sample_pp FeeTrading ''carol'' sample_pool = Inr ctx'"
    using sample_referred_fee by (auto simp: is_ok_iff)
  have d: "env_referrer_for sample_env ''carol'' = Inr (Some ''dave'')" by (simp add: sample_env_def)
  show ?thesis
    using e referral_reward_is_booked [OF d18.decimal256_axioms sample_pool_inv d e]
    by (intro exI [of _ ctx']) (auto simp: referral_stats_of_def)
qed

text \<open>Crank rewards come from the crank fees only and never overdraw them: the reward is at most the configured
  amount per crank, it moves from the crank balance to the wallets balance, and nothing else changes in the books.\<close>

theorem crank_rewards_never_overdraw:
  assumes "decimal256 D" "pool_inv ctx" "allocate_crank_fees D env addr cranks ctx = Inr ctx'"
  shows "pool_inv ctx' \<and> liabilities ctx' = liabilities ctx
    \<and> (\<exists>n \<le> fees_crank (all_fees ctx). n \<le> cfg_crank_fee_reward (env_config env) * cranks
         \<and> all_fees ctx' = (all_fees ctx)\<lparr>fees_crank := fees_crank (all_fees ctx) - n,
             fees_wallets := fees_wallets (all_fees ctx) + n\<rparr>)"
  by (rule decimal256.allocate_crank_result [OF assms])

theorem crank_rewards_never_overdraw_witness:
  "\<exists>ctx'. allocate_crank_fees dec18 sample_env ''alice'' 5 sample_pool = Inr ctx' \<and> pool_inv ctx'
     \<and> liabilities ctx' = liabilities sample_pool"
proof -
  obtain ctx' where e: "allocate_crank_fees dec18 sample_env ''alice'' 5 sample_pool = Inr ctx'"
    using sample_crank_reward by (auto simp: is_ok_iff)
  show ?thesis
    using e crank_rewards_never_overdraw [OF d18.decimal256_axioms sample_pool_inv e] by (intro exI [of _ ctx']) simp
qed

end
