(* ===== verification/Ledger.thy ===== *)
theory Ledger
  imports Prelude
begin

text \<open>
  A ledger of \<open>u128\<close> balances by account, as the token contract and the vault store it: an absent
  entry is zero, a debit fails when the balance does not cover it, a credit panics on overflow. The sum
  over the accounts is the supply that minting and burning have to follow.
\<close>

type_synonym ledger = "(Addr, nat) fmap"

definition balance_of :: "ledger \<Rightarrow> Addr \<Rightarrow> nat" where
  "balance_of m a = (case fmlookup m a of Some n \<Rightarrow> n | None \<Rightarrow> 0)"

definition debit :: "Addr \<Rightarrow> nat \<Rightarrow> ledger \<Rightarrow> ledger res" where
  "debit a amount m = and_then (u128_checked_sub (balance_of m a) amount) (\<lambda>n. Inr (fmupd a n m))"

definition credit :: "Addr \<Rightarrow> nat \<Rightarrow> ledger \<Rightarrow> ledger res" where
  "credit a amount m = and_then (u128_add (balance_of m a) amount) (\<lambda>n. Inr (fmupd a n m))"

definition ledger_sum :: "ledger \<Rightarrow> nat" where
  "ledger_sum m = fmsum (\<lambda>n. n) m"

lemma balance_of_simps [simp]:
  "balance_of fmempty a = 0" "balance_of (fmupd b n m) a = (if a = b then n else balance_of m a)"
  "balance_of (fmdrop b m) a = (if a = b then 0 else balance_of m a)"
  by (simp_all add: balance_of_def)

lemma balance_of_fmval: "balance_of m a = fmval (\<lambda>n. n) m a"
  by (simp add: balance_of_def fmval_def split: option.split)

lemma ledger_sum_empty [simp]: "ledger_sum fmempty = 0"
  by (simp add: ledger_sum_def)

lemma ledger_sum_upd: "ledger_sum (fmupd a n m) + balance_of m a = ledger_sum m + n"
  using fmsum_upd [of "\<lambda>n. n" a n m] by (simp add: ledger_sum_def balance_of_fmval)

lemma balance_le_sum: "balance_of m a \<le> ledger_sum m"
  using fmval_le_fmsum [of "\<lambda>n. n" m a] by (simp add: ledger_sum_def balance_of_fmval)

lemma debit_result:
  assumes "debit a n m = Inr m'"
  shows "n \<le> balance_of m a" "m' = fmupd a (balance_of m a - n) m" "ledger_sum m' + n = ledger_sum m"
proof -
  show c: "n \<le> balance_of m a" "m' = fmupd a (balance_of m a - n) m"
    using assms by (simp_all add: debit_def)
  show "ledger_sum m' + n = ledger_sum m"
    using ledger_sum_upd [of a "balance_of m a - n" m] c balance_le_sum [of m a] by simp
qed

lemma credit_result:
  assumes "credit a n m = Inr m'"
  shows "m' = fmupd a (balance_of m a + n) m" "ledger_sum m' = ledger_sum m + n"
    "balance_of m a + n < u128_lim"
proof -
  show c: "m' = fmupd a (balance_of m a + n) m" "balance_of m a + n < u128_lim"
    using assms by (simp_all add: credit_def)
  show "ledger_sum m' = ledger_sum m + n" using ledger_sum_upd [of a "balance_of m a + n" m] c by simp
qed

end
