(* ===== verification/Cw20.thy ===== *)
theory Cw20
  imports Allowances MarketState Ledger
begin

text \<open>
  The CW20 token contract, \<open>contracts/cw20/src\<close>: its storage, \<open>token_init\<close>, every message of
  \<open>execute\<close> with the restriction of the trading competition, and its queries. The messages are those of
  \<open>packages/perpswap/src/contracts/cw20/entry.rs\<close>. A text is a list of code points below 256, and a
  \<open>Binary\<close> is its bytes. The contract version and the migration are left out.

  The lemmas show that the total supply is the sum of the balances and below the cap in every state the
  contract can reach, and that nobody but its owner, or a spender within an allowance, lowers a balance.
\<close>

section \<open>Messages and storage\<close>

datatype EmbeddedLogo = Svg string | Png string
datatype Logo = LogoUrl string | LogoEmbedded EmbeddedLogo
datatype LogoInfo = InfoUrl string | InfoEmbedded

record Cw20TokenInfo =
  ti_name :: string
  ti_symbol :: string
  ti_decimals :: nat
  ti_total_supply :: nat

record MarketingInfo =
  mk_project :: "string option"
  mk_description :: "string option"
  mk_logo :: "LogoInfo option"
  mk_marketing :: "Addr option"

record InstantiateMarketingInfo =
  im_project :: "string option"
  im_description :: "string option"
  im_marketing :: "Addr option"
  im_logo :: "Logo option"

record Cw20InstantiateMsg =
  in_name :: string
  in_symbol :: string
  in_decimals :: nat
  in_initial_balances :: "(string \<times> nat) list"
  in_minter :: RawAddr
  in_cap :: "nat option"
  in_marketing :: "InstantiateMarketingInfo option"

datatype Cw20ExecuteMsg =
    CwTransfer RawAddr nat
  | CwBurn nat
  | CwSend RawAddr nat string
  | CwIncreaseAllowance RawAddr nat "Expiration option"
  | CwDecreaseAllowance RawAddr nat "Expiration option"
  | CwTransferFrom RawAddr RawAddr nat
  | CwSendFrom RawAddr RawAddr nat string
  | CwBurnFrom RawAddr nat
  | CwMint RawAddr nat
  | CwUpdateMinter RawAddr
  | CwUpdateMarketing "string option" "string option" "string option"
  | CwUploadLogo Logo
  | CwSetMarket RawAddr

datatype Cw20Event =
    CwTokenEvent TokenEvent
  | CwBurnEvent Addr nat "Addr option"
  | CwMintEvent Addr Addr nat
  | CwMinterChangeEvent Addr
  | CwMarketingChangeEvent "string option" "string option" "string option"
  | CwLogoChangeEvent Logo

record Cw20Env =
  cw_api :: addr_api
  cw_is_expired :: "Expiration \<Rightarrow> bool"
  cw_never :: Expiration

record Cw20State =
  cw_minter :: "Addr option"
  cw_minter_cap :: "nat option"
  cw_token_info :: "Cw20TokenInfo option"
  cw_marketing_info :: "MarketingInfo option"
  cw_logo :: "Logo option"
  cw_balances :: ledger
  cw_allowances :: allowance_map
  cw_allowances_spender :: allowance_map
  cw_market_address :: "Addr option"
  cw_events :: "Cw20Event list"
  cw_submessages :: "(Addr \<times> Cw20ReceiveMsg) list"

definition cw20_empty :: Cw20State where
  "cw20_empty = \<lparr>cw_minter = None, cw_minter_cap = None, cw_token_info = None, cw_marketing_info = None,
     cw_logo = None, cw_balances = fmempty, cw_allowances = fmempty, cw_allowances_spender = fmempty,
     cw_market_address = None, cw_events = [], cw_submessages = []\<rparr>"

definition cw20_event :: "Cw20Event \<Rightarrow> Cw20State \<Rightarrow> Cw20State" where
  "cw20_event e s = s\<lparr>cw_events := cw_events s @ [e]\<rparr>"

text \<open>\<open>Api::addr_validate\<close> called directly, and \<open>str::trim\<close> leaving nothing.\<close>

definition api_addr_validate :: "addr_api \<Rightarrow> string \<Rightarrow> Addr res" where
  "api_addr_validate api s = ok_or (api s) (Std ''addr_validate'')"

definition is_blank :: "string \<Rightarrow> bool" where
  "is_blank s = list_all (\<lambda>c. 9 \<le> (of_char c :: nat) \<and> (of_char c :: nat) \<le> 13
     \<or> (of_char c :: nat) \<in> {32, 133, 160}) s"

section \<open>Instantiation\<close>

text \<open>A string is the sequence of the UTF-8 bytes of the Rust string (the 256 characters of HOL), so its length
  is \<open>as_bytes().len()\<close> and a character is one byte.\<close>

definition has_valid_name :: "string \<Rightarrow> bool" where
  "has_valid_name name \<longleftrightarrow> 3 \<le> length name \<and> length name \<le> 50"

definition has_valid_symbol :: "string \<Rightarrow> bool" where
  "has_valid_symbol symbol \<longleftrightarrow> 3 \<le> length symbol \<and> length symbol \<le> 12
     \<and> list_all (\<lambda>c. (of_char c :: nat) = 45 \<or> (65 \<le> (of_char c :: nat) \<and> (of_char c :: nat) \<le> 90)
          \<or> (97 \<le> (of_char c :: nat) \<and> (of_char c :: nat) \<le> 122)) symbol"

definition has_valid_balances :: "(string \<times> nat) list \<Rightarrow> bool" where
  "has_valid_balances rows = distinct (map fst rows)"

definition cw20_instantiate_validate :: "Cw20InstantiateMsg \<Rightarrow> unit res" where
  "cw20_instantiate_validate msg =
     (if \<not> has_valid_name (in_name msg) then Inl (Perp MsgValidation)
      else if \<not> has_valid_symbol (in_symbol msg) then Inl (Perp MsgValidation)
      else if 18 < in_decimals msg then Inl (Perp MsgValidation)
      else if \<not> has_valid_balances (in_initial_balances msg) then Inl (Perp MsgValidation)
      else Inr ())"

fun initial_balances :: "addr_api \<Rightarrow> (string \<times> nat) list \<Rightarrow> ledger \<times> nat \<Rightarrow> (ledger \<times> nat) res" where
  "initial_balances api [] bt = Inr bt"
| "initial_balances api ((raw, amount) # rows) (balances, total_supply) =
     and_then (api_addr_validate api raw) (\<lambda>address.
     and_then (u128_add total_supply amount) (\<lambda>total_supply.
     initial_balances api rows (fmupd address amount balances, total_supply)))"

definition logo_info :: "Logo \<Rightarrow> LogoInfo" where
  "logo_info logo = (case logo of LogoUrl url \<Rightarrow> InfoUrl url | LogoEmbedded _ \<Rightarrow> InfoEmbedded)"

definition init_marketing_info :: "InstantiateMarketingInfo option \<Rightarrow> MarketingInfo" where
  "init_marketing_info marketing = (case marketing of
       None \<Rightarrow> \<lparr>mk_project = None, mk_description = None, mk_logo = None, mk_marketing = None\<rparr>
     | Some m \<Rightarrow> \<lparr>mk_project = im_project m, mk_description = im_description m,
         mk_logo = map_option logo_info (im_logo m), mk_marketing = im_marketing m\<rparr>)"

definition token_init :: "Cw20Env \<Rightarrow> Cw20InstantiateMsg \<Rightarrow> Cw20State \<Rightarrow> Cw20State res" where
  "token_init env msg s =
     and_then (cw20_instantiate_validate msg) (\<lambda>_.
     and_then (initial_balances (cw_api env) (in_initial_balances msg) (cw_balances s, 0)) (\<lambda>(balances, total_supply).
     and_then (addr_validate (cw_api env) (in_minter msg)) (\<lambda>minter.
     let s = s\<lparr>cw_balances := balances, cw_minter := Some minter\<rparr> in
     and_then (case in_cap msg of
         Some cap \<Rightarrow> if cap < total_supply then Inl (Perp MsgValidation) else Inr (s\<lparr>cw_minter_cap := Some cap\<rparr>)
       | None \<Rightarrow> Inr s) (\<lambda>s.
     let s = (case Option.bind (in_marketing msg) im_logo of Some logo \<Rightarrow> s\<lparr>cw_logo := Some logo\<rparr> | None \<Rightarrow> s) in
     Inr (s\<lparr>cw_marketing_info := Some (init_marketing_info (in_marketing msg)),
       cw_token_info := Some \<lparr>ti_name = in_name msg, ti_symbol = in_symbol msg, ti_decimals = in_decimals msg,
         ti_total_supply = total_supply\<rparr>\<rparr>)))))"

section \<open>Moving tokens\<close>

definition cw20_move :: "Addr \<Rightarrow> Addr \<Rightarrow> nat \<Rightarrow> Cw20State \<Rightarrow> Cw20State res" where
  "cw20_move owner recipient amount s =
     and_then (debit owner amount (cw_balances s)) (\<lambda>balances.
     and_then (credit recipient amount balances) (\<lambda>balances.
     Inr (s\<lparr>cw_balances := balances\<rparr>)))"

definition cw20_deduct_allowance :: "Cw20Env \<Rightarrow> Addr \<Rightarrow> Addr \<Rightarrow> nat \<Rightarrow> Cw20State \<Rightarrow> Cw20State res" where
  "cw20_deduct_allowance env owner spender amount s =
     map_res (\<lambda>(m, m'). s\<lparr>cw_allowances := m, cw_allowances_spender := m'\<rparr>)
       (deduct_allowance (cw_is_expired env) owner spender amount (cw_allowances s, cw_allowances_spender s))"

definition cw20_transfer :: "Addr \<Rightarrow> Addr \<Rightarrow> nat \<Rightarrow> Cw20State \<Rightarrow> Cw20State res" where
  "cw20_transfer owner recipient amount s =
     (let s = cw20_event (CwTokenEvent (TokenTransferEvent owner recipient amount None)) s in
     if amount = 0 then Inl (Perp Cw20Funds) else cw20_move owner recipient amount s)"

definition cw20_transfer_from :: "Cw20Env \<Rightarrow> Addr \<Rightarrow> Addr \<Rightarrow> Addr \<Rightarrow> nat \<Rightarrow> Cw20State \<Rightarrow> Cw20State res" where
  "cw20_transfer_from env sender owner recipient amount s =
     (let s = cw20_event (CwTokenEvent (TokenTransferEvent owner recipient amount (Some sender))) s in
     and_then (cw20_deduct_allowance env owner sender amount s) (\<lambda>s.
     cw20_move owner recipient amount s))"

definition cw20_lower_supply :: "Addr \<Rightarrow> nat \<Rightarrow> Cw20State \<Rightarrow> Cw20State res" where
  "cw20_lower_supply owner amount s =
     and_then (debit owner amount (cw_balances s)) (\<lambda>balances.
     and_then (ok_or (cw_token_info s) (Std ''not found'')) (\<lambda>info.
     and_then (u128_checked_sub (ti_total_supply info) amount) (\<lambda>n.
     Inr (s\<lparr>cw_balances := balances, cw_token_info := Some (info\<lparr>ti_total_supply := n\<rparr>)\<rparr>))))"

definition cw20_burn :: "Addr \<Rightarrow> nat \<Rightarrow> Cw20State \<Rightarrow> Cw20State res" where
  "cw20_burn owner amount s =
     (let s = cw20_event (CwBurnEvent owner amount None) s in
     if amount = 0 then Inl (Perp Cw20Funds) else cw20_lower_supply owner amount s)"

definition cw20_burn_from :: "Cw20Env \<Rightarrow> Addr \<Rightarrow> Addr \<Rightarrow> nat \<Rightarrow> Cw20State \<Rightarrow> Cw20State res" where
  "cw20_burn_from env sender owner amount s =
     (let s = cw20_event (CwBurnEvent owner amount (Some sender)) s in
     and_then (cw20_deduct_allowance env owner sender amount s) (\<lambda>s.
     cw20_lower_supply owner amount s))"

definition cw20_notify :: "Addr \<Rightarrow> Cw20ReceiveMsg \<Rightarrow> Cw20State \<Rightarrow> Cw20State" where
  "cw20_notify contract msg s = s\<lparr>cw_submessages := cw_submessages s @ [(contract, msg)]\<rparr>"

definition cw20_send_with_msg :: "Addr \<Rightarrow> Addr \<Rightarrow> nat \<Rightarrow> string \<Rightarrow> Cw20State \<Rightarrow> Cw20State res" where
  "cw20_send_with_msg owner contract amount msg s =
     (let s = cw20_event (CwTokenEvent (TokenSendEvent owner contract amount None)) s in
     if amount = 0 then Inl (Perp Cw20Funds)
     else and_then (cw20_move owner contract amount s) (\<lambda>s.
       Inr (cw20_notify contract \<lparr>rc_sender = owner, rc_amount = amount, rc_msg = msg\<rparr> s)))"

definition cw20_send_with_msg_from ::
    "Cw20Env \<Rightarrow> Addr \<Rightarrow> Addr \<Rightarrow> Addr \<Rightarrow> nat \<Rightarrow> string \<Rightarrow> Cw20State \<Rightarrow> Cw20State res" where
  "cw20_send_with_msg_from env sender owner contract amount msg s =
     (let s = cw20_event (CwTokenEvent (TokenSendEvent owner contract amount (Some sender))) s in
     and_then (cw20_deduct_allowance env owner sender amount s) (\<lambda>s.
     and_then (cw20_move owner contract amount s) (\<lambda>s.
     Inr (cw20_notify contract \<lparr>rc_sender = sender, rc_amount = amount, rc_msg = msg\<rparr> s))))"

definition cw20_minter_addr :: "Cw20State \<Rightarrow> Addr res" where
  "cw20_minter_addr s = ok_or (cw_minter s) (Msg ''MINTER is not set'')"

definition cw20_mint :: "Addr \<Rightarrow> Addr \<Rightarrow> nat \<Rightarrow> Cw20State \<Rightarrow> Cw20State res" where
  "cw20_mint sender recipient amount s =
     (let s = cw20_event (CwMintEvent sender recipient amount) s in
     if amount = 0 then Inl (Perp Cw20Funds)
     else
       and_then (ok_or (cw_token_info s) (Perp Auth)) (\<lambda>info.
       and_then (cw20_minter_addr s) (\<lambda>minter.
       and_then (ensure (minter = sender) (Perp Auth)) (\<lambda>_.
       and_then (u128_add (ti_total_supply info) amount) (\<lambda>total.
       and_then (case cw_minter_cap s of
           Some limit \<Rightarrow> if limit < total then Inl (Perp Cw20Funds) else Inr ()
         | None \<Rightarrow> Inr ()) (\<lambda>_.
       let s = s\<lparr>cw_token_info := Some (info\<lparr>ti_total_supply := total\<rparr>)\<rparr> in
       and_then (credit recipient amount (cw_balances s)) (\<lambda>balances.
       Inr (s\<lparr>cw_balances := balances\<rparr>))))))))"

definition cw20_increase_allowance ::
    "Cw20Env \<Rightarrow> Addr \<Rightarrow> Addr \<Rightarrow> nat \<Rightarrow> Expiration option \<Rightarrow> Cw20State \<Rightarrow> Cw20State res" where
  "cw20_increase_allowance env owner spender amount expires s =
     (let s = cw20_event (CwTokenEvent (AllowanceChangeEvent True owner spender amount expires)) s in
     map_res (\<lambda>(m, m'). s\<lparr>cw_allowances := m, cw_allowances_spender := m'\<rparr>)
       (increase_allowance (cw_never env) owner spender amount expires (cw_allowances s, cw_allowances_spender s)))"

definition cw20_decrease_allowance ::
    "Addr \<Rightarrow> Addr \<Rightarrow> nat \<Rightarrow> Expiration option \<Rightarrow> Cw20State \<Rightarrow> Cw20State res" where
  "cw20_decrease_allowance owner spender amount expires s =
     (let s = cw20_event (CwTokenEvent (AllowanceChangeEvent False owner spender amount expires)) s in
     map_res (\<lambda>(m, m'). s\<lparr>cw_allowances := m, cw_allowances_spender := m'\<rparr>)
       (decrease_allowance owner spender amount expires (cw_allowances s, cw_allowances_spender s)))"

section \<open>Marketing, minter and market\<close>

definition updated_text :: "string option \<Rightarrow> string option \<Rightarrow> string option" where
  "updated_text new old = (case new of
       Some t \<Rightarrow> if is_blank t then None else Some t
     | None \<Rightarrow> old)"

definition cw20_set_marketing ::
    "Cw20Env \<Rightarrow> Addr \<Rightarrow> string option \<Rightarrow> string option \<Rightarrow> string option \<Rightarrow> Cw20State \<Rightarrow> Cw20State res" where
  "cw20_set_marketing env sender project description marketing s =
     (let s = cw20_event (CwMarketingChangeEvent project description marketing) s in
     and_then (ok_or (cw_marketing_info s) (Std ''not found'')) (\<lambda>info.
     and_then (ok_or (mk_marketing info) (Perp Auth)) (\<lambda>current.
     and_then (ensure (current = sender) (Perp Auth)) (\<lambda>_.
     let info = info\<lparr>mk_project := updated_text project (mk_project info),
           mk_description := updated_text description (mk_description info)\<rparr> in
     and_then (case marketing of
         Some m \<Rightarrow> if is_blank m then Inr None else map_res Some (api_addr_validate (cw_api env) m)
       | None \<Rightarrow> Inr (mk_marketing info)) (\<lambda>new_marketing.
     let info = info\<lparr>mk_marketing := new_marketing\<rparr> in
     Inr (s\<lparr>cw_marketing_info := (if mk_project info = None \<and> mk_description info = None
         \<and> mk_marketing info = None \<and> mk_logo info = None then None else Some info)\<rparr>))))))"

definition cw20_set_logo :: "Addr \<Rightarrow> Logo \<Rightarrow> Cw20State \<Rightarrow> Cw20State res" where
  "cw20_set_logo sender logo s =
     (let s = cw20_event (CwLogoChangeEvent logo) s in
     and_then (ok_or (cw_marketing_info s) (Std ''not found'')) (\<lambda>info.
     and_then (ok_or (mk_marketing info) (Perp Auth)) (\<lambda>current.
     and_then (ensure (current = sender) (Perp Auth)) (\<lambda>_.
     Inr (s\<lparr>cw_logo := Some logo, cw_marketing_info := Some (info\<lparr>mk_logo := Some (logo_info logo)\<rparr>)\<rparr>)))))"

definition cw20_set_minter :: "Cw20Env \<Rightarrow> Addr \<Rightarrow> RawAddr \<Rightarrow> Cw20State \<Rightarrow> Cw20State res" where
  "cw20_set_minter env sender new_minter s =
     and_then (cw20_minter_addr s) (\<lambda>old_minter.
     and_then (ensure (old_minter = sender) (Perp Auth)) (\<lambda>_.
     and_then (addr_validate (cw_api env) new_minter) (\<lambda>minter.
     Inr (cw20_event (CwMinterChangeEvent minter) (s\<lparr>cw_minter := Some minter\<rparr>)))))"

definition cw20_set_market_addr :: "Addr \<Rightarrow> Cw20State \<Rightarrow> Cw20State res" where
  "cw20_set_market_addr market s =
     and_then (ensure (cw_market_address s = None) (Msg ''market address is set'')) (\<lambda>_.
     Inr (s\<lparr>cw_market_address := Some market\<rparr>))"

text \<open>The trading competition: with a market set, tokens only move to the market or from it.\<close>

definition competition_recipient :: "Cw20ExecuteMsg \<Rightarrow> RawAddr option" where
  "competition_recipient msg = (case msg of
       CwTransfer recipient _ \<Rightarrow> Some recipient
     | CwSend contract _ _ \<Rightarrow> Some contract
     | CwIncreaseAllowance spender _ _ \<Rightarrow> Some spender
     | CwDecreaseAllowance spender _ _ \<Rightarrow> Some spender
     | CwTransferFrom _ recipient _ \<Rightarrow> Some recipient
     | CwSendFrom _ contract _ _ \<Rightarrow> Some contract
     | _ \<Rightarrow> None)"

definition assert_trading_competition :: "Cw20Env \<Rightarrow> Addr \<Rightarrow> Cw20ExecuteMsg \<Rightarrow> Cw20State \<Rightarrow> unit res" where
  "assert_trading_competition env sender msg s =
     (case cw_market_address s of
        None \<Rightarrow> Inr ()
      | Some market_address \<Rightarrow>
          if sender = market_address then Inr ()
          else case competition_recipient msg of
              None \<Rightarrow> Inr ()
            | Some raw \<Rightarrow>
                and_then (addr_validate (cw_api env) raw) (\<lambda>recipient.
                if market_address = recipient then Inr () else Inl (Perp Auth)))"

section \<open>Execution\<close>

definition cw20_execute :: "Cw20Env \<Rightarrow> Addr \<Rightarrow> Cw20ExecuteMsg \<Rightarrow> Cw20State \<Rightarrow> Cw20State res" where
  "cw20_execute env sender msg s =
     (let valid = addr_validate (cw_api env) in
     and_then (assert_trading_competition env sender msg s) (\<lambda>_.
     case msg of
       CwSetMarket addr \<Rightarrow>
         and_then (cw20_minter_addr s) (\<lambda>minter_addr.
         and_then (ensure (minter_addr = sender) (Perp Auth)) (\<lambda>_.
         and_then (valid addr) (\<lambda>addr. cw20_set_market_addr addr s)))
     | CwTransfer recipient amount \<Rightarrow>
         and_then (valid recipient) (\<lambda>recipient. cw20_transfer sender recipient amount s)
     | CwBurn amount \<Rightarrow> cw20_burn sender amount s
     | CwSend contract amount payload \<Rightarrow>
         and_then (valid contract) (\<lambda>contract. cw20_send_with_msg sender contract amount payload s)
     | CwMint recipient amount \<Rightarrow>
         and_then (valid recipient) (\<lambda>recipient. cw20_mint sender recipient amount s)
     | CwIncreaseAllowance spender amount expires \<Rightarrow>
         and_then (valid spender) (\<lambda>spender. cw20_increase_allowance env sender spender amount expires s)
     | CwDecreaseAllowance spender amount expires \<Rightarrow>
         and_then (valid spender) (\<lambda>spender. cw20_decrease_allowance sender spender amount expires s)
     | CwTransferFrom owner recipient amount \<Rightarrow>
         and_then (valid owner) (\<lambda>owner.
         and_then (valid recipient) (\<lambda>recipient. cw20_transfer_from env sender owner recipient amount s))
     | CwBurnFrom owner amount \<Rightarrow>
         and_then (valid owner) (\<lambda>owner. cw20_burn_from env sender owner amount s)
     | CwSendFrom owner contract amount payload \<Rightarrow>
         and_then (valid owner) (\<lambda>owner.
         and_then (valid contract) (\<lambda>contract.
         cw20_send_with_msg_from env sender owner contract amount payload s))
     | CwUpdateMarketing project description marketing \<Rightarrow>
         cw20_set_marketing env sender project description marketing s
     | CwUploadLogo logo \<Rightarrow> cw20_set_logo sender logo s
     | CwUpdateMinter new_minter \<Rightarrow> cw20_set_minter env sender new_minter s))"

section \<open>Queries\<close>

definition cw20_token_info :: "Cw20State \<Rightarrow> Cw20TokenInfo res" where
  "cw20_token_info s = ok_or (cw_token_info s) (Std ''not found'')"

definition cw20_minter_resp :: "Cw20State \<Rightarrow> (Addr \<times> nat option) res" where
  "cw20_minter_resp s = and_then (cw20_minter_addr s) (\<lambda>addr. Inr (addr, cw_minter_cap s))"

definition cw20_page_limit :: "nat option \<Rightarrow> nat" where
  "cw20_page_limit limit = min (case limit of Some l \<Rightarrow> l | None \<Rightarrow> 10) 30"

definition cw20_all_accounts :: "Cw20State \<Rightarrow> Addr option \<Rightarrow> nat option \<Rightarrow> Addr list" where
  "cw20_all_accounts s start_after limit =
     take (cw20_page_limit limit)
       (filter (\<lambda>a. case start_after of None \<Rightarrow> True | Some b \<Rightarrow> b < a) (fmkeys (cw_balances s)))"

definition cw20_owner_allowances ::
    "Cw20State \<Rightarrow> Addr \<Rightarrow> Addr option \<Rightarrow> nat option \<Rightarrow> (Addr \<times> AllowanceResponse) list" where
  "cw20_owner_allowances s owner start_after limit =
     allowances_page (cw_allowances s) owner start_after (cw20_page_limit limit)"

definition cw20_spender_allowances ::
    "Cw20State \<Rightarrow> Addr \<Rightarrow> Addr option \<Rightarrow> nat option \<Rightarrow> (Addr \<times> AllowanceResponse) list" where
  "cw20_spender_allowances s spender start_after limit =
     allowances_page (cw_allowances_spender s) spender start_after (cw20_page_limit limit)"

definition cw20_download_logo :: "Cw20State \<Rightarrow> (string \<times> string) res" where
  "cw20_download_logo s =
     and_then (ok_or (cw_logo s) (Std ''not found'')) (\<lambda>logo.
     case logo of
       LogoEmbedded (Svg data) \<Rightarrow> Inr (''image/svg+xml'', data)
     | LogoEmbedded (Png data) \<Rightarrow> Inr (''image/png'', data)
     | LogoUrl _ \<Rightarrow> Inl (Perp MsgValidation))"

section \<open>The supply is the sum of the balances\<close>

definition cw20_inv :: "Cw20State \<Rightarrow> bool" where
  "cw20_inv s \<longleftrightarrow> (\<exists>info. cw_token_info s = Some info \<and> ti_total_supply info = ledger_sum (cw_balances s)
       \<and> (case cw_minter_cap s of None \<Rightarrow> True | Some cap \<Rightarrow> ti_total_supply info \<le> cap))
     \<and> cw_minter s \<noteq> None \<and> mirrored (cw_allowances s, cw_allowances_spender s)"

text \<open>What a message may do to the account of somebody else.\<close>

definition cw20_spends :: "Cw20State \<Rightarrow> Cw20State \<Rightarrow> Addr \<Rightarrow> bool" where
  "cw20_spends s s' a \<longleftrightarrow>
     balance_of (cw_balances s) a + granted (cw_allowances s') a \<le> balance_of (cw_balances s') a + granted (cw_allowances s) a
     \<and> granted (cw_allowances s') a \<le> granted (cw_allowances s) a"

lemma cw20_event_fields [simp]:
  "cw_minter (cw20_event e s) = cw_minter s" "cw_minter_cap (cw20_event e s) = cw_minter_cap s"
  "cw_token_info (cw20_event e s) = cw_token_info s" "cw_balances (cw20_event e s) = cw_balances s"
  "cw_allowances (cw20_event e s) = cw_allowances s"
  "cw_allowances_spender (cw20_event e s) = cw_allowances_spender s"
  "cw_marketing_info (cw20_event e s) = cw_marketing_info s"
  "cw_market_address (cw20_event e s) = cw_market_address s"
  by (simp_all add: cw20_event_def)

lemma cw20_notify_fields [simp]:
  "cw_minter (cw20_notify c m s) = cw_minter s" "cw_minter_cap (cw20_notify c m s) = cw_minter_cap s"
  "cw_token_info (cw20_notify c m s) = cw_token_info s" "cw_balances (cw20_notify c m s) = cw_balances s"
  "cw_allowances (cw20_notify c m s) = cw_allowances s"
  "cw_allowances_spender (cw20_notify c m s) = cw_allowances_spender s"
  by (simp_all add: cw20_notify_def)

lemma cw20_inv_touched [simp]: "cw20_inv (cw20_event e s) = cw20_inv s" "cw20_inv (cw20_notify c m s) = cw20_inv s"
  by (simp_all add: cw20_inv_def)

lemma cw20_spends_touched [simp]:
  "cw20_spends (cw20_event e s) t a = cw20_spends s t a" "cw20_spends s (cw20_event e t) a = cw20_spends s t a"
  "cw20_spends s (cw20_notify c m t) a = cw20_spends s t a"
  by (simp_all add: cw20_spends_def)

lemma cw20_move_result:
  assumes "cw20_inv s" and "cw20_move owner recipient n s = Inr s'"
  shows "cw20_inv s'" "cw_allowances s' = cw_allowances s"
    "cw_allowances_spender s' = cw_allowances_spender s"
    "balance_of (cw_balances s) a \<le> balance_of (cw_balances s') a + (if a = owner then n else 0)"
proof -
  obtain b1 b2 where d: "debit owner n (cw_balances s) = Inr b1" and c: "credit recipient n b1 = Inr b2"
    and s': "s' = s\<lparr>cw_balances := b2\<rparr>"
    using assms(2) by (auto simp: cw20_move_def)
  show "cw20_inv s'" using assms(1) debit_result [OF d] credit_result [OF c] by (simp add: cw20_inv_def s')
  show "balance_of (cw_balances s) a \<le> balance_of (cw_balances s') a + (if a = owner then n else 0)"
    using debit_result(1,2) [OF d] credit_result(1) [OF c] by (auto simp: s')
qed (use assms(2) in \<open>auto simp: cw20_move_def\<close>)

lemma cw20_lower_supply_result:
  assumes "cw20_inv s" and "cw20_lower_supply owner n s = Inr s'"
  shows "cw20_inv s'" "cw_allowances s' = cw_allowances s"
    "cw_allowances_spender s' = cw_allowances_spender s"
    "balance_of (cw_balances s) a \<le> balance_of (cw_balances s') a + (if a = owner then n else 0)"
proof -
  obtain b1 info where d: "debit owner n (cw_balances s) = Inr b1" and i: "cw_token_info s = Some info"
    and s': "s' = s\<lparr>cw_balances := b1, cw_token_info := Some (info\<lparr>ti_total_supply := ti_total_supply info - n\<rparr>)\<rparr>"
    using assms(2) by (auto simp: cw20_lower_supply_def)
  show "cw20_inv s'"
    using assms(1) debit_result [OF d] i by (auto simp: cw20_inv_def s' split: option.splits)
  show "balance_of (cw_balances s) a \<le> balance_of (cw_balances s') a + (if a = owner then n else 0)"
    using debit_result(1,2) [OF d] by (auto simp: s')
qed (use assms(2) in \<open>auto simp: cw20_lower_supply_def\<close>)

text \<open>A change of somebody's balance that a deducted allowance pays for.\<close>

lemma cw20_deduct_result:
  assumes inv: "cw20_inv s" and de: "cw20_deduct_allowance env owner sender n s = Inr s1"
  shows "cw20_inv s1" "cw_balances s1 = cw_balances s"
    "granted (cw_allowances s1) a + (if a = owner then n else 0) = granted (cw_allowances s) a"
proof -
  obtain ms where ms: "deduct_allowance (cw_is_expired env) owner sender n (cw_allowances s, cw_allowances_spender s) = Inr ms"
    and s1: "s1 = s\<lparr>cw_allowances := fst ms, cw_allowances_spender := snd ms\<rparr>"
    using de by (auto simp: cw20_deduct_allowance_def split: prod.splits)
  have mir: "mirrored (cw_allowances s, cw_allowances_spender s)" using inv by (simp add: cw20_inv_def)
  note d = deduct_result [OF ms mir]
  show "cw20_inv s1" using inv d(1) by (simp add: cw20_inv_def s1)
  show "cw_balances s1 = cw_balances s" by (simp add: s1)
  show "granted (cw_allowances s1) a + (if a = owner then n else 0) = granted (cw_allowances s) a"
    using d(2) [of a] d(3) by (simp add: s1)
qed

lemma cw20_spend_result:
  assumes inv: "cw20_inv s" and de: "cw20_deduct_allowance env owner sender n s = Inr s1"
    and mv: "cw20_move owner recipient n s1 = Inr s' \<or> cw20_lower_supply owner n s1 = Inr s'"
  shows "cw20_inv s' \<and> cw20_spends s s' a"
proof -
  note d = cw20_deduct_result [OF inv de]
  have "cw20_inv s' \<and> cw_allowances s' = cw_allowances s1
      \<and> balance_of (cw_balances s1) a \<le> balance_of (cw_balances s') a + (if a = owner then n else 0)"
    using mv
  proof
    assume m: "cw20_move owner recipient n s1 = Inr s'"
    show ?thesis using cw20_move_result [OF d(1) m] by simp
  next
    assume l: "cw20_lower_supply owner n s1 = Inr s'"
    show ?thesis using cw20_lower_supply_result [OF d(1) l] by simp
  qed
  then show ?thesis using d(2) d(3) [of a] by (auto simp: cw20_spends_def split: if_splits)
qed

lemma cw20_allowance_change:
  assumes inv: "cw20_inv s" and mir: "mirrored (m, m')"
    and own: "a \<noteq> sender \<Longrightarrow> granted m a = granted (cw_allowances s) a"
  shows "cw20_inv (s\<lparr>cw_allowances := m, cw_allowances_spender := m'\<rparr>)"
    "a \<noteq> sender \<Longrightarrow> cw20_spends s (s\<lparr>cw_allowances := m, cw_allowances_spender := m'\<rparr>) a"
  using assms by (simp_all add: cw20_inv_def cw20_spends_def)

lemma cw20_mint_result:
  assumes inv: "cw20_inv s" and mi: "cw20_mint sender recipient n s = Inr s'"
  shows "cw20_inv s' \<and> cw20_spends s s' a \<and> cw_minter s = Some sender"
proof -
  obtain info b where info: "cw_token_info s = Some info" and mt: "cw_minter s = Some sender"
    and cap: "\<forall>cap. cw_minter_cap s = Some cap \<longrightarrow> ti_total_supply info + n \<le> cap"
    and b: "credit recipient n (cw_balances s) = Inr b"
    and s': "cw_token_info s' = Some (info\<lparr>ti_total_supply := ti_total_supply info + n\<rparr>)" "cw_balances s' = b"
      "cw_minter s' = cw_minter s" "cw_minter_cap s' = cw_minter_cap s" "cw_allowances s' = cw_allowances s"
      "cw_allowances_spender s' = cw_allowances_spender s"
    using mi by (cases "cw_minter_cap s")
      (auto simp: cw20_mint_def cw20_minter_addr_def Let_def not_less split: if_splits)
  show ?thesis
    using inv info mt cap s' credit_result [OF b] by (auto simp: cw20_inv_def cw20_spends_def split: option.splits)
qed

lemma cw20_other_messages:
  "cw20_set_marketing env sender p d m s = Inr s' \<Longrightarrow> cw20_inv s \<Longrightarrow> cw20_inv s' \<and> cw20_spends s s' a"
  "cw20_set_logo sender logo s = Inr s' \<Longrightarrow> cw20_inv s \<Longrightarrow> cw20_inv s' \<and> cw20_spends s s' a"
  "cw20_set_minter env sender r s = Inr s' \<Longrightarrow> cw20_inv s \<Longrightarrow> cw20_inv s' \<and> cw20_spends s s' a"
  "cw20_set_market_addr b s = Inr s' \<Longrightarrow> cw20_inv s \<Longrightarrow> cw20_inv s' \<and> cw20_spends s s' a"
  by (auto simp: cw20_set_marketing_def cw20_set_logo_def cw20_set_minter_def cw20_set_market_addr_def
      Let_def cw20_inv_def cw20_spends_def)

lemma cw20_execute_result:
  assumes inv: "cw20_inv s" and ex: "cw20_execute env sender msg s = Inr s'"
  shows "cw20_inv s'" "a \<noteq> sender \<Longrightarrow> cw20_spends s s' a"
proof -
  have ie: "cw20_inv (cw20_event e s)" for e using inv by simp
  have mir: "mirrored (cw_allowances s, cw_allowances_spender s)" using inv by (simp add: cw20_inv_def)
  have mv: "cw20_inv t \<and> (a \<noteq> sender \<longrightarrow> cw20_spends s t a)"
    if "cw20_move sender r n (cw20_event e s) = Inr t \<or> cw20_lower_supply sender n (cw20_event e s) = Inr t" for r n e t
    using that
  proof
    assume m: "cw20_move sender r n (cw20_event e s) = Inr t"
    show ?thesis using cw20_move_result(1,2) [OF ie m] cw20_move_result(4) [OF ie m, of a]
      by (auto simp: cw20_spends_def split: if_splits)
  next
    assume l: "cw20_lower_supply sender n (cw20_event e s) = Inr t"
    show ?thesis using cw20_lower_supply_result(1,2) [OF ie l] cw20_lower_supply_result(4) [OF ie l, of a]
      by (auto simp: cw20_spends_def split: if_splits)
  qed
  have sp: "cw20_inv t \<and> cw20_spends s t a"
    if "cw20_deduct_allowance env ow sender n (cw20_event e s) = Inr s1"
      and "cw20_move ow r n s1 = Inr t \<or> cw20_lower_supply ow n s1 = Inr t" for ow r n e s1 t
    using cw20_spend_result [OF ie that] by simp
  have al: "cw20_inv t \<and> (a \<noteq> sender \<longrightarrow> cw20_spends s t a)"
    if "increase_allowance nv sender x n e (cw_allowances s, cw_allowances_spender s) = Inr ms
        \<or> decrease_allowance sender x n e (cw_allowances s, cw_allowances_spender s) = Inr ms"
      and "t = (cw20_event ev s)\<lparr>cw_allowances := fst ms, cw_allowances_spender := snd ms\<rparr>" for nv x n e ms ev t
  proof -
    have "mirrored (fst ms, snd ms) \<and> (a \<noteq> sender \<longrightarrow> granted (fst ms) a = granted (cw_allowances s) a)"
      using that(1)
    proof
      assume i: "increase_allowance nv sender x n e (cw_allowances s, cw_allowances_spender s) = Inr ms"
      show ?thesis using increase_result(1,2) [OF i mir] by simp
    next
      assume d: "decrease_allowance sender x n e (cw_allowances s, cw_allowances_spender s) = Inr ms"
      show ?thesis using decrease_result(1,2) [OF d mir] by simp
    qed
    then show ?thesis using cw20_allowance_change [OF ie, of "fst ms" "snd ms" a sender] that(2) by simp
  qed
  have "cw20_inv s' \<and> (a \<noteq> sender \<longrightarrow> cw20_spends s s' a)"
  proof (cases msg)
    case CwTransfer
    then show ?thesis using ex
      by (auto simp: cw20_execute_def cw20_transfer_def Let_def dest!: mv [OF disjI1] split: if_splits)
  next
    case CwBurn
    then show ?thesis using ex
      by (auto simp: cw20_execute_def cw20_burn_def Let_def dest!: mv [OF disjI2] split: if_splits)
  next
    case CwSend
    then show ?thesis using ex
      by (auto simp: cw20_execute_def cw20_send_with_msg_def Let_def dest!: mv [OF disjI1] split: if_splits)
  next
    case (CwIncreaseAllowance x n e)
    then show ?thesis using ex
      by (auto simp: cw20_execute_def cw20_increase_allowance_def Let_def intro!: al split: prod.splits)
  next
    case (CwDecreaseAllowance x n e)
    then show ?thesis using ex
      by (auto simp: cw20_execute_def cw20_decrease_allowance_def Let_def intro!: al split: prod.splits)
  next
    case CwTransferFrom
    then show ?thesis using ex
      by (auto simp: cw20_execute_def cw20_transfer_from_def Let_def dest!: sp [OF _ disjI1])
  next
    case CwSendFrom
    then show ?thesis using ex
      by (auto simp: cw20_execute_def cw20_send_with_msg_from_def Let_def dest!: sp [OF _ disjI1])
  next
    case CwBurnFrom
    then show ?thesis using ex
      by (auto simp: cw20_execute_def cw20_burn_from_def Let_def dest!: sp [OF _ disjI2])
  next
    case CwMint
    then show ?thesis using ex cw20_mint_result [OF inv] by (auto simp: cw20_execute_def Let_def)
  next
    case CwUpdateMinter
    then show ?thesis using ex cw20_other_messages(3) [OF _ inv] by (auto simp: cw20_execute_def Let_def)
  next
    case CwUpdateMarketing
    then show ?thesis using ex cw20_other_messages(1) [OF _ inv] by (auto simp: cw20_execute_def Let_def)
  next
    case CwUploadLogo
    then show ?thesis using ex cw20_other_messages(2) [OF _ inv] by (auto simp: cw20_execute_def Let_def)
  next
    case CwSetMarket
    then show ?thesis using ex cw20_other_messages(4) [OF _ inv] by (auto simp: cw20_execute_def Let_def)
  qed
  then show "cw20_inv s'" "a \<noteq> sender \<Longrightarrow> cw20_spends s s' a" by auto
qed

interpretation cw20: spendable_token "\<lambda>s. balance_of (cw_balances s)" "\<lambda>s. granted (cw_allowances s)" cw20_inv
    cw20_execute
  by unfold_locales (use cw20_execute_result in \<open>force simp: cw20_spends_def\<close>)+

section \<open>Reachable states\<close>

text \<open>\<open>addr_validate\<close> returns the address it was given, as the documentation of the chain promises.\<close>

definition api_keeps_text :: "addr_api \<Rightarrow> bool" where
  "api_keeps_text api \<longleftrightarrow> (\<forall>s a. api s = Some a \<longrightarrow> a = s)"

definition cw20_start :: "Cw20State \<Rightarrow> bool" where
  "cw20_start s \<longleftrightarrow> (\<exists>env msg. api_keeps_text (cw_api env) \<and> token_init env msg cw20_empty = Inr s)"

inductive cw20_step :: "Cw20State \<Rightarrow> Cw20State \<Rightarrow> bool" where
  message: "cw20_execute env sender msg s = Inr s' \<Longrightarrow> cw20_step s s'"

lemma initial_balances_sum:
  assumes "api_keeps_text api" and "initial_balances api rows (m, n) = Inr (m', n')"
    and "distinct (map fst rows)" and "\<And>a. a \<in> fst ` set rows \<Longrightarrow> fmlookup m a = None" and "n = ledger_sum m"
  shows "n' = ledger_sum m'"
  using assms(2-)
proof (induction rows arbitrary: m n)
  case (Cons row rows)
  obtain raw amount where row: "row = (raw, amount)" by (cases row)
  obtain a where a: "api raw = Some a" and i: "initial_balances api rows (fmupd a amount m, n + amount) = Inr (m', n')"
    using Cons.prems(1) by (auto simp: row api_addr_validate_def)
  have a': "a = raw" using assms(1) a by (simp add: api_keeps_text_def)
  have "balance_of m a = 0" using Cons.prems(3) [of raw] by (simp add: a' row balance_of_def)
  then have "n + amount = ledger_sum (fmupd a amount m)" using ledger_sum_upd [of a amount m] Cons.prems(4) by simp
  moreover have "fmlookup (fmupd a amount m) b = None" if "b \<in> fst ` set rows" for b
    using that Cons.prems(2) Cons.prems(3) [of b] by (auto simp: row a')
  ultimately show ?case using Cons.IH [OF i] Cons.prems(2) by (simp add: row)
qed simp

lemma cw20_start_inv: "cw20_start s \<Longrightarrow> cw20_inv s"
proof -
  assume "cw20_start s"
  then obtain env msg where k: "api_keeps_text (cw_api env)" and init: "token_init env msg cw20_empty = Inr s"
    by (auto simp: cw20_start_def)
  obtain m n mi where d: "distinct (map fst (in_initial_balances msg))"
    and rows: "initial_balances (cw_api env) (in_initial_balances msg) (fmempty, 0) = Inr (m, n)"
    and cap: "\<forall>c. in_cap msg = Some c \<longrightarrow> n \<le> c"
    and s: "cw_minter s = Some mi" "cw_minter_cap s = in_cap msg" "cw_balances s = m"
      "(\<exists>info. cw_token_info s = Some info \<and> ti_total_supply info = n)"
      "cw_allowances s = fmempty" "cw_allowances_spender s = fmempty"
    using init by (cases "in_cap msg"; cases "Option.bind (in_marketing msg) im_logo")
      (auto simp: token_init_def cw20_instantiate_validate_def has_valid_balances_def cw20_empty_def Let_def
        not_less split: if_splits)
  have "n = ledger_sum m" using initial_balances_sum [OF k rows d] by simp
  then show ?thesis using s cap by (auto simp: cw20_inv_def mirrored_def split: option.splits)
qed

interpretation cw20_system: invariant_system cw20_start cw20_step cw20_inv
  by unfold_locales (auto intro: cw20_start_inv elim!: cw20_step.cases dest: cw20_execute_result(1))

end
