(* ===== verification/TokenProperties.thy ===== *)
theory TokenProperties
  imports Cw20 PoolExamples
begin

text \<open>
  The properties of the two kinds of token: the CW20 contract and the liquidity tokens of the market, each
  with an evaluation on a small token of Alice and Bob and on the sample pool.
\<close>

section \<open>A sample token\<close>

definition token_env :: Cw20Env where
  "token_env = \<lparr>cw_api = Some, cw_is_expired = (\<lambda>e. e < 600), cw_never = 1000\<rparr>"

definition sample_token_init :: Cw20InstantiateMsg where
  "sample_token_init = \<lparr>in_name = ''Token'', in_symbol = ''TKN'', in_decimals = 6,
     in_initial_balances = [(''alice'', 100), (''bob'', 50)], in_minter = ''minter'', in_cap = Some 1000,
     in_marketing = None\<rparr>"

definition token_of :: "nat \<Rightarrow> ledger \<Rightarrow> allowance_map \<Rightarrow> allowance_map \<Rightarrow> Cw20Event list \<Rightarrow> Cw20State" where
  "token_of supply balances al al' es = \<lparr>cw_minter = Some ''minter'', cw_minter_cap = Some 1000,
     cw_token_info = Some \<lparr>ti_name = ''Token'', ti_symbol = ''TKN'', ti_decimals = 6, ti_total_supply = supply\<rparr>,
     cw_marketing_info = Some (init_marketing_info None), cw_logo = None, cw_balances = balances,
     cw_allowances = al, cw_allowances_spender = al', cw_market_address = None, cw_events = es, cw_submessages = []\<rparr>"

definition sample_balances :: ledger where
  "sample_balances = fmupd ''bob'' 50 (fmupd ''alice'' 100 fmempty)"

lemmas cw20_eval = cw20_execute_def assert_trading_competition_def addr_validate_def token_env_def token_of_def
  cw20_event_def Let_def u128_lim_def debit_def credit_def u128_checked_sub_def u128_add_def ok_or_def

lemma sample_token_started: "token_init token_env sample_token_init cw20_empty = Inr (token_of 150 sample_balances fmempty fmempty [])"
  by (simp add: token_init_def sample_token_init_def cw20_instantiate_validate_def has_valid_name_def has_valid_symbol_def
      has_valid_balances_def cw20_empty_def api_addr_validate_def sample_balances_def cw20_eval)

lemma sample_token_start: "cw20_start (token_of 150 sample_balances fmempty fmempty [])"
  unfolding cw20_start_def using sample_token_started
  by (intro exI [of _ token_env] exI [of _ sample_token_init]) (simp add: api_keeps_text_def token_env_def)

section \<open>The supply\<close>

text \<open>C27: In every state the token contract can reach from an instantiation, the total supply is exactly the
  sum of all balances and does not exceed the cap, and the allowances by owner and by spender are the same:
  no message, whoever sends it and whatever amounts it names, creates or loses a token outside minting
  and burning.\<close>

theorem cw20_supply_is_backed:
  assumes "reachable cw20_start cw20_step s"
  shows "\<exists>info. cw_token_info s = Some info \<and> ti_total_supply info = ledger_sum (cw_balances s)
    \<and> (\<forall>cap. cw_minter_cap s = Some cap \<longrightarrow> ti_total_supply info \<le> cap)
    \<and> (\<forall>a b. fmlookup (cw_allowances_spender s) (b, a) = fmlookup (cw_allowances s) (a, b))"
  using cw20_system.reachable_inv [OF assms] by (auto simp: cw20_inv_def mirrored_def)

definition sample_mint_result :: Cw20State where
  "sample_mint_result = token_of 350 (fmupd ''carol'' 200 sample_balances) fmempty fmempty [CwMintEvent ''minter'' ''carol'' 200]"

lemma sample_mint: "cw20_execute token_env ''minter'' (CwMint ''carol'' 200) (token_of 150 sample_balances fmempty fmempty [])
    = Inr sample_mint_result"
  by (simp add: cw20_mint_def cw20_minter_addr_def competition_recipient_def sample_balances_def sample_mint_result_def cw20_eval)

theorem cw20_supply_is_backed_witness: "ledger_sum (cw_balances sample_mint_result) = 350"
proof -
  have r: "reachable cw20_start cw20_step sample_mint_result"
    by (rule reachable.move, rule reachable.start, rule sample_token_start, rule cw20_step.message, rule sample_mint)
  show ?thesis
    using cw20_supply_is_backed [OF r] by (simp add: sample_mint_result_def token_of_def)
qed

section \<open>Holders\<close>

context decimal256
begin

lemma liquidity_tokens_taken:
  "tokens_sound c \<Longrightarrow> run_msgs (liquidity_token_exec D) ms c = Inr c' \<Longrightarrow> a \<notin> (\<lambda>(e, sender, m). sender) ` set ms
     \<Longrightarrow> units_of k c a \<le> units_of k c' a + grants_of k c a"
  by (rule liquidity_token.others_take_at_most_grants)

end

text \<open>C28: Nobody can take more from a holder than the holder granted: whatever messages other accounts send,
  in any number and order, the balance of an account that sends none of them drops by at most the allowances
  it had granted before. This holds for the CW20 contract in every reachable state and, in the same form, for
  the LP and the xLP tokens of the market, where a transfer also settles the accounts of both sides.\<close>

theorem token_holders_are_safe:
  assumes "decimal256 D"
    and "reachable cw20_start cw20_step s" "run_msgs cw20_execute ms s = Inr s'"
      "a \<notin> (\<lambda>(e, sender, m). sender) ` set ms"
    and "tokens_sound ctx" "run_msgs (liquidity_token_exec D) lms ctx = Inr ctx'"
      "b \<notin> (\<lambda>(e, sender, m). sender) ` set lms"
  shows "balance_of (cw_balances s) a \<le> balance_of (cw_balances s') a + granted (cw_allowances s) a
    \<and> units_of k ctx b \<le> units_of k ctx' b + token_atomics (granted (fst (allowances_of k ctx)) b)"
  using cw20.others_take_at_most_grants [OF cw20_system.reachable_inv [OF assms(2)] assms(3,4)]
    decimal256.liquidity_tokens_taken [OF assms(1,5-7), of k]
  by (simp add: grants_of_def)

text \<open>Alice has granted 30 tokens to Carol, who takes 20 of them; Bob has granted 30 xLP tokens to Carol, who
  moves 20 of them to Alice.\<close>

definition carol_allowed :: "nat \<Rightarrow> AllowanceResponse" where
  "carol_allowed n = \<lparr>al_allowance = n, al_expires = 1000\<rparr>"

definition granted_token :: Cw20State where
  "granted_token = token_of 150 sample_balances (fmupd (''alice'', ''carol'') (carol_allowed 30) fmempty)
     (fmupd (''carol'', ''alice'') (carol_allowed 30) fmempty)
     [CwTokenEvent (AllowanceChangeEvent True ''alice'' ''carol'' 30 None)]"

lemma sample_grant: "cw20_execute token_env ''alice'' (CwIncreaseAllowance ''carol'' 30 None)
    (token_of 150 sample_balances fmempty fmempty []) = Inr granted_token"
  by (simp add: cw20_increase_allowance_def increase_allowance_def raise_allowance_def competition_recipient_def
      granted_token_def carol_allowed_def cw20_eval)

definition sample_messages :: "(Cw20Env \<times> Addr \<times> Cw20ExecuteMsg) list" where
  "sample_messages = [(token_env, ''carol'', CwTransferFrom ''alice'' ''carol'' 20), (token_env, ''bob'', CwBurn 10)]"

lemma sample_run: "\<exists>s'. run_msgs cw20_execute sample_messages granted_token = Inr s' \<and> balance_of (cw_balances s') ''alice'' = 80"
  by (simp add: sample_messages_def cw20_transfer_from_def cw20_deduct_allowance_def deduct_allowance_def
      spend_allowance_def cw20_move_def cw20_burn_def cw20_lower_supply_def competition_recipient_def
      granted_token_def carol_allowed_def sample_balances_def cw20_eval)

definition granted_pool :: Ctx where
  "granted_pool = set_allowances KindXlp (fmupd (''bob'', ''carol'') (carol_allowed 30000000) fmempty,
     fmupd (''carol'', ''bob'') (carol_allowed 30000000) fmempty) sample_pool"

lemma granted_pool_sound: "tokens_sound granted_pool"
proof -
  have "mirrored (fmupd (''bob'', ''carol'') x fmempty, fmupd (''carol'', ''bob'') x fmempty)" for x
    by (auto simp: mirrored_def)
  moreover have "mirrored (allowances_of k sample_pool)" for k
    by (cases k) (simp_all add: allowances_of_def sample_pool_def allowances_empty_def mirrored_def)
  ultimately show ?thesis
    by (simp add: tokens_sound_def granted_pool_def sample_pool_inv)
qed

lemma granted_allowances [simp]:
  "allowances_of KindXlp (sample_pool\<lparr>allowance_st := (allowance_st sample_pool)\<lparr>xlp_allowances := m, xlp_allowances_spender := m'\<rparr>\<rparr>) = (m, m')"
  by (simp add: allowances_of_def)

lemmas token_eval = liquidity_token_exec_def liquidity_token_handle_exec_def liquidity_token_transfer_from_def
  liquidity_token_deduct_allowance_inner_def deduct_allowance_def spend_allowance_def move_liquidity_tokens_def
  liquidity_token_balance_change_inner_def uint_128_into_lp_token_def token_from_u128_def DECIMAL_PLACES_def
  addr_validate_def u128_checked_sub_def u128_lim_def set_allowances_def allowances_of_def carol_allowed_def

lemma sample_env_tokens [simp]:
  "env_addr_validate sample_env = Some" "env_is_expired sample_env = (\<lambda>e. e < 600)"
  by (simp_all add: sample_env_def)

lemma twenty_tokens: "d_from_atomics dec18 20000000 6 = Inr (mic 20000000)"
  by (simp add: call_defs dec18_def fit_def mic_def dec_lim_def)

lemma granted_pool_run: "is_ok (run_msgs (liquidity_token_exec dec18)
    [(sample_env, ''carol'', KindXlp, LtTransferFrom ''bob'' ''alice'' 20000000)] granted_pool)"
  by (simp add: token_eval twenty_tokens granted_pool_def operation_eval)

lemma granted_token_reached: "reachable cw20_start cw20_step granted_token"
  by (rule reachable.move, rule reachable.start, rule sample_token_start, rule cw20_step.message, rule sample_grant)

theorem token_holders_are_safe_witness:
  "\<exists>s' ctx'. run_msgs cw20_execute sample_messages granted_token = Inr s'
     \<and> 100 \<le> balance_of (cw_balances s') ''alice'' + 30
     \<and> mic 40000000 \<le> units_of KindXlp ctx' ''bob'' + mic 30000000"
proof -
  obtain s' where s': "run_msgs cw20_execute sample_messages granted_token = Inr s'" using sample_run by blast
  obtain c where c: "run_msgs (liquidity_token_exec dec18)
      [(sample_env, ''carol'', KindXlp, LtTransferFrom ''bob'' ''alice'' 20000000)] granted_pool = Inr c"
    using granted_pool_run unfolding is_ok_iff by blast
  have fields: "balance_of (cw_balances granted_token) ''alice'' = 100" "granted (cw_allowances granted_token) ''alice'' = 30"
    "units_of KindXlp granted_pool ''bob'' = mic 40000000"
    "token_atomics (granted (fst (allowances_of KindXlp granted_pool)) ''bob'') = mic 30000000"
    using granted_own(1) [of "''alice''" "''carol''" "carol_allowed 30" fmempty]
      granted_own(1) [of "''bob''" "''carol''" "carol_allowed 30000000" fmempty]
    by (simp_all add: granted_token_def token_of_def sample_balances_def granted_pool_def units_of_def kind_units_def
        fmval_def carol_allowed_def granted_def token_atomics_def mic_def)
  have "balance_of (cw_balances granted_token) ''alice'' \<le> balance_of (cw_balances s') ''alice''
        + granted (cw_allowances granted_token) ''alice''
      \<and> units_of KindXlp granted_pool ''bob'' \<le> units_of KindXlp c ''bob''
        + token_atomics (granted (fst (allowances_of KindXlp granted_pool)) ''bob'')"
    by (rule token_holders_are_safe [OF d18.decimal256_axioms granted_token_reached s' _ granted_pool_sound c])
      (simp_all add: sample_messages_def)
  then show ?thesis unfolding fields using s' by blast
qed

end
