(* ===== verification/Vault.thy ===== *)
theory Vault
  imports Cw20 "HOL-Library.AList"
begin

text \<open>
  The vault, \<open>contracts/vault/src\<close> with the messages of \<open>packages/perpswap/src/contracts/vault.rs\<close>:
  it takes USDC deposits for shares, spreads the funds over the markets, and pays withdrawals from a queue.
  What the vault asks of the chain (its balance in a denomination or in a token contract, the decoding of a
  hook message) and \<open>Uint128::multiply_ratio\<close> of the chain's library are parameters of the
  environment. A \<open>HashMap\<close> is the association list of its entries in the order of its iteration. The items
  the instantiation saves are plain fields; the attributes of the responses are left out, the messages the
  vault sends are part of the result.
\<close>

section \<open>Data\<close>

datatype UsdcAsset = UsdcCW20 Addr | UsdcNative string
datatype UsdcAssetInit = InitCW20 string | InitNative string

definition usdc_to_string :: "UsdcAsset \<Rightarrow> string" where
  "usdc_to_string a = (case a of UsdcCW20 addr \<Rightarrow> addr | UsdcNative denom \<Rightarrow> denom)"

definition usdc_from_init :: "addr_api \<Rightarrow> UsdcAssetInit \<Rightarrow> UsdcAsset res" where
  "usdc_from_init api init = (case init of
       InitCW20 address \<Rightarrow> map_res UsdcCW20 (api_addr_validate api address)
     | InitNative denom \<Rightarrow>
         and_then (ensure (denom \<noteq> []) (Msg ''Native denom cannot be empty'')) (\<lambda>_. Inr (UsdcNative denom)))"

record VaultConfig =
  vc_usdc_denom :: UsdcAsset
  vc_governance :: Addr
  vc_markets_allocation_bps :: "(Addr \<times> nat) list"
  vc_paused :: bool

record WithdrawalRequest =
  wr_user :: Addr
  wr_amount :: nat

type_synonym QueueId = u64

record VaultState =
  vs_config :: VaultConfig
  vs_total_pending_withdrawals :: nat
  vs_queue_id :: "QueueId option"
  vs_user_withdrawals :: "(Addr \<times> QueueId, unit) fmap"
  vs_withdrawal_queue :: "(QueueId, WithdrawalRequest) fmap"
  vs_total_lp_supply :: nat
  vs_lp_balances :: ledger
  vs_market_allocations :: "(string, nat) fmap"

record VaultInstantiateMsg =
  vi_usdc_denom :: UsdcAssetInit
  vi_governance :: string
  vi_markets_allocation_bps :: "(string \<times> nat) list"

datatype VaultExecuteMsg =
    VaultDeposit
  | VaultReceive Cw20ReceiveMsg
  | RequestWithdrawal nat
  | RedistributeFunds
  | CollectYield
  | ProcessWithdrawal
  | WithdrawFromMarket string nat
  | EmergencyPause
  | ResumeOperations
  | UpdateAllocations "(Addr \<times> nat) list"
  | AddMarket string

text \<open>The messages the vault sends: a payment of the bank, a call of a market with coins attached, and a call of
  the token contract. The vault's hook message has one variant, \<open>Deposit\<close>.\<close>

datatype MarketCall = CallDepositLiquidity bool | CallClaimYield | CallWithdrawLiquidity "NonZero option" bool
datatype TokenCall = TokenSend Addr nat MarketCall | TokenTransfer Addr nat
datatype VaultCosmosMsg =
    BankSend Addr "(string \<times> nat) list"
  | ExecuteMarket Addr MarketCall "(string \<times> nat) list"
  | ExecuteToken Addr TokenCall

datatype VaultHookMsg = HookDeposit

record VaultEnv =
  ve_api :: addr_api
  ve_bank_balance :: "string \<Rightarrow> nat res"
  ve_cw20_balance :: "Addr \<Rightarrow> nat res"
  ve_hook_msg :: "string \<Rightarrow> VaultHookMsg option"
  ve_multiply_ratio :: "nat \<Rightarrow> nat \<Rightarrow> nat \<Rightarrow> nat res"

record VaultInfo =
  vf_sender :: Addr
  vf_funds :: "(string \<times> nat) list"

section \<open>Sums\<close>

text \<open>Sums of \<open>u16\<close> and of \<open>Uint128\<close> values panic when they do not fit.\<close>

fun sum_u16 :: "nat \<Rightarrow> nat list \<Rightarrow> nat res" where
  "sum_u16 acc [] = Inr acc"
| "sum_u16 acc (n # ns) = (if acc + n < 2 ^ 16 then sum_u16 (acc + n) ns else Inl (Panic ''u16 add overflow''))"

fun sum_u128 :: "nat \<Rightarrow> nat list \<Rightarrow> nat res" where
  "sum_u128 acc [] = Inr acc"
| "sum_u128 acc (n # ns) = and_then (u128_add acc n) (\<lambda>acc. sum_u128 acc ns)"

definition total_bps :: "(Addr \<times> nat) list \<Rightarrow> nat res" where
  "total_bps alloc = sum_u16 0 (map snd alloc)"

definition fmvalues :: "('k::linorder, 'v) fmap \<Rightarrow> 'v list" where
  "fmvalues m = List.map_filter (fmlookup m) (fmkeys m)"

section \<open>Common\<close>

definition get_total_assets :: "VaultEnv \<Rightarrow> VaultState \<Rightarrow> nat res" where
  "get_total_assets env s =
     and_then (ve_bank_balance env (usdc_to_string (vc_usdc_denom (vs_config s)))) (\<lambda>vault_balance.
     and_then (sum_u128 0 (fmvalues (vs_market_allocations s))) (\<lambda>allocated_amount.
     ok_or (ok (u128_checked_add vault_balance allocated_amount)) (Msg ''Overflow in total assets calculation'')))"

definition usdc_balance :: "VaultEnv \<Rightarrow> UsdcAsset \<Rightarrow> nat res" where
  "usdc_balance env asset = (case asset of
       UsdcCW20 addr \<Rightarrow> ve_cw20_balance env addr
     | UsdcNative denom \<Rightarrow> ve_bank_balance env denom)"

record VaultBalanceResponse =
  vb_vault_balance :: nat
  vb_allocated_amount :: nat
  vb_pending_withdrawals :: nat
  vb_total_allocated :: nat

definition get_vault_balance :: "VaultEnv \<Rightarrow> VaultState \<Rightarrow> VaultBalanceResponse res" where
  "get_vault_balance env s =
     and_then (usdc_balance env (vc_usdc_denom (vs_config s))) (\<lambda>vault_balance.
     and_then (sum_u128 0 (fmvalues (vs_market_allocations s))) (\<lambda>allocated_amount.
     and_then (ok_or (ok (u128_checked_add vault_balance allocated_amount)) (Msg ''Overflow in total calculation'')) (\<lambda>total.
     Inr \<lparr>vb_vault_balance = vault_balance, vb_allocated_amount = allocated_amount,
       vb_pending_withdrawals = vs_total_pending_withdrawals s, vb_total_allocated = total\<rparr>)))"

definition get_market_allocations :: "string option \<Rightarrow> VaultState \<Rightarrow> (string \<times> nat) list" where
  "get_market_allocations start_after s =
     List.map_filter (\<lambda>k. map_option (Pair k) (fmlookup (vs_market_allocations s) k))
       (filter (\<lambda>k. case start_after of None \<Rightarrow> True | Some a \<Rightarrow> a < k) (fmkeys (vs_market_allocations s)))"

definition check_not_paused :: "VaultConfig \<Rightarrow> unit res" where
  "check_not_paused c = (if vc_paused c then Inl (Msg ''Contract operations are paused'') else Inr ())"

definition next_queue_id :: "VaultState \<Rightarrow> QueueId" where
  "next_queue_id s = (case vs_queue_id s of Some i \<Rightarrow> i | None \<Rightarrow> 0)"

definition get_and_increment_queue_id :: "VaultState \<Rightarrow> (QueueId \<times> VaultState) res" where
  "get_and_increment_queue_id s =
     and_then (u64_add (next_queue_id s) 1) (\<lambda>n. Inr (next_queue_id s, s\<lparr>vs_queue_id := Some n\<rparr>))"

text \<open>The query for the pending withdrawals of a user.\<close>

fun sum_requests :: "(QueueId, WithdrawalRequest) fmap \<Rightarrow> nat \<Rightarrow> QueueId list \<Rightarrow> nat res" where
  "sum_requests queue pending [] = Inr pending"
| "sum_requests queue pending (i # ids) =
     and_then (ok_or (fmlookup queue i) (Std ''not found'')) (\<lambda>req.
     and_then (u128_checked_add pending (wr_amount req)) (\<lambda>pending. sum_requests queue pending ids))"

definition get_pending_withdrawal :: "VaultEnv \<Rightarrow> string \<Rightarrow> VaultState \<Rightarrow> nat res" where
  "get_pending_withdrawal env user s =
     and_then (api_addr_validate (ve_api env) user) (\<lambda>a.
     sum_requests (vs_withdrawal_queue s) 0 (map snd (filter (\<lambda>k. fst k = a) (fmkeys (vs_user_withdrawals s)))))"

section \<open>Instantiation\<close>

fun init_markets ::
    "addr_api \<Rightarrow> (string \<times> nat) list \<Rightarrow> (string, nat) fmap \<times> (Addr \<times> nat) list
       \<Rightarrow> ((string, nat) fmap \<times> (Addr \<times> nat) list) res" where
  "init_markets api [] am = Inr am"
| "init_markets api ((market, bps) # rest) (allocations, markets) =
     and_then (api_addr_validate api market) (\<lambda>addr.
     init_markets api rest (fmupd market 0 allocations, AList.update addr bps markets))"

definition vault_instantiate :: "VaultEnv \<Rightarrow> VaultInstantiateMsg \<Rightarrow> VaultState res" where
  "vault_instantiate env msg =
     and_then (api_addr_validate (ve_api env) (vi_governance msg)) (\<lambda>governance.
     and_then (total_bps (vi_markets_allocation_bps msg)) (\<lambda>total.
     if 10000 < total then Inl (Msg ''Yield allocation exceeds 100%'')
     else
       and_then (init_markets (ve_api env) (vi_markets_allocation_bps msg) (fmempty, [])) (\<lambda>(allocations, markets).
       and_then (usdc_from_init (ve_api env) (vi_usdc_denom msg)) (\<lambda>usdc_asset.
       Inr \<lparr>vs_config = \<lparr>vc_usdc_denom = usdc_asset, vc_governance = governance,
             vc_markets_allocation_bps = markets, vc_paused = False\<rparr>,
           vs_total_pending_withdrawals = 0, vs_queue_id = None, vs_user_withdrawals = fmempty,
           vs_withdrawal_queue = fmempty, vs_total_lp_supply = 0, vs_lp_balances = fmempty,
           vs_market_allocations = allocations\<rparr>))))"

section \<open>Deposits and requests\<close>

text \<open>Shares are minted in the two steps both kinds of deposit share.\<close>

definition vault_mint :: "Addr \<Rightarrow> nat \<Rightarrow> VaultState \<Rightarrow> VaultState res" where
  "vault_mint user lp_amount s =
     and_then (credit user lp_amount (vs_lp_balances s)) (\<lambda>balances.
     and_then (u128_add (vs_total_lp_supply s) lp_amount) (\<lambda>total.
     Inr (s\<lparr>vs_lp_balances := balances, vs_total_lp_supply := total\<rparr>)))"

definition deposit_shares :: "VaultEnv \<Rightarrow> nat \<Rightarrow> VaultState \<Rightarrow> nat res" where
  "deposit_shares env amount s =
     and_then (get_total_assets env s) (\<lambda>total_assets.
     if vs_total_lp_supply s = 0 then Inr amount
     else ve_multiply_ratio env amount (vs_total_lp_supply s) total_assets)"

definition execute_deposit :: "VaultEnv \<Rightarrow> VaultInfo \<Rightarrow> VaultState \<Rightarrow> VaultState res" where
  "execute_deposit env info s =
     and_then (check_not_paused (vs_config s)) (\<lambda>_.
     case vf_funds info of
       [(denom, amount)] \<Rightarrow>
         if denom \<noteq> usdc_to_string (vc_usdc_denom (vs_config s)) then Inl (Msg ''Exactly one coin (USDC) must be sent'')
         else and_then (deposit_shares env amount s) (\<lambda>lp_amount. vault_mint (vf_sender info) lp_amount s)
     | _ \<Rightarrow> Inl (Msg ''Exactly one coin (USDC) must be sent''))"

definition execute_receive :: "VaultEnv \<Rightarrow> VaultInfo \<Rightarrow> Cw20ReceiveMsg \<Rightarrow> VaultState \<Rightarrow> VaultState res" where
  "execute_receive env info cw20_msg s =
     and_then (case vc_usdc_denom (vs_config s) of
         UsdcCW20 cw20_addr \<Rightarrow> if vf_sender info \<noteq> cw20_addr then Inl (Msg ''Invalid CW20 token'') else Inr ()
       | UsdcNative _ \<Rightarrow> Inl (Msg ''USDC denomination is not a CW20 token'')) (\<lambda>_.
     and_then (check_not_paused (vs_config s)) (\<lambda>_.
     and_then (ok_or (ve_hook_msg env (rc_msg cw20_msg)) (Msg ''Invalid CW20 hook message'')) (\<lambda>msg.
     case msg of HookDeposit \<Rightarrow>
       and_then (api_addr_validate (ve_api env) (rc_sender cw20_msg)) (\<lambda>sender_addr.
       vault_mint sender_addr (rc_amount cw20_msg) s))))"

definition execute_request_withdrawal :: "VaultInfo \<Rightarrow> nat \<Rightarrow> VaultState \<Rightarrow> VaultState res" where
  "execute_request_withdrawal info amount s =
     and_then (check_not_paused (vs_config s)) (\<lambda>_.
     and_then (ok_or (ok (debit (vf_sender info) amount (vs_lp_balances s))) (Msg ''Error reducing balances'')) (\<lambda>balances.
     and_then (get_and_increment_queue_id (s\<lparr>vs_lp_balances := balances\<rparr>)) (\<lambda>(queue_id, s).
     if amount = 0 then Inl (Msg ''Withdrawal amount cannot be zero'')
     else
       let s = s\<lparr>vs_withdrawal_queue := fmupd queue_id \<lparr>wr_user = vf_sender info, wr_amount = amount\<rparr> (vs_withdrawal_queue s),
             vs_user_withdrawals := fmupd (vf_sender info, queue_id) () (vs_user_withdrawals s)\<rparr> in
       and_then (ok_or (ok (u128_checked_add (vs_total_pending_withdrawals s) amount))
           (Msg ''Error updating total pending withdrawals'')) (\<lambda>pending.
       and_then (ok_or (ok (u128_checked_sub (vs_total_lp_supply s) amount)) (Msg ''Insufficient LP supply'')) (\<lambda>supply.
       Inr (s\<lparr>vs_total_pending_withdrawals := pending, vs_total_lp_supply := supply\<rparr>))))))"

section \<open>Spreading the funds\<close>

text \<open>The governance's guard, after the check that the vault is not paused.\<close>

definition ensure_governance :: "string \<Rightarrow> VaultInfo \<Rightarrow> VaultState \<Rightarrow> unit res" where
  "ensure_governance msg info s = ensure (vc_governance (vs_config s) = vf_sender info) (Msg msg)"

definition deposit_message :: "UsdcAsset \<Rightarrow> Addr \<Rightarrow> nat \<Rightarrow> VaultCosmosMsg" where
  "deposit_message asset market amount = (case asset of
       UsdcCW20 addr \<Rightarrow> ExecuteToken addr (TokenSend market amount (CallDepositLiquidity False))
     | UsdcNative denom \<Rightarrow> ExecuteMarket market (CallDepositLiquidity False) [(denom, amount)])"

definition remainder_message :: "UsdcAsset \<Rightarrow> Addr \<Rightarrow> nat \<Rightarrow> VaultCosmosMsg" where
  "remainder_message asset governance remaining = (case asset of
       UsdcCW20 addr \<Rightarrow> ExecuteToken addr (TokenTransfer governance remaining)
     | UsdcNative denom \<Rightarrow> BankSend governance [(denom, remaining)])"

fun redistribute_loop ::
    "VaultEnv \<Rightarrow> UsdcAsset \<Rightarrow> nat \<Rightarrow> nat \<Rightarrow> (Addr \<times> nat) list \<Rightarrow> VaultCosmosMsg list \<times> (string, nat) fmap \<times> nat
       \<Rightarrow> (VaultCosmosMsg list \<times> (string, nat) fmap \<times> nat) res" where
  "redistribute_loop env asset excess bps_sum [] acc = Inr acc"
| "redistribute_loop env asset excess bps_sum ((market, bps) # rest) (messages, allocations, remaining) =
     and_then (ve_multiply_ratio env excess bps bps_sum) (\<lambda>amount.
     if amount = 0 then redistribute_loop env asset excess bps_sum rest (messages, allocations, remaining)
     else
       and_then (credit market amount allocations) (\<lambda>allocations.
       redistribute_loop env asset excess bps_sum rest
         (messages @ [deposit_message asset market amount], allocations, remaining - amount)))"

definition execute_redistribute_funds ::
    "VaultEnv \<Rightarrow> VaultInfo \<Rightarrow> VaultState \<Rightarrow> (VaultState \<times> VaultCosmosMsg list) res" where
  "execute_redistribute_funds env info s =
     and_then (check_not_paused (vs_config s)) (\<lambda>_.
     and_then (ensure_governance ''Unauthorized redistribute_funds'' info s) (\<lambda>_.
     and_then (usdc_balance env (vc_usdc_denom (vs_config s))) (\<lambda>vault_balance.
     let excess = vault_balance - vs_total_pending_withdrawals s in
     if excess = 0 then Inl (Msg ''No excess to redistribute'')
     else
       and_then (total_bps (vc_markets_allocation_bps (vs_config s))) (\<lambda>total.
       if total = 0 then Inl (Msg ''No allocation percentages defined'')
       else if 10000 < total then Inl (Msg ''Market allocation exceeds 100%'')
       else
         and_then (redistribute_loop env (vc_usdc_denom (vs_config s)) excess total
             (vc_markets_allocation_bps (vs_config s)) ([], vs_market_allocations s, excess)) (\<lambda>(messages, allocations, remaining).
         Inr (s\<lparr>vs_market_allocations := allocations\<rparr>,
           if remaining \<noteq> 0 then messages @ [remainder_message (vc_usdc_denom (vs_config s)) (vc_governance (vs_config s)) remaining]
           else messages))))))"

definition execute_collect_yield :: "VaultInfo \<Rightarrow> VaultState \<Rightarrow> (VaultState \<times> VaultCosmosMsg list) res" where
  "execute_collect_yield info s =
     and_then (check_not_paused (vs_config s)) (\<lambda>_.
     and_then (ensure_governance ''Unauthorized'' info s) (\<lambda>_.
     Inr (s, map (\<lambda>market. ExecuteMarket market CallClaimYield []) (fmkeys (vs_market_allocations s)))))"

definition execute_withdraw_from_market ::
    "dec256_api \<Rightarrow> VaultInfo \<Rightarrow> string \<Rightarrow> nat \<Rightarrow> VaultState \<Rightarrow> (VaultState \<times> VaultCosmosMsg list) res" where
  "execute_withdraw_from_market D info market amount s =
     and_then (check_not_paused (vs_config s)) (\<lambda>_.
     and_then (ensure_governance ''Unauthorized'' info s) (\<lambda>_.
     and_then (ok_or (fmlookup (vs_market_allocations s) market) (Std ''not found'')) (\<lambda>current_allocation.
     if current_allocation < amount then Inl (Msg ''Insufficient market allocation'')
     else
       and_then (ok_or (ok (lp_token_from_u128 D amount)) (Panic ''Cannot convert Uint128 to LpToken'')) (\<lambda>lp.
       and_then (ok_or (nonzero_new lp) (Msg ''Amount must be non-zero'')) (\<lambda>lp_amount.
       Inr (s\<lparr>vs_market_allocations := fmupd market (current_allocation - amount) (vs_market_allocations s)\<rparr>,
         [ExecuteMarket market (CallWithdrawLiquidity (Some lp_amount) False) []]))))))"

section \<open>Paying withdrawals\<close>

definition PROCESS_LIMIT :: nat where
  "PROCESS_LIMIT = 20"

text \<open>The requests of the queue in the order of their identifiers, and those of a page that the balance covers.\<close>

definition queue_entries :: "VaultState \<Rightarrow> (QueueId \<times> WithdrawalRequest) list" where
  "queue_entries s = List.map_filter (\<lambda>i. map_option (Pair i) (fmlookup (vs_withdrawal_queue s) i)) (fmkeys (vs_withdrawal_queue s))"

fun payable :: "nat \<Rightarrow> nat \<Rightarrow> (QueueId \<times> WithdrawalRequest) list \<Rightarrow> (nat \<times> (QueueId \<times> WithdrawalRequest) list) res" where
  "payable vault_balance processed [] = Inr (processed, [])"
| "payable vault_balance processed ((i, request) # rest) =
     and_then (u128_add processed (wr_amount request)) (\<lambda>new_total.
     if vault_balance < new_total then Inr (processed, [])
     else map_res (\<lambda>(total, es). (total, (i, request) # es)) (payable vault_balance new_total rest))"

definition payment_message :: "UsdcAsset \<Rightarrow> WithdrawalRequest \<Rightarrow> VaultCosmosMsg" where
  "payment_message asset request = BankSend (wr_user request) [(usdc_to_string asset, wr_amount request)]"

fun remove_entries :: "(QueueId \<times> WithdrawalRequest) list \<Rightarrow> VaultState \<Rightarrow> VaultState" where
  "remove_entries [] s = s"
| "remove_entries ((i, request) # rest) s =
     remove_entries rest (s\<lparr>vs_withdrawal_queue := fmdrop i (vs_withdrawal_queue s),
       vs_user_withdrawals := fmdrop (wr_user request, i) (vs_user_withdrawals s)\<rparr>)"

definition execute_process_withdrawal :: "VaultEnv \<Rightarrow> VaultState \<Rightarrow> (VaultState \<times> VaultCosmosMsg list) res" where
  "execute_process_withdrawal env s =
     (if vc_paused (vs_config s) then Inl (Msg ''The contract is paused'')
      else
        and_then (ve_bank_balance env (usdc_to_string (vc_usdc_denom (vs_config s)))) (\<lambda>vault_balance.
        and_then (payable vault_balance 0 (take PROCESS_LIMIT (queue_entries s))) (\<lambda>(processed_amount, entries).
        let messages = map (\<lambda>(i, request). payment_message (vc_usdc_denom (vs_config s)) request) entries;
            s = remove_entries entries s in
        if processed_amount \<noteq> 0 then
          and_then (ok_or (ok (u128_checked_sub (vs_total_pending_withdrawals s) processed_amount))
              (Msg ''Error proccesing pending withdrawals'')) (\<lambda>total.
          Inr (s\<lparr>vs_total_pending_withdrawals := total\<rparr>, messages))
        else Inr (s, messages))))"

section \<open>Governance\<close>

definition set_vault_paused :: "bool \<Rightarrow> VaultInfo \<Rightarrow> VaultState \<Rightarrow> VaultState res" where
  "set_vault_paused b info s =
     and_then (ensure_governance ''Unauthorized'' info s) (\<lambda>_. Inr (s\<lparr>vs_config := (vs_config s)\<lparr>vc_paused := b\<rparr>\<rparr>))"

definition execute_emergency_pause :: "VaultInfo \<Rightarrow> VaultState \<Rightarrow> VaultState res" where
  "execute_emergency_pause info s = set_vault_paused True info s"

definition execute_resume_operations :: "VaultInfo \<Rightarrow> VaultState \<Rightarrow> VaultState res" where
  "execute_resume_operations info s = set_vault_paused False info s"

definition execute_update_allocations :: "VaultInfo \<Rightarrow> (Addr \<times> nat) list \<Rightarrow> VaultState \<Rightarrow> VaultState res" where
  "execute_update_allocations info new_allocations s =
     and_then (ensure_governance ''Unauthorized'' info s) (\<lambda>_.
     if length new_allocations \<noteq> length (fmkeys (vs_market_allocations s))
     then Inl (Msg ''Number of allocations must match number of markets'')
     else
       and_then (total_bps new_allocations) (\<lambda>total.
       if total = 0 then Inl (Msg ''No allocation percentages defined'')
       else if 10000 < total then Inl (Msg ''Market allocation exceeds 100%'')
       else Inr (s\<lparr>vs_config := (vs_config s)\<lparr>vc_markets_allocation_bps := new_allocations\<rparr>\<rparr>)))"

definition execute_add_market :: "VaultEnv \<Rightarrow> VaultInfo \<Rightarrow> string \<Rightarrow> VaultState \<Rightarrow> VaultState res" where
  "execute_add_market env info market s =
     and_then (ensure_governance ''Unauthorized'' info s) (\<lambda>_.
     and_then (api_addr_validate (ve_api env) market) (\<lambda>market_addr.
     Inr (s\<lparr>vs_market_allocations := fmupd market_addr 0 (vs_market_allocations s)\<rparr>)))"

definition vault_execute ::
    "dec256_api \<Rightarrow> VaultEnv \<Rightarrow> VaultInfo \<Rightarrow> VaultExecuteMsg \<Rightarrow> VaultState \<Rightarrow> (VaultState \<times> VaultCosmosMsg list) res" where
  "vault_execute D env info msg s = (case msg of
       VaultDeposit \<Rightarrow> map_res (\<lambda>s. (s, [])) (execute_deposit env info s)
     | VaultReceive cw20_msg \<Rightarrow> map_res (\<lambda>s. (s, [])) (execute_receive env info cw20_msg s)
     | RequestWithdrawal amount \<Rightarrow> map_res (\<lambda>s. (s, [])) (execute_request_withdrawal info amount s)
     | RedistributeFunds \<Rightarrow> execute_redistribute_funds env info s
     | CollectYield \<Rightarrow> execute_collect_yield info s
     | ProcessWithdrawal \<Rightarrow> execute_process_withdrawal env s
     | WithdrawFromMarket market amount \<Rightarrow> execute_withdraw_from_market D info market amount s
     | EmergencyPause \<Rightarrow> map_res (\<lambda>s. (s, [])) (execute_emergency_pause info s)
     | ResumeOperations \<Rightarrow> map_res (\<lambda>s. (s, [])) (execute_resume_operations info s)
     | UpdateAllocations new_allocations \<Rightarrow> map_res (\<lambda>s. (s, [])) (execute_update_allocations info new_allocations s)
     | AddMarket market \<Rightarrow> map_res (\<lambda>s. (s, [])) (execute_add_market env info market s))"

end
