(* ===== verification/StoredMaps.thy ===== *)
theory StoredMaps
  imports Prelude
begin

text \<open>
  A stored map as the list of its entries in the order of the keys, which is what a range over a
  \<open>cw_storage_plus::Map\<close> yields, with the facts the contracts outside the market share: sums, and the
  removal of a prefix of the entries.
\<close>

section \<open>Stored maps as lists\<close>

definition entries :: "('k::linorder, 'v) fmap \<Rightarrow> ('k \<times> 'v) list" where
  "entries m = List.map_filter (\<lambda>k. map_option (Pair k) (fmlookup m k)) (fmkeys m)"

lemma entries_eq: "entries m = map (\<lambda>k. (k, the (fmlookup m k))) (fmkeys m)"
proof -
  have "List.map_filter (\<lambda>k. map_option (Pair k) (fmlookup m k)) ks = map (\<lambda>k. (k, the (fmlookup m k))) ks"
    if "set ks \<subseteq> fmdom' m" for ks
    using that by (induction ks) (auto simp: List.map_filter_simps fmlookup_dom'_iff)
  then show ?thesis by (simp add: entries_def set_fmkeys)
qed

lemma entries_keys [simp]: "map fst (entries m) = fmkeys m"
  by (simp add: entries_eq comp_def)

lemma set_entries: "(k, v) \<in> set (entries m) \<longleftrightarrow> fmlookup m k = Some v"
  by (auto simp: entries_eq set_fmkeys fmlookup_dom'_iff image_iff)

lemma entries_sum: "(\<Sum>(k, v)\<leftarrow>entries m. f v) = fmsum f m"
proof -
  have "(\<Sum>(k, v)\<leftarrow>entries m. f v) = (\<Sum>k\<leftarrow>fmkeys m. fmval f m k)"
    by (auto simp: entries_eq comp_def fmval_def set_fmkeys fmlookup_dom'_iff intro!: arg_cong [of _ _ sum_list] map_cong)
  also have "\<dots> = fmsum f m"
    by (simp add: fmsum_def fmval_def sum_list_distinct_conv_sum_set set_fmkeys)
  finally show ?thesis .
qed

text \<open>Removing a prefix of the entries leaves the others, in order.\<close>

definition fmdrops :: "'k list \<Rightarrow> ('k, 'v) fmap \<Rightarrow> ('k, 'v) fmap" where
  "fmdrops ks m = fold fmdrop ks m"

lemma fmdrops_lookup [simp]: "fmlookup (fmdrops ks m) k = (if k \<in> set ks then None else fmlookup m k)"
  unfolding fmdrops_def by (induction ks arbitrary: m) auto

lemma fmkeys_fmdrops: "fmkeys (fmdrops ks m) = filter (\<lambda>k. k \<notin> set ks) (fmkeys m)"
proof (rule sorted_distinct_set_unique)
  show "sorted (filter (\<lambda>k. k \<notin> set ks) (fmkeys m))" by (rule sorted_wrt_filter) simp
  show "set (fmkeys (fmdrops ks m)) = set (filter (\<lambda>k. k \<notin> set ks) (fmkeys m))"
    by (auto simp: set_fmkeys fmlookup_dom'_iff split: if_splits)
qed simp_all

lemma entries_fmdrops: "entries (fmdrops ks m) = filter (\<lambda>(k, v). k \<notin> set ks) (entries m)"
  by (auto simp: entries_eq fmkeys_fmdrops filter_map comp_def)

lemma entries_rest:
  assumes "entries m = xs @ ys"
  shows "entries (fmdrops (map fst xs) m) = ys"
proof -
  have d: "distinct (map fst (xs @ ys))" using fmkeys_distinct [of m] entries_keys [of m] assms by metis
  have "filter (\<lambda>(k, v). k \<notin> set (map fst xs)) xs = []" by (force simp: filter_empty_conv)
  moreover have "filter (\<lambda>(k, v). k \<notin> set (map fst xs)) ys = ys"
    using d by (fastforce simp: filter_id_conv split_beta)
  ultimately show ?thesis by (simp only: entries_fmdrops assms filter_append append.simps)
qed

lemma entries_empty: "entries m = [] \<longleftrightarrow> m = fmempty"
proof
  assume e: "entries m = []"
  have "fmlookup m k = None" for k using e set_entries [of k _ m] by (cases "fmlookup m k") auto
  then show "m = fmempty" by (intro fmap_ext) simp
qed (simp add: entries_eq fmkeys_def)

end
