(* ===== verification/VaultInvariant.thy ===== *)
theory VaultInvariant
  imports Vault StoredMaps
begin

text \<open>
  The books of the vault: the invariant of its stored data in every reachable state, what one call of
  \<open>execute_process_withdrawal\<close> pays, and what one redistribution sends. The share supply is the sum of the
  balances, the pending total the sum of the queue, and the index by user lists exactly the requests of the
  queue.
\<close>

lemma queue_entries_eq: "queue_entries s = entries (vs_withdrawal_queue s)"
  by (simp add: queue_entries_def entries_def)

section \<open>The invariant\<close>

definition vault_inv :: "VaultState \<Rightarrow> bool" where
  "vault_inv s \<longleftrightarrow> vs_total_lp_supply s = ledger_sum (vs_lp_balances s)
     \<and> vs_total_pending_withdrawals s = fmsum wr_amount (vs_withdrawal_queue s)
     \<and> vs_total_pending_withdrawals s < u128_lim
     \<and> (\<forall>u i. fmlookup (vs_user_withdrawals s) (u, i) = Some ()
          \<longleftrightarrow> (\<exists>r. fmlookup (vs_withdrawal_queue s) i = Some r \<and> wr_user r = u))
     \<and> (\<forall>i r. fmlookup (vs_withdrawal_queue s) i = Some r \<longrightarrow> i < next_queue_id s \<and> 0 < wr_amount r)"

definition vault_start :: "VaultState \<Rightarrow> bool" where
  "vault_start s \<longleftrightarrow> (\<exists>env msg. vault_instantiate env msg = Inr s)"

inductive vault_step :: "dec256_api \<Rightarrow> VaultState \<Rightarrow> VaultState \<Rightarrow> bool" for D where
  message: "vault_execute D env info msg s = Inr (s', ms) \<Longrightarrow> vault_step D s s'"

lemma vault_start_inv: "vault_start s \<Longrightarrow> vault_inv s"
  by (auto simp: vault_start_def vault_instantiate_def vault_inv_def u128_lim_def split: if_splits prod.splits)

lemma vault_mint_result:
  assumes "vault_mint u n s = Inr s'" and "vault_inv s"
  shows "vault_inv s'" "vs_total_lp_supply s' = vs_total_lp_supply s + n"
    "vs_total_pending_withdrawals s' = vs_total_pending_withdrawals s"
proof -
  obtain b where b: "credit u n (vs_lp_balances s) = Inr b"
    and s': "s' = s\<lparr>vs_lp_balances := b, vs_total_lp_supply := vs_total_lp_supply s + n\<rparr>"
    using assms(1) by (auto simp: vault_mint_def)
  show "vault_inv s'" using assms(2) credit_result(2) [OF b] by (simp add: s' vault_inv_def next_queue_id_def)
  show "vs_total_lp_supply s' = vs_total_lp_supply s + n"
    "vs_total_pending_withdrawals s' = vs_total_pending_withdrawals s" by (simp_all add: s')
qed

lemma deposit_mints:
  assumes "execute_deposit env info s = Inr s'"
  shows "\<exists>n. vault_mint (vf_sender info) n s = Inr s'"
  using assms by (auto simp: execute_deposit_def split: list.splits prod.splits if_splits)

lemma only_hook [simp]: "m = HookDeposit"
  by (cases m) simp

lemma receive_mints:
  assumes "execute_receive env info msg s = Inr s'"
  shows "\<exists>u. vault_mint u (rc_amount msg) s = Inr s'"
  using assms by (auto simp: execute_receive_def split: UsdcAsset.splits if_splits VaultHookMsg.splits)

lemma request_result:
  assumes "execute_request_withdrawal info n s = Inr s'"
  obtains b where "debit (vf_sender info) n (vs_lp_balances s) = Inr b" "n \<noteq> 0"
    "vs_total_pending_withdrawals s + n < u128_lim" "n \<le> vs_total_lp_supply s"
    "s' = s\<lparr>vs_lp_balances := b, vs_queue_id := Some (next_queue_id s + 1),
       vs_withdrawal_queue := fmupd (next_queue_id s) \<lparr>wr_user = vf_sender info, wr_amount = n\<rparr> (vs_withdrawal_queue s),
       vs_user_withdrawals := fmupd (vf_sender info, next_queue_id s) () (vs_user_withdrawals s),
       vs_total_pending_withdrawals := vs_total_pending_withdrawals s + n,
       vs_total_lp_supply := vs_total_lp_supply s - n\<rparr>"
  using assms
  by (auto simp: execute_request_withdrawal_def get_and_increment_queue_id_def u64_add_Inr Let_def next_queue_id_def
      split: if_splits)

lemma request_inv:
  assumes "execute_request_withdrawal info n s = Inr s'" and inv: "vault_inv s"
  shows "vault_inv s'"
    "vs_total_lp_supply s' + vs_total_pending_withdrawals s' = vs_total_lp_supply s + vs_total_pending_withdrawals s"
proof -
  let ?i = "next_queue_id s" and ?r = "\<lparr>wr_user = vf_sender info, wr_amount = n\<rparr>"
  obtain b where b: "debit (vf_sender info) n (vs_lp_balances s) = Inr b" and n: "n \<noteq> 0"
    and lim: "vs_total_pending_withdrawals s + n < u128_lim" and le: "n \<le> vs_total_lp_supply s"
    and s': "s' = s\<lparr>vs_lp_balances := b, vs_queue_id := Some (?i + 1),
       vs_withdrawal_queue := fmupd ?i ?r (vs_withdrawal_queue s),
       vs_user_withdrawals := fmupd (vf_sender info, ?i) () (vs_user_withdrawals s),
       vs_total_pending_withdrawals := vs_total_pending_withdrawals s + n,
       vs_total_lp_supply := vs_total_lp_supply s - n\<rparr>"
    using request_result [OF assms(1)] .
  have bound: "fmlookup (vs_withdrawal_queue s) i = Some r \<Longrightarrow> i < ?i \<and> 0 < wr_amount r"
    and index: "fmlookup (vs_user_withdrawals s) (u, i) = Some ()
      \<longleftrightarrow> (\<exists>r. fmlookup (vs_withdrawal_queue s) i = Some r \<and> wr_user r = u)" for i r u
    using inv by (auto simp: vault_inv_def)
  have fresh: "fmlookup (vs_withdrawal_queue s) ?i = None"
    using bound [of ?i] by (cases "fmlookup (vs_withdrawal_queue s) ?i") auto
  have new: "fmlookup (fmupd (vf_sender info, ?i) () (vs_user_withdrawals s)) (u, i) = Some ()
      \<longleftrightarrow> (\<exists>r. fmlookup (fmupd ?i ?r (vs_withdrawal_queue s)) i = Some r \<and> wr_user r = u)" for u i
    using index [of u i] fresh by auto
  have less: "fmlookup (fmupd ?i ?r (vs_withdrawal_queue s)) i = Some r \<Longrightarrow> i < ?i + 1 \<and> 0 < wr_amount r" for i r
    using bound [of i r] n by (auto split: if_splits)
  show "vault_inv s'"
    using inv debit_result(3) [OF b] fmsum_upd [of wr_amount ?i ?r "vs_withdrawal_queue s"] fresh lim le new less
    by (simp add: s' vault_inv_def fmval_def next_queue_id_def)
  show "vs_total_lp_supply s' + vs_total_pending_withdrawals s' = vs_total_lp_supply s + vs_total_pending_withdrawals s"
    using le by (simp add: s')
qed

section \<open>Paying from the queue\<close>

abbreviation amounts :: "(QueueId \<times> WithdrawalRequest) list \<Rightarrow> nat" where
  "amounts es \<equiv> (\<Sum>(i, r)\<leftarrow>es. wr_amount r)"

lemma payable_result:
  assumes "payable bal p es = Inr (t, xs)"
  shows "\<exists>ys. es = xs @ ys \<and> t = p + amounts xs \<and> (xs \<noteq> [] \<longrightarrow> t \<le> bal)
    \<and> (ys \<noteq> [] \<longrightarrow> bal < t + wr_amount (snd (hd ys)))"
  using assms
proof (induction es arbitrary: p t xs)
  case (Cons e es)
  obtain i r where e: "e = (i, r)" by (cases e)
  show ?case
  proof (cases "bal < p + wr_amount r")
    case False
    then obtain xs' where "payable bal (p + wr_amount r) es = Inr (t, xs')" "xs = (i, r) # xs'"
      using Cons.prems by (auto simp: e)
    with Cons.IH [of "p + wr_amount r" t xs'] False show ?thesis by (auto simp: e)
  qed (use Cons.prems in \<open>auto simp: e\<close>)
qed simp

lemma payable_all:
  "p + amounts es \<le> bal \<Longrightarrow> p + amounts es < u128_lim \<Longrightarrow> payable bal p es = Inr (p + amounts es, es)"
  by (induction es arbitrary: p) (auto simp: u128_add_def add.assoc)

lemma remove_entries_result:
  "remove_entries es s = s\<lparr>vs_withdrawal_queue := fmdrops (map fst es) (vs_withdrawal_queue s),
     vs_user_withdrawals := fmdrops (map (\<lambda>(i, r). (wr_user r, i)) es) (vs_user_withdrawals s)\<rparr>"
  by (induction es arbitrary: s) (auto simp: fmdrops_def)

lemma process_result:
  assumes p: "execute_process_withdrawal env s = Inr (s', ms)" and inv: "vault_inv s"
  shows "\<exists>bal xs ys. ve_bank_balance env (usdc_to_string (vc_usdc_denom (vs_config s))) = Inr bal
    \<and> queue_entries s = xs @ ys \<and> queue_entries s' = ys \<and> length xs \<le> PROCESS_LIMIT
    \<and> (xs \<noteq> [] \<longrightarrow> amounts xs \<le> bal)
    \<and> (ys \<noteq> [] \<and> length xs < PROCESS_LIMIT \<longrightarrow> bal < amounts xs + wr_amount (snd (hd ys)))
    \<and> ms = map (\<lambda>(i, r). payment_message (vc_usdc_denom (vs_config s)) r) xs
    \<and> s' = (remove_entries xs s)\<lparr>vs_total_pending_withdrawals := vs_total_pending_withdrawals s - amounts xs\<rparr>
    \<and> amounts xs \<le> vs_total_pending_withdrawals s"
proof -
  obtain bal t xs where bal: "ve_bank_balance env (usdc_to_string (vc_usdc_denom (vs_config s))) = Inr bal"
    and pay: "payable bal 0 (take PROCESS_LIMIT (queue_entries s)) = Inr (t, xs)"
    and ms: "ms = map (\<lambda>(i, r). payment_message (vc_usdc_denom (vs_config s)) r) xs"
    and s0: "t = 0 \<Longrightarrow> s' = remove_entries xs s"
      "t \<noteq> 0 \<Longrightarrow> s' = (remove_entries xs s)\<lparr>vs_total_pending_withdrawals := vs_total_pending_withdrawals (remove_entries xs s) - t\<rparr>"
    using p by (auto simp: execute_process_withdrawal_def Let_def split: if_splits prod.splits)
  obtain zs where zs: "take PROCESS_LIMIT (queue_entries s) = xs @ zs" and t: "t = amounts xs"
    and le: "xs \<noteq> [] \<longrightarrow> t \<le> bal" and stop: "zs \<noteq> [] \<longrightarrow> bal < t + wr_amount (snd (hd zs))"
    using payable_result [OF pay] by auto
  define ys where "ys = zs @ drop PROCESS_LIMIT (queue_entries s)"
  have q: "queue_entries s = xs @ ys"
    using append_take_drop_id [of PROCESS_LIMIT "queue_entries s"] unfolding zs ys_def by simp
  have s': "s' = (remove_entries xs s)\<lparr>vs_total_pending_withdrawals := vs_total_pending_withdrawals s - amounts xs\<rparr>"
  proof (cases "t = 0")
    case True
    have "(remove_entries xs s)\<lparr>vs_total_pending_withdrawals := vs_total_pending_withdrawals (remove_entries xs s)\<rparr>
        = remove_entries xs s" by simp
    moreover have "vs_total_pending_withdrawals (remove_entries xs s) = vs_total_pending_withdrawals s - amounts xs"
      using True unfolding t by (simp add: remove_entries_result del: sum_list_eq_0_iff)
    ultimately show ?thesis using s0(1) True by simp
  qed (use s0(2) t in \<open>simp add: remove_entries_result\<close>)
  have "amounts xs + amounts ys = vs_total_pending_withdrawals s"
    using inv entries_sum [of wr_amount "vs_withdrawal_queue s"] q by (simp add: vault_inv_def queue_entries_eq)
  moreover have "queue_entries s' = ys"
    using entries_rest [of "vs_withdrawal_queue s" xs ys] q by (simp add: queue_entries_eq s' remove_entries_result)
  moreover have "length xs \<le> PROCESS_LIMIT"
    using arg_cong [OF zs, of length] by simp
  moreover have "bal < amounts xs + wr_amount (snd (hd ys))" if "ys \<noteq> []" "length xs < PROCESS_LIMIT"
  proof (cases "zs = []")
    case True
    then have "length (take PROCESS_LIMIT (queue_entries s)) < PROCESS_LIMIT" using zs that(2) by simp
    then have "drop PROCESS_LIMIT (queue_entries s) = []" by auto
    then show ?thesis using True that(1) by (simp add: ys_def)
  qed (use stop t in \<open>simp add: ys_def\<close>)
  ultimately show ?thesis using bal q le t ms s' by auto
qed

lemma process_inv:
  assumes "execute_process_withdrawal env s = Inr (s', ms)" and inv: "vault_inv s"
  shows "vault_inv s'"
proof -
  obtain xs ys where q: "queue_entries s = xs @ ys" "queue_entries s' = ys"
    and s': "s' = (remove_entries xs s)\<lparr>vs_total_pending_withdrawals := vs_total_pending_withdrawals s - amounts xs\<rparr>"
    using process_result [OF assms] by blast
  have sums: "amounts xs + amounts ys = vs_total_pending_withdrawals s"
    "amounts ys = fmsum wr_amount (vs_withdrawal_queue s')"
    using inv entries_sum [of wr_amount "vs_withdrawal_queue s"] entries_sum [of wr_amount "vs_withdrawal_queue s'"] q
    by (simp_all add: vault_inv_def queue_entries_eq)
  have mem: "(i, r) \<in> set xs \<Longrightarrow> fmlookup (vs_withdrawal_queue s) i = Some r" for i r
    using q(1) set_entries [of i r "vs_withdrawal_queue s"] by (simp add: queue_entries_eq)
  have index: "fmlookup (vs_user_withdrawals s) (u, i) = Some ()
      \<longleftrightarrow> (\<exists>r. fmlookup (vs_withdrawal_queue s) i = Some r \<and> wr_user r = u)" for u i
    using inv by (simp add: vault_inv_def)
  have queue: "fmlookup (vs_withdrawal_queue s') i = (if i \<in> set (map fst xs) then None else fmlookup (vs_withdrawal_queue s) i)"
    and users: "fmlookup (vs_user_withdrawals s') k
      = (if k \<in> set (map (\<lambda>(i, r). (wr_user r, i)) xs) then None else fmlookup (vs_user_withdrawals s) k)" for i k
    by (simp_all add: s' remove_entries_result)
  have "fmlookup (vs_user_withdrawals s') (u, i) = Some ()
      \<longleftrightarrow> (\<exists>r. fmlookup (vs_withdrawal_queue s') i = Some r \<and> wr_user r = u)" for u i
  proof (cases "fmlookup (vs_withdrawal_queue s) i")
    case None
    then show ?thesis using index [of u i] unfolding queue users by simp
  next
    case (Some r)
    have "(u, i) \<in> set (map (\<lambda>(i, r). (wr_user r, i)) xs) \<longleftrightarrow> i \<in> set (map fst xs)" if "wr_user r = u"
    proof
      assume "(u, i) \<in> set (map (\<lambda>(i, r). (wr_user r, i)) xs)"
      then obtain r' where "(i, r') \<in> set xs" by auto
      then show "i \<in> set (map fst xs)" by force
    next
      assume "i \<in> set (map fst xs)"
      then obtain r' where r': "(i, r') \<in> set xs" by auto
      then have "r' = r" using mem Some by fastforce
      then show "(u, i) \<in> set (map (\<lambda>(i, r). (wr_user r, i)) xs)" using r' that by force
    qed
    then show ?thesis using index [of u i] Some unfolding queue users
      by (cases "wr_user r = u"; cases "i \<in> set (map fst xs)") (simp_all del: set_map)
  qed
  moreover have "i < next_queue_id s' \<and> 0 < wr_amount r" if "fmlookup (vs_withdrawal_queue s') i = Some r" for i r
    using that inv by (auto simp: s' remove_entries_result vault_inv_def next_queue_id_def split: if_splits)
  moreover have "vs_total_lp_supply s' = ledger_sum (vs_lp_balances s')"
    using inv by (simp add: s' remove_entries_result vault_inv_def)
  moreover have "vs_total_pending_withdrawals s' = amounts ys" using sums by (simp add: s')
  ultimately show ?thesis using sums inv by (simp add: vault_inv_def)
qed

section \<open>The other operations\<close>

text \<open>An operation that leaves the balances, the queue and their sums alone keeps the invariant.\<close>

definition vault_books_kept :: "VaultState \<Rightarrow> VaultState \<Rightarrow> bool" where
  "vault_books_kept s s' \<longleftrightarrow> (\<exists>c m. s' = s\<lparr>vs_config := c, vs_market_allocations := m\<rparr>)"

lemma vault_books_kept_inv: "vault_books_kept s s' \<Longrightarrow> vault_inv s \<Longrightarrow> vault_inv s'"
  by (auto simp: vault_books_kept_def vault_inv_def next_queue_id_def)

lemma vault_books_kept_intro [simp, intro]:
  "vault_books_kept s s" "vault_books_kept s (s\<lparr>vs_config := c\<rparr>)" "vault_books_kept s (s\<lparr>vs_market_allocations := m\<rparr>)"
proof -
  have "s = s\<lparr>vs_config := vs_config s, vs_market_allocations := vs_market_allocations s\<rparr>"
    "s\<lparr>vs_config := c\<rparr> = s\<lparr>vs_config := c, vs_market_allocations := vs_market_allocations s\<rparr>"
    "s\<lparr>vs_market_allocations := m\<rparr> = s\<lparr>vs_config := vs_config s, vs_market_allocations := m\<rparr>" by simp_all
  then show "vault_books_kept s s" "vault_books_kept s (s\<lparr>vs_config := c\<rparr>)" "vault_books_kept s (s\<lparr>vs_market_allocations := m\<rparr>)"
    unfolding vault_books_kept_def by blast+
qed

lemma governance_books:
  "execute_redistribute_funds env info s = Inr (s', ms) \<Longrightarrow> vault_books_kept s s'"
  "execute_collect_yield info s = Inr (s', ms) \<Longrightarrow> vault_books_kept s s'"
  "execute_withdraw_from_market D info market n s = Inr (s', ms) \<Longrightarrow> vault_books_kept s s'"
  "set_vault_paused b info s = Inr s' \<Longrightarrow> vault_books_kept s s'"
  "execute_update_allocations info alloc s = Inr s' \<Longrightarrow> vault_books_kept s s'"
  "execute_add_market env info market s = Inr s' \<Longrightarrow> vault_books_kept s s'"
  by (auto simp: execute_redistribute_funds_def execute_collect_yield_def execute_withdraw_from_market_def
      set_vault_paused_def execute_update_allocations_def execute_add_market_def Let_def split: if_splits prod.splits)

lemma vault_execute_inv:
  assumes "vault_execute D env info msg s = Inr (s', ms)" and inv: "vault_inv s"
  shows "vault_inv s'"
proof (cases msg)
  case VaultDeposit
  then have "execute_deposit env info s = Inr s'" using assms(1) by (simp add: vault_execute_def)
  then show ?thesis using deposit_mints vault_mint_result(1) inv by blast
next
  case (VaultReceive m)
  then have "execute_receive env info m s = Inr s'" using assms(1) by (simp add: vault_execute_def)
  then show ?thesis using receive_mints vault_mint_result(1) inv by blast
next
  case (RequestWithdrawal n)
  then have "execute_request_withdrawal info n s = Inr s'" using assms(1) by (simp add: vault_execute_def)
  then show ?thesis using request_inv(1) inv by blast
next
  case ProcessWithdrawal
  then show ?thesis using assms process_inv by (simp add: vault_execute_def)
next
  case EmergencyPause
  then have "vault_books_kept s s'" using assms(1) governance_books(4) by (auto simp: vault_execute_def execute_emergency_pause_def)
  then show ?thesis using vault_books_kept_inv inv by blast
next
  case ResumeOperations
  then have "vault_books_kept s s'" using assms(1) governance_books(4) by (auto simp: vault_execute_def execute_resume_operations_def)
  then show ?thesis using vault_books_kept_inv inv by blast
next
  case (UpdateAllocations alloc)
  then have "vault_books_kept s s'" using assms(1) governance_books(5) by (auto simp: vault_execute_def)
  then show ?thesis using vault_books_kept_inv inv by blast
next
  case (AddMarket market)
  then have "vault_books_kept s s'" using assms(1) governance_books(6) by (auto simp: vault_execute_def)
  then show ?thesis using vault_books_kept_inv inv by blast
qed (use assms(1) governance_books vault_books_kept_inv [OF _ inv] in \<open>simp add: vault_execute_def; blast\<close>)+

interpretation vault_system: invariant_system vault_start "vault_step D" vault_inv for D
  by unfold_locales (auto intro: vault_start_inv elim!: vault_step.cases dest: vault_execute_inv)

end
