(* ===== verification/VaultProperties.thy ===== *)
theory VaultProperties
  imports VaultInvariant Numbers
begin

text \<open>
  The properties of the vault: its books in every reachable state, the answer of the query for pending
  withdrawals, what a redistribution sends, and that repeated processing pays the whole queue in order as soon
  as the funds are there. Each is evaluated on a small vault of Alice and Bob.
\<close>

section \<open>The pending withdrawals of a user\<close>

definition user_pending :: "VaultState \<Rightarrow> Addr \<Rightarrow> nat" where
  "user_pending s a = fmsum (\<lambda>r. if wr_user r = a then wr_amount r else 0) (vs_withdrawal_queue s)"

lemma sum_requests_known:
  assumes "\<And>i. i \<in> set ids \<Longrightarrow> fmlookup q i \<noteq> None" and "p + (\<Sum>i\<leftarrow>ids. fmval wr_amount q i) < u128_lim"
  shows "sum_requests q p ids = Inr (p + (\<Sum>i\<leftarrow>ids. fmval wr_amount q i))"
  using assms
proof (induction ids arbitrary: p)
  case (Cons i ids)
  obtain r where r: "fmlookup q i = Some r" using Cons.prems(1) [of i] by auto
  then show ?case using Cons.IH [of "p + wr_amount r"] Cons.prems by (simp add: fmval_lookup add.assoc)
qed simp

lemma pending_query:
  assumes inv: "vault_inv s" and a: "ve_api env u = Some a"
  shows "get_pending_withdrawal env u s = Inr (user_pending s a)"
proof -
  let ?q = "vs_withdrawal_queue s"
  define ids where "ids = map snd (filter (\<lambda>k. fst k = a) (fmkeys (vs_user_withdrawals s)))"
  have d: "distinct ids"
    unfolding ids_def by (auto simp: distinct_map inj_on_def)
  have "i \<in> set ids \<longleftrightarrow> fmlookup (vs_user_withdrawals s) (a, i) = Some ()" for i
    by (force simp: ids_def set_fmkeys fmlookup_dom'_iff image_iff)
  then have ids: "i \<in> set ids \<longleftrightarrow> (\<exists>r. fmlookup ?q i = Some r \<and> wr_user r = a)" for i
    using inv by (simp add: vault_inv_def)
  have "(\<Sum>i\<leftarrow>ids. fmval wr_amount ?q i) = (\<Sum>i\<in>set ids. fmval wr_amount ?q i)"
    by (rule sum_list_distinct_conv_sum_set [OF d])
  also have "\<dots> = (\<Sum>i\<in>fmdom' ?q. fmval (\<lambda>r. if wr_user r = a then wr_amount r else 0) ?q i)"
    by (rule sum.mono_neutral_cong_left) (auto simp: ids fmlookup_dom'_iff fmval_def)
  finally have sum: "(\<Sum>i\<leftarrow>ids. fmval wr_amount ?q i) = user_pending s a"
    by (simp add: user_pending_def fmsum_def fmval_def)
  have "user_pending s a \<le> fmsum wr_amount ?q" unfolding user_pending_def by (rule fmsum_mono) simp
  then have "user_pending s a < u128_lim" using inv by (simp add: vault_inv_def)
  then have "sum_requests ?q 0 ids = Inr (user_pending s a)"
    using sum_requests_known [of ids ?q 0] ids sum by auto
  then show ?thesis using a by (simp add: get_pending_withdrawal_def api_addr_validate_def ids_def)
qed

section \<open>Redistribution\<close>

text \<open>What the documentation of \<open>Uint128::multiply_ratio\<close> promises: the product over the denominator,
  rounded down.\<close>

definition multiply_ratio_floor :: "(nat \<Rightarrow> nat \<Rightarrow> nat \<Rightarrow> nat res) \<Rightarrow> bool" where
  "multiply_ratio_floor f \<longleftrightarrow> (\<forall>a n d r. f a n d = Inr r \<longrightarrow> r = a * n div d)"

definition sent_amount :: "VaultCosmosMsg \<Rightarrow> nat" where
  "sent_amount m = (case m of
       BankSend _ coins \<Rightarrow> (\<Sum>(d, n)\<leftarrow>coins. n)
     | ExecuteMarket _ _ coins \<Rightarrow> (\<Sum>(d, n)\<leftarrow>coins. n)
     | ExecuteToken _ (TokenSend _ n _) \<Rightarrow> n
     | ExecuteToken _ (TokenTransfer _ n) \<Rightarrow> n)"

lemma sent_amount_simps [simp]:
  "sent_amount (deposit_message asset market n) = n" "sent_amount (remainder_message asset market n) = n"
  "sent_amount (payment_message asset r) = wr_amount r"
  by (cases asset; simp add: sent_amount_def deposit_message_def remainder_message_def payment_message_def)+

definition market_shares :: "nat \<Rightarrow> nat \<Rightarrow> (Addr \<times> nat) list \<Rightarrow> (Addr \<times> nat) list" where
  "market_shares excess bps_sum rows = filter (\<lambda>(market, n). n \<noteq> 0) (map (\<lambda>(market, bps). (market, excess * bps div bps_sum)) rows)"

text \<open>What a list of shares gives to one market.\<close>

definition share_of :: "Addr \<Rightarrow> (Addr \<times> nat) list \<Rightarrow> nat" where
  "share_of k shares = (\<Sum>(market, n)\<leftarrow>shares. if market = k then n else 0)"

lemma redistribute_loop_result:
  assumes law: "multiply_ratio_floor (ve_multiply_ratio env)"
    and "redistribute_loop env asset excess bps_sum rows (ms, al, rem) = Inr (ms', al', rem')"
  shows "ms' = ms @ map (\<lambda>(market, n). deposit_message asset market n) (market_shares excess bps_sum rows)
    \<and> rem' = rem - sum_list (map snd (market_shares excess bps_sum rows))
    \<and> ledger_sum al' = ledger_sum al + sum_list (map snd (market_shares excess bps_sum rows))
    \<and> (\<forall>k. balance_of al' k = balance_of al k + share_of k (market_shares excess bps_sum rows))"
  using assms(2)
proof (induction rows arbitrary: ms al rem)
  case (Cons row rows)
  obtain market bps where row: "row = (market, bps)" by (cases row)
  obtain n where n: "ve_multiply_ratio env excess bps bps_sum = Inr n" using Cons.prems by (auto simp: row)
  then have n': "n = excess * bps div bps_sum" using law by (simp add: multiply_ratio_floor_def)
  show ?case
  proof (cases "n = 0")
    case True
    then show ?thesis using Cons.IH [of ms al rem] Cons.prems n n' by (simp add: row market_shares_def)
  next
    case False
    then obtain al1 where al1: "credit market n al = Inr al1"
      and rest: "redistribute_loop env asset excess bps_sum rows (ms @ [deposit_message asset market n], al1, rem - n)
        = Inr (ms', al', rem')"
      using Cons.prems n by (auto simp: row)
    have "balance_of al1 k = balance_of al k + (if market = k then n else 0)" for k
      using al1 by (auto simp: credit_def)
    then show ?thesis using Cons.IH [OF rest] credit_result(2) [OF al1] False n'
      by (simp add: row market_shares_def share_of_def)
  qed
qed (simp add: market_shares_def share_of_def)

lemma sum_u16_result: "sum_u16 p ns = Inr t \<Longrightarrow> t = p + sum_list ns"
proof (induction ns arbitrary: p)
  case (Cons n ns)
  then have "sum_u16 (p + n) ns = Inr t" by (simp split: if_splits)
  then have "t = (p + n) + sum_list ns" by (rule Cons.IH)
  then show ?case by simp
qed simp

lemma market_shares_sum:
  assumes "bps_sum = sum_list (map snd rows)" and "0 < bps_sum"
  shows "sum_list (map snd (market_shares excess bps_sum rows)) \<le> excess"
proof -
  have "sum_list (map snd (market_shares excess bps_sum rs)) * bps_sum \<le> excess * sum_list (map snd rs)" for rs
  proof (induction rs)
    case (Cons r rs)
    obtain market bps where r: "r = (market, bps)" by (cases r)
    have "sum_list (map snd (market_shares excess bps_sum (r # rs)))
        = excess * bps div bps_sum + sum_list (map snd (market_shares excess bps_sum rs))"
      by (simp add: market_shares_def r)
    then show ?case using add_mono [OF div_times_less_eq_dividend [of "excess * bps" bps_sum] Cons.IH]
      by (simp add: r add_mult_distrib add_mult_distrib2)
  qed (simp add: market_shares_def)
  from this [of rows] assms show ?thesis by simp
qed

text \<open>C31: A redistribution sends away exactly what the vault holds beyond the pending withdrawals, so the funds
  promised to the queue stay in the vault: every market of the configuration gets a deposit of its share of the excess
  in basis points, rounded down (no message for a share of zero), its allocation grows by the same and no other
  allocation changes, and the last message sends the governance the rest, when there is one; nothing else of the
  vault changes.\<close>

theorem vault_redistribution_keeps_reserve:
  assumes law: "multiply_ratio_floor (ve_multiply_ratio env)"
    and run: "execute_redistribute_funds env info s = Inr (s', ms)"
  shows "\<exists>bal total shares rest. usdc_balance env (vc_usdc_denom (vs_config s)) = Inr bal
    \<and> total_bps (vc_markets_allocation_bps (vs_config s)) = Inr total
    \<and> shares = filter (\<lambda>(market, n). n \<noteq> 0) (map (\<lambda>(market, bps).
        (market, (bal - vs_total_pending_withdrawals s) * bps div total)) (vc_markets_allocation_bps (vs_config s)))
    \<and> sum_list (map snd shares) + rest + vs_total_pending_withdrawals s = bal
    \<and> ms = map (\<lambda>(market, n). case vc_usdc_denom (vs_config s) of
           UsdcCW20 token \<Rightarrow> ExecuteToken token (TokenSend market n (CallDepositLiquidity False))
         | UsdcNative denom \<Rightarrow> ExecuteMarket market (CallDepositLiquidity False) [(denom, n)]) shares
       @ (if rest = 0 then [] else [case vc_usdc_denom (vs_config s) of
           UsdcCW20 token \<Rightarrow> ExecuteToken token (TokenTransfer (vc_governance (vs_config s)) rest)
         | UsdcNative denom \<Rightarrow> BankSend (vc_governance (vs_config s)) [(denom, rest)]])
    \<and> (\<forall>k. balance_of (vs_market_allocations s') k = balance_of (vs_market_allocations s) k + share_of k shares)
    \<and> s' = s\<lparr>vs_market_allocations := vs_market_allocations s'\<rparr>
    \<and> vc_governance (vs_config s) = vf_sender info"
proof -
  obtain bal total ms1 al rem where bal: "usdc_balance env (vc_usdc_denom (vs_config s)) = Inr bal"
    and ex: "bal - vs_total_pending_withdrawals s \<noteq> 0"
    and total: "total_bps (vc_markets_allocation_bps (vs_config s)) = Inr total" "0 < total"
    and loop: "redistribute_loop env (vc_usdc_denom (vs_config s)) (bal - vs_total_pending_withdrawals s) total
      (vc_markets_allocation_bps (vs_config s)) ([], vs_market_allocations s, bal - vs_total_pending_withdrawals s) = Inr (ms1, al, rem)"
    and s': "s' = s\<lparr>vs_market_allocations := al\<rparr>"
    and ms: "ms = (if rem \<noteq> 0 then ms1 @ [remainder_message (vc_usdc_denom (vs_config s)) (vc_governance (vs_config s)) rem] else ms1)"
    and gov: "vc_governance (vs_config s) = vf_sender info"
    using run by (auto simp: execute_redistribute_funds_def ensure_governance_def Let_def split: if_splits prod.splits)
  define shares where "shares = market_shares (bal - vs_total_pending_withdrawals s) total (vc_markets_allocation_bps (vs_config s))"
  have r: "ms1 = map (\<lambda>(market, n). deposit_message (vc_usdc_denom (vs_config s)) market n) shares"
    "rem = bal - vs_total_pending_withdrawals s - sum_list (map snd shares)"
    "\<And>k. balance_of al k = balance_of (vs_market_allocations s) k + share_of k shares"
    using redistribute_loop_result [OF law loop] by (simp_all add: shares_def)
  have le: "sum_list (map snd shares) \<le> bal - vs_total_pending_withdrawals s"
    unfolding shares_def using sum_u16_result [OF total(1) [unfolded total_bps_def]] total(2)
    by (intro market_shares_sum) simp_all
  define m where "m = (\<lambda>(market, n). case vc_usdc_denom (vs_config s) of
      UsdcCW20 token \<Rightarrow> ExecuteToken token (TokenSend market n (CallDepositLiquidity False))
    | UsdcNative denom \<Rightarrow> ExecuteMarket market (CallDepositLiquidity False) [(denom, n)])"
  have "ms = map m shares @ (if rem = 0 then [] else [case vc_usdc_denom (vs_config s) of
      UsdcCW20 token \<Rightarrow> ExecuteToken token (TokenTransfer (vc_governance (vs_config s)) rem)
    | UsdcNative denom \<Rightarrow> BankSend (vc_governance (vs_config s)) [(denom, rem)]])"
    using ms r(1) by (auto simp: m_def deposit_message_def remainder_message_def fun_eq_iff)
  moreover have "sum_list (map snd shares) + rem + vs_total_pending_withdrawals s = bal"
    using le ex r(2) by simp
  ultimately show ?thesis
    unfolding m_def using bal total(1) r(3) gov
    by (intro exI [of _ bal] exI [of _ total] exI [of _ shares] exI [of _ rem] conjI)
      (simp_all only: s' shares_def market_shares_def, simp_all)
qed

section \<open>The sample vault\<close>

definition floor_ratio :: "nat \<Rightarrow> nat \<Rightarrow> nat \<Rightarrow> nat res" where
  "floor_ratio a n d = (if d = 0 then Inl (Panic ''multiply_ratio'') else Inr (a * n div d))"

definition vault_env :: "nat \<Rightarrow> VaultEnv" where
  "vault_env bal = \<lparr>ve_api = Some, ve_bank_balance = (\<lambda>_. Inr bal), ve_cw20_balance = (\<lambda>_. Inr 0),
     ve_hook_msg = (\<lambda>_. Some HookDeposit), ve_multiply_ratio = floor_ratio\<rparr>"

definition sample_vault_init :: VaultInstantiateMsg where
  "sample_vault_init = \<lparr>vi_usdc_denom = InitNative ''usdc'', vi_governance = ''gov'',
     vi_markets_allocation_bps = [(''BTC'', 3000), (''ETH'', 6000)]\<rparr>"

definition vault_of :: "nat \<Rightarrow> nat option \<Rightarrow> (Addr \<times> QueueId, unit) fmap \<Rightarrow> (QueueId, WithdrawalRequest) fmap \<Rightarrow> nat
    \<Rightarrow> ledger \<Rightarrow> (string, nat) fmap \<Rightarrow> VaultState" where
  "vault_of pending qid users queue supply balances allocations =
     \<lparr>vs_config = \<lparr>vc_usdc_denom = UsdcNative ''usdc'', vc_governance = ''gov'',
         vc_markets_allocation_bps = [(''BTC'', 3000), (''ETH'', 6000)], vc_paused = False\<rparr>,
       vs_total_pending_withdrawals = pending, vs_queue_id = qid, vs_user_withdrawals = users,
       vs_withdrawal_queue = queue, vs_total_lp_supply = supply, vs_lp_balances = balances,
       vs_market_allocations = allocations\<rparr>"

definition no_allocations :: "(string, nat) fmap" where
  "no_allocations = fmupd ''ETH'' 0 (fmupd ''BTC'' 0 fmempty)"

definition fresh_vault :: VaultState where
  "fresh_vault = vault_of 0 None fmempty fmempty 0 fmempty no_allocations"

definition sent_by :: "Addr \<Rightarrow> (string \<times> nat) list \<Rightarrow> VaultInfo" where
  "sent_by a coins = \<lparr>vf_sender = a, vf_funds = coins\<rparr>"

lemmas vault_eval = vault_env_def vault_of_def sent_by_def floor_ratio_def ensure_governance_def check_not_paused_def
  credit_def debit_def u128_add_def u128_checked_add_def u128_checked_sub_def u64_add_def u128_lim_def u64_lim_def
  next_queue_id_def Let_def total_bps_def api_addr_validate_def

lemma fresh_vault_start: "vault_start fresh_vault"
  unfolding vault_start_def
  by (rule exI [of _ "vault_env 0"], rule exI [of _ sample_vault_init])
    (simp add: vault_instantiate_def sample_vault_init_def usdc_from_init_def fresh_vault_def no_allocations_def vault_eval)

definition sample_queue :: "(QueueId, WithdrawalRequest) fmap" where
  "sample_queue = fmupd 1 \<lparr>wr_user = ''alice'', wr_amount = 20\<rparr> (fmupd 0 \<lparr>wr_user = ''alice'', wr_amount = 30\<rparr> fmempty)"

definition sample_users :: "(Addr \<times> QueueId, unit) fmap" where
  "sample_users = fmupd (''alice'', 1) () (fmupd (''alice'', 0) () fmempty)"

definition sample_vault :: VaultState where
  "sample_vault = vault_of 50 (Some 2) sample_users sample_queue 50 (fmupd ''alice'' 50 (fmupd ''alice'' 70 (fmupd ''alice'' 100 fmempty))) no_allocations"

lemma no_allocations_values: "sum_u128 0 (fmvalues no_allocations) = Inr 0"
proof -
  have "set (fmvalues no_allocations) \<subseteq> {0}"
    by (auto simp: fmvalues_def List.map_filter_def no_allocations_def split: if_splits)
  moreover have "set ns \<subseteq> {0} \<Longrightarrow> sum_u128 0 ns = Inr 0" for ns
    by (induction ns) (auto simp: u128_lim_def u128_add_def)
  ultimately show ?thesis by blast
qed

lemma sample_vault_deposit: "vault_execute D (vault_env 100) (sent_by ''alice'' [(''usdc'', 100)]) VaultDeposit fresh_vault
    = Inr (vault_of 0 None fmempty fmempty 100 (fmupd ''alice'' 100 fmempty) no_allocations, [])"
  by (simp add: vault_execute_def execute_deposit_def usdc_to_string_def deposit_shares_def get_total_assets_def vault_mint_def
      fresh_vault_def no_allocations_values vault_eval)

lemma sample_requests:
  "vault_execute D (vault_env 100) (sent_by ''alice'' []) (RequestWithdrawal 30)
     (vault_of 0 None fmempty fmempty 100 (fmupd ''alice'' 100 fmempty) no_allocations)
   = Inr (vault_of 30 (Some 1) (fmupd (''alice'', 0) () fmempty) (fmupd 0 \<lparr>wr_user = ''alice'', wr_amount = 30\<rparr> fmempty) 70
       (fmupd ''alice'' 70 (fmupd ''alice'' 100 fmempty)) no_allocations, [])"
  "vault_execute D (vault_env 100) (sent_by ''alice'' []) (RequestWithdrawal 20)
     (vault_of 30 (Some 1) (fmupd (''alice'', 0) () fmempty) (fmupd 0 \<lparr>wr_user = ''alice'', wr_amount = 30\<rparr> fmempty) 70
       (fmupd ''alice'' 70 (fmupd ''alice'' 100 fmempty)) no_allocations)
   = Inr (sample_vault, [])"
  by (simp_all add: vault_execute_def execute_request_withdrawal_def get_and_increment_queue_id_def sample_vault_def
      sample_users_def sample_queue_def vault_eval)

lemma sample_vault_reached: "reachable vault_start (vault_step D) sample_vault"
  by (rule reachable.move, rule reachable.move, rule reachable.move, rule reachable.start, rule fresh_vault_start,
      rule vault_step.message, rule sample_vault_deposit, rule vault_step.message, rule sample_requests(1),
      rule vault_step.message, rule sample_requests(2))

definition sample_redistribution :: "(VaultState \<times> VaultCosmosMsg list) res" where
  "sample_redistribution = execute_redistribute_funds (vault_env 100) (sent_by ''gov'' []) sample_vault"

lemma sample_redistribution_ok: "is_ok sample_redistribution"
  by (simp add: sample_redistribution_def execute_redistribute_funds_def usdc_balance_def sample_vault_def no_allocations_def vault_eval)

theorem vault_redistribution_keeps_reserve_witness:
  "\<exists>s' ms. sample_redistribution = Inr (s', ms) \<and> balance_of (vs_market_allocations s') ''BTC'' = 16
     \<and> balance_of (vs_market_allocations s') ''ETH'' = 33 \<and> last ms = BankSend ''gov'' [(''usdc'', 1)]"
proof -
  obtain s' ms where r: "sample_redistribution = Inr (s', ms)"
    using sample_redistribution_ok unfolding is_ok_iff by auto
  have law: "multiply_ratio_floor (ve_multiply_ratio (vault_env 100))"
    by (simp add: multiply_ratio_floor_def vault_env_def floor_ratio_def)
  have "balance_of (vs_market_allocations s') ''BTC'' = 16 \<and> balance_of (vs_market_allocations s') ''ETH'' = 33
     \<and> last ms = BankSend ''gov'' [(''usdc'', 1)]"
    using vault_redistribution_keeps_reserve [OF law r [unfolded sample_redistribution_def]]
    by (auto simp: usdc_balance_def sample_vault_def vault_eval share_of_def no_allocations_def)
  then show ?thesis using r by blast
qed

section \<open>The books\<close>

text \<open>C29: In every state the vault can reach from an instantiation, the share supply is the sum of the balances,
  the pending total is the sum of the queued requests, and the query for the pending withdrawals of a user
  answers exactly the sum of the requests that user has in the queue.\<close>

theorem vault_books_balance:
  assumes "reachable vault_start (vault_step D) s"
  shows "vs_total_lp_supply s = ledger_sum (vs_lp_balances s)
    \<and> vs_total_pending_withdrawals s = (\<Sum>(i, r)\<leftarrow>queue_entries s. wr_amount r)
    \<and> (ve_api env u = Some a \<longrightarrow> get_pending_withdrawal env u s
        = Inr (fmsum (\<lambda>r. if wr_user r = a then wr_amount r else 0) (vs_withdrawal_queue s)))"
  using vault_system.reachable_inv [OF assms] pending_query [of s env u a] entries_sum [of wr_amount "vs_withdrawal_queue s"]
  by (auto simp: vault_inv_def queue_entries_eq user_pending_def)

theorem vault_books_balance_witness: "get_pending_withdrawal (vault_env 0) ''alice'' sample_vault = Inr 50"
proof -
  have "fmsum (\<lambda>r. if wr_user r = ''alice'' then wr_amount r else 0) sample_queue = 50"
    using fmsum_upd [of "\<lambda>r. if wr_user r = ''alice'' then wr_amount r else 0" "1::nat" "\<lparr>wr_user = ''alice'', wr_amount = 20\<rparr>"
        "fmupd 0 \<lparr>wr_user = ''alice'', wr_amount = 30\<rparr> fmempty"]
      fmsum_upd [of "\<lambda>r. if wr_user r = ''alice'' then wr_amount r else 0" "0::nat" "\<lparr>wr_user = ''alice'', wr_amount = 30\<rparr>" fmempty]
    by (simp add: sample_queue_def fmval_def)
  then show ?thesis
    using vault_books_balance [OF sample_vault_reached, of "vault_env 0" "''alice''" "''alice''"]
    by (simp add: vault_env_def sample_vault_def vault_of_def)
qed

section \<open>Draining the queue\<close>

text \<open>Rounds of \<open>ProcessWithdrawal\<close>: the messages of a round are executed, so the bank balance is
  lower by what they pay when the next round starts.\<close>

fun process_rounds :: "VaultEnv \<Rightarrow> nat \<Rightarrow> nat \<Rightarrow> VaultState \<Rightarrow> (VaultState \<times> VaultCosmosMsg list) res" where
  "process_rounds env 0 bal s = Inr (s, [])"
| "process_rounds env (Suc n) bal s =
     and_then (execute_process_withdrawal (env\<lparr>ve_bank_balance := (\<lambda>_. Inr bal)\<rparr>) s) (\<lambda>(s, ms).
     and_then (process_rounds env n (bal - (\<Sum>m\<leftarrow>ms. sent_amount m)) s) (\<lambda>(s, ms'). Inr (s, ms @ ms')))"

lemma process_covered:
  assumes inv: "vault_inv s" and paused: "\<not> vc_paused (vs_config s)" and covered: "vs_total_pending_withdrawals s \<le> bal"
  defines "xs \<equiv> take PROCESS_LIMIT (queue_entries s)"
  shows "\<exists>s'. execute_process_withdrawal (env\<lparr>ve_bank_balance := (\<lambda>_. Inr bal)\<rparr>) s
      = Inr (s', map (\<lambda>(i, r). payment_message (vc_usdc_denom (vs_config s)) r) xs)
    \<and> queue_entries s' = drop PROCESS_LIMIT (queue_entries s) \<and> vs_config s' = vs_config s
    \<and> vs_lp_balances s' = vs_lp_balances s
    \<and> vs_total_pending_withdrawals s' + amounts xs = vs_total_pending_withdrawals s"
proof -
  let ?env = "env\<lparr>ve_bank_balance := (\<lambda>_. Inr bal)\<rparr>"
  have "amounts xs + amounts (drop PROCESS_LIMIT (queue_entries s)) = amounts (queue_entries s)"
    unfolding xs_def map_append [symmetric] sum_list_append [symmetric] by (simp only: append_take_drop_id)
  then have le: "amounts xs \<le> vs_total_pending_withdrawals s" and lim: "vs_total_pending_withdrawals s < u128_lim"
    using inv entries_sum [of wr_amount "vs_withdrawal_queue s"] by (simp_all add: vault_inv_def queue_entries_eq)
  have pay: "payable bal 0 (take PROCESS_LIMIT (queue_entries s)) = Inr (amounts xs, xs)"
    using payable_all [of 0 xs bal] le lim covered by (simp add: xs_def)
  then obtain s' where run: "execute_process_withdrawal ?env s
      = Inr (s', map (\<lambda>(i, r). payment_message (vc_usdc_denom (vs_config s)) r) xs)"
    using paused le by (cases "amounts xs = 0")
      (simp_all add: execute_process_withdrawal_def Let_def remove_entries_result u128_checked_sub_def del: sum_list_eq_0_iff)
  obtain xs' ys where q: "queue_entries s = xs' @ ys" "queue_entries s' = ys"
    and ms: "map (\<lambda>(i, r). payment_message (vc_usdc_denom (vs_config s)) r) xs
      = map (\<lambda>(i, r). payment_message (vc_usdc_denom (vs_config s)) r) xs'"
    and s': "s' = (remove_entries xs' s)\<lparr>vs_total_pending_withdrawals := vs_total_pending_withdrawals s - amounts xs'\<rparr>"
    using process_result [OF run inv] by blast
  have "length xs' = length xs" using arg_cong [OF ms, of length] by simp
  moreover have "queue_entries s = xs @ drop PROCESS_LIMIT (queue_entries s)" by (simp add: xs_def)
  ultimately have "xs' = xs" "ys = drop PROCESS_LIMIT (queue_entries s)" using q(1) append_eq_append_conv by metis+
  then show ?thesis using run q(2) s' le by (auto simp: remove_entries_result)
qed

lemma rounds_drain:
  assumes "vault_inv s" "\<not> vc_paused (vs_config s)" "vs_total_pending_withdrawals s \<le> bal"
    and "length (queue_entries s) \<le> PROCESS_LIMIT * n"
  shows "\<exists>s'. process_rounds env n bal s
      = Inr (s', map (\<lambda>(i, r). payment_message (vc_usdc_denom (vs_config s)) r) (queue_entries s))
    \<and> queue_entries s' = [] \<and> vs_total_pending_withdrawals s' = 0 \<and> vs_lp_balances s' = vs_lp_balances s"
  using assms
proof (induction n arbitrary: s bal)
  case 0
  then have "vs_withdrawal_queue s = fmempty" by (simp add: queue_entries_eq entries_empty)
  then show ?case using "0.prems" by (simp add: vault_inv_def)
next
  case (Suc n)
  let ?msgs = "map (\<lambda>(i, r). payment_message (vc_usdc_denom (vs_config s)) r)"
  define xs where "xs = take PROCESS_LIMIT (queue_entries s)"
  obtain s1 where run: "execute_process_withdrawal (env\<lparr>ve_bank_balance := (\<lambda>_. Inr bal)\<rparr>) s = Inr (s1, ?msgs xs)"
    and s1: "queue_entries s1 = drop PROCESS_LIMIT (queue_entries s)" "vs_config s1 = vs_config s"
      "vs_lp_balances s1 = vs_lp_balances s" "vs_total_pending_withdrawals s1 + amounts xs = vs_total_pending_withdrawals s"
    using process_covered [OF Suc.prems(1-3), of env] unfolding xs_def by blast
  have sent: "(\<Sum>m\<leftarrow>?msgs xs. sent_amount m) = amounts xs"
    by (rule arg_cong [of _ _ sum_list]) (simp add: comp_def split_beta)
  have left: "vs_total_pending_withdrawals s1 \<le> bal - amounts xs" "length (queue_entries s1) \<le> PROCESS_LIMIT * n"
    using Suc.prems(3,4) s1(1,4) by simp_all
  obtain s2 where "process_rounds env n (bal - amounts xs) s1 = Inr (s2, ?msgs (queue_entries s1))"
    "queue_entries s2 = []" "vs_total_pending_withdrawals s2 = 0" "vs_lp_balances s2 = vs_lp_balances s1"
    using Suc.IH [OF process_inv [OF run Suc.prems(1)] _ left] Suc.prems(2) s1(1,2) by auto
  then show ?case using run s1 sent by (simp add: xs_def map_append [symmetric] del: map_append)
qed

text \<open>C30: Whenever the bank balance covers the pending withdrawals of a vault that is not paused, rounds of
  \<open>ProcessWithdrawal\<close>, which anyone may call, pay the whole queue: with one round per 20 requests every call
  succeeds, every request is paid once, in full, in the order the requests were made, and at the end the
  queue is empty and nothing is pending. No balance of shares changes.\<close>

theorem vault_queue_is_paid:
  assumes "reachable vault_start (vault_step D) s"
    and "\<not> vc_paused (vs_config s)" "vs_total_pending_withdrawals s \<le> bal"
    and "length (queue_entries s) \<le> PROCESS_LIMIT * n"
  shows "\<exists>s'. process_rounds env n bal s
      = Inr (s', map (\<lambda>(i, r). BankSend (wr_user r) [(usdc_to_string (vc_usdc_denom (vs_config s)), wr_amount r)]) (queue_entries s))
    \<and> sorted (map fst (queue_entries s)) \<and> vs_withdrawal_queue s' = fmempty
    \<and> vs_total_pending_withdrawals s' = 0 \<and> vs_lp_balances s' = vs_lp_balances s"
  using rounds_drain [OF vault_system.reachable_inv [OF assms(1)] assms(2-4), of env]
  by (auto simp: payment_message_def queue_entries_eq entries_empty)

theorem vault_queue_is_paid_witness:
  "\<exists>s'. process_rounds (vault_env 0) 1 50 sample_vault
      = Inr (s', map (\<lambda>(i, r). BankSend (wr_user r) [(''usdc'', wr_amount r)]) (queue_entries sample_vault))
    \<and> vs_withdrawal_queue s' = fmempty"
proof -
  have "fmdom' sample_queue = {0, 1}" by (auto simp: sample_queue_def)
  then have "length (fmkeys sample_queue) \<le> 20" by (simp add: fmkeys_def)
  then have "length (queue_entries sample_vault) \<le> PROCESS_LIMIT * 1"
    by (simp add: queue_entries_eq entries_eq sample_vault_def vault_of_def PROCESS_LIMIT_def)
  from vault_queue_is_paid [OF sample_vault_reached _ _ this, of 50 "vault_env 0"]
  show ?thesis by (auto simp: sample_vault_def vault_of_def usdc_to_string_def)
qed

text \<open>The first two deposits of equal size into a native vault: the coins of the second are already part of the
  balance its price is computed from, so it gets half the shares of the first.\<close>

lemma second_deposit_gets_half:
  "execute_deposit (vault_env 200) (sent_by ''bob'' [(''usdc'', 100)])
     (vault_of 0 None fmempty fmempty 100 (fmupd ''alice'' 100 fmempty) no_allocations)
   = Inr (vault_of 0 None fmempty fmempty 150 (fmupd ''bob'' 50 (fmupd ''alice'' 100 fmempty)) no_allocations)"
  by (simp add: execute_deposit_def usdc_to_string_def deposit_shares_def get_total_assets_def vault_mint_def
      no_allocations_values vault_eval)

end
