(* ===== verification/Countertrade.thy ===== *)
theory Countertrade
  imports LiquidityTokens
begin

text \<open>
  The countertrade contract, \<open>contracts/countertrade/src\<close> with
  \<open>packages/perpswap/src/contracts/countertrade.rs\<close>: depositors hold shares of a fund that opens
  positions on the unpopular side of one market, so that the funding rate comes back to a target. What the
  contract asks of the chain and of the market (its balance, its position tokens, the position, the spot price,
  the status, the state of a deferred execution) and the decoding of a hook message are fields of the
  environment. The events are left out, the messages are part of the response; the migration, which only
  compares version texts, is not modelled.
\<close>

section \<open>Data\<close>

datatype MarketToken = MtCw20 RawAddr nat | MtNative string nat

datatype CtToken = CtNative string | CtCw20 Addr

record CtConfig =
  cc_admin :: Addr
  cc_pending_admin :: "Addr option"
  cc_market :: Addr
  cc_min_funding :: Decimal256
  cc_target_funding :: Decimal256
  cc_max_funding :: Decimal256
  cc_iterations :: nat
  cc_take_profit_factor :: Decimal256
  cc_stop_loss_factor :: Decimal256
  cc_max_leverage :: LeverageToBase

record CtConfigUpdate =
  cu_min_funding :: "Decimal256 option"
  cu_target_funding :: "Decimal256 option"
  cu_max_funding :: "Decimal256 option"
  cu_max_leverage :: "LeverageToBase option"
  cu_iterations :: "nat option"
  cu_take_profit_factor :: "Decimal256 option"
  cu_stop_loss_factor :: "Decimal256 option"

definition no_update :: CtConfigUpdate where
  "no_update = \<lparr>cu_min_funding = None, cu_target_funding = None, cu_max_funding = None, cu_max_leverage = None,
     cu_iterations = None, cu_take_profit_factor = None, cu_stop_loss_factor = None\<rparr>"

datatype CtExecuteMsg =
    CtReceive RawAddr nat string
  | CtDeposit
  | CtWithdraw NonZero
  | CtDoWork
  | CtAppointAdmin RawAddr
  | CtAcceptAdmin
  | CtUpdateConfig CtConfigUpdate

record ClosedPositionCursor =
  cur_time :: Timestamp
  cur_position :: PositionId

record Totals =
  tot_shares :: LpToken
  tot_last_closed :: "ClosedPositionCursor option"
  tot_deferred_exec :: "DeferredExecId option"

datatype PositionsInfo = TooManyPositions PositionId | NoPositions | OnePosition PositionQueryResponse

record MarketInfo =
  mi_id :: MarketId
  mi_addr :: Addr
  mi_token :: MarketToken

datatype WorkDescription =
    WdOpenPosition DirectionToBase LeverageToBase NonZero TakeProfitTrader "PriceBaseInQuote option"
  | WdClosePosition PositionId
  | WdResetShares
  | WdClearDeferredExec DeferredExecId
  | WdAddCollateral PositionId NonZero
  | WdRemoveCollateral PositionId NonZero Collateral

datatype HasWorkResp = NoWork | Work WorkDescription

text \<open>The fields of the market's status the contract reads, and the status of a deferred execution.\<close>

record StatusResp =
  sr_market_id :: MarketId
  sr_market_type :: MarketType
  sr_collateral :: MarketToken
  sr_config :: Config
  sr_long_funding :: Number
  sr_short_funding :: Number
  sr_long_notional :: Notional
  sr_short_notional :: Notional

datatype DeferredResp = ItemPending | ItemSuccess | ItemFailure | ItemNotFound

text \<open>The messages to the market, with the slippage limit that is never set, and the ways to send one.\<close>

datatype CtMarketMsg =
    CtOpenPosition LeverageToBase DirectionToBase "PriceBaseInQuote option" TakeProfitTrader
  | CtClosePosition PositionId
  | CtAddCollateralImpactSize PositionId
  | CtRemoveCollateralImpactSize PositionId NonZero

datatype CtOutMsg =
    CtBankSend Addr "(string \<times> nat) list"
  | CtCw20Transfer RawAddr Addr nat
  | CtMarketExecute Addr CtMarketMsg "(string \<times> nat) list"
  | CtCw20Send RawAddr Addr nat CtMarketMsg

record CtResponse =
  re_messages :: "CtOutMsg list"
  re_submessages :: "CtOutMsg list"

record CtEnv =
  ce_api :: addr_api
  ce_balance :: "MarketToken \<Rightarrow> nat res"
  ce_tokens :: "PositionId list res"
  ce_positions :: "PositionId \<Rightarrow> PositionQueryResponse list res"
  ce_spot_price :: "PricePoint res"
  ce_status :: "StatusResp res"
  ce_deferred :: "DeferredExecId \<Rightarrow> DeferredResp res"
  ce_receive_msg :: "string \<Rightarrow> CtExecuteMsg option"

record CtState =
  cs_config :: CtConfig
  cs_shares :: "(Addr, NonZero) fmap"
  cs_totals :: "Totals option"
  cs_market_info :: "MarketInfo option"
  cs_reply_market :: "MarketId option"

section \<open>The token of the market\<close>

definition mt_decimal_places :: "MarketToken \<Rightarrow> nat" where
  "mt_decimal_places t = (case t of MtCw20 _ n \<Rightarrow> n | MtNative _ n \<Rightarrow> n)"

definition mt_into_transfer_msg :: "dec256_api \<Rightarrow> MarketToken \<Rightarrow> Addr \<Rightarrow> NonZero \<Rightarrow> CtOutMsg option res" where
  "mt_into_transfer_msg D t recipient amount =
     and_then (token_into_u128 D (mt_decimal_places t) amount) (\<lambda>v.
     Inr (case v of
         None \<Rightarrow> None
       | Some n \<Rightarrow> Some (case t of
             MtNative denom _ \<Rightarrow> CtBankSend recipient [(denom, n)]
           | MtCw20 addr _ \<Rightarrow> CtCw20Transfer addr recipient n)))"

definition mt_query_balance :: "dec256_api \<Rightarrow> CtEnv \<Rightarrow> MarketToken \<Rightarrow> Collateral res" where
  "mt_query_balance D env t = and_then (ce_balance env t) (token_from_u128 D (mt_decimal_places t))"

definition mt_round_down_to_precision :: "dec256_api \<Rightarrow> MarketToken \<Rightarrow> Collateral \<Rightarrow> Collateral res" where
  "mt_round_down_to_precision D t amount =
     and_then (token_into_u128 D (mt_decimal_places t) amount) (\<lambda>v.
     token_from_u128 D (mt_decimal_places t) (case v of Some n \<Rightarrow> n | None \<Rightarrow> 0))"

text \<open>\<open>map_err\<close> to a conversion error; a panic is not an error value.\<close>

definition as_conversion_error :: "'a res \<Rightarrow> 'a res" where
  "as_conversion_error m = (case m of
       Inl (Panic s) \<Rightarrow> Inl (Panic s)
     | Inl _ \<Rightarrow> Inl (Perp Conversion)
     | Inr x \<Rightarrow> Inr x)"

definition mt_into_market_execute_msg ::
    "dec256_api \<Rightarrow> MarketToken \<Rightarrow> Addr \<Rightarrow> Collateral \<Rightarrow> CtMarketMsg \<Rightarrow> CtOutMsg res" where
  "mt_into_market_execute_msg D t market amount msg = (case t of
       MtCw20 addr n \<Rightarrow>
         and_then (as_conversion_error (token_into_u128 D n amount)) (\<lambda>v.
         Inr (case v of Some a \<Rightarrow> CtCw20Send addr market a msg | None \<Rightarrow> CtMarketExecute market msg []))
     | MtNative denom n \<Rightarrow>
         if amount = 0 then Inr (CtMarketExecute market msg [])
         else
           and_then (as_conversion_error (token_into_u128 D n amount)) (\<lambda>v.
           and_then (ok_or v (Panic ''unwrap on None'')) (\<lambda>a.
           Inr (CtMarketExecute market msg [(denom, a)]))))"

definition ensure_matches :: "CtToken \<Rightarrow> MarketToken \<Rightarrow> unit res" where
  "ensure_matches t mt = (case (t, mt) of
       (CtNative _, MtCw20 _ _) \<Rightarrow> Inl (Msg ''Provided native funds, but market requires a CW20'')
     | (CtNative denom1, MtNative denom2 _) \<Rightarrow> ensure (denom1 = denom2) (Msg ''Wrong denom provided'')
     | (CtCw20 addr1, MtCw20 addr2 _) \<Rightarrow> ensure (addr1 = addr2) (Msg ''Wrong CW20 used'')
     | (CtCw20 _, MtNative _ _) \<Rightarrow> Inl (Msg ''Provided CW20 funds, but market requires native funds''))"

section \<open>Configuration\<close>

definition ct_config_check :: "dec256_api \<Rightarrow> CtConfig \<Rightarrow> unit res" where
  "ct_config_check D c =
     (if cc_target_funding c \<le> cc_min_funding c then Inl (Msg ''Minimum funding must be strictly less than target'')
      else if cc_max_funding c \<le> cc_target_funding c then Inl (Msg ''Target funding must be strictly less than max'')
      else
        and_then (d_from_ratio D 2 1) (\<lambda>two.
        if cc_max_leverage c < two then Inl (Msg ''Max leverage must be at least 2'') else Inr ()))"

definition or_ratio :: "dec256_api \<Rightarrow> Decimal256 option \<Rightarrow> nat \<Rightarrow> nat \<Rightarrow> Decimal256 res" where
  "or_ratio D v n d = (case v of Some x \<Rightarrow> Inr x | None \<Rightarrow> d_from_ratio D n d)"

definition ct_instantiate :: "dec256_api \<Rightarrow> CtEnv \<Rightarrow> RawAddr \<Rightarrow> RawAddr \<Rightarrow> CtConfigUpdate \<Rightarrow> CtState res" where
  "ct_instantiate D env market admin upd =
     and_then (addr_validate (ce_api env) admin) (\<lambda>admin.
     and_then (addr_validate (ce_api env) market) (\<lambda>market.
     and_then (or_ratio D (cu_min_funding upd) 10 100) (\<lambda>min_funding.
     and_then (or_ratio D (cu_target_funding upd) 40 100) (\<lambda>target_funding.
     and_then (or_ratio D (cu_max_funding upd) 60 100) (\<lambda>max_funding.
     and_then (or_ratio D (cu_take_profit_factor upd) 15 10) (\<lambda>take_profit_factor.
     let config = \<lparr>cc_admin = admin, cc_pending_admin = None, cc_market = market, cc_min_funding = min_funding,
           cc_target_funding = target_funding, cc_max_funding = max_funding,
           cc_iterations = (case cu_iterations upd of Some n \<Rightarrow> n | None \<Rightarrow> 50),
           cc_take_profit_factor = take_profit_factor,
           cc_stop_loss_factor = (case cu_stop_loss_factor upd of Some x \<Rightarrow> x | None \<Rightarrow> dec_one),
           cc_max_leverage = (case cu_max_leverage upd of Some l \<Rightarrow> l | None \<Rightarrow> 10 * dec_one)\<rparr> in
     and_then (ct_config_check D config) (\<lambda>_.
     Inr \<lparr>cs_config = config, cs_shares = fmempty, cs_totals = None, cs_market_info = None, cs_reply_market = None\<rparr>)))))))"

definition ct_update_config :: "dec256_api \<Rightarrow> Addr \<Rightarrow> CtConfigUpdate \<Rightarrow> CtState \<Rightarrow> CtState res" where
  "ct_update_config D sender upd s =
     and_then (ensure (cc_admin (cs_config s) = sender) (Msg ''You are not the admin, you cannot update the config'')) (\<lambda>_.
     let c = cs_config s;
         c = (case cu_min_funding upd of Some x \<Rightarrow> c\<lparr>cc_min_funding := x\<rparr> | None \<Rightarrow> c);
         c = (case cu_target_funding upd of Some x \<Rightarrow> c\<lparr>cc_target_funding := x\<rparr> | None \<Rightarrow> c);
         c = (case cu_max_funding upd of Some x \<Rightarrow> c\<lparr>cc_max_funding := x\<rparr> | None \<Rightarrow> c);
         c = (case cu_max_leverage upd of Some x \<Rightarrow> c\<lparr>cc_max_leverage := x\<rparr> | None \<Rightarrow> c);
         c = (case cu_iterations upd of Some x \<Rightarrow> c\<lparr>cc_iterations := x\<rparr> | None \<Rightarrow> c);
         c = (case cu_take_profit_factor upd of Some x \<Rightarrow> c\<lparr>cc_take_profit_factor := x\<rparr> | None \<Rightarrow> c);
         c = (case cu_stop_loss_factor upd of Some x \<Rightarrow> c\<lparr>cc_stop_loss_factor := x\<rparr> | None \<Rightarrow> c) in
     and_then (ct_config_check D c) (\<lambda>_. Inr (s\<lparr>cs_config := c\<rparr>)))"

definition ct_appoint_admin :: "Addr \<Rightarrow> Addr \<Rightarrow> CtState \<Rightarrow> CtState res" where
  "ct_appoint_admin sender new_admin s =
     and_then (ensure (cc_admin (cs_config s) = sender) (Msg ''You are not the admin, you cannot appoint a new admin'')) (\<lambda>_.
     Inr (s\<lparr>cs_config := (cs_config s)\<lparr>cc_pending_admin := Some new_admin\<rparr>\<rparr>))"

definition ct_accept_admin :: "Addr \<Rightarrow> CtState \<Rightarrow> CtState res" where
  "ct_accept_admin sender s =
     and_then (ensure (cc_pending_admin (cs_config s) = Some sender) (Msg ''Cannot accept admin, you are not currently the pending admin'')) (\<lambda>_.
     Inr (s\<lparr>cs_config := (cs_config s)\<lparr>cc_admin := sender, cc_pending_admin := None\<rparr>\<rparr>))"

section \<open>Market information and positions\<close>

definition load_market_info_inner :: "CtEnv \<Rightarrow> CtState \<Rightarrow> (MarketInfo \<times> bool) res" where
  "load_market_info_inner env s = (case cs_market_info s of
       Some info \<Rightarrow> Inr (info, True)
     | None \<Rightarrow>
         and_then (ce_status env) (\<lambda>status.
         Inr (\<lparr>mi_id = sr_market_id status, mi_addr = cc_market (cs_config s), mi_token = sr_collateral status\<rparr>, False)))"

definition load_market_info :: "CtEnv \<Rightarrow> CtState \<Rightarrow> MarketInfo res" where
  "load_market_info env s = map_res fst (load_market_info_inner env s)"

definition load_cache_market_info :: "CtEnv \<Rightarrow> CtState \<Rightarrow> (MarketInfo \<times> CtState) res" where
  "load_cache_market_info env s =
     and_then (load_market_info_inner env s) (\<lambda>(market, is_cached).
     Inr (market, if is_cached then s else s\<lparr>cs_market_info := Some market\<rparr>))"

definition contract_balance :: "dec256_api \<Rightarrow> CtEnv \<Rightarrow> CtState \<Rightarrow> Collateral res" where
  "contract_balance D env s = and_then (load_market_info env s) (\<lambda>info. mt_query_balance D env (mi_token info))"

definition load_positions :: "CtEnv \<Rightarrow> PositionsInfo res" where
  "load_positions env =
     and_then (ce_tokens env) (\<lambda>tokens.
     case tokens of
       [] \<Rightarrow> Inr NoPositions
     | first_id # rest \<Rightarrow>
         if rest \<noteq> [] then Inr (TooManyPositions first_id)
         else
           and_then (ce_positions env first_id) (\<lambda>positions.
           if positions = [] then Inl (Msg ''Our open position is in an unhealthy state, waiting for cranks'')
           else Inr (OnePosition (last positions))))"

definition active_collateral :: "PositionsInfo \<Rightarrow> Collateral res" where
  "active_collateral pos = (case pos of
       TooManyPositions _ \<Rightarrow> Inl (Msg ''Invalid state detected, multiple positions open. Perform work to close those.'')
     | NoPositions \<Rightarrow> Inr 0
     | OnePosition p \<Rightarrow> Inr (pq_active_collateral p))"

section \<open>Shares\<close>

definition default_totals :: Totals where
  "default_totals = \<lparr>tot_shares = 0, tot_last_closed = None, tot_deferred_exec = None\<rparr>"

definition load_totals :: "CtState \<Rightarrow> Totals" where
  "load_totals s = (case cs_totals s of Some t \<Rightarrow> t | None \<Rightarrow> default_totals)"

definition sender_shares :: "Addr \<Rightarrow> CtState \<Rightarrow> LpToken" where
  "sender_shares a s = (case fmlookup (cs_shares s) a of Some n \<Rightarrow> n | None \<Rightarrow> 0)"

definition shares_to_collateral ::
    "dec256_api \<Rightarrow> Totals \<Rightarrow> Collateral \<Rightarrow> LpToken \<Rightarrow> PositionsInfo \<Rightarrow> Collateral res" where
  "shares_to_collateral D t balance shares pos =
     and_then (active_collateral pos) (\<lambda>active.
     and_then (d_add D balance active) (\<lambda>total_collateral.
     and_then (d_div D total_collateral (tot_shares t)) (\<lambda>one_share_value.
     d_mul D shares one_share_value)))"

definition ct_add_collateral ::
    "dec256_api \<Rightarrow> Totals \<Rightarrow> Collateral \<Rightarrow> NonZero \<Rightarrow> PositionsInfo \<Rightarrow> (NonZero \<times> Totals) res" where
  "ct_add_collateral D t balance funds pos =
     and_then (active_collateral pos) (\<lambda>active.
     and_then (d_add D balance active) (\<lambda>total.
     and_then (d_sub D total funds) (\<lambda>collateral.
     and_then
       (if (collateral = 0 \<and> tot_shares t = 0) \<or> balance = 0
        then ok_or (nonzero_new funds) (Panic ''Impossible: NonZero to NonZero produced a 0'')
        else if collateral = 0 \<or> tot_shares t = 0 then Inl (Msg ''Invalid collateral/shares totals'')
        else
          and_then (d_div D funds collateral) (\<lambda>fund_units.
          and_then (d_mul D fund_units (tot_shares t)) (\<lambda>new_shares.
          ok_or (nonzero_new new_shares) (Msg ''new_shares ended up 0'')))) (\<lambda>new_shares.
     and_then (d_add D (tot_shares t) new_shares) (\<lambda>shares.
     Inr (new_shares, t\<lparr>tot_shares := shares\<rparr>))))))"

definition ct_remove_collateral ::
    "dec256_api \<Rightarrow> Totals \<Rightarrow> Collateral \<Rightarrow> NonZero \<Rightarrow> PositionsInfo \<Rightarrow> (Collateral \<times> Totals) res" where
  "ct_remove_collateral D t balance amount pos =
     and_then (shares_to_collateral D t balance amount pos) (\<lambda>collateral.
     and_then (ensure (collateral \<le> balance) (Msg ''Insufficient collateral for withdrawal'')) (\<lambda>_.
     and_then (ensure (amount \<le> tot_shares t) (Msg ''Insufficient shares for withdrawal'')) (\<lambda>_.
     and_then (d_sub D (tot_shares t) amount) (\<lambda>shares.
     Inr (collateral, t\<lparr>tot_shares := shares\<rparr>)))))"

definition ensure_no_deferred :: "Totals \<Rightarrow> unit res" where
  "ensure_no_deferred t = ensure (tot_deferred_exec t = None) (Msg ''Undergoing Deferred execution, try again later.'')"

definition ct_deposit :: "dec256_api \<Rightarrow> CtEnv \<Rightarrow> Addr \<Rightarrow> NonZero \<Rightarrow> CtState \<Rightarrow> CtState res" where
  "ct_deposit D env sender funds s =
     (let totals = load_totals s in
     and_then (ensure_no_deferred totals) (\<lambda>_.
     and_then (contract_balance D env s) (\<lambda>balance.
     and_then (load_positions env) (\<lambda>pos.
     and_then (ct_add_collateral D totals balance funds pos) (\<lambda>(new_shares, totals).
     and_then (nz_checked_add D new_shares (sender_shares sender s)) (\<lambda>shares.
     Inr (s\<lparr>cs_shares := fmupd sender shares (cs_shares s), cs_totals := Some totals\<rparr>)))))))"

definition ct_withdraw :: "dec256_api \<Rightarrow> CtEnv \<Rightarrow> Addr \<Rightarrow> MarketInfo \<Rightarrow> NonZero \<Rightarrow> CtState \<Rightarrow> (CtState \<times> CtResponse) res" where
  "ct_withdraw D env sender market amount s =
     (let totals = load_totals s in
     and_then (ensure_no_deferred totals) (\<lambda>_.
     and_then (ensure (amount \<le> sender_shares sender s) (Msg ''Insufficient shares'')) (\<lambda>_.
     and_then (load_positions env) (\<lambda>pos.
     and_then (contract_balance D env s) (\<lambda>balance.
     and_then (ct_remove_collateral D totals balance amount pos) (\<lambda>(collateral, totals).
     and_then (d_sub D (sender_shares sender s) amount) (\<lambda>rest.
     let s = s\<lparr>cs_shares := (case nonzero_new rest of None \<Rightarrow> fmdrop sender (cs_shares s) | Some n \<Rightarrow> fmupd sender n (cs_shares s)),
           cs_totals := Some totals\<rparr> in
     and_then (ok_or (nonzero_new collateral) (Msg ''Action would result in 0 collateral transferred'')) (\<lambda>collateral.
     and_then (mt_into_transfer_msg D (mi_token market) sender collateral) (\<lambda>m.
     and_then (ok_or m (Msg ''Collateral amount would be less than the minimum representation'')) (\<lambda>msg.
     Inr (s, \<lparr>re_messages = [msg], re_submessages = []\<rparr>)))))))))))"

end
