(* ===== verification/CountertradeWork.thy ===== *)
theory CountertradeWork
  imports Countertrade
begin

text \<open>
  The balancing work of the countertrade contract (\<open>contracts/countertrade/src/work.rs\<close>): the search for the
  notional size that brings the funding rate to the target, the choice of the next piece of work, the message
  it sends to the market, then \<open>execute\<close>, \<open>reply\<close> and the queries of the contract.
\<close>

section \<open>The funding rate of a market\<close>

definition ct_rf_popular ::
    "dec256_api \<Rightarrow> Decimal256 \<Rightarrow> Decimal256 \<Rightarrow> Number \<Rightarrow> Notional \<Rightarrow> Decimal256 res" where
  "ct_rf_popular D sensitivity cap net total_interest =
     and_then (d_div D (abs_unsigned net) total_interest) (\<lambda>imbalance.
     and_then (d_mul D sensitivity imbalance) (\<lambda>rate. Inr (min rate cap)))"

definition ct_rf_unpopular ::
    "dec256_api \<Rightarrow> Decimal256 res \<Rightarrow> Notional \<Rightarrow> Notional \<Rightarrow> Decimal256 res" where
  "ct_rf_unpopular D popular long short =
     (if short < long then
        and_then popular (\<lambda>p. and_then (d_div D long short) (d_mul D p))
      else if long < short then
        and_then popular (\<lambda>p. and_then (d_div D short long) (d_mul D p))
      else Inr 0)"

definition derive_popular_funding_rate_annual :: "dec256_api \<Rightarrow> Notional \<Rightarrow> Notional \<Rightarrow> Config \<Rightarrow> Decimal256 res" where
  "derive_popular_funding_rate_annual D popular_notional unpopular_notional cfg =
     (let rf_per_annual_cap = cfg_funding_rate_max_annualized cfg;
          long = popular_notional; short = unpopular_notional in
     and_then (signed_checked_sub D (new_positive popular_notional) (new_positive unpopular_notional)) (\<lambda>net.
     and_then (d_add D long short) (\<lambda>total_interest.
     and_then (d_mul D (cfg_delta_neutrality_fee_sensitivity cfg) (cfg_delta_neutrality_fee_cap cfg)) (\<lambda>notional_high_cap.
     and_then (d_mul D rf_per_annual_cap total_interest) (\<lambda>scaled.
     and_then (d_div D scaled notional_high_cap) (\<lambda>from_delta_neutrality.
     let sensitivity = max (cfg_funding_rate_sensitivity cfg) from_delta_neutrality;
         popular = ct_rf_popular D sensitivity rf_per_annual_cap net total_interest in
     and_then
       (if long = 0 \<or> short = 0 then Inr (signed_zero, signed_zero)
        else if short < long then
          and_then popular (\<lambda>p. and_then (ct_rf_unpopular D popular long short) (\<lambda>u.
          Inr (new_positive p, signed_neg (new_positive u))))
        else if long < short then
          and_then (ct_rf_unpopular D popular long short) (\<lambda>u. and_then popular (\<lambda>p.
          Inr (signed_neg (new_positive u), new_positive p)))
        else Inr (signed_zero, signed_zero)) (\<lambda>(p, u).
     and_then
       (if long = 0 \<or> short = 0 then
          and_then (ensure (sg_value u = 0) (Panic ''assertion failed'')) (\<lambda>_. ensure (sg_value p = 0) (Panic ''assertion failed''))
        else
          and_then (ensure (is_negative u) (Panic ''assertion failed'')) (\<lambda>_.
          ensure (is_strictly_positive p) (Panic ''assertion failed''))) (\<lambda>_.
     Inr (abs_unsigned p)))))))))"

section \<open>The search for the notional size\<close>

text \<open>One iteration of the loop: the answer, or the narrowed interval of ratios. The limit on the iterations is
  checked between the two outcomes.\<close>

datatype search_step_result = Found Notional | Narrow Decimal256 Decimal256

definition search_epsilon :: Decimal256 where
  "search_epsilon = 10000000000000"

definition desired_unpopular :: "dec256_api \<Rightarrow> Notional \<Rightarrow> Decimal256 \<Rightarrow> Notional res" where
  "desired_unpopular D popular_notional target_ratio =
     and_then (d_mul D target_ratio popular_notional) (\<lambda>x.
     and_then (d_sub D dec_one target_ratio) (\<lambda>rest.
     d_div D x rest))"

definition search_step ::
    "dec256_api \<Rightarrow> Config \<Rightarrow> Number \<Rightarrow> Notional \<Rightarrow> Notional \<Rightarrow> Decimal256 \<Rightarrow> Decimal256 \<Rightarrow> search_step_result res" where
  "search_step D cfg target_funding popular_notional unpopular_notional high_ratio low_ratio =
     and_then (d_add D high_ratio low_ratio) (\<lambda>sum_ratio.
     and_then (d_div D sum_ratio (2 * dec_one)) (\<lambda>target_ratio.
     and_then (desired_unpopular D popular_notional target_ratio) (\<lambda>desired.
     and_then (ensure (desired \<le> popular_notional) (Panic ''assertion failed: popular_notional >= desired_unpopular'')) (\<lambda>_.
     and_then (derive_popular_funding_rate_annual D popular_notional desired cfg) (\<lambda>new_funding_rate.
     and_then (signed_checked_sub D (new_positive new_funding_rate) target_funding) (\<lambda>diff.
     if desired < unpopular_notional then Inr (Found 0)
     else if abs_unsigned diff < search_epsilon then map_res Found (d_sub D desired unpopular_notional)
     else if target_funding < new_positive new_funding_rate then Inr (Narrow high_ratio target_ratio)
     else Inr (Narrow target_ratio low_ratio)))))))"

text \<open>The counter is a \<open>u8\<close> that starts at zero and stops at the limit, so it cannot overflow before the limit
  is reached.\<close>

function search_loop ::
    "dec256_api \<Rightarrow> Config \<Rightarrow> Number \<Rightarrow> Notional \<Rightarrow> Notional \<Rightarrow> nat \<Rightarrow> nat \<Rightarrow> Decimal256 \<Rightarrow> Decimal256 \<Rightarrow> Notional res" where
  "search_loop D cfg target_funding popular_notional unpopular_notional allowed_iterations iteration high_ratio low_ratio =
     (case search_step D cfg target_funding popular_notional unpopular_notional high_ratio low_ratio of
        Inl e \<Rightarrow> Inl e
      | Inr (Found d) \<Rightarrow> Inr d
      | Inr (Narrow high low) \<Rightarrow>
          if allowed_iterations \<le> iteration + 1 then Inl (Msg ''Iteration limit reached without converging'')
          else search_loop D cfg target_funding popular_notional unpopular_notional allowed_iterations (iteration + 1) high low)"
  by pat_completeness auto
termination
  by (relation "measure (\<lambda>(D, cfg, target, p, u, allowed, iteration, high, low). allowed - iteration)") auto

definition popular_side :: "Notional \<Rightarrow> Notional \<Rightarrow> Notional \<times> Notional" where
  "popular_side long_notional short_notional =
     (if short_notional < long_notional then (long_notional, short_notional) else (short_notional, long_notional))"

definition smart_search :: "dec256_api \<Rightarrow> Notional \<Rightarrow> Notional \<Rightarrow> Number \<Rightarrow> StatusResp \<Rightarrow> nat \<Rightarrow> Notional res" where
  "smart_search D long_notional short_notional target_funding status allowed_iterations =
     (let (popular_notional, unpopular_notional) = popular_side long_notional short_notional in
     if unpopular_notional = 0 \<and> popular_notional = 0 then Inr 0
     else
       and_then (d_from_ratio D 1 2) (\<lambda>high_ratio.
       and_then (d_add D popular_notional unpopular_notional) (\<lambda>total_notional.
       and_then (d_div D unpopular_notional total_notional) (\<lambda>low_ratio.
       search_loop D (sr_config status) target_funding popular_notional unpopular_notional allowed_iterations 0 high_ratio low_ratio))))"

definition determine_target_notional ::
    "dec256_api \<Rightarrow> Notional \<Rightarrow> Notional \<Rightarrow> Number \<Rightarrow> StatusResp \<Rightarrow> nat \<Rightarrow> PositionQueryResponse option \<Rightarrow> Signed option res" where
  "determine_target_notional D long_interest short_interest target_funding status allowed_iterations position =
     and_then (case position of
         Some p \<Rightarrow>
           (case direction_into_notional (pq_direction_to_base p) (sr_market_type status) of
              LongNotional \<Rightarrow> and_then (d_sub D long_interest (abs_unsigned (pq_notional_size p))) (\<lambda>l.
                and_then (d_sub D short_interest 0) (\<lambda>s. Inr (l, s)))
            | ShortNotional \<Rightarrow> and_then (d_sub D long_interest 0) (\<lambda>l.
                and_then (d_sub D short_interest (abs_unsigned (pq_notional_size p))) (\<lambda>s. Inr (l, s))))
       | None \<Rightarrow> Inr (long_interest, short_interest)) (\<lambda>(long_interest, short_interest).
     and_then (smart_search D long_interest short_interest target_funding status allowed_iterations) (\<lambda>desired_notional.
     Inr (Some (if long_interest < short_interest then new_positive desired_notional
       else signed_neg (new_positive desired_notional)))))"

section \<open>The use of the capital\<close>

datatype Capital =
    CapitalNew Collateral SignedLeverageToNotional
  | CapitalAdd Collateral PositionId
  | CapitalRemove Collateral PositionId Collateral
  | CapitalClose PositionId

definition estimate_crank_fee_from_status :: "dec256_api \<Rightarrow> StatusResp \<Rightarrow> PricePoint \<Rightarrow> Collateral res" where
  "estimate_crank_fee_from_status D status price =
     and_then (d_from_ratio D 5 10) (\<lambda>half.
     and_then (d_mul D (cfg_crank_fee_surcharge (sr_config status)) half) (\<lambda>fees.
     and_then (d_add D fees (cfg_crank_fee_charged (sr_config status))) (\<lambda>fees.
     usd_to_collateral D price fees)))"

definition estimate_crank_fee :: "dec256_api \<Rightarrow> CtEnv \<Rightarrow> PricePoint \<Rightarrow> Collateral res" where
  "estimate_crank_fee D env price =
     and_then (ce_status env) (\<lambda>status. estimate_crank_fee_from_status D status price)"

definition reduce_collateral ::
    "dec256_api \<Rightarrow> CtEnv \<Rightarrow> PositionQueryResponse \<Rightarrow> Collateral \<Rightarrow> Collateral \<Rightarrow> PricePoint \<Rightarrow> Capital option res" where
  "reduce_collateral D env p collateral min_deposit_collateral price =
     and_then (estimate_crank_fee D env price) (\<lambda>estimated_crank_fee.
     and_then (signed_checked_sub D (new_positive (pq_active_collateral p)) (new_positive collateral)) (\<lambda>final_active.
     and_then (if new_positive min_deposit_collateral \<le> final_active then Inr collateral
       else map_res abs_unsigned (signed_checked_sub D (scu_collateral (pq_deposit_collateral p)) (new_positive min_deposit_collateral)))
       (\<lambda>max_deduct.
     Inr (if max_deduct < estimated_crank_fee then None
       else if pq_active_collateral p \<le> max_deduct then Some (CapitalClose (pq_id p))
       else Some (CapitalRemove max_deduct (pq_id p) estimated_crank_fee)))))"

definition optimize_capital_efficiency ::
    "dec256_api \<Rightarrow> CtEnv \<Rightarrow> NonZero \<Rightarrow> Signed \<Rightarrow> SignedLeverageToNotional \<Rightarrow> PositionQueryResponse option \<Rightarrow> MarketType
       \<Rightarrow> Collateral \<Rightarrow> PricePoint \<Rightarrow> Capital option res" where
  "optimize_capital_efficiency D env available size_in_collateral desired_leverage position mt min_deposit_collateral price =
     (case position of
        Some p \<Rightarrow>
          and_then (leverage_into_notional D (leverage_into_signed (pq_leverage p) (pq_direction_to_base p)) mt) (\<lambda>ct_leverage.
          and_then (number_checked_div D size_in_collateral ct_leverage) (\<lambda>deposit.
          and_then (signed_checked_sub D (new_positive (abs_unsigned deposit)) (scu_collateral (pq_deposit_collateral p))) (\<lambda>diff.
          if is_strictly_positive diff then
            Inr (Some (CapitalAdd (min (abs_unsigned diff) available) (pq_id p)))
          else if sg_value diff = 0 then Inr None
          else reduce_collateral D env p (abs_unsigned diff) min_deposit_collateral price)))
      | None \<Rightarrow>
          and_then (number_checked_div D size_in_collateral desired_leverage) (\<lambda>deposit.
          and_then (ensure (is_strictly_positive deposit) (Panic ''assertion failed: deposit_collateral.is_strictly_positive()'')) (\<lambda>_.
          Inr (Some (CapitalNew (min (abs_unsigned deposit) available) desired_leverage)))))"

text \<open>A price at a distance of some percent from the entry price: above it when \<open>up\<close> holds.\<close>

definition price_at_factor :: "dec256_api \<Rightarrow> PricePoint \<Rightarrow> Decimal256 \<Rightarrow> bool \<Rightarrow> MarketType \<Rightarrow> PriceBaseInQuote res" where
  "price_at_factor D price factor up mt =
     (let entry = new_positive (price_notional price) in
     and_then (number_checked_mul D (new_positive factor) entry) (\<lambda>x.
     and_then (number_checked_div D x (new_positive (100 * dec_one))) (\<lambda>diff.
     and_then (if up then signed_checked_add D entry diff else signed_checked_sub D entry diff) (\<lambda>p.
     and_then (price_try_from_number p) (\<lambda>p. into_base_price D p mt)))))"

definition desired_leverage ::
    "dec256_api \<Rightarrow> StatusResp \<Rightarrow> LeverageToBase \<Rightarrow> Signed \<Rightarrow> SignedLeverageToNotional res" where
  "desired_leverage D status max_leverage target_size =
     and_then (ok_or (try_into_non_negative_value (cfg_max_leverage (sr_config status))) (Msg ''Market max_leverage is negative'')) (\<lambda>m.
     and_then (ok_or (nonzero_new m) (Msg ''Market max_leverage is zero'')) (\<lambda>market_max_leverage.
     let direction = direction_into_base (if is_strictly_positive target_size then LongNotional else ShortNotional) (sr_market_type status) in
     leverage_into_notional D (leverage_into_signed (min max_leverage market_max_leverage) direction) (sr_market_type status)))"

definition capital_work ::
    "dec256_api \<Rightarrow> StatusResp \<Rightarrow> PricePoint \<Rightarrow> NonZero \<Rightarrow> Collateral \<Rightarrow> PriceBaseInQuote \<Rightarrow> PriceBaseInQuote \<Rightarrow> Capital
       \<Rightarrow> WorkDescription option res" where
  "capital_work D status price available min_deposit_collateral take_profit stop_loss capital = (case capital of
       CapitalNew deposit leverage \<Rightarrow>
         and_then (ok_or (nonzero_new deposit) (Msg ''deposit_collateral is zero'')) (\<lambda>deposit.
         let deposit = min deposit available in
         if deposit < min_deposit_collateral then Inr None
         else
           and_then (leverage_into_base D leverage (sr_market_type status)) (\<lambda>l.
           let (direction, leverage) = leverage_split l in
           Inr (Some (WdOpenPosition direction leverage deposit (TP_Finite take_profit) (Some stop_loss)))))
     | CapitalAdd collateral i \<Rightarrow>
         and_then (estimate_crank_fee_from_status D status price) (\<lambda>fee.
         and_then (d_from_ratio D 5 1) (\<lambda>five.
         and_then (checked_mul_dec D fee five) (\<lambda>crank_fee_collateral.
         if collateral \<le> crank_fee_collateral then Inr None
         else
           and_then (ok_or (nonzero_new collateral) (Msg ''add_collateral is zero'')) (\<lambda>amount.
           Inr (Some (WdAddCollateral i amount))))))
     | CapitalRemove collateral i crank_fee \<Rightarrow>
         and_then (ok_or (nonzero_new collateral) (Msg ''remove_collateral is zero'')) (\<lambda>amount.
         Inr (Some (WdRemoveCollateral i amount crank_fee)))
     | CapitalClose i \<Rightarrow> Inr (Some (WdClosePosition i)))"

definition compute_delta_notional ::
    "dec256_api \<Rightarrow> CtEnv \<Rightarrow> CtConfig \<Rightarrow> Signed \<Rightarrow> PricePoint \<Rightarrow> StatusResp \<Rightarrow> NonZero \<Rightarrow> PositionQueryResponse option
       \<Rightarrow> WorkDescription option res" where
  "compute_delta_notional D env c target_size price status available position =
     and_then (price_at_factor D price (cc_take_profit_factor c) (is_strictly_positive target_size) (sr_market_type status)) (\<lambda>take_profit.
     and_then (price_at_factor D price (cc_stop_loss_factor c) (\<not> is_strictly_positive target_size) (sr_market_type status)) (\<lambda>stop_loss.
     and_then (desired_leverage D status (cc_max_leverage c) target_size) (\<lambda>leverage.
     and_then (signed_map (notional_to_collateral D price) target_size) (\<lambda>size_in_collateral.
     and_then (usd_to_collateral D price (cfg_minimum_deposit_usd (sr_config status))) (\<lambda>min_deposit_collateral.
     and_then (optimize_capital_efficiency D env available size_in_collateral leverage position (sr_market_type status)
       min_deposit_collateral price) (\<lambda>capital.
     case capital of
       None \<Rightarrow> Inr None
     | Some capital \<Rightarrow> capital_work D status price available min_deposit_collateral take_profit stop_loss capital))))))"

text \<open>The two calls the contract makes one after the other wherever it opens or resizes a position.\<close>

definition rebalance ::
    "dec256_api \<Rightarrow> CtEnv \<Rightarrow> CtConfig \<Rightarrow> Notional \<Rightarrow> Notional \<Rightarrow> PricePoint \<Rightarrow> StatusResp \<Rightarrow> NonZero \<Rightarrow> PositionQueryResponse option
       \<Rightarrow> WorkDescription option res" where
  "rebalance D env c long_interest short_interest price status available position =
     and_then (determine_target_notional D long_interest short_interest (new_positive (cc_target_funding c)) status
       (cc_iterations c) position) (\<lambda>result.
     case result of
       Some target_size \<Rightarrow> compute_delta_notional D env c target_size price status available position
     | None \<Rightarrow> Inr None)"

section \<open>The next piece of work\<close>

text \<open>Whether the market has positions on one side only; nothing when there is nothing to balance.\<close>

definition one_sided_market :: "StatusResp \<Rightarrow> bool option res" where
  "one_sided_market status =
     (if sg_value (sr_long_funding status) = 0 \<or> sg_value (sr_short_funding status) = 0 then
        and_then (ensure (sg_value (sr_long_funding status) = 0) (Panic ''assertion failed'')) (\<lambda>_.
        and_then (ensure (sg_value (sr_short_funding status) = 0) (Panic ''assertion failed'')) (\<lambda>_.
        (case (sr_long_notional status = 0, sr_short_notional status = 0) of
           (True, True) \<Rightarrow> Inr None
         | (False, False) \<Rightarrow>
             and_then (ensure (sr_long_notional status = sr_short_notional status) (Panic ''assertion failed'')) (\<lambda>_. Inr None)
         | _ \<Rightarrow> Inr (Some True))))
      else Inr (Some False))"

definition by_market_type :: "MarketType \<Rightarrow> 'a \<Rightarrow> 'a \<Rightarrow> 'a \<times> 'a" where
  "by_market_type mt long short = (case mt of CollateralIsQuote \<Rightarrow> (long, short) | CollateralIsBase \<Rightarrow> (short, long))"

definition desired_action ::
    "dec256_api \<Rightarrow> CtEnv \<Rightarrow> CtConfig \<Rightarrow> StatusResp \<Rightarrow> PricePoint \<Rightarrow> PositionQueryResponse option \<Rightarrow> NonZero
       \<Rightarrow> WorkDescription option res" where
  "desired_action D env c status price pos available =
     and_then (one_sided_market status) (\<lambda>one_sided.
     case one_sided of
       None \<Rightarrow> Inr None
     | Some one_sided \<Rightarrow>
         let (long_funding, short_funding) = by_market_type (sr_market_type status) (sr_long_funding status) (sr_short_funding status);
             (long_interest, short_interest) = by_market_type (sr_market_type status) (sr_long_notional status) (sr_short_notional status);
             min_funding = new_positive (cc_min_funding c); max_funding = new_positive (cc_max_funding c) in
         and_then
           (if is_strictly_positive long_funding then
              and_then (ensure (is_negative short_funding \<or> one_sided) (Panic ''assertion failed'')) (\<lambda>_.
              Inr (long_funding, short_interest))
            else
              and_then (ensure (is_negative long_funding \<or> one_sided) (Panic ''assertion failed'')) (\<lambda>_.
              Inr (short_funding, long_interest))) (\<lambda>(popular_funding, unpopular_interest).
         if min_funding \<le> popular_funding \<and> popular_funding \<le> max_funding then
           and_then (ensure (sg_value popular_funding = 0 \<or> \<not> one_sided) (Panic ''assertion failed'')) (\<lambda>_. Inr None)
         else if popular_funding < min_funding then
           (case pos of
              Some p \<Rightarrow> Inr (if abs_unsigned (pq_notional_size p) = unpopular_interest then None else Some (WdClosePosition (pq_id p)))
            | None \<Rightarrow>
                if one_sided then rebalance D env c long_interest short_interest price status available None else Inr None)
         else
           (case pos of
              Some p \<Rightarrow>
                and_then (signed_checked_sub D (new_positive (pq_active_collateral p)) (new_positive available)) (\<lambda>d.
                and_then (number_checked_div D (signed_abs d) (new_positive available)) (\<lambda>delta.
                and_then (d_from_ratio D 5 10) (\<lambda>half.
                if delta < new_positive half then Inr None
                else rebalance D env c long_interest short_interest price status available (Some p))))
            | None \<Rightarrow> rebalance D env c long_interest short_interest price status available None)))"

definition work_of :: "WorkDescription option \<Rightarrow> HasWorkResp" where
  "work_of w = (case w of Some desc \<Rightarrow> Work desc | None \<Rightarrow> NoWork)"

text \<open>The check of a position on the popular side: close it when it is larger than needed or tiny, else resize
  it.\<close>

definition popular_side_work ::
    "dec256_api \<Rightarrow> CtEnv \<Rightarrow> CtConfig \<Rightarrow> StatusResp \<Rightarrow> PricePoint \<Rightarrow> PositionQueryResponse \<Rightarrow> NonZero \<Rightarrow> Collateral
       \<Rightarrow> Notional \<Rightarrow> Notional \<Rightarrow> HasWorkResp res" where
  "popular_side_work D env c status price p available minimum_position_collateral long_interest short_interest =
     and_then (case pq_direction_to_base p of
         LongBase \<Rightarrow> d_sub D (sr_long_notional status) (sr_short_notional status)
       | ShortBase \<Rightarrow> d_sub D (sr_short_notional status) (sr_long_notional status)) (\<lambda>notional_diff.
     if abs_unsigned (pq_notional_size p) < notional_diff
       \<or> scu_collateral (pq_deposit_collateral p) \<le> new_positive minimum_position_collateral
     then Inr (Work (WdClosePosition (pq_id p)))
     else map_res work_of (rebalance D env c long_interest short_interest price status available (Some p)))"

definition market_work ::
    "dec256_api \<Rightarrow> CtEnv \<Rightarrow> CtConfig \<Rightarrow> PositionQueryResponse option \<Rightarrow> Collateral \<Rightarrow> HasWorkResp res" where
  "market_work D env c pos balance =
     and_then (ce_spot_price env) (\<lambda>price.
     and_then (ce_status env) (\<lambda>status.
     let (long_interest, short_interest) = by_market_type (sr_market_type status) (sr_long_notional status) (sr_short_notional status) in
     and_then (ok_or (nonzero_new balance) (Msg ''Impossible, zero collateral'')) (\<lambda>available.
     and_then (usd_to_collateral D price (cfg_minimum_deposit_usd (sr_config status))) (\<lambda>minimum_position_collateral.
     let others =
         and_then (collateral_to_usd D price balance) (\<lambda>collateral_in_usd.
         if collateral_in_usd < cfg_minimum_deposit_usd (sr_config status) then Inr NoWork
         else map_res work_of (desired_action D env c status price pos available)) in
     case pos of
       Some p \<Rightarrow>
         if is_positive_or_zero (case pq_direction_to_base p of LongBase \<Rightarrow> sr_long_funding status | ShortBase \<Rightarrow> sr_short_funding status)
         then popular_side_work D env c status price p available minimum_position_collateral long_interest short_interest
         else others
     | None \<Rightarrow> others))))"

definition get_work_for :: "dec256_api \<Rightarrow> CtEnv \<Rightarrow> CtState \<Rightarrow> Totals \<Rightarrow> HasWorkResp res" where
  "get_work_for D env s totals =
     (if tot_shares totals = 0 then Inr NoWork
      else case tot_deferred_exec totals of
        Some i \<Rightarrow>
          and_then (ce_deferred env i) (\<lambda>status.
          case status of
            ItemPending \<Rightarrow> Inr NoWork
          | ItemSuccess \<Rightarrow> Inr (Work (WdClearDeferredExec i))
          | ItemFailure \<Rightarrow> Inr (Work (WdClearDeferredExec i))
          | ItemNotFound \<Rightarrow> Inl (Msg ''cannot find expected deferred exec item''))
      | None \<Rightarrow>
          and_then (load_positions env) (\<lambda>pos.
          let others = (\<lambda>pos.
              and_then (contract_balance D env s) (\<lambda>balance.
              if balance = 0 \<and> pos = None then Inr (Work WdResetShares)
              else if balance = 0 then Inr NoWork
              else market_work D env (cs_config s) pos balance)) in
          case pos of
            TooManyPositions to_close \<Rightarrow> Inr (Work (WdClosePosition to_close))
          | NoPositions \<Rightarrow> others None
          | OnePosition p \<Rightarrow> others (Some p)))"

section \<open>Executing the work\<close>

definition no_response :: CtResponse where
  "no_response = \<lparr>re_messages = [], re_submessages = []\<rparr>"

definition add_market_msg :: "MarketInfo \<Rightarrow> CtOutMsg \<Rightarrow> CtState \<Rightarrow> (CtState \<times> CtResponse) res" where
  "add_market_msg market msg s =
     and_then (ensure (cs_reply_market s = None) (Panic ''assertion failed'')) (\<lambda>_.
     Inr (s\<lparr>cs_reply_market := Some (mi_id market)\<rparr>, \<lparr>re_messages = [], re_submessages = [msg]\<rparr>))"

definition assert_idle :: "Totals \<Rightarrow> unit res" where
  "assert_idle totals = ensure (tot_deferred_exec totals = None) (Panic ''assertion failed'')"

definition work_execute :: "dec256_api \<Rightarrow> CtEnv \<Rightarrow> MarketInfo \<Rightarrow> CtState \<Rightarrow> (CtState \<times> CtResponse) res" where
  "work_execute D env market s =
     (let totals = load_totals s in
     and_then (get_work_for D env s totals) (\<lambda>work.
     case work of
       NoWork \<Rightarrow> Inl (Msg ''No work items available'')
     | Work (WdOpenPosition direction leverage collateral take_profit stop_loss_override) \<Rightarrow>
         and_then (assert_idle totals) (\<lambda>_.
         and_then (mt_into_market_execute_msg D (mi_token market) (mi_addr market) collateral
           (CtOpenPosition leverage direction stop_loss_override take_profit)) (\<lambda>msg. add_market_msg market msg s))
     | Work (WdClosePosition i) \<Rightarrow>
         and_then (assert_idle totals) (\<lambda>_. add_market_msg market (CtMarketExecute (mi_addr market) (CtClosePosition i) []) s)
     | Work WdResetShares \<Rightarrow>
         Inr (s\<lparr>cs_shares := fmempty, cs_totals := Some (totals\<lparr>tot_shares := 0\<rparr>)\<rparr>, no_response)
     | Work (WdClearDeferredExec i) \<Rightarrow>
         and_then (ensure (tot_deferred_exec totals = Some i) (Panic ''assertion failed'')) (\<lambda>_.
         Inr (s\<lparr>cs_totals := Some (totals\<lparr>tot_deferred_exec := None\<rparr>)\<rparr>, no_response))
     | Work (WdAddCollateral i amount) \<Rightarrow>
         and_then (assert_idle totals) (\<lambda>_.
         and_then (mt_into_market_execute_msg D (mi_token market) (mi_addr market) amount (CtAddCollateralImpactSize i))
           (\<lambda>msg. add_market_msg market msg s))
     | Work (WdRemoveCollateral i amount crank_fee) \<Rightarrow>
         and_then (assert_idle totals) (\<lambda>_.
         and_then (mt_round_down_to_precision D (mi_token market) amount) (\<lambda>amount.
         and_then (ok_or (nonzero_new amount) (Msg ''Remove amount is zero'')) (\<lambda>amount.
         and_then (mt_into_market_execute_msg D (mi_token market) (mi_addr market) crank_fee (CtRemoveCollateralImpactSize i amount))
           (\<lambda>msg. add_market_msg market msg s))))))"

section \<open>Entry points\<close>

type_synonym CtFunds = "(CtToken \<times> nat) option"

definition require_none :: "CtFunds \<Rightarrow> unit res" where
  "require_none funds = (case funds of None \<Rightarrow> Inr () | Some _ \<Rightarrow> Inl (Msg ''Unnecessary funds sent''))"

definition require_some :: "dec256_api \<Rightarrow> MarketInfo \<Rightarrow> CtFunds \<Rightarrow> NonZero res" where
  "require_some D market funds = (case funds of
       None \<Rightarrow> Inl (Msg ''Message requires attached funds, but none were provided'')
     | Some (token, amount) \<Rightarrow>
         and_then (ensure_matches token (mi_token market)) (\<lambda>_.
         and_then (token_from_u128 D (mt_decimal_places (mi_token market)) amount) (\<lambda>collateral.
         ok_or (nonzero_new collateral) (Msg ''Impossible 0 collateral provided''))))"

definition handle_funds ::
    "CtEnv \<Rightarrow> Addr \<Rightarrow> (string \<times> nat) list \<Rightarrow> CtExecuteMsg \<Rightarrow> (CtFunds \<times> CtExecuteMsg \<times> Addr) res" where
  "handle_funds env info_sender info_funds msg = (case msg of
       CtReceive sender amount m \<Rightarrow>
         if info_funds = [] then
           and_then (ok_or (ce_receive_msg env m) (Msg ''Invalid msg in CW20 receive'')) (\<lambda>msg.
           and_then (addr_validate (ce_api env) sender) (\<lambda>sender.
           Inr (Some (CtCw20 info_sender, amount), msg, sender)))
         else Inl (Msg ''Cannot attach funds when performing a CW20 receive'')
     | _ \<Rightarrow>
         (case info_funds of
            [] \<Rightarrow> Inr (None, msg, info_sender)
          | [(denom, amount)] \<Rightarrow> Inr (Some (CtNative denom, amount), msg, info_sender)
          | _ \<Rightarrow> Inl (Msg ''Multiple funds provided, messages only support one fund denom'')))"

definition quiet :: "CtState res \<Rightarrow> (CtState \<times> CtResponse) res" where
  "quiet m = map_res (\<lambda>s. (s, no_response)) m"

definition ct_execute ::
    "dec256_api \<Rightarrow> CtEnv \<Rightarrow> Addr \<Rightarrow> (string \<times> nat) list \<Rightarrow> CtExecuteMsg \<Rightarrow> CtState \<Rightarrow> (CtState \<times> CtResponse) res" where
  "ct_execute D env info_sender info_funds msg s =
     and_then (handle_funds env info_sender info_funds msg) (\<lambda>(funds, msg, sender).
     case msg of
       CtReceive _ _ _ \<Rightarrow> Inl (Msg ''Cannot perform a receive within a receive'')
     | CtDeposit \<Rightarrow>
         and_then (load_cache_market_info env s) (\<lambda>(market, s).
         and_then (require_some D market funds) (\<lambda>funds. quiet (ct_deposit D env sender funds s)))
     | CtWithdraw amount \<Rightarrow>
         and_then (require_none funds) (\<lambda>_.
         and_then (load_cache_market_info env s) (\<lambda>(market, s). ct_withdraw D env sender market amount s))
     | CtDoWork \<Rightarrow>
         and_then (require_none funds) (\<lambda>_.
         and_then (load_cache_market_info env s) (\<lambda>(market, s). work_execute D env market s))
     | CtAppointAdmin admin \<Rightarrow>
         and_then (require_none funds) (\<lambda>_.
         and_then (addr_validate (ce_api env) admin) (\<lambda>admin. quiet (ct_appoint_admin sender admin s)))
     | CtAcceptAdmin \<Rightarrow> and_then (require_none funds) (\<lambda>_. quiet (ct_accept_admin sender s))
     | CtUpdateConfig upd \<Rightarrow> and_then (require_none funds) (\<lambda>_. quiet (ct_update_config D sender upd s)))"

text \<open>The reply to a message to the market: the events of the market name the deferred execution that was
  queued. A number is a decimal text below \<open>2 ^ 64\<close>, with an optional plus sign.\<close>

definition parse_u64 :: "string \<Rightarrow> nat option" where
  "parse_u64 text =
     (let ds = (case text of c # cs \<Rightarrow> if c = CHR ''+'' then cs else text | [] \<Rightarrow> []);
          n = foldl (\<lambda>n c. 10 * n + (of_char c - 48)) 0 ds in
     if ds \<noteq> [] \<and> list_all (\<lambda>c. 48 \<le> (of_char c :: nat) \<and> (of_char c :: nat) \<le> 57) ds \<and> n < u64_lim then Some n else None)"

type_synonym CtEvent = "string \<times> (string \<times> string) list"

definition queued_deferred_exec :: "CtEvent list \<Rightarrow> DeferredExecId res" where
  "queued_deferred_exec evs =
     and_then (ok_or (find (\<lambda>e. fst e = ''wasm-deferred-exec-queued'') evs) (Msg ''No wasm-deferred-exec-queued event found'')) (\<lambda>e.
     and_then (ok_or (find (\<lambda>a. fst a = ''deferred-exec-id'') (snd e)) (Msg ''No deferred-exec-id found'')) (\<lambda>a.
     ok_or (parse_u64 (snd a)) (Std ''ParseIntError'')))"

definition ct_reply :: "nat \<Rightarrow> string + CtEvent list \<Rightarrow> CtState \<Rightarrow> CtState res" where
  "ct_reply msg_id result s =
     and_then (ensure (msg_id = 0) (Msg ''Only reply ID 0 is supported'')) (\<lambda>_.
     and_then (ok_or (cs_reply_market s) (Msg ''In reply function with no REPLY_MARKET set'')) (\<lambda>market.
     let s = s\<lparr>cs_reply_market := None\<rparr> in
     and_then (case result of
         Inr evs \<Rightarrow> queued_deferred_exec evs
       | Inl e \<Rightarrow> Inl (Msg ''Submessage reply received an error'')) (\<lambda>i.
     and_then (ok_or (cs_totals s) (Msg ''Totals missing in reply'')) (\<lambda>totals.
     and_then (ensure (tot_deferred_exec totals = None) (Msg ''Cannot handle reply, still waiting'')) (\<lambda>_.
     Inr (s\<lparr>cs_totals := Some (totals\<lparr>tot_deferred_exec := Some i\<rparr>)\<rparr>))))))"

section \<open>Queries\<close>

record MarketBalance =
  mb_market :: MarketId
  mb_token :: MarketToken
  mb_shares :: LpToken
  mb_collateral :: Collateral
  mb_pool_size :: LpToken

definition ct_balance :: "dec256_api \<Rightarrow> CtEnv \<Rightarrow> RawAddr \<Rightarrow> CtState \<Rightarrow> MarketBalance res" where
  "ct_balance D env address s =
     and_then (addr_validate (ce_api env) address) (\<lambda>address.
     and_then (load_market_info env s) (\<lambda>market.
     and_then (case cs_totals s of
         Some totals \<Rightarrow>
           if tot_shares totals = 0 then Inr 0
           else
             and_then (contract_balance D env s) (\<lambda>balance.
             and_then (load_positions env) (\<lambda>pos.
             shares_to_collateral D totals balance (sender_shares address s) pos))
       | None \<Rightarrow> Inr 0) (\<lambda>collateral.
     Inr \<lparr>mb_market = mi_id market, mb_token = mi_token market, mb_shares = sender_shares address s,
       mb_collateral = collateral, mb_pool_size = (case cs_totals s of Some t \<Rightarrow> tot_shares t | None \<Rightarrow> 0)\<rparr>)))"

record MarketStatus =
  ms_id :: MarketId
  ms_collateral :: Collateral
  ms_shares :: LpToken
  ms_position :: "PositionQueryResponse option"
  ms_too_many_positions :: bool

definition ct_status :: "dec256_api \<Rightarrow> CtEnv \<Rightarrow> CtState \<Rightarrow> MarketStatus res" where
  "ct_status D env s =
     and_then (load_market_info env s) (\<lambda>market.
     and_then (load_positions env) (\<lambda>pos.
     and_then (contract_balance D env s) (\<lambda>balance.
     Inr \<lparr>ms_id = mi_id market, ms_collateral = balance, ms_shares = tot_shares (load_totals s),
       ms_position = (case pos of OnePosition p \<Rightarrow> Some p | _ \<Rightarrow> None),
       ms_too_many_positions = (case pos of TooManyPositions _ \<Rightarrow> True | _ \<Rightarrow> False)\<rparr>)))"

definition ct_has_work :: "dec256_api \<Rightarrow> CtEnv \<Rightarrow> CtState \<Rightarrow> HasWorkResp res" where
  "ct_has_work D env s = and_then (load_market_info env s) (\<lambda>market. get_work_for D env s (load_totals s))"

end
