(* ===== verification/CountertradeInvariant.thy ===== *)
theory CountertradeInvariant
  imports CountertradeWork
begin

text \<open>
  What holds of the countertrade contract: the total of the shares is the sum of the shares of the depositors in
  every reachable state, a deposit and a withdrawal never lower the worth of the other shares, the search for
  the notional size ends at the target without overshooting, and the work stays within the limits of the
  contract and of the market.
\<close>

section \<open>The shares\<close>

definition ct_inv :: "CtState \<Rightarrow> bool" where
  "ct_inv s \<longleftrightarrow> fmsum (\<lambda>n. n) (cs_shares s) = tot_shares (load_totals s)
     \<and> (\<forall>a n. fmlookup (cs_shares s) a = Some n \<longrightarrow> 0 < n)"

definition ct_start :: "dec256_api \<Rightarrow> CtState \<Rightarrow> bool" where
  "ct_start D s \<longleftrightarrow> (\<exists>env market admin upd. ct_instantiate D env market admin upd = Inr s)"

inductive ct_step :: "dec256_api \<Rightarrow> CtState \<Rightarrow> CtState \<Rightarrow> bool" for D where
  message: "ct_execute D env sender funds msg s = Inr (s', r) \<Longrightarrow> ct_step D s s'"
| reply: "ct_reply msg_id result s = Inr s' \<Longrightarrow> ct_step D s s'"

lemma sender_shares_fmval: "sender_shares a s = fmval (\<lambda>n. n) (cs_shares s) a"
  by (simp add: sender_shares_def fmval_def split: option.split)

lemma nonzero_new_iff [simp]: "(nonzero_new v = Some n) = (n = v \<and> 0 < v)"
  by (auto simp: nonzero_new_def)

lemma ct_start_inv: "ct_start D s \<Longrightarrow> ct_inv s"
  by (auto simp: ct_start_def ct_instantiate_def ct_inv_def load_totals_def default_totals_def Let_def)

lemma cached_inv:
  assumes "load_cache_market_info env s = Inr (market, s')"
  shows "ct_inv s' = ct_inv s" "load_totals s' = load_totals s" "sender_shares a s' = sender_shares a s"
    "cs_config s' = cs_config s"
  using assms by (auto simp: load_cache_market_info_def ct_inv_def load_totals_def sender_shares_def split: prod.splits if_splits)

context decimal256
begin

lemma ct_add_collateral_result:
  assumes "ct_add_collateral D t balance funds pos = Inr (n, t')"
  obtains active where "active_collateral pos = Inr active" "funds \<le> balance + active"
    "t' = t\<lparr>tot_shares := tot_shares t + n\<rparr>" "0 < n"
    "balance = 0 \<or> n * (balance + active - funds) \<le> funds * tot_shares t
       \<or> (tot_shares t = 0 \<and> balance + active = funds \<and> n = funds)"
proof -
  obtain active where a: "active_collateral pos = Inr active" "funds \<le> balance + active"
    and t': "t' = t\<lparr>tot_shares := tot_shares t + n\<rparr>"
    and n: "if (balance + active - funds = 0 \<and> tot_shares t = 0) \<or> balance = 0 then n = funds \<and> 0 < n
      else balance + active - funds \<noteq> 0 \<and> tot_shares t \<noteq> 0
        \<and> n = funds * dec_one div (balance + active - funds) * tot_shares t div dec_one \<and> 0 < n"
    using assms by (auto simp: ct_add_collateral_def split: if_splits)
  have "n * (balance + active - funds) \<le> funds * tot_shares t" if "n = funds * dec_one div c * tot_shares t div dec_one"
    "c = balance + active - funds" "c \<noteq> 0" for c
  proof -
    have "n * c * dec_one = (n * dec_one) * c" by simp
    also have "\<dots> \<le> (funds * dec_one div c * tot_shares t) * c"
      unfolding that(1) by (intro mult_right_mono div_times_less_eq_dividend) simp
    also have "\<dots> = (funds * dec_one div c * c) * tot_shares t" by simp
    also have "\<dots> \<le> (funds * dec_one) * tot_shares t"
      by (intro mult_right_mono div_times_less_eq_dividend) simp
    finally have "n * c * dec_one \<le> funds * tot_shares t * dec_one" by (simp add: ac_simps)
    then show ?thesis using that(2) by simp
  qed
  then show ?thesis using that [OF a t'] n a(2) by (auto split: if_splits)
qed

lemma ct_remove_collateral_result:
  assumes "ct_remove_collateral D t balance amount pos = Inr (c, t')"
  obtains active where "active_collateral pos = Inr active" "c \<le> balance" "amount \<le> tot_shares t"
    "t' = t\<lparr>tot_shares := tot_shares t - amount\<rparr>" "c * tot_shares t \<le> amount * (balance + active)"
proof -
  obtain active where a: "active_collateral pos = Inr active" "c \<le> balance" "amount \<le> tot_shares t"
    and t': "t' = t\<lparr>tot_shares := tot_shares t - amount\<rparr>" and nz: "tot_shares t \<noteq> 0"
    and c: "c = amount * ((balance + active) * dec_one div tot_shares t) div dec_one"
    using assms by (auto simp: ct_remove_collateral_def shares_to_collateral_def)
  have "c * tot_shares t * dec_one = (c * dec_one) * tot_shares t" by simp
  also have "\<dots> \<le> amount * ((balance + active) * dec_one div tot_shares t) * tot_shares t"
    unfolding c by (intro mult_right_mono div_times_less_eq_dividend) simp
  also have "\<dots> = amount * ((balance + active) * dec_one div tot_shares t * tot_shares t)" by simp
  also have "\<dots> \<le> amount * ((balance + active) * dec_one)"
    by (intro mult_left_mono div_times_less_eq_dividend) simp
  finally have "c * tot_shares t * dec_one \<le> amount * (balance + active) * dec_one" by (simp add: ac_simps)
  then show ?thesis using that [OF a t'] by simp
qed

lemma deposit_result:
  assumes "ct_deposit D env a funds s = Inr s'"
  obtains balance pos n t where "contract_balance D env s = Inr balance" "load_positions env = Inr pos"
    "ct_add_collateral D (load_totals s) balance funds pos = Inr (n, t)" "tot_deferred_exec (load_totals s) = None"
    "s' = s\<lparr>cs_shares := fmupd a (sender_shares a s + n) (cs_shares s), cs_totals := Some t\<rparr>"
  using assms by (auto simp: ct_deposit_def ensure_no_deferred_def nz_checked_add_def add.commute Let_def)

lemma deposit_inv:
  assumes "ct_deposit D env a funds s = Inr s'" and inv: "ct_inv s"
  shows "ct_inv s'"
proof -
  obtain balance pos n t where add: "ct_add_collateral D (load_totals s) balance funds pos = Inr (n, t)"
    and s': "s' = s\<lparr>cs_shares := fmupd a (sender_shares a s + n) (cs_shares s), cs_totals := Some t\<rparr>"
    using assms(1) by (rule deposit_result)
  have t: "t = (load_totals s)\<lparr>tot_shares := tot_shares (load_totals s) + n\<rparr>" "0 < n"
    using add by (auto elim: ct_add_collateral_result)
  show ?thesis
    using inv t fmsum_upd [of "\<lambda>n. n" a "sender_shares a s + n" "cs_shares s"]
    by (auto simp: ct_inv_def s' load_totals_def [of "s\<lparr>cs_shares := m, cs_totals := x\<rparr>" for m x] sender_shares_fmval split: if_splits)
qed

lemma ct_withdraw_result:
  assumes "ct_withdraw D env a market amount s = Inr (s', r)"
  obtains balance pos c t m where "contract_balance D env s = Inr balance" "load_positions env = Inr pos"
    "ct_remove_collateral D (load_totals s) balance amount pos = Inr (c, t)" "amount \<le> sender_shares a s"
    "tot_deferred_exec (load_totals s) = None" "0 < c" "mt_into_transfer_msg D (mi_token market) a c = Inr (Some m)"
    "r = \<lparr>re_messages = [m], re_submessages = []\<rparr>"
    "s' = s\<lparr>cs_shares := (if sender_shares a s = amount then fmdrop a (cs_shares s)
         else fmupd a (sender_shares a s - amount) (cs_shares s)), cs_totals := Some t\<rparr>"
proof -
  obtain balance pos c t m where b: "contract_balance D env s = Inr balance" "load_positions env = Inr pos"
    and rem: "ct_remove_collateral D (load_totals s) balance amount pos = Inr (c, t)" "amount \<le> sender_shares a s"
    and d: "tot_deferred_exec (load_totals s) = None" "0 < c" "mt_into_transfer_msg D (mi_token market) a c = Inr (Some m)"
    and r: "r = \<lparr>re_messages = [m], re_submessages = []\<rparr>"
    and s': "s' = s\<lparr>cs_shares := (case nonzero_new (sender_shares a s - amount) of None \<Rightarrow> fmdrop a (cs_shares s)
         | Some n \<Rightarrow> fmupd a n (cs_shares s)), cs_totals := Some t\<rparr>"
    using assms by (auto simp: ct_withdraw_def ensure_no_deferred_def Let_def)
  have "(case nonzero_new (sender_shares a s - amount) of None \<Rightarrow> fmdrop a (cs_shares s) | Some n \<Rightarrow> fmupd a n (cs_shares s))
      = (if sender_shares a s = amount then fmdrop a (cs_shares s) else fmupd a (sender_shares a s - amount) (cs_shares s))"
    using rem(2) by (simp add: nonzero_new_def)
  with s' show ?thesis using that [OF b rem d r] by simp
qed

lemma withdraw_inv:
  assumes "ct_withdraw D env a market amount s = Inr (s', r)" and inv: "ct_inv s"
  shows "ct_inv s'"
proof -
  obtain balance pos c t where rem: "ct_remove_collateral D (load_totals s) balance amount pos = Inr (c, t)" "amount \<le> sender_shares a s"
    and s': "s' = s\<lparr>cs_shares := (if sender_shares a s = amount then fmdrop a (cs_shares s)
         else fmupd a (sender_shares a s - amount) (cs_shares s)), cs_totals := Some t\<rparr>"
    using assms(1) by (rule ct_withdraw_result)
  have t: "t = (load_totals s)\<lparr>tot_shares := tot_shares (load_totals s) - amount\<rparr>" "amount \<le> tot_shares (load_totals s)"
    using rem(1) by (auto elim: ct_remove_collateral_result)
  show ?thesis
  proof (cases "sender_shares a s = amount")
    case True
    then show ?thesis using inv t fmsum_drop [of "\<lambda>n. n" a "cs_shares s"]
      by (auto simp: ct_inv_def s' load_totals_def [of "s\<lparr>cs_shares := m, cs_totals := x\<rparr>" for m x] sender_shares_fmval split: if_splits)
  next
    case False
    then show ?thesis using inv t rem(2) fmsum_upd [of "\<lambda>n. n" a "sender_shares a s - amount" "cs_shares s"]
      by (auto simp: ct_inv_def s' load_totals_def [of "s\<lparr>cs_shares := m, cs_totals := x\<rparr>" for m x] sender_shares_fmval split: if_splits)
  qed
qed

end

lemma inv_unchanged:
  "ct_inv (s\<lparr>cs_config := c\<rparr>) = ct_inv s" "ct_inv (s\<lparr>cs_reply_market := r\<rparr>) = ct_inv s"
  "ct_inv (s\<lparr>cs_totals := Some ((load_totals s)\<lparr>tot_deferred_exec := x\<rparr>)\<rparr>) = ct_inv s"
  "ct_inv (s\<lparr>cs_shares := fmempty, cs_totals := Some (t\<lparr>tot_shares := 0\<rparr>)\<rparr>)"
  by (simp_all add: ct_inv_def load_totals_def)

lemma market_msg_inv: "add_market_msg market msg s = Inr (s', r) \<Longrightarrow> ct_inv s' = ct_inv s"
  by (auto simp: add_market_msg_def inv_unchanged)

lemma work_inv:
  assumes "work_execute D env market s = Inr (s', r)" and "ct_inv s"
  shows "ct_inv s'"
proof -
  obtain work where work: "get_work_for D env s (load_totals s) = Inr work" using assms(1) by (auto simp: work_execute_def Let_def)
  show ?thesis
  proof (cases work)
    case NoWork
    then show ?thesis using assms(1) work by (simp add: work_execute_def)
  next
    case (Work w)
    with work have w: "get_work_for D env s (load_totals s) = Inr (Work w)" by simp
    show ?thesis using assms market_msg_inv
      by (cases w) (auto simp: work_execute_def Let_def w inv_unchanged)
  qed
qed

lemma reply_inv:
  assumes "ct_reply msg_id result s = Inr s'" and "ct_inv s"
  shows "ct_inv s'"
proof -
  obtain t i where t: "cs_totals s = Some t"
    and s': "s' = s\<lparr>cs_reply_market := None, cs_totals := Some (t\<lparr>tot_deferred_exec := Some i\<rparr>)\<rparr>"
    using assms(1) by (auto simp: ct_reply_def Let_def)
  then show ?thesis using assms(2) by (simp add: ct_inv_def load_totals_def)
qed

lemma admin_inv:
  "ct_appoint_admin a b s = Inr s' \<Longrightarrow> ct_inv s \<Longrightarrow> ct_inv s'"
  "ct_accept_admin a s = Inr s' \<Longrightarrow> ct_inv s \<Longrightarrow> ct_inv s'"
  "ct_update_config D a upd s = Inr s' \<Longrightarrow> ct_inv s \<Longrightarrow> ct_inv s'"
  by (auto simp: ct_appoint_admin_def ct_accept_admin_def ct_update_config_def Let_def inv_unchanged)

lemma quiet_Inr [simp]: "(quiet m = Inr (s, r)) = (m = Inr s \<and> r = no_response)"
  by (auto simp: quiet_def)

context decimal256
begin

lemma ct_execute_inv:
  assumes "ct_execute D env sender funds msg s = Inr (s', r)" and "ct_inv s"
  shows "ct_inv s'"
proof -
  obtain f m a where h: "handle_funds env sender funds msg = Inr (f, m, a)" using assms(1) by (auto simp: ct_execute_def)
  show ?thesis
  proof (cases m)
    case CtDeposit
    then obtain market s1 n where "load_cache_market_info env s = Inr (market, s1)" "ct_deposit D env a n s1 = Inr s'"
      using assms(1) h by (auto simp: ct_execute_def)
    then show ?thesis using assms(2) deposit_inv cached_inv(1) by blast
  next
    case (CtWithdraw amount)
    then obtain market s1 where "load_cache_market_info env s = Inr (market, s1)" "ct_withdraw D env a market amount s1 = Inr (s', r)"
      using assms(1) h by (auto simp: ct_execute_def)
    then show ?thesis using assms(2) withdraw_inv cached_inv(1) by blast
  next
    case CtDoWork
    then obtain market s1 where "load_cache_market_info env s = Inr (market, s1)" "work_execute D env market s1 = Inr (s', r)"
      using assms(1) h by (auto simp: ct_execute_def)
    then show ?thesis using assms(2) work_inv cached_inv(1) by blast
  qed (use assms h admin_inv in \<open>auto simp: ct_execute_def\<close>)
qed

sublocale ct_system: invariant_system "ct_start D" "ct_step D" ct_inv
  by unfold_locales (auto intro: ct_start_inv elim!: ct_step.cases dest: ct_execute_inv reply_inv)

lemma ct_reachable_inv: "reachable (ct_start D) (ct_step D) s \<Longrightarrow> ct_inv s"
  by (rule ct_system.reachable_inv)

end

section \<open>The search\<close>

declare search_loop.simps [simp del]

context decimal256
begin

lemma derived_rate_bound: "derive_popular_funding_rate_annual D p u cfg = Inr r \<Longrightarrow> r < dec_lim"
proof -
  assume "derive_popular_funding_rate_annual D p u cfg = Inr r"
  moreover have "ct_rf_popular D a b c d = Inr x \<Longrightarrow> x < dec_lim" for a b c d x
    by (auto simp: ct_rf_popular_def min_def)
  ultimately show ?thesis
    by (auto simp: derive_popular_funding_rate_annual_def Let_def abs_unsigned_def new_positive_def signed_zero_def
        signed_neg_def is_strictly_positive_def is_negative_def split: if_splits)
qed

lemma search_step_found:
  assumes "search_step D cfg target p u high low = Inr (Found d)" and "u \<le> p" and "wf_signed target"
  shows "u + d \<le> p \<and> (d = 0 \<or> (\<exists>rate. derive_popular_funding_rate_annual D p (u + d) cfg = Inr rate
    \<and> \<bar>int rate - num target\<bar> < int search_epsilon))"
proof -
  obtain desired rate diff where le: "desired \<le> p" and rate: "derive_popular_funding_rate_annual D p desired cfg = Inr rate"
    and diff: "signed_checked_sub D (new_positive rate) target = Inr diff"
    and out: "(if desired < u then Inr (Found 0) else if abs_unsigned diff < search_epsilon then map_res Found (d_sub D desired u)
      else if target < new_positive rate then Inr (Narrow high x) else Inr (Narrow x low)) = Inr (Found d)" for x
    using assms(1) by (auto simp: search_step_def split: if_splits)
  have "wf_signed (new_positive rate)" using derived_rate_bound [OF rate] by simp
  then have "num diff = int rate - num target" using diff assms(3) by (simp add: signed_sub_Inr)
  then have abs: "\<bar>int rate - num target\<bar> = int (abs_unsigned diff)" using abs_num [of diff] by (simp add: abs_unsigned_def)
  show ?thesis
  proof (cases "desired < u")
    case True
    then have "d = 0" using out [of 0] by simp
    then show ?thesis using assms(2) by simp
  next
    case False
    then have "abs_unsigned diff < search_epsilon" "desired = u + d"
      using out [of 0] by (auto split: if_splits)
    then show ?thesis using le rate abs by auto
  qed
qed

lemma search_loop_found:
  assumes "search_loop D cfg target p u allowed i high low = Inr d" and "u \<le> p" and "wf_signed target"
  shows "u + d \<le> p \<and> (d = 0 \<or> (\<exists>rate. derive_popular_funding_rate_annual D p (u + d) cfg = Inr rate
    \<and> \<bar>int rate - num target\<bar> < int search_epsilon))"
  using assms
proof (induction "allowed - i" arbitrary: i high low rule: less_induct)
  case less
  show ?case
  proof (cases "search_step D cfg target p u high low")
    case (Inl e)
    then show ?thesis using less.prems(1) by (simp add: search_loop.simps)
  next
    case (Inr st)
    show ?thesis
    proof (cases st)
      case (Found x)
      then have "x = d" using less.prems(1) Inr by (simp add: search_loop.simps)
      then show ?thesis using search_step_found less.prems(2,3) Inr Found by blast
    next
      case (Narrow h l)
      then have "\<not> allowed \<le> i + 1" and rest: "search_loop D cfg target p u allowed (i + 1) h l = Inr d"
        using less.prems(1) Inr by (auto simp: search_loop.simps [of D cfg target p u allowed i] split: if_splits)
      then have "allowed - (i + 1) < allowed - i" by simp
      then show ?thesis using less.hyps rest less.prems(2,3) by blast
    qed
  qed
qed

text \<open>A market whose two sides are equal is not handled: the derived rate is zero, which the code asserts it is
  not.\<close>

lemma balanced_rate_panics: "p \<noteq> 0 \<Longrightarrow> derive_popular_funding_rate_annual D p p cfg \<noteq> Inr r"
  by (auto simp: derive_popular_funding_rate_annual_def Let_def signed_defs signed_zero_def)

lemma balanced_search_panics:
  assumes "p \<noteq> 0" "even p"
  shows "smart_search D p p target status n \<noteq> Inr d"
proof -
  have half: "p * dec_one div (p + p) = dec_one div 2"
    using assms(1) by (simp add: mult_2 [symmetric] div_mult2_eq [symmetric] mult.commute)
  have d: "desired_unpopular D p (dec_one div 2) \<noteq> Inr x" if "x \<noteq> p" for x
  proof
    assume "desired_unpopular D p (dec_one div 2) = Inr x"
    then have "x = dec_one div 2 * p div dec_one * dec_one div (dec_one - dec_one div 2)"
      by (simp add: desired_unpopular_def)
    moreover obtain q where "p = 2 * q" using assms(2) by blast
    ultimately have "x = p" by (simp add: dec_one_def)
    then show False using that by simp
  qed
  have "search_step D cfg target p p (dec_one div 2) (dec_one div 2) \<noteq> Inr r" for cfg r
  proof
    assume "search_step D cfg target p p (dec_one div 2) (dec_one div 2) = Inr r"
    then obtain t desired rate where "t = (dec_one div 2 + dec_one div 2) * dec_one div (2 * dec_one)"
      "desired_unpopular D p t = Inr desired" "derive_popular_funding_rate_annual D p desired cfg = Inr rate"
      by (auto simp: search_step_def)
    moreover have "(dec_one div 2 + dec_one div 2) * dec_one div (2 * dec_one) = dec_one div 2" by (simp add: dec_one_def)
    ultimately show False using d balanced_rate_panics [OF assms(1)] by metis
  qed
  then have "search_loop D cfg target p p n 0 (dec_one div 2) (dec_one div 2) \<noteq> Inr d" for cfg
    by (cases "search_step D cfg target p p (dec_one div 2) (dec_one div 2)") (auto simp: search_loop.simps)
  then show ?thesis using half assms(1) by (auto simp: smart_search_def popular_side_def Let_def)
qed

end

section \<open>The limits of the work\<close>

text \<open>What the capital spent on a piece of work and its leverage are bounded by.\<close>

definition within_limits ::
    "dec256_api \<Rightarrow> CtConfig \<Rightarrow> StatusResp \<Rightarrow> PricePoint \<Rightarrow> Collateral \<Rightarrow> WorkDescription \<Rightarrow> bool" where
  "within_limits D c status price balance w = (case w of
       WdOpenPosition direction leverage collateral take_profit stop_loss \<Rightarrow>
         collateral \<le> balance \<and> leverage \<le> cc_max_leverage c \<and> int leverage \<le> num (cfg_max_leverage (sr_config status))
         \<and> (\<forall>m. usd_to_collateral D price (cfg_minimum_deposit_usd (sr_config status)) = Inr m \<longrightarrow> m \<le> collateral)
     | WdAddCollateral i amount \<Rightarrow> amount \<le> balance
     | _ \<Rightarrow> True)"

text \<open>Work that spends no capital of the contract is within its limits, whatever the market.\<close>

definition spends :: "WorkDescription \<Rightarrow> bool" where
  "spends w = (case w of WdOpenPosition _ _ _ _ _ \<Rightarrow> True | WdAddCollateral _ _ \<Rightarrow> True | _ \<Rightarrow> False)"

text \<open>Which position a piece of work on a market is about.\<close>

definition works_on :: "PositionQueryResponse option \<Rightarrow> WorkDescription \<Rightarrow> bool" where
  "works_on pos w = (case w of
       WdOpenPosition _ _ _ _ _ \<Rightarrow> pos = None
     | WdClosePosition i \<Rightarrow> (\<exists>p. pos = Some p \<and> pq_id p = i)
     | WdAddCollateral i _ \<Rightarrow> (\<exists>p. pos = Some p \<and> pq_id p = i)
     | WdRemoveCollateral i _ _ \<Rightarrow> (\<exists>p. pos = Some p \<and> pq_id p = i)
     | WdResetShares \<Rightarrow> False
     | WdClearDeferredExec _ \<Rightarrow> False)"

lemma spends_not [simp]: "\<not> spends w \<Longrightarrow> within_limits D c status price balance w"
  by (cases w) (simp_all add: spends_def within_limits_def)

context decimal256
begin

lemma leverage_recovered:
  assumes "desired_leverage D status max_lev sz = Inr n" "leverage_into_base D n (sr_market_type status) = Inr l"
    "max_lev < dec_lim" "leverage_split l = (dir, lev)"
  shows "lev \<le> max_lev \<and> int lev \<le> num (cfg_max_leverage (sr_config status))"
proof -
  obtain m d where m: "try_into_non_negative_value (cfg_max_leverage (sr_config status)) = Some m"
    and n: "leverage_into_notional D (leverage_into_signed (min max_lev m) d) (sr_market_type status) = Inr n"
    using assms(1) by (auto simp: desired_leverage_def Let_def)
  let ?l = "leverage_into_signed (min max_lev m) d"
  have "wf_signed ?l" using assms(3) by (cases d) (simp_all add: leverage_into_signed_def)
  then have "l = ?l" using leverage_roundtrip_law [OF _ n] assms(2) by simp
  then have "lev = min max_lev m" using assms(4)
    by (cases d) (auto simp: leverage_into_signed_def leverage_split_def try_into_non_negative_value_def signed_defs
        abs_unsigned_def split: if_splits)
  moreover have "num (cfg_max_leverage (sr_config status)) = int m"
    using m by (auto simp: try_into_non_negative_value_def is_negative_def num_def split: if_splits)
  ultimately show ?thesis by simp
qed

lemma compute_within_limits:
  assumes "compute_delta_notional D env c sz price status available position = Inr (Some w)"
    and "cc_max_leverage c < dec_lim"
  shows "within_limits D c status price available w"
proof (cases "spends w")
  case True
  obtain tp sl lev s m capital where lev: "desired_leverage D status (cc_max_leverage c) sz = Inr lev"
    and m: "usd_to_collateral D price (cfg_minimum_deposit_usd (sr_config status)) = Inr m"
    and capital: "optimize_capital_efficiency D env available s lev position (sr_market_type status) m price = Inr (Some capital)"
    and work: "capital_work D status price available m tp sl capital = Inr (Some w)"
    using assms(1) by (auto simp: compute_delta_notional_def split: option.splits)
  show ?thesis
  proof (cases capital)
    case (CapitalNew deposit leverage)
    then have "leverage = lev" using capital
      by (auto simp: optimize_capital_efficiency_def reduce_collateral_def split: option.splits if_splits)
    then obtain l where l: "leverage_into_base D lev (sr_market_type status) = Inr l" "m \<le> min deposit available"
      "w = WdOpenPosition (fst (leverage_split l)) (snd (leverage_split l)) (min deposit available) (TP_Finite tp) (Some sl)"
      using work CapitalNew by (auto simp: capital_work_def Let_def split_beta not_less split: if_splits)
    then show ?thesis
      using leverage_recovered [OF lev l(1) assms(2), of "fst (leverage_split l)" "snd (leverage_split l)"] m
      by (simp add: within_limits_def)
  next
    case (CapitalAdd collateral i)
    then have "collateral \<le> available" using capital
      by (auto simp: optimize_capital_efficiency_def reduce_collateral_def split: option.splits if_splits)
    then show ?thesis using work CapitalAdd by (auto simp: capital_work_def within_limits_def split: if_splits)
  qed (use work True in \<open>auto simp: capital_work_def spends_def\<close>)
qed simp

lemma rebalance_within_limits:
  assumes "rebalance D env c l s price status available position = Inr (Some w)" and "cc_max_leverage c < dec_lim"
  shows "within_limits D c status price available w"
  using assms compute_within_limits by (auto simp: rebalance_def split: option.splits)

lemma desired_action_within_limits:
  assumes "desired_action D env c status price pos available = Inr (Some w)" and "cc_max_leverage c < dec_lim"
  shows "within_limits D c status price available w"
proof (cases "spends w")
  case True
  then have "\<exists>l s p. rebalance D env c l s price status available p = Inr (Some w)"
    using assms(1) by (auto simp: desired_action_def by_market_type_def Let_def spends_def
        split: option.splits MarketType.splits if_splits)
  then show ?thesis using rebalance_within_limits assms(2) by blast
qed simp

lemma market_work_within_limits:
  assumes "market_work D env c pos balance = Inr (Work w)" and "cc_max_leverage c < dec_lim"
  shows "\<exists>price status. ce_spot_price env = Inr price \<and> ce_status env = Inr status \<and> within_limits D c status price balance w"
proof -
  obtain price status where ps: "ce_spot_price env = Inr price" "ce_status env = Inr status"
    using assms(1) by (auto simp: market_work_def)
  have work: "work_of x = Work w \<Longrightarrow> x = Some w" for x by (cases x) (auto simp: work_of_def)
  have "\<not> spends w \<or> desired_action D env c status price pos balance = Inr (Some w)
      \<or> (\<exists>l s p. rebalance D env c l s price status balance p = Inr (Some w))"
    using assms(1) ps by (auto simp: market_work_def popular_side_work_def by_market_type_def Let_def spends_def dest!: work [OF sym]
        split: option.splits MarketType.splits if_splits)
  then have "within_limits D c status price balance w"
    using desired_action_within_limits [OF _ assms(2)] rebalance_within_limits [OF _ assms(2)] spends_not by metis
  then show ?thesis using ps by blast
qed

text \<open>The work on a market is work on the contract's own position: without one it can only open one, and
  nothing else is closed, enlarged or reduced.\<close>

lemma compute_works_on:
  assumes "compute_delta_notional D env c sz price status available position = Inr (Some w)"
  shows "works_on position w"
proof -
  obtain tp sl lev s m capital where
    capital: "optimize_capital_efficiency D env available s lev position (sr_market_type status) m price = Inr (Some capital)"
    and work: "capital_work D status price available m tp sl capital = Inr (Some w)"
    using assms by (auto simp: compute_delta_notional_def split: option.splits)
  have "case capital of CapitalNew _ _ \<Rightarrow> position = None
      | CapitalAdd _ i \<Rightarrow> (\<exists>p. position = Some p \<and> pq_id p = i)
      | CapitalRemove _ i _ \<Rightarrow> (\<exists>p. position = Some p \<and> pq_id p = i)
      | CapitalClose i \<Rightarrow> (\<exists>p. position = Some p \<and> pq_id p = i)"
  proof (cases position)
    case None
    then show ?thesis using capital by (auto simp: optimize_capital_efficiency_def)
  next
    case (Some p)
    then have "(\<exists>n. capital = CapitalAdd n (pq_id p)) \<or> (\<exists>x. reduce_collateral D env p x m price = Inr (Some capital))"
      using capital by (auto simp: optimize_capital_efficiency_def split: if_splits)
    then have "(\<exists>n. capital = CapitalAdd n (pq_id p)) \<or> capital = CapitalClose (pq_id p) \<or> (\<exists>n f. capital = CapitalRemove n (pq_id p) f)"
      by (auto simp: reduce_collateral_def split: if_splits)
    then show ?thesis using Some by auto
  qed
  then show ?thesis
    using work by (cases capital) (auto simp: capital_work_def works_on_def Let_def split_beta split: if_splits)
qed

lemma rebalance_works_on:
  "rebalance D env c l s price status available position = Inr (Some w) \<Longrightarrow> works_on position w"
  using compute_works_on by (auto simp: rebalance_def split: option.splits)

lemma desired_action_works_on:
  assumes "desired_action D env c status price pos available = Inr (Some w)"
  shows "works_on pos w"
proof (cases pos)
  case None
  then have "\<exists>l s. rebalance D env c l s price status available None = Inr (Some w)"
    using assms by (auto simp: desired_action_def by_market_type_def Let_def
        split: option.splits MarketType.splits if_splits)
  then show ?thesis using rebalance_works_on None by blast
next
  case (Some p)
  then have "w = WdClosePosition (pq_id p) \<or> (\<exists>l s. rebalance D env c l s price status available (Some p) = Inr (Some w))"
    using assms by (auto simp: desired_action_def by_market_type_def Let_def
        split: option.splits MarketType.splits if_splits)
  then show ?thesis using rebalance_works_on Some by (auto simp: works_on_def)
qed

lemma market_work_works_on:
  assumes "market_work D env c pos balance = Inr (Work w)"
  shows "works_on pos w"
proof -
  have work: "work_of x = Work w \<Longrightarrow> x = Some w" for x by (cases x) (auto simp: work_of_def)
  obtain price status where ps: "ce_spot_price env = Inr price" "ce_status env = Inr status"
    using assms by (auto simp: market_work_def)
  obtain l s where ls: "by_market_type (sr_market_type status) (sr_long_notional status) (sr_short_notional status) = (l, s)"
    by force
  have "desired_action D env c status price pos balance = Inr (Some w)
      \<or> (\<exists>p m. pos = Some p \<and> popular_side_work D env c status price p balance m l s = Inr (Work w))"
    using assms ps ls by (auto simp: market_work_def Let_def dest!: work [OF sym] split: option.splits if_splits)
  then consider "desired_action D env c status price pos balance = Inr (Some w)"
    | p where "pos = Some p" "w = WdClosePosition (pq_id p)"
    | p where "pos = Some p" "rebalance D env c l s price status balance (Some p) = Inr (Some w)"
    by (auto simp: popular_side_work_def dest!: work [OF sym] split: if_splits)
  then show ?thesis
    by cases (auto simp: works_on_def [of _ "WdClosePosition _"] desired_action_works_on dest: rebalance_works_on)
qed

lemma get_work_result:
  assumes "get_work_for D env s t = Inr (Work w)"
  shows "tot_shares t \<noteq> 0"
    "(\<exists>i. tot_deferred_exec t = Some i \<and> w = WdClearDeferredExec i
         \<and> (ce_deferred env i = Inr ItemSuccess \<or> ce_deferred env i = Inr ItemFailure))
     \<or> (tot_deferred_exec t = None
         \<and> ((\<exists>i. load_positions env = Inr (TooManyPositions i) \<and> w = WdClosePosition i)
           \<or> (contract_balance D env s = Inr 0 \<and> load_positions env = Inr NoPositions \<and> w = WdResetShares)
           \<or> (\<exists>balance pos. contract_balance D env s = Inr balance \<and> market_work D env (cs_config s) pos balance = Inr (Work w)
               \<and> load_positions env = Inr (case pos of None \<Rightarrow> NoPositions | Some p \<Rightarrow> OnePosition p))))"
proof -
  show "tot_shares t \<noteq> 0" using assms by (cases "tot_shares t = 0") (simp_all add: get_work_for_def)
  show "(\<exists>i. tot_deferred_exec t = Some i \<and> w = WdClearDeferredExec i
         \<and> (ce_deferred env i = Inr ItemSuccess \<or> ce_deferred env i = Inr ItemFailure))
     \<or> (tot_deferred_exec t = None
         \<and> ((\<exists>i. load_positions env = Inr (TooManyPositions i) \<and> w = WdClosePosition i)
           \<or> (contract_balance D env s = Inr 0 \<and> load_positions env = Inr NoPositions \<and> w = WdResetShares)
           \<or> (\<exists>balance pos. contract_balance D env s = Inr balance \<and> market_work D env (cs_config s) pos balance = Inr (Work w)
               \<and> load_positions env = Inr (case pos of None \<Rightarrow> NoPositions | Some p \<Rightarrow> OnePosition p))))"
  proof (cases "tot_deferred_exec t")
    case (Some i)
    then obtain st where "ce_deferred env i = Inr st" using assms by (auto simp: get_work_for_def split: if_splits)
    then show ?thesis using assms Some by (cases st) (auto simp: get_work_for_def split: if_splits)
  next
    case None
    then obtain pos where l: "load_positions env = Inr pos" using assms by (auto simp: get_work_for_def split: if_splits)
    show ?thesis
    proof (cases pos)
      case (OnePosition p)
      then have "\<exists>balance. contract_balance D env s = Inr balance \<and> market_work D env (cs_config s) (Some p) balance = Inr (Work w)"
        using assms None l by (auto simp: get_work_for_def Let_def split: if_splits)
      then show ?thesis using None l OnePosition by (metis option.simps(5))
    next
      case NoPositions
      then have "(contract_balance D env s = Inr 0 \<and> w = WdResetShares)
          \<or> (\<exists>balance. contract_balance D env s = Inr balance \<and> market_work D env (cs_config s) None balance = Inr (Work w))"
        using assms None l by (auto simp: get_work_for_def Let_def split: if_splits)
      then show ?thesis using None l NoPositions by (metis option.simps(4))
    qed (use assms None l in \<open>auto simp: get_work_for_def Let_def split: if_splits\<close>)
  qed
qed

end

end
