(* ===== verification/Funding.thy ===== *)
theory Funding
  imports Fees
begin

text \<open>
  Funding payments and borrow fees: \<open>contracts/market/src/state/funding.rs\<close>,
  \<open>funding/aggregate_capping.rs\<close> and \<open>funding/borrow_fees.rs\<close>. The rates are appended to
  the data series when a price point has been cranked; a position settles the fees of a time slice
  with \<open>PositionFeeSettlement\<close>, whose \<open>new\<close> only reads the storage and whose
  \<open>apply\<close> writes it. Every amount a position pays is capped by the part of its liquidation margin set
  aside for it, and funding payouts are capped so that the payments of all the positions together stay
  covered by their funding margins.
\<close>

section \<open>Intercepting errors\<close>

text \<open>\<open>Result::unwrap_or\<close>: an error is replaced, a panic is not.\<close>

definition unwrap_or :: "'a res \<Rightarrow> 'a \<Rightarrow> 'a res" where
  "unwrap_or m d = (case m of Inl (Panic s) \<Rightarrow> Inl (Panic s) | Inl _ \<Rightarrow> Inr d | Inr x \<Rightarrow> Inr x)"

text \<open>\<open>Ord::clamp\<close> panics when the bounds are out of order.\<close>

definition ord_clamp :: "nat \<Rightarrow> nat \<Rightarrow> nat \<Rightarrow> nat res" where
  "ord_clamp x lo hi =
     (if hi < lo then Inl (Panic ''assertion failed: min <= max'')
      else Inr (if x < lo then lo else if hi < x then hi else x))"

section \<open>Payments of a time slice\<close>

definition NS_PER_YEAR :: nat where
  "NS_PER_YEAR = 31536000000000000"

definition NS_PER_DAY :: nat where
  "NS_PER_DAY = 1000000000 * 60 * 60 * 24"

definition calculate_funding_payment ::
    "dec256_api \<Rightarrow> Ctx \<Rightarrow> Position \<Rightarrow> Timestamp \<Rightarrow> Timestamp \<Rightarrow> Signed res" where
  "calculate_funding_payment D ctx p starts_at ends_at =
     and_then (unwrap_or (ds_sum D (case pos_direction p of
         LongNotional \<Rightarrow> long_rf_series ctx | ShortNotional \<Rightarrow> short_rf_series ctx) starts_at ends_at) signed_zero) (\<lambda>rate.
     and_then (number_checked_mul D rate (signed_abs (pos_notional_size p))) (\<lambda>m.
     and_then (number_from_u128 D NS_PER_YEAR) (\<lambda>year.
     number_checked_div D m year)))"

definition borrow_part :: "dec256_api \<Rightarrow> Number \<Rightarrow> Position \<Rightarrow> Collateral res" where
  "borrow_part D rate p =
     and_then (number_checked_mul D rate (new_positive (pos_counter_collateral p))) (\<lambda>m.
     and_then (number_from_u128 D NS_PER_YEAR) (\<lambda>year.
     and_then (number_checked_div D m year) u_try_from_number))"

definition calculate_borrow_fee_payment ::
    "dec256_api \<Rightarrow> Ctx \<Rightarrow> Position \<Rightarrow> Timestamp \<Rightarrow> Timestamp \<Rightarrow> LpAndXlp res" where
  "calculate_borrow_fee_payment D ctx p starts_at ends_at =
     and_then (ds_sum D (lp_borrow_fee_series ctx) starts_at ends_at) (\<lambda>lp_rate.
     and_then (ds_sum D (xlp_borrow_fee_series ctx) starts_at ends_at) (\<lambda>xlp_rate.
     and_then (borrow_part D lp_rate p) (\<lambda>lp.
     and_then (borrow_part D xlp_rate p) (\<lambda>xlp.
     Inr \<lparr>la_lp = lp, la_xlp = xlp\<rparr>))))"

section \<open>Borrow fee rate\<close>

record BorrowFees =
  bf_lp :: Decimal256
  bf_xlp :: Decimal256

definition borrow_fees_total :: "dec256_api \<Rightarrow> BorrowFees \<Rightarrow> Decimal256 res" where
  "borrow_fees_total D b = d_add D (bf_lp b) (bf_xlp b)"

definition get_current_borrow_fee_rate_annual :: "Ctx \<Rightarrow> (Timestamp \<times> BorrowFees) res" where
  "get_current_borrow_fee_rate_annual ctx =
     and_then (ok_or (ds_try_load_last (lp_borrow_fee_series ctx))
       (Msg ''get_current_borrow_fee_rate_annual: No initial lp borrow fee set'')) (\<lambda>(lp_timestamp, lp_rate).
     and_then (ok_or (ds_try_load_last (xlp_borrow_fee_series ctx))
       (Msg ''get_current_borrow_fee_rate_annual: No initial xlp borrow fee set'')) (\<lambda>(_, xlp_rate).
     and_then (ok_or (try_into_non_negative_value (dp_value lp_rate)) (Msg ''lp_rate is negative'')) (\<lambda>lp.
     and_then (ok_or (try_into_non_negative_value (dp_value xlp_rate)) (Msg ''xlp_rate is negative'')) (\<lambda>xlp.
     Inr (lp_timestamp, \<lparr>bf_lp = lp, bf_xlp = xlp\<rparr>)))))"

definition calc_multiplier :: "dec256_api \<Rightarrow> Decimal256 \<Rightarrow> Decimal256 \<Rightarrow> LpToken \<Rightarrow> LpToken \<Rightarrow> Decimal256 res" where
  "calc_multiplier D min_multiplier max_multiplier lp xlp =
     and_then (d_mul D min_multiplier xlp) (\<lambda>a.
     and_then (d_mul D max_multiplier lp) (\<lambda>b.
     and_then (d_add D a b) (\<lambda>s.
     and_then (d_add D lp xlp) (\<lambda>t. op_div D s t))))"

text \<open>The bias of the utilization, the clamped total rate and its split, the three parts of
  \<open>derive_instant_borrow_fee_rate_annual\<close>.\<close>

definition utilization_bias :: "dec256_api \<Rightarrow> Env \<Rightarrow> LiquidityStats \<Rightarrow> Number res" where
  "utilization_bias D env stats =
     (if locked stats = 0 \<and> unlocked stats = 0 then Inr number_neg_one
      else
        and_then (d_add D (locked stats) (unlocked stats)) (\<lambda>t.
        and_then (d_div D (locked stats) t) (\<lambda>actual_utilization.
        signed_checked_sub D (new_positive actual_utilization) (new_positive (cfg_target_utilization (env_config env))))))"

definition clamp_borrow_rate :: "Config \<Rightarrow> Number \<Rightarrow> Decimal256 res" where
  "clamp_borrow_rate cfg calculated_rate =
     (case Option.bind (try_into_non_negative_value calculated_rate) nonzero_new of
        None \<Rightarrow> Inr (cfg_borrow_fee_rate_min_annualized cfg)
      | Some rate \<Rightarrow> ord_clamp rate (cfg_borrow_fee_rate_min_annualized cfg) (cfg_borrow_fee_rate_max_annualized cfg))"

definition split_borrow_rate :: "dec256_api \<Rightarrow> Config \<Rightarrow> LiquidityStats \<Rightarrow> Decimal256 \<Rightarrow> BorrowFees res" where
  "split_borrow_rate D cfg stats total_rate =
     (if total_xlp stats = 0 then Inr \<lparr>bf_lp = total_rate, bf_xlp = 0\<rparr>
      else if total_lp stats = 0 then Inr \<lparr>bf_lp = 0, bf_xlp = total_rate\<rparr>
      else
        and_then (calc_multiplier D (cfg_min_xlp_rewards_multiplier cfg) (cfg_max_xlp_rewards_multiplier cfg)
          (total_lp stats) (total_xlp stats)) (\<lambda>multiplier.
        and_then (d_mul D (total_xlp stats) multiplier) (\<lambda>xlp_shares.
        and_then (d_add D (total_lp stats) xlp_shares) (\<lambda>shares.
        and_then (d_mul D total_rate (total_lp stats)) (\<lambda>m.
        and_then (d_div D m shares) (\<lambda>lp.
        and_then (d_sub D total_rate lp) (\<lambda>xlp.
        Inr \<lparr>bf_lp = lp, bf_xlp = xlp\<rparr>)))))))"

definition derive_instant_borrow_fee_rate_annual ::
    "dec256_api \<Rightarrow> Env \<Rightarrow> Ctx \<Rightarrow> PricePoint \<Rightarrow> BorrowFees res" where
  "derive_instant_borrow_fee_rate_annual D env ctx price_point =
     and_then (get_current_borrow_fee_rate_annual ctx) (\<lambda>(previous_rate_time, previous_rate).
     and_then (if previous_rate_time < pp_timestamp price_point
         then ts_checked_sub (pp_timestamp price_point) previous_rate_time else Inr 0) (\<lambda>nanos_since_last_rate.
     let stats = liquidity_stats ctx; cfg = env_config env in
     and_then (utilization_bias D env stats) (\<lambda>bias.
     and_then (number_checked_mul D (new_positive (cfg_borrow_fee_sensitivity cfg)) bias) (\<lambda>a.
     and_then (number_from_u128 D nanos_since_last_rate) (\<lambda>nanos.
     and_then (number_checked_mul D a nanos) (\<lambda>b.
     and_then (number_from_u128 D NS_PER_DAY) (\<lambda>day.
     and_then (number_checked_div D b day) (\<lambda>rate_delta.
     and_then (borrow_fees_total D previous_rate) (\<lambda>previous_total.
     and_then (signed_checked_add D (new_positive previous_total) rate_delta) (\<lambda>calculated_rate.
     and_then (clamp_borrow_rate cfg calculated_rate) (\<lambda>total_rate.
     split_borrow_rate D cfg stats total_rate)))))))))))"

section \<open>Funding rate\<close>

definition effective_sensitivity :: "dec256_api \<Rightarrow> Config \<Rightarrow> Notional \<Rightarrow> Decimal256 res" where
  "effective_sensitivity D cfg total_interest =
     and_then (d_mul D (cfg_delta_neutrality_fee_sensitivity cfg) (cfg_delta_neutrality_fee_cap cfg)) (\<lambda>notional_high_cap.
     and_then (d_mul D (cfg_funding_rate_max_annualized cfg) total_interest) (\<lambda>m.
     and_then (d_div D m notional_high_cap) (\<lambda>from_delta_neutrality.
     Inr (max (cfg_funding_rate_sensitivity cfg) from_delta_neutrality))))"

definition rf_popular :: "dec256_api \<Rightarrow> Config \<Rightarrow> Decimal256 \<Rightarrow> Notional \<Rightarrow> Notional \<Rightarrow> Signed \<Rightarrow> Decimal256 res" where
  "rf_popular D cfg sensitivity long short net =
     and_then (d_add D long short) (\<lambda>t.
     and_then (d_div D (abs_unsigned net) t) (\<lambda>imbalance.
     and_then (d_mul D sensitivity imbalance) (\<lambda>r.
     Inr (min r (cfg_funding_rate_max_annualized cfg)))))"

definition rf_unpopular :: "dec256_api \<Rightarrow> Decimal256 res \<Rightarrow> Notional \<Rightarrow> Notional \<Rightarrow> Decimal256 res" where
  "rf_unpopular D popular long short =
     (if short < long then
        and_then popular (\<lambda>r. and_then (d_div D long short) (\<lambda>q. d_mul D r q))
      else if long < short then
        and_then popular (\<lambda>r. and_then (d_div D short long) (\<lambda>q. d_mul D r q))
      else Inr 0)"

definition derive_instant_funding_rate_annual :: "dec256_api \<Rightarrow> Env \<Rightarrow> Ctx \<Rightarrow> (Number \<times> Number) res" where
  "derive_instant_funding_rate_annual D env ctx =
     (let cfg = env_config env; short = open_short_interest ctx; long = open_long_interest ctx in
     and_then (positions_net_open_interest D ctx) (\<lambda>net.
     and_then (d_add D long short) (\<lambda>total_interest.
     and_then (effective_sensitivity D cfg total_interest) (\<lambda>sensitivity.
     let popular = rf_popular D cfg sensitivity long short net;
         unpopular = rf_unpopular D popular long short in
     if long = 0 \<or> short = 0 then Inr (signed_zero, signed_zero)
     else if short < long then
       and_then popular (\<lambda>p. and_then unpopular (\<lambda>u. Inr (new_positive p, signed_neg (new_positive u))))
     else if long < short then
       and_then unpopular (\<lambda>u. and_then popular (\<lambda>p. Inr (signed_neg (new_positive u), new_positive p)))
     else Inr (signed_zero, signed_zero)))))"

definition accumulate_funding_rate :: "dec256_api \<Rightarrow> Env \<Rightarrow> PricePoint \<Rightarrow> Ctx \<Rightarrow> Ctx res" where
  "accumulate_funding_rate D env price_point ctx =
     (let time = pp_timestamp price_point; spot = new_positive (price_notional price_point) in
     and_then (derive_instant_funding_rate_annual D env ctx) (\<lambda>(long_rate, short_rate).
     and_then (number_checked_mul D long_rate spot) (\<lambda>l.
     and_then (ds_append D (long_rf_series ctx) time l) (\<lambda>long_series.
     and_then (number_checked_mul D short_rate spot) (\<lambda>s.
     and_then (ds_append D (short_rf_series ctx) time s) (\<lambda>short_series.
     let (long_rate_base, short_rate_base) = (case mid_market_type (env_market_id env) of
           CollateralIsQuote \<Rightarrow> (long_rate, short_rate) | CollateralIsBase \<Rightarrow> (short_rate, long_rate)) in
     Inr (add_event env (FundingRateChangeEvent time long_rate_base short_rate_base)
       (ctx\<lparr>long_rf_series := long_series, short_rf_series := short_series\<rparr>))))))))"

definition initialize_borrow_fee_rate :: "dec256_api \<Rightarrow> Env \<Rightarrow> Decimal256 \<Rightarrow> Ctx \<Rightarrow> Ctx res" where
  "initialize_borrow_fee_rate D env initial_rate ctx =
     and_then (ensure (cfg_borrow_fee_rate_min_annualized (env_config env) \<le> initial_rate)
       (Msg ''Initial borrow rate must be at least minimum rate'')) (\<lambda>_.
     and_then (ensure (initial_rate \<le> cfg_borrow_fee_rate_max_annualized (env_config env))
       (Msg ''Initial borrow rate must be at most maximum rate'')) (\<lambda>_.
     and_then (ds_append D (lp_borrow_fee_series ctx) (env_now env) (new_positive initial_rate)) (\<lambda>lp.
     and_then (ds_append D (xlp_borrow_fee_series ctx) (env_now env) signed_zero) (\<lambda>xlp.
     Inr (ctx\<lparr>lp_borrow_fee_series := lp, xlp_borrow_fee_series := xlp\<rparr>)))))"

definition accumulate_borrow_fee_rate :: "dec256_api \<Rightarrow> Env \<Rightarrow> PricePoint \<Rightarrow> Ctx \<Rightarrow> Ctx res" where
  "accumulate_borrow_fee_rate D env price_point ctx =
     and_then (derive_instant_borrow_fee_rate_annual D env ctx price_point) (\<lambda>rate.
     and_then (ds_append D (lp_borrow_fee_series ctx) (pp_timestamp price_point) (new_positive (bf_lp rate))) (\<lambda>lp.
     and_then (ds_append D (xlp_borrow_fee_series ctx) (pp_timestamp price_point) (new_positive (bf_xlp rate))) (\<lambda>xlp.
     and_then (d_add D (bf_lp rate) (bf_xlp rate)) (\<lambda>total_rate.
     Inr (add_event env (BorrowFeeChangeEvent (pp_timestamp price_point) total_rate (bf_lp rate) (bf_xlp rate))
       (ctx\<lparr>lp_borrow_fee_series := lp, xlp_borrow_fee_series := xlp\<rparr>))))))"

section \<open>Capping\<close>

definition calc_capped_borrow_fee_payment ::
    "dec256_api \<Rightarrow> Ctx \<Rightarrow> Position \<Rightarrow> Timestamp \<Rightarrow> Timestamp \<Rightarrow> (LpAndXlp \<times> InsufficientMarginData option) res" where
  "calc_capped_borrow_fee_payment D ctx p starts_at ends_at =
     and_then (calculate_borrow_fee_payment D ctx p starts_at ends_at) (\<lambda>uncapped.
     and_then (d_add D (la_lp uncapped) (la_xlp uncapped)) (\<lambda>total.
     case nonzero_new total of
       None \<Rightarrow> Inr (uncapped, None)
     | Some total \<Rightarrow>
         let cap = lm_borrow (pos_liquidation_margin p) in
         if total \<le> cap then Inr (uncapped, None)
         else
           and_then (div_non_zero D cap total) (\<lambda>scale.
           and_then (checked_mul_dec D (la_lp uncapped) scale) (\<lambda>lp.
           and_then (d_sub D cap lp) (\<lambda>xlp.
           Inr (\<lparr>la_lp = lp, la_xlp = xlp\<rparr>, Some \<lparr>im_pos = pos_id p, im_fee_type = FeeTypeBorrow,
             im_available = new_positive cap, im_requested = new_positive total\<rparr>))))))"

definition calc_capped_funding_payment ::
    "dec256_api \<Rightarrow> Ctx \<Rightarrow> Position \<Rightarrow> Timestamp \<Rightarrow> Timestamp \<Rightarrow> (Signed \<times> InsufficientMarginData option) res" where
  "calc_capped_funding_payment D ctx p starts_at ends_at =
     and_then (calculate_funding_payment D ctx p starts_at ends_at) (\<lambda>uncapped_signed.
     case ok (try_from_signed uncapped_signed) of
       None \<Rightarrow> Inr (uncapped_signed, None)
     | Some uncapped \<Rightarrow>
         let cap = lm_funding (pos_liquidation_margin p) in
         if uncapped \<le> cap then Inr (uncapped_signed, None)
         else Inr (new_positive cap, Some \<lparr>im_pos = pos_id p, im_fee_type = FeeTypeFunding,
           im_available = new_positive cap, im_requested = new_positive uncapped\<rparr>))"

definition cap_crank_fee :: "dec256_api \<Rightarrow> Position \<Rightarrow> PricePoint \<Rightarrow> Usd \<Rightarrow> CapCrankFee res" where
  "cap_crank_fee D p price_point uncapped_usd =
     (let trade_id = TradePosition (pos_id p) in
     and_then (usd_to_collateral D price_point uncapped_usd) (\<lambda>uncapped.
     case nonzero_new uncapped of
       None \<Rightarrow> Inr \<lparr>ccf_amount = uncapped, ccf_amount_usd = uncapped_usd,
         ccf_insufficient_margin_event = None, ccf_trade_id = trade_id\<rparr>
     | Some uncapped \<Rightarrow>
         let cap = lm_crank (pos_liquidation_margin p) in
         if uncapped \<le> cap then Inr \<lparr>ccf_amount = uncapped, ccf_amount_usd = uncapped_usd,
           ccf_insufficient_margin_event = None, ccf_trade_id = trade_id\<rparr>
         else
           and_then (collateral_to_usd D price_point cap) (\<lambda>usd.
           Inr \<lparr>ccf_amount = cap, ccf_amount_usd = usd, ccf_insufficient_margin_event =
               Some \<lparr>im_pos = pos_id p, im_fee_type = FeeTypeCrank, im_available = new_positive cap,
                 im_requested = new_positive uncapped\<rparr>, ccf_trade_id = trade_id\<rparr>)))"

datatype AggregateCapping = NoCapping | Capped Signed

definition aggregate_capping ::
    "dec256_api \<Rightarrow> Signed \<Rightarrow> Collateral \<Rightarrow> Signed \<Rightarrow> Collateral \<Rightarrow> AggregateCapping res" where
  "aggregate_capping D total_paid total_margin amount pos_margin =
     and_then (d_sub D total_margin pos_margin) (\<lambda>total_margin_without_pos.
     and_then (signed_checked_add D (new_positive total_margin_without_pos) total_paid) (\<lambda>available.
     let available_margin = signed_neg available;
         (capped_amount, is_capped) = (if amount < available_margin then (available_margin, True) else (amount, False));
         pos_margin = new_positive pos_margin;
         (capped_amount, is_capped) = (if pos_margin < capped_amount then (pos_margin, True) else (capped_amount, is_capped)) in
     Inr (if is_capped then Capped capped_amount else NoCapping)))"

definition initialize_funding_totals :: "Ctx \<Rightarrow> Ctx" where
  "initialize_funding_totals ctx = ctx\<lparr>total_net_funding_paid := signed_zero, total_funding_margin := 0\<rparr>"

record FundingFeePaymentWithCapping =
  ffp_amount :: Signed
  ffp_insufficient_margin_event :: "InsufficientMarginData option"
  ffp_total_net_funding_paid :: Signed

definition track_funding_fee_payment_with_capping ::
    "dec256_api \<Rightarrow> Ctx \<Rightarrow> Signed \<Rightarrow> Position \<Rightarrow> FundingFeePaymentWithCapping res" where
  "track_funding_fee_payment_with_capping D ctx amount p =
     and_then (aggregate_capping D (total_net_funding_paid ctx) (total_funding_margin ctx) amount
       (lm_funding (pos_liquidation_margin p))) (\<lambda>capping.
     let (capped, event) = (case capping of
           NoCapping \<Rightarrow> (amount, None)
         | Capped capped_amount \<Rightarrow> (capped_amount, Some \<lparr>im_pos = pos_id p, im_fee_type = FeeTypeFundingTotal,
             im_available = signed_neg capped_amount, im_requested = signed_neg amount\<rparr>)) in
     and_then (signed_checked_add D (total_net_funding_paid ctx) capped) (\<lambda>total.
     Inr \<lparr>ffp_amount = capped, ffp_insufficient_margin_event = event, ffp_total_net_funding_paid = total\<rparr>))"

definition funding_fee_payment_apply :: "Env \<Rightarrow> FundingFeePaymentWithCapping \<Rightarrow> Ctx \<Rightarrow> Ctx" where
  "funding_fee_payment_apply env f ctx =
     (case ffp_insufficient_margin_event f of
        Some e \<Rightarrow> add_event env (InsufficientMarginEvent e) ctx | None \<Rightarrow> ctx)
       \<lparr>total_net_funding_paid := ffp_total_net_funding_paid f\<rparr>"

definition increase_total_funding_margin :: "dec256_api \<Rightarrow> Collateral \<Rightarrow> Ctx \<Rightarrow> Ctx res" where
  "increase_total_funding_margin D amount ctx =
     and_then (d_add D (total_funding_margin ctx) amount) (\<lambda>m. Inr (ctx\<lparr>total_funding_margin := m\<rparr>))"

definition decrease_total_funding_margin :: "dec256_api \<Rightarrow> Collateral \<Rightarrow> Ctx \<Rightarrow> Ctx res" where
  "decrease_total_funding_margin D amount ctx =
     and_then (d_sub D (total_funding_margin ctx) amount) (\<lambda>m. Inr (ctx\<lparr>total_funding_margin := m\<rparr>))"

section \<open>Fee settlement of a position\<close>

record PositionFeeSettlement =
  pfs_position :: MaybeClosedPosition
  pfs_insufficient_margin_events :: "InsufficientMarginData list"
  pfs_funding_fee_payment :: FundingFeePaymentWithCapping
  pfs_borrow_fee_collection :: BorrowFeeCollection
  pfs_funding_payment_event :: "PositionId \<times> Signed \<times> Signed \<times> DirectionToBase"
  pfs_cap_crank_fee :: "CapCrankFee option"

text \<open>The last part of \<open>PositionFeeSettlement::new\<close>: take the fees out of the active collateral, or
  close the position with a token amount when they do not fit.\<close>

definition settle_active_collateral ::
    "dec256_api \<Rightarrow> Position \<Rightarrow> Signed \<Rightarrow> PricePoint \<Rightarrow> (MaybeClosedPosition \<times> InsufficientMarginData list)" where
  "settle_active_collateral D p to_subtract price =
     (case ok (nz_checked_sub_signed D (pos_active_collateral p) to_subtract) of
        Some active \<Rightarrow> (MaybeOpen (p\<lparr>pos_active_collateral := active\<rparr>), [])
      | None \<Rightarrow>
          (MaybeClose \<lparr>ci_pos = p\<lparr>pos_active_collateral := 1000000000\<rparr>, ci_capped_exposure = signed_zero,
             ci_additional_losses = 0, ci_settlement_price = price, ci_reason = CloseLiquidated Liquidated,
             ci_closed_during_liquifunding = True\<rparr>,
           case try_into_non_zero to_subtract of
             Some t \<Rightarrow> [\<lparr>im_pos = pos_id p, im_fee_type = FeeTypeOverall,
               im_available = new_positive (pos_active_collateral p), im_requested = new_positive t\<rparr>]
           | None \<Rightarrow> []))"

definition fee_settlement_new ::
    "dec256_api \<Rightarrow> Env \<Rightarrow> Ctx \<Rightarrow> Position \<Rightarrow> Timestamp \<Rightarrow> Timestamp \<Rightarrow> bool \<Rightarrow> PositionFeeSettlement res" where
  "fee_settlement_new D env ctx p starts_at ends_at charge_crank_fee =
     and_then (spot_price env ctx ends_at) (\<lambda>price.
     and_then (calc_capped_borrow_fee_payment D ctx p starts_at ends_at) (\<lambda>(borrow, borrow_event).
     and_then (calc_capped_funding_payment D ctx p starts_at ends_at) (\<lambda>(funding, funding_event).
     and_then (track_funding_fee_payment_with_capping D ctx funding p) (\<lambda>payment.
     and_then (scu_checked_add_assign D (pos_funding_fee p) (ffp_amount payment) price) (\<lambda>funding_fee.
     and_then (d_add D (la_lp borrow) (la_xlp borrow)) (\<lambda>borrow_total.
     and_then (cu_checked_add_assign D (pos_borrow_fee p) borrow_total price) (\<lambda>borrow_fee.
     and_then (collect_borrow_fee D env ctx (pos_id p) borrow price) (\<lambda>collection.
     and_then (signed_map (collateral_to_usd D price) (ffp_amount payment)) (\<lambda>amount_usd.
     and_then (if charge_crank_fee
         then and_then (cap_crank_fee D p price (cfg_crank_fee_charged (env_config env))) (\<lambda>c.
              and_then (cu_checked_add_assign D (pos_crank_fee p) (ccf_amount c) price) (\<lambda>cf.
              Inr (cf, Some c)))
         else Inr (pos_crank_fee p, None)) (\<lambda>(crank_fee, crank).
     let p = p\<lparr>pos_funding_fee := funding_fee, pos_borrow_fee := borrow_fee, pos_crank_fee := crank_fee\<rparr> in
     and_then (signed_checked_add D (new_positive (la_lp borrow)) (new_positive (la_xlp borrow))) (\<lambda>a.
     and_then (signed_checked_add D a (ffp_amount payment)) (\<lambda>b.
     and_then (signed_checked_add D b (new_positive (case crank of Some c \<Rightarrow> ccf_amount c | None \<Rightarrow> 0))) (\<lambda>to_subtract.
     let (position, overall) = settle_active_collateral D p to_subtract price in
     Inr \<lparr>pfs_position = position,
       pfs_insufficient_margin_events = (case borrow_event of Some e \<Rightarrow> [e] | None \<Rightarrow> [])
         @ (case funding_event of Some e \<Rightarrow> [e] | None \<Rightarrow> []) @ overall,
       pfs_funding_fee_payment = payment, pfs_borrow_fee_collection = collection,
       pfs_funding_payment_event = (pos_id p, ffp_amount payment, amount_usd,
         direction_into_base (pos_direction p) (mid_market_type (env_market_id env))),
       pfs_cap_crank_fee = crank\<rparr>)))))))))))))"

definition fee_settlement_apply :: "dec256_api \<Rightarrow> Env \<Rightarrow> PositionFeeSettlement \<Rightarrow> Ctx \<Rightarrow> Ctx res" where
  "fee_settlement_apply D env s ctx =
     (let ctx = fold (\<lambda>e. add_event env (InsufficientMarginEvent e)) (pfs_insufficient_margin_events s) ctx;
          ctx = funding_fee_payment_apply env (pfs_funding_fee_payment s) ctx in
     and_then (borrow_fee_apply D env (pfs_borrow_fee_collection s) ctx) (\<lambda>ctx.
     let (pid, amount, usd, dir) = pfs_funding_payment_event s;
         ctx = add_event env (FundingPaymentEvent pid amount usd dir) ctx in
     case pfs_cap_crank_fee s of
       Some c \<Rightarrow> cap_crank_fee_apply D env c ctx
     | None \<Rightarrow> Inr ctx))"

end
