(* ===== verification/CountertradeProperties.thy ===== *)
theory CountertradeProperties
  imports CountertradeInvariant Funding PoolExamples
begin

text \<open>
  The properties of the countertrade contract, evaluated on a fund of Alice and Bob for a market whose traders
  are all on the long side.
\<close>

section \<open>A sample fund\<close>

definition ct_token :: MarketToken where
  "ct_token = MtNative ''usdc'' 6"

definition ct_market_config :: Config where
  "ct_market_config = sample_config\<lparr>cfg_funding_rate_sensitivity := 800000000000000000\<rparr>"

definition ct_market_id :: MarketId where
  "ct_market_id = market_id_new ''ATOM'' ''USDC'' CollateralIsQuote"

definition one_sided_status :: StatusResp where
  "one_sided_status = \<lparr>sr_market_id = ct_market_id, sr_market_type = CollateralIsQuote, sr_collateral = ct_token,
     sr_config = ct_market_config, sr_long_funding = signed_zero, sr_short_funding = signed_zero,
     sr_long_notional = 90 * dec_one, sr_short_notional = 0\<rparr>"

definition ct_env :: "nat \<Rightarrow> CtEnv" where
  "ct_env bal = \<lparr>ce_api = Some, ce_balance = (\<lambda>_. Inr bal), ce_tokens = Inr [], ce_positions = (\<lambda>_. Inr []),
     ce_spot_price = Inr sample_price_point, ce_status = Inr one_sided_status, ce_deferred = (\<lambda>_. Inr ItemPending),
     ce_receive_msg = (\<lambda>_. None)\<rparr>"

definition sample_ct_config :: CtConfig where
  "sample_ct_config = \<lparr>cc_admin = ''admin'', cc_pending_admin = None, cc_market = ''market'',
     cc_min_funding = 100000000000000000, cc_target_funding = 400000000000000000, cc_max_funding = 600000000000000000,
     cc_iterations = 50, cc_take_profit_factor = 1500000000000000000, cc_stop_loss_factor = dec_one,
     cc_max_leverage = 10 * dec_one\<rparr>"

definition ct_fund :: "(Addr, NonZero) fmap \<Rightarrow> Totals option \<Rightarrow> MarketInfo option \<Rightarrow> CtState" where
  "ct_fund shares totals info = \<lparr>cs_config = sample_ct_config, cs_shares = shares, cs_totals = totals,
     cs_market_info = info, cs_reply_market = None\<rparr>"

definition ct_info :: MarketInfo where
  "ct_info = \<lparr>mi_id = ct_market_id, mi_addr = ''market'', mi_token = ct_token\<rparr>"

definition alice_fund :: CtState where
  "alice_fund = ct_fund (fmupd ''alice'' (mic 1000000000) fmempty) (Some \<lparr>tot_shares = mic 1000000000, tot_last_closed = None, tot_deferred_exec = None\<rparr>)
     (Some ct_info)"

definition both_fund :: CtState where
  "both_fund = ct_fund (fmupd ''bob'' (mic 500000000) (fmupd ''alice'' (mic 1000000000) fmempty))
     (Some \<lparr>tot_shares = mic 1500000000, tot_last_closed = None, tot_deferred_exec = None\<rparr>) (Some ct_info)"

lemmas ct_eval = ct_fund_def ct_env_def Let_def load_totals_def default_totals_def contract_balance_def
  load_market_info_def load_market_info_inner_def ct_info_def ct_token_def mt_query_balance_def
  mt_decimal_places_def token_from_u128_def load_positions_def active_collateral_def ensure_no_deferred_def
  sender_shares_def mic_def dec18_eval nonzero_new_def

lemma sample_fund_started: "ct_start dec18 (ct_fund fmempty None None)"
  unfolding ct_start_def
  by (rule exI [of _ "ct_env 0"], rule exI [of _ "''market''"], rule exI [of _ "''admin''"], rule exI [of _ no_update])
    (simp add: ct_instantiate_def no_update_def addr_validate_def or_ratio_def ct_config_check_def sample_ct_config_def ct_eval)

lemma alice_deposits: "ct_execute dec18 (ct_env 1000000000) ''alice'' [(''usdc'', 1000000000)] CtDeposit (ct_fund fmempty None None)
    = Inr (alice_fund, no_response)"
  by (simp add: ct_execute_def handle_funds_def load_cache_market_info_def require_some_def ensure_matches_def ct_deposit_def
      ct_add_collateral_def nz_checked_add_def quiet_def alice_fund_def one_sided_status_def sample_ct_config_def ct_eval)

lemma bob_deposits: "ct_deposit dec18 (ct_env 1500000000) ''bob'' (mic 500000000) alice_fund = Inr both_fund"
  by (simp add: ct_deposit_def ct_add_collateral_def nz_checked_add_def alice_fund_def both_fund_def ct_eval)

lemma alice_fund_reached: "reachable (ct_start dec18) (ct_step dec18) alice_fund"
  by (rule reachable.move, rule reachable.start, rule sample_fund_started, rule ct_step.message, rule alice_deposits)

section \<open>The shares\<close>

text \<open>C32: In every state the countertrade contract can reach, through its messages and the replies of the market,
  the total of the shares is the sum of the shares of the depositors and no depositor is stored with zero
  shares, so the fund is never divided into more or fewer shares than are held.\<close>

theorem ct_shares_are_backed:
  assumes "decimal256 D" "reachable (ct_start D) (ct_step D) s"
  shows "fmsum (\<lambda>n. n) (cs_shares s) = tot_shares (load_totals s)
    \<and> (\<forall>a n. fmlookup (cs_shares s) a = Some n \<longrightarrow> 0 < n \<and> n \<le> tot_shares (load_totals s))"
  using decimal256.ct_reachable_inv [OF assms] fmval_le_fmsum [of "\<lambda>n. n" "cs_shares s"]
  unfolding ct_inv_def fmval_def by (metis option.simps(5))

theorem ct_shares_are_backed_witness: "fmsum (\<lambda>n. n) (cs_shares alice_fund) = mic 1000000000"
  using ct_shares_are_backed [OF d18.decimal256_axioms alice_fund_reached]
  by (simp add: alice_fund_def ct_fund_def load_totals_def)

context decimal256
begin

lemma deposit_keeps_worth:
  assumes "ct_deposit D env a funds s = Inr s'" "contract_balance D env s = Inr balance" "0 < funds" "funds \<le> balance"
  shows "\<exists>active pos minted. load_positions env = Inr pos \<and> active_collateral pos = Inr active
    \<and> s' = s\<lparr>cs_shares := fmupd a (sender_shares a s + minted) (cs_shares s),
        cs_totals := Some ((load_totals s)\<lparr>tot_shares := tot_shares (load_totals s) + minted\<rparr>)\<rparr>
    \<and> sender_shares a s' + tot_shares (load_totals s) = sender_shares a s + tot_shares (load_totals s')
    \<and> (balance + active - funds) * tot_shares (load_totals s') \<le> (balance + active) * tot_shares (load_totals s)"
proof -
  obtain bal pos n t1 where "contract_balance D env s = Inr bal"
    and d0: "load_positions env = Inr pos" "ct_add_collateral D (load_totals s) bal funds pos = Inr (n, t1)"
      "s' = s\<lparr>cs_shares := fmupd a (sender_shares a s + n) (cs_shares s), cs_totals := Some t1\<rparr>"
    by (rule deposit_result [OF assms(1)])
  then have "bal = balance" using assms(2) by simp
  note d = d0 [unfolded this]
  obtain active where act: "active_collateral pos = Inr active" "funds \<le> balance + active"
    "t1 = (load_totals s)\<lparr>tot_shares := tot_shares (load_totals s) + n\<rparr>"
    and n: "n * (balance + active - funds) \<le> funds * tot_shares (load_totals s)
      \<or> (tot_shares (load_totals s) = 0 \<and> balance + active = funds \<and> n = funds)"
    using ct_add_collateral_result [OF d(2)] assms(3,4) by (metis le_zero_eq less_irrefl)
  have "(balance + active - funds) * n \<le> funds * tot_shares (load_totals s)" using n by (auto simp: mult.commute)
  then have "(balance + active - funds) * tot_shares (load_totals s) + (balance + active - funds) * n
      \<le> (balance + active - funds + funds) * tot_shares (load_totals s)" by (simp add: add_mult_distrib)
  then have "(balance + active - funds) * (tot_shares (load_totals s) + n) \<le> (balance + active) * tot_shares (load_totals s)"
    using act(2) by (simp add: add_mult_distrib2)
  moreover have "sender_shares a s' = sender_shares a s + n" "tot_shares (load_totals s') = tot_shares (load_totals s) + n"
    by (simp_all add: d(3) act(3) sender_shares_def load_totals_def)
  ultimately show ?thesis using d(1) act(1)
    by (intro exI [of _ active] exI [of _ pos] exI [of _ n]) (simp add: d(3) act(3))
qed

lemma withdraw_keeps_worth:
  assumes "ct_withdraw D env b market amount t = Inr (t', r)" "contract_balance D env t = Inr balance"
  shows "\<exists>active pos paid msg. load_positions env = Inr pos \<and> active_collateral pos = Inr active
    \<and> 0 < paid \<and> paid \<le> balance \<and> amount \<le> sender_shares b t
    \<and> mt_into_transfer_msg D (mi_token market) b paid = Inr (Some msg) \<and> r = \<lparr>re_messages = [msg], re_submessages = []\<rparr>
    \<and> t' = t\<lparr>cs_shares := (if sender_shares b t = amount then fmdrop b (cs_shares t)
         else fmupd b (sender_shares b t - amount) (cs_shares t)),
        cs_totals := Some ((load_totals t)\<lparr>tot_shares := tot_shares (load_totals t) - amount\<rparr>)\<rparr>
    \<and> tot_shares (load_totals t') + amount = tot_shares (load_totals t)
    \<and> (balance + active) * tot_shares (load_totals t') \<le> (balance + active - paid) * tot_shares (load_totals t)"
proof -
  obtain bal pos c t2 m where "contract_balance D env t = Inr bal"
    and w0: "load_positions env = Inr pos" "ct_remove_collateral D (load_totals t) bal amount pos = Inr (c, t2)"
      "amount \<le> sender_shares b t" "0 < c" "mt_into_transfer_msg D (mi_token market) b c = Inr (Some m)"
      "r = \<lparr>re_messages = [m], re_submessages = []\<rparr>"
    and t': "t' = t\<lparr>cs_shares := (if sender_shares b t = amount then fmdrop b (cs_shares t)
         else fmupd b (sender_shares b t - amount) (cs_shares t)), cs_totals := Some t2\<rparr>"
    by (rule ct_withdraw_result [OF assms(1)])
  then have "bal = balance" using assms(2) by simp
  note w = w0 [unfolded this]
  obtain active where act: "active_collateral pos = Inr active" "c \<le> balance" "amount \<le> tot_shares (load_totals t)"
    "t2 = (load_totals t)\<lparr>tot_shares := tot_shares (load_totals t) - amount\<rparr>"
    "c * tot_shares (load_totals t) \<le> amount * (balance + active)"
    using ct_remove_collateral_result [OF w(2)] by metis
  have "(balance + active) * (tot_shares (load_totals t) - amount) \<le> (balance + active - c) * tot_shares (load_totals t)"
    using diff_le_mono2 [OF act(5), of "(balance + active) * tot_shares (load_totals t)"]
    by (simp only: diff_mult_distrib diff_mult_distrib2 mult.commute [of amount])
  moreover have "load_totals t' = t2" by (simp add: t' load_totals_def)
  then have "tot_shares (load_totals t') = tot_shares (load_totals t) - amount" by (simp add: act(4))
  ultimately show ?thesis using w act
    by (intro exI [of _ active] exI [of _ pos] exI [of _ c] exI [of _ m]) (simp add: t' act(4))
qed

end

text \<open>C33: A deposit or a withdrawal never lowers the worth of the shares of the others. A deposit of funds the
  contract has received adds the minted shares to the sender and to the total and changes nothing else, and it mints
  at most the shares the funds are worth, so the collateral per share does not fall. A withdrawal takes exactly the
  burnt shares from the sender's own shares (the account goes when none are left) and from the total and changes
  nothing else, its one message pays the sender out of the free balance at most the proportional part of the fund,
  and so the collateral per remaining share does not fall either.\<close>

theorem ct_shares_keep_their_worth:
  assumes "decimal256 D"
    and "ct_deposit D env a funds s = Inr s'" "contract_balance D env s = Inr balance" "0 < funds" "funds \<le> balance"
    and "ct_withdraw D env' b market amount t = Inr (t', r)" "contract_balance D env' t = Inr balance'"
  shows "(\<exists>active pos minted. load_positions env = Inr pos \<and> active_collateral pos = Inr active
      \<and> s' = s\<lparr>cs_shares := fmupd a (sender_shares a s + minted) (cs_shares s),
          cs_totals := Some ((load_totals s)\<lparr>tot_shares := tot_shares (load_totals s) + minted\<rparr>)\<rparr>
      \<and> sender_shares a s' + tot_shares (load_totals s) = sender_shares a s + tot_shares (load_totals s')
      \<and> (balance + active - funds) * tot_shares (load_totals s') \<le> (balance + active) * tot_shares (load_totals s))
    \<and> (\<exists>active pos paid msg. load_positions env' = Inr pos \<and> active_collateral pos = Inr active
      \<and> 0 < paid \<and> paid \<le> balance' \<and> amount \<le> sender_shares b t
      \<and> mt_into_transfer_msg D (mi_token market) b paid = Inr (Some msg) \<and> r = \<lparr>re_messages = [msg], re_submessages = []\<rparr>
      \<and> t' = t\<lparr>cs_shares := (if sender_shares b t = amount then fmdrop b (cs_shares t)
           else fmupd b (sender_shares b t - amount) (cs_shares t)),
          cs_totals := Some ((load_totals t)\<lparr>tot_shares := tot_shares (load_totals t) - amount\<rparr>)\<rparr>
      \<and> tot_shares (load_totals t') + amount = tot_shares (load_totals t)
      \<and> (balance' + active) * tot_shares (load_totals t') \<le> (balance' + active - paid) * tot_shares (load_totals t))"
  using decimal256.deposit_keeps_worth [OF assms(1-5)] decimal256.withdraw_keeps_worth [OF assms(1,6,7)] by blast

lemma alice_withdraws: "\<exists>t' r. ct_withdraw dec18 (ct_env 1500000000) ''alice'' ct_info (mic 400000000) both_fund = Inr (t', r)"
  by (simp add: ct_withdraw_def ct_remove_collateral_def shares_to_collateral_def mt_into_transfer_msg_def token_into_u128_def
      to_u128_with_precision_def new_positive_def is_negative_def u128_lim_def both_fund_def ct_eval)

theorem ct_shares_keep_their_worth_witness:
  "\<exists>t'. tot_shares (load_totals t') + mic 400000000 = mic 1500000000
    \<and> mic 1500000000 * tot_shares (load_totals t') \<le> mic 1500000000 * mic 1500000000"
proof -
  obtain t' r where w: "ct_withdraw dec18 (ct_env 1500000000) ''alice'' ct_info (mic 400000000) both_fund = Inr (t', r)"
    using alice_withdraws by blast
  have b: "contract_balance dec18 (ct_env 1500000000) alice_fund = Inr (mic 1500000000)"
    "contract_balance dec18 (ct_env 1500000000) both_fund = Inr (mic 1500000000)"
    by (simp_all add: alice_fund_def both_fund_def ct_eval)
  have t: "tot_shares (load_totals both_fund) = mic 1500000000" by (simp add: both_fund_def ct_fund_def load_totals_def)
  have "tot_shares (load_totals t') + mic 400000000 = tot_shares (load_totals both_fund)"
    using ct_shares_keep_their_worth [OF d18.decimal256_axioms bob_deposits b(1) _ _ w b(2)] by (auto simp: mic_def)
  then show ?thesis unfolding t by (intro exI [of _ t']) simp
qed

text \<open>Collateral that belongs to no share blocks every deposit: once the shares are gone, or before the first
  deposit, any dust in the balance makes the contract reject all funds.\<close>

lemma dust_blocks_deposits:
  assumes "decimal256 D" "tot_shares t = 0" "funds < balance"
  shows "ct_add_collateral D t balance funds NoPositions \<noteq> Inr r"
  using assms by (cases r) (auto simp: ct_add_collateral_def active_collateral_def decimal256.add_Inr decimal256.sub_Inr)

section \<open>The work\<close>

context decimal256
begin

lemma net_of_sides:
  "signed_checked_sub D (new_positive a) (new_positive b) = Inr x \<Longrightarrow> signed_checked_sub D (new_positive b) (new_positive a) = Inr y
     \<Longrightarrow> abs_unsigned x = abs_unsigned y"
  by (auto simp: signed_checked_sub_def signed_checked_add_def signed_defs abs_unsigned_def split: if_splits)

text \<open>The rate the contract derives is the rate the market charges its popular side.\<close>

lemma rate_matches_market:
  assumes ct: "derive_popular_funding_rate_annual D p u (env_config env) = Inr r" and "u \<le> p"
    and sides: "(open_long_interest ctx, open_short_interest ctx) = (if long_popular then (p, u) else (u, p))"
    and market: "derive_instant_funding_rate_annual D env ctx = Inr (lr, sr)"
  shows "(if long_popular then lr else sr) = new_positive r"
proof -
  have "p = u \<Longrightarrow> p = 0" using ct balanced_rate_panics by metis
  then consider "u = 0" | "0 < u" "u < p" using assms(2) by linarith
  then show ?thesis
  proof cases
    case 1
    have "r = 0" using ct 1
      by (auto simp: derive_popular_funding_rate_annual_def Let_def signed_zero_def new_positive_def abs_unsigned_def)
    moreover have "lr = signed_zero" "sr = signed_zero"
      using market sides 1 by (auto simp: derive_instant_funding_rate_annual_def Let_def split: if_splits)
    ultimately show ?thesis by (simp add: signed_zero_def)
  next
    case 2
    obtain net sens where net: "signed_checked_sub D (new_positive p) (new_positive u) = Inr net"
      and sens: "effective_sensitivity D (env_config env) (p + u) = Inr sens"
      and r: "ct_rf_popular D sens (cfg_funding_rate_max_annualized (env_config env)) net (p + u) = Inr r"
      using ct 2 by (auto simp: derive_popular_funding_rate_annual_def effective_sensitivity_def Let_def abs_unsigned_def
          new_positive_def)
    have pop: "rf_popular D (env_config env) sens a b n = Inr q \<Longrightarrow> abs_unsigned n = abs_unsigned net \<Longrightarrow> a + b = p + u \<Longrightarrow> q = r"
      for a b n q using r by (auto simp: rf_popular_def ct_rf_popular_def)
    show ?thesis
    proof (cases long_popular)
      case True
      then have o: "open_long_interest ctx = p" "open_short_interest ctx = u" using sides by simp_all
      obtain q where "rf_popular D (env_config env) sens p u net = Inr q" "lr = new_positive q"
        using market 2 net sens
        by (auto simp: derive_instant_funding_rate_annual_def positions_net_open_interest_def Let_def o)
      then show ?thesis using pop True by metis
    next
      case False
      then have o: "open_long_interest ctx = u" "open_short_interest ctx = p" using sides by simp_all
      obtain n q where "signed_checked_sub D (new_positive u) (new_positive p) = Inr n"
        "rf_popular D (env_config env) sens u p n = Inr q" "sr = new_positive q"
        using market 2 sens
        by (auto simp: derive_instant_funding_rate_annual_def positions_net_open_interest_def Let_def o add.commute [of u])
      then show ?thesis using pop False net_of_sides [OF _ net] by (metis add.commute)
    qed
  qed
qed

lemma search_found:
  assumes "smart_search D long short target status n = Inr d" "popular_side long short = (p, u)" "wf_signed target"
  shows "u + d \<le> p \<and> (d = 0 \<or> (\<exists>rate. derive_popular_funding_rate_annual D p (u + d) (sr_config status) = Inr rate
        \<and> \<bar>int rate - num target\<bar> < int search_epsilon))"
proof -
  have le: "u \<le> p" using assms(2) by (auto simp: popular_side_def split: if_splits)
  show ?thesis
  proof (cases "u = 0 \<and> p = 0")
    case True
    then show ?thesis using assms(1,2) by (simp add: smart_search_def)
  next
    case False
    then obtain high low where "search_loop D (sr_config status) target p u n 0 high low = Inr d"
      using assms(1,2) by (auto simp: smart_search_def)
    then show ?thesis using search_loop_found [OF _ le assms(3)] by blast
  qed
qed

end

text \<open>C34: The search for the size of the position does what it is for: the notional size it finds never turns the
  unpopular side into the popular one, and unless nothing is to be added, a market with its configuration
  whose unpopular side has grown by that size charges its popular side a funding rate within 0.00001 of the
  target, by the formula the market itself uses.\<close>

theorem ct_search_meets_target:
  assumes "decimal256 D" "wf_signed target" "smart_search D long short target status n = Inr d"
  shows "min long short + d \<le> max long short
    \<and> (d = 0 \<or> (\<forall>env ctx lr sr. env_config env = sr_config status
        \<and> open_long_interest ctx = (if short < long then long else long + d)
        \<and> open_short_interest ctx = (if short < long then short + d else short)
        \<and> derive_instant_funding_rate_annual D env ctx = Inr (lr, sr)
        \<longrightarrow> \<bar>num (if short < long then lr else sr) - num target\<bar> < int search_epsilon))"
proof -
  obtain p u where pu: "popular_side long short = (p, u)" by (cases "popular_side long short")
  then have mm: "min long short = u" "max long short = p" by (auto simp: popular_side_def split: if_splits)
  note found = decimal256.search_found [OF assms(1,3) pu assms(2)]
  have "\<bar>num (if short < long then lr else sr) - num target\<bar> < int search_epsilon"
    if nz: "d \<noteq> 0" and env: "env_config env = sr_config status" and sides: "open_long_interest ctx = (if short < long then long else long + d)"
      "open_short_interest ctx = (if short < long then short + d else short)"
      and market: "derive_instant_funding_rate_annual D env ctx = Inr (lr, sr)" for env ctx lr sr
  proof -
    obtain rate where rate: "derive_popular_funding_rate_annual D p (u + d) (env_config env) = Inr rate"
      and near: "\<bar>int rate - num target\<bar> < int search_epsilon" using found nz env by auto
    have "(if short < long then lr else sr) = new_positive rate"
      by (rule decimal256.rate_matches_market [OF assms(1) rate _ _ market])
        (use found sides pu in \<open>auto simp: popular_side_def split: if_splits\<close>)
    then show ?thesis using near by simp
  qed
  then show ?thesis unfolding mm using found by blast
qed

lemma market_config_fields:
  "cfg_funding_rate_max_annualized ct_market_config = 900000000000000000"
  "cfg_funding_rate_sensitivity ct_market_config = 800000000000000000"
  "cfg_delta_neutrality_fee_sensitivity ct_market_config = 50000000 * dec_one"
  "cfg_delta_neutrality_fee_cap ct_market_config = 5000000000000000"
  "cfg_max_leverage ct_market_config = new_positive (30 * dec_one)"
  "cfg_minimum_deposit_usd ct_market_config = 5 * dec_one"
  by (simp_all add: ct_market_config_def sample_config_def default_config_def config_new_def default_bfs_dec18 new_positive_def)

lemmas work_eval = signed_checked_sub_def signed_checked_add_def number_checked_mul_def number_checked_div_def signed_defs
  abs_unsigned_def signed_zero_def is_strictly_positive_def signed_order_defs is_positive_or_zero_def

lemma sample_search: "smart_search dec18 (90 * dec_one) 0 (new_positive 400000000000000000) one_sided_status 50 = Inr (30 * dec_one)"
  by (simp add: smart_search_def popular_side_def one_sided_status_def market_config_fields search_loop.simps search_step_def
      desired_unpopular_def derive_popular_funding_rate_annual_def ct_rf_popular_def ct_rf_unpopular_def search_epsilon_def
      Let_def work_eval dec18_eval)

definition balanced_market :: Ctx where
  "balanced_market = sample_pool\<lparr>open_long_interest := 90 * dec_one, open_short_interest := 30 * dec_one\<rparr>"

definition balanced_env :: Env where
  "balanced_env = sample_env\<lparr>env_config := ct_market_config\<rparr>"

lemma balanced_rate: "\<exists>lr sr. derive_instant_funding_rate_annual dec18 balanced_env balanced_market = Inr (lr, sr)"
  by (simp add: derive_instant_funding_rate_annual_def positions_net_open_interest_def balanced_market_def balanced_env_def
      effective_sensitivity_def rf_popular_def rf_unpopular_def market_config_fields Let_def work_eval dec18_eval)

theorem ct_search_meets_target_witness:
  "\<exists>lr sr. derive_instant_funding_rate_annual dec18 balanced_env balanced_market = Inr (lr, sr)
    \<and> \<bar>num lr - 400000000000000000\<bar> < int search_epsilon"
proof -
  obtain lr sr where r: "derive_instant_funding_rate_annual dec18 balanced_env balanced_market = Inr (lr, sr)"
    using balanced_rate by blast
  have "wf_signed (new_positive 400000000000000000)" by (simp add: dec_lim_def)
  moreover have "env_config balanced_env = sr_config one_sided_status"
    "open_long_interest balanced_market = 90 * dec_one" "open_short_interest balanced_market = 0 + 30 * dec_one"
    by (simp_all add: balanced_env_def balanced_market_def one_sided_status_def)
  ultimately show ?thesis
    using ct_search_meets_target [OF d18.decimal256_axioms _ sample_search] r by (auto simp: dec_one_def)
qed

text \<open>C35: The work the contract decides on stays within its means: it opens a position only with collateral it
  holds, at least the market's minimum deposit, and with a leverage below its own limit and the market's; it
  adds only collateral it holds; it opens a position only when it has none, and adds to, takes from or closes only
  its own position (of several positions the one that has to go); it resets the shares only when there are shares
  but no collateral and no position; and while a message to the market is pending it does nothing but clear that
  message, once the market has carried it out or given it up.\<close>

theorem ct_work_within_means:
  assumes "decimal256 D" "get_work_for D env s totals = Inr (Work w)" "cc_max_leverage (cs_config s) < dec_lim"
  shows "(tot_deferred_exec totals = None \<or> (\<exists>i. tot_deferred_exec totals = Some i \<and> w = WdClearDeferredExec i))
    \<and> (case w of
         WdOpenPosition direction leverage collateral take_profit stop_loss \<Rightarrow> load_positions env = Inr NoPositions \<and>
           (\<exists>balance price status. contract_balance D env s = Inr balance \<and> ce_spot_price env = Inr price \<and> ce_status env = Inr status
             \<and> collateral \<le> balance \<and> leverage \<le> cc_max_leverage (cs_config s)
             \<and> int leverage \<le> num (cfg_max_leverage (sr_config status))
             \<and> (\<forall>m. usd_to_collateral D price (cfg_minimum_deposit_usd (sr_config status)) = Inr m \<longrightarrow> m \<le> collateral))
       | WdAddCollateral i amount \<Rightarrow> (\<exists>balance. contract_balance D env s = Inr balance \<and> amount \<le> balance)
           \<and> (\<exists>p. load_positions env = Inr (OnePosition p) \<and> pq_id p = i)
       | WdRemoveCollateral i amount crank_fee \<Rightarrow> \<exists>p. load_positions env = Inr (OnePosition p) \<and> pq_id p = i
       | WdClosePosition i \<Rightarrow> load_positions env = Inr (TooManyPositions i)
           \<or> (\<exists>p. load_positions env = Inr (OnePosition p) \<and> pq_id p = i)
       | WdResetShares \<Rightarrow> tot_shares totals \<noteq> 0 \<and> contract_balance D env s = Inr 0 \<and> load_positions env = Inr NoPositions
       | WdClearDeferredExec i \<Rightarrow> tot_deferred_exec totals = Some i
           \<and> (ce_deferred env i = Inr ItemSuccess \<or> ce_deferred env i = Inr ItemFailure))"
proof -
  note r = decimal256.get_work_result(2) [OF assms(1,2)] and n = decimal256.get_work_result(1) [OF assms(1,2)]
  have limits: "\<exists>balance price status. contract_balance D env s = Inr balance \<and> ce_spot_price env = Inr price
      \<and> ce_status env = Inr status \<and> within_limits D (cs_config s) status price balance w" if "spends w"
    using r that decimal256.market_work_within_limits [OF assms(1) _ assms(3)] by (auto simp: spends_def)
  have own: "(\<exists>i. tot_deferred_exec totals = Some i \<and> w = WdClearDeferredExec i
         \<and> (ce_deferred env i = Inr ItemSuccess \<or> ce_deferred env i = Inr ItemFailure))
     \<or> (tot_deferred_exec totals = None
         \<and> ((\<exists>i. load_positions env = Inr (TooManyPositions i) \<and> w = WdClosePosition i)
           \<or> (contract_balance D env s = Inr 0 \<and> load_positions env = Inr NoPositions \<and> w = WdResetShares)
           \<or> (load_positions env = Inr NoPositions \<and> works_on None w)
           \<or> (\<exists>p. load_positions env = Inr (OnePosition p) \<and> works_on (Some p) w)))"
    using r decimal256.market_work_works_on [OF assms(1)] by (fastforce split: option.splits)
  show ?thesis using own n limits by (cases w) (auto simp: spends_def within_limits_def works_on_def)
qed

lemma sample_work: "get_work_for dec18 (ct_env 1000000000) alice_fund \<lparr>tot_shares = mic 1000000000, tot_last_closed = None, tot_deferred_exec = None\<rparr>
    = Inr (Work (WdOpenPosition ShortBase (10 * dec_one) (9 * dec_one) (TP_Finite 2955000000000000000) (Some 3030000000000000000)))"
proof -
  have "rebalance dec18 (ct_env 1000000000) sample_ct_config (90 * dec_one) 0 sample_price_point one_sided_status (mic 1000000000) None
      = Inr (Some (WdOpenPosition ShortBase (10 * dec_one) (9 * dec_one) (TP_Finite 2955000000000000000) (Some 3030000000000000000)))"
    using sample_search
    by (simp add: rebalance_def determine_target_notional_def sample_ct_config_def compute_delta_notional_def price_at_factor_def
        desired_leverage_def optimize_capital_efficiency_def capital_work_def one_sided_status_def market_config_fields
        sample_price_point_def price_try_from_number_def nz_try_from_def into_base_price_def direction_into_base_def
        leverage_into_signed_def leverage_into_notional_def leverage_into_base_def leverage_split_def try_into_non_negative_value_def
        signed_map_def notional_to_collateral_def price_notional_to_collateral_def usd_to_collateral_def work_eval ct_eval)
  moreover have "load_positions (ct_env 1000000000) = Inr NoPositions" "contract_balance dec18 (ct_env 1000000000) alice_fund = Inr (mic 1000000000)"
    by (simp_all add: alice_fund_def ct_eval)
  moreover have "usd_to_collateral dec18 sample_price_point (cfg_minimum_deposit_usd ct_market_config) = Inr 1666666666666666666"
    "collateral_to_usd dec18 sample_price_point (mic 1000000000) = Inr (mic 3000000000)"
    by (simp_all add: usd_to_collateral_def collateral_to_usd_def sample_price_point_def market_config_fields mic_def dec18_eval)
  ultimately show ?thesis
    by (simp add: get_work_for_def market_work_def desired_action_def one_sided_market_def by_market_type_def work_of_def
        ct_env_def alice_fund_def ct_fund_def one_sided_status_def sample_ct_config_def market_config_fields work_eval
        nonzero_new_def mic_def dec_one_def)
qed

theorem ct_work_within_means_witness: "9 * dec_one \<le> mic 1000000000 \<and> 10 * dec_one \<le> cc_max_leverage (cs_config alice_fund)"
proof -
  have "contract_balance dec18 (ct_env 1000000000) alice_fund = Inr (mic 1000000000)" by (simp add: alice_fund_def ct_eval)
  moreover have "cc_max_leverage (cs_config alice_fund) < dec_lim"
    by (simp add: alice_fund_def ct_fund_def sample_ct_config_def dec_lim_def dec_one_def)
  ultimately show ?thesis
    using ct_work_within_means [OF d18.decimal256_axioms sample_work] by auto
qed

end
