(* ===== verification/Shutdown.thy ===== *)
theory Shutdown
  imports LiquidityPool
begin

text \<open>
  The parts of the protocol a shutdown can turn off, \<open>packages/perpswap/src/shutdown.rs\<close>: what each of the two
  wallets may do, which part gates which message of a market, and the text a part is stored under.
\<close>

datatype ShutdownWallet = KillSwitch | WindDown

datatype ShutdownImpact =
    NewTrades | ClosePositions | OwnerActions | DepositLiquidity | WithdrawLiquidity | Staking | Unstaking
  | TransferPositions | TransferLp | SetPrice | TransferDaoFees | Crank | SetManualPrice

datatype ShutdownEffect = Disable | Enable

definition all_impacts :: "ShutdownImpact list" where
  "all_impacts = [NewTrades, ClosePositions, OwnerActions, DepositLiquidity, WithdrawLiquidity, Staking, Unstaking,
     TransferPositions, TransferLp, SetPrice, TransferDaoFees, Crank, SetManualPrice]"

fun can_perform :: "ShutdownImpact \<Rightarrow> ShutdownWallet \<Rightarrow> bool" where
  "can_perform _ KillSwitch = True"
| "can_perform NewTrades WindDown = True"
| "can_perform ClosePositions WindDown = False"
| "can_perform OwnerActions WindDown = False"
| "can_perform DepositLiquidity WindDown = True"
| "can_perform WithdrawLiquidity WindDown = False"
| "can_perform Staking WindDown = True"
| "can_perform Unstaking WindDown = False"
| "can_perform TransferPositions WindDown = False"
| "can_perform TransferLp WindDown = False"
| "can_perform SetPrice WindDown = False"
| "can_perform TransferDaoFees WindDown = False"
| "can_perform Crank WindDown = False"
| "can_perform SetManualPrice WindDown = False"

definition ensure_can_perform :: "ShutdownImpact \<Rightarrow> ShutdownWallet \<Rightarrow> unit res" where
  "ensure_can_perform i wallet = ensure (can_perform i wallet) (Perp Auth)"

definition for_market_execute_msg :: "ExecuteMsgKind \<Rightarrow> ShutdownImpact option" where
  "for_market_execute_msg msg = (case msg of
       MsgOwner \<Rightarrow> Some OwnerActions
     | MsgReceive \<Rightarrow> None
     | MsgOpenPosition \<Rightarrow> Some NewTrades
     | MsgUpdateAddCollateralImpactLeverage \<Rightarrow> Some NewTrades
     | MsgUpdateAddCollateralImpactSize \<Rightarrow> Some NewTrades
     | MsgUpdateRemoveCollateralImpactLeverage \<Rightarrow> Some NewTrades
     | MsgUpdateRemoveCollateralImpactSize \<Rightarrow> Some NewTrades
     | MsgUpdateLeverage \<Rightarrow> Some NewTrades
     | MsgUpdateMaxGains \<Rightarrow> Some NewTrades
     | MsgUpdateTakeProfitPrice \<Rightarrow> Some NewTrades
     | MsgUpdateStopLossPrice \<Rightarrow> Some NewTrades
     | MsgSetTriggerOrder \<Rightarrow> Some NewTrades
     | MsgClosePosition \<Rightarrow> Some ClosePositions
     | MsgDepositLiquidity \<Rightarrow> Some DepositLiquidity
     | MsgReinvestYield \<Rightarrow> Some DepositLiquidity
     | MsgWithdrawLiquidity \<Rightarrow> Some WithdrawLiquidity
     | MsgClaimYield \<Rightarrow> Some WithdrawLiquidity
     | MsgStakeLp \<Rightarrow> Some Staking
     | MsgUnstakeXlp \<Rightarrow> Some Unstaking
     | MsgStopUnstakingXlp \<Rightarrow> Some Unstaking
     | MsgCollectUnstakedLp \<Rightarrow> Some Unstaking
     | MsgCrank \<Rightarrow> Some Crank
     | MsgNftProxy \<Rightarrow> Some TransferPositions
     | MsgLiquidityTokenProxy \<Rightarrow> Some TransferLp
     | MsgTransferDaoFees \<Rightarrow> Some TransferDaoFees
     | MsgCloseAllPositions \<Rightarrow> None
     | MsgPlaceLimitOrder \<Rightarrow> Some NewTrades
     | MsgCancelLimitOrder \<Rightarrow> Some ClosePositions
     | MsgProvideCrankFunds \<Rightarrow> Some Crank
     | MsgSetManualPrice \<Rightarrow> Some SetManualPrice
     | MsgPerformDeferredExec \<Rightarrow> None)"

text \<open>The stored text is the \<open>Debug\<close> output, the name of the variant; it is parsed by a look-up in the table
  of all variants.\<close>

definition impact_as_bytes :: "ShutdownImpact \<Rightarrow> string" where
  "impact_as_bytes i = (case i of
       NewTrades \<Rightarrow> ''NewTrades'' | ClosePositions \<Rightarrow> ''ClosePositions'' | OwnerActions \<Rightarrow> ''OwnerActions''
     | DepositLiquidity \<Rightarrow> ''DepositLiquidity'' | WithdrawLiquidity \<Rightarrow> ''WithdrawLiquidity'' | Staking \<Rightarrow> ''Staking''
     | Unstaking \<Rightarrow> ''Unstaking'' | TransferPositions \<Rightarrow> ''TransferPositions'' | TransferLp \<Rightarrow> ''TransferLp''
     | SetPrice \<Rightarrow> ''SetPrice'' | TransferDaoFees \<Rightarrow> ''TransferDaoFees'' | Crank \<Rightarrow> ''Crank''
     | SetManualPrice \<Rightarrow> ''SetManualPrice'')"

definition impact_try_from_bytes :: "string \<Rightarrow> ShutdownImpact res" where
  "impact_try_from_bytes bytes =
     ok_or (map_of (map (\<lambda>x. (impact_as_bytes x, x)) all_impacts) bytes) (Msg ''Unable to parse as ShutdownImpact'')"

section \<open>Facts\<close>

lemma all_impacts_complete [simp]: "i \<in> set all_impacts"
  by (cases i) (simp_all add: all_impacts_def)

lemma impact_bytes_inject [simp]: "(impact_as_bytes i = impact_as_bytes j) = (i = j)"
  by (cases i; cases j) (simp_all add: impact_as_bytes_def)

lemma impact_bytes_roundtrip [simp]: "impact_try_from_bytes (impact_as_bytes i) = Inr i"
  by (cases i) (simp_all add: impact_try_from_bytes_def impact_as_bytes_def all_impacts_def)

lemma impact_bytes_parsed: "impact_try_from_bytes t = Inr i \<Longrightarrow> t = impact_as_bytes i"
  by (auto simp: impact_try_from_bytes_def dest!: map_of_SomeD)

lemma wind_down_impacts: "can_perform i WindDown \<longleftrightarrow> i \<in> {NewTrades, DepositLiquidity, Staking}"
  by (cases i) simp_all

end
