(* ===== verification/Factory.thy ===== *)
theory Factory
  imports Countertrade Shutdown StoredMaps
begin

text \<open>
  The factory, \<open>contracts/factory/src\<close> with \<open>packages/perpswap/src/contracts/factory/{entry,events}.rs\<close>: it
  instantiates the markets with their token contracts, the countertrade and the copy trading contracts, keeps
  their addresses, the wallets that administer the protocol, who referred whom, and which parts of which market
  are shut down.

  The record \<open>FactoryState\<close> has one field per storage item; the items the instantiation always saves are plain
  fields. A map keyed by a market identifier is keyed by its text, which is the stored key, and a range parses
  the text back. The two raw key families \<open>ref__\<close> and \<open>refcount__\<close> are two maps keyed by the
  whole key; a count is stored as its decimal text, here its number. The messages the factory sends are part of its response, with the
  typed value instead of its JSON text. The version item (\<open>set_contract_version\<close>, the query for it and the
  migration, which only compares versions) is not modelled.
\<close>

section \<open>Messages\<close>

datatype TokenInit = TokenInitCw20 RawAddr | TokenInitNative string nat

record InitialPrice =
  ip_price :: PriceBaseInQuote
  ip_price_usd :: PriceCollateralInUsd

record NewMarketParams =
  nm_market_id :: MarketId
  nm_token :: TokenInit
  nm_config :: "ConfigUpdate option"
  nm_spot_price :: SpotPriceConfigInit
  nm_initial_borrow_fee_rate :: Decimal256
  nm_initial_price :: "InitialPrice option"

record FactoryInstantiateMsg =
  fi_market_code_id :: string
  fi_position_token_code_id :: string
  fi_liquidity_token_code_id :: string
  fi_copy_trading_code_id :: "string option"
  fi_counter_trade_code_id :: "string option"
  fi_migration_admin :: RawAddr
  fi_owner :: RawAddr
  fi_dao :: RawAddr
  fi_kill_switch :: RawAddr
  fi_wind_down :: RawAddr
  fi_label_suffix :: "string option"

datatype FactoryExecuteMsg =
    FcAddMarket NewMarketParams
  | FcSetMarketCodeId string
  | FcSetPositionTokenCodeId string
  | FcSetLiquidityTokenCodeId string
  | FcSetOwner RawAddr
  | FcSetMigrationAdmin RawAddr
  | FcSetDao RawAddr
  | FcSetKillSwitch RawAddr
  | FcSetWindDown RawAddr
  | FcTransferAllDaoFees
  | FcShutdown "MarketId list" "ShutdownImpact list" ShutdownEffect
  | FcRegisterReferrer RawAddr
  | FcAddCopyTrading string string
  | FcAddCounterTrade MarketId
  | FcSetCopyTradingCodeId string
  | FcSetCounterTradeCodeId string
  | FcRemoveOwner

definition requires_owner :: "FactoryExecuteMsg \<Rightarrow> bool" where
  "requires_owner msg = (case msg of
       FcAddMarket _ \<Rightarrow> True | FcSetMarketCodeId _ \<Rightarrow> True | FcSetPositionTokenCodeId _ \<Rightarrow> True
     | FcSetLiquidityTokenCodeId _ \<Rightarrow> True | FcSetCounterTradeCodeId _ \<Rightarrow> True | FcSetOwner _ \<Rightarrow> True
     | FcSetMigrationAdmin _ \<Rightarrow> True | FcSetDao _ \<Rightarrow> True | FcSetKillSwitch _ \<Rightarrow> True
     | FcSetWindDown _ \<Rightarrow> True | FcTransferAllDaoFees \<Rightarrow> True | FcRegisterReferrer _ \<Rightarrow> False
     | FcAddCounterTrade _ \<Rightarrow> False | FcShutdown _ _ _ \<Rightarrow> False | FcAddCopyTrading _ _ \<Rightarrow> False
     | FcSetCopyTradingCodeId _ \<Rightarrow> True | FcRemoveOwner \<Rightarrow> True)"

datatype ContractType =
    FactoryContract | LiquidityTokenContract | PositionTokenContract | MarketContract
  | CopyTradingContract | CounterTradeContract | VaultContract

text \<open>The instantiation messages of the contracts the factory creates, with the code id, the administrator of
  migrations and the label; \<open>SubMsg::reply_on_success\<close> carries the reply id.\<close>

datatype ReplyId =
    ReplyMarket | ReplyPositionToken | ReplyLiquidityTokenLp | ReplyLiquidityTokenXlp | ReplyCopyTrading
  | ReplyCountertrade

definition reply_id_to_u64 :: "ReplyId \<Rightarrow> nat" where
  "reply_id_to_u64 i = (case i of
       ReplyMarket \<Rightarrow> 0 | ReplyPositionToken \<Rightarrow> 1 | ReplyLiquidityTokenLp \<Rightarrow> 2 | ReplyLiquidityTokenXlp \<Rightarrow> 3
     | ReplyCopyTrading \<Rightarrow> 4 | ReplyCountertrade \<Rightarrow> 5)"

definition reply_id_try_from :: "nat \<Rightarrow> ReplyId res" where
  "reply_id_try_from v =
     (if v = 0 then Inr ReplyMarket else if v = 1 then Inr ReplyPositionToken
      else if v = 2 then Inr ReplyLiquidityTokenLp else if v = 3 then Inr ReplyLiquidityTokenXlp
      else if v = 4 then Inr ReplyCopyTrading else if v = 5 then Inr ReplyCountertrade
      else Inl (Perp InternalReply))"

record MarketInstantiateMsg =
  mk_factory :: RawAddr
  mk_config :: "ConfigUpdate option"
  mk_spot_price :: SpotPriceConfigInit
  mk_initial_price :: "InitialPrice option"
  mk_market_id :: MarketId
  mk_token :: TokenInit
  mk_initial_borrow_fee_rate :: Decimal256

record CopyConfigUpdate =
  cpu_name :: "string option"
  cpu_description :: "string option"
  cpu_commission_rate :: "Decimal256 option"

record CopyFactoryConfigUpdate =
  cpf_allowed_rebalance_queries :: "nat option"
  cpf_allowed_lp_token_queries :: "nat option"

datatype InstantiateCall =
    CreateMarket MarketInstantiateMsg
  | CreatePositionToken RawAddr MarketId
  | CreateLiquidityToken RawAddr MarketId LiquidityTokenKind
  | CreateCountertrade RawAddr RawAddr CtConfigUpdate
  | CreateCopyTrading RawAddr CopyConfigUpdate CopyFactoryConfigUpdate

datatype FactorySubMsg =
    SubInstantiate ReplyId Addr nat string InstantiateCall
  | SubTransferDaoFees Addr

text \<open>\<open>cosmwasm_std::Event\<close>.\<close>

record ChainEvent =
  ev_ty :: string
  ev_attributes :: "(string \<times> string) list"

record FactoryResponse =
  fr_messages :: "FactorySubMsg list"
  fr_events :: "ChainEvent list"

section \<open>State\<close>

record InstantiateMarket =
  im_market_id :: MarketId
  im_migration_admin :: Addr

record InstantiateCopyTrading =
  ic_migration_admin :: Addr
  ic_leader :: Addr

record InstantiateCounterTrade =
  it_migration_admin :: Addr
  it_market_id :: MarketId

type_synonym CopyTradingId = u64

record FactoryState =
  fs_owner :: "Addr option"
  fs_migration_admin :: Addr
  fs_dao :: Addr
  fs_kill_switch :: Addr
  fs_wind_down :: Addr
  fs_market_code_id :: u64
  fs_position_token_code_id :: u64
  fs_liquidity_token_code_id :: u64
  fs_copy_trading_code_id :: "u64 option"
  fs_counter_trade_code_id :: "u64 option"
  fs_label_suffix :: string
  fs_market_addrs :: "(string, Addr) fmap"
  fs_market_last_added :: "Timestamp option"
  fs_position_token_addrs :: "(string, Addr) fmap"
  fs_lp_addrs :: "(string, Addr) fmap"
  fs_xlp_addrs :: "(string, Addr) fmap"
  fs_lp_addrs_reverse :: "(Addr, string) fmap"
  fs_xlp_addrs_reverse :: "(Addr, string) fmap"
  fs_all_contracts :: "(Addr, ContractType) fmap"
  fs_copy_trading_addrs :: "(Addr \<times> Addr, CopyTradingId) fmap"
  fs_copy_trading_reverse :: "(CopyTradingId, Addr \<times> Addr) fmap"
  fs_copy_trading_total :: "u64 option"
  fs_copy_trading_last_added :: "Timestamp option"
  fs_counter_trade_addrs :: "(string, Addr) fmap"
  fs_referrers :: "(string, Addr) fmap"
  fs_referee_counts :: "(string, nat) fmap"
  fs_referees_reverse :: "(Addr \<times> Addr, unit) fmap"
  fs_referee_count_reverse :: "(nat \<times> Addr, unit) fmap"
  fs_shutdowns :: "(Addr \<times> string, unit) fmap"
  fs_instantiate_market :: "InstantiateMarket option"
  fs_instantiate_copy_trading :: "InstantiateCopyTrading option"
  fs_instantiate_countertrade :: "InstantiateCounterTrade option"

record FactoryEnv =
  fe_api :: addr_api
  fe_address :: Addr
  fe_block_time :: Timestamp

section \<open>Text\<close>

text \<open>\<open>u64::from_str\<close> of the standard library.\<close>

fun parse_digits :: "nat \<Rightarrow> string \<Rightarrow> u64 res" where
  "parse_digits acc [] = Inr acc"
| "parse_digits acc (c # s) =
     (if CHR ''0'' \<le> c \<and> c \<le> CHR ''9'' then
        let acc = 10 * acc + (of_char c - 48) in
        if acc < u64_lim then parse_digits acc s else Inl (Std ''number too large to fit in target type'')
      else Inl (Std ''invalid digit found in string''))"

definition u64_from_str :: "string \<Rightarrow> u64 res" where
  "u64_from_str s = (case s of
       [] \<Rightarrow> Inl (Std ''cannot parse integer from empty string'')
     | c # rest \<Rightarrow>
         if c = CHR ''+'' \<and> rest \<noteq> [] then parse_digits 0 rest else parse_digits 0 s)"

text \<open>The key of a range over a map of markets.\<close>

definition market_id_from_vec :: "string \<Rightarrow> MarketId res" where
  "market_id_from_vec t = and_then (market_id_parse t) (\<lambda>v. ok_or v (Std ''Invalid market ID''))"

definition extract_attribute :: "string \<Rightarrow> string \<Rightarrow> ChainEvent list \<Rightarrow> string option" where
  "extract_attribute ty key evs =
     Option.bind (find (\<lambda>e. ev_ty e = ty) evs) (\<lambda>e. map_option snd (find (\<lambda>(k, _). k = key) (ev_attributes e)))"

text \<open>A value in double quotes loses them; a quote on one side only stays.\<close>

definition strip_quotes :: "string \<Rightarrow> string" where
  "strip_quotes addr =
     (if 2 \<le> length addr \<and> hd addr = CHR 0x22 \<and> last addr = CHR 0x22 then butlast (tl addr) else addr)"

fun extract_first :: "addr_api \<Rightarrow> ChainEvent list \<Rightarrow> (string \<times> string) list \<Rightarrow> Addr res" where
  "extract_first api evs [] = Inl (Msg ''Couldn't find instantiated address'')"
| "extract_first api evs ((ty, key) # rest) =
     (case extract_attribute ty key evs of
        None \<Rightarrow> extract_first api evs rest
      | Some addr \<Rightarrow> ok_or (api (strip_quotes addr)) (Std ''addr_validate''))"

definition extract_instantiated_addr :: "addr_api \<Rightarrow> ChainEvent list \<Rightarrow> Addr res" where
  "extract_instantiated_addr api evs = extract_first api evs
     [(''cosmwasm.wasm.v1.EventContractInstantiated'', ''contract_address''),
      (''instantiate'', ''_contract_address''), (''instantiate'', ''_contract_addr''),
      (''wasm'', ''contract_address''), (''instantiate_contract'', ''contract_address'')]"

section \<open>Events\<close>

datatype NewContractKind = NewMarket | NewLp | NewXlp | NewPosition

definition new_kind_as_str :: "NewContractKind \<Rightarrow> string" where
  "new_kind_as_str k = (case k of
       NewMarket \<Rightarrow> ''market'' | NewLp \<Rightarrow> ''lp'' | NewXlp \<Rightarrow> ''xlp'' | NewPosition \<Rightarrow> ''position'')"

definition new_kind_from_str :: "string \<Rightarrow> NewContractKind res" where
  "new_kind_from_str s =
     (if s = ''market'' then Inr NewMarket else if s = ''lp'' then Inr NewLp else if s = ''xlp'' then Inr NewXlp
      else if s = ''position'' then Inr NewPosition else Inl (Msg ''Unknown contract kind''))"

record InstantiateEvent =
  ie_kind :: NewContractKind
  ie_market_id :: MarketId
  ie_addr :: Addr

definition instantiate_event_into :: "InstantiateEvent \<Rightarrow> ChainEvent" where
  "instantiate_event_into e = \<lparr>ev_ty = ''instantiate'', ev_attributes =
     [(''kind'', new_kind_as_str (ie_kind e)), (''market-id'', mid_encoded (ie_market_id e)), (''addr'', ie_addr e)]\<rparr>"

definition string_attr :: "ChainEvent \<Rightarrow> string \<Rightarrow> string res" where
  "string_attr evt key =
     ok_or (map_option snd (find (\<lambda>(k, _). k = key) (ev_attributes evt))) (Perp AnyError)"

definition instantiate_event_try_from :: "ChainEvent \<Rightarrow> InstantiateEvent res" where
  "instantiate_event_try_from evt =
     and_then (and_then (string_attr evt ''kind'') new_kind_from_str) (\<lambda>kind.
     and_then (and_then (string_attr evt ''market-id'') market_id_from_vec) (\<lambda>market_id.
     and_then (string_attr evt ''addr'') (\<lambda>addr.
     Inr \<lparr>ie_kind = kind, ie_market_id = market_id, ie_addr = addr\<rparr>)))"

section \<open>Stored addresses\<close>

definition fc_load_market_addr :: "MarketId \<Rightarrow> FactoryState \<Rightarrow> Addr res" where
  "fc_load_market_addr m s = ok_or (fmlookup (fs_market_addrs s) (mid_encoded m)) (Std ''not found'')"

definition save_market_addr :: "FactoryEnv \<Rightarrow> MarketId \<Rightarrow> Addr \<Rightarrow> FactoryState \<Rightarrow> FactoryState" where
  "save_market_addr env m addr s =
     s\<lparr>fs_market_addrs := fmupd (mid_encoded m) addr (fs_market_addrs s),
       fs_all_contracts := fmupd addr MarketContract (fs_all_contracts s),
       fs_market_last_added := Some (fe_block_time env)\<rparr>"

definition save_position_token_addr :: "MarketId \<Rightarrow> Addr \<Rightarrow> FactoryState \<Rightarrow> FactoryState" where
  "save_position_token_addr m addr s =
     s\<lparr>fs_position_token_addrs := fmupd (mid_encoded m) addr (fs_position_token_addrs s),
       fs_all_contracts := fmupd addr PositionTokenContract (fs_all_contracts s)\<rparr>"

definition addrs_map :: "LiquidityTokenKind \<Rightarrow> FactoryState \<Rightarrow> (string, Addr) fmap" where
  "addrs_map kind s = (case kind of KindLp \<Rightarrow> fs_lp_addrs s | KindXlp \<Rightarrow> fs_xlp_addrs s)"

definition put_token_addr :: "LiquidityTokenKind \<Rightarrow> MarketId \<Rightarrow> Addr \<Rightarrow> FactoryState \<Rightarrow> FactoryState" where
  "put_token_addr kind m addr s = (case kind of
       KindLp \<Rightarrow> s\<lparr>fs_lp_addrs := fmupd (mid_encoded m) addr (fs_lp_addrs s),
         fs_lp_addrs_reverse := fmupd addr (mid_encoded m) (fs_lp_addrs_reverse s)\<rparr>
     | KindXlp \<Rightarrow> s\<lparr>fs_xlp_addrs := fmupd (mid_encoded m) addr (fs_xlp_addrs s),
         fs_xlp_addrs_reverse := fmupd addr (mid_encoded m) (fs_xlp_addrs_reverse s)\<rparr>)"

definition save_liquidity_token_addr :: "MarketId \<Rightarrow> Addr \<Rightarrow> LiquidityTokenKind \<Rightarrow> FactoryState \<Rightarrow> FactoryState res" where
  "save_liquidity_token_addr m addr kind s =
     and_then (ensure (fmlookup (addrs_map kind s) (mid_encoded m) = None) (Perp AddressAlreadyExists)) (\<lambda>_.
     let s = put_token_addr kind m addr s in
     Inr (s\<lparr>fs_all_contracts := fmupd addr LiquidityTokenContract (fs_all_contracts s)\<rparr>))"

definition store_new_copy_trading_contract :: "Addr \<Rightarrow> Addr \<Rightarrow> FactoryState \<Rightarrow> FactoryState res" where
  "store_new_copy_trading_contract leader contract s =
     (let contract_index = (case fs_copy_trading_total s of Some n \<Rightarrow> n | None \<Rightarrow> 0) in
     and_then (u64_add contract_index 1) (\<lambda>new_total.
     Inr (s\<lparr>fs_copy_trading_addrs := fmupd (leader, contract) contract_index (fs_copy_trading_addrs s),
       fs_copy_trading_reverse := fmupd contract_index (leader, contract) (fs_copy_trading_reverse s),
       fs_copy_trading_total := Some new_total\<rparr>)))"

end
