(* ===== verification/FactoryMessages.thy ===== *)
theory FactoryMessages
  imports Factory
begin

text \<open>
  The operations of the factory, \<open>contracts/factory/src/contract.rs\<close> with \<open>state/{referrer,shutdown,market,code_ids}.rs\<close>:
  referrals, shutdowns, the messages of the owner and of everybody else, the replies to the instantiations the
  factory asked for, and the queries. \<open>dispatch\<close> is the way the chain executes the messages of a response:
  one after the other, each reply and the messages it asks for before the next, everything undone when one fails.
\<close>

section \<open>Referrals\<close>

definition make_referrer_key :: "Addr \<Rightarrow> string" where
  "make_referrer_key referee = ''ref__'' @ referee"

definition make_referee_count_key :: "Addr \<Rightarrow> string" where
  "make_referee_count_key referrer = ''refcount__'' @ referrer"

definition get_referrer_for :: "addr_api \<Rightarrow> Addr \<Rightarrow> FactoryState \<Rightarrow> Addr option res" where
  "get_referrer_for api referee s =
     transpose_res (map_option (addr_validate api) (fmlookup (fs_referrers s) (make_referrer_key referee)))"

text \<open>Both listings collect one entry more than the limit: the loop runs while the length is at most the limit.
  The second component is \<open>None\<close> when the iterator ended inside the loop, and else what is left of it.\<close>

fun collect_page :: "nat \<Rightarrow> 'a list \<Rightarrow> 'a list \<Rightarrow> 'a list \<times> 'a list option" where
  "collect_page limit acc [] = (acc, if length acc \<le> limit then None else Some [])"
| "collect_page limit acc (x # iter) =
     (if length acc \<le> limit then collect_page limit (acc @ [x]) iter else (acc, Some (x # iter)))"

definition next_start_after :: "'a list \<times> 'a list option \<Rightarrow> 'a option" where
  "next_start_after p = (case snd p of
       None \<Rightarrow> None
     | Some iter \<Rightarrow> if iter \<noteq> [] \<and> fst p \<noteq> [] then Some (last (fst p)) else None)"

definition referees_of :: "Addr \<Rightarrow> FactoryState \<Rightarrow> Addr list" where
  "referees_of referrer s = map snd (filter (\<lambda>(a, _). a = referrer) (fmkeys (fs_referees_reverse s)))"

definition list_referees_for :: "Addr \<Rightarrow> nat \<Rightarrow> Addr option \<Rightarrow> FactoryState \<Rightarrow> Addr list \<times> Addr option" where
  "list_referees_for referrer limit start_after s =
     (let page = collect_page limit []
        (filter (\<lambda>b. case start_after of None \<Rightarrow> True | Some a \<Rightarrow> a < b) (referees_of referrer s)) in
     (fst page, next_start_after page))"

definition u32_add :: "nat \<Rightarrow> nat \<Rightarrow> nat res" where
  "u32_add a b = (if a + b < 2 ^ 32 then Inr (a + b) else Inl (Panic ''u32 add overflow''))"

definition set_referrer_for :: "Addr \<Rightarrow> Addr \<Rightarrow> FactoryState \<Rightarrow> FactoryState res" where
  "set_referrer_for referee referrer s =
     and_then (ensure (fmlookup (fs_referrers s) (make_referrer_key referee) = None)
       (Msg ''Cannot register a new referrer'')) (\<lambda>_.
     let s = s\<lparr>fs_referrers := fmupd (make_referrer_key referee) referrer (fs_referrers s),
           fs_referees_reverse := fmupd (referrer, referee) () (fs_referees_reverse s)\<rparr>;
         key = make_referee_count_key referrer in
     and_then (case fmlookup (fs_referee_counts s) key of
         None \<Rightarrow> Inr (1, s)
       | Some old_count \<Rightarrow>
           map_res (\<lambda>n. (n, s\<lparr>fs_referee_count_reverse := fmdrop (old_count, referrer) (fs_referee_count_reverse s)\<rparr>))
             (u32_add old_count 1)) (\<lambda>(count, s).
     Inr (s\<lparr>fs_referee_counts := fmupd key count (fs_referee_counts s),
       fs_referee_count_reverse := fmupd (count, referrer) () (fs_referee_count_reverse s)\<rparr>)))"

definition list_referee_count :: "nat \<Rightarrow> (nat \<times> Addr) option \<Rightarrow> FactoryState \<Rightarrow> (nat \<times> Addr) list \<times> (nat \<times> Addr) option" where
  "list_referee_count limit start_after s =
     (let page = collect_page limit []
        (rev (filter (\<lambda>b. case start_after of None \<Rightarrow> True | Some a \<Rightarrow> b < a) (fmkeys (fs_referee_count_reverse s)))) in
     (fst page, next_start_after page))"

section \<open>Shutdown\<close>

fun shutdown_market :: "Addr \<Rightarrow> ShutdownEffect \<Rightarrow> ShutdownWallet \<Rightarrow> ShutdownImpact list \<Rightarrow> FactoryState \<Rightarrow> FactoryState res" where
  "shutdown_market market_addr effect wallet [] s = Inr s"
| "shutdown_market market_addr effect wallet (impact # impacts) s =
     (let key = (market_addr, impact_as_bytes impact);
          is_disabled = (fmlookup (fs_shutdowns s) key \<noteq> None) in
     and_then (case (effect, is_disabled) of
         (Disable, True) \<Rightarrow> Inr s
       | (Enable, False) \<Rightarrow> Inr s
       | (Disable, False) \<Rightarrow> and_then (ensure_can_perform impact wallet) (\<lambda>_.
           Inr (s\<lparr>fs_shutdowns := fmupd key () (fs_shutdowns s)\<rparr>))
       | (Enable, True) \<Rightarrow> and_then (ensure_can_perform impact wallet) (\<lambda>_.
           Inr (s\<lparr>fs_shutdowns := fmdrop key (fs_shutdowns s)\<rparr>))) (\<lambda>s.
     shutdown_market market_addr effect wallet impacts s))"

fun shutdown_markets :: "Addr list \<Rightarrow> ShutdownEffect \<Rightarrow> ShutdownWallet \<Rightarrow> ShutdownImpact list \<Rightarrow> FactoryState \<Rightarrow> FactoryState res" where
  "shutdown_markets [] effect wallet impacts s = Inr s"
| "shutdown_markets (a # as) effect wallet impacts s =
     and_then (shutdown_market a effect wallet (if impacts = [] then all_impacts else impacts) s) (\<lambda>s.
     shutdown_markets as effect wallet impacts s)"

text \<open>A range over the markets parses each key and yields the address.\<close>

definition all_market_addrs :: "FactoryState \<Rightarrow> Addr list res" where
  "all_market_addrs s = map_ok (\<lambda>(k, a). map_res (\<lambda>_. a) (market_id_from_vec k)) (entries (fs_market_addrs s))"

definition factory_shutdown ::
    "Addr \<Rightarrow> MarketId list \<Rightarrow> ShutdownImpact list \<Rightarrow> ShutdownEffect \<Rightarrow> FactoryState \<Rightarrow> FactoryState res" where
  "factory_shutdown sender markets impacts effect s =
     and_then (if fs_kill_switch s = sender then Inr KillSwitch
       else if fs_wind_down s = sender then Inr WindDown
       else Inl (Perp Auth)) (\<lambda>wallet.
     and_then (if markets = [] then all_market_addrs s else map_ok (\<lambda>m. fc_load_market_addr m s) markets) (\<lambda>addrs.
     shutdown_markets addrs effect wallet impacts s))"

definition get_shutdown_status :: "MarketId \<Rightarrow> FactoryState \<Rightarrow> ShutdownImpact list res" where
  "get_shutdown_status m s =
     and_then (fc_load_market_addr m s) (\<lambda>addr.
     map_ok (\<lambda>(_, t). impact_try_from_bytes t) (filter (\<lambda>(a, _). a = addr) (fmkeys (fs_shutdowns s))))"

section \<open>Entry points\<close>

definition no_reply :: FactoryResponse where
  "no_reply = \<lparr>fr_messages = [], fr_events = []\<rparr>"

definition factory_instantiate :: "FactoryEnv \<Rightarrow> FactoryInstantiateMsg \<Rightarrow> FactoryState res" where
  "factory_instantiate env msg =
     and_then (u64_from_str (fi_market_code_id msg)) (\<lambda>market.
     and_then (u64_from_str (fi_position_token_code_id msg)) (\<lambda>position_token.
     and_then (u64_from_str (fi_liquidity_token_code_id msg)) (\<lambda>liquidity_token.
     and_then (addr_validate (fe_api env) (fi_owner msg)) (\<lambda>owner.
     and_then (addr_validate (fe_api env) (fi_dao msg)) (\<lambda>dao.
     and_then (addr_validate (fe_api env) (fi_migration_admin msg)) (\<lambda>migration_admin.
     and_then (addr_validate (fe_api env) (fi_kill_switch msg)) (\<lambda>kill_switch.
     and_then (addr_validate (fe_api env) (fi_wind_down msg)) (\<lambda>wind_down.
     and_then (transpose_res (map_option u64_from_str (fi_copy_trading_code_id msg))) (\<lambda>copy_trading.
     and_then (transpose_res (map_option u64_from_str (fi_counter_trade_code_id msg))) (\<lambda>counter_trade.
     Inr \<lparr>fs_owner = Some owner, fs_migration_admin = migration_admin, fs_dao = dao, fs_kill_switch = kill_switch,
       fs_wind_down = wind_down, fs_market_code_id = market, fs_position_token_code_id = position_token,
       fs_liquidity_token_code_id = liquidity_token, fs_copy_trading_code_id = copy_trading,
       fs_counter_trade_code_id = counter_trade,
       fs_label_suffix = (case fi_label_suffix msg of Some t \<Rightarrow> t | None \<Rightarrow> []),
       fs_market_addrs = fmempty, fs_market_last_added = None, fs_position_token_addrs = fmempty,
       fs_lp_addrs = fmempty, fs_xlp_addrs = fmempty, fs_lp_addrs_reverse = fmempty, fs_xlp_addrs_reverse = fmempty,
       fs_all_contracts = fmupd (fe_address env) FactoryContract fmempty,
       fs_copy_trading_addrs = fmempty, fs_copy_trading_reverse = fmempty, fs_copy_trading_total = None,
       fs_copy_trading_last_added = None, fs_counter_trade_addrs = fmempty, fs_referrers = fmempty,
       fs_referee_counts = fmempty, fs_referees_reverse = fmempty, fs_referee_count_reverse = fmempty,
       fs_shutdowns = fmempty, fs_instantiate_market = None, fs_instantiate_copy_trading = None,
       fs_instantiate_countertrade = None\<rparr>))))))))))"

definition add_market :: "FactoryEnv \<Rightarrow> NewMarketParams \<Rightarrow> FactoryState \<Rightarrow> (FactoryState \<times> FactoryResponse) res" where
  "add_market env p s =
     (let market_id = nm_market_id p in
     and_then (ensure (\<not> is_ok (fc_load_market_addr market_id s)) (Msg ''market already exists'')) (\<lambda>_.
     let migration_admin = fs_migration_admin s;
         s = s\<lparr>fs_instantiate_market := Some \<lparr>im_market_id = market_id, im_migration_admin = migration_admin\<rparr>\<rparr> in
     Inr (s, no_reply\<lparr>fr_messages := [SubInstantiate ReplyMarket migration_admin (fs_market_code_id s)
       (''Levana Perps Market - '' @ mid_encoded market_id @ fs_label_suffix s)
       (CreateMarket \<lparr>mk_factory = fe_address env, mk_config = nm_config p, mk_spot_price = nm_spot_price p,
          mk_initial_price = nm_initial_price p, mk_market_id = market_id, mk_token = nm_token p,
          mk_initial_borrow_fee_rate = nm_initial_borrow_fee_rate p\<rparr>)]\<rparr>)))"

definition add_counter_trade :: "FactoryEnv \<Rightarrow> MarketId \<Rightarrow> FactoryState \<Rightarrow> (FactoryState \<times> FactoryResponse) res" where
  "add_counter_trade env market_id s =
     and_then (ok_or (fmlookup (fs_market_addrs s) (mid_encoded market_id)) (Msg ''No market id found'')) (\<lambda>market_addr.
     and_then (ensure (fmlookup (fs_counter_trade_addrs s) (mid_encoded market_id) = None)
       (Msg ''Countertrade contract already exists'')) (\<lambda>_.
     let migration_admin = fs_migration_admin s;
         s = s\<lparr>fs_instantiate_countertrade := Some \<lparr>it_migration_admin = migration_admin, it_market_id = market_id\<rparr>\<rparr> in
     and_then (ok_or (fs_counter_trade_code_id s) (Msg ''countertrade code id is not stored yet'')) (\<lambda>code_id.
     Inr (s, no_reply\<lparr>fr_messages := [SubInstantiate ReplyCountertrade migration_admin code_id
       (''Levana Perps Countertrade - '' @ mid_encoded market_id @ fs_label_suffix s)
       (CreateCountertrade market_addr (fe_address env) no_update)]\<rparr>))))"

definition add_copy_trading :: "Addr option \<Rightarrow> string \<Rightarrow> string \<Rightarrow> FactoryState \<Rightarrow> (FactoryState \<times> FactoryResponse) res" where
  "add_copy_trading sender name description s =
     and_then (ok_or sender (Msg ''Cannot call this method via sudo'')) (\<lambda>leader.
     let migration_admin = fs_migration_admin s;
         s = s\<lparr>fs_instantiate_copy_trading := Some \<lparr>ic_migration_admin = migration_admin, ic_leader = leader\<rparr>\<rparr> in
     and_then (ok_or (fs_copy_trading_code_id s) (Msg ''copy_trading code id is not stored yet'')) (\<lambda>code_id.
     Inr (s, no_reply\<lparr>fr_messages := [SubInstantiate ReplyCopyTrading migration_admin code_id
       (''Levana Perps Copy Trading - '' @ fs_label_suffix s)
       (CreateCopyTrading leader
         \<lparr>cpu_name = Some name, cpu_description = Some description, cpu_commission_rate = None\<rparr>
         \<lparr>cpf_allowed_rebalance_queries = None, cpf_allowed_lp_token_queries = None\<rparr>)]\<rparr>)))"

definition register_referrer :: "addr_api \<Rightarrow> Addr option \<Rightarrow> RawAddr \<Rightarrow> FactoryState \<Rightarrow> (FactoryState \<times> FactoryResponse) res" where
  "register_referrer api sender addr s =
     and_then (ok_or sender (Msg ''Cannot call this method via sudo'')) (\<lambda>sender.
     and_then (addr_validate api addr) (\<lambda>referrer.
     and_then (ensure (sender \<noteq> referrer) (Msg ''You cannot set yourself as your own referrer'')) (\<lambda>_.
     and_then (set_referrer_for sender referrer s) (\<lambda>s.
     Inr (s, no_reply\<lparr>fr_events := [\<lparr>ev_ty = ''register-referrer'',
       ev_attributes = [(''referrer'', referrer), (''referee'', sender)]\<rparr>]\<rparr>)))))"

definition transfer_all_dao_fees :: "FactoryState \<Rightarrow> (FactoryState \<times> FactoryResponse) res" where
  "transfer_all_dao_fees s =
     and_then (all_market_addrs s) (\<lambda>addrs. Inr (s, no_reply\<lparr>fr_messages := map SubTransferDaoFees addrs\<rparr>))"

definition quiet_state :: "FactoryState res \<Rightarrow> (FactoryState \<times> FactoryResponse) res" where
  "quiet_state r = map_res (\<lambda>s. (s, no_reply)) r"

definition factory_execute_msg ::
    "FactoryEnv \<Rightarrow> Addr option \<Rightarrow> FactoryExecuteMsg \<Rightarrow> FactoryState \<Rightarrow> (FactoryState \<times> FactoryResponse) res" where
  "factory_execute_msg env sender msg s = (case msg of
       FcAddMarket params \<Rightarrow> add_market env params s
     | FcAddCounterTrade market_id \<Rightarrow> add_counter_trade env market_id s
     | FcAddCopyTrading name description \<Rightarrow> add_copy_trading sender name description s
     | FcSetMarketCodeId t \<Rightarrow> quiet_state (map_res (\<lambda>n. s\<lparr>fs_market_code_id := n\<rparr>) (u64_from_str t))
     | FcSetPositionTokenCodeId t \<Rightarrow> quiet_state (map_res (\<lambda>n. s\<lparr>fs_position_token_code_id := n\<rparr>) (u64_from_str t))
     | FcSetLiquidityTokenCodeId t \<Rightarrow> quiet_state (map_res (\<lambda>n. s\<lparr>fs_liquidity_token_code_id := n\<rparr>) (u64_from_str t))
     | FcSetCopyTradingCodeId t \<Rightarrow> quiet_state (map_res (\<lambda>n. s\<lparr>fs_copy_trading_code_id := Some n\<rparr>) (u64_from_str t))
     | FcSetCounterTradeCodeId t \<Rightarrow> quiet_state (map_res (\<lambda>n. s\<lparr>fs_counter_trade_code_id := Some n\<rparr>) (u64_from_str t))
     | FcSetOwner a \<Rightarrow> quiet_state (map_res (\<lambda>a. s\<lparr>fs_owner := Some a\<rparr>) (addr_validate (fe_api env) a))
     | FcSetMigrationAdmin a \<Rightarrow> quiet_state (map_res (\<lambda>a. s\<lparr>fs_migration_admin := a\<rparr>) (addr_validate (fe_api env) a))
     | FcSetDao a \<Rightarrow> quiet_state (map_res (\<lambda>a. s\<lparr>fs_dao := a\<rparr>) (addr_validate (fe_api env) a))
     | FcSetKillSwitch a \<Rightarrow> quiet_state (map_res (\<lambda>a. s\<lparr>fs_kill_switch := a\<rparr>) (addr_validate (fe_api env) a))
     | FcSetWindDown a \<Rightarrow> quiet_state (map_res (\<lambda>a. s\<lparr>fs_wind_down := a\<rparr>) (addr_validate (fe_api env) a))
     | FcTransferAllDaoFees \<Rightarrow> transfer_all_dao_fees s
     | FcShutdown markets impacts effect \<Rightarrow>
         and_then (ok_or sender (Msg ''Cannot call this method via sudo'')) (\<lambda>sender.
         quiet_state (factory_shutdown sender markets impacts effect s))
     | FcRegisterReferrer addr \<Rightarrow> register_referrer (fe_api env) sender addr s
     | FcRemoveOwner \<Rightarrow> Inr (s\<lparr>fs_owner := None\<rparr>, no_reply))"

definition factory_execute ::
    "FactoryEnv \<Rightarrow> Addr \<Rightarrow> FactoryExecuteMsg \<Rightarrow> FactoryState \<Rightarrow> (FactoryState \<times> FactoryResponse) res" where
  "factory_execute env sender msg s =
     (if requires_owner msg \<and> Some sender \<noteq> fs_owner s then Inl (Perp Auth)
      else factory_execute_msg env (Some sender) msg s)"

definition factory_sudo ::
    "FactoryEnv \<Rightarrow> FactoryExecuteMsg \<Rightarrow> FactoryState \<Rightarrow> (FactoryState \<times> FactoryResponse) res" where
  "factory_sudo env msg s =
     (if \<not> requires_owner msg \<or> fs_owner s \<noteq> None then Inl (Perp Auth)
      else factory_execute_msg env None msg s)"

section \<open>Replies\<close>

definition instantiated :: "NewContractKind \<Rightarrow> MarketId \<Rightarrow> Addr \<Rightarrow> ChainEvent" where
  "instantiated kind m addr = instantiate_event_into \<lparr>ie_kind = kind, ie_market_id = m, ie_addr = addr\<rparr>"

definition reply_get_instantiate_market :: "FactoryState \<Rightarrow> InstantiateMarket res" where
  "reply_get_instantiate_market s = ok_or (fs_instantiate_market s) (Std ''not found'')"

definition reply_market :: "FactoryEnv \<Rightarrow> Addr \<Rightarrow> FactoryState \<Rightarrow> (FactoryState \<times> FactoryResponse) res" where
  "reply_market env addr s =
     and_then (reply_get_instantiate_market s) (\<lambda>pending.
     let m = im_market_id pending; admin = im_migration_admin pending;
         s = save_market_addr env m addr s;
         label = (\<lambda>t. t @ mid_encoded m @ fs_label_suffix s);
         token = fs_liquidity_token_code_id s in
     Inr (s, \<lparr>fr_messages =
         [SubInstantiate ReplyPositionToken admin (fs_position_token_code_id s) (label ''Levana Perps Position Token - '')
            (CreatePositionToken (fe_address env) m),
          SubInstantiate ReplyLiquidityTokenLp admin token (label ''Levana Perps LP Token - '')
            (CreateLiquidityToken (fe_address env) m KindLp),
          SubInstantiate ReplyLiquidityTokenXlp admin token (label ''Levana Perps xLP Token - '')
            (CreateLiquidityToken (fe_address env) m KindXlp)],
       fr_events = [instantiated NewMarket m addr]\<rparr>))"

definition reply_position_token :: "Addr \<Rightarrow> FactoryState \<Rightarrow> (FactoryState \<times> FactoryResponse) res" where
  "reply_position_token addr s =
     and_then (reply_get_instantiate_market s) (\<lambda>pending.
     Inr (save_position_token_addr (im_market_id pending) addr s,
       no_reply\<lparr>fr_events := [instantiated NewPosition (im_market_id pending) addr]\<rparr>))"

definition reply_liquidity_token :: "LiquidityTokenKind \<Rightarrow> Addr \<Rightarrow> FactoryState \<Rightarrow> (FactoryState \<times> FactoryResponse) res" where
  "reply_liquidity_token kind addr s =
     and_then (reply_get_instantiate_market s) (\<lambda>pending.
     and_then (save_liquidity_token_addr (im_market_id pending) addr kind s) (\<lambda>s.
     Inr (s, no_reply\<lparr>fr_events := [instantiated (case kind of KindLp \<Rightarrow> NewLp | KindXlp \<Rightarrow> NewXlp)
       (im_market_id pending) addr]\<rparr>)))"

definition reply_copy_trading :: "FactoryEnv \<Rightarrow> Addr \<Rightarrow> FactoryState \<Rightarrow> (FactoryState \<times> FactoryResponse) res" where
  "reply_copy_trading env addr s =
     and_then (ok_or (fs_instantiate_copy_trading s) (Msg ''No data in INSTANTIATE_COPY_TRADING'')) (\<lambda>pending.
     let leader = ic_leader pending in
     and_then (store_new_copy_trading_contract leader addr s) (\<lambda>s.
     Inr (s\<lparr>fs_all_contracts := fmupd addr CopyTradingContract (fs_all_contracts s),
         fs_copy_trading_last_added := Some (fe_block_time env)\<rparr>,
       no_reply\<lparr>fr_events := [\<lparr>ev_ty = ''instantiate-copy-trading'',
         ev_attributes = [(''leader'', leader), (''contract'', addr)]\<rparr>]\<rparr>)))"

definition reply_countertrade :: "Addr \<Rightarrow> FactoryState \<Rightarrow> (FactoryState \<times> FactoryResponse) res" where
  "reply_countertrade addr s =
     and_then (ok_or (fs_instantiate_countertrade s) (Msg ''No data in INSTANTIATE_COPY_TRADING'')) (\<lambda>pending.
     let m = it_market_id pending in
     Inr (s\<lparr>fs_all_contracts := fmupd addr CounterTradeContract (fs_all_contracts s),
         fs_counter_trade_addrs := fmupd (mid_encoded m) addr (fs_counter_trade_addrs s)\<rparr>,
       no_reply\<lparr>fr_events := [\<lparr>ev_ty = ''instantiate-counter-trade'',
         ev_attributes = [(''market_id'', mid_encoded m), (''contract'', addr)]\<rparr>]\<rparr>))"

definition factory_reply ::
    "FactoryEnv \<Rightarrow> nat \<Rightarrow> string + ChainEvent list \<Rightarrow> FactoryState \<Rightarrow> (FactoryState \<times> FactoryResponse) res" where
  "factory_reply env i result s =
     (case reply_id_try_from i of
        Inl _ \<Rightarrow> Inl (Perp InternalReply)
      | Inr i \<Rightarrow>
     and_then (case result of Inl msg \<Rightarrow> Inl (Msg msg) | Inr evs \<Rightarrow> Inr evs) (\<lambda>evs.
     and_then (extract_instantiated_addr (fe_api env) evs) (\<lambda>addr.
     case i of
       ReplyMarket \<Rightarrow> reply_market env addr s
     | ReplyPositionToken \<Rightarrow> reply_position_token addr s
     | ReplyLiquidityTokenLp \<Rightarrow> reply_liquidity_token KindLp addr s
     | ReplyLiquidityTokenXlp \<Rightarrow> reply_liquidity_token KindXlp addr s
     | ReplyCopyTrading \<Rightarrow> reply_copy_trading env addr s
     | ReplyCountertrade \<Rightarrow> reply_countertrade addr s)))"

section \<open>Queries\<close>

definition MARKETS_QUERY_LIMIT_DEFAULT :: nat where
  "MARKETS_QUERY_LIMIT_DEFAULT = 15"

definition FACTORY_QUERY_LIMIT_DEFAULT :: nat where
  "FACTORY_QUERY_LIMIT_DEFAULT = 15"

definition query_markets :: "MarketId option \<Rightarrow> nat option \<Rightarrow> FactoryState \<Rightarrow> MarketId list res" where
  "query_markets start_after limit s =
     (let limit = (case limit of Some l \<Rightarrow> l | None \<Rightarrow> MARKETS_QUERY_LIMIT_DEFAULT) in
     map_ok market_id_from_vec (take limit
       (filter (\<lambda>k. case start_after of None \<Rightarrow> True | Some m \<Rightarrow> mid_encoded m < k) (fmkeys (fs_market_addrs s)))))"

record MarketInfoResponse =
  mr_market_addr :: Addr
  mr_position_token :: Addr
  mr_liquidity_token_lp :: Addr
  mr_liquidity_token_xlp :: Addr

definition position_token_addr :: "FactoryState \<Rightarrow> MarketId \<Rightarrow> Addr res" where
  "position_token_addr s m = ok_or (fmlookup (fs_position_token_addrs s) (mid_encoded m)) (Std ''not found'')"

definition liquidity_token_addr :: "FactoryState \<Rightarrow> MarketId \<Rightarrow> LiquidityTokenKind \<Rightarrow> Addr res" where
  "liquidity_token_addr s m kind = ok_or (fmlookup (addrs_map kind s) (mid_encoded m)) (Std ''not found'')"

definition query_market_info :: "MarketId \<Rightarrow> FactoryState \<Rightarrow> MarketInfoResponse res" where
  "query_market_info m s =
     and_then (fc_load_market_addr m s) (\<lambda>market_addr.
     and_then (position_token_addr s m) (\<lambda>position_token.
     and_then (liquidity_token_addr s m KindLp) (\<lambda>lp.
     and_then (liquidity_token_addr s m KindXlp) (\<lambda>xlp.
     Inr \<lparr>mr_market_addr = market_addr, mr_position_token = position_token, mr_liquidity_token_lp = lp,
       mr_liquidity_token_xlp = xlp\<rparr>))))"

definition query_addr_is_contract :: "addr_api \<Rightarrow> RawAddr \<Rightarrow> FactoryState \<Rightarrow> (bool \<times> ContractType option) res" where
  "query_addr_is_contract api addr s =
     and_then (addr_validate api addr) (\<lambda>addr.
     Inr (case fmlookup (fs_all_contracts s) addr of Some t \<Rightarrow> (True, Some t) | None \<Rightarrow> (False, None)))"

record FactoryOwnerResp =
  fo_owner :: "Addr option"
  fo_admin_migration :: Addr
  fo_dao :: Addr
  fo_kill_switch :: Addr
  fo_wind_down :: Addr

definition query_factory_owner :: "FactoryState \<Rightarrow> FactoryOwnerResp" where
  "query_factory_owner s = \<lparr>fo_owner = fs_owner s, fo_admin_migration = fs_migration_admin s, fo_dao = fs_dao s,
     fo_kill_switch = fs_kill_switch s, fo_wind_down = fs_wind_down s\<rparr>"

record CodeIds =
  ci_market :: u64
  ci_position_token :: u64
  ci_liquidity_token :: u64
  ci_counter_trade :: "u64 option"

definition get_code_ids :: "FactoryState \<Rightarrow> CodeIds" where
  "get_code_ids s = \<lparr>ci_market = fs_market_code_id s, ci_position_token = fs_position_token_code_id s,
     ci_liquidity_token = fs_liquidity_token_code_id s, ci_counter_trade = fs_counter_trade_code_id s\<rparr>"

definition capped :: "nat \<Rightarrow> nat option \<Rightarrow> nat" where
  "capped most limit = (case limit of None \<Rightarrow> most | Some l \<Rightarrow> min l most)"

definition query_list_referees ::
    "addr_api \<Rightarrow> RawAddr \<Rightarrow> nat option \<Rightarrow> string option \<Rightarrow> FactoryState \<Rightarrow> (Addr list \<times> Addr option) res" where
  "query_list_referees api addr limit start_after s =
     and_then (addr_validate api addr) (\<lambda>referrer.
     and_then (transpose_res (map_option (addr_validate api) start_after)) (\<lambda>start_after.
     Inr (list_referees_for referrer (capped 30 limit) start_after s)))"

definition query_list_referee_count ::
    "addr_api \<Rightarrow> nat option \<Rightarrow> (RawAddr \<times> nat) option \<Rightarrow> FactoryState \<Rightarrow> ((nat \<times> Addr) list \<times> (nat \<times> Addr) option) res" where
  "query_list_referee_count api limit start_after s =
     and_then (transpose_res (map_option (\<lambda>(referrer, count). map_res (Pair count) (addr_validate api referrer)) start_after)) (\<lambda>start_after.
     Inr (list_referee_count (capped 30 limit) start_after s))"

definition query_counter_trade :: "MarketId option \<Rightarrow> nat option \<Rightarrow> FactoryState \<Rightarrow> (MarketId \<times> Addr) list res" where
  "query_counter_trade start_after limit s =
     map_ok (\<lambda>(k, a). map_res (\<lambda>m. (m, a)) (market_id_from_vec k)) (take (capped FACTORY_QUERY_LIMIT_DEFAULT limit)
       (filter (\<lambda>(k, _). case start_after of None \<Rightarrow> True | Some m \<Rightarrow> mid_encoded m < k) (entries (fs_counter_trade_addrs s))))"

definition query_copy_trading ::
    "addr_api \<Rightarrow> (RawAddr \<times> RawAddr) option \<Rightarrow> nat option \<Rightarrow> FactoryState \<Rightarrow> (Addr \<times> Addr) list res" where
  "query_copy_trading api start_after limit s =
     and_then (case start_after of
         None \<Rightarrow> Inr None
       | Some (leader, contract) \<Rightarrow>
           and_then (addr_validate api leader) (\<lambda>leader.
           and_then (addr_validate api contract) (\<lambda>contract.
           case fmlookup (fs_copy_trading_addrs s) (leader, contract) of
             Some i \<Rightarrow> Inr (Some i)
           | None \<Rightarrow> Inl (Msg ''Invalid combination of leader and contract passed'')))) (\<lambda>start_after.
     Inr (map snd (take (capped FACTORY_QUERY_LIMIT_DEFAULT limit)
       (filter (\<lambda>(i, _). case start_after of None \<Rightarrow> True | Some j \<Rightarrow> j < i) (entries (fs_copy_trading_reverse s))))))"

definition query_copy_trading_for_leader ::
    "addr_api \<Rightarrow> RawAddr \<Rightarrow> RawAddr option \<Rightarrow> nat option \<Rightarrow> FactoryState \<Rightarrow> (Addr \<times> Addr) list res" where
  "query_copy_trading_for_leader api leader start_after limit s =
     and_then (transpose_res (map_option (addr_validate api) start_after)) (\<lambda>start_after.
     and_then (addr_validate api leader) (\<lambda>leader.
     Inr (take (capped FACTORY_QUERY_LIMIT_DEFAULT limit)
       (filter (\<lambda>(l, c). l = leader \<and> (case start_after of None \<Rightarrow> True | Some a \<Rightarrow> a < c))
         (fmkeys (fs_copy_trading_addrs s))))))"

definition query_get_referrer :: "addr_api \<Rightarrow> RawAddr \<Rightarrow> FactoryState \<Rightarrow> Addr option res" where
  "query_get_referrer api addr s = and_then (addr_validate api addr) (\<lambda>referee. get_referrer_for api referee s)"

section \<open>Transactions\<close>

text \<open>\<open>chain s m\<close> is what executing the message \<open>m\<close> gives when the factory is in the state \<open>s\<close>: the events, or
  an error, which undoes the whole transaction. The instantiated contracts do not call the factory back. A reply asks
  for further messages at most once, so a depth of two is enough.\<close>

type_synonym chain = "FactoryState \<Rightarrow> FactorySubMsg \<Rightarrow> ChainEvent list res"

fun dispatch :: "nat \<Rightarrow> FactoryEnv \<Rightarrow> chain \<Rightarrow> FactorySubMsg list \<Rightarrow> FactoryState \<Rightarrow> FactoryState res" where
  "dispatch depth env chain [] s = Inr s"
| "dispatch depth env chain (m # ms) s =
     and_then (chain s m) (\<lambda>evs.
     and_then (case m of
         SubTransferDaoFees _ \<Rightarrow> Inr s
       | SubInstantiate i _ _ _ _ \<Rightarrow>
           (case depth of
              0 \<Rightarrow> Inl (Msg ''out of depth'')
            | Suc depth' \<Rightarrow> and_then (factory_reply env (reply_id_to_u64 i) (Inr evs) s) (\<lambda>(s, resp).
                dispatch depth' env chain (fr_messages resp) s))) (\<lambda>s.
     dispatch depth env chain ms s))"

definition factory_transaction ::
    "FactoryEnv \<Rightarrow> chain \<Rightarrow> Addr option \<Rightarrow> FactoryExecuteMsg \<Rightarrow> FactoryState \<Rightarrow> FactoryState res" where
  "factory_transaction env chain sender msg s =
     and_then (case sender of Some a \<Rightarrow> factory_execute env a msg s | None \<Rightarrow> factory_sudo env msg s) (\<lambda>(s, resp).
     dispatch 2 env chain (fr_messages resp) s)"

end
