(* ===== verification/FactoryInvariant.thy ===== *)
theory FactoryInvariant
  imports FactoryMessages
begin

text \<open>
  What the factory keeps in every state it can reach by whole transactions: the referral books, the registry of
  the contracts, and the shutdown table. A chain never gives a new contract an address that is in use
  (\<open>chain_fresh\<close>), which is what the chain documents of instantiated addresses.
\<close>

section \<open>Steps\<close>

definition chain_fresh :: "addr_api \<Rightarrow> chain \<Rightarrow> bool" where
  "chain_fresh api chain \<longleftrightarrow> (\<forall>s m evs a. chain s m = Inr evs \<longrightarrow> extract_instantiated_addr api evs = Inr a
     \<longrightarrow> fmlookup (fs_all_contracts s) a = None)"

definition factory_start :: "Addr \<Rightarrow> FactoryState \<Rightarrow> bool" where
  "factory_start self s \<longleftrightarrow> (\<exists>env msg. fe_address env = self \<and> factory_instantiate env msg = Inr s)"

inductive factory_step :: "FactoryState \<Rightarrow> FactoryState \<Rightarrow> bool" where
  transaction: "chain_fresh (fe_api env) chain \<Longrightarrow> factory_transaction env chain sender msg s = Inr s' \<Longrightarrow> factory_step s s'"

section \<open>Referrals\<close>

lemma referrer_keys [simp]: "(make_referrer_key a = make_referrer_key b) = (a = b)"
  by (simp add: make_referrer_key_def)

lemma referee_count_keys [simp]: "(make_referee_count_key a = make_referee_count_key b) = (a = b)"
  by (simp add: make_referee_count_key_def)

lemma set_referees_of: "set (referees_of r s) = {e. fmlookup (fs_referees_reverse s) (r, e) = Some ()}"
  by (auto simp: referees_of_def set_fmkeys fmlookup_dom'_iff image_iff)

lemma sorted_referees_of: "sorted_wrt (<) (referees_of r s)"
proof -
  have "sorted_wrt (<) (fmkeys (fs_referees_reverse s))"
    using fmkeys_sorted [of "fs_referees_reverse s"] fmkeys_distinct [of "fs_referees_reverse s"]
    by (simp add: strict_sorted_iff)
  then have "sorted_wrt (<) (filter (\<lambda>(a, _). a = r) (fmkeys (fs_referees_reverse s)))"
    by (rule sorted_wrt_filter)
  then show ?thesis
    unfolding referees_of_def sorted_wrt_map
    by (rule sorted_wrt_mono_rel [rotated]) (auto simp: less_prod_def)
qed

lemma distinct_referees_of [simp]: "distinct (referees_of r s)"
  using sorted_referees_of [of r s] by (simp add: strict_sorted_iff)

lemma referees_cong: "fs_referees_reverse s' = fs_referees_reverse s \<Longrightarrow> referees_of r s' = referees_of r s"
  by (simp add: referees_of_def)

definition referral_books :: "FactoryState \<Rightarrow> bool" where
  "referral_books s \<longleftrightarrow>
     (\<forall>r e. fmlookup (fs_referees_reverse s) (r, e) = Some ()
        \<longleftrightarrow> fmlookup (fs_referrers s) (make_referrer_key e) = Some r)
   \<and> (\<forall>r. fmlookup (fs_referee_counts s) (make_referee_count_key r)
        = (if referees_of r s = [] then None else Some (length (referees_of r s))))
   \<and> (\<forall>n r. fmlookup (fs_referee_count_reverse s) (n, r) = Some ()
        \<longleftrightarrow> fmlookup (fs_referee_counts s) (make_referee_count_key r) = Some n)
   \<and> (\<forall>e. fmlookup (fs_referrers s) (make_referrer_key e) \<noteq> Some e)"

definition same_referrals :: "FactoryState \<Rightarrow> FactoryState \<Rightarrow> bool" where
  "same_referrals s s' \<longleftrightarrow> fs_referrers s' = fs_referrers s \<and> fs_referee_counts s' = fs_referee_counts s
     \<and> fs_referees_reverse s' = fs_referees_reverse s \<and> fs_referee_count_reverse s' = fs_referee_count_reverse s"

lemma referral_books_same: "same_referrals s s' \<Longrightarrow> referral_books s \<Longrightarrow> referral_books s'"
  by (simp add: referral_books_def same_referrals_def referees_of_def)

lemma not_Some_unit: "(v \<noteq> Some ()) = (v = None)"
  by (cases v) auto

lemma unit_option: "(v :: unit option) = Some () \<or> v = None"
  by (cases v) auto

text \<open>A registration adds one entry to each book and moves the count of the referrer up by one.\<close>

lemma set_referrer_result:
  assumes "set_referrer_for e r s = Inr s'"
  obtains n where "fmlookup (fs_referrers s) (make_referrer_key e) = None"
    and "n = (case fmlookup (fs_referee_counts s) (make_referee_count_key r) of None \<Rightarrow> 1 | Some k \<Rightarrow> k + 1)"
    and "fs_referrers s' = fmupd (make_referrer_key e) r (fs_referrers s)"
    and "fs_referees_reverse s' = fmupd (r, e) () (fs_referees_reverse s)"
    and "fs_referee_counts s' = fmupd (make_referee_count_key r) n (fs_referee_counts s)"
    and "fs_referee_count_reverse s' = fmupd (n, r) ()
      (case fmlookup (fs_referee_counts s) (make_referee_count_key r) of
         None \<Rightarrow> fs_referee_count_reverse s | Some k \<Rightarrow> fmdrop (k, r) (fs_referee_count_reverse s))"
    and "s' = s\<lparr>fs_referrers := fs_referrers s', fs_referees_reverse := fs_referees_reverse s',
      fs_referee_counts := fs_referee_counts s', fs_referee_count_reverse := fs_referee_count_reverse s'\<rparr>"
  using assms
  by (cases "fmlookup (fs_referee_counts s) (make_referee_count_key r)")
    (auto simp: set_referrer_for_def Let_def u32_add_def and_then_eq_Inr map_res_def split: if_splits)

lemma set_referrer_books:
  assumes s: "set_referrer_for e r s = Inr s'" and ne: "e \<noteq> r" and books: "referral_books s"
  shows "referral_books s'" "length (referees_of r s') = length (referees_of r s) + 1"
    "q \<noteq> r \<Longrightarrow> referees_of q s' = referees_of q s"
proof -
  obtain n where fresh: "fmlookup (fs_referrers s) (make_referrer_key e) = None"
    and n: "n = (case fmlookup (fs_referee_counts s) (make_referee_count_key r) of None \<Rightarrow> 1 | Some k \<Rightarrow> k + 1)"
    and f: "fs_referrers s' = fmupd (make_referrer_key e) r (fs_referrers s)"
      "fs_referees_reverse s' = fmupd (r, e) () (fs_referees_reverse s)"
      "fs_referee_counts s' = fmupd (make_referee_count_key r) n (fs_referee_counts s)"
      "fs_referee_count_reverse s' = fmupd (n, r) ()
        (case fmlookup (fs_referee_counts s) (make_referee_count_key r) of
           None \<Rightarrow> fs_referee_count_reverse s | Some k \<Rightarrow> fmdrop (k, r) (fs_referee_count_reverse s))"
    by (rule set_referrer_result [OF s]) blast
  have new: "fmlookup (fs_referees_reverse s) (q, e) = None" for q
    using books fresh unit_option [of "fmlookup (fs_referees_reverse s) (q, e)"] by (auto simp: referral_books_def)
  have set_r: "set (referees_of r s') = insert e (set (referees_of r s))"
    by (auto simp: set_referees_of f split: if_splits)
  have e_new: "e \<notin> set (referees_of r s)" using new by (simp add: set_referees_of)
  show len: "length (referees_of r s') = length (referees_of r s) + 1"
    using set_r e_new distinct_card [of "referees_of r s'"] distinct_card [of "referees_of r s"] by simp
  show others: "referees_of q s' = referees_of q s" if "q \<noteq> r" for q
    using that by (intro sorted_distinct_set_unique)
      (auto simp: set_referees_of f sorted_referees_of strict_sorted_imp_sorted split: if_splits)
  have counts: "fmlookup (fs_referee_counts s) (make_referee_count_key r)
      = (if referees_of r s = [] then None else Some (length (referees_of r s)))"
    using books by (simp add: referral_books_def)
  have count: "n = length (referees_of r s')" using n counts len by auto
  have behind: "fmlookup (fs_referee_count_reverse s) (k, q) = Some ()
      \<longleftrightarrow> fmlookup (fs_referee_counts s) (make_referee_count_key q) = Some k" for k q
    using books by (simp add: referral_books_def)
  have old_len: "fmlookup (fs_referee_counts s) (make_referee_count_key r) = Some k \<Longrightarrow> k = length (referees_of r s)" for k
    using counts by (simp split: if_splits)
  have cnt': "fmlookup (fs_referee_count_reverse s') (k, q) = Some ()
      \<longleftrightarrow> fmlookup (fs_referee_counts s') (make_referee_count_key q) = Some k" for k q
    using behind [of k q] by (cases "q = r") (auto simp: f split: option.splits)
  have cs': "fmlookup (fs_referee_counts s') (make_referee_count_key q)
      = (if referees_of q s' = [] then None else Some (length (referees_of q s')))" for q
    using books others [of q] count len by (cases "q = r") (auto simp: f referral_books_def)
  show "referral_books s'"
    unfolding referral_books_def
    using books ne new cnt' cs' by (auto simp: f referral_books_def)
qed

section \<open>Pages\<close>

text \<open>A page holds one entry more than the limit when there are that many.\<close>

lemma collect_page_append: "length acc \<le> l + 1 \<Longrightarrow> collect_page l acc it =
    (if length acc + length it \<le> l then (acc @ it, None)
     else (acc @ take (l + 1 - length acc) it, Some (drop (l + 1 - length acc) it)))"
proof (induction l acc it rule: collect_page.induct)
  case (2 l acc x it)
  then show ?case by (cases "length acc \<le> l") (auto simp: Suc_diff_le)
qed simp

lemma collect_page_eq: "collect_page l [] it =
    (if length it \<le> l then (it, None) else (take (l + 1) it, Some (drop (l + 1) it)))"
  by (simp add: collect_page_append)

text \<open>What a client reads that asks for a page, and for the page after the cursor as long as there is one.\<close>

fun referee_pages :: "nat \<Rightarrow> Addr \<Rightarrow> nat \<Rightarrow> Addr option \<Rightarrow> FactoryState \<Rightarrow> Addr list list" where
  "referee_pages 0 r limit start_after s = []"
| "referee_pages (Suc n) r limit start_after s =
     (case list_referees_for r limit start_after s of
        (page, None) \<Rightarrow> [page]
      | (page, Some a) \<Rightarrow> page # referee_pages n r limit (Some a) s)"

lemma after_last_taken:
  assumes "sorted_wrt (<) xs" and "k < length xs"
  shows "filter (\<lambda>b. (last (take (Suc k) xs) :: 'a::linorder) < b) xs = drop (Suc k) xs"
proof -
  have l: "last (take (Suc k) xs) = xs ! k" using assms(2) by (simp add: take_Suc_conv_app_nth)
  have "filter (\<lambda>b. xs ! k < b) (take (Suc k) xs) = []"
    using assms by (auto simp: filter_empty_conv in_set_conv_nth sorted_wrt_iff_nth_less not_less less_Suc_eq_le
        le_less dest: le_imp_less_or_eq)
  moreover have "filter (\<lambda>b. xs ! k < b) (drop (Suc k) xs) = drop (Suc k) xs"
    using assms by (auto simp: filter_id_conv in_set_conv_nth sorted_wrt_iff_nth_less)
  ultimately have "filter (\<lambda>b. xs ! k < b) (take (Suc k) xs @ drop (Suc k) xs) = drop (Suc k) xs"
    by (simp only: filter_append append.simps)
  then show ?thesis by (simp add: l)
qed

lemma list_referees_eq: "list_referees_for r limit start_after s =
    (let xs = filter (\<lambda>b. case start_after of None \<Rightarrow> True | Some a \<Rightarrow> a < b) (referees_of r s) in
     (take (limit + 1) xs, if limit + 1 < length xs then Some (last (take (limit + 1) xs)) else None))"
  by (auto simp: list_referees_for_def Let_def collect_page_eq next_start_after_def)

lemma referee_pages_concat:
  fixes s r
  defines "rest start_after \<equiv> filter (\<lambda>b. case start_after of None \<Rightarrow> True | Some a \<Rightarrow> a < b) (referees_of r s)"
  assumes "length (rest start_after) < n"
  shows "concat (referee_pages n r limit start_after s) = rest start_after
    \<and> (\<forall>page\<in>set (referee_pages n r limit start_after s). length page \<le> limit + 1)"
  using assms(2)
proof (induction n arbitrary: start_after)
  case (Suc n)
  let ?xs = "rest start_after"
  have page: "list_referees_for r limit start_after s =
      (take (limit + 1) ?xs, if limit + 1 < length ?xs then Some (last (take (limit + 1) ?xs)) else None)"
    by (simp add: list_referees_eq rest_def Let_def)
  show ?case
  proof (cases "limit + 1 < length ?xs")
    case True
    let ?a = "last (take (limit + 1) ?xs)"
    have sorted: "sorted_wrt (<) ?xs" by (simp add: rest_def sorted_wrt_filter sorted_referees_of)
    have mem: "?a \<in> set ?xs" using True by (metis last_in_set list.size(3) in_set_takeD not_less_zero take_eq_Nil
          add_is_0 zero_neq_one)
    then have "rest (Some ?a) = filter (\<lambda>b. ?a < b) ?xs"
      by (auto simp: rest_def filter_filter intro!: filter_cong split: option.splits)
    also have "\<dots> = drop (limit + 1) ?xs" using after_last_taken [OF sorted, of limit] True by simp
    finally have rest: "rest (Some ?a) = drop (limit + 1) ?xs" .
    then have "length (rest (Some ?a)) < n" using Suc.prems True by simp
    from Suc.IH [OF this] show ?thesis using True by (simp add: page rest [simplified])
  qed (simp add: page)
qed simp

section \<open>Shutdown\<close>

definition shut :: "FactoryState \<Rightarrow> Addr \<Rightarrow> ShutdownImpact \<Rightarrow> bool" where
  "shut s a i \<longleftrightarrow> fmlookup (fs_shutdowns s) (a, impact_as_bytes i) \<noteq> None"

lemma shutdown_market_result:
  "shutdown_market a effect w is s = Inr s' \<Longrightarrow>
     s' = s\<lparr>fs_shutdowns := fs_shutdowns s'\<rparr>
   \<and> (\<forall>b t. fmlookup (fs_shutdowns s') (b, t) = (if b = a \<and> t \<in> impact_as_bytes ` set is
          then if effect = Disable then Some () else None else fmlookup (fs_shutdowns s) (b, t)))
   \<and> (\<forall>b i. shut s' b i \<noteq> shut s b i \<longrightarrow> can_perform i w)"
proof (induction a effect w "is" s rule: shutdown_market.induct)
  case (2 a effect w i "is" s)
  define M where "M = (if shut s a i \<longleftrightarrow> effect = Disable then fs_shutdowns s
      else if effect = Disable then fmupd (a, impact_as_bytes i) () (fs_shutdowns s)
      else fmdrop (a, impact_as_bytes i) (fs_shutdowns s))"
  let ?s1 = "s\<lparr>fs_shutdowns := M\<rparr>"
  have rest: "shutdown_market a effect w is ?s1 = Inr s'" and allowed: "(shut s a i \<longleftrightarrow> effect = Disable) \<or> can_perform i w"
    using "2.prems" by (cases effect; cases "shut s a i";
      auto simp: M_def Let_def shut_def ensure_can_perform_def and_then_eq_Inr ensure_eq_Inr)+
  have step: "fmlookup M (b, t) = (if b = a \<and> t = impact_as_bytes i
      then if effect = Disable then Some () else None else fmlookup (fs_shutdowns s) (b, t))" for b t
    by (cases effect) (auto simp: M_def shut_def not_Some_unit split: if_splits)
  have perm: "shut ?s1 b j \<noteq> shut s b j \<Longrightarrow> can_perform j w" for b j
    using allowed step [of b "impact_as_bytes j"] by (cases effect) (auto simp: shut_def split: if_splits)
  have IH: "s' = ?s1\<lparr>fs_shutdowns := fs_shutdowns s'\<rparr>"
    "\<forall>b t. fmlookup (fs_shutdowns s') (b, t) = (if b = a \<and> t \<in> impact_as_bytes ` set is
          then if effect = Disable then Some () else None else fmlookup M (b, t))"
    "\<forall>b j. shut s' b j \<noteq> shut ?s1 b j \<longrightarrow> can_perform j w"
    using 2(1) [OF refl refl rest] by simp_all
  have "shut s' b j \<noteq> shut s b j \<Longrightarrow> can_perform j w" for b j using IH(3) perm by metis
  then show ?case using IH(1,2) step by auto
qed simp

lemma shutdown_markets_result:
  "shutdown_markets as effect w is s = Inr s' \<Longrightarrow>
     s' = s\<lparr>fs_shutdowns := fs_shutdowns s'\<rparr>
   \<and> (\<forall>b t. fmlookup (fs_shutdowns s') (b, t)
        = (if b \<in> set as \<and> t \<in> impact_as_bytes ` set (if is = [] then all_impacts else is)
           then if effect = Disable then Some () else None else fmlookup (fs_shutdowns s) (b, t)))
   \<and> (\<forall>b i. shut s' b i \<noteq> shut s b i \<longrightarrow> can_perform i w)"
proof (induction "as" effect w "is" s rule: shutdown_markets.induct)
  case (2 a "as" effect w "is" s)
  let ?is = "if is = [] then all_impacts else is"
  from "2.prems" obtain s1 where first: "shutdown_market a effect w ?is s = Inr s1"
    and rest: "shutdown_markets as effect w is s1 = Inr s'" by (auto simp: and_then_eq_Inr)
  note one = shutdown_market_result [OF first]
  note more = 2(1) [OF rest]
  have rec: "s' = s\<lparr>fs_shutdowns := fs_shutdowns s'\<rparr>"
    using one more by (metis FactoryState.surjective FactoryState.update_convs(29))
  have "shut s' b i \<noteq> shut s b i \<Longrightarrow> can_perform i w" for b i using one more by metis
  moreover have "fmlookup (fs_shutdowns s') (b, t)
        = (if b \<in> set (a # as) \<and> t \<in> impact_as_bytes ` set ?is
           then if effect = Disable then Some () else None else fmlookup (fs_shutdowns s) (b, t))" for b t
    using one more by simp
  ultimately show ?case using rec by blast
qed simp

section \<open>Instantiations\<close>

definition created :: "FactoryEnv \<Rightarrow> chain \<Rightarrow> FactoryState \<Rightarrow> FactorySubMsg \<Rightarrow> Addr \<Rightarrow> bool" where
  "created env chain s m a \<longleftrightarrow> (\<exists>evs. chain s m = Inr evs \<and> extract_instantiated_addr (fe_api env) evs = Inr a)"

definition reply_to :: "FactoryEnv \<Rightarrow> ReplyId \<Rightarrow> Addr \<Rightarrow> FactoryState \<Rightarrow> (FactoryState \<times> FactoryResponse) res" where
  "reply_to env i a s = (case i of
       ReplyMarket \<Rightarrow> reply_market env a s
     | ReplyPositionToken \<Rightarrow> reply_position_token a s
     | ReplyLiquidityTokenLp \<Rightarrow> reply_liquidity_token KindLp a s
     | ReplyLiquidityTokenXlp \<Rightarrow> reply_liquidity_token KindXlp a s
     | ReplyCopyTrading \<Rightarrow> reply_copy_trading env a s
     | ReplyCountertrade \<Rightarrow> reply_countertrade a s)"

lemma reply_id_roundtrip [simp]: "reply_id_try_from (reply_id_to_u64 i) = Inr i"
  by (cases i) (simp_all add: reply_id_to_u64_def reply_id_try_from_def)

lemma factory_reply_eq: "factory_reply env (reply_id_to_u64 i) (Inr evs) s =
    and_then (extract_instantiated_addr (fe_api env) evs) (\<lambda>a. reply_to env i a s)"
  by (simp add: factory_reply_def reply_to_def)

lemma dispatch_created: "dispatch (Suc d) env chain (SubInstantiate i ad c l call # ms) s = Inr s'' \<longleftrightarrow>
    (\<exists>a s1 resp s2. created env chain s (SubInstantiate i ad c l call) a \<and> reply_to env i a s = Inr (s1, resp)
      \<and> dispatch d env chain (fr_messages resp) s1 = Inr s2 \<and> dispatch (Suc d) env chain ms s2 = Inr s'')"
  by (auto simp: created_def factory_reply_eq and_then_eq_Inr split: prod.splits)

lemma created_fresh: "chain_fresh (fe_api env) chain \<Longrightarrow> created env chain s m a \<Longrightarrow> fmlookup (fs_all_contracts s) a = None"
  by (auto simp: chain_fresh_def created_def)

lemma dispatch_transfers: "dispatch d env chain (map SubTransferDaoFees as) s = Inr s' \<Longrightarrow> s' = s"
  by (induction "as") (auto simp: and_then_eq_Inr)

declare dispatch.simps(2) [simp del]

lemma reply_quiet: "i \<noteq> ReplyMarket \<Longrightarrow> reply_to env i a s = Inr (s', resp) \<Longrightarrow> fr_messages resp = []"
  by (cases i) (auto simp: reply_to_def reply_position_token_def reply_liquidity_token_def reply_copy_trading_def
      reply_countertrade_def Let_def and_then_eq_Inr no_reply_def)

lemma dispatch_quiet: "i \<noteq> ReplyMarket \<Longrightarrow>
    dispatch (Suc d) env chain (SubInstantiate i ad c l call # ms) s = Inr s'' \<longleftrightarrow>
    (\<exists>a s1 resp. created env chain s (SubInstantiate i ad c l call) a \<and> reply_to env i a s = Inr (s1, resp)
      \<and> dispatch (Suc d) env chain ms s1 = Inr s'')"
  unfolding dispatch_created using reply_quiet [of i env _ s] by fastforce

text \<open>The whole transaction that adds a market: the market and its three tokens, or nothing.\<close>

definition market_added :: "FactoryEnv \<Rightarrow> MarketId \<Rightarrow> MarketInfoResponse \<Rightarrow> FactoryState \<Rightarrow> FactoryState \<Rightarrow> bool" where
  "market_added env m r s s' \<longleftrightarrow>
     fmlookup (fs_market_addrs s) (mid_encoded m) = None
   \<and> distinct [mr_market_addr r, mr_position_token r, mr_liquidity_token_lp r, mr_liquidity_token_xlp r]
   \<and> (\<forall>a\<in>{mr_market_addr r, mr_position_token r, mr_liquidity_token_lp r, mr_liquidity_token_xlp r}.
        fmlookup (fs_all_contracts s) a = None)
   \<and> s' = s\<lparr>
       fs_instantiate_market := Some \<lparr>im_market_id = m, im_migration_admin = fs_migration_admin s\<rparr>,
       fs_market_addrs := fmupd (mid_encoded m) (mr_market_addr r) (fs_market_addrs s),
       fs_market_last_added := Some (fe_block_time env),
       fs_position_token_addrs := fmupd (mid_encoded m) (mr_position_token r) (fs_position_token_addrs s),
       fs_lp_addrs := fmupd (mid_encoded m) (mr_liquidity_token_lp r) (fs_lp_addrs s),
       fs_lp_addrs_reverse := fmupd (mr_liquidity_token_lp r) (mid_encoded m) (fs_lp_addrs_reverse s),
       fs_xlp_addrs := fmupd (mid_encoded m) (mr_liquidity_token_xlp r) (fs_xlp_addrs s),
       fs_xlp_addrs_reverse := fmupd (mr_liquidity_token_xlp r) (mid_encoded m) (fs_xlp_addrs_reverse s),
       fs_all_contracts := fmupd (mr_liquidity_token_xlp r) LiquidityTokenContract
         (fmupd (mr_liquidity_token_lp r) LiquidityTokenContract
         (fmupd (mr_position_token r) PositionTokenContract
         (fmupd (mr_market_addr r) MarketContract (fs_all_contracts s))))\<rparr>"

lemma add_market_result:
  assumes fresh: "chain_fresh (fe_api env) chain"
    and add: "add_market env p s = Inr (s0, resp)" and run: "dispatch 2 env chain (fr_messages resp) s0 = Inr s'"
  shows "\<exists>r. market_added env (nm_market_id p) r s s'"
proof -
  let ?m = "nm_market_id p"
  have none: "fmlookup (fs_market_addrs s) (mid_encoded ?m) = None"
    and s0: "s0 = s\<lparr>fs_instantiate_market := Some \<lparr>im_market_id = ?m, im_migration_admin = fs_migration_admin s\<rparr>\<rparr>"
    using add by (auto simp: add_market_def Let_def fc_load_market_addr_def and_then_eq_Inr ensure_eq_Inr ok_or_def is_ok_def
        split: option.splits)
  obtain ad c l call where msg: "fr_messages resp = [SubInstantiate ReplyMarket ad c l call]"
    using add by (auto simp: add_market_def Let_def and_then_eq_Inr)
  obtain a s1 resp1 s2 where a: "created env chain s0 (SubInstantiate ReplyMarket ad c l call) a"
    and s1: "reply_market env a s0 = Inr (s1, resp1)" and run1: "dispatch 1 env chain (fr_messages resp1) s1 = Inr s'"
    using run unfolding msg numeral_2_eq_2 dispatch_created by (auto simp: reply_to_def)
  have s1': "s1 = save_market_addr env ?m a s0"
    using s1 by (auto simp: reply_market_def Let_def reply_get_instantiate_market_def s0 ok_or_def)
  obtain ad1 c1 l1 k1 ad2 c2 l2 k2 ad3 c3 l3 k3 where msgs: "fr_messages resp1 =
      [SubInstantiate ReplyPositionToken ad1 c1 l1 k1, SubInstantiate ReplyLiquidityTokenLp ad2 c2 l2 k2,
       SubInstantiate ReplyLiquidityTokenXlp ad3 c3 l3 k3]"
    using s1 by (auto simp: reply_market_def Let_def and_then_eq_Inr)
  obtain b s3 resp3 c s4 resp4 d resp5 where b: "created env chain s1 (SubInstantiate ReplyPositionToken ad1 c1 l1 k1) b"
    and r3: "reply_position_token b s1 = Inr (s3, resp3)"
    and c: "created env chain s3 (SubInstantiate ReplyLiquidityTokenLp ad2 c2 l2 k2) c"
    and r4: "reply_liquidity_token KindLp c s3 = Inr (s4, resp4)"
    and d: "created env chain s4 (SubInstantiate ReplyLiquidityTokenXlp ad3 c3 l3 k3) d"
    and r5: "reply_liquidity_token KindXlp d s4 = Inr (s', resp5)"
    using run1 unfolding msgs One_nat_def by (auto simp: dispatch_quiet reply_to_def)
  have pending: "fs_instantiate_market s1 = Some \<lparr>im_market_id = ?m, im_migration_admin = fs_migration_admin s\<rparr>"
    by (simp add: s1' save_market_addr_def s0)
  have s3: "s3 = save_position_token_addr ?m b s1"
    using r3 pending by (auto simp: reply_position_token_def reply_get_instantiate_market_def)
  have s4: "s4 = put_token_addr KindLp ?m c s3\<lparr>fs_all_contracts := fmupd c LiquidityTokenContract (fs_all_contracts s3)\<rparr>"
    using r4 pending s3 by (auto simp: reply_liquidity_token_def reply_get_instantiate_market_def save_liquidity_token_addr_def
        save_position_token_addr_def put_token_addr_def and_then_eq_Inr Let_def)
  have s': "s' = put_token_addr KindXlp ?m d s4\<lparr>fs_all_contracts := fmupd d LiquidityTokenContract (fs_all_contracts s4)\<rparr>"
    using r5 pending s3 s4 by (auto simp: reply_liquidity_token_def reply_get_instantiate_market_def save_liquidity_token_addr_def
        save_position_token_addr_def put_token_addr_def and_then_eq_Inr Let_def)
  note new = created_fresh [OF fresh a] created_fresh [OF fresh b] created_fresh [OF fresh c] created_fresh [OF fresh d]
  note steps = s0 s1' s3 s4 save_market_addr_def save_position_token_addr_def put_token_addr_def
  let ?r = "\<lparr>mr_market_addr = a, mr_position_token = b, mr_liquidity_token_lp = c, mr_liquidity_token_xlp = d\<rparr>"
  have "distinct [a, b, c, d] \<and> (\<forall>x\<in>{a, b, c, d}. fmlookup (fs_all_contracts s) x = None)"
    using new by (auto simp: steps split: if_splits)
  then have "market_added env ?m ?r s s'"
    by (simp add: market_added_def none s' steps)
  then show ?thesis ..
qed

definition counter_trade_added :: "MarketId \<Rightarrow> Addr \<Rightarrow> FactoryState \<Rightarrow> FactoryState \<Rightarrow> bool" where
  "counter_trade_added m a s s' \<longleftrightarrow> fmlookup (fs_market_addrs s) (mid_encoded m) \<noteq> None
   \<and> fmlookup (fs_counter_trade_addrs s) (mid_encoded m) = None \<and> fmlookup (fs_all_contracts s) a = None
   \<and> s' = s\<lparr>
       fs_instantiate_countertrade := Some \<lparr>it_migration_admin = fs_migration_admin s, it_market_id = m\<rparr>,
       fs_counter_trade_addrs := fmupd (mid_encoded m) a (fs_counter_trade_addrs s),
       fs_all_contracts := fmupd a CounterTradeContract (fs_all_contracts s)\<rparr>"

lemma add_counter_trade_result:
  assumes fresh: "chain_fresh (fe_api env) chain"
    and add: "add_counter_trade env m s = Inr (s0, resp)" and run: "dispatch 2 env chain (fr_messages resp) s0 = Inr s'"
  shows "\<exists>a. counter_trade_added m a s s'"
proof -
  have known: "fmlookup (fs_market_addrs s) (mid_encoded m) \<noteq> None" "fmlookup (fs_counter_trade_addrs s) (mid_encoded m) = None"
    and s0: "s0 = s\<lparr>fs_instantiate_countertrade := Some \<lparr>it_migration_admin = fs_migration_admin s, it_market_id = m\<rparr>\<rparr>"
    using add by (auto simp: add_counter_trade_def Let_def and_then_eq_Inr ensure_eq_Inr ok_or_eq_Inr)
  obtain ad c l call where msg: "fr_messages resp = [SubInstantiate ReplyCountertrade ad c l call]"
    using add by (auto simp: add_counter_trade_def Let_def and_then_eq_Inr)
  obtain a resp1 where a: "created env chain s0 (SubInstantiate ReplyCountertrade ad c l call) a"
    and r: "reply_countertrade a s0 = Inr (s', resp1)"
    using run unfolding msg numeral_2_eq_2 by (auto simp: dispatch_quiet reply_to_def)
  have "counter_trade_added m a s s'"
    using created_fresh [OF fresh a] r known
    by (auto simp: counter_trade_added_def reply_countertrade_def s0 ok_or_def Let_def)
  then show ?thesis ..
qed

definition copy_trading_added :: "FactoryEnv \<Rightarrow> Addr \<Rightarrow> Addr \<Rightarrow> FactoryState \<Rightarrow> FactoryState \<Rightarrow> bool" where
  "copy_trading_added env leader a s s' \<longleftrightarrow> (let n = (case fs_copy_trading_total s of Some n \<Rightarrow> n | None \<Rightarrow> 0) in
     fmlookup (fs_all_contracts s) a = None
   \<and> s' = s\<lparr>
       fs_instantiate_copy_trading := Some \<lparr>ic_migration_admin = fs_migration_admin s, ic_leader = leader\<rparr>,
       fs_copy_trading_addrs := fmupd (leader, a) n (fs_copy_trading_addrs s),
       fs_copy_trading_reverse := fmupd n (leader, a) (fs_copy_trading_reverse s),
       fs_copy_trading_total := Some (n + 1),
       fs_all_contracts := fmupd a CopyTradingContract (fs_all_contracts s),
       fs_copy_trading_last_added := Some (fe_block_time env)\<rparr>)"

lemma add_copy_trading_result:
  assumes fresh: "chain_fresh (fe_api env) chain"
    and add: "add_copy_trading (Some leader) nm ds s = Inr (s0, resp)" and run: "dispatch 2 env chain (fr_messages resp) s0 = Inr s'"
  shows "\<exists>a. copy_trading_added env leader a s s'"
proof -
  have s0: "s0 = s\<lparr>fs_instantiate_copy_trading := Some \<lparr>ic_migration_admin = fs_migration_admin s, ic_leader = leader\<rparr>\<rparr>"
    using add by (auto simp: add_copy_trading_def Let_def and_then_eq_Inr ok_or_def)
  obtain ad c l call where msg: "fr_messages resp = [SubInstantiate ReplyCopyTrading ad c l call]"
    using add by (auto simp: add_copy_trading_def Let_def and_then_eq_Inr)
  obtain a resp1 where a: "created env chain s0 (SubInstantiate ReplyCopyTrading ad c l call) a"
    and r: "reply_copy_trading env a s0 = Inr (s', resp1)"
    using run unfolding msg numeral_2_eq_2 by (auto simp: dispatch_quiet reply_to_def)
  have "copy_trading_added env leader a s s'"
    using created_fresh [OF fresh a] r
    by (auto simp: copy_trading_added_def reply_copy_trading_def store_new_copy_trading_contract_def s0 ok_or_def
        Let_def and_then_eq_Inr u64_add_def split: if_splits)
  then show ?thesis ..
qed

text \<open>What a whole transaction can do.\<close>

definition same_registry :: "FactoryState \<Rightarrow> FactoryState \<Rightarrow> bool" where
  "same_registry s s' \<longleftrightarrow> fs_market_addrs s' = fs_market_addrs s \<and> fs_position_token_addrs s' = fs_position_token_addrs s
     \<and> fs_lp_addrs s' = fs_lp_addrs s \<and> fs_xlp_addrs s' = fs_xlp_addrs s
     \<and> fs_lp_addrs_reverse s' = fs_lp_addrs_reverse s \<and> fs_xlp_addrs_reverse s' = fs_xlp_addrs_reverse s
     \<and> fs_all_contracts s' = fs_all_contracts s \<and> fs_counter_trade_addrs s' = fs_counter_trade_addrs s
     \<and> fs_copy_trading_addrs s' = fs_copy_trading_addrs s \<and> fs_copy_trading_reverse s' = fs_copy_trading_reverse s
     \<and> fs_copy_trading_total s' = fs_copy_trading_total s"

definition same_shutdowns :: "FactoryState \<Rightarrow> FactoryState \<Rightarrow> bool" where
  "same_shutdowns s s' \<longleftrightarrow> fs_shutdowns s' = fs_shutdowns s"

lemma quiet_state_Inr: "quiet_state r = Inr (s, resp) \<longleftrightarrow> r = Inr s \<and> resp = no_reply"
  by (cases r) (auto simp: quiet_state_def map_res_def)

lemma msg_cases:
  assumes "chain_fresh (fe_api env) chain" and "factory_transaction env chain sender msg s = Inr s'"
  obtains (market) p r where "msg = FcAddMarket p" "market_added env (nm_market_id p) r s s'"
  | (counter_trade) m a where "msg = FcAddCounterTrade m" "counter_trade_added m a s s'"
  | (copy_trading) nm ds leader a where "msg = FcAddCopyTrading nm ds" "sender = Some leader" "copy_trading_added env leader a s s'"
  | (referrer) raw e r where "msg = FcRegisterReferrer raw" "sender = Some e" "e \<noteq> r" "set_referrer_for e r s = Inr s'"
      "addr_validate (fe_api env) raw = Inr r"
  | (shutdown) ms imps eff a where "msg = FcShutdown ms imps eff" "sender = Some a" "factory_shutdown a ms imps eff s = Inr s'"
  | (admin) "same_registry s s'" "same_shutdowns s s'" "same_referrals s s'" "requires_owner msg"
proof -
  obtain s0 resp where e: "factory_execute_msg env sender msg s = Inr (s0, resp)"
    and run: "dispatch 2 env chain (fr_messages resp) s0 = Inr s'"
    using assms(2) by (auto simp: factory_transaction_def factory_execute_def factory_sudo_def and_then_eq_Inr
        split: option.splits if_splits)
  note defs = factory_execute_msg_def quiet_state_Inr and_then_eq_Inr no_reply_def
  note same = same_registry_def same_shutdowns_def same_referrals_def
  show thesis
  proof (cases msg)
    case (FcAddMarket p)
    then have "add_market env p s = Inr (s0, resp)" using e by (simp add: factory_execute_msg_def)
    from add_market_result [OF assms(1) this run] show ?thesis using market FcAddMarket by blast
  next
    case (FcAddCounterTrade m)
    then have "add_counter_trade env m s = Inr (s0, resp)" using e by (simp add: factory_execute_msg_def)
    from add_counter_trade_result [OF assms(1) this run] show ?thesis using counter_trade FcAddCounterTrade by blast
  next
    case (FcAddCopyTrading nm ds)
    then obtain leader where l: "sender = Some leader" and "add_copy_trading (Some leader) nm ds s = Inr (s0, resp)"
      using e by (cases sender) (auto simp: factory_execute_msg_def add_copy_trading_def ok_or_def)
    from add_copy_trading_result [OF assms(1) this(2) run] show ?thesis using copy_trading FcAddCopyTrading l by blast
  next
    case (FcRegisterReferrer raw)
    then show ?thesis using e run referrer
      by (auto simp: defs register_referrer_def ensure_eq_Inr ok_or_eq_Inr)
  next
    case (FcShutdown ms imps eff)
    then show ?thesis using e run shutdown by (auto simp: defs ok_or_eq_Inr)
  next
    case FcTransferAllDaoFees
    then obtain addrs where "s0 = s" "resp = no_reply\<lparr>fr_messages := map SubTransferDaoFees addrs\<rparr>"
      using e by (auto simp: factory_execute_msg_def transfer_all_dao_fees_def and_then_eq_Inr)
    then have "s' = s" using run dispatch_transfers [of 2 env chain addrs s s'] by simp
    then show ?thesis using FcTransferAllDaoFees admin by (simp add: same requires_owner_def)
  qed (use e run admin in \<open>auto simp: defs same requires_owner_def\<close>)
qed

section \<open>The registry\<close>

definition one_to_one :: "('k, Addr) fmap \<Rightarrow> bool" where
  "one_to_one m \<longleftrightarrow> (\<forall>k k' a. fmlookup m k = Some a \<longrightarrow> fmlookup m k' = Some a \<longrightarrow> k = k')"

lemma one_to_one_upd: "one_to_one m \<Longrightarrow> \<forall>k. fmlookup m k \<noteq> Some a \<Longrightarrow> one_to_one (fmupd k' a m)"
  unfolding one_to_one_def by (metis fmupd_lookup option.inject)

lemma one_to_one_empty [simp]: "one_to_one fmempty"
  by (simp add: one_to_one_def)

lemma range_upd: "fmlookup m k = None \<Longrightarrow> (\<exists>j. fmlookup (fmupd k a m) j = Some b) \<longleftrightarrow> b = a \<or> (\<exists>j. fmlookup m j = Some b)"
  by (metis fmupd_lookup option.distinct(1) option.inject)

text \<open>Where a contract of each type is listed.\<close>

definition listed :: "Addr \<Rightarrow> FactoryState \<Rightarrow> ContractType \<Rightarrow> Addr \<Rightarrow> bool" where
  "listed self s t a = (case t of
       FactoryContract \<Rightarrow> a = self
     | MarketContract \<Rightarrow> \<exists>k. fmlookup (fs_market_addrs s) k = Some a
     | PositionTokenContract \<Rightarrow> \<exists>k. fmlookup (fs_position_token_addrs s) k = Some a
     | LiquidityTokenContract \<Rightarrow> (\<exists>k. fmlookup (fs_lp_addrs s) k = Some a) \<or> (\<exists>k. fmlookup (fs_xlp_addrs s) k = Some a)
     | CopyTradingContract \<Rightarrow> \<exists>l. fmlookup (fs_copy_trading_addrs s) (l, a) \<noteq> None
     | CounterTradeContract \<Rightarrow> \<exists>k. fmlookup (fs_counter_trade_addrs s) k = Some a
     | VaultContract \<Rightarrow> False)"

definition registry :: "Addr \<Rightarrow> FactoryState \<Rightarrow> bool" where
  "registry self s \<longleftrightarrow> (\<forall>t a. fmlookup (fs_all_contracts s) a = Some t \<longleftrightarrow> listed self s t a)"

definition markets_complete :: "FactoryState \<Rightarrow> bool" where
  "markets_complete s \<longleftrightarrow>
     (\<forall>k. fmlookup (fs_position_token_addrs s) k = None \<longleftrightarrow> fmlookup (fs_market_addrs s) k = None)
   \<and> (\<forall>k. fmlookup (fs_lp_addrs s) k = None \<longleftrightarrow> fmlookup (fs_market_addrs s) k = None)
   \<and> (\<forall>k. fmlookup (fs_xlp_addrs s) k = None \<longleftrightarrow> fmlookup (fs_market_addrs s) k = None)
   \<and> (\<forall>k. fmlookup (fs_counter_trade_addrs s) k \<noteq> None \<longrightarrow> fmlookup (fs_market_addrs s) k \<noteq> None)"

definition addresses_distinct :: "FactoryState \<Rightarrow> bool" where
  "addresses_distinct s \<longleftrightarrow> one_to_one (fs_market_addrs s) \<and> one_to_one (fs_position_token_addrs s)
   \<and> one_to_one (fs_lp_addrs s) \<and> one_to_one (fs_xlp_addrs s) \<and> one_to_one (fs_counter_trade_addrs s)
   \<and> (\<forall>k k' a. fmlookup (fs_lp_addrs s) k = Some a \<longrightarrow> fmlookup (fs_xlp_addrs s) k' \<noteq> Some a)
   \<and> (\<forall>k a. fmlookup (fs_lp_addrs_reverse s) a = Some k \<longleftrightarrow> fmlookup (fs_lp_addrs s) k = Some a)
   \<and> (\<forall>k a. fmlookup (fs_xlp_addrs_reverse s) a = Some k \<longleftrightarrow> fmlookup (fs_xlp_addrs s) k = Some a)"

definition copies_indexed :: "FactoryState \<Rightarrow> bool" where
  "copies_indexed s \<longleftrightarrow>
     (\<forall>l c i. fmlookup (fs_copy_trading_reverse s) i = Some (l, c) \<longleftrightarrow> fmlookup (fs_copy_trading_addrs s) (l, c) = Some i)
   \<and> (\<forall>i. fmlookup (fs_copy_trading_reverse s) i \<noteq> None \<longleftrightarrow> i < (case fs_copy_trading_total s of Some n \<Rightarrow> n | None \<Rightarrow> 0))
   \<and> (\<forall>l l' c. fmlookup (fs_copy_trading_addrs s) (l, c) \<noteq> None \<longrightarrow> fmlookup (fs_copy_trading_addrs s) (l', c) \<noteq> None \<longrightarrow> l = l')"

definition shutdowns_known :: "FactoryState \<Rightarrow> bool" where
  "shutdowns_known s \<longleftrightarrow> (\<forall>a t. fmlookup (fs_shutdowns s) (a, t) \<noteq> None
     \<longrightarrow> (\<exists>k. fmlookup (fs_market_addrs s) k = Some a) \<and> (\<exists>i. t = impact_as_bytes i))"

definition factory_inv :: "Addr \<Rightarrow> FactoryState \<Rightarrow> bool" where
  "factory_inv self s \<longleftrightarrow> registry self s \<and> markets_complete s \<and> addresses_distinct s \<and> copies_indexed s
     \<and> shutdowns_known s \<and> referral_books s"

lemma unlisted: "registry self s \<Longrightarrow> fmlookup (fs_all_contracts s) a = None \<Longrightarrow> \<not> listed self s t a"
  unfolding registry_def by (metis option.distinct(1))

lemma listed_same: "same_registry s s' \<Longrightarrow> listed self s' t a = listed self s t a"
  by (cases t) (simp_all add: listed_def same_registry_def)

lemma factory_inv_same:
  assumes "same_registry s s'" and "same_shutdowns s s'" and "same_referrals s s'" and "factory_inv self s"
  shows "factory_inv self s'"
proof -
  note same = assms(1) [unfolded same_registry_def] assms(2) [unfolded same_shutdowns_def]
  have "registry self s' = registry self s" using same listed_same [OF assms(1)] by (simp add: registry_def)
  moreover have "markets_complete s' = markets_complete s" using same by (simp add: markets_complete_def)
  moreover have "addresses_distinct s' = addresses_distinct s" using same by (simp add: addresses_distinct_def)
  moreover have "copies_indexed s' = copies_indexed s" using same by (simp add: copies_indexed_def)
  moreover have "shutdowns_known s' = shutdowns_known s" using same by (simp add: shutdowns_known_def)
  ultimately show ?thesis using assms(4) referral_books_same [OF assms(3)] by (simp add: factory_inv_def)
qed

lemma factory_start_inv: "factory_start self s \<Longrightarrow> factory_inv self s"
proof -
  assume "factory_start self s"
  then obtain env msg where self: "fe_address env = self" and s: "factory_instantiate env msg = Inr s"
    by (auto simp: factory_start_def)
  then have e: "fs_all_contracts s = fmupd self FactoryContract fmempty" "fs_market_addrs s = fmempty"
    "fs_position_token_addrs s = fmempty" "fs_lp_addrs s = fmempty" "fs_xlp_addrs s = fmempty"
    "fs_lp_addrs_reverse s = fmempty" "fs_xlp_addrs_reverse s = fmempty" "fs_copy_trading_addrs s = fmempty"
    "fs_copy_trading_reverse s = fmempty" "fs_copy_trading_total s = None" "fs_counter_trade_addrs s = fmempty"
    "fs_referrers s = fmempty" "fs_referee_counts s = fmempty" "fs_referees_reverse s = fmempty"
    "fs_referee_count_reverse s = fmempty" "fs_shutdowns s = fmempty"
    by (auto simp: factory_instantiate_def and_then_eq_Inr)
  have "registry self s" by (auto simp: registry_def listed_def e split: ContractType.splits)
  then show ?thesis
    by (simp add: factory_inv_def markets_complete_def addresses_distinct_def copies_indexed_def shutdowns_known_def
        referral_books_def referees_of_def fmkeys_def e)
qed

lemma market_added_inv:
  assumes added: "market_added env m r s s'" and inv: "factory_inv self s"
  shows "factory_inv self s'"
proof -
  have reg: "registry self s" using inv by (simp add: factory_inv_def)
  let ?k = "mid_encoded m"
  obtain a p l x where r: "r = \<lparr>mr_market_addr = a, mr_position_token = p, mr_liquidity_token_lp = l, mr_liquidity_token_xlp = x\<rparr>"
    by (cases r)
  have new: "fmlookup (fs_market_addrs s) ?k = None" "distinct [a, p, l, x]"
    "fmlookup (fs_all_contracts s) a = None" "fmlookup (fs_all_contracts s) p = None"
    "fmlookup (fs_all_contracts s) l = None" "fmlookup (fs_all_contracts s) x = None"
    using added by (auto simp: market_added_def r)
  have s': "fs_market_addrs s' = fmupd ?k a (fs_market_addrs s)" "fs_position_token_addrs s' = fmupd ?k p (fs_position_token_addrs s)"
    "fs_lp_addrs s' = fmupd ?k l (fs_lp_addrs s)" "fs_xlp_addrs s' = fmupd ?k x (fs_xlp_addrs s)"
    "fs_lp_addrs_reverse s' = fmupd l ?k (fs_lp_addrs_reverse s)" "fs_xlp_addrs_reverse s' = fmupd x ?k (fs_xlp_addrs_reverse s)"
    "fs_all_contracts s' = fmupd x LiquidityTokenContract (fmupd l LiquidityTokenContract
       (fmupd p PositionTokenContract (fmupd a MarketContract (fs_all_contracts s))))"
    "fs_counter_trade_addrs s' = fs_counter_trade_addrs s" "fs_copy_trading_addrs s' = fs_copy_trading_addrs s"
    "fs_copy_trading_reverse s' = fs_copy_trading_reverse s" "fs_copy_trading_total s' = fs_copy_trading_total s"
    "fs_shutdowns s' = fs_shutdowns s" "same_referrals s s'"
    using added by (auto simp: market_added_def r same_referrals_def)
  have none: "fmlookup (fs_position_token_addrs s) ?k = None" "fmlookup (fs_lp_addrs s) ?k = None" "fmlookup (fs_xlp_addrs s) ?k = None"
    "fmlookup (fs_counter_trade_addrs s) ?k = None"
    using inv new(1) by (auto simp: factory_inv_def markets_complete_def)
  note fresh = unlisted [OF reg new(3)] unlisted [OF reg new(4)] unlisted [OF reg new(5)] unlisted [OF reg new(6)]
  have "listed self s' t b \<longleftrightarrow> listed self s t b \<or> (t, b) \<in> {(MarketContract, a), (PositionTokenContract, p),
      (LiquidityTokenContract, l), (LiquidityTokenContract, x)}" for t b
    unfolding listed_def s' range_upd [OF new(1)] range_upd [OF none(1)] range_upd [OF none(2)] range_upd [OF none(3)]
    by (cases t) auto
  moreover have "fmlookup (fs_all_contracts s') b = Some t \<longleftrightarrow> fmlookup (fs_all_contracts s) b = Some t
      \<or> (t, b) \<in> {(MarketContract, a), (PositionTokenContract, p), (LiquidityTokenContract, l), (LiquidityTokenContract, x)}" for t b
    using new(2-) by (auto simp: s')
  ultimately have "registry self s'" using reg by (simp add: registry_def)
  moreover have "markets_complete s'"
    using inv by (auto simp: factory_inv_def markets_complete_def s')
  moreover have "addresses_distinct s'"
  proof -
    have old: "addresses_distinct s" using inv by (simp add: factory_inv_def)
    have unused: "\<forall>k. fmlookup (fs_market_addrs s) k \<noteq> Some a" "\<forall>k. fmlookup (fs_position_token_addrs s) k \<noteq> Some p"
      "\<forall>k. fmlookup (fs_lp_addrs s) k \<noteq> Some l" "\<forall>k. fmlookup (fs_xlp_addrs s) k \<noteq> Some x"
      "\<forall>k. fmlookup (fs_lp_addrs s) k \<noteq> Some x" "\<forall>k. fmlookup (fs_xlp_addrs s) k \<noteq> Some l"
      using fresh(1) [of MarketContract] fresh(2) [of PositionTokenContract] fresh(3) [of LiquidityTokenContract]
        fresh(4) [of LiquidityTokenContract] by (auto simp: listed_def)
    show ?thesis
      using old unused none(2,3) new(2) unfolding addresses_distinct_def s'
      by (auto intro!: one_to_one_upd)
  qed
  moreover have "copies_indexed s' = copies_indexed s" by (simp add: copies_indexed_def s')
  moreover have "shutdowns_known s'"
    unfolding shutdowns_known_def s' range_upd [OF new(1)]
    using inv by (simp add: factory_inv_def shutdowns_known_def)
  moreover have "referral_books s'" using inv referral_books_same [OF s'(13)] by (simp add: factory_inv_def)
  ultimately show ?thesis using inv by (simp add: factory_inv_def)
qed

lemma counter_trade_added_inv:
  assumes added: "counter_trade_added m a s s'" and inv: "factory_inv self s"
  shows "factory_inv self s'"
proof -
  have reg: "registry self s" using inv by (simp add: factory_inv_def)
  let ?k = "mid_encoded m"
  have known: "fmlookup (fs_market_addrs s) ?k \<noteq> None" and none: "fmlookup (fs_counter_trade_addrs s) ?k = None"
    and new: "fmlookup (fs_all_contracts s) a = None"
    and s': "s' = s\<lparr>fs_instantiate_countertrade := Some \<lparr>it_migration_admin = fs_migration_admin s, it_market_id = m\<rparr>,
       fs_counter_trade_addrs := fmupd ?k a (fs_counter_trade_addrs s),
       fs_all_contracts := fmupd a CounterTradeContract (fs_all_contracts s)\<rparr>"
    using added by (auto simp: counter_trade_added_def)
  have "listed self s' t b \<longleftrightarrow> listed self s t b \<or> (t = CounterTradeContract \<and> b = a)" for t b
    using range_upd [OF none, of a b] by (cases t) (auto simp: listed_def s')
  moreover have "fmlookup (fs_all_contracts s') b = Some t \<longleftrightarrow>
      fmlookup (fs_all_contracts s) b = Some t \<or> (t = CounterTradeContract \<and> b = a)" for t b
    using new by (auto simp: s')
  ultimately have "registry self s'" using reg by (simp add: registry_def)
  moreover have "addresses_distinct s'"
    using inv unlisted [OF reg new, of CounterTradeContract]
    by (auto simp: factory_inv_def addresses_distinct_def s' listed_def intro!: one_to_one_upd)
  moreover have "markets_complete s'" using inv known by (auto simp: factory_inv_def markets_complete_def s')
  moreover have "referral_books s'" using inv referral_books_same [of s s'] by (simp add: factory_inv_def same_referrals_def s')
  moreover have "copies_indexed s' = copies_indexed s" "shutdowns_known s' = shutdowns_known s"
    by (simp_all add: copies_indexed_def shutdowns_known_def s')
  ultimately show ?thesis using inv by (simp add: factory_inv_def)
qed

lemma copy_trading_added_inv:
  assumes added: "copy_trading_added env leader a s s'" and inv: "factory_inv self s"
  shows "factory_inv self s'"
proof -
  have reg: "registry self s" using inv by (simp add: factory_inv_def)
  define n where "n = (case fs_copy_trading_total s of Some n \<Rightarrow> n | None \<Rightarrow> 0)"
  have new: "fmlookup (fs_all_contracts s) a = None"
    and s': "s' = s\<lparr>fs_instantiate_copy_trading := Some \<lparr>ic_migration_admin = fs_migration_admin s, ic_leader = leader\<rparr>,
       fs_copy_trading_addrs := fmupd (leader, a) n (fs_copy_trading_addrs s),
       fs_copy_trading_reverse := fmupd n (leader, a) (fs_copy_trading_reverse s),
       fs_copy_trading_total := Some (n + 1),
       fs_all_contracts := fmupd a CopyTradingContract (fs_all_contracts s),
       fs_copy_trading_last_added := Some (fe_block_time env)\<rparr>"
    using added by (auto simp: copy_trading_added_def n_def Let_def)
  have unused: "fmlookup (fs_copy_trading_addrs s) (l, a) = None" for l
    using unlisted [OF reg new, of CopyTradingContract] by (auto simp: listed_def)
  have index: "fmlookup (fs_copy_trading_addrs s) (l, c) = Some i \<longleftrightarrow> fmlookup (fs_copy_trading_reverse s) i = Some (l, c)"
    and bound: "fmlookup (fs_copy_trading_reverse s) i \<noteq> None \<longleftrightarrow> i < n"
    and one: "fmlookup (fs_copy_trading_addrs s) (l, c) \<noteq> None \<Longrightarrow> fmlookup (fs_copy_trading_addrs s) (l', c) \<noteq> None \<Longrightarrow> l = l'"
    for l l' c i
    using inv unfolding factory_inv_def copies_indexed_def n_def by blast+
  have free: "fmlookup (fs_copy_trading_reverse s) n = None" using bound [of n] by (simp only: less_irrefl not_not simp_thms)
  have "listed self s' t b \<longleftrightarrow> listed self s t b \<or> (t = CopyTradingContract \<and> b = a)" for t b
    by (cases t) (auto simp: listed_def s')
  moreover have "fmlookup (fs_all_contracts s') b = Some t \<longleftrightarrow>
      fmlookup (fs_all_contracts s) b = Some t \<or> (t = CopyTradingContract \<and> b = a)" for t b
    using new by (auto simp: s')
  ultimately have "registry self s'" using reg by (simp add: registry_def)
  moreover have "copies_indexed s'"
    unfolding copies_indexed_def
  proof (intro conjI allI impI)
    show "fmlookup (fs_copy_trading_reverse s') i = Some (l, c) \<longleftrightarrow> fmlookup (fs_copy_trading_addrs s') (l, c) = Some i" for l c i
      using unused [of l] free index [of l c i] by (auto simp: s')
    show "fmlookup (fs_copy_trading_reverse s') i \<noteq> None \<longleftrightarrow> i < (case fs_copy_trading_total s' of Some n \<Rightarrow> n | None \<Rightarrow> 0)" for i
      using bound [of i] by (simp add: s' less_Suc_eq)
    show "l = l'" if "fmlookup (fs_copy_trading_addrs s') (l, c) \<noteq> None" "fmlookup (fs_copy_trading_addrs s') (l', c) \<noteq> None" for l l' c
      using that one [of l c l'] unused by (auto simp: s' split: if_splits)
  qed
  moreover have "referral_books s'" using inv referral_books_same [of s s'] by (simp add: factory_inv_def same_referrals_def s')
  moreover have "markets_complete s' = markets_complete s" "addresses_distinct s' = addresses_distinct s"
    "shutdowns_known s' = shutdowns_known s"
    by (simp_all add: markets_complete_def addresses_distinct_def shutdowns_known_def s')
  ultimately show ?thesis using inv by (simp add: factory_inv_def)
qed

lemma factory_shutdown_result:
  assumes "factory_shutdown a markets imps effect s = Inr s'"
  obtains w addrs where "(w = KillSwitch \<and> fs_kill_switch s = a) \<or> (w = WindDown \<and> fs_kill_switch s \<noteq> a \<and> fs_wind_down s = a)"
    and "(if markets = [] then all_market_addrs s else map_ok (\<lambda>m. fc_load_market_addr m s) markets) = Inr addrs"
    and "shutdown_markets addrs effect w imps s = Inr s'"
  using assms by (auto simp: factory_shutdown_def and_then_eq_Inr split: if_splits)

lemma map_ok_set: "map_ok f xs = Inr ys \<Longrightarrow> y \<in> set ys \<longleftrightarrow> (\<exists>x\<in>set xs. f x = Inr y)"
  by (induction xs arbitrary: ys) (auto simp: and_then_eq_Inr)

lemma map_ok_defined: "map_ok f xs = Inr ys \<Longrightarrow> x \<in> set xs \<Longrightarrow> \<exists>y. f x = Inr y"
  by (induction xs arbitrary: ys) (auto simp: and_then_eq_Inr)

lemma all_market_addrs_set: "all_market_addrs s = Inr addrs \<Longrightarrow> a \<in> set addrs \<Longrightarrow> \<exists>k. fmlookup (fs_market_addrs s) k = Some a"
  by (auto simp: all_market_addrs_def map_ok_set set_entries)

lemma shutdown_addrs_known:
  assumes "(if markets = [] then all_market_addrs s else map_ok (\<lambda>m. fc_load_market_addr m s) markets) = Inr addrs" "a \<in> set addrs"
  shows "\<exists>k. fmlookup (fs_market_addrs s) k = Some a"
  using assms all_market_addrs_set [of s addrs a]
  by (auto simp: map_ok_set fc_load_market_addr_def ok_or_eq_Inr split: if_splits)

lemma factory_shutdown_inv:
  assumes "factory_shutdown a markets imps effect s = Inr s'" and inv: "factory_inv self s"
  shows "factory_inv self s'"
proof -
  obtain w addrs where addrs: "(if markets = [] then all_market_addrs s else map_ok (\<lambda>m. fc_load_market_addr m s) markets) = Inr addrs"
    and run: "shutdown_markets addrs effect w imps s = Inr s'"
    by (rule factory_shutdown_result [OF assms(1)])
  note result = shutdown_markets_result [OF run]
  obtain M where s': "s' = s\<lparr>fs_shutdowns := M\<rparr>" using result by blast
  have "shutdowns_known s'"
    unfolding shutdowns_known_def
  proof (intro allI impI)
    fix b t assume "fmlookup (fs_shutdowns s') (b, t) \<noteq> None"
    then consider "b \<in> set addrs" "t \<in> range impact_as_bytes" | "fmlookup (fs_shutdowns s) (b, t) \<noteq> None"
      using result by (auto split: if_splits)
    then have "(\<exists>k. fmlookup (fs_market_addrs s) k = Some b) \<and> (\<exists>i. t = impact_as_bytes i)"
      using shutdown_addrs_known [OF addrs] inv by cases (auto simp: factory_inv_def shutdowns_known_def)
    then show "(\<exists>k. fmlookup (fs_market_addrs s') k = Some b) \<and> (\<exists>i. t = impact_as_bytes i)" by (simp add: s')
  qed
  moreover have "same_registry s s'" "same_referrals s s'" by (simp_all add: s' same_registry_def same_referrals_def)
  moreover have "registry self s'" using inv listed_same [OF calculation(2)] by (simp add: factory_inv_def registry_def s')
  moreover have "referral_books s'" using inv referral_books_same [OF calculation(3)] by (simp add: factory_inv_def)
  moreover have "markets_complete s' = markets_complete s" "addresses_distinct s' = addresses_distinct s"
    "copies_indexed s' = copies_indexed s"
    by (simp_all add: markets_complete_def addresses_distinct_def copies_indexed_def s')
  ultimately show ?thesis using inv by (simp add: factory_inv_def)
qed

lemma set_referrer_inv:
  assumes s: "set_referrer_for e r s = Inr s'" and ne: "e \<noteq> r" and inv: "factory_inv self s"
  shows "factory_inv self s'"
proof -
  obtain A B C D where s': "s' = s\<lparr>fs_referrers := A, fs_referees_reverse := B, fs_referee_counts := C, fs_referee_count_reverse := D\<rparr>"
    by (rule set_referrer_result [OF s]) blast
  have "same_registry s s'" by (simp add: s' same_registry_def)
  then have "registry self s'" using inv listed_same [of s s'] by (simp add: factory_inv_def registry_def s')
  moreover have "referral_books s'" using inv set_referrer_books(1) [OF s ne] by (simp add: factory_inv_def)
  moreover have "markets_complete s' = markets_complete s" "addresses_distinct s' = addresses_distinct s"
    "copies_indexed s' = copies_indexed s" "shutdowns_known s' = shutdowns_known s"
    by (simp_all add: markets_complete_def addresses_distinct_def copies_indexed_def shutdowns_known_def s')
  ultimately show ?thesis using inv by (simp add: factory_inv_def)
qed

lemma factory_transaction_inv:
  assumes "chain_fresh (fe_api env) chain" and "factory_transaction env chain sender msg s = Inr s'" and "factory_inv self s"
  shows "factory_inv self s'"
  using assms(1,2)
proof (cases rule: msg_cases)
  case market then show ?thesis using market_added_inv assms(3) by blast
next
  case counter_trade then show ?thesis using counter_trade_added_inv assms(3) by blast
next
  case copy_trading then show ?thesis using copy_trading_added_inv assms(3) by blast
next
  case referrer then show ?thesis using set_referrer_inv assms(3) by blast
next
  case shutdown then show ?thesis using factory_shutdown_inv assms(3) by blast
next
  case admin then show ?thesis using factory_inv_same assms(3) by blast
qed

interpretation factory_system: invariant_system "factory_start self" factory_step "factory_inv self" for self
  by unfold_locales (auto intro: factory_start_inv factory_transaction_inv elim!: factory_step.cases)

end
