(* ===== verification/FactoryProperties.thy ===== *)
theory FactoryProperties
  imports FactoryInvariant
begin

text \<open>
  The properties of the factory: a market is added with its three tokens or not at all, the registry answers for
  every contract, the referral books agree and their pages list everybody once, and a shutdown does what the two
  wallets may do and nothing else.
\<close>

section \<open>A sample factory\<close>

definition factory_env :: FactoryEnv where
  "factory_env = \<lparr>fe_api = Some, fe_address = ''factory'', fe_block_time = 1000\<rparr>"

definition sample_factory_msg :: FactoryInstantiateMsg where
  "sample_factory_msg = \<lparr>fi_market_code_id = ''1'', fi_position_token_code_id = ''2'', fi_liquidity_token_code_id = ''30'',
     fi_copy_trading_code_id = None, fi_counter_trade_code_id = None, fi_migration_admin = ''admin'', fi_owner = ''owner'',
     fi_dao = ''dao'', fi_kill_switch = ''kill'', fi_wind_down = ''wind'', fi_label_suffix = None\<rparr>"

definition empty_factory :: FactoryState where
  "empty_factory = \<lparr>fs_owner = Some ''owner'', fs_migration_admin = ''admin'', fs_dao = ''dao'', fs_kill_switch = ''kill'',
     fs_wind_down = ''wind'', fs_market_code_id = 1, fs_position_token_code_id = 2, fs_liquidity_token_code_id = 30,
     fs_copy_trading_code_id = None, fs_counter_trade_code_id = None, fs_label_suffix = [],
     fs_market_addrs = fmempty, fs_market_last_added = None, fs_position_token_addrs = fmempty,
     fs_lp_addrs = fmempty, fs_xlp_addrs = fmempty, fs_lp_addrs_reverse = fmempty, fs_xlp_addrs_reverse = fmempty,
     fs_all_contracts = fmupd ''factory'' FactoryContract fmempty,
     fs_copy_trading_addrs = fmempty, fs_copy_trading_reverse = fmempty, fs_copy_trading_total = None,
     fs_copy_trading_last_added = None, fs_counter_trade_addrs = fmempty, fs_referrers = fmempty,
     fs_referee_counts = fmempty, fs_referees_reverse = fmempty, fs_referee_count_reverse = fmempty,
     fs_shutdowns = fmempty, fs_instantiate_market = None, fs_instantiate_copy_trading = None,
     fs_instantiate_countertrade = None\<rparr>"

lemma code_ids_parsed: "u64_from_str ''1'' = Inr 1" "u64_from_str ''2'' = Inr 2" "u64_from_str ''30'' = Inr 30"
  by (simp_all add: u64_from_str_def u64_lim_def less_eq_char_def)

lemma sample_factory_start: "factory_start ''factory'' empty_factory"
  unfolding factory_start_def
  by (rule exI [of _ factory_env], rule exI [of _ sample_factory_msg])
    (simp add: factory_env_def sample_factory_msg_def factory_instantiate_def empty_factory_def code_ids_parsed
      addr_validate_def transpose_res_def)

text \<open>A chain that always answers, with an address longer than every one in use.\<close>

definition new_address :: "FactoryState \<Rightarrow> Addr" where
  "new_address s = replicate (Suc (\<Sum>a\<leftarrow>fmkeys (fs_all_contracts s). length a)) CHR ''c''"

definition sample_chain :: chain where
  "sample_chain s m = Inr [\<lparr>ev_ty = ''instantiate'', ev_attributes = [(''_contract_address'', new_address s)]\<rparr>]"

lemma new_address_unused: "fmlookup (fs_all_contracts s) (new_address s) = None"
proof (rule ccontr)
  assume "\<not> ?thesis"
  then have "new_address s \<in> set (fmkeys (fs_all_contracts s))" by (auto simp: set_fmkeys fmlookup_dom'_iff)
  then have "length (new_address s) \<le> (\<Sum>a\<leftarrow>fmkeys (fs_all_contracts s). length a)"
    by (intro member_le_sum_list) auto
  then show False by (simp add: new_address_def)
qed

lemma strip_new_address: "strip_quotes (new_address s) = new_address s"
  by (simp add: strip_quotes_def new_address_def)

lemma sample_extracted: "extract_instantiated_addr Some
    [\<lparr>ev_ty = ''instantiate'', ev_attributes = [(''_contract_address'', new_address s)]\<rparr>] = Inr (new_address s)"
  by (simp add: extract_instantiated_addr_def extract_attribute_def strip_new_address ok_or_def)

lemma sample_chain_fresh: "chain_fresh Some sample_chain"
  by (auto simp: chain_fresh_def sample_chain_def sample_extracted new_address_unused)

section \<open>Adding a market\<close>

definition market_addresses :: "MarketInfoResponse \<Rightarrow> Addr list" where
  "market_addresses r = [mr_market_addr r, mr_position_token r, mr_liquidity_token_lp r, mr_liquidity_token_xlp r]"

definition chain_answers :: "addr_api \<Rightarrow> chain \<Rightarrow> bool" where
  "chain_answers api chain \<longleftrightarrow> (\<forall>s m. \<exists>evs a. chain s m = Inr evs \<and> extract_instantiated_addr api evs = Inr a)"

lemma chain_answers_created: "chain_answers (fe_api env) chain \<Longrightarrow> \<exists>a. created env chain s m a"
  unfolding chain_answers_def created_def by blast

lemma market_added_info:
  assumes "market_added env m r s s'"
  shows "query_market_info m s' = Inr r"
    "mid_encoded m' \<noteq> mid_encoded m \<Longrightarrow> query_market_info m' s' = query_market_info m' s"
  using assms
  by (auto simp: market_added_def query_market_info_def fc_load_market_addr_def position_token_addr_def liquidity_token_addr_def
      addrs_map_def ok_or_def)

lemma add_market_live:
  assumes answers: "chain_answers (fe_api env) chain" and inv: "factory_inv self s"
    and unknown: "fmlookup (fs_market_addrs s) (mid_encoded (nm_market_id p)) = None"
  shows "\<exists>s0 resp s'. add_market env p s = Inr (s0, resp) \<and> dispatch 2 env chain (fr_messages resp) s0 = Inr s'"
proof -
  let ?m = "nm_market_id p"
  obtain s0 resp ad c l call where add: "add_market env p s = Inr (s0, resp)"
    and msg: "fr_messages resp = [SubInstantiate ReplyMarket ad c l call]"
    and s0: "s0 = s\<lparr>fs_instantiate_market := Some \<lparr>im_market_id = ?m, im_migration_admin = fs_migration_admin s\<rparr>\<rparr>"
    using unknown by (simp add: add_market_def Let_def fc_load_market_addr_def ok_or_def is_ok_def ensure_def)
  obtain a where a: "created env chain s0 (SubInstantiate ReplyMarket ad c l call) a"
    using chain_answers_created [OF answers] by blast
  define s1 where "s1 = save_market_addr env ?m a s0"
  obtain resp1 ad1 c1 l1 k1 ad2 c2 l2 k2 ad3 c3 l3 k3 where r1: "reply_market env a s0 = Inr (s1, resp1)" and msgs: "fr_messages resp1 =
      [SubInstantiate ReplyPositionToken ad1 c1 l1 k1, SubInstantiate ReplyLiquidityTokenLp ad2 c2 l2 k2,
       SubInstantiate ReplyLiquidityTokenXlp ad3 c3 l3 k3]"
    by (simp add: reply_market_def Let_def reply_get_instantiate_market_def s0 ok_or_def s1_def)
  obtain b where b: "created env chain s1 (SubInstantiate ReplyPositionToken ad1 c1 l1 k1) b"
    using chain_answers_created [OF answers] by blast
  define s2 where "s2 = save_position_token_addr ?m b s1"
  obtain c where c: "created env chain s2 (SubInstantiate ReplyLiquidityTokenLp ad2 c2 l2 k2) c"
    using chain_answers_created [OF answers] by blast
  define s3 where "s3 = put_token_addr KindLp ?m c s2\<lparr>fs_all_contracts := fmupd c LiquidityTokenContract (fs_all_contracts s2)\<rparr>"
  obtain d where d: "created env chain s3 (SubInstantiate ReplyLiquidityTokenXlp ad3 c3 l3 k3) d"
    using chain_answers_created [OF answers] by blast
  define s4 where "s4 = put_token_addr KindXlp ?m d s3\<lparr>fs_all_contracts := fmupd d LiquidityTokenContract (fs_all_contracts s3)\<rparr>"
  note steps = s0 s1_def s2_def s3_def s4_def save_market_addr_def save_position_token_addr_def put_token_addr_def
  have none: "fmlookup (fs_lp_addrs s) (mid_encoded ?m) = None" "fmlookup (fs_xlp_addrs s) (mid_encoded ?m) = None"
    using inv unknown by (auto simp: factory_inv_def markets_complete_def)
  have r2: "\<exists>resp. reply_position_token b s1 = Inr (s2, resp)"
    by (simp add: reply_position_token_def reply_get_instantiate_market_def steps ok_or_def)
  have r3: "\<exists>resp. reply_liquidity_token KindLp c s2 = Inr (s3, resp)"
    using none by (simp add: reply_liquidity_token_def reply_get_instantiate_market_def save_liquidity_token_addr_def
        addrs_map_def steps ok_or_def ensure_def Let_def)
  have r4: "\<exists>resp. reply_liquidity_token KindXlp d s3 = Inr (s4, resp)"
    using none by (simp add: reply_liquidity_token_def reply_get_instantiate_market_def save_liquidity_token_addr_def
        addrs_map_def steps ok_or_def ensure_def Let_def)
  have "dispatch 1 env chain (fr_messages resp1) s1 = Inr s4"
    using b c d r2 r3 r4 unfolding msgs One_nat_def by (simp add: dispatch_quiet reply_to_def, blast)
  then have "dispatch 2 env chain (fr_messages resp) s0 = Inr s4"
    using a r1 unfolding msg numeral_2_eq_2 dispatch_created by (simp add: reply_to_def, blast)
  then show ?thesis using add by blast
qed

text \<open>C36: The owner can add a market that is not known yet: when the chain answers the four instantiations, the
  whole transaction succeeds and the query for the market gives the market and its three tokens, four addresses
  that were not in use, while every other market answers as before; a second attempt for the same market fails.\<close>

theorem owner_adds_a_market:
  assumes "reachable (factory_start self) factory_step s"
    and "chain_fresh (fe_api env) chain" and "chain_answers (fe_api env) chain"
    and "fs_owner s = Some owner" and "\<not> is_ok (fc_load_market_addr (nm_market_id p) s)"
  shows "\<exists>s' r. factory_transaction env chain (Some owner) (FcAddMarket p) s = Inr s'
    \<and> query_market_info (nm_market_id p) s' = Inr r
    \<and> distinct (market_addresses r) \<and> (\<forall>a\<in>set (market_addresses r). fmlookup (fs_all_contracts s) a = None)
    \<and> (\<forall>m. mid_encoded m \<noteq> mid_encoded (nm_market_id p) \<longrightarrow> query_market_info m s' = query_market_info m s)
    \<and> factory_transaction env chain (Some owner) (FcAddMarket p) s' = Inl (Msg ''market already exists'')"
proof -
  note inv = factory_system.reachable_inv [OF assms(1)]
  have unknown: "fmlookup (fs_market_addrs s) (mid_encoded (nm_market_id p)) = None"
    using assms(5) by (simp add: fc_load_market_addr_def ok_or_def is_ok_def split: option.splits)
  obtain s0 resp s' where add: "add_market env p s = Inr (s0, resp)" and run: "dispatch 2 env chain (fr_messages resp) s0 = Inr s'"
    using add_market_live [OF assms(3) inv unknown] by blast
  obtain r where r: "market_added env (nm_market_id p) r s s'" using add_market_result [OF assms(2) add run] ..
  have "factory_transaction env chain (Some owner) (FcAddMarket p) s = Inr s'"
    using add run assms(4) by (simp add: factory_transaction_def factory_execute_def factory_execute_msg_def)
  moreover have "factory_transaction env chain (Some owner) (FcAddMarket p) s' = Inl (Msg ''market already exists'')"
    using r assms(4) by (simp add: market_added_def factory_transaction_def factory_execute_def factory_execute_msg_def
        add_market_def Let_def fc_load_market_addr_def ok_or_def is_ok_def ensure_def)
  ultimately show ?thesis
    using r market_added_info [OF r] by (auto simp: market_added_def market_addresses_def)
qed

definition sample_params :: NewMarketParams where
  "sample_params = \<lparr>nm_market_id = market_id_new ''ATOM'' ''USD'' CollateralIsBase, nm_token = TokenInitNative ''uatom'' 6,
     nm_config = None, nm_spot_price = Manual_Init ''admin'', nm_initial_borrow_fee_rate = 0, nm_initial_price = None\<rparr>"

lemma sample_chain_answers: "chain_answers Some sample_chain"
  unfolding chain_answers_def sample_chain_def using sample_extracted by blast

theorem owner_adds_a_market_witness:
  "\<exists>s' r. factory_transaction factory_env sample_chain (Some ''owner'') (FcAddMarket sample_params) empty_factory = Inr s'
    \<and> query_market_info (market_id_new ''ATOM'' ''USD'' CollateralIsBase) s' = Inr r \<and> distinct (market_addresses r)"
  using owner_adds_a_market [OF reachable.start [where init = "factory_start ''factory''", OF sample_factory_start],
      of factory_env sample_chain "''owner''" sample_params] sample_chain_fresh sample_chain_answers
  by (auto simp: factory_env_def empty_factory_def sample_params_def fc_load_market_addr_def)

lemma market_reachable: "\<exists>s r. reachable (factory_start ''factory'') factory_step s
    \<and> query_market_info (market_id_new ''ATOM'' ''USD'' CollateralIsBase) s = Inr r \<and> fs_kill_switch s = ''kill''"
proof -
  have "fmlookup (fs_market_addrs empty_factory) (mid_encoded (nm_market_id sample_params)) = None" by (simp add: empty_factory_def)
  then obtain s0 resp s' where add: "add_market factory_env sample_params empty_factory = Inr (s0, resp)"
    and run: "dispatch 2 factory_env sample_chain (fr_messages resp) s0 = Inr s'"
    using add_market_live [OF _ factory_start_inv [OF sample_factory_start]] sample_chain_answers
    by (metis factory_env_def FactoryEnv.select_convs(1))
  have fresh: "chain_fresh (fe_api factory_env) sample_chain" using sample_chain_fresh by (simp add: factory_env_def)
  obtain r where r: "market_added factory_env (nm_market_id sample_params) r empty_factory s'"
    using add_market_result [OF fresh add run] ..
  have "factory_transaction factory_env sample_chain (Some ''owner'') (FcAddMarket sample_params) empty_factory = Inr s'"
    using add run by (simp add: factory_transaction_def factory_execute_def factory_execute_msg_def empty_factory_def)
  then have "reachable (factory_start ''factory'') factory_step s'"
    by (rule reachable.move [OF reachable.start [where init = "factory_start ''factory''", OF sample_factory_start]
        factory_step.transaction [OF fresh]])
  then show ?thesis
    using r market_added_info(1) [OF r] by (auto simp: sample_params_def market_added_def empty_factory_def)
qed

section \<open>The registry\<close>

definition answers :: "FactoryState \<Rightarrow> Addr \<Rightarrow> ContractType \<Rightarrow> bool" where
  "answers s a t \<longleftrightarrow> (\<forall>api raw. api raw = Some a \<longrightarrow> query_addr_is_contract api raw s = Inr (True, Some t))"

lemma answers_registered: "registry self s \<Longrightarrow> listed self s t a \<Longrightarrow> answers s a t"
proof -
  assume "registry self s" "listed self s t a"
  then have "fmlookup (fs_all_contracts s) a = Some t" unfolding registry_def by blast
  then show ?thesis by (simp add: answers_def query_addr_is_contract_def addr_validate_def ok_or_def)
qed

lemma market_info_lookup: "query_market_info m s = Inr r \<longleftrightarrow>
    fmlookup (fs_market_addrs s) (mid_encoded m) = Some (mr_market_addr r)
  \<and> fmlookup (fs_position_token_addrs s) (mid_encoded m) = Some (mr_position_token r)
  \<and> fmlookup (fs_lp_addrs s) (mid_encoded m) = Some (mr_liquidity_token_lp r)
  \<and> fmlookup (fs_xlp_addrs s) (mid_encoded m) = Some (mr_liquidity_token_xlp r)"
  by (cases r) (auto simp: query_market_info_def fc_load_market_addr_def position_token_addr_def liquidity_token_addr_def
      addrs_map_def and_then_eq_Inr ok_or_eq_Inr)

lemma known_market_info:
  assumes "factory_inv self s" and "fmlookup (fs_market_addrs s) (mid_encoded m) = Some a"
  shows "\<exists>r. query_market_info m s = Inr r \<and> mr_market_addr r = a"
proof -
  obtain p l x where "fmlookup (fs_position_token_addrs s) (mid_encoded m) = Some p" "fmlookup (fs_lp_addrs s) (mid_encoded m) = Some l"
    "fmlookup (fs_xlp_addrs s) (mid_encoded m) = Some x"
    using assms unfolding factory_inv_def markets_complete_def by (metis not_Some_eq)
  then show ?thesis
    using assms(2) by (intro exI [of _ "\<lparr>mr_market_addr = a, mr_position_token = p, mr_liquidity_token_lp = l,
      mr_liquidity_token_xlp = x\<rparr>"]) (simp add: market_info_lookup)
qed

lemma market_info_types:
  assumes reg: "registry self s" and r: "query_market_info m s = Inr r"
  shows "fmlookup (fs_all_contracts s) (mr_market_addr r) = Some MarketContract"
    "fmlookup (fs_all_contracts s) (mr_position_token r) = Some PositionTokenContract"
    "fmlookup (fs_all_contracts s) (mr_liquidity_token_lp r) = Some LiquidityTokenContract"
    "fmlookup (fs_all_contracts s) (mr_liquidity_token_xlp r) = Some LiquidityTokenContract"
  using r unfolding reg [unfolded registry_def, rule_format] market_info_lookup by (auto simp: listed_def)

lemma market_info_apart:
  assumes apart: "addresses_distinct s" and r: "query_market_info m s = Inr r" and r': "query_market_info m' s = Inr r'"
  shows "mr_liquidity_token_lp r \<noteq> mr_liquidity_token_xlp r'"
    "mr_market_addr r = mr_market_addr r' \<Longrightarrow> mid_encoded m = mid_encoded m'"
    "mr_position_token r = mr_position_token r' \<Longrightarrow> mid_encoded m = mid_encoded m'"
    "mr_liquidity_token_lp r = mr_liquidity_token_lp r' \<Longrightarrow> mid_encoded m = mid_encoded m'"
    "mr_liquidity_token_xlp r = mr_liquidity_token_xlp r' \<Longrightarrow> mid_encoded m = mid_encoded m'"
  using apart r r' unfolding market_info_lookup addresses_distinct_def one_to_one_def by metis+

text \<open>C37: In every state the factory can reach, a market it knows has all of its three tokens, the query for a
  contract address gives the type of each of the four addresses, and no address belongs to two markets, whatever
  its role.\<close>

theorem markets_are_complete:
  assumes "reachable (factory_start self) factory_step s" and "fc_load_market_addr m s = Inr a"
  shows "\<exists>r. query_market_info m s = Inr r \<and> mr_market_addr r = a \<and> answers s a MarketContract
    \<and> answers s (mr_position_token r) PositionTokenContract \<and> answers s (mr_liquidity_token_lp r) LiquidityTokenContract
    \<and> answers s (mr_liquidity_token_xlp r) LiquidityTokenContract \<and> distinct (market_addresses r)
    \<and> (\<forall>m' r'. query_market_info m' s = Inr r' \<longrightarrow> mid_encoded m' \<noteq> mid_encoded m
         \<longrightarrow> set (market_addresses r) \<inter> set (market_addresses r') = {})"
proof -
  note inv = factory_system.reachable_inv [OF assms(1)]
  have reg: "registry self s" and apart: "addresses_distinct s" using inv by (simp_all add: factory_inv_def)
  have "fmlookup (fs_market_addrs s) (mid_encoded m) = Some a"
    using assms(2) by (simp add: fc_load_market_addr_def ok_or_eq_Inr)
  then obtain r where r: "query_market_info m s = Inr r" and a: "mr_market_addr r = a"
    using known_market_info [OF inv] by blast
  have "answers s a MarketContract" "answers s (mr_position_token r) PositionTokenContract"
    "answers s (mr_liquidity_token_lp r) LiquidityTokenContract" "answers s (mr_liquidity_token_xlp r) LiquidityTokenContract"
    using market_info_types [OF reg r] a by (auto simp: answers_registered [OF reg] registry_def [THEN iffD1, OF reg, rule_format, symmetric])
  moreover have "distinct (market_addresses r)"
    using market_info_types [OF reg r] market_info_apart [OF apart r r] by (auto simp: market_addresses_def)
  moreover have "set (market_addresses r) \<inter> set (market_addresses r') = {}"
    if "query_market_info m' s = Inr r'" "mid_encoded m' \<noteq> mid_encoded m" for m' r'
    using market_info_types [OF reg r] market_info_types [OF reg that(1)] market_info_apart [OF apart r that(1)]
      market_info_apart [OF apart that(1) r] that(2) by (auto simp: market_addresses_def)
  ultimately show ?thesis using r a by blast
qed

theorem markets_are_complete_witness:
  "\<exists>s r. query_market_info (market_id_new ''ATOM'' ''USD'' CollateralIsBase) s = Inr r
    \<and> answers s (mr_liquidity_token_xlp r) LiquidityTokenContract \<and> distinct (market_addresses r)"
proof -
  obtain s r where s: "reachable (factory_start ''factory'') factory_step s"
    and r: "query_market_info (market_id_new ''ATOM'' ''USD'' CollateralIsBase) s = Inr r"
    using market_reachable by blast
  then have "fc_load_market_addr (market_id_new ''ATOM'' ''USD'' CollateralIsBase) s = Inr (mr_market_addr r)"
    by (simp add: market_info_lookup fc_load_market_addr_def ok_or_def)
  from markets_are_complete [OF s this] show ?thesis by blast
qed

section \<open>Referrals\<close>

lemma referees_stay: "factory_step s s' \<Longrightarrow> set (referees_of r s) \<subseteq> set (referees_of r s')"
proof (erule factory_step.cases)
  fix env chain sender msg t t'
  assume eq: "s = t" "s' = t'" and "chain_fresh (fe_api env) chain" "factory_transaction env chain sender msg t = Inr t'"
  from this(3,4) have "set (referees_of r t) \<subseteq> set (referees_of r t')"
  proof (cases rule: msg_cases)
    case (referrer raw e q)
    then show ?thesis by (auto simp: set_referees_of elim!: set_referrer_result)
  next
    case (shutdown ms imps eff a)
    then obtain w addrs where "shutdown_markets addrs eff w imps t = Inr t'" by (auto elim: factory_shutdown_result)
    from shutdown_markets_result [OF this] obtain M where "t' = t\<lparr>fs_shutdowns := M\<rparr>" by blast
    then show ?thesis by (simp add: referees_of_def)
  qed (auto simp: same_referrals_def market_added_def counter_trade_added_def copy_trading_added_def referees_of_def Let_def)
  then show ?thesis by (simp add: eq)
qed

text \<open>C38: In every state the factory can reach, the four books of the referrals agree: the index by referrer lists
  exactly the referees that name the referrer, the leaderboard has exactly one entry for a referrer with referees,
  with their number, and nobody refers themselves; and a referrer, once registered, stays for good.\<close>

theorem referral_books_balance:
  assumes "reachable (factory_start self) factory_step s"
  shows "(e \<in> set (referees_of r s) \<longleftrightarrow> fmlookup (fs_referrers s) (make_referrer_key e) = Some r)
    \<and> ((n, r) \<in> set (fmkeys (fs_referee_count_reverse s)) \<longleftrightarrow> 0 < n \<and> n = length (referees_of r s))
    \<and> e \<notin> set (referees_of e s)
    \<and> (\<forall>s'. factory_step s s' \<longrightarrow> e \<in> set (referees_of r s) \<longrightarrow> e \<in> set (referees_of r s'))"
proof -
  note inv = factory_system.reachable_inv [OF assms]
  have books: "referral_books s" using inv by (simp add: factory_inv_def)
  have index: "e \<in> set (referees_of r s) \<longleftrightarrow> fmlookup (fs_referrers s) (make_referrer_key e) = Some r" for e r
    using books by (simp add: set_referees_of referral_books_def)
  have "(n, r) \<in> set (fmkeys (fs_referee_count_reverse s)) \<longleftrightarrow> fmlookup (fs_referee_count_reverse s) (n, r) = Some ()"
    by (simp add: set_fmkeys fmlookup_dom'_iff)
  also have "\<dots> \<longleftrightarrow> 0 < n \<and> n = length (referees_of r s)"
    using books by (auto simp: referral_books_def split: if_splits)
  finally have counts: "(n, r) \<in> set (fmkeys (fs_referee_count_reverse s)) \<longleftrightarrow> 0 < n \<and> n = length (referees_of r s)" .
  have "e \<notin> set (referees_of e s)" using index books by (simp add: referral_books_def)
  moreover have "e \<in> set (referees_of r s')" if step: "factory_step s s'" and e: "e \<in> set (referees_of r s)" for s'
    using referees_stay [OF step] e by blast
  ultimately show ?thesis using index counts by blast
qed

definition referred :: FactoryState where
  "referred = empty_factory\<lparr>fs_referrers := fmupd ''ref__bob'' ''alice'' fmempty,
     fs_referees_reverse := fmupd (''alice'', ''bob'') () fmempty, fs_referee_counts := fmupd ''refcount__alice'' 1 fmempty,
     fs_referee_count_reverse := fmupd (1, ''alice'') () fmempty\<rparr>"

lemma bob_registers: "factory_transaction factory_env sample_chain (Some ''bob'') (FcRegisterReferrer ''alice'') empty_factory = Inr referred"
  by (simp add: factory_transaction_def factory_execute_def requires_owner_def factory_execute_msg_def register_referrer_def
      set_referrer_for_def make_referrer_key_def make_referee_count_key_def no_reply_def factory_env_def addr_validate_def
      empty_factory_def referred_def ok_or_def ensure_def Let_def)

lemma referred_reachable: "reachable (factory_start ''factory'') factory_step referred"
proof (rule reachable.move)
  show "reachable (factory_start ''factory'') factory_step empty_factory" by (rule reachable.start, rule sample_factory_start)
  show "factory_step empty_factory referred"
    by (rule factory_step.transaction [OF _ bob_registers]) (simp add: factory_env_def sample_chain_fresh)
qed

lemma referred_lists: "referees_of ''alice'' referred = [''bob'']"
  by (simp add: referees_of_def fmkeys_def referred_def)

theorem referral_books_balance_witness: "(1, ''alice'') \<in> set (fmkeys (fs_referee_count_reverse referred))"
  using referral_books_balance [OF referred_reachable, of "''bob''" "''alice''" 1] by (simp add: referred_lists)

text \<open>C39: A client that asks for the referees page after page, each page with the cursor of the one before, reads
  every referee of the referrer exactly once, in order, as many as the leaderboard says, in pages of at most one
  more than the limit.\<close>

theorem referee_pages_are_complete:
  assumes "reachable (factory_start self) factory_step s" and "length (referees_of r s) < n"
  shows "concat (referee_pages n r limit None s) = referees_of r s \<and> sorted_wrt (<) (referees_of r s)
    \<and> (\<forall>page\<in>set (referee_pages n r limit None s). length page \<le> limit + 1)
    \<and> (concat (referee_pages n r limit None s) \<noteq> [] \<longrightarrow> fmlookup (fs_referee_counts s) (make_referee_count_key r)
        = Some (length (concat (referee_pages n r limit None s))))"
proof -
  have "referral_books s" using factory_system.reachable_inv [OF assms(1)] by (simp add: factory_inv_def)
  then show ?thesis
    using referee_pages_concat [where r = r and s = s and start_after = None and n = n and limit = limit] assms(2) sorted_referees_of [of r s] by (simp add: referral_books_def)
qed

theorem referee_pages_are_complete_witness: "concat (referee_pages 2 ''alice'' 0 None referred) = [''bob'']"
  using referee_pages_are_complete [OF referred_reachable, of "''alice''" 2 0] by (simp add: referred_lists)

section \<open>Shutdown\<close>

definition shutdown_targets :: "MarketId list \<Rightarrow> FactoryState \<Rightarrow> Addr set" where
  "shutdown_targets markets s =
     (if markets = [] then {a. \<exists>k. fmlookup (fs_market_addrs s) k = Some a}
      else {a. \<exists>m\<in>set markets. fc_load_market_addr m s = Inr a})"

text \<open>Does the market refuse the message, by the table of \<open>for_market_execute_msg\<close>?\<close>

definition halted :: "FactoryState \<Rightarrow> Addr \<Rightarrow> ExecuteMsgKind \<Rightarrow> bool" where
  "halted s a msg = (case for_market_execute_msg msg of None \<Rightarrow> False | Some i \<Rightarrow> shut s a i)"

lemma targets_addrs:
  assumes "(if markets = [] then all_market_addrs s else map_ok (\<lambda>m. fc_load_market_addr m s) markets) = Inr addrs"
  shows "set addrs = shutdown_targets markets s"
proof (cases "markets = []")
  case True
  then have ok: "all_market_addrs s = Inr addrs" using assms by simp
  have "a \<in> set addrs" if k: "fmlookup (fs_market_addrs s) k = Some a" for a k
  proof -
    have "(k, a) \<in> set (entries (fs_market_addrs s))" using k by (simp add: set_entries)
    note mem = this
    from map_ok_defined [OF ok [unfolded all_market_addrs_def] mem]
    have "map_res (\<lambda>_. a) (market_id_from_vec k) = Inr a" by auto
    then show ?thesis
      unfolding map_ok_set [OF ok [unfolded all_market_addrs_def]] by (intro bexI [OF _ mem]) simp
  qed
  then show ?thesis using True all_market_addrs_set [OF ok] by (auto simp: shutdown_targets_def)
next
  case False
  then show ?thesis using assms by (auto simp: shutdown_targets_def map_ok_set)
qed

text \<open>C40: A shutdown message is accepted from the kill switch and the wind down wallet only; it does exactly what
  it says, to the markets and the impacts it names, or to all of them, and changes nothing else in the factory; and
  what the wind down wallet changes is new trades, deposits and staking: whether a trader can close a position or
  cancel an order, and a provider withdraw, claim or unstake, is never its decision.\<close>

theorem shutdown_is_authorised:
  assumes "factory_execute env sender (FcShutdown markets impacts effect) s = Inr (s', resp)"
  shows "(sender = fs_kill_switch s \<or> sender = fs_wind_down s) \<and> fr_messages resp = []
    \<and> s' = s\<lparr>fs_shutdowns := fs_shutdowns s'\<rparr>
    \<and> (\<forall>a i. shut s' a i \<longleftrightarrow> (if a \<in> shutdown_targets markets s \<and> (impacts = [] \<or> i \<in> set impacts)
         then effect = Disable else shut s a i))
    \<and> (sender \<noteq> fs_kill_switch s \<longrightarrow>
        (\<forall>a i. shut s' a i \<noteq> shut s a i \<longrightarrow> i \<in> {NewTrades, DepositLiquidity, Staking})
      \<and> (\<forall>a. \<forall>msg\<in>{MsgClosePosition, MsgCancelLimitOrder, MsgWithdrawLiquidity, MsgClaimYield, MsgUnstakeXlp,
            MsgStopUnstakingXlp, MsgCollectUnstakedLp, MsgCrank}. halted s' a msg = halted s a msg))"
proof -
  have run: "factory_shutdown sender markets impacts effect s = Inr s'" and resp: "resp = no_reply"
    using assms by (auto simp: factory_execute_def factory_execute_msg_def requires_owner_def quiet_state_Inr ok_or_def)
  obtain w addrs where w: "(w = KillSwitch \<and> fs_kill_switch s = sender) \<or> (w = WindDown \<and> fs_kill_switch s \<noteq> sender \<and> fs_wind_down s = sender)"
    and addrs: "(if markets = [] then all_market_addrs s else map_ok (\<lambda>m. fc_load_market_addr m s) markets) = Inr addrs"
    and go: "shutdown_markets addrs effect w impacts s = Inr s'"
    by (rule factory_shutdown_result [OF run])
  note result = shutdown_markets_result [OF go]
  have effect: "shut s' a i \<longleftrightarrow> (if a \<in> shutdown_targets markets s \<and> (impacts = [] \<or> i \<in> set impacts)
         then effect = Disable else shut s a i)" for a i
    using result targets_addrs [OF addrs] by (auto simp: shut_def)
  have allowed: "i \<in> {NewTrades, DepositLiquidity, Staking}" if "sender \<noteq> fs_kill_switch s" "shut s' a i \<noteq> shut s a i" for a i
    using result that w wind_down_impacts by blast
  have kept: "halted s' a msg = halted s a msg"
    if "sender \<noteq> fs_kill_switch s" and "msg \<in> {MsgClosePosition, MsgCancelLimitOrder, MsgWithdrawLiquidity, MsgClaimYield, MsgUnstakeXlp,
            MsgStopUnstakingXlp, MsgCollectUnstakedLp, MsgCrank}" for a msg
  proof -
    have "shut s' a i = shut s a i" if "i \<notin> {NewTrades, DepositLiquidity, Staking}" for i
      using allowed [OF \<open>sender \<noteq> fs_kill_switch s\<close>, of a i] that by blast
    then show ?thesis using that(2) by (auto simp: halted_def for_market_execute_msg_def)
  qed
  show ?thesis using w result effect allowed kept resp by (auto simp: no_reply_def)
qed

lemma wind_down_stops_trades:
  "\<exists>s' resp. factory_execute factory_env ''wind'' (FcShutdown [m] [NewTrades] Disable)
      (empty_factory\<lparr>fs_market_addrs := fmupd (mid_encoded m) ''market'' fmempty\<rparr>) = Inr (s', resp) \<and> shut s' ''market'' NewTrades"
  by (simp add: factory_execute_def requires_owner_def factory_execute_msg_def quiet_state_def factory_shutdown_def
      fc_load_market_addr_def ok_or_def empty_factory_def ensure_can_perform_def ensure_def Let_def shut_def)

theorem shutdown_is_authorised_witness:
  "\<exists>s'. shut s' ''market'' NewTrades \<and> \<not> halted s' ''market'' MsgClosePosition"
proof -
  let ?m = "market_id_new ''ATOM'' ''USD'' CollateralIsBase"
  let ?s = "empty_factory\<lparr>fs_market_addrs := fmupd (mid_encoded ?m) ''market'' fmempty\<rparr>"
  obtain s' resp where run: "factory_execute factory_env ''wind'' (FcShutdown [?m] [NewTrades] Disable) ?s = Inr (s', resp)"
    and off: "shut s' ''market'' NewTrades" using wind_down_stops_trades by blast
  have "halted s' ''market'' MsgClosePosition = halted ?s ''market'' MsgClosePosition"
    using shutdown_is_authorised [OF run] by (simp add: empty_factory_def)
  then show ?thesis using off by (auto simp: halted_def for_market_execute_msg_def shut_def empty_factory_def)
qed

end
