(* ===== verification/DeltaNeutrality.thy ===== *)
theory DeltaNeutrality
  imports Funding
begin

text \<open>
  The delta neutrality fee of \<open>contracts/market/src/state/delta_neutrality_fee.rs\<close>: what a change
  of the net notional of the market costs, the passes that split a change at the balanced point, the
  fund the fees go to and the payouts come from, and the fee charged to a position. A charge is
  computed first and written by \<open>apply\<close>, so that a failing position leaves no trace.
\<close>

section \<open>The fee of a change in net notional\<close>

definition calculate_delta_neutrality_fee_amount ::
    "dec256_api \<Rightarrow> Number \<Rightarrow> Number \<Rightarrow> Number \<Rightarrow> Number \<Rightarrow> Number res" where
  "calculate_delta_neutrality_fee_amount D cap sensitivity net_notional delta_notional =
     and_then (number_checked_mul D (signed_neg cap) sensitivity) (\<lambda>notional_low_cap.
     and_then (number_checked_mul D cap sensitivity) (\<lambda>notional_high_cap.
     and_then (signed_checked_add D net_notional delta_notional) (\<lambda>net_after.
     and_then (signed_checked_sub D (min net_after notional_low_cap) (min net_notional notional_low_cap))
       (\<lambda>delta_notional_at_low_cap.
     and_then (signed_checked_sub D (max net_after notional_high_cap) (max net_notional notional_high_cap))
       (\<lambda>delta_notional_at_high_cap.
     and_then (signed_checked_sub D delta_notional delta_notional_at_low_cap) (\<lambda>without_low.
     and_then (signed_checked_sub D without_low delta_notional_at_high_cap) (\<lambda>delta_notional_uncapped.
     and_then (number_checked_mul D delta_notional_at_low_cap (signed_neg cap)) (\<lambda>low_amount.
     and_then (number_checked_mul D delta_notional_at_high_cap cap) (\<lambda>high_amount.
     and_then (signed_checked_add D low_amount high_amount) (\<lambda>capped_amount.
     let net_notional_cap = max (min net_notional notional_high_cap) notional_low_cap in
     and_then (number_checked_mul D delta_notional_uncapped delta_notional_uncapped) (\<lambda>square.
     and_then (number_checked_mul D signed_two delta_notional_uncapped) (\<lambda>twice.
     and_then (number_checked_mul D twice net_notional_cap) (\<lambda>cross.
     and_then (signed_checked_add D square cross) (\<lambda>numerator.
     and_then (number_checked_mul D signed_two sensitivity) (\<lambda>denominator.
     and_then (number_checked_div D numerator denominator) (\<lambda>amount.
     signed_checked_add D capped_amount amount))))))))))))))))"

section \<open>Passes\<close>

record CapTriggeredInfo =
  ct_available :: Collateral
  ct_requested :: NonZero

record DeltaNeutralityFeeMultiPass =
  mp_fees :: Signed
  mp_total_in_fund_before_calc :: Collateral
  mp_config :: Config
  mp_net_notional :: Signed
  mp_delta_notional :: Signed
  mp_price :: PricePoint
  mp_liquidation_margin_factor :: "Collateral option"
  mp_cap_triggered_info :: "CapTriggeredInfo option"

definition multi_pass_new ::
    "Ctx \<Rightarrow> Config \<Rightarrow> Signed \<Rightarrow> Signed \<Rightarrow> PricePoint \<Rightarrow> Collateral option \<Rightarrow> DeltaNeutralityFeeMultiPass" where
  "multi_pass_new ctx config net_notional delta_notional price liquidation_margin_factor =
     \<lparr>mp_fees = signed_zero,
      mp_total_in_fund_before_calc = (case delta_neutrality_fund ctx of Some f \<Rightarrow> f | None \<Rightarrow> 0),
      mp_config = config, mp_net_notional = net_notional, mp_delta_notional = delta_notional,
      mp_price = price, mp_liquidation_margin_factor = liquidation_margin_factor,
      mp_cap_triggered_info = None\<rparr>"

text \<open>\<open>update_inner\<close> in three steps: the amount for the change, its reduction when it is a payout the
  fund cannot cover in full, and the cap by the margin of the position.\<close>

definition slippage_fundedness_ratio :: "dec256_api \<Rightarrow> Collateral \<Rightarrow> Collateral \<Rightarrow> Decimal256 res" where
  "slippage_fundedness_ratio D in_fund to_balance =
     (case nonzero_new to_balance of
        Some b \<Rightarrow>
          and_then (u_approx_eq D b 0) (\<lambda>is_zero.
          if is_zero then Inr dec_one else div_non_zero D in_fund b)
      | None \<Rightarrow> Inr dec_one)"

definition cap_payout :: "dec256_api \<Rightarrow> DeltaNeutralityFeeMultiPass \<Rightarrow> Collateral \<Rightarrow> Signed \<Rightarrow> Signed res" where
  "cap_payout D m total_in_fund_so_far amount_in_collateral =
     (if is_negative amount_in_collateral then
        and_then (calculate_delta_neutrality_fee_amount D
          (new_positive (cfg_delta_neutrality_fee_cap (mp_config m)))
          (new_positive (cfg_delta_neutrality_fee_sensitivity (mp_config m)))
          (mp_net_notional m) (signed_neg (mp_net_notional m))) (\<lambda>slippage.
        and_then (notional_to_collateral D (mp_price m) (abs_unsigned slippage)) (\<lambda>to_balance.
        and_then (slippage_fundedness_ratio D total_in_fund_so_far to_balance) (\<lambda>ratio.
        let ratio = min ratio dec_one in
        and_then (checked_mul_number D amount_in_collateral (new_positive ratio)) (\<lambda>n.
        Inr (if new_positive total_in_fund_so_far < signed_neg n
             then signed_neg (new_positive total_in_fund_so_far) else n)))))
      else Inr amount_in_collateral)"

definition cap_by_margin :: "Collateral option \<Rightarrow> Signed \<Rightarrow> CapTriggeredInfo option \<Rightarrow> Signed \<times> CapTriggeredInfo option" where
  "cap_by_margin factor amount_in_collateral info =
     (case factor of
        Some cap \<Rightarrow>
          (case try_into_non_zero amount_in_collateral of
             Some amount \<Rightarrow>
               if cap < amount then (new_positive cap, Some \<lparr>ct_available = cap, ct_requested = amount\<rparr>)
               else (amount_in_collateral, info)
           | None \<Rightarrow> (amount_in_collateral, info))
      | None \<Rightarrow> (amount_in_collateral, info))"

definition update_inner :: "dec256_api \<Rightarrow> DeltaNeutralityFeeMultiPass \<Rightarrow> Signed \<Rightarrow> DeltaNeutralityFeeMultiPass res" where
  "update_inner D m delta_notional =
     and_then (u_checked_add_signed D (mp_total_in_fund_before_calc m) (mp_fees m)) (\<lambda>total_in_fund_so_far.
     and_then (calculate_delta_neutrality_fee_amount D
       (new_positive (cfg_delta_neutrality_fee_cap (mp_config m)))
       (new_positive (cfg_delta_neutrality_fee_sensitivity (mp_config m)))
       (mp_net_notional m) delta_notional) (\<lambda>amount_in_notional.
     and_then (signed_map (notional_to_collateral D (mp_price m)) amount_in_notional) (\<lambda>amount_in_collateral.
     and_then (cap_payout D m total_in_fund_so_far amount_in_collateral) (\<lambda>amount_in_collateral.
     let (amount, info) = cap_by_margin (mp_liquidation_margin_factor m) amount_in_collateral (mp_cap_triggered_info m) in
     and_then (signed_checked_add D (mp_fees m) amount) (\<lambda>fees.
     and_then (signed_checked_add D (mp_net_notional m) delta_notional) (\<lambda>net_notional.
     Inr (m\<lparr>mp_cap_triggered_info := info, mp_fees := fees, mp_net_notional := net_notional\<rparr>)))))))"

text \<open>\<open>run\<close>: a change that crosses the balanced point is a pass to the point and a pass beyond it.\<close>

definition multi_pass_run :: "dec256_api \<Rightarrow> DeltaNeutralityFeeMultiPass \<Rightarrow> DeltaNeutralityFeeMultiPass res" where
  "multi_pass_run D m =
     (let net_notional = mp_net_notional m; delta_notional = mp_delta_notional m in
     and_then (signed_checked_add D net_notional delta_notional) (\<lambda>net_notional_after.
     and_then (number_checked_mul D net_notional net_notional_after) (\<lambda>product.
     if is_negative product then
       and_then (update_inner D m (signed_neg net_notional)) (\<lambda>m.
       and_then (signed_checked_add D delta_notional net_notional) (\<lambda>rest. update_inner D m rest))
     else update_inner D m delta_notional)))"

section \<open>Charging a position\<close>

definition calc_delta_neutrality_fee ::
    "dec256_api \<Rightarrow> Env \<Rightarrow> Ctx \<Rightarrow> Signed \<Rightarrow> PricePoint \<Rightarrow> Collateral option \<Rightarrow> Signed res" where
  "calc_delta_neutrality_fee D env ctx notional_delta price liquidation_margin_factor =
     and_then (positions_net_open_interest D ctx) (\<lambda>net.
     map_res mp_fees (multi_pass_run D
       (multi_pass_new ctx (env_config env) net notional_delta price liquidation_margin_factor)))"

record ChargeDeltaNeutralityFeeResult =
  cd_pos_id :: PositionId
  cd_fee :: Signed
  cd_fund_fees :: Signed
  cd_total_funds_before :: Collateral
  cd_reason :: DeltaNeutralityFeeReason
  cd_cap_triggered_info :: "CapTriggeredInfo option"
  cd_total_funds_after :: Collateral
  cd_protocol_fees :: Collateral
  cd_price :: PricePoint

text \<open>The protocol's part of a payment into the fund: nothing of a payout, and nothing when the product
  does not fit.\<close>

definition delta_neutrality_protocol_fees :: "dec256_api \<Rightarrow> Config \<Rightarrow> Signed \<Rightarrow> Collateral res" where
  "delta_neutrality_protocol_fees D cfg fees =
     (case try_into_non_zero fees of
        None \<Rightarrow> Inr 0
      | Some f \<Rightarrow> unwrap_or (checked_mul_dec D f (cfg_delta_neutrality_fee_tax cfg)) 0)"

definition charge_delta_neutrality_fee_no_update ::
    "dec256_api \<Rightarrow> Env \<Rightarrow> Ctx \<Rightarrow> Position \<Rightarrow> Signed \<Rightarrow> PricePoint \<Rightarrow> DeltaNeutralityFeeReason
      \<Rightarrow> ChargeDeltaNeutralityFeeResult res" where
  "charge_delta_neutrality_fee_no_update D env ctx p notional_delta price reason =
     and_then (positions_net_open_interest D ctx) (\<lambda>net.
     and_then (multi_pass_run D (multi_pass_new ctx (env_config env) net notional_delta price
       (case reason of
          DnfPositionClose \<Rightarrow> Some (lm_delta_neutrality (pos_liquidation_margin p))
        | DnfPositionUpdate \<Rightarrow> Some (lm_delta_neutrality (pos_liquidation_margin p))
        | DnfPositionOpen \<Rightarrow> None))) (\<lambda>calc.
     and_then (delta_neutrality_protocol_fees D (env_config env) (mp_fees calc)) (\<lambda>protocol_fees.
     and_then (signed_checked_sub D (mp_fees calc) (new_positive protocol_fees)) (\<lambda>fund_fees.
     and_then (u_checked_add_signed D (mp_total_in_fund_before_calc calc) fund_fees) (\<lambda>total_funds_after.
     Inr \<lparr>cd_pos_id = pos_id p, cd_fee = mp_fees calc, cd_fund_fees = fund_fees,
       cd_total_funds_before = mp_total_in_fund_before_calc calc, cd_reason = reason,
       cd_cap_triggered_info = mp_cap_triggered_info calc, cd_total_funds_after = total_funds_after,
       cd_protocol_fees = protocol_fees, cd_price = price\<rparr>)))))"

definition charge_delta_neutrality_fee ::
    "dec256_api \<Rightarrow> Env \<Rightarrow> Ctx \<Rightarrow> Position \<Rightarrow> Signed \<Rightarrow> PricePoint \<Rightarrow> DeltaNeutralityFeeReason
      \<Rightarrow> (Position \<times> ChargeDeltaNeutralityFeeResult) res" where
  "charge_delta_neutrality_fee D env ctx p notional_delta price reason =
     and_then (charge_delta_neutrality_fee_no_update D env ctx p notional_delta price reason) (\<lambda>r.
     and_then (nz_checked_sub_signed D (pos_active_collateral p) (cd_fee r)) (\<lambda>active.
     and_then (add_delta_neutrality_fee D (p\<lparr>pos_active_collateral := active\<rparr>) (cd_fee r) price) (\<lambda>p.
     Inr (p, r))))"

definition charge_apply :: "dec256_api \<Rightarrow> Env \<Rightarrow> ChargeDeltaNeutralityFeeResult \<Rightarrow> Ctx \<Rightarrow> Ctx res" where
  "charge_apply D env r ctx =
     (let ctx = add_event env (DeltaNeutralityFeeEvent (cd_fund_fees r) (cd_total_funds_before r)
            (cd_total_funds_after r) (cd_reason r) (cd_protocol_fees r)) ctx;
          ctx = (case cd_cap_triggered_info r of
              Some i \<Rightarrow> add_event env (InsufficientMarginEvent \<lparr>im_pos = cd_pos_id r,
                  im_fee_type = FeeTypeDeltaNeutrality, im_available = new_positive (ct_available i),
                  im_requested = new_positive (ct_requested i)\<rparr>) ctx
            | None \<Rightarrow> ctx) in
     collect_delta_neutrality_fee_for_protocol D env (cd_pos_id r) (cd_protocol_fees r) (cd_price r)
       (ctx\<lparr>delta_neutrality_fund := Some (cd_total_funds_after r)\<rparr>))"

end
