(* ===== verification/PositionStorage.thy ===== *)
theory PositionStorage
  imports DeltaNeutrality
begin

text \<open>
  The storage of positions, \<open>contracts/market/src/state/position.rs\<close>: the open positions, the price
  triggers that tell which position a price closes, the schedule of liquifundings, the open interest of
  the two sides, and the history of closed positions. Saving a position recalculates its liquidation
  margin and prices and keeps the indexes in step with it.
\<close>

section \<open>Access\<close>

definition upd_pos :: "(PositionsState \<Rightarrow> PositionsState) \<Rightarrow> Ctx \<Rightarrow> Ctx" where
  "upd_pos f ctx = ctx\<lparr>pos_st := f (pos_st ctx)\<rparr>"

definition get_position :: "Ctx \<Rightarrow> PositionId \<Rightarrow> Position res" where
  "get_position ctx i = ok_or (fmlookup (open_positions (pos_st ctx)) i) (Market (MissingPosition i))"

definition load_closed_position :: "Ctx \<Rightarrow> PositionId \<Rightarrow> ClosedPosition option" where
  "load_closed_position ctx i = fmlookup (closed_positions (pos_st ctx)) i"

definition positions_init :: "Ctx \<Rightarrow> Ctx" where
  "positions_init ctx =
     upd_pos (\<lambda>s. s\<lparr>last_position_id := 0\<rparr>) (ctx\<lparr>open_short_interest := 0, open_long_interest := 0\<rparr>)"

definition position_assert_owner :: "Ctx \<Rightarrow> PositionId \<Rightarrow> Addr \<Rightarrow> unit res" where
  "position_assert_owner ctx i addr =
     (case get_position ctx i of
        Inl _ \<Rightarrow> Inl (Perp Auth)
      | Inr p \<Rightarrow> if pos_owner p \<noteq> addr then Inl (Perp Auth) else Inr ())"

section \<open>Price triggers\<close>

record LiquidatablePosition =
  lq_id :: PositionId
  lq_reason :: LiquidationReason

definition liquidatable_position :: "Ctx \<Rightarrow> Price \<Rightarrow> LiquidatablePosition option" where
  "liquidatable_position ctx price =
     (case fm_last_where (\<lambda>(p, _). price \<le> p) (price_trigger_desc (pos_st ctx)) of
        Some k \<Rightarrow> map_option (\<lambda>r. \<lparr>lq_id = snd k, lq_reason = r\<rparr>) (fmlookup (price_trigger_desc (pos_st ctx)) k)
      | None \<Rightarrow>
          (case fm_first_where (\<lambda>(p, _). p \<le> price) (price_trigger_asc (pos_st ctx)) of
             Some k \<Rightarrow> map_option (\<lambda>r. \<lparr>lq_id = snd k, lq_reason = r\<rparr>) (fmlookup (price_trigger_asc (pos_st ctx)) k)
           | None \<Rightarrow> None))"

definition newly_liquidatable_position :: "Ctx \<Rightarrow> Price \<Rightarrow> Price \<Rightarrow> bool" where
  "newly_liquidatable_position ctx oracle_price new_price \<longleftrightarrow>
     fm_last_where (\<lambda>(p, _). new_price \<le> p \<and> p < oracle_price) (price_trigger_desc (pos_st ctx)) \<noteq> None
   \<or> fm_first_where (\<lambda>(p, _). oracle_price < p \<and> p \<le> new_price) (price_trigger_asc (pos_st ctx)) \<noteq> None"

text \<open>The two triggers a position keeps on the side of its losses, and the two on the side of its gains.\<close>

definition drop_trigger :: "Price option \<Rightarrow> PositionId \<Rightarrow> (Price \<times> PositionId, LiquidationReason) fmap
    \<Rightarrow> (Price \<times> PositionId, LiquidationReason) fmap" where
  "drop_trigger price i m = (case price of Some p \<Rightarrow> fmdrop (p, i) m | None \<Rightarrow> m)"

definition put_trigger :: "Price option \<Rightarrow> PositionId \<Rightarrow> LiquidationReason \<Rightarrow> (Price \<times> PositionId, LiquidationReason) fmap
    \<Rightarrow> (Price \<times> PositionId, LiquidationReason) fmap" where
  "put_trigger price i r m = (case price of Some p \<Rightarrow> fmupd (p, i) r m | None \<Rightarrow> m)"

definition remove_liquidation_prices :: "Position \<Rightarrow> Ctx \<Rightarrow> Ctx" where
  "remove_liquidation_prices p =
     (let losses = (\<lambda>m. drop_trigger (pos_stop_loss_override_notional p) (pos_id p)
            (drop_trigger (pos_liquidation_price p) (pos_id p) m));
          gains = (\<lambda>m. drop_trigger (pos_take_profit_trader_notional p) (pos_id p)
            (drop_trigger (pos_take_profit_total p) (pos_id p) m)) in
     case pos_direction p of
       LongNotional \<Rightarrow> upd_pos (\<lambda>s. s\<lparr>price_trigger_desc := losses (price_trigger_desc s),
         price_trigger_asc := gains (price_trigger_asc s)\<rparr>)
     | ShortNotional \<Rightarrow> upd_pos (\<lambda>s. s\<lparr>price_trigger_asc := losses (price_trigger_asc s),
         price_trigger_desc := gains (price_trigger_desc s)\<rparr>))"

definition store_liquidation_prices :: "Position \<Rightarrow> Ctx \<Rightarrow> Ctx" where
  "store_liquidation_prices p =
     (let losses = (\<lambda>m. put_trigger (pos_stop_loss_override_notional p) (pos_id p) StopLoss
            (put_trigger (pos_liquidation_price p) (pos_id p) Liquidated m));
          gains = (\<lambda>m. put_trigger (pos_take_profit_trader_notional p) (pos_id p) TakeProfit
            (put_trigger (pos_take_profit_total p) (pos_id p) MaxGains m)) in
     case pos_direction p of
       LongNotional \<Rightarrow> upd_pos (\<lambda>s. s\<lparr>price_trigger_desc := losses (price_trigger_desc s),
         price_trigger_asc := gains (price_trigger_asc s)\<rparr>)
     | ShortNotional \<Rightarrow> upd_pos (\<lambda>s. s\<lparr>price_trigger_asc := losses (price_trigger_asc s),
         price_trigger_desc := gains (price_trigger_desc s)\<rparr>))"

section \<open>Saving and removing\<close>

definition position_remove :: "dec256_api \<Rightarrow> PositionId \<Rightarrow> Ctx \<Rightarrow> Ctx res" where
  "position_remove D i ctx =
     and_then (get_position ctx i) (\<lambda>p.
     let ctx = upd_pos (\<lambda>s. s\<lparr>open_positions := fmdrop (pos_id p) (open_positions s),
           next_liquifunding := fmdrop (pos_next_liquifunding p, pos_id p) (next_liquifunding s)\<rparr>) ctx;
         ctx = remove_liquidation_prices p ctx in
     decrease_total_funding_margin D (lm_funding (pos_liquidation_margin p)) ctx)"

definition position_save_no_recalc :: "Position \<Rightarrow> Ctx \<Rightarrow> Ctx" where
  "position_save_no_recalc p = upd_pos (\<lambda>s. s\<lparr>open_positions := fmupd (pos_id p) p (open_positions s)\<rparr>)"

text \<open>The fields \<open>position_save\<close> recalculates: the margin on demand, the liquidation price and the price
  of the maximal gains; the margin must be covered.\<close>

definition recalculate_position :: "dec256_api \<Rightarrow> Env \<Rightarrow> Position \<Rightarrow> PricePoint \<Rightarrow> bool \<Rightarrow> Position res" where
  "recalculate_position D env p price_point recalc_liquidation_margin =
     and_then (if recalc_liquidation_margin then liquidation_margin D p price_point (env_config env)
               else Inr (pos_liquidation_margin p)) (\<lambda>margin.
     let p = p\<lparr>pos_liquidation_margin := margin\<rparr> in
     and_then (lm_total D margin) (\<lambda>total.
     and_then (ensure (total \<le> pos_active_collateral p) (Perp InsufficientMargin)) (\<lambda>_.
     let p = p\<lparr>pos_liquidation_price :=
           liquidation_price D p (price_notional price_point) (pos_active_collateral p) margin\<rparr> in
     and_then (take_profit_price_total D p price_point (mid_market_type (env_market_id env))) (\<lambda>tp.
     Inr (p\<lparr>pos_take_profit_total := tp\<rparr>)))))"

definition position_save ::
    "dec256_api \<Rightarrow> Env \<Rightarrow> Position \<Rightarrow> PricePoint \<Rightarrow> bool \<Rightarrow> bool \<Rightarrow> PositionSaveReason \<Rightarrow> Ctx \<Rightarrow> (Position \<times> Ctx) res" where
  "position_save D env p price_point is_update recalc_liquidation_margin reason ctx =
     and_then (if is_update then position_remove D (pos_id p) ctx else Inr ctx) (\<lambda>ctx.
     and_then (recalculate_position D env p price_point recalc_liquidation_margin) (\<lambda>p.
     let ctx = upd_pos (\<lambda>s. s\<lparr>open_positions := fmupd (pos_id p) p (open_positions s),
           next_liquifunding := fmupd (pos_next_liquifunding p, pos_id p) () (next_liquifunding s)\<rparr>) ctx;
         ctx = store_liquidation_prices p ctx in
     and_then (increase_total_funding_margin D (lm_funding (pos_liquidation_margin p)) ctx) (\<lambda>ctx.
     Inr (p, add_event env (PositionEvent (PositionSaveEvent (pos_id p) reason)) ctx))))"

section \<open>Open interest\<close>

datatype AdjustOpenInterest = AdjustLong Notional | AdjustShort Notional

definition dnf_already :: "DirectionToBase \<Rightarrow> Number \<Rightarrow> Number \<Rightarrow> Number \<Rightarrow> Signed \<Rightarrow> Signed \<Rightarrow> MarketError" where
  "dnf_already dir cap sensitivity instant_before before after =
     (case dir of
        LongBase \<Rightarrow> DeltaNeutralityFeeAlreadyLong (num cap) (num sensitivity) (num instant_before) (num before) (num after)
      | ShortBase \<Rightarrow> DeltaNeutralityFeeAlreadyShort (num cap) (num sensitivity) (num instant_before) (num before) (num after))"

definition dnf_newly :: "DirectionToBase \<Rightarrow> Number \<Rightarrow> Number \<Rightarrow> Number \<Rightarrow> Signed \<Rightarrow> Signed \<Rightarrow> MarketError" where
  "dnf_newly dir cap sensitivity instant_after before after =
     (case dir of
        LongBase \<Rightarrow> DeltaNeutralityFeeNewlyLong (num cap) (num sensitivity) (num instant_after) (num before) (num after)
      | ShortBase \<Rightarrow> DeltaNeutralityFeeNewlyShort (num cap) (num sensitivity) (num instant_after) (num before) (num after))"

definition dnf_flipped :: "DirectionToBase \<Rightarrow> Number \<Rightarrow> Number \<Rightarrow> Number \<Rightarrow> Number \<Rightarrow> Signed \<Rightarrow> Signed \<Rightarrow> MarketError" where
  "dnf_flipped dir cap sensitivity instant_before instant_after before after =
     (case dir of
        LongBase \<Rightarrow> DeltaNeutralityFeeShortToLong (num cap) (num sensitivity) (num instant_before) (num instant_after) (num before) (num after)
      | ShortBase \<Rightarrow> DeltaNeutralityFeeLongToShort (num cap) (num sensitivity) (num instant_before) (num instant_after) (num before) (num after))"

definition check_delta_neutrality_cap ::
    "dec256_api \<Rightarrow> Env \<Rightarrow> Signed \<Rightarrow> Notional \<Rightarrow> Notional \<Rightarrow> Notional \<Rightarrow> Notional \<Rightarrow> unit res" where
  "check_delta_neutrality_cap D env notional_size_diff long_before short_before long_after short_after =
     and_then (signed_checked_sub D (new_positive long_before) (new_positive short_before)) (\<lambda>net_before.
     and_then (signed_checked_sub D (new_positive long_after) (new_positive short_after)) (\<lambda>net_after.
     let cap = new_positive (cfg_delta_neutrality_fee_cap (env_config env));
         sensitivity = new_positive (cfg_delta_neutrality_fee_sensitivity (env_config env)) in
     and_then (number_checked_div D net_before sensitivity) (\<lambda>before.
     and_then (number_checked_div D net_after sensitivity) (\<lambda>after.
     let is_capped_low = (\<lambda>x. x \<le> signed_neg cap); is_capped_high = (\<lambda>x. cap \<le> x);
         notional_direction = (if is_positive_or_zero notional_size_diff then LongNotional else ShortNotional);
         base_direction = direction_into_base notional_direction (mid_market_type (env_market_id env)) in
     if is_capped_low before then
       (case notional_direction of
          ShortNotional \<Rightarrow> Inl (Market (dnf_already base_direction cap sensitivity before net_before net_after))
        | LongNotional \<Rightarrow>
            if is_capped_high after
            then Inl (Market (dnf_flipped base_direction cap sensitivity before after net_before net_after))
            else Inr ())
     else if is_capped_high before then
       (case notional_direction of
          LongNotional \<Rightarrow> Inl (Market (dnf_already base_direction cap sensitivity before net_before net_after))
        | ShortNotional \<Rightarrow>
            if is_capped_low after
            then Inl (Market (dnf_flipped base_direction cap sensitivity before after net_before net_after))
            else Inr ())
     else if is_capped_low after \<or> is_capped_high after
     then Inl (Market (dnf_newly base_direction cap sensitivity after net_before net_after))
     else Inr ()))))"

definition adjust_open_interest_new ::
    "dec256_api \<Rightarrow> Env \<Rightarrow> Ctx \<Rightarrow> Signed \<Rightarrow> DirectionToNotional \<Rightarrow> bool \<Rightarrow> AdjustOpenInterest res" where
  "adjust_open_interest_new D env ctx notional_size_diff dir assert_delta_neutrality_fee_cap =
     (let long_before = open_long_interest ctx; short_before = open_short_interest ctx in
     and_then (case dir of
         LongNotional \<Rightarrow>
           and_then (u_checked_add_signed D long_before notional_size_diff) (\<lambda>long_after.
           Inr (long_after, short_before, AdjustLong long_after))
       | ShortNotional \<Rightarrow>
           and_then (u_checked_add_signed D short_before (signed_neg notional_size_diff)) (\<lambda>short_after.
           Inr (long_before, short_after, AdjustShort short_after))) (\<lambda>(long_after, short_after, adjust_res).
     if assert_delta_neutrality_fee_cap then
       and_then (check_delta_neutrality_cap D env notional_size_diff long_before short_before long_after short_after)
         (\<lambda>_. Inr adjust_res)
     else Inr adjust_res))"

definition adjust_net_notional :: "dec256_api \<Rightarrow> Ctx \<Rightarrow> AdjustOpenInterest \<Rightarrow> Signed res" where
  "adjust_net_notional D ctx a =
     (case a of
        AdjustLong long \<Rightarrow> signed_checked_sub D (new_positive long) (new_positive (open_short_interest ctx))
      | AdjustShort short \<Rightarrow> signed_checked_sub D (new_positive (open_long_interest ctx)) (new_positive short))"

definition adjust_open_interest_apply :: "AdjustOpenInterest \<Rightarrow> Ctx \<Rightarrow> Ctx" where
  "adjust_open_interest_apply a ctx =
     (case a of
        AdjustLong long \<Rightarrow> ctx\<lparr>open_long_interest := long\<rparr>
      | AdjustShort short \<Rightarrow> ctx\<lparr>open_short_interest := short\<rparr>)"

section \<open>Queries\<close>

definition DEFAULT_CLOSED_POSITION_HISTORY_LIMIT :: nat where
  "DEFAULT_CLOSED_POSITION_HISTORY_LIMIT = 100"

datatype OrderInMessage = Ascending | Descending

text \<open>The loop over the entries stops when the number of entries taken equals the limit; it is tested
  after an entry was taken, so a limit of zero never stops it.\<close>

definition closed_positions_history ::
    "Ctx \<Rightarrow> Addr \<Rightarrow> (Timestamp \<times> PositionId) option \<Rightarrow> OrderInMessage option \<Rightarrow> nat option
      \<Rightarrow> ClosedPosition list \<times> (Timestamp \<times> PositionId) option" where
  "closed_positions_history ctx owner cursor order limit =
     (let order = (case order of Some o' \<Rightarrow> o' | None \<Rightarrow> Descending);
          limit = min (case limit of Some l \<Rightarrow> l | None \<Rightarrow> DEFAULT_CLOSED_POSITION_HISTORY_LIMIT) QUERY_MAX_LIMIT;
          in_range = (\<lambda>k. case (cursor, order) of
              (None, _) \<Rightarrow> True | (Some c, Ascending) \<Rightarrow> c < k | (Some c, Descending) \<Rightarrow> k < c);
          history = closed_position_history (pos_st ctx);
          keys = filter (\<lambda>(a, k). a = owner \<and> in_range k) (fmkeys history);
          keys = (case order of Ascending \<Rightarrow> keys | Descending \<Rightarrow> rev keys);
          taken = (if limit = 0 then keys else take limit keys) in
     (List.map_filter (fmlookup history) taken,
      if limit \<noteq> 0 \<and> limit < length keys then Some (snd (last taken)) else None))"

datatype PositionsQueryFeeApproach = NoFees | Accumulated | AllFees

text \<open>The pending fees a query adds to a position, as a liquifunding up to now would charge them.\<close>

definition add_pending_fees ::
    "dec256_api \<Rightarrow> Env \<Rightarrow> Ctx \<Rightarrow> Position \<Rightarrow> PricePoint \<Rightarrow> Signed \<Rightarrow> Position res" where
  "add_pending_fees D env ctx p price delta_neutrality_fee =
     and_then (calc_capped_borrow_fee_payment D ctx p (pos_liquifunded_at p) (env_now env)) (\<lambda>(borrow, _).
     and_then (d_add D (la_lp borrow) (la_xlp borrow)) (\<lambda>borrow_fees.
     and_then (calc_capped_funding_payment D ctx p (pos_liquifunded_at p) (env_now env)) (\<lambda>(funding_payments, _).
     and_then (cu_checked_add_assign D (pos_borrow_fee p) borrow_fees price) (\<lambda>bf.
     and_then (scu_checked_add_assign D (pos_funding_fee p) funding_payments price) (\<lambda>ff.
     and_then (scu_checked_add_assign D (pos_delta_neutrality_fee p) delta_neutrality_fee price) (\<lambda>df.
     and_then (unwrap_or (d_sub D (lm_borrow (pos_liquidation_margin p)) borrow_fees) 0) (\<lambda>mb.
     and_then (unwrap_or (u_checked_add_signed D (lm_funding (pos_liquidation_margin p)) (signed_neg funding_payments)) 0) (\<lambda>mf.
     and_then (signed_checked_sub D (new_positive (pos_active_collateral p)) (new_positive borrow_fees)) (\<lambda>a.
     and_then (signed_checked_sub D a funding_payments) (\<lambda>a.
     and_then (signed_checked_sub D a delta_neutrality_fee) (\<lambda>a.
     Inr (p\<lparr>pos_borrow_fee := bf, pos_funding_fee := ff, pos_delta_neutrality_fee := df,
       pos_liquidation_margin := (pos_liquidation_margin p)\<lparr>lm_borrow := mb, lm_funding := mf\<rparr>,
       pos_active_collateral := (case try_into_non_zero a of Some x \<Rightarrow> x | None \<Rightarrow> 10000000000000)\<rparr>))))))))))))"

definition pos_snapshot_for_open ::
    "dec256_api \<Rightarrow> Env \<Rightarrow> Ctx \<Rightarrow> Position \<Rightarrow> PositionsQueryFeeApproach \<Rightarrow> PositionOrPendingClose res" where
  "pos_snapshot_for_open D env ctx p fees =
     (let market_type = mid_market_type (env_market_id env) in
     and_then (spot_price env ctx (case pos_price_point_created_at p of Some t \<Rightarrow> t | None \<Rightarrow> pos_created_at p)) (\<lambda>entry_price.
     and_then (current_spot_price env ctx) (\<lambda>price.
     and_then (calc_delta_neutrality_fee D env ctx (signed_neg (pos_notional_size p)) price
       (Some (lm_delta_neutrality (pos_liquidation_margin p)))) (\<lambda>dnf_on_close_collateral.
     and_then (case fees of
         NoFees \<Rightarrow> Inr p
       | Accumulated \<Rightarrow> add_pending_fees D env ctx p price signed_zero
       | AllFees \<Rightarrow> add_pending_fees D env ctx p price dnf_on_close_collateral) (\<lambda>p.
     and_then (spot_price env ctx (pos_liquifunded_at p)) (\<lambda>start_price.
     into_query_response_extrapolate_exposure D p start_price price (price_notional entry_price) market_type
       dnf_on_close_collateral))))))"

end
