(* ===== verification/TradeHistory.thy ===== *)
theory TradeHistory
  imports PositionStorage
begin

text \<open>
  The trade history of \<open>contracts/market/src/state/history/trade.rs\<close>: the volume and realised profit of
  every trader, and the actions on positions, kept twice, by position and by trader. Position tokens
  follow in \<open>PositionTokens\<close>: a transfer of one is an action too.
\<close>

definition upd_trade :: "(TradeHistoryState \<Rightarrow> TradeHistoryState) \<Rightarrow> Ctx \<Rightarrow> Ctx" where
  "upd_trade f ctx = ctx\<lparr>trade_st := f (trade_st ctx)\<rparr>"

section \<open>Volumes\<close>

definition trade_volume_usd :: "dec256_api \<Rightarrow> Position \<Rightarrow> PricePoint \<Rightarrow> MarketType \<Rightarrow> Usd res" where
  "trade_volume_usd D p price_point mt =
     and_then (active_leverage_to_notional D p price_point) (\<lambda>l.
     and_then (leverage_into_base D l mt) (\<lambda>lb.
     and_then (checked_mul_dec D (pos_active_collateral p) (snd (leverage_split lb))) (\<lambda>volume.
     collateral_to_usd D price_point volume)))"

definition trade_volume_usd_from_closed :: "dec256_api \<Rightarrow> ClosedPosition \<Rightarrow> PricePoint \<Rightarrow> Usd res" where
  "trade_volume_usd_from_closed D p price_point =
     and_then (case pp_market_type price_point of
         CollateralIsQuote \<Rightarrow> Inr (new_positive 0)
       | CollateralIsBase \<Rightarrow>
           and_then (collateral_to_notional D price_point (cp_active_collateral p)) (\<lambda>n.
           Inr (case cp_direction_to_base p of
              LongBase \<Rightarrow> new_positive n | ShortBase \<Rightarrow> signed_neg (new_positive n)))) (\<lambda>collateral_factor.
     and_then (signed_checked_add D (cp_notional_size p) collateral_factor) (\<lambda>volume.
     notional_to_usd D price_point (abs_unsigned volume)))"

section \<open>Actions\<close>

definition push_position_action :: "PositionId \<Rightarrow> PositionAction \<Rightarrow> Ctx \<Rightarrow> Ctx res" where
  "push_position_action i a ctx =
     and_then (push_to_monotonic i a (th_by_position (trade_st ctx))) (\<lambda>(_, m).
     Inr (upd_trade (\<lambda>s. s\<lparr>th_by_position := m\<rparr>) ctx))"

definition push_trader_action :: "Addr \<Rightarrow> PositionAction \<Rightarrow> Ctx \<Rightarrow> Ctx res" where
  "push_trader_action addr a ctx =
     and_then (push_to_monotonic addr a (th_by_address (trade_st ctx))) (\<lambda>(_, m).
     Inr (upd_trade (\<lambda>s. s\<lparr>th_by_address := m\<rparr>) ctx))"

definition position_history_add_transfer :: "Env \<Rightarrow> Position \<Rightarrow> Addr \<Rightarrow> Ctx \<Rightarrow> Ctx res" where
  "position_history_add_transfer env p old_owner ctx =
     (let new_owner_action = \<lparr>pa_id = Some (pos_id p), pa_kind = ActionTransfer, pa_timestamp = env_now env,
            pa_price_timestamp = None, pa_collateral = pos_active_collateral p,
            pa_transfer_collateral = new_positive (pos_active_collateral p), pa_leverage = None, pa_max_gains = None,
            pa_trade_fee = None, pa_delta_neutrality_fee = None, pa_old_owner = Some old_owner,
            pa_new_owner = Some (pos_owner p), pa_take_profit_trader = pos_take_profit_trader p,
            pa_stop_loss_override = pos_stop_loss_override p\<rparr>;
          old_owner_action = new_owner_action\<lparr>pa_transfer_collateral := signed_neg (new_positive (pos_active_collateral p))\<rparr>;
          ctx = add_event env (PositionEvent (PositionActionEvent (pos_id p) new_owner_action)) ctx in
     and_then (push_position_action (pos_id p) new_owner_action ctx) (\<lambda>ctx.
     and_then (push_trader_action (pos_owner p) new_owner_action ctx) (\<lambda>ctx.
     push_trader_action old_owner old_owner_action ctx)))"

definition position_history_add_open_update_action ::
    "dec256_api \<Rightarrow> Env \<Rightarrow> Position \<Rightarrow> PositionActionKind \<Rightarrow> Collateral option \<Rightarrow> Signed option \<Rightarrow> Signed
      \<Rightarrow> PricePoint \<Rightarrow> Ctx \<Rightarrow> Ctx res" where
  "position_history_add_open_update_action D env p kind trading_fee delta_neutrality_fee
       deposit_collateral_delta price_point ctx =
     (let market_type = mid_market_type (env_market_id env) in
     and_then (active_leverage_to_notional D p price_point) (\<lambda>l.
     and_then (leverage_into_base D l market_type) (\<lambda>lb.
     and_then (transpose_res (map_option (collateral_to_usd D price_point) trading_fee)) (\<lambda>trade_fee_usd.
     and_then (max_gains_in_quote D p market_type price_point) (\<lambda>max_gains.
     and_then (transpose_res (map_option (signed_map (collateral_to_usd D price_point)) delta_neutrality_fee)) (\<lambda>dnf.
     let action = \<lparr>pa_id = Some (pos_id p), pa_kind = kind, pa_timestamp = env_now env,
           pa_price_timestamp = Some (pp_timestamp price_point), pa_collateral = pos_active_collateral p,
           pa_transfer_collateral = deposit_collateral_delta, pa_leverage = Some (snd (leverage_split lb)),
           pa_max_gains = Some max_gains, pa_trade_fee = trade_fee_usd, pa_delta_neutrality_fee = dnf,
           pa_old_owner = None, pa_new_owner = None, pa_take_profit_trader = pos_take_profit_trader p,
           pa_stop_loss_override = pos_stop_loss_override p\<rparr>;
         ctx = add_event env (PositionEvent (PositionActionEvent (pos_id p) action)) ctx in
     and_then (push_position_action (pos_id p) action ctx) (\<lambda>ctx.
     push_trader_action (pos_owner p) action ctx)))))))"

definition position_history_add_close_action ::
    "dec256_api \<Rightarrow> Env \<Rightarrow> ClosedPosition \<Rightarrow> Collateral \<Rightarrow> Signed \<Rightarrow> PricePoint \<Rightarrow> Ctx \<Rightarrow> Ctx res" where
  "position_history_add_close_action D env p active_collateral delta_neutrality_fee price_point ctx =
     and_then (signed_map (collateral_to_usd D price_point) delta_neutrality_fee) (\<lambda>dnf.
     let action = \<lparr>pa_id = Some (cp_id p), pa_kind = ActionClose, pa_timestamp = env_now env,
           pa_price_timestamp = Some (pp_timestamp price_point), pa_collateral = active_collateral,
           pa_transfer_collateral = new_positive active_collateral, pa_leverage = None, pa_max_gains = None,
           pa_trade_fee = None, pa_delta_neutrality_fee = Some dnf, pa_old_owner = None, pa_new_owner = None,
           pa_take_profit_trader = None, pa_stop_loss_override = None\<rparr>;
         ctx = add_event env (PositionEvent (PositionActionEvent (cp_id p) action)) ctx in
     and_then (push_position_action (cp_id p) action ctx) (\<lambda>ctx.
     push_trader_action (cp_owner p) action ctx))"

section \<open>Summaries\<close>

definition trade_history_get_summary :: "Ctx \<Rightarrow> Addr \<Rightarrow> TradeHistorySummary" where
  "trade_history_get_summary ctx addr =
     (case fmlookup (th_summary (trade_st ctx)) addr of
        Some s \<Rightarrow> s | None \<Rightarrow> \<lparr>ths_trade_volume = 0, ths_realized_pnl = signed_zero\<rparr>)"

definition trade_history_add_volume :: "dec256_api \<Rightarrow> Env \<Rightarrow> Addr \<Rightarrow> Usd \<Rightarrow> Ctx \<Rightarrow> Ctx res" where
  "trade_history_add_volume D env addr volume_usd ctx =
     (let summary = trade_history_get_summary ctx addr in
     and_then (d_add D (ths_trade_volume summary) volume_usd) (\<lambda>v.
     Inr (add_event env (TradeVolumeEvent volume_usd)
       (upd_trade (\<lambda>s. s\<lparr>th_summary := fmupd addr (summary\<lparr>ths_trade_volume := v\<rparr>) (th_summary s)\<rparr>) ctx))))"

definition trade_history_add_realized_pnl :: "dec256_api \<Rightarrow> Env \<Rightarrow> Addr \<Rightarrow> Signed \<Rightarrow> Signed \<Rightarrow> Ctx \<Rightarrow> Ctx res" where
  "trade_history_add_realized_pnl D env addr pnl pnl_usd ctx =
     (let summary = trade_history_get_summary ctx addr in
     and_then (signed_checked_add D (ths_realized_pnl summary) pnl_usd) (\<lambda>r.
     Inr (add_event env (PnlEvent pnl pnl_usd)
       (upd_trade (\<lambda>s. s\<lparr>th_summary := fmupd addr (summary\<lparr>ths_realized_pnl := r\<rparr>) (th_summary s)\<rparr>) ctx))))"

definition position_history_add_close ::
    "dec256_api \<Rightarrow> Env \<Rightarrow> ClosedPosition \<Rightarrow> Signed \<Rightarrow> PricePoint \<Rightarrow> Ctx \<Rightarrow> Ctx res" where
  "position_history_add_close D env p delta_neutrality_fee settlement_price ctx =
     and_then (position_history_add_close_action D env p (cp_active_collateral p) delta_neutrality_fee
       settlement_price ctx) (\<lambda>ctx.
     and_then (trade_volume_usd_from_closed D p settlement_price) (\<lambda>volume.
     and_then (trade_history_add_volume D env (cp_owner p) volume ctx) (\<lambda>ctx.
     trade_history_add_realized_pnl D env (cp_owner p) (cp_pnl_collateral p) (cp_pnl_usd p) ctx)))"

section \<open>Pages of a history\<close>

text \<open>\<open>get_history_helper\<close>: at most the limit many entries after the cursor; the cursor of the next page is
  the last key, when there is a further entry.\<close>

definition get_history_helper ::
    "('k::linorder \<times> u64, 'v) fmap \<Rightarrow> 'k \<Rightarrow> u64 option \<Rightarrow> nat option \<Rightarrow> OrderInMessage option \<Rightarrow> 'v list \<times> u64 option" where
  "get_history_helper m k start_after limit order =
     (let order = (case order of Some o' \<Rightarrow> o' | None \<Rightarrow> Ascending);
          in_range = (\<lambda>i. case (start_after, order) of
              (None, _) \<Rightarrow> True | (Some c, Ascending) \<Rightarrow> c < i | (Some c, Descending) \<Rightarrow> i < c);
          keys = filter (\<lambda>(a, i). a = k \<and> in_range i) (fmkeys m);
          keys = (case order of Ascending \<Rightarrow> keys | Descending \<Rightarrow> rev keys);
          limit = min (case limit of Some l \<Rightarrow> l | None \<Rightarrow> 20) QUERY_MAX_LIMIT;
          taken = take limit keys in
     (List.map_filter (fmlookup m) taken,
      if limit \<noteq> 0 \<and> limit < length keys then Some (snd (last taken)) else None))"

definition position_action_get_history ::
    "Ctx \<Rightarrow> PositionId \<Rightarrow> u64 option \<Rightarrow> nat option \<Rightarrow> OrderInMessage option \<Rightarrow> PositionAction list \<times> u64 option" where
  "position_action_get_history ctx i = get_history_helper (th_by_position (trade_st ctx)) i"

definition trader_action_get_history ::
    "Ctx \<Rightarrow> Addr \<Rightarrow> u64 option \<Rightarrow> nat option \<Rightarrow> OrderInMessage option \<Rightarrow> PositionAction list \<times> u64 option" where
  "trader_action_get_history ctx owner = get_history_helper (th_by_address (trade_st ctx)) owner"

end
