(* ===== verification/PositionTokens.thy ===== *)
theory PositionTokens
  imports TradeHistory
begin

text \<open>
  The non-fungible tokens of the positions, \<open>contracts/market/src/state/position/cw721.rs\<close>: minting
  and burning with the life of a position, approvals and operators, and transfers, which change the
  owner stored in the position. The decimal text of a position identifier is the identifier: every
  message reads the approvals under the text first, which only exist under the canonical one.
\<close>

section \<open>Messages\<close>

datatype NftExecuteMsg =
    NftApproveMsg Addr PositionId "Expiration option"
  | NftRevokeMsg Addr PositionId
  | NftApproveAllMsg Addr "Expiration option"
  | NftRevokeAllMsg Addr
  | NftTransferMsg Addr PositionId
  | NftSendMsg Addr PositionId

definition upd_nft :: "(NftState \<Rightarrow> NftState) \<Rightarrow> Ctx \<Rightarrow> Ctx" where
  "upd_nft f ctx = ctx\<lparr>nft_st := f (nft_st ctx)\<rparr>"

definition nft_token_approvals :: "Ctx \<Rightarrow> PositionId \<Rightarrow> Approval list res" where
  "nft_token_approvals ctx i = ok_or (fmlookup (nft_approvals (nft_st ctx)) i) (Std ''not found'')"

section \<open>Minting and burning\<close>

definition nft_increment_tokens :: "Ctx \<Rightarrow> Ctx res" where
  "nft_increment_tokens ctx =
     and_then (u64_add (nft_count (nft_st ctx)) 1) (\<lambda>n. Inr (upd_nft (\<lambda>s. s\<lparr>nft_count := n\<rparr>) ctx))"

definition nft_decrement_tokens :: "Ctx \<Rightarrow> Ctx res" where
  "nft_decrement_tokens ctx =
     (if nft_count (nft_st ctx) = 0 then Inl (Panic ''attempt to subtract with overflow'')
      else Inr (upd_nft (\<lambda>s. s\<lparr>nft_count := nft_count s - 1\<rparr>) ctx))"

definition nft_mint :: "Env \<Rightarrow> Addr \<Rightarrow> PositionId \<Rightarrow> Ctx \<Rightarrow> Ctx res" where
  "nft_mint env owner i ctx =
     (let ctx = upd_nft (\<lambda>s. s\<lparr>nft_ids := fmupd i () (nft_ids s),
            nft_owners := fmupd (owner, i) () (nft_owners s),
            nft_approvals := fmupd i [] (nft_approvals s)\<rparr>) ctx in
     and_then (nft_increment_tokens ctx) (\<lambda>ctx. Inr (add_event env (NftEvent (NftMint owner i)) ctx)))"

definition nft_burn :: "Env \<Rightarrow> Addr \<Rightarrow> PositionId \<Rightarrow> Ctx \<Rightarrow> Ctx res" where
  "nft_burn env owner i ctx =
     (let ctx = upd_nft (\<lambda>s. s\<lparr>nft_ids := fmdrop i (nft_ids s),
            nft_owners := fmdrop (owner, i) (nft_owners s),
            nft_approvals := fmdrop i (nft_approvals s)\<rparr>) ctx in
     and_then (nft_decrement_tokens ctx) (\<lambda>ctx. Inr (add_event env (NftEvent (NftBurn i)) ctx)))"

section \<open>Permissions\<close>

definition nft_operator_allows :: "Env \<Rightarrow> Ctx \<Rightarrow> Addr \<Rightarrow> Addr \<Rightarrow> unit res" where
  "nft_operator_allows env ctx owner msg_sender =
     (case fmlookup (nft_operators (nft_st ctx)) (owner, msg_sender) of
        Some ex \<Rightarrow> if env_is_expired env ex then Inl (Perp Auth) else Inr ()
      | None \<Rightarrow> Inl (Perp Auth))"

definition nft_check_can_approve :: "Env \<Rightarrow> Ctx \<Rightarrow> Addr \<Rightarrow> PositionId \<Rightarrow> unit res" where
  "nft_check_can_approve env ctx msg_sender i =
     and_then (get_position ctx i) (\<lambda>p.
     if pos_owner p = msg_sender then Inr () else nft_operator_allows env ctx (pos_owner p) msg_sender)"

definition nft_check_can_send :: "Env \<Rightarrow> Ctx \<Rightarrow> Addr \<Rightarrow> PositionId \<Rightarrow> Approval list \<Rightarrow> unit res" where
  "nft_check_can_send env ctx msg_sender i approvals =
     and_then (get_position ctx i) (\<lambda>p.
     if pos_owner p = msg_sender \<or> env_contract_addr env = msg_sender then Inr ()
     else if list_ex (\<lambda>a. ap_spender a = msg_sender \<and> \<not> env_is_expired env (ap_expires a)) approvals then Inr ()
     else nft_operator_allows env ctx (pos_owner p) msg_sender)"

section \<open>Operations\<close>

definition nft_update_approvals ::
    "Env \<Rightarrow> Addr \<Rightarrow> Addr \<Rightarrow> PositionId \<Rightarrow> bool \<Rightarrow> Expiration option \<Rightarrow> Ctx \<Rightarrow> Ctx res" where
  "nft_update_approvals env msg_sender spender i add expires ctx =
     and_then (nft_token_approvals ctx i) (\<lambda>approvals.
     and_then (nft_check_can_approve env ctx msg_sender i) (\<lambda>_.
     let approvals = filter (\<lambda>a. ap_spender a \<noteq> spender) approvals in
     and_then (if add then
         (let expires = (case expires of Some e \<Rightarrow> e | None \<Rightarrow> env_expires_never env) in
          if env_is_expired env expires then Inl (Perp Expired)
          else Inr (approvals @ [\<lparr>ap_spender = spender, ap_expires = expires\<rparr>],
            add_event env (NftEvent (NftApproval spender i expires)) ctx))
       else Inr (approvals, add_event env (NftEvent (NftRevoke spender i)) ctx)) (\<lambda>(approvals, ctx).
     Inr (upd_nft (\<lambda>s. s\<lparr>nft_approvals := fmupd i approvals (nft_approvals s)\<rparr>) ctx))))"

definition nft_approve_all :: "Env \<Rightarrow> Addr \<Rightarrow> Addr \<Rightarrow> Expiration option \<Rightarrow> Ctx \<Rightarrow> Ctx res" where
  "nft_approve_all env msg_sender operator expires ctx =
     (let expires = (case expires of Some e \<Rightarrow> e | None \<Rightarrow> env_expires_never env) in
     if env_is_expired env expires then Inl (Perp Expired)
     else Inr (add_event env (NftEvent (NftApproveAll operator expires))
       (upd_nft (\<lambda>s. s\<lparr>nft_operators := fmupd (msg_sender, operator) expires (nft_operators s)\<rparr>) ctx)))"

definition nft_revoke_all :: "Env \<Rightarrow> Addr \<Rightarrow> Addr \<Rightarrow> Ctx \<Rightarrow> Ctx" where
  "nft_revoke_all env msg_sender operator ctx =
     add_event env (NftEvent (NftRevokeAll operator))
       (upd_nft (\<lambda>s. s\<lparr>nft_operators := fmdrop (msg_sender, operator) (nft_operators s)\<rparr>) ctx)"

definition nft_transfer_inner :: "Env \<Rightarrow> Addr \<Rightarrow> Addr \<Rightarrow> PositionId \<Rightarrow> Ctx \<Rightarrow> Ctx res" where
  "nft_transfer_inner env msg_sender recipient i ctx =
     and_then (nft_token_approvals ctx i) (\<lambda>approvals.
     and_then (nft_check_can_send env ctx msg_sender i approvals) (\<lambda>_.
     and_then (get_position ctx i) (\<lambda>p.
     let ctx = upd_nft (\<lambda>s. s\<lparr>nft_owners := fmupd (recipient, i) () (fmdrop (pos_owner p, i) (nft_owners s))\<rparr>) ctx;
         old_owner = pos_owner p;
         p = p\<lparr>pos_owner := recipient\<rparr>;
         ctx = position_save_no_recalc p ctx in
     and_then (position_history_add_transfer env p old_owner ctx) (\<lambda>ctx.
     Inr (add_event env (NftEvent (NftTransfer recipient i))
       (upd_nft (\<lambda>s. s\<lparr>nft_approvals := fmupd i [] (nft_approvals s)\<rparr>) ctx))))))"

definition nft_handle_exec :: "Env \<Rightarrow> Addr \<Rightarrow> NftExecuteMsg \<Rightarrow> Ctx \<Rightarrow> Ctx res" where
  "nft_handle_exec env msg_sender msg ctx =
     (if cfg_disable_position_nft_exec (env_config env) then Inl (Perp Auth)
      else case msg of
          NftApproveMsg spender i expires \<Rightarrow> nft_update_approvals env msg_sender spender i True expires ctx
        | NftRevokeMsg spender i \<Rightarrow> nft_update_approvals env msg_sender spender i False None ctx
        | NftApproveAllMsg operator expires \<Rightarrow> nft_approve_all env msg_sender operator expires ctx
        | NftRevokeAllMsg operator \<Rightarrow> Inr (nft_revoke_all env msg_sender operator ctx)
        | NftTransferMsg recipient i \<Rightarrow> nft_transfer_inner env msg_sender recipient i ctx
        | NftSendMsg contract i \<Rightarrow> nft_transfer_inner env msg_sender contract i ctx)"

section \<open>Queries\<close>

definition filter_approvals :: "Env \<Rightarrow> Approval list \<Rightarrow> bool \<Rightarrow> Approval list" where
  "filter_approvals env approvals include_expired =
     filter (\<lambda>a. include_expired \<or> \<not> env_is_expired env (ap_expires a)) approvals"

definition nft_owner_of :: "Env \<Rightarrow> Ctx \<Rightarrow> PositionId \<Rightarrow> bool \<Rightarrow> (Addr \<times> Approval list) res" where
  "nft_owner_of env ctx i include_expired =
     and_then (get_position ctx i) (\<lambda>p.
     and_then (nft_token_approvals ctx i) (\<lambda>approvals.
     Inr (pos_owner p, filter_approvals env approvals include_expired)))"

definition nft_approval :: "Env \<Rightarrow> Ctx \<Rightarrow> PositionId \<Rightarrow> Addr \<Rightarrow> bool \<Rightarrow> Approval res" where
  "nft_approval env ctx i spender include_expired =
     and_then (get_position ctx i) (\<lambda>p.
     and_then (nft_token_approvals ctx i) (\<lambda>approvals.
     if pos_owner p = spender then Inr \<lparr>ap_spender = pos_owner p, ap_expires = env_expires_never env\<rparr>
     else
       case filter (\<lambda>a. ap_spender a = spender \<and> (include_expired \<or> \<not> env_is_expired env (ap_expires a))) approvals of
         [] \<Rightarrow> Inl (Perp Auth)
       | a # _ \<Rightarrow> Inr a))"

definition nft_all_approvals :: "Env \<Rightarrow> Ctx \<Rightarrow> PositionId \<Rightarrow> bool \<Rightarrow> Approval list res" where
  "nft_all_approvals env ctx i include_expired =
     and_then (nft_token_approvals ctx i) (\<lambda>approvals.
     Inr (filter (\<lambda>a. include_expired \<or> \<not> env_is_expired env (ap_expires a)) approvals))"

definition nft_all_operators :: "Env \<Rightarrow> Ctx \<Rightarrow> Addr \<Rightarrow> bool \<Rightarrow> Addr option \<Rightarrow> nat option \<Rightarrow> Approval list" where
  "nft_all_operators env ctx owner include_expired start limit =
     (let limit = min (case limit of Some l \<Rightarrow> l | None \<Rightarrow> 10) QUERY_MAX_LIMIT;
          operators = nft_operators (nft_st ctx);
          keys = filter (\<lambda>(a, spender). a = owner \<and> (case start of None \<Rightarrow> True | Some s \<Rightarrow> s < spender)) (fmkeys operators);
          found = List.map_filter (\<lambda>k. map_option (\<lambda>e. \<lparr>ap_spender = snd k, ap_expires = e\<rparr>) (fmlookup operators k)) keys in
     take limit (filter (\<lambda>a. include_expired \<or> \<not> env_is_expired env (ap_expires a)) found))"

end
