(* ===== verification/PositionLifecycle.thy ===== *)
theory PositionLifecycle
  imports PositionTokens
begin

text \<open>
  The life of a position, \<open>contracts/market/src/state/position\<close>: the validations
  (\<open>validate.rs\<close>), the counter collateral of a take profit price (\<open>take_profit.rs\<close>), opening
  (\<open>open.rs\<close>), the periodic settlement of fees and price exposure (\<open>liquifund.rs\<close>) and closing
  (\<open>close.rs\<close>). Every step first computes what it will write, with all its checks, as a record
  (\<open>OpenPositionExec\<close>, \<open>PositionLiquifund\<close>, \<open>ClosePositionExec\<close>), and then applies it.
\<close>

section \<open>Validation\<close>

definition position_validate_trader_leverage ::
    "dec256_api \<Rightarrow> Env \<Rightarrow> SignedLeverageToNotional \<Rightarrow> SignedLeverageToNotional option \<Rightarrow> unit res" where
  "position_validate_trader_leverage D env new_leverage_notional current_leverage =
     (let market_type = mid_market_type (env_market_id env) in
     and_then (ok_or (try_into_non_negative_value (cfg_max_leverage (env_config env)))
       (Msg ''Max allowed leverage is negative'')) (\<lambda>max_allowed_leverage.
     and_then (transpose_res (map_option (\<lambda>l. map_res (\<lambda>b. snd (leverage_split b)) (leverage_into_base D l market_type))
       current_leverage)) (\<lambda>current_leverage.
     and_then (leverage_into_base D new_leverage_notional market_type) (\<lambda>b.
     let new_leverage = snd (leverage_split b) in
     and_then (approx_eq_number D new_leverage_notional signed_zero) (\<lambda>is_zero.
     let reduced = (case current_leverage of Some c \<Rightarrow> new_leverage \<le> c | None \<Rightarrow> False);
         is_out_of_range = (if is_zero then True else if reduced then False else max_allowed_leverage < new_leverage) in
     if is_out_of_range then Inl (Market TraderLeverageOutOfRange) else Inr ())))))"

definition position_validate_leverage_data ::
    "dec256_api \<Rightarrow> Env \<Rightarrow> Position \<Rightarrow> PricePoint \<Rightarrow> Position option \<Rightarrow> unit res" where
  "position_validate_leverage_data D env new_position price_point current_position =
     (let get_direction = (\<lambda>p. direction_into_base (pos_direction p) (mid_market_type (env_market_id env))) in
     and_then (case current_position of
         Some c \<Rightarrow> ensure (get_direction c = get_direction new_position) (Msg ''Direction changed on position update'')
       | None \<Rightarrow> Inr ()) (\<lambda>_.
     and_then (active_leverage_to_notional D new_position price_point) (\<lambda>new_leverage.
     and_then (transpose_res (map_option (\<lambda>p. active_leverage_to_notional D p price_point) current_position)) (\<lambda>current.
     position_validate_trader_leverage D env new_leverage current))))"

definition validate_minimum_deposit_collateral :: "dec256_api \<Rightarrow> Env \<Rightarrow> Collateral \<Rightarrow> PricePoint \<Rightarrow> unit res" where
  "validate_minimum_deposit_collateral D env deposit_collateral price_point =
     (let minimum_usd = cfg_minimum_deposit_usd (env_config env) in
     and_then (collateral_to_usd D price_point deposit_collateral) (\<lambda>deposit.
     and_then (checked_mul_dec D minimum_usd 900000000000000000) (\<lambda>real_minimum.
     if deposit < real_minimum then Inl (Market (MinimumDeposit deposit_collateral deposit minimum_usd)) else Inr ())))"

text \<open>The texts of a slippage error show two percentages, whose computation can fail first.\<close>

definition slippage_error :: "dec256_api \<Rightarrow> Number \<Rightarrow> Number \<Rightarrow> Number \<Rightarrow> unit res" where
  "slippage_error D high low tolerance =
     (let hundred = new_positive (100 * dec_one) in
     and_then (signed_checked_sub D high low) (\<lambda>d.
     and_then (number_checked_mul D hundred d) (\<lambda>_.
     and_then (number_checked_mul D hundred tolerance) (\<lambda>_. Inl (Perp SlippageAssert)))))"

definition do_slippage_assert ::
    "dec256_api \<Rightarrow> Env \<Rightarrow> Ctx \<Rightarrow> SlippageAssert \<Rightarrow> Signed \<Rightarrow> Collateral option \<Rightarrow> PricePoint \<Rightarrow> unit res" where
  "do_slippage_assert D env ctx sa delta_notional_size delta_neutrality_fee_margin price_point =
     (if sg_value delta_notional_size = 0 then Inr ()
      else
        and_then (calc_delta_neutrality_fee D env ctx delta_notional_size price_point delta_neutrality_fee_margin) (\<lambda>fee.
        and_then (number_checked_div D fee delta_notional_size) (\<lambda>fee_rate.
        and_then (signed_checked_add D number_one fee_rate) (\<lambda>factor.
        and_then (number_checked_mul D (new_positive (price_notional price_point)) factor) (\<lambda>price.
        and_then (into_notional_price D (sa_price sa) (mid_market_type (env_market_id env))) (\<lambda>asserted.
        let asserted = new_positive asserted in
        if is_strictly_positive delta_notional_size then
          and_then (signed_checked_add D number_one (sa_tolerance sa)) (\<lambda>f.
          and_then (number_checked_mul D asserted f) (\<lambda>bnd.
          if price \<le> bnd then Inr () else slippage_error D price asserted (sa_tolerance sa)))
        else
          and_then (signed_checked_sub D number_one (sa_tolerance sa)) (\<lambda>f.
          and_then (number_checked_mul D asserted f) (\<lambda>bnd.
          if bnd \<le> price then Inr () else slippage_error D asserted price (sa_tolerance sa)))))))))"

section \<open>Counter collateral of a take profit price\<close>

definition calc_notional_size ::
    "dec256_api \<Rightarrow> LeverageToBase \<Rightarrow> DirectionToBase \<Rightarrow> MarketType \<Rightarrow> PricePoint \<Rightarrow> NonZero \<Rightarrow> Signed res" where
  "calc_notional_size D leverage direction mt price_point collateral =
     and_then (leverage_into_notional D (leverage_into_signed leverage direction) mt) (\<lambda>leverage_to_notional.
     and_then (leverage_checked_mul_collateral D leverage_to_notional collateral) (\<lambda>in_collateral.
     signed_map (collateral_to_notional D price_point) in_collateral))"

record TakeProfitToCounterCollateral =
  tc_take_profit_trader :: TakeProfitTrader
  tc_market_type :: MarketType
  tc_collateral :: NonZero
  tc_leverage_to_base :: LeverageToBase
  tc_direction :: DirectionToBase
  tc_config :: Config
  tc_price_point :: PricePoint

definition tc_notional_size :: "dec256_api \<Rightarrow> TakeProfitToCounterCollateral \<Rightarrow> Signed res" where
  "tc_notional_size D t =
     calc_notional_size D (tc_leverage_to_base t) (tc_direction t) (tc_market_type t) (tc_price_point t) (tc_collateral t)"

definition tc_counter_collateral :: "dec256_api \<Rightarrow> TakeProfitToCounterCollateral \<Rightarrow> NonZero res" where
  "tc_counter_collateral D t =
     and_then (tc_notional_size D t) (\<lambda>notional_size.
     case tc_take_profit_trader t of
       TP_PosInfinity \<Rightarrow>
         and_then (leverage_into_notional D (leverage_into_signed (tc_leverage_to_base t) (tc_direction t))
           (tc_market_type t)) (\<lambda>leverage_to_notional.
         and_then (leverage_checked_mul_collateral D leverage_to_notional (tc_collateral t)) (\<lambda>in_collateral.
         case tc_market_type t of
           CollateralIsQuote \<Rightarrow> Inl (Market InvalidInfiniteTakeProfitPrice)
         | CollateralIsBase \<Rightarrow>
             if leverage_direction leverage_to_notional = LongNotional
             then Inl (Market InvalidInfiniteTakeProfitPrice)
             else ok_or (nonzero_new (abs_unsigned in_collateral)) (Msg ''notional_size_in_collateral is zero'')))
     | TP_Finite take_profit_price \<Rightarrow>
         and_then (into_notional_price D take_profit_price (tc_market_type t)) (\<lambda>tp_notional.
         and_then (signed_checked_sub D (new_positive tp_notional) (new_positive (price_notional (tc_price_point t)))) (\<lambda>d.
         and_then (number_checked_mul D d notional_size) (\<lambda>counter_collateral.
         and_then (u_try_from_number counter_collateral) (\<lambda>c.
         ok_or (nonzero_new c) (Msg ''counter_collateral is zero''))))))"

definition take_profit_to_counter_collateral :: "dec256_api \<Rightarrow> TakeProfitToCounterCollateral \<Rightarrow> NonZero res" where
  "take_profit_to_counter_collateral D t =
     and_then (tc_notional_size D t) (\<lambda>n.
     and_then (notional_to_collateral D (tc_price_point t) (abs_unsigned n)) (\<lambda>max_counter_collateral.
     and_then (ok_or (try_into_non_negative_value (cfg_max_leverage (tc_config t)))
       (Msg ''Impossible negative max_leverage'')) (\<lambda>max_leverage.
     and_then (checked_div_dec D max_counter_collateral max_leverage) (\<lambda>min_counter_collateral.
     and_then (tc_counter_collateral D t) (\<lambda>requested.
     and_then (ord_clamp requested min_counter_collateral max_counter_collateral) (\<lambda>c.
     ok_or (nonzero_new c) (Msg ''Calculated counter_collateral is 0'')))))))"

section \<open>Opening\<close>

text \<open>The schedule of the next liquifunding: the configured delay, shortened by a number of seconds drawn from
  the hash of the time, the owner and the position.\<close>

definition set_next_liquifunding :: "Env \<Rightarrow> Position \<Rightarrow> Timestamp \<Rightarrow> Position res" where
  "set_next_liquifunding env p liquifunded_at =
     (let delay = cfg_liquifunding_delay_seconds (env_config env);
          fuzz = cfg_liquifunding_delay_fuzz_seconds (env_config env) in
     and_then (ts_plus_seconds liquifunded_at delay) (\<lambda>next.
     let p = p\<lparr>pos_liquifunded_at := liquifunded_at, pos_next_liquifunding := next\<rparr> in
     if fuzz = 0 then Inr p
     else
       let how_early_seconds = env_semi_random env (env_now env) (pos_owner p) (pos_id p) mod fuzz in
       if how_early_seconds \<le> delay then
         and_then (ts_plus_seconds liquifunded_at (delay - how_early_seconds)) (\<lambda>next.
         Inr (p\<lparr>pos_next_liquifunding := next\<rparr>))
       else Inr p))"

record OpenPositionParams =
  op_owner :: Addr
  op_collateral :: NonZero
  op_crank_fee :: CollateralAndUsd
  op_leverage :: LeverageToBase
  op_direction :: DirectionToBase
  op_slippage_assert :: "SlippageAssert option"
  op_stop_loss_override :: "PriceBaseInQuote option"
  op_take_profit_trader :: TakeProfitTrader

record OpenPositionExec =
  ope_pos :: Position
  ope_trade_volume_usd :: Usd
  ope_price_point :: PricePoint
  ope_delta_neutrality_fee :: ChargeDeltaNeutralityFeeResult
  ope_open_interest :: AdjustOpenInterest
  ope_liquidity :: LiquidityLock

definition cu_default :: CollateralAndUsd where
  "cu_default = \<lparr>cu_collateral = 0, cu_usd = 0\<rparr>"

definition scu_default :: SignedCollateralAndUsd where
  "scu_default = \<lparr>scu_collateral = signed_zero, scu_usd = signed_zero\<rparr>"

definition lm_default :: LiquidationMargin where
  "lm_default = \<lparr>lm_borrow = 0, lm_funding = 0, lm_delta_neutrality = 0, lm_crank = 0, lm_exposure = 0\<rparr>"

text \<open>The position before any fee is taken out of its collateral.\<close>

definition initial_position ::
    "dec256_api \<Rightarrow> Env \<Rightarrow> OpenPositionParams \<Rightarrow> PricePoint \<Rightarrow> PositionId \<Rightarrow> Signed \<Rightarrow> NonZero \<Rightarrow> Position res" where
  "initial_position D env params price_point i notional_size counter_collateral =
     (let market_type = mid_market_type (env_market_id env); at = pp_timestamp price_point in
     and_then (nz_checked_add D (op_collateral params) (cu_collateral (op_crank_fee params))) (\<lambda>deposit.
     and_then (scu_new D (new_positive deposit) price_point) (\<lambda>deposit_collateral.
     and_then (tp_into_notional D (op_take_profit_trader params) market_type) (\<lambda>tp_notional.
     and_then (transpose_res (map_option (\<lambda>x. into_notional_price D x market_type) (op_stop_loss_override params))) (\<lambda>sl_notional.
     Inr \<lparr>pos_owner = op_owner params, pos_id = i, pos_deposit_collateral = deposit_collateral,
       pos_active_collateral = op_collateral params, pos_counter_collateral = counter_collateral,
       pos_notional_size = notional_size, pos_created_at = env_now env,
       pos_price_point_created_at = Some at, pos_trading_fee = cu_default, pos_funding_fee = scu_default,
       pos_borrow_fee = cu_default, pos_crank_fee = op_crank_fee params, pos_delta_neutrality_fee = scu_default,
       pos_liquifunded_at = at, pos_next_liquifunding = at,
       pos_stop_loss_override = op_stop_loss_override params, pos_stop_loss_override_notional = sl_notional,
       pos_liquidation_price = None, pos_liquidation_margin = lm_default,
       pos_take_profit_trader = Some (op_take_profit_trader params), pos_take_profit_trader_notional = tp_notional,
       pos_take_profit_total = None\<rparr>)))))"

text \<open>The trading fee, the delta neutrality fee, the lock of the counter collateral, the margin and the open
  interest, in the order \<open>OpenPositionExec::new\<close> computes them.\<close>

definition charge_and_lock ::
    "dec256_api \<Rightarrow> Env \<Rightarrow> Ctx \<Rightarrow> Position \<Rightarrow> Signed \<Rightarrow> Usd \<Rightarrow> PricePoint \<Rightarrow> OpenPositionExec res" where
  "charge_and_lock D env ctx p size_in_collateral volume price_point =
     and_then (calculate_trade_fee_open D (env_config env) size_in_collateral (pos_counter_collateral p)) (\<lambda>fee.
     and_then (cu_checked_add_assign D (pos_trading_fee p) fee price_point) (\<lambda>trading_fee.
     and_then (nz_checked_sub D (pos_active_collateral p) (cu_collateral trading_fee)) (\<lambda>active.
     let p = p\<lparr>pos_trading_fee := trading_fee, pos_active_collateral := active\<rparr> in
     and_then (charge_delta_neutrality_fee D env ctx p (pos_notional_size p) price_point DnfPositionOpen) (\<lambda>(p, dnf).
     and_then (liquidity_lock_new D env ctx (pos_counter_collateral p) price_point (Some (pos_notional_size p)) None None) (\<lambda>liquidity.
     and_then (liquidation_margin D p price_point (env_config env)) (\<lambda>margin.
     let p = p\<lparr>pos_liquidation_margin := margin\<rparr> in
     and_then (lm_total D margin) (\<lambda>total.
     and_then (ensure (total \<le> pos_active_collateral p) (Perp InsufficientMargin)) (\<lambda>_.
     and_then (adjust_open_interest_new D env ctx (pos_notional_size p) (pos_direction p) True) (\<lambda>open_interest.
     Inr \<lparr>ope_pos = p, ope_trade_volume_usd = volume, ope_price_point = price_point,
       ope_delta_neutrality_fee = dnf, ope_open_interest = open_interest, ope_liquidity = liquidity\<rparr>)))))))))"

definition open_position_new ::
    "dec256_api \<Rightarrow> Env \<Rightarrow> Ctx \<Rightarrow> OpenPositionParams \<Rightarrow> PricePoint \<Rightarrow> OpenPositionExec res" where
  "open_position_new D env ctx params price_point =
     (let market_type = mid_market_type (env_market_id env) in
     and_then (leverage_into_notional D (leverage_into_signed (op_leverage params) (op_direction params)) market_type)
       (\<lambda>leverage_to_notional.
     and_then (leverage_checked_mul_collateral D leverage_to_notional (op_collateral params)) (\<lambda>size_in_collateral.
     and_then (signed_map (collateral_to_notional D price_point) size_in_collateral) (\<lambda>notional_size.
     and_then (case op_slippage_assert params of
         Some sa \<Rightarrow> do_slippage_assert D env ctx sa notional_size None price_point | None \<Rightarrow> Inr ()) (\<lambda>_.
     and_then (take_profit_to_counter_collateral D
       \<lparr>tc_take_profit_trader = op_take_profit_trader params, tc_market_type = market_type,
        tc_collateral = op_collateral params, tc_leverage_to_base = op_leverage params,
        tc_direction = op_direction params, tc_config = env_config env, tc_price_point = price_point\<rparr>) (\<lambda>counter_collateral.
     and_then (u64_add (last_position_id (pos_st ctx)) 1) (\<lambda>i.
     and_then (initial_position D env params price_point i notional_size counter_collateral) (\<lambda>p.
     and_then (set_next_liquifunding env p (pp_timestamp price_point)) (\<lambda>p.
     and_then (trade_volume_usd D p price_point market_type) (\<lambda>volume.
     and_then (position_validate_leverage_data D env p price_point None) (\<lambda>_.
     and_then (validate_minimum_deposit_collateral D env (op_collateral params) price_point) (\<lambda>_.
     charge_and_lock D env ctx p size_in_collateral volume price_point))))))))))))"

text \<open>The attributes in the events of a position.\<close>

definition position_attributes ::
    "dec256_api \<Rightarrow> Env \<Rightarrow> Position \<Rightarrow> PricePoint \<Rightarrow> PositionAttributes res" where
  "position_attributes D env p price_point =
     (let market_type = mid_market_type (env_market_id env) in
     and_then (collateral_to_usd D price_point (cu_collateral (pos_trading_fee p))) (\<lambda>trading_fee_usd.
     and_then (active_leverage_to_notional D p price_point) (\<lambda>l.
     and_then (leverage_into_base D l market_type) (\<lambda>lb.
     and_then (counter_leverage_to_notional D p price_point) (\<lambda>cl.
     and_then (leverage_into_base D cl market_type) (\<lambda>clb.
     and_then (signed_map (notional_to_collateral D price_point) (pos_notional_size p)) (\<lambda>in_collateral.
     and_then (signed_map (notional_to_usd D price_point) (pos_notional_size p)) (\<lambda>in_usd.
     Inr \<lparr>pat_pos_id = pos_id p, pat_owner = pos_owner p, pat_collaterals = calculate_position_collaterals p,
       pat_market_type = market_type, pat_notional_size = pos_notional_size p,
       pat_notional_size_in_collateral = in_collateral, pat_notional_size_usd = in_usd,
       pat_trading_fee = \<lparr>ptf_trading_fee = cu_collateral (pos_trading_fee p), ptf_trading_fee_usd = trading_fee_usd\<rparr>,
       pat_direction = fst (leverage_split lb), pat_leverage = snd (leverage_split lb),
       pat_counter_leverage = snd (leverage_split clb), pat_stop_loss_override = pos_stop_loss_override p,
       pat_take_profit_trader = pos_take_profit_trader p\<rparr>))))))))"

definition open_position_apply ::
    "dec256_api \<Rightarrow> Env \<Rightarrow> OpenPositionExec \<Rightarrow> PositionSaveReason \<Rightarrow> Ctx \<Rightarrow> (PositionId \<times> Ctx) res" where
  "open_position_apply D env e save_reason ctx =
     (let p = ope_pos e; price_point = ope_price_point e in
     and_then (trade_history_add_volume D env (pos_owner p) (ope_trade_volume_usd e) ctx) (\<lambda>ctx.
     let ctx = adjust_open_interest_apply (ope_open_interest e) ctx in
     and_then (collect_trading_fee D env (pos_id p) (cu_collateral (pos_trading_fee p)) price_point FeeTrading
       (pos_owner p) ctx) (\<lambda>ctx.
     and_then (charge_apply D env (ope_delta_neutrality_fee e) ctx) (\<lambda>ctx.
     and_then (liquidity_lock_apply D env (ope_liquidity e) ctx) (\<lambda>ctx.
     and_then (position_save D env p price_point False True save_reason ctx) (\<lambda>(p, ctx).
     and_then (nft_mint env (pos_owner p) (pos_id p) ctx) (\<lambda>ctx.
     let ctx = upd_pos (\<lambda>s. s\<lparr>last_position_id := pos_id p\<rparr>) ctx in
     and_then (position_attributes D env p price_point) (\<lambda>attributes.
     and_then (position_history_add_open_update_action D env p ActionOpen (Some (cu_collateral (pos_trading_fee p)))
       (Some (scu_collateral (pos_delta_neutrality_fee p))) (scu_collateral (pos_deposit_collateral p)) price_point ctx) (\<lambda>ctx.
     Inr (pos_id p, add_event env (PositionEvent (PositionOpenEvent attributes (pos_created_at p)
       (pp_timestamp price_point))) ctx))))))))))"

end
