(* ===== verification/PositionClosing.thy ===== *)
theory PositionClosing
  imports PositionLifecycle
begin

text \<open>
  Settling and closing positions, \<open>contracts/market/src/state/position/liquifund.rs\<close> and
  \<open>close.rs\<close>. A liquifunding settles the fees and then the price exposure of a time slice and
  keeps the position open or says how to close it; closing pays the delta neutrality fee, gives the
  liquidity back to the pool and the rest of the collateral to the owner, and moves the position to the
  history.
\<close>

section \<open>Liquifunding\<close>

record PositionLiquifund =
  plf_fee_settlement :: PositionFeeSettlement
  plf_position :: MaybeClosedPosition
  plf_liquidity_update_locked :: "LiquidityUpdateLocked option"

definition close_instructions :: "Position \<Rightarrow> PricePoint \<Rightarrow> LiquidationReason \<Rightarrow> ClosePositionInstructions" where
  "close_instructions p price reason =
     \<lparr>ci_pos = p, ci_capped_exposure = signed_zero, ci_additional_losses = 0, ci_settlement_price = price,
      ci_reason = CloseLiquidated reason, ci_closed_during_liquifunding = True\<rparr>"

text \<open>What is left of \<open>PositionLiquifund::new\<close> for a position that survived the settlement of its price
  exposure: it must cover its next margin and keep its direction.\<close>

definition liquifund_survivor ::
    "dec256_api \<Rightarrow> Env \<Rightarrow> Position \<Rightarrow> PricePoint \<Rightarrow> Timestamp \<Rightarrow> DirectionToBase \<Rightarrow> MaybeClosedPosition res" where
  "liquifund_survivor D env p end_price ends_at original_direction_to_base =
     and_then (liquidation_margin D p end_price (env_config env)) (\<lambda>margin.
     and_then (lm_total D margin) (\<lambda>total.
     if pos_active_collateral p \<le> total then Inr (MaybeClose (close_instructions p end_price Liquidated))
     else
       and_then (active_leverage_to_notional D p end_price) (\<lambda>l.
       and_then (leverage_into_base D l (mid_market_type (env_market_id env))) (\<lambda>lb.
       if original_direction_to_base \<noteq> fst (leverage_split lb)
       then Inr (MaybeClose (close_instructions p end_price MaxGains))
       else
         and_then (set_next_liquifunding env p ends_at) (\<lambda>p.
         Inr (MaybeOpen (p\<lparr>pos_liquidation_margin := margin\<rparr>)))))))"

definition position_liquifund_new ::
    "dec256_api \<Rightarrow> Env \<Rightarrow> Ctx \<Rightarrow> Position \<Rightarrow> Timestamp \<Rightarrow> Timestamp \<Rightarrow> bool \<Rightarrow> PositionLiquifund res" where
  "position_liquifund_new D env ctx p starts_at ends_at charge_crank_fee =
     and_then (spot_price env ctx starts_at) (\<lambda>start_price.
     and_then (spot_price env ctx ends_at) (\<lambda>end_price.
     and_then (active_leverage_to_notional D p end_price) (\<lambda>l.
     and_then (leverage_into_base D l (mid_market_type (env_market_id env))) (\<lambda>lb.
     and_then (fee_settlement_new D env ctx p starts_at ends_at charge_crank_fee) (\<lambda>settlement.
     case pfs_position settlement of
       MaybeClose instructions \<Rightarrow> Inr \<lparr>plf_fee_settlement = settlement, plf_position = MaybeClose instructions,
         plf_liquidity_update_locked = None\<rparr>
     | MaybeOpen p \<Rightarrow>
         and_then (settle_price_exposure D p (price_notional start_price) end_price
           (lm_delta_neutrality (pos_liquidation_margin p))) (\<lambda>(mcp, exposure).
         and_then (liquidity_update_locked_new D ctx (signed_neg exposure) end_price None) (\<lambda>lu.
         and_then (case mcp of
             MaybeClose instructions \<Rightarrow> Inr (MaybeClose instructions)
           | MaybeOpen p \<Rightarrow> liquifund_survivor D env p end_price ends_at (fst (leverage_split lb))) (\<lambda>position.
         Inr \<lparr>plf_fee_settlement = settlement, plf_position = position,
           plf_liquidity_update_locked = Some lu\<rparr>))))))))"

definition position_liquifund_apply :: "dec256_api \<Rightarrow> Env \<Rightarrow> PositionLiquifund \<Rightarrow> Ctx \<Rightarrow> (MaybeClosedPosition \<times> Ctx) res" where
  "position_liquifund_apply D env l ctx =
     and_then (fee_settlement_apply D env (plf_fee_settlement l) ctx) (\<lambda>ctx.
     and_then (case plf_liquidity_update_locked l of
         Some u \<Rightarrow> liquidity_update_locked_apply D env u ctx | None \<Rightarrow> Inr ctx) (\<lambda>ctx.
     Inr (plf_position l, ctx)))"

section \<open>Closing\<close>

record ClosePositionExec =
  cpe_dnf :: ChargeDeltaNeutralityFeeResult
  cpe_open_interest :: AdjustOpenInterest
  cpe_liquidity_update :: LiquidityUpdateLocked
  cpe_liquidity_unlock :: "LiquidityUnlock option"
  cpe_trader_collateral_to_send :: "NonZero option"
  cpe_closed_position :: ClosedPosition
  cpe_settlement_price :: PricePoint
  cpe_liquifund_via_close_msg :: "PositionLiquifund option"

text \<open>The final collaterals: the delta neutrality fee leaves the active collateral, then the exposure with
  the losses the remaining collateral can pay moves between the two. The last component is what the
  losses add to the liquidity pool.\<close>

definition close_collaterals ::
    "dec256_api \<Rightarrow> Position \<Rightarrow> Signed \<Rightarrow> Signed \<Rightarrow> Collateral \<Rightarrow> (Signed \<times> Signed \<times> Signed) res" where
  "close_collaterals D p dnf_fee capped_exposure additional_losses =
     and_then (ensure (signed_neg capped_exposure \<le> new_positive (pos_active_collateral p))
       (Msg ''Calculated exposure outweighs active collateral'')) (\<lambda>_.
     and_then (ensure (capped_exposure \<le> new_positive (pos_counter_collateral p))
       (Msg ''Calculated exposure outweighs counter collateral'')) (\<lambda>_.
     and_then (signed_checked_sub D (new_positive (pos_active_collateral p)) dnf_fee) (\<lambda>active_collateral.
     and_then (ensure (is_positive_or_zero active_collateral) (Msg ''active collateral'')) (\<lambda>_.
     and_then (signed_checked_sub D capped_exposure (new_positive additional_losses)) (\<lambda>e.
     let final_exposure = max e (signed_neg active_collateral) in
     and_then (signed_checked_sub D capped_exposure final_exposure) (\<lambda>additional_lp_funds.
     Inr (active_collateral, final_exposure, additional_lp_funds)))))))"

definition closed_position_record ::
    "dec256_api \<Rightarrow> Env \<Rightarrow> Position \<Rightarrow> PricePoint \<Rightarrow> PositionCloseReason \<Rightarrow> Collateral \<Rightarrow> Usd \<Rightarrow> PriceBaseInQuote
      \<Rightarrow> ClosedPosition res" where
  "closed_position_record D env p settlement_price reason active_collateral active_usd entry_price_base =
     and_then (signed_checked_sub D (new_positive active_collateral) (scu_collateral (pos_deposit_collateral p))) (\<lambda>pnl.
     and_then (signed_checked_sub D (new_positive active_usd) (scu_usd (pos_deposit_collateral p))) (\<lambda>pnl_usd.
     Inr \<lparr>cp_owner = pos_owner p, cp_id = pos_id p,
       cp_direction_to_base = direction_into_base (pos_direction p) (mid_market_type (env_market_id env)),
       cp_created_at = pos_created_at p, cp_price_point_created_at = pos_price_point_created_at p,
       cp_liquifunded_at = pos_liquifunded_at p,
       cp_trading_fee_collateral = cu_collateral (pos_trading_fee p), cp_trading_fee_usd = cu_usd (pos_trading_fee p),
       cp_funding_fee_collateral = scu_collateral (pos_funding_fee p), cp_funding_fee_usd = scu_usd (pos_funding_fee p),
       cp_borrow_fee_collateral = cu_collateral (pos_borrow_fee p), cp_borrow_fee_usd = cu_usd (pos_borrow_fee p),
       cp_crank_fee_collateral = cu_collateral (pos_crank_fee p), cp_crank_fee_usd = cu_usd (pos_crank_fee p),
       cp_delta_neutrality_fee_collateral = scu_collateral (pos_delta_neutrality_fee p),
       cp_delta_neutrality_fee_usd = scu_usd (pos_delta_neutrality_fee p),
       cp_deposit_collateral = scu_collateral (pos_deposit_collateral p),
       cp_deposit_collateral_usd = scu_usd (pos_deposit_collateral p),
       cp_active_collateral = active_collateral, cp_pnl_collateral = pnl, cp_pnl_usd = pnl_usd,
       cp_notional_size = pos_notional_size p, cp_entry_price_base = entry_price_base, cp_close_time = env_now env,
       cp_settlement_time = pp_timestamp settlement_price, cp_reason = reason,
       cp_liquidation_margin = Some (pos_liquidation_margin p)\<rparr>))"

definition close_position_new ::
    "dec256_api \<Rightarrow> Env \<Rightarrow> Ctx \<Rightarrow> ClosePositionInstructions \<Rightarrow> PositionLiquifund option \<Rightarrow> ClosePositionExec res" where
  "close_position_new D env ctx instructions liquifund_via_close_msg =
     (let p = ci_pos instructions; settlement_price = ci_settlement_price instructions;
          notional_size_return = signed_neg (pos_notional_size p) in
     and_then (charge_delta_neutrality_fee_no_update D env ctx p notional_size_return settlement_price DnfPositionClose) (\<lambda>dnf.
     and_then (add_delta_neutrality_fee D p (cd_fee dnf) settlement_price) (\<lambda>p.
     and_then (adjust_open_interest_new D env ctx notional_size_return (pos_direction p) False) (\<lambda>open_interest.
     and_then (close_collaterals D p (cd_fee dnf) (ci_capped_exposure instructions) (ci_additional_losses instructions))
       (\<lambda>(active, final_exposure, additional_lp_funds).
     and_then (liquidity_update_locked_new D ctx additional_lp_funds settlement_price
       (Option.bind liquifund_via_close_msg (\<lambda>l. map_option lu_stats (plf_liquidity_update_locked l)))) (\<lambda>liquidity_update.
     and_then (signed_checked_add D active final_exposure) (\<lambda>a.
     and_then (ok_or (try_into_non_negative_value a) (Msg ''close_position: negative active collateral'')) (\<lambda>active_collateral.
     and_then (collateral_to_usd D settlement_price active_collateral) (\<lambda>active_usd.
     and_then (signed_checked_sub D (new_positive (pos_counter_collateral p)) final_exposure) (\<lambda>c.
     and_then (ok_or (try_into_non_negative_value c) (Msg ''close_position: negative counter collateral'')) (\<lambda>counter_collateral.
     and_then (transpose_res (map_option (\<lambda>c. liquidity_unlock_new D ctx c settlement_price (Some (lu_stats liquidity_update)))
       (nonzero_new counter_collateral))) (\<lambda>liquidity_unlock.
     and_then (spot_price env ctx (case pos_price_point_created_at p of Some t \<Rightarrow> t | None \<Rightarrow> pos_created_at p)) (\<lambda>entry_price.
     and_then (closed_position_record D env p settlement_price (ci_reason instructions) active_collateral active_usd
       (price_base entry_price)) (\<lambda>closed_position.
     Inr \<lparr>cpe_dnf = dnf, cpe_open_interest = open_interest, cpe_liquidity_update = liquidity_update,
       cpe_liquidity_unlock = liquidity_unlock, cpe_trader_collateral_to_send = nonzero_new active_collateral,
       cpe_closed_position = closed_position, cpe_settlement_price = settlement_price,
       cpe_liquifund_via_close_msg = liquifund_via_close_msg\<rparr>))))))))))))))"

definition close_position_via_msg :: "dec256_api \<Rightarrow> Env \<Rightarrow> Ctx \<Rightarrow> Position \<Rightarrow> PricePoint \<Rightarrow> ClosePositionExec res" where
  "close_position_via_msg D env ctx p settlement_price =
     and_then (position_liquifund_new D env ctx p (pos_liquifunded_at p) (pp_timestamp settlement_price) False) (\<lambda>liquifund.
     close_position_new D env ctx
       (case plf_position liquifund of
          MaybeOpen p \<Rightarrow> \<lparr>ci_pos = p, ci_capped_exposure = signed_zero, ci_additional_losses = 0,
            ci_settlement_price = settlement_price, ci_reason = CloseDirect, ci_closed_during_liquifunding = False\<rparr>
        | MaybeClose instructions \<Rightarrow> instructions)
       (Some liquifund))"

text \<open>The records of a closed position: its history actions, its token and the entries under its owner and its
  identifier.\<close>

definition record_closed_position ::
    "dec256_api \<Rightarrow> Env \<Rightarrow> ClosedPosition \<Rightarrow> Signed \<Rightarrow> PricePoint \<Rightarrow> Ctx \<Rightarrow> Ctx res" where
  "record_closed_position D env cp dnf_fee settlement_price ctx =
     and_then (position_history_add_close D env cp dnf_fee settlement_price ctx) (\<lambda>ctx.
     and_then (nft_burn env (cp_owner cp) (cp_id cp) ctx) (\<lambda>ctx.
     Inr (add_event env (PositionEvent (PositionCloseEvent cp))
       (upd_pos (\<lambda>s. s\<lparr>closed_position_history := fmupd (cp_owner cp, cp_close_time cp, cp_id cp) cp (closed_position_history s),
          closed_positions := fmupd (cp_id cp) cp (closed_positions s)\<rparr>) ctx))))"

definition close_position_apply :: "dec256_api \<Rightarrow> Env \<Rightarrow> ClosePositionExec \<Rightarrow> Ctx \<Rightarrow> Ctx res" where
  "close_position_apply D env e ctx =
     (let cp = cpe_closed_position e in
     and_then (case cpe_liquifund_via_close_msg e of
         Some l \<Rightarrow> map_res snd (position_liquifund_apply D env l ctx) | None \<Rightarrow> Inr ctx) (\<lambda>ctx.
     and_then (charge_apply D env (cpe_dnf e) ctx) (\<lambda>ctx.
     let ctx = adjust_open_interest_apply (cpe_open_interest e) ctx in
     and_then (liquidity_update_locked_apply D env (cpe_liquidity_update e) ctx) (\<lambda>ctx.
     and_then (case cpe_liquidity_unlock e of
         Some u \<Rightarrow> liquidity_unlock_apply D env u ctx | None \<Rightarrow> Inr ctx) (\<lambda>ctx.
     and_then (case cpe_trader_collateral_to_send e of
         Some c \<Rightarrow> add_token_transfer_msg D (cp_owner cp) c ctx | None \<Rightarrow> Inr ctx) (\<lambda>ctx.
     and_then (position_remove D (cp_id cp) ctx) (\<lambda>ctx.
     record_closed_position D env cp (cd_fee (cpe_dnf e)) (cpe_settlement_price e) ctx)))))))"

section \<open>Storing a liquifunding\<close>

definition position_liquifund_store ::
    "dec256_api \<Rightarrow> Env \<Rightarrow> Position \<Rightarrow> Timestamp \<Rightarrow> Timestamp \<Rightarrow> bool \<Rightarrow> PositionSaveReason \<Rightarrow> Ctx \<Rightarrow> Ctx res" where
  "position_liquifund_store D env p starts_at ends_at charge_crank_fee reason ctx =
     and_then (position_liquifund_new D env ctx p starts_at ends_at charge_crank_fee) (\<lambda>l.
     and_then (position_liquifund_apply D env l ctx) (\<lambda>(mcp, ctx).
     case mcp of
       MaybeOpen p \<Rightarrow>
         and_then (spot_price env ctx ends_at) (\<lambda>price_point.
         and_then (position_save D env p price_point True False reason ctx) (\<lambda>(_, ctx). Inr ctx))
     | MaybeClose instructions \<Rightarrow>
         and_then (close_position_new D env ctx instructions None) (\<lambda>e. close_position_apply D env e ctx)))"

end
