(* ===== verification/PositionUpdate.thy ===== *)
theory PositionUpdate
  imports PositionClosing
begin

text \<open>
  Updates of an open position, \<open>contracts/market/src/state/position/update.rs\<close>: adding or removing
  collateral at constant size or at constant leverage, changing the leverage, the maximal gains or the
  take profit price, and setting the trigger prices. Every update is an \<open>Exec\<close> record with all the
  checks done, applied afterwards.
\<close>

section \<open>New sizes\<close>

definition update_leverage_new_notional_size ::
    "dec256_api \<Rightarrow> Env \<Rightarrow> Ctx \<Rightarrow> PositionId \<Rightarrow> LeverageToBase \<Rightarrow> PricePoint \<Rightarrow> Signed res" where
  "update_leverage_new_notional_size D env ctx i leverage price_point =
     (let market_type = mid_market_type (env_market_id env) in
     and_then (get_position ctx i) (\<lambda>p.
     and_then (leverage_into_notional D (leverage_into_signed leverage (direction_into_base (pos_direction p) market_type))
       market_type) (\<lambda>leverage_to_notional.
     and_then (leverage_checked_mul_collateral D leverage_to_notional (pos_active_collateral p)) (\<lambda>in_collateral.
     signed_map (collateral_to_notional D price_point) in_collateral))))"

definition update_size_new_notional_size :: "dec256_api \<Rightarrow> Ctx \<Rightarrow> PositionId \<Rightarrow> Signed \<Rightarrow> Signed res" where
  "update_size_new_notional_size D ctx i collateral_delta =
     and_then (get_position ctx i) (\<lambda>p.
     and_then (signed_checked_add D (new_positive (pos_active_collateral p)) collateral_delta) (\<lambda>a.
     and_then (number_checked_div D a (new_positive (pos_active_collateral p))) (\<lambda>scale_factor.
     number_checked_mul D (pos_notional_size p) scale_factor)))"

definition update_max_gains_new_counter_collateral ::
    "dec256_api \<Rightarrow> Env \<Rightarrow> Ctx \<Rightarrow> PositionId \<Rightarrow> MaxGainsInQuote \<Rightarrow> PricePoint \<Rightarrow> NonZero res" where
  "update_max_gains_new_counter_collateral D env ctx i max_gains price_point =
     and_then (get_position ctx i) (\<lambda>p.
     case mid_market_type (env_market_id env) of
       CollateralIsQuote \<Rightarrow>
         (case max_gains of
            MG_PosInfinity \<Rightarrow> Inl (Market InvalidInfiniteMaxGains)
          | MG_Finite x \<Rightarrow> checked_mul_non_zero D (pos_active_collateral p) x)
     | CollateralIsBase \<Rightarrow>
         and_then (signed_map (notional_to_collateral D price_point) (pos_notional_size p)) (\<lambda>in_collateral.
         and_then (active_leverage_to_notional D p price_point) (\<lambda>l.
         calculate_counter_collateral D max_gains CollateralIsBase (pos_active_collateral p) in_collateral l)))"

definition clamp_counter_collateral ::
    "dec256_api \<Rightarrow> NonZero \<Rightarrow> Signed \<Rightarrow> Config \<Rightarrow> PricePoint \<Rightarrow> NonZero res" where
  "clamp_counter_collateral D requested notional_size config price_point =
     and_then (notional_to_collateral D price_point (abs_unsigned notional_size)) (\<lambda>max_counter_collateral.
     and_then (ok_or (try_into_non_negative_value (cfg_max_leverage config)) (Msg ''Impossible negative max_leverage''))
       (\<lambda>max_leverage.
     and_then (checked_div_dec D max_counter_collateral max_leverage) (\<lambda>min_counter_collateral.
     and_then (ord_clamp requested min_counter_collateral max_counter_collateral) (\<lambda>c.
     ok_or (nonzero_new c) (Msg ''Calculated counter_collateral is 0'')))))"

section \<open>The update event\<close>

definition usd_of_signed :: "dec256_api \<Rightarrow> PricePoint \<Rightarrow> Signed \<Rightarrow> Signed res" where
  "usd_of_signed D price x = signed_map (collateral_to_usd D price) x"

definition position_update_event ::
    "dec256_api \<Rightarrow> Env \<Rightarrow> Position \<Rightarrow> Position \<Rightarrow> PricePoint \<Rightarrow> PositionUpdateData res" where
  "position_update_event D env original p price =
     (let market_type = mid_market_type (env_market_id env); pos = new_positive in
     and_then (active_leverage_to_notional D p price) (\<lambda>new_leverage.
     and_then (counter_leverage_to_notional D p price) (\<lambda>new_counter_leverage.
     and_then (active_leverage_to_notional D original price) (\<lambda>old_leverage.
     and_then (counter_leverage_to_notional D original price) (\<lambda>old_counter_leverage.
     and_then (leverage_into_base D old_leverage market_type) (\<lambda>old_base.
     and_then (leverage_into_base D new_leverage market_type) (\<lambda>new_base.
     and_then (ensure (fst (leverage_split old_base) = fst (leverage_split new_base)) (Perp DirectionToBaseFlipped)) (\<lambda>_.
     and_then (signed_checked_sub D new_leverage old_leverage) (\<lambda>leverage_delta.
     and_then (signed_checked_sub D (pos (pos_counter_collateral p)) (pos (pos_counter_collateral original))) (\<lambda>counter_delta.
     and_then (signed_checked_sub D new_counter_leverage old_counter_leverage) (\<lambda>counter_leverage_delta.
     and_then (signed_checked_sub D (pos (pos_active_collateral p)) (pos (pos_active_collateral original))) (\<lambda>active_delta.
     and_then (d_sub D (cu_collateral (pos_trading_fee p)) (cu_collateral (pos_trading_fee original))) (\<lambda>fee_delta.
     and_then (signed_checked_sub D (scu_collateral (pos_delta_neutrality_fee p))
       (scu_collateral (pos_delta_neutrality_fee original))) (\<lambda>dnf_delta.
     and_then (signed_checked_sub D (pos_notional_size p) (pos_notional_size original)) (\<lambda>size_delta.
     and_then (signed_checked_sub D (signed_abs (pos_notional_size p)) (signed_abs (pos_notional_size original))) (\<lambda>abs_delta.
     and_then (signed_checked_sub D (scu_collateral (pos_deposit_collateral p))
       (scu_collateral (pos_deposit_collateral original))) (\<lambda>deposit_delta.
     and_then (leverage_into_base D new_counter_leverage market_type) (\<lambda>counter_base.
     and_then (signed_map (notional_to_collateral D price) (pos_notional_size p)) (\<lambda>in_collateral.
     and_then (signed_map (notional_to_usd D price) (pos_notional_size p)) (\<lambda>in_usd.
     and_then (usd_of_signed D price deposit_delta) (\<lambda>deposit_usd.
     and_then (usd_of_signed D price active_delta) (\<lambda>active_usd.
     and_then (usd_of_signed D price counter_delta) (\<lambda>counter_usd.
     and_then (signed_map (notional_to_usd D price) size_delta) (\<lambda>size_usd.
     and_then (signed_map (notional_to_usd D price) abs_delta) (\<lambda>abs_usd.
     and_then (collateral_to_usd D price fee_delta) (\<lambda>fee_usd.
     and_then (usd_of_signed D price dnf_delta) (\<lambda>dnf_usd.
     Inr \<lparr>pu_attributes = \<lparr>pat_pos_id = pos_id p, pat_owner = pos_owner p,
            pat_collaterals = calculate_position_collaterals p, pat_market_type = market_type,
            pat_notional_size = pos_notional_size p, pat_notional_size_in_collateral = in_collateral,
            pat_notional_size_usd = in_usd, pat_trading_fee = \<lparr>ptf_trading_fee = cu_collateral (pos_trading_fee p),
              ptf_trading_fee_usd = cu_usd (pos_trading_fee p)\<rparr>,
            pat_direction = fst (leverage_split new_base), pat_leverage = snd (leverage_split new_base),
            pat_counter_leverage = snd (leverage_split counter_base),
            pat_stop_loss_override = pos_stop_loss_override p, pat_take_profit_trader = pos_take_profit_trader p\<rparr>,
          pu_deposit_collateral_delta = deposit_delta, pu_deposit_collateral_delta_usd = deposit_usd,
          pu_active_collateral_delta = active_delta, pu_active_collateral_delta_usd = active_usd,
          pu_counter_collateral_delta = counter_delta, pu_counter_collateral_delta_usd = counter_usd,
          pu_leverage_delta = leverage_delta, pu_counter_leverage_delta = counter_leverage_delta,
          pu_notional_size_delta = size_delta, pu_notional_size_delta_usd = size_usd,
          pu_notional_size_abs_delta = abs_delta, pu_notional_size_abs_delta_usd = abs_usd,
          pu_trading_fee_delta = fee_delta, pu_trading_fee_delta_usd = fee_usd,
          pu_delta_neutrality_fee_delta = dnf_delta, pu_delta_neutrality_fee_delta_usd = dnf_usd,
          pu_updated_at = env_now env\<rparr>)))))))))))))))))))))))))))"

definition update_event_emit :: "dec256_api \<Rightarrow> Env \<Rightarrow> PositionUpdateData \<Rightarrow> Position \<Rightarrow> PricePoint \<Rightarrow> Ctx \<Rightarrow> Ctx res" where
  "update_event_emit D env e p price ctx =
     position_history_add_open_update_action D env p ActionUpdate
       (if pu_trading_fee_delta e = 0 then None else Some (pu_trading_fee_delta e))
       (if sg_value (pu_delta_neutrality_fee_delta e) = 0 then None else Some (pu_delta_neutrality_fee_delta e))
       (pu_deposit_collateral_delta e) price (add_event env (PositionEvent (PositionUpdateEvent e)) ctx)"

section \<open>The liquidity of an update\<close>

datatype LiquidityUpdate = UpdateLock LiquidityLock | UpdateUnlock LiquidityUnlock

definition liquidity_update_new ::
    "dec256_api \<Rightarrow> Env \<Rightarrow> Ctx \<Rightarrow> Signed \<Rightarrow> PricePoint \<Rightarrow> AdjustOpenInterest option \<Rightarrow> LiquidityUpdate option res" where
  "liquidity_update_new D env ctx counter_collateral_delta price_point open_interest =
     (case nonzero_new (abs_unsigned counter_collateral_delta) of
        Some delta_abs \<Rightarrow>
          if is_strictly_positive counter_collateral_delta then
            and_then (transpose_res (map_option (adjust_net_notional D ctx) open_interest)) (\<lambda>net.
            map_res (\<lambda>l. Some (UpdateLock l)) (liquidity_lock_new D env ctx delta_abs price_point None net None))
          else map_res (\<lambda>u. Some (UpdateUnlock u)) (liquidity_unlock_new D ctx delta_abs price_point None)
      | None \<Rightarrow> Inr None)"

definition liquidity_update_apply :: "dec256_api \<Rightarrow> Env \<Rightarrow> LiquidityUpdate option \<Rightarrow> Ctx \<Rightarrow> Ctx res" where
  "liquidity_update_apply D env u ctx =
     (case u of
        None \<Rightarrow> Inr ctx
      | Some (UpdateLock l) \<Rightarrow> liquidity_lock_apply D env l ctx
      | Some (UpdateUnlock l) \<Rightarrow> liquidity_unlock_apply D env l ctx)"

text \<open>The difference of the trade volumes of a position before and after an update.\<close>

definition volume_diff :: "dec256_api \<Rightarrow> Env \<Rightarrow> Position \<Rightarrow> Position \<Rightarrow> PricePoint \<Rightarrow> Usd res" where
  "volume_diff D env original p price_point =
     (let mt = mid_market_type (env_market_id env) in
     and_then (trade_volume_usd D original price_point mt) (\<lambda>a.
     and_then (trade_volume_usd D p price_point mt) (\<lambda>b. u_diff D a b)))"

text \<open>The trading fee of an update, taken out of the active collateral.\<close>

definition take_trading_fee :: "dec256_api \<Rightarrow> Position \<Rightarrow> Collateral \<Rightarrow> PricePoint \<Rightarrow> Position res" where
  "take_trading_fee D p fee price_point =
     and_then (nz_checked_sub D (pos_active_collateral p) fee) (\<lambda>active.
     and_then (cu_checked_add_assign D (pos_trading_fee p) fee price_point) (\<lambda>trading_fee.
     Inr (p\<lparr>pos_active_collateral := active, pos_trading_fee := trading_fee\<rparr>)))"

text \<open>Moving collateral between the trader and the position: the active collateral and the deposits.\<close>

definition add_collateral :: "dec256_api \<Rightarrow> Position \<Rightarrow> Signed \<Rightarrow> PricePoint \<Rightarrow> Position res" where
  "add_collateral D p collateral_delta price_point =
     and_then (nz_checked_add_signed D (pos_active_collateral p) collateral_delta) (\<lambda>active.
     and_then (scu_checked_add_assign D (pos_deposit_collateral p) collateral_delta price_point) (\<lambda>deposit.
     Inr (p\<lparr>pos_active_collateral := active, pos_deposit_collateral := deposit\<rparr>)))"

definition refund :: "dec256_api \<Rightarrow> Addr \<Rightarrow> NonZero option \<Rightarrow> Ctx \<Rightarrow> Ctx res" where
  "refund D owner user_refund ctx =
     (case user_refund of Some r \<Rightarrow> add_token_transfer_msg D owner r ctx | None \<Rightarrow> Inr ctx)"

section \<open>Collateral at constant size\<close>

record UpdatePositionCollateralExec =
  uc_pos :: Position
  uc_price_point :: PricePoint
  uc_trade_volume :: Usd
  uc_user_refund :: "NonZero option"
  uc_event :: PositionUpdateData

definition update_collateral_new ::
    "dec256_api \<Rightarrow> Env \<Rightarrow> Position \<Rightarrow> Signed \<Rightarrow> PricePoint \<Rightarrow> UpdatePositionCollateralExec res" where
  "update_collateral_new D env original collateral_delta price_point =
     and_then (add_collateral D original collateral_delta price_point) (\<lambda>p.
     and_then (volume_diff D env original p price_point) (\<lambda>trade_volume.
     and_then (position_validate_leverage_data D env p price_point (Some original)) (\<lambda>_.
     and_then (if is_negative collateral_delta
       then validate_minimum_deposit_collateral D env (pos_active_collateral p) price_point else Inr ()) (\<lambda>_.
     and_then (position_update_event D env original p price_point) (\<lambda>event.
     Inr \<lparr>uc_pos = p, uc_price_point = price_point, uc_trade_volume = trade_volume,
       uc_user_refund = try_into_non_zero (signed_neg collateral_delta), uc_event = event\<rparr>)))))"

definition update_collateral_apply :: "dec256_api \<Rightarrow> Env \<Rightarrow> UpdatePositionCollateralExec \<Rightarrow> Ctx \<Rightarrow> Ctx res" where
  "update_collateral_apply D env u ctx =
     and_then (trade_history_add_volume D env (pos_owner (uc_pos u)) (uc_trade_volume u) ctx) (\<lambda>ctx.
     and_then (update_event_emit D env (uc_event u) (uc_pos u) (uc_price_point u) ctx) (\<lambda>ctx.
     and_then (position_save D env (uc_pos u) (uc_price_point u) True True SaveUpdate ctx) (\<lambda>(p, ctx).
     refund D (pos_owner p) (uc_user_refund u) ctx)))"

section \<open>Size and leverage\<close>

record UpdatePositionSizeExec =
  us_pos :: Position
  us_price_point :: PricePoint
  us_trade_volume :: Usd
  us_user_refund :: "NonZero option"
  us_dnf :: ChargeDeltaNeutralityFeeResult
  us_open_interest :: AdjustOpenInterest
  us_liquidity_update :: "LiquidityUpdate option"
  us_trading_fee_delta :: Collateral
  us_event :: PositionUpdateData

text \<open>The second half of the two updates that change the notional size: the trading fee, the delta
  neutrality fee, the open interest, the liquidity and the event.\<close>

definition charge_update ::
    "dec256_api \<Rightarrow> Env \<Rightarrow> Ctx \<Rightarrow> Position \<Rightarrow> Position \<Rightarrow> Signed \<Rightarrow> Signed \<Rightarrow> Signed \<Rightarrow> Usd \<Rightarrow> NonZero option
      \<Rightarrow> PricePoint \<Rightarrow> UpdatePositionSizeExec res" where
  "charge_update D env ctx original p old_in_collateral new_in_collateral counter_collateral_delta trade_volume
       user_refund price_point =
     and_then (calculate_trade_fee D (env_config env) old_in_collateral new_in_collateral
       (pos_counter_collateral original) (pos_counter_collateral p)) (\<lambda>fee.
     and_then (take_trading_fee D p fee price_point) (\<lambda>p.
     and_then (signed_checked_sub D (pos_notional_size p) (pos_notional_size original)) (\<lambda>notional_size_diff.
     and_then (charge_delta_neutrality_fee D env ctx p notional_size_diff price_point DnfPositionUpdate) (\<lambda>(p, dnf).
     and_then (adjust_open_interest_new D env ctx notional_size_diff (pos_direction p) True) (\<lambda>open_interest.
     and_then (liquidity_update_new D env ctx counter_collateral_delta price_point (Some open_interest)) (\<lambda>liquidity_update.
     and_then (position_update_event D env original p price_point) (\<lambda>event.
     Inr \<lparr>us_pos = p, us_price_point = price_point, us_trade_volume = trade_volume, us_user_refund = user_refund,
       us_dnf = dnf, us_open_interest = open_interest, us_liquidity_update = liquidity_update,
       us_trading_fee_delta = fee, us_event = event\<rparr>)))))))"

definition update_size_new ::
    "dec256_api \<Rightarrow> Env \<Rightarrow> Ctx \<Rightarrow> Position \<Rightarrow> Signed \<Rightarrow> PricePoint \<Rightarrow> UpdatePositionSizeExec res" where
  "update_size_new D env ctx original collateral_delta price_point =
     and_then (signed_checked_add D (new_positive (pos_active_collateral original)) collateral_delta) (\<lambda>sum.
     and_then (approx_gt_strict D sum signed_zero) (\<lambda>positive.
     and_then (ensure positive (Perp PositionUpdate)) (\<lambda>_.
     and_then (number_checked_div D sum (new_positive (pos_active_collateral original))) (\<lambda>s.
     and_then (ok_or (try_into_non_zero s) (Msg ''scale_factor is negative or zero'')) (\<lambda>scale_factor.
     and_then (add_collateral D original collateral_delta price_point) (\<lambda>p.
     and_then (notional_size_in_collateral D original price_point) (\<lambda>old_in_collateral.
     and_then (signed_map (\<lambda>x. checked_mul_dec D x scale_factor) old_in_collateral) (\<lambda>new_in_collateral.
     and_then (signed_map (collateral_to_notional D price_point) new_in_collateral) (\<lambda>notional_size.
     and_then (checked_mul_non_zero D (pos_counter_collateral original) scale_factor) (\<lambda>requested.
     and_then (clamp_counter_collateral D requested notional_size (env_config env) price_point) (\<lambda>counter.
     and_then (signed_checked_sub D (new_positive counter) (new_positive (pos_counter_collateral original))) (\<lambda>counter_delta.
     let p = p\<lparr>pos_notional_size := notional_size, pos_counter_collateral := counter\<rparr> in
     and_then (volume_diff D env original p price_point) (\<lambda>trade_volume.
     and_then (position_validate_leverage_data D env p price_point (Some original)) (\<lambda>_.
     and_then (if is_negative collateral_delta
       then validate_minimum_deposit_collateral D env (pos_active_collateral p) price_point else Inr ()) (\<lambda>_.
     charge_update D env ctx original p old_in_collateral new_in_collateral counter_delta trade_volume
       (try_into_non_zero (signed_neg collateral_delta)) price_point)))))))))))))))"

definition update_leverage_new ::
    "dec256_api \<Rightarrow> Env \<Rightarrow> Ctx \<Rightarrow> Position \<Rightarrow> Signed \<Rightarrow> PricePoint \<Rightarrow> UpdatePositionSizeExec res" where
  "update_leverage_new D env ctx original notional_size price_point =
     and_then (approx_eq_number D notional_size signed_zero) (\<lambda>is_zero.
     and_then (ensure (\<not> is_zero) (Perp PositionUpdate)) (\<lambda>_.
     and_then (notional_to_collateral D price_point (abs_unsigned (pos_notional_size original))) (\<lambda>old_abs.
     and_then (ok_or (nonzero_new old_abs) (Msg ''notional_size is zero'')) (\<lambda>old_abs.
     and_then (checked_div_collateral D (pos_counter_collateral original) old_abs) (\<lambda>counter_ratio.
     and_then (notional_size_in_collateral D original price_point) (\<lambda>old_in_collateral.
     and_then (signed_map (notional_to_collateral D price_point) notional_size) (\<lambda>new_in_collateral.
     and_then (checked_mul_dec D (abs_unsigned new_in_collateral) counter_ratio) (\<lambda>r.
     and_then (ok_or (nonzero_new r) (Msg ''new_counter_collateral is zero'')) (\<lambda>requested.
     and_then (clamp_counter_collateral D requested notional_size (env_config env) price_point) (\<lambda>counter.
     and_then (signed_checked_sub D (new_positive counter) (new_positive (pos_counter_collateral original))) (\<lambda>counter_delta.
     let p = original\<lparr>pos_notional_size := notional_size, pos_counter_collateral := counter\<rparr> in
     and_then (volume_diff D env original p price_point) (\<lambda>trade_volume.
     and_then (position_validate_leverage_data D env p price_point (Some original)) (\<lambda>_.
     charge_update D env ctx original p old_in_collateral new_in_collateral counter_delta trade_volume None
       price_point)))))))))))))"

definition update_size_apply :: "dec256_api \<Rightarrow> Env \<Rightarrow> UpdatePositionSizeExec \<Rightarrow> Ctx \<Rightarrow> Ctx res" where
  "update_size_apply D env u ctx =
     and_then (trade_history_add_volume D env (pos_owner (us_pos u)) (us_trade_volume u) ctx) (\<lambda>ctx.
     and_then (charge_apply D env (us_dnf u) ctx) (\<lambda>ctx.
     let ctx = adjust_open_interest_apply (us_open_interest u) ctx in
     and_then (position_save D env (us_pos u) (us_price_point u) True True SaveUpdate ctx) (\<lambda>(p, ctx).
     and_then (add_delta_neutrality_ratio_event D env (liquidity_stats ctx) (us_price_point u) ctx) (\<lambda>ctx.
     and_then (liquidity_update_apply D env (us_liquidity_update u) ctx) (\<lambda>ctx.
     and_then (collect_trading_fee D env (pos_id p) (us_trading_fee_delta u) (us_price_point u) FeeTrading
       (pos_owner p) ctx) (\<lambda>ctx.
     and_then (update_event_emit D env (us_event u) p (us_price_point u) ctx) (\<lambda>ctx.
     refund D (pos_owner p) (us_user_refund u) ctx)))))))"

section \<open>Maximal gains and take profit\<close>

record UpdatePositionMaxGainsExec =
  um_pos :: Position
  um_price_point :: PricePoint
  um_liquidity_update :: "LiquidityUpdate option"
  um_trading_fee_delta :: Collateral
  um_event :: PositionUpdateData

definition charge_counter_update ::
    "dec256_api \<Rightarrow> Env \<Rightarrow> Ctx \<Rightarrow> Position \<Rightarrow> NonZero \<Rightarrow> PricePoint \<Rightarrow> UpdatePositionMaxGainsExec res" where
  "charge_counter_update D env ctx original counter price_point =
     and_then (signed_checked_sub D (new_positive counter) (new_positive (pos_counter_collateral original))) (\<lambda>counter_delta.
     let p = original\<lparr>pos_counter_collateral := counter\<rparr> in
     and_then (position_validate_leverage_data D env p price_point (Some original)) (\<lambda>_.
     and_then (calculate_trade_fee D (env_config env) signed_zero signed_zero
       (pos_counter_collateral original) counter) (\<lambda>fee.
     and_then (take_trading_fee D p fee price_point) (\<lambda>p.
     and_then (signed_checked_sub D (pos_notional_size p) (pos_notional_size original)) (\<lambda>_.
     and_then (liquidity_update_new D env ctx counter_delta price_point None) (\<lambda>liquidity_update.
     and_then (position_update_event D env original p price_point) (\<lambda>event.
     Inr \<lparr>um_pos = p, um_price_point = price_point, um_liquidity_update = liquidity_update,
       um_trading_fee_delta = fee, um_event = event\<rparr>)))))))"

definition update_max_gains_new ::
    "dec256_api \<Rightarrow> Env \<Rightarrow> Ctx \<Rightarrow> Position \<Rightarrow> MaxGainsInQuote \<Rightarrow> PricePoint \<Rightarrow> UpdatePositionMaxGainsExec res" where
  "update_max_gains_new D env ctx original max_gains price_point =
     and_then (update_max_gains_new_counter_collateral D env ctx (pos_id original) max_gains price_point) (\<lambda>requested.
     and_then (clamp_counter_collateral D requested (pos_notional_size original) (env_config env) price_point) (\<lambda>counter.
     charge_counter_update D env ctx original counter price_point))"

definition update_take_profit_new ::
    "dec256_api \<Rightarrow> Env \<Rightarrow> Ctx \<Rightarrow> Position \<Rightarrow> TakeProfitTrader \<Rightarrow> PricePoint \<Rightarrow> UpdatePositionMaxGainsExec res" where
  "update_take_profit_new D env ctx original take_profit_trader price_point =
     (let market_type = mid_market_type (env_market_id env) in
     and_then (active_leverage_to_notional D original price_point) (\<lambda>l.
     and_then (leverage_into_base D l market_type) (\<lambda>lb.
     and_then (take_profit_to_counter_collateral D
       \<lparr>tc_take_profit_trader = take_profit_trader, tc_market_type = market_type,
        tc_collateral = pos_active_collateral original, tc_leverage_to_base = snd (leverage_split lb),
        tc_direction = direction_into_base (pos_direction original) market_type, tc_config = env_config env,
        tc_price_point = price_point\<rparr>) (\<lambda>counter.
     and_then (charge_counter_update D env ctx original counter price_point) (\<lambda>u.
     and_then (tp_into_notional D take_profit_trader market_type) (\<lambda>tp_notional.
     Inr (u\<lparr>um_pos := (um_pos u)\<lparr>pos_take_profit_trader := Some take_profit_trader,
       pos_take_profit_trader_notional := tp_notional\<rparr>\<rparr>)))))))"

definition update_max_gains_apply :: "dec256_api \<Rightarrow> Env \<Rightarrow> UpdatePositionMaxGainsExec \<Rightarrow> Ctx \<Rightarrow> Ctx res" where
  "update_max_gains_apply D env u ctx =
     and_then (position_save D env (um_pos u) (um_price_point u) True True SaveUpdate ctx) (\<lambda>(p, ctx).
     and_then (liquidity_update_apply D env (um_liquidity_update u) ctx) (\<lambda>ctx.
     and_then (collect_trading_fee D env (pos_id p) (um_trading_fee_delta u) (um_price_point u) FeeTrading
       (pos_owner p) ctx) (\<lambda>ctx.
     update_event_emit D env (um_event u) p (um_price_point u) ctx)))"

section \<open>Trigger prices\<close>

record TriggerOrderExec =
  to_pos :: Position
  to_price_point :: PricePoint

definition notional_stop_loss :: "dec256_api \<Rightarrow> Env \<Rightarrow> PriceBaseInQuote option \<Rightarrow> Price option res" where
  "notional_stop_loss D env stop_loss =
     transpose_res (map_option (\<lambda>x. into_notional_price D x (mid_market_type (env_market_id env))) stop_loss)"

definition trigger_order_new ::
    "dec256_api \<Rightarrow> Env \<Rightarrow> Ctx \<Rightarrow> PositionId \<Rightarrow> PriceBaseInQuote option \<Rightarrow> TakeProfitTrader option \<Rightarrow> PricePoint
      \<Rightarrow> TriggerOrderExec res" where
  "trigger_order_new D env ctx i stop_loss_override take_profit_trader price_point =
     and_then (get_position ctx i) (\<lambda>p.
     and_then (notional_stop_loss D env stop_loss_override) (\<lambda>sl_notional.
     and_then (case take_profit_trader of
         Some t \<Rightarrow> tp_into_notional D t (mid_market_type (env_market_id env)) | None \<Rightarrow> Inr None) (\<lambda>tp_notional.
     Inr \<lparr>to_pos = p\<lparr>pos_stop_loss_override := stop_loss_override, pos_stop_loss_override_notional := sl_notional,
         pos_take_profit_trader := take_profit_trader, pos_take_profit_trader_notional := tp_notional\<rparr>,
       to_price_point = price_point\<rparr>)))"

definition update_stop_loss_new ::
    "dec256_api \<Rightarrow> Env \<Rightarrow> Ctx \<Rightarrow> PositionId \<Rightarrow> StopLossRequest \<Rightarrow> PricePoint \<Rightarrow> TriggerOrderExec res" where
  "update_stop_loss_new D env ctx i stop_loss price_point =
     and_then (get_position ctx i) (\<lambda>p.
     let stop_loss_override = (case stop_loss of StopLossRemove \<Rightarrow> None | StopLossPrice x \<Rightarrow> Some x) in
     and_then (notional_stop_loss D env stop_loss_override) (\<lambda>sl_notional.
     Inr \<lparr>to_pos = p\<lparr>pos_stop_loss_override := stop_loss_override, pos_stop_loss_override_notional := sl_notional\<rparr>,
       to_price_point = price_point\<rparr>))"

definition trigger_order_apply :: "dec256_api \<Rightarrow> Env \<Rightarrow> TriggerOrderExec \<Rightarrow> Ctx \<Rightarrow> Ctx res" where
  "trigger_order_apply D env t ctx =
     and_then (position_save D env (to_pos t) (to_price_point t) True False SaveUpdate ctx) (\<lambda>(_, ctx). Inr ctx)"

end
