(* ===== verification/Orders.thy ===== *)
theory Orders
  imports PositionUpdate
begin

text \<open>
  Limit orders, \<open>contracts/market/src/state/order.rs\<close>, with the backwards compatible take profit price of
  \<open>packages/perpswap/src/compat.rs\<close>. An order waits in an index by trigger price; when a price
  triggers it, it is removed and opens a position, or its collateral goes back to the owner.
\<close>

section \<open>Backwards compatible take profit\<close>

definition take_profit_from_counter_collateral ::
    "dec256_api \<Rightarrow> MarketType \<Rightarrow> NonZero \<Rightarrow> NonZero \<Rightarrow> LeverageToBase \<Rightarrow> PricePoint \<Rightarrow> DirectionToBase
      \<Rightarrow> TakeProfitTrader res" where
  "take_profit_from_counter_collateral D mt collateral counter_collateral leverage price_point direction =
     and_then (calc_notional_size D leverage direction mt price_point collateral) (\<lambda>notional_size.
     and_then (number_checked_div D (new_positive counter_collateral) notional_size) (\<lambda>d.
     and_then (signed_checked_add D (new_positive (price_notional price_point)) d) (\<lambda>raw.
     and_then (approx_eq_number D raw signed_zero) (\<lambda>is_zero.
     case (if is_zero then None else ok (price_try_from_number raw)) of
       Some price \<Rightarrow> map_res TP_Finite (into_base_price D price mt)
     | None \<Rightarrow>
         (case mt of
            CollateralIsBase \<Rightarrow> Inr TP_PosInfinity
          | CollateralIsQuote \<Rightarrow> Inl (Msg ''Calculated a take profit price in a collateral-is-quote market''))))))"

definition backwards_compat_take_profit ::
    "dec256_api \<Rightarrow> NonZero \<Rightarrow> DirectionToBase \<Rightarrow> LeverageToBase \<Rightarrow> MarketType \<Rightarrow> PricePoint \<Rightarrow> MaxGainsInQuote
      \<Rightarrow> PriceBaseInQuote option \<Rightarrow> TakeProfitTrader res" where
  "backwards_compat_take_profit D collateral direction leverage mt price_point max_gains take_profit =
     (case take_profit of
        Some tp \<Rightarrow> Inr (TP_Finite tp)
      | None \<Rightarrow>
          (case max_gains of
             MG_PosInfinity \<Rightarrow> Inr TP_PosInfinity
           | MG_Finite _ \<Rightarrow>
               and_then (leverage_into_notional D (leverage_into_signed leverage direction) mt) (\<lambda>leverage_to_notional.
               and_then (leverage_checked_mul_collateral D leverage_to_notional collateral) (\<lambda>in_collateral.
               and_then (calculate_counter_collateral D max_gains mt collateral in_collateral leverage_to_notional)
                 (\<lambda>counter_collateral.
               take_profit_from_counter_collateral D mt collateral counter_collateral leverage price_point direction)))))"

text \<open>The choice every user of the two deprecated fields makes.\<close>

definition choose_take_profit ::
    "dec256_api \<Rightarrow> TakeProfitTrader option \<Rightarrow> MaxGainsInQuote option \<Rightarrow> NonZero \<Rightarrow> DirectionToBase \<Rightarrow> LeverageToBase
      \<Rightarrow> MarketType \<Rightarrow> PricePoint \<Rightarrow> TakeProfitTrader res" where
  "choose_take_profit D take_profit max_gains collateral direction leverage mt price_point =
     (case (take_profit, max_gains) of
        (None, None) \<Rightarrow> Inl (Msg ''must supply at least one of take_profit or max_gains'')
      | (Some tp, None) \<Rightarrow> Inr tp
      | (tp, Some max_gains) \<Rightarrow>
          and_then (case tp of
              None \<Rightarrow> Inr None
            | Some TP_PosInfinity \<Rightarrow> Inl (Msg ''cannot set infinite take profit price and max_gains'')
            | Some (TP_Finite x) \<Rightarrow> Inr (Some x)) (\<lambda>tp.
          backwards_compat_take_profit D collateral direction leverage mt price_point max_gains tp))"

section \<open>Storage\<close>

definition upd_orders :: "(OrdersState \<Rightarrow> OrdersState) \<Rightarrow> Ctx \<Rightarrow> Ctx" where
  "upd_orders f ctx = ctx\<lparr>order_st := f (order_st ctx)\<rparr>"

definition limit_order_load :: "Ctx \<Rightarrow> OrderId \<Rightarrow> LimitOrder res" where
  "limit_order_load ctx i = ok_or (fmlookup (limit_orders (order_st ctx)) i) (Std ''not found'')"

definition limit_order_triggered_order :: "Ctx \<Rightarrow> Price \<Rightarrow> OrderId option" where
  "limit_order_triggered_order ctx price =
     (case fm_last_where (\<lambda>(p, _). price \<le> p) (orders_by_price_long (order_st ctx)) of
        Some k \<Rightarrow> Some (snd k)
      | None \<Rightarrow> map_option snd (fm_first_where (\<lambda>(p, _). p \<le> price) (orders_by_price_short (order_st ctx))))"

definition limit_order_newly_triggered_order :: "Ctx \<Rightarrow> Price \<Rightarrow> Price \<Rightarrow> bool" where
  "limit_order_newly_triggered_order ctx oracle_price new_price \<longleftrightarrow>
     fm_first_where (\<lambda>(p, _). new_price \<le> p \<and> p < oracle_price) (orders_by_price_long (order_st ctx)) \<noteq> None
   \<or> fm_last_where (\<lambda>(p, _). oracle_price < p \<and> p \<le> new_price) (orders_by_price_short (order_st ctx)) \<noteq> None"

definition limit_order_assert_owner :: "Ctx \<Rightarrow> Addr \<Rightarrow> OrderId \<Rightarrow> unit res" where
  "limit_order_assert_owner ctx owner i =
     ensure (fmlookup (orders_by_addr (order_st ctx)) (owner, i) \<noteq> None) (Msg ''Limit order is not owned'')"

definition limit_order_remove :: "dec256_api \<Rightarrow> Env \<Rightarrow> LimitOrder \<Rightarrow> Ctx \<Rightarrow> Ctx res" where
  "limit_order_remove D env order ctx =
     and_then (into_notional_price D (lo_trigger_price order) (mid_market_type (env_market_id env))) (\<lambda>key.
     let i = lo_order_id order in
     Inr (upd_orders (\<lambda>s. (case lo_direction order of
           LongNotional \<Rightarrow> s\<lparr>orders_by_price_long := fmdrop (key, i) (orders_by_price_long s)\<rparr>
         | ShortNotional \<Rightarrow> s\<lparr>orders_by_price_short := fmdrop (key, i) (orders_by_price_short s)\<rparr>)
         \<lparr>limit_orders := fmdrop i (limit_orders s), orders_by_addr := fmdrop (lo_owner order, i) (orders_by_addr s)\<rparr>) ctx))"

section \<open>Execution\<close>

definition limit_order_params :: "Env \<Rightarrow> LimitOrder \<Rightarrow> TakeProfitTrader \<Rightarrow> OpenPositionParams" where
  "limit_order_params env order take_profit_trader =
     \<lparr>op_owner = lo_owner order, op_collateral = lo_collateral order,
      op_crank_fee = \<lparr>cu_collateral = lo_crank_fee_collateral order, cu_usd = lo_crank_fee_usd order\<rparr>,
      op_leverage = lo_leverage order,
      op_direction = direction_into_base (lo_direction order) (mid_market_type (env_market_id env)),
      op_slippage_assert = None, op_stop_loss_override = lo_stop_loss_override order,
      op_take_profit_trader = take_profit_trader\<rparr>"

text \<open>A position that fails its checks leaves the storage as it was and returns the collateral; a failure while
  the position is written, and a panic, abort the execution.\<close>

definition limit_order_execute_order :: "dec256_api \<Rightarrow> Env \<Rightarrow> OrderId \<Rightarrow> PricePoint \<Rightarrow> Ctx \<Rightarrow> Ctx res" where
  "limit_order_execute_order D env i price_point ctx =
     and_then (limit_order_load ctx i) (\<lambda>order.
     and_then (limit_order_remove D env order ctx) (\<lambda>ctx.
     let market_type = mid_market_type (env_market_id env) in
     and_then (choose_take_profit D (lo_take_profit order) (lo_max_gains order) (lo_collateral order)
       (direction_into_base (lo_direction order) market_type) (lo_leverage order) market_type price_point) (\<lambda>tp.
     and_then (case open_position_new D env ctx (limit_order_params env order tp) price_point of
         Inr e \<Rightarrow>
           and_then (open_position_apply D env e SaveExecuteLimitOrder ctx) (\<lambda>(pos_id, ctx). Inr (OrderSuccess pos_id, ctx))
       | Inl (Panic s) \<Rightarrow> Inl (Panic s)
       | Inl e \<Rightarrow>
           and_then (add_token_transfer_msg D (lo_owner order) (lo_collateral order) ctx) (\<lambda>ctx. Inr (OrderFailure e, ctx))) (\<lambda>(r, ctx).
     let ctx = add_event env (OrderEvent (ExecuteLimitOrderEvent i
           (case r of OrderSuccess p \<Rightarrow> Some p | OrderFailure _ \<Rightarrow> None)
           (case r of OrderSuccess _ \<Rightarrow> None | OrderFailure e \<Rightarrow> Some e))) ctx in
     Inr (upd_orders (\<lambda>s. s\<lparr>executed_limit_orders := fmupd (lo_owner order, i)
         \<lparr>el_order = order, el_result = r, el_timestamp = env_now env\<rparr> (executed_limit_orders s)\<rparr>) ctx)))))"

section \<open>Placing and cancelling\<close>

record PlaceLimitOrderExec =
  pl_order_id :: OrderId
  pl_crank_fee :: CapCrankFee
  pl_order :: LimitOrder
  pl_price :: PricePoint

record PlaceLimitOrderParams =
  pp_owner :: Addr
  pp_trigger_price :: PriceBaseInQuote
  pp_collateral :: NonZero
  pp_leverage :: LeverageToBase
  pp_direction :: DirectionToNotional
  pp_stop_loss_override :: "PriceBaseInQuote option"
  pp_take_profit :: TakeProfitTrader
  pp_deferred_crank_fee :: Collateral
  pp_deferred_crank_fee_usd :: Usd

definition place_limit_order_new ::
    "dec256_api \<Rightarrow> Env \<Rightarrow> Ctx \<Rightarrow> PlaceLimitOrderParams \<Rightarrow> PricePoint \<Rightarrow> PlaceLimitOrderExec res" where
  "place_limit_order_new D env ctx params price =
     and_then (u64_add (case last_order_id (order_st ctx) of Some i \<Rightarrow> i | None \<Rightarrow> 0) 1) (\<lambda>i.
     let charged = cfg_crank_fee_charged (env_config env) in
     and_then (usd_to_collateral D price charged) (\<lambda>amount.
     let crank_fee = cap_crank_fee_new amount charged (TradeLimitOrder i) in
     and_then (nz_checked_sub D (pp_collateral params) (ccf_amount crank_fee)) (\<lambda>collateral.
     and_then (d_add D (ccf_amount crank_fee) (pp_deferred_crank_fee params)) (\<lambda>fee.
     and_then (d_add D (ccf_amount_usd crank_fee) (pp_deferred_crank_fee_usd params)) (\<lambda>fee_usd.
     Inr \<lparr>pl_order_id = i, pl_crank_fee = crank_fee,
       pl_order = \<lparr>lo_order_id = i, lo_owner = pp_owner params, lo_trigger_price = pp_trigger_price params,
         lo_collateral = collateral, lo_leverage = pp_leverage params, lo_direction = pp_direction params,
         lo_max_gains = None, lo_stop_loss_override = pp_stop_loss_override params,
         lo_take_profit = Some (pp_take_profit params), lo_crank_fee_collateral = fee, lo_crank_fee_usd = fee_usd\<rparr>,
       pl_price = price\<rparr>)))))"

definition place_limit_order_apply :: "dec256_api \<Rightarrow> Env \<Rightarrow> PlaceLimitOrderExec \<Rightarrow> Ctx \<Rightarrow> (OrderId \<times> Ctx) res" where
  "place_limit_order_apply D env e ctx =
     (let i = pl_order_id e; order = pl_order e; market_type = mid_market_type (env_market_id env);
          ctx = upd_orders (\<lambda>s. s\<lparr>last_order_id := Some i\<rparr>) ctx in
     and_then (cap_crank_fee_apply D env (pl_crank_fee e) ctx) (\<lambda>ctx.
     and_then (into_notional_price D (lo_trigger_price order) market_type) (\<lambda>key.
     let ctx = upd_orders (\<lambda>s. (case lo_direction order of
             LongNotional \<Rightarrow> s\<lparr>orders_by_price_long := fmupd (key, i) () (orders_by_price_long s)\<rparr>
           | ShortNotional \<Rightarrow> s\<lparr>orders_by_price_short := fmupd (key, i) () (orders_by_price_short s)\<rparr>)
           \<lparr>limit_orders := fmupd i order (limit_orders s), orders_by_addr := fmupd (lo_owner order, i) () (orders_by_addr s)\<rparr>) ctx in
     and_then (collateral_to_usd_non_zero D (pl_price e) (lo_collateral order)) (\<lambda>usd.
     Inr (i, add_event env (OrderEvent (PlaceLimitOrderEvent order (direction_into_base (lo_direction order) market_type) usd)) ctx)))))"

record CancelLimitOrderExec =
  cl_order_id :: OrderId
  cl_order :: LimitOrder

definition cancel_limit_order_new :: "Ctx \<Rightarrow> OrderId \<Rightarrow> CancelLimitOrderExec res" where
  "cancel_limit_order_new ctx i =
     and_then (limit_order_load ctx i) (\<lambda>order. Inr \<lparr>cl_order_id = i, cl_order = order\<rparr>)"

definition cancel_limit_order_apply :: "dec256_api \<Rightarrow> Env \<Rightarrow> CancelLimitOrderExec \<Rightarrow> Ctx \<Rightarrow> Ctx res" where
  "cancel_limit_order_apply D env e ctx =
     and_then (limit_order_remove D env (cl_order e) ctx) (\<lambda>ctx.
     and_then (add_token_transfer_msg D (lo_owner (cl_order e)) (lo_collateral (cl_order e)) ctx) (\<lambda>ctx.
     Inr (add_event env (OrderEvent (CancelLimitOrderEvent (cl_order_id e))) ctx)))"

section \<open>Queries\<close>

text \<open>Old orders carry no take profit price: it is derived from the maximal gains at the trigger price.\<close>

definition backwards_compat_limit_order_take_profit ::
    "dec256_api \<Rightarrow> Env \<Rightarrow> Ctx \<Rightarrow> LimitOrder \<Rightarrow> TakeProfitTrader res" where
  "backwards_compat_limit_order_take_profit D env ctx order =
     (case lo_take_profit order of
        Some x \<Rightarrow> Inr x
      | None \<Rightarrow>
          let market_type = mid_market_type (env_market_id env) in
          and_then (current_spot_price env ctx) (\<lambda>price_point.
          and_then (into_notional_price D (lo_trigger_price order) market_type) (\<lambda>trigger_notional.
          let price_point = price_point\<lparr>price_notional := trigger_notional, price_base := lo_trigger_price order\<rparr> in
          and_then (base_to_usd D price_point (lo_trigger_price order)) (\<lambda>usd.
          and_then (ok_or (nonzero_new usd) (Msg ''must be non-zero'')) (\<lambda>usd.
          and_then (ok_or (lo_max_gains order)
            (Msg ''max_gains should be set in limit order backwards-compat branch'')) (\<lambda>max_gains.
          backwards_compat_take_profit D (lo_collateral order) (direction_into_base (lo_direction order) market_type)
            (lo_leverage order) market_type (price_point\<lparr>price_usd := usd\<rparr>) max_gains None))))))"

record LimitOrderResp =
  lr_order_id :: OrderId
  lr_trigger_price :: PriceBaseInQuote
  lr_collateral :: NonZero
  lr_leverage :: LeverageToBase
  lr_direction :: DirectionToBase
  lr_max_gains :: "MaxGainsInQuote option"
  lr_stop_loss_override :: "PriceBaseInQuote option"
  lr_take_profit :: TakeProfitTrader

definition limit_order_resp :: "dec256_api \<Rightarrow> Env \<Rightarrow> Ctx \<Rightarrow> OrderId \<Rightarrow> LimitOrderResp res" where
  "limit_order_resp D env ctx i =
     and_then (limit_order_load ctx i) (\<lambda>order.
     and_then (backwards_compat_limit_order_take_profit D env ctx order) (\<lambda>tp.
     Inr \<lparr>lr_order_id = i, lr_trigger_price = lo_trigger_price order, lr_collateral = lo_collateral order,
       lr_leverage = lo_leverage order,
       lr_direction = direction_into_base (lo_direction order) (mid_market_type (env_market_id env)),
       lr_max_gains = lo_max_gains order, lr_stop_loss_override = lo_stop_loss_override order, lr_take_profit = tp\<rparr>))"

definition limit_order_load_by_addr ::
    "dec256_api \<Rightarrow> Env \<Rightarrow> Ctx \<Rightarrow> Addr \<Rightarrow> OrderId option \<Rightarrow> nat option \<Rightarrow> OrderInMessage option
      \<Rightarrow> (LimitOrderResp list \<times> OrderId option) res" where
  "limit_order_load_by_addr D env ctx addr start_after limit order =
     (let keys = filter (\<lambda>(a, i). a = addr \<and> (case start_after of None \<Rightarrow> True | Some s \<Rightarrow> s < i))
            (fmkeys (orders_by_addr (order_st ctx)));
          ids = map snd (case order of Some Descending \<Rightarrow> rev keys | _ \<Rightarrow> keys);
          limit = min (case limit of Some l \<Rightarrow> l | None \<Rightarrow> 20) QUERY_MAX_LIMIT in
     and_then (map_ok (limit_order_resp D env ctx) (take limit ids)) (\<lambda>orders.
     Inr (orders, if limit \<noteq> 0 \<and> limit < length ids then Some (last (take limit ids)) else None)))"

definition limit_order_get_history ::
    "Ctx \<Rightarrow> Addr \<Rightarrow> u64 option \<Rightarrow> nat option \<Rightarrow> OrderInMessage option \<Rightarrow> ExecutedLimitOrder list \<times> u64 option" where
  "limit_order_get_history ctx addr = get_history_helper (executed_limit_orders (order_st ctx)) addr"

end
