(* ===== verification/DeferredExec.thy ===== *)
theory DeferredExec
  imports Orders
begin

text \<open>
  Deferred execution, \<open>contracts/market/src/state/deferred_execution.rs\<close> and
  \<open>contracts/market/src/deferred_exec.rs\<close>: a trader's message is queued with its crank fee paid, and
  executed by the crank in the order of the identifiers, at a price published after it was queued. The
  execution runs in a submessage whose effects are rolled back when it fails; the reply records the
  result, and a failure returns the deposit.
\<close>

section \<open>Executing an item\<close>

datatype SlippageCheckStatus = SlippageCheck | NoSlippageCheck

definition effective_slippage :: "SlippageCheckStatus \<Rightarrow> SlippageAssert option \<Rightarrow> SlippageAssert option" where
  "effective_slippage check sa = (case check of SlippageCheck \<Rightarrow> sa | NoSlippageCheck \<Rightarrow> None)"

definition update_position_slippage_assert ::
    "dec256_api \<Rightarrow> Env \<Rightarrow> Ctx \<Rightarrow> PositionId \<Rightarrow> Signed option \<Rightarrow> SlippageAssert option \<Rightarrow> PricePoint \<Rightarrow> unit res" where
  "update_position_slippage_assert D env ctx i notional_size slippage_assert price_point =
     (case slippage_assert of
        None \<Rightarrow> Inr ()
      | Some sa \<Rightarrow>
          and_then (get_position ctx i) (\<lambda>p.
          and_then (signed_checked_sub D (case notional_size of Some n \<Rightarrow> n | None \<Rightarrow> pos_notional_size p)
            (pos_notional_size p)) (\<lambda>delta.
          do_slippage_assert D env ctx sa delta (Some (lm_delta_neutrality (pos_liquidation_margin p))) price_point)))"

definition validate_slippage_assert_and_liquifund ::
    "dec256_api \<Rightarrow> Env \<Rightarrow> Ctx \<Rightarrow> PositionId \<Rightarrow> Signed option \<Rightarrow> SlippageAssert option \<Rightarrow> PricePoint
      \<Rightarrow> PositionLiquifund res" where
  "validate_slippage_assert_and_liquifund D env ctx i notional_size slippage_assert price_point =
     and_then (update_position_slippage_assert D env ctx i notional_size slippage_assert price_point) (\<lambda>_.
     and_then (get_position ctx i) (\<lambda>p.
     position_liquifund_new D env ctx p (pos_liquifunded_at p) (pp_timestamp price_point) False))"

definition execute_slippage_assert_and_liquifund ::
    "dec256_api \<Rightarrow> Env \<Rightarrow> PositionId \<Rightarrow> Signed option \<Rightarrow> SlippageAssert option \<Rightarrow> PricePoint \<Rightarrow> Ctx \<Rightarrow> Ctx res" where
  "execute_slippage_assert_and_liquifund D env i notional_size slippage_assert price_point ctx =
     and_then (update_position_slippage_assert D env ctx i notional_size slippage_assert price_point) (\<lambda>_.
     and_then (get_position ctx i) (\<lambda>p.
     position_liquifund_store D env p (pos_liquifunded_at p) (pp_timestamp price_point) False SaveUpdate ctx))"

definition helper_close_position ::
    "dec256_api \<Rightarrow> Env \<Rightarrow> Ctx \<Rightarrow> PositionId \<Rightarrow> SlippageAssert option \<Rightarrow> PricePoint \<Rightarrow> ClosePositionExec res" where
  "helper_close_position D env ctx i slippage_assert price_point =
     and_then (case get_position ctx i of
         Inr p \<Rightarrow> Inr p
       | Inl e \<Rightarrow>
           (case load_closed_position ctx i of
              Some closed \<Rightarrow> Inl (Market (PositionAlreadyClosed i (cp_close_time closed)))
            | None \<Rightarrow> Inl e)) (\<lambda>p.
     and_then (case slippage_assert of
         Some sa \<Rightarrow> do_slippage_assert D env ctx sa (signed_neg (pos_notional_size p))
           (Some (lm_delta_neutrality (pos_liquidation_margin p))) price_point
       | None \<Rightarrow> Inr ()) (\<lambda>_.
     close_position_via_msg D env ctx p price_point))"

definition open_params ::
    "Addr \<Rightarrow> SlippageAssert option \<Rightarrow> LeverageToBase \<Rightarrow> DirectionToBase \<Rightarrow> PriceBaseInQuote option \<Rightarrow> TakeProfitTrader
      \<Rightarrow> NonZero \<Rightarrow> Collateral \<Rightarrow> Usd \<Rightarrow> OpenPositionParams" where
  "open_params owner slippage_assert leverage direction stop_loss tp amount crank_fee crank_fee_usd =
     \<lparr>op_owner = owner, op_collateral = amount, op_crank_fee = \<lparr>cu_collateral = crank_fee, cu_usd = crank_fee_usd\<rparr>,
      op_leverage = leverage, op_direction = direction, op_slippage_assert = slippage_assert,
      op_stop_loss_override = stop_loss, op_take_profit_trader = tp\<rparr>"

definition limit_params ::
    "Env \<Rightarrow> Addr \<Rightarrow> PriceBaseInQuote \<Rightarrow> LeverageToBase \<Rightarrow> DirectionToBase \<Rightarrow> PriceBaseInQuote option \<Rightarrow> TakeProfitTrader
      \<Rightarrow> NonZero \<Rightarrow> Collateral \<Rightarrow> Usd \<Rightarrow> PlaceLimitOrderParams" where
  "limit_params env owner trigger_price leverage direction stop_loss tp amount crank_fee crank_fee_usd =
     \<lparr>pp_owner = owner, pp_trigger_price = trigger_price, pp_collateral = amount, pp_leverage = leverage,
      pp_direction = direction_into_notional direction (mid_market_type (env_market_id env)),
      pp_stop_loss_override = stop_loss, pp_take_profit = tp, pp_deferred_crank_fee = crank_fee,
      pp_deferred_crank_fee_usd = crank_fee_usd\<rparr>"

text \<open>The two update forms the execution uses: one that only moves the collateral, one that changes the size.\<close>

definition execute_update_size ::
    "dec256_api \<Rightarrow> Env \<Rightarrow> PositionId \<Rightarrow> Signed \<Rightarrow> SlippageAssert option \<Rightarrow> PricePoint \<Rightarrow> Ctx \<Rightarrow> Ctx res" where
  "execute_update_size D env i funds slippage_assert price_point ctx =
     and_then (update_size_new_notional_size D ctx i funds) (\<lambda>notional_size.
     and_then (execute_slippage_assert_and_liquifund D env i (Some notional_size) slippage_assert price_point ctx) (\<lambda>ctx.
     and_then (get_position ctx i) (\<lambda>p.
     and_then (update_size_new D env ctx p funds price_point) (\<lambda>u. update_size_apply D env u ctx))))"

definition execute_update_collateral ::
    "dec256_api \<Rightarrow> Env \<Rightarrow> PositionId \<Rightarrow> Signed \<Rightarrow> PricePoint \<Rightarrow> Ctx \<Rightarrow> Ctx res" where
  "execute_update_collateral D env i funds price_point ctx =
     and_then (execute_slippage_assert_and_liquifund D env i None None price_point ctx) (\<lambda>ctx.
     and_then (get_position ctx i) (\<lambda>p.
     and_then (update_collateral_new D env p funds price_point) (\<lambda>u. update_collateral_apply D env u ctx)))"

definition execute_update_leverage ::
    "dec256_api \<Rightarrow> Env \<Rightarrow> PositionId \<Rightarrow> LeverageToBase \<Rightarrow> SlippageAssert option \<Rightarrow> PricePoint \<Rightarrow> Ctx \<Rightarrow> Ctx res" where
  "execute_update_leverage D env i leverage slippage_assert price_point ctx =
     and_then (execute_slippage_assert_and_liquifund D env i None None price_point ctx) (\<lambda>ctx.
     and_then (update_leverage_new_notional_size D env ctx i leverage price_point) (\<lambda>notional_size.
     and_then (update_position_slippage_assert D env ctx i (Some notional_size) slippage_assert price_point) (\<lambda>_.
     and_then (get_position ctx i) (\<lambda>p.
     and_then (update_leverage_new D env ctx p notional_size price_point) (\<lambda>u. update_size_apply D env u ctx)))))"

definition helper_execute ::
    "dec256_api \<Rightarrow> Env \<Rightarrow> DeferredExecWithStatus \<Rightarrow> PricePoint \<Rightarrow> Ctx \<Rightarrow> (DeferredExecCompleteTarget \<times> Ctx) res" where
  "helper_execute D env item price_point ctx =
     (let market_type = mid_market_type (env_market_id env);
          settle = (\<lambda>i. execute_slippage_assert_and_liquifund D env i None None price_point ctx);
          done = (\<lambda>i. map_res (Pair (CompletePosition i))) in
     case de_item item of
       OpenPosition slippage leverage direction max_gains stop_loss take_profit amount crank_fee crank_fee_usd \<Rightarrow>
         and_then (choose_take_profit D take_profit max_gains amount direction leverage market_type price_point) (\<lambda>tp.
         and_then (open_position_new D env ctx (open_params (de_owner item) slippage leverage direction stop_loss tp
           amount crank_fee crank_fee_usd) price_point) (\<lambda>e.
         and_then (open_position_apply D env e SaveOpenMarket ctx) (\<lambda>(i, ctx). Inr (CompletePosition i, ctx))))
     | UpdatePositionAddCollateralImpactLeverage i amount \<Rightarrow>
         done i (execute_update_collateral D env i (new_positive amount) price_point ctx)
     | UpdatePositionAddCollateralImpactSize i slippage amount \<Rightarrow>
         done i (execute_update_size D env i (new_positive amount) slippage price_point ctx)
     | UpdatePositionRemoveCollateralImpactLeverage i amount \<Rightarrow>
         done i (execute_update_collateral D env i (signed_neg (new_positive amount)) price_point ctx)
     | UpdatePositionRemoveCollateralImpactSize i amount slippage \<Rightarrow>
         done i (execute_update_size D env i (signed_neg (new_positive amount)) slippage price_point ctx)
     | UpdatePositionLeverage i leverage slippage \<Rightarrow>
         done i (execute_update_leverage D env i leverage slippage price_point ctx)
     | UpdatePositionMaxGains i max_gains \<Rightarrow>
         done i (and_then (settle i) (\<lambda>ctx. and_then (get_position ctx i) (\<lambda>p.
           and_then (update_max_gains_new D env ctx p max_gains price_point) (\<lambda>u. update_max_gains_apply D env u ctx))))
     | UpdatePositionTakeProfitPrice i price \<Rightarrow>
         done i (and_then (settle i) (\<lambda>ctx. and_then (get_position ctx i) (\<lambda>p.
           and_then (update_take_profit_new D env ctx p price price_point) (\<lambda>u. update_max_gains_apply D env u ctx))))
     | UpdatePositionStopLossPrice i stop_loss \<Rightarrow>
         done i (and_then (settle i) (\<lambda>ctx.
           and_then (update_stop_loss_new D env ctx i stop_loss price_point) (\<lambda>u. trigger_order_apply D env u ctx)))
     | ClosePosition i slippage \<Rightarrow>
         done i (and_then (helper_close_position D env ctx i slippage price_point) (\<lambda>e. close_position_apply D env e ctx))
     | SetTriggerOrder i stop_loss take_profit \<Rightarrow>
         done i (and_then (settle i) (\<lambda>ctx.
           and_then (trigger_order_new D env ctx i stop_loss take_profit price_point) (\<lambda>u. trigger_order_apply D env u ctx)))
     | PlaceLimitOrder trigger leverage direction max_gains stop_loss take_profit amount crank_fee crank_fee_usd \<Rightarrow>
         and_then (choose_take_profit D take_profit max_gains amount direction leverage market_type price_point) (\<lambda>tp.
         and_then (place_limit_order_new D env ctx (limit_params env (de_owner item) trigger leverage direction stop_loss tp
           amount crank_fee crank_fee_usd) price_point) (\<lambda>e.
         and_then (place_limit_order_apply D env e ctx) (\<lambda>(i, ctx). Inr (CompleteOrder i, ctx))))
     | CancelLimitOrder i \<Rightarrow>
         and_then (cancel_limit_order_new ctx i) (\<lambda>e.
         map_res (Pair (CompleteOrder i)) (cancel_limit_order_apply D env e ctx)))"

section \<open>Validating an item\<close>

definition discard :: "'a res \<Rightarrow> unit res" where
  "discard m = map_res (\<lambda>_. ()) m"

definition validate_size_update ::
    "dec256_api \<Rightarrow> Env \<Rightarrow> Ctx \<Rightarrow> PositionId \<Rightarrow> Signed \<Rightarrow> SlippageAssert option \<Rightarrow> PricePoint \<Rightarrow> unit res" where
  "validate_size_update D env ctx i funds slippage price_point =
     and_then (update_size_new_notional_size D ctx i funds) (\<lambda>notional_size.
     and_then (validate_slippage_assert_and_liquifund D env ctx i (Some notional_size) slippage price_point) (\<lambda>l.
     discard (update_size_new D env ctx (maybe_closed_position (plf_position l)) funds price_point)))"

definition validate_leverage_update ::
    "dec256_api \<Rightarrow> Env \<Rightarrow> Ctx \<Rightarrow> PositionId \<Rightarrow> LeverageToBase \<Rightarrow> SlippageAssert option \<Rightarrow> PricePoint \<Rightarrow> unit res" where
  "validate_leverage_update D env ctx i leverage slippage price_point =
     and_then (validate_slippage_assert_and_liquifund D env ctx i None slippage price_point) (\<lambda>l.
     and_then (update_leverage_new_notional_size D env ctx i leverage price_point) (\<lambda>notional_size.
     let p = maybe_closed_position (plf_position l) in
     and_then (case slippage of
         Some sa \<Rightarrow> and_then (signed_checked_sub D notional_size (pos_notional_size p)) (\<lambda>delta.
           do_slippage_assert D env ctx sa delta (Some (lm_delta_neutrality (pos_liquidation_margin p))) price_point)
       | None \<Rightarrow> Inr ()) (\<lambda>_.
     discard (update_leverage_new D env ctx p notional_size price_point))))"

definition helper_validate ::
    "dec256_api \<Rightarrow> Env \<Rightarrow> Ctx \<Rightarrow> DeferredExecWithStatus \<Rightarrow> PricePoint \<Rightarrow> SlippageCheckStatus \<Rightarrow> unit res" where
  "helper_validate D env ctx item price_point check =
     (let market_type = mid_market_type (env_market_id env); slippage_of = effective_slippage check;
          settle = (\<lambda>i. map_res (\<lambda>l. maybe_closed_position (plf_position l))
            (validate_slippage_assert_and_liquifund D env ctx i None None price_point)) in
     case de_item item of
       OpenPosition slippage leverage direction max_gains stop_loss take_profit amount crank_fee crank_fee_usd \<Rightarrow>
         and_then (choose_take_profit D take_profit max_gains amount direction leverage market_type price_point) (\<lambda>tp.
         discard (open_position_new D env ctx (open_params (de_owner item) (slippage_of slippage) leverage direction
           stop_loss tp amount crank_fee crank_fee_usd) price_point))
     | UpdatePositionAddCollateralImpactLeverage i amount \<Rightarrow>
         and_then (settle i) (\<lambda>p. discard (update_collateral_new D env p (new_positive amount) price_point))
     | UpdatePositionAddCollateralImpactSize i slippage amount \<Rightarrow>
         validate_size_update D env ctx i (new_positive amount) (slippage_of slippage) price_point
     | UpdatePositionRemoveCollateralImpactLeverage i amount \<Rightarrow>
         and_then (settle i) (\<lambda>p. discard (update_collateral_new D env p (signed_neg (new_positive amount)) price_point))
     | UpdatePositionRemoveCollateralImpactSize i amount slippage \<Rightarrow>
         validate_size_update D env ctx i (signed_neg (new_positive amount)) (slippage_of slippage) price_point
     | UpdatePositionLeverage i leverage slippage \<Rightarrow>
         validate_leverage_update D env ctx i leverage (slippage_of slippage) price_point
     | UpdatePositionMaxGains i max_gains \<Rightarrow>
         and_then (settle i) (\<lambda>p. discard (update_max_gains_new D env ctx p max_gains price_point))
     | UpdatePositionTakeProfitPrice i price \<Rightarrow>
         and_then (settle i) (\<lambda>p. discard (update_take_profit_new D env ctx p price price_point))
     | UpdatePositionStopLossPrice i stop_loss \<Rightarrow>
         and_then (settle i) (\<lambda>_. discard (update_stop_loss_new D env ctx i stop_loss price_point))
     | ClosePosition i slippage \<Rightarrow>
         discard (helper_close_position D env ctx i (slippage_of slippage) price_point)
     | SetTriggerOrder i stop_loss take_profit \<Rightarrow>
         and_then (settle i) (\<lambda>_. discard (trigger_order_new D env ctx i stop_loss take_profit price_point))
     | PlaceLimitOrder trigger leverage direction max_gains stop_loss take_profit amount crank_fee crank_fee_usd \<Rightarrow>
         and_then (choose_take_profit D take_profit max_gains amount direction leverage market_type price_point) (\<lambda>tp.
         discard (place_limit_order_new D env ctx (limit_params env (de_owner item) trigger leverage direction stop_loss tp
           amount crank_fee crank_fee_usd) price_point))
     | CancelLimitOrder i \<Rightarrow> discard (cancel_limit_order_new ctx i))"

section \<open>The queue\<close>

definition upd_deferred :: "(DeferredState \<Rightarrow> DeferredState) \<Rightarrow> Ctx \<Rightarrow> Ctx" where
  "upd_deferred f ctx = ctx\<lparr>deferred_st := f (deferred_st ctx)\<rparr>"

definition deferred_processed :: "DeferredExecLatestIds \<Rightarrow> DeferredExecId" where
  "deferred_processed l = (case dl_processed l of Some x \<Rightarrow> x | None \<Rightarrow> 0)"

definition deferred_queue_size :: "DeferredExecLatestIds \<Rightarrow> nat res" where
  "deferred_queue_size l =
     (if dl_issued l < deferred_processed l then Inl (Panic ''attempt to subtract with overflow'')
      else Inr (min (dl_issued l - deferred_processed l) 4294967295))"

definition load_deferred_exec_item :: "Ctx \<Rightarrow> DeferredExecId \<Rightarrow> DeferredExecWithStatus res" where
  "load_deferred_exec_item ctx i =
     ok_or (fmlookup (deferred_execs (deferred_st ctx)) i) (Msg ''Could not load deferred exec item'')"

definition get_next_deferred_execution :: "Ctx \<Rightarrow> (DeferredExecId \<times> DeferredExecWithStatus) option res" where
  "get_next_deferred_execution ctx =
     (case deferred_latest_ids (deferred_st ctx) of
        None \<Rightarrow> Inr None
      | Some l \<Rightarrow>
          if (case dl_processed l of Some processed \<Rightarrow> dl_issued l \<le> processed | None \<Rightarrow> False) then Inr None
          else
            and_then (u64_add (deferred_processed l) 1) (\<lambda>next_id.
            and_then (ok_or (fmlookup (deferred_execs (deferred_st ctx)) next_id)
              (Panic ''Logic error, next_id in get_next_deferred_execution does not exist'')) (\<lambda>item.
            Inr (Some (next_id, item)))))"

definition next_crankable_deferred_exec_id ::
    "Ctx \<Rightarrow> Timestamp \<Rightarrow> (DeferredExecId \<times> DeferredExecTarget) option res" where
  "next_crankable_deferred_exec_id ctx publish_time =
     and_then (get_next_deferred_execution ctx) (\<lambda>next.
     Inr (case next of
        None \<Rightarrow> None
      | Some (i, item) \<Rightarrow> if de_created item < publish_time then Some (i, item_target (de_item item)) else None))"

definition list_deferred_execs ::
    "Ctx \<Rightarrow> Addr \<Rightarrow> DeferredExecId option \<Rightarrow> nat option \<Rightarrow> (DeferredExecWithStatus list \<times> DeferredExecId option) res" where
  "list_deferred_execs ctx addr start_after limit =
     (let keys = filter (\<lambda>(a, i). a = addr \<and> (case start_after of None \<Rightarrow> True | Some s \<Rightarrow> i < s))
            (fmkeys (deferred_by_wallet (deferred_st ctx)));
          ids = map snd (rev keys);
          limit = min (case limit of Some l \<Rightarrow> l | None \<Rightarrow> 10) QUERY_MAX_LIMIT in
     and_then (map_ok (\<lambda>i. ok_or (fmlookup (deferred_execs (deferred_st ctx)) i)
       (Panic ''Logic error in list_deferred_execs'')) (take limit ids)) (\<lambda>items.
     Inr (items, if limit \<noteq> 0 \<and> limit < length ids then Some (last (take limit ids)) else None)))"

definition assert_no_pending_deferred :: "Ctx \<Rightarrow> PositionId \<Rightarrow> unit res" where
  "assert_no_pending_deferred ctx i =
     (if fm_first_where (\<lambda>(p, _). p = i) (pending_for_position (deferred_st ctx)) \<noteq> None
      then Inl (Market PendingDeferredExec) else Inr ())"

text \<open>The crank fee charged to a position when an item for it is queued.\<close>

definition charge_crank_fee_to_position ::
    "dec256_api \<Rightarrow> PositionId \<Rightarrow> Collateral \<Rightarrow> PricePoint \<Rightarrow> Ctx \<Rightarrow> Position res" where
  "charge_crank_fee_to_position D i crank_fee price ctx =
     and_then (get_position ctx i) (\<lambda>p.
     and_then (cu_checked_add_assign D (pos_crank_fee p) crank_fee price) (\<lambda>cf.
     and_then (scu_checked_add_assign D (pos_deposit_collateral p) (new_positive crank_fee) price) (\<lambda>dc.
     Inr (p\<lparr>pos_crank_fee := cf, pos_deposit_collateral := dc\<rparr>))))"

definition new_crank_fee_usd :: "dec256_api \<Rightarrow> Config \<Rightarrow> nat \<Rightarrow> Usd res" where
  "new_crank_fee_usd D cfg queue_size =
     and_then (d_from_ratio D (queue_size div 10) 1) (\<lambda>steps.
     and_then (checked_mul_dec D (cfg_crank_fee_surcharge cfg) steps) (\<lambda>surcharge.
     d_add D (cfg_crank_fee_charged cfg) surcharge))"

text \<open>The next identifier, the queue with it issued, and the number of items waiting before it.\<close>

definition issue_deferred_id :: "Ctx \<Rightarrow> (DeferredExecId \<times> DeferredExecLatestIds \<times> nat) res" where
  "issue_deferred_id ctx =
     (case deferred_latest_ids (deferred_st ctx) of
        None \<Rightarrow> Inr (1, \<lparr>dl_issued = 1, dl_processed = None\<rparr>, 0)
      | Some l \<Rightarrow>
          if dl_issued l < deferred_processed l then Inl (Panic ''attempt to subtract with overflow'')
          else and_then (u64_add (dl_issued l) 1) (\<lambda>i.
            Inr (i, l\<lparr>dl_issued := i\<rparr>, dl_issued l - deferred_processed l)))"

text \<open>Charging the crank fee, by the kind of the item: out of the deposit, out of the funds attached, or none for
  an item that can only be queued once.\<close>

definition charge_from_amount ::
    "dec256_api \<Rightarrow> Env \<Rightarrow> NonZero \<Rightarrow> Collateral \<Rightarrow> Usd \<Rightarrow> TradeId \<Rightarrow> Ctx \<Rightarrow> (NonZero \<times> Ctx) res" where
  "charge_from_amount D env amount fee fee_usd trade_id ctx =
     and_then (nz_checked_sub D amount fee) (\<lambda>amount.
     and_then (cap_crank_fee_apply D env (cap_crank_fee_new fee fee_usd trade_id) ctx) (\<lambda>ctx. Inr (amount, ctx)))"

definition charge_add_collateral ::
    "dec256_api \<Rightarrow> Env \<Rightarrow> PositionId \<Rightarrow> NonZero \<Rightarrow> Collateral \<Rightarrow> Usd \<Rightarrow> PricePoint \<Rightarrow> Ctx \<Rightarrow> (NonZero \<times> Ctx) res" where
  "charge_add_collateral D env i amount fee fee_usd price ctx =
     and_then (nz_checked_sub D amount fee) (\<lambda>amount.
     and_then (charge_crank_fee_to_position D i fee price ctx) (\<lambda>p.
     and_then (cap_crank_fee_apply D env (cap_crank_fee_new fee fee_usd (TradePosition i)) ctx) (\<lambda>ctx.
     Inr (amount, position_save_no_recalc p ctx))))"

definition charge_from_funds ::
    "dec256_api \<Rightarrow> Env \<Rightarrow> Addr \<Rightarrow> PositionId \<Rightarrow> NonZero option \<Rightarrow> Collateral \<Rightarrow> Usd \<Rightarrow> PricePoint \<Rightarrow> Ctx \<Rightarrow> Ctx res" where
  "charge_from_funds D env trader i funds_attached fee fee_usd price ctx =
     and_then (if fee = 0 then Inr 0 else ok_or funds_attached (Msg ''No funds provided for update crank fee'')) (\<lambda>funds.
     and_then (d_sub D funds fee) (\<lambda>rest.
     and_then (cap_crank_fee_apply D env (cap_crank_fee_new fee fee_usd (TradePosition i)) ctx) (\<lambda>ctx.
     and_then (case nonzero_new rest of
         Some r \<Rightarrow> return_funds_to_user D env trader r price ctx | None \<Rightarrow> Inr ctx) (\<lambda>ctx.
     and_then (charge_crank_fee_to_position D i fee price ctx) (\<lambda>p.
     Inr (position_save_no_recalc p ctx))))))"

definition charge_deferred_item ::
    "dec256_api \<Rightarrow> Env \<Rightarrow> Addr \<Rightarrow> DeferredExecId \<Rightarrow> DeferredExecItem \<Rightarrow> NonZero option \<Rightarrow> Collateral \<Rightarrow> Usd \<Rightarrow> PricePoint
      \<Rightarrow> Ctx \<Rightarrow> (DeferredExecItem \<times> Ctx) res" where
  "charge_deferred_item D env trader new_id item funds_attached fee fee_usd price ctx =
     (let from_funds = (\<lambda>i. map_res (Pair item) (charge_from_funds D env trader i funds_attached fee fee_usd price ctx)) in
     case item of
       OpenPosition sa leverage direction mg sl tp amount _ _ \<Rightarrow>
         and_then (charge_from_amount D env amount fee fee_usd (TradeDeferred new_id) ctx) (\<lambda>(amount, ctx).
         Inr (OpenPosition sa leverage direction mg sl tp amount fee fee_usd, ctx))
     | PlaceLimitOrder trigger leverage direction mg sl tp amount _ _ \<Rightarrow>
         and_then (charge_from_amount D env amount fee fee_usd (TradeDeferred new_id) ctx) (\<lambda>(amount, ctx).
         Inr (PlaceLimitOrder trigger leverage direction mg sl tp amount fee fee_usd, ctx))
     | UpdatePositionAddCollateralImpactLeverage i amount \<Rightarrow>
         and_then (charge_add_collateral D env i amount fee fee_usd price ctx) (\<lambda>(amount, ctx).
         Inr (UpdatePositionAddCollateralImpactLeverage i amount, ctx))
     | UpdatePositionAddCollateralImpactSize i sa amount \<Rightarrow>
         and_then (charge_add_collateral D env i amount fee fee_usd price ctx) (\<lambda>(amount, ctx).
         Inr (UpdatePositionAddCollateralImpactSize i sa amount, ctx))
     | UpdatePositionRemoveCollateralImpactLeverage i _ \<Rightarrow> from_funds i
     | UpdatePositionRemoveCollateralImpactSize i _ _ \<Rightarrow> from_funds i
     | UpdatePositionLeverage i _ _ \<Rightarrow> from_funds i
     | UpdatePositionMaxGains i _ \<Rightarrow> from_funds i
     | UpdatePositionTakeProfitPrice i _ \<Rightarrow> from_funds i
     | UpdatePositionStopLossPrice i _ \<Rightarrow> from_funds i
     | SetTriggerOrder i _ _ \<Rightarrow> from_funds i
     | ClosePosition i (Some _) \<Rightarrow> from_funds i
     | ClosePosition i None \<Rightarrow>
         and_then (ensure (funds_attached = None) (Msg ''No funds should be attached for close position'')) (\<lambda>_.
         if fmlookup (position_closing (deferred_st ctx)) i \<noteq> None then Inl (Market (PositionAlreadyClosing i))
         else Inr (item, upd_deferred (\<lambda>s. s\<lparr>position_closing := fmupd i () (position_closing s)\<rparr>) ctx))
     | CancelLimitOrder i \<Rightarrow>
         and_then (ensure (funds_attached = None) (Msg ''No funds should be attached for cancel limit order'')) (\<lambda>_.
         if fmlookup (limit_order_canceling (deferred_st ctx)) i \<noteq> None then Inl (Market (LimitOrderAlreadyCanceling i))
         else Inr (item, upd_deferred (\<lambda>s. s\<lparr>limit_order_canceling := fmupd i () (limit_order_canceling s)\<rparr>) ctx)))"

definition deferred_validate ::
    "dec256_api \<Rightarrow> Env \<Rightarrow> Ctx \<Rightarrow> DeferredExecId \<Rightarrow> PricePoint \<Rightarrow> SlippageCheckStatus \<Rightarrow> unit res" where
  "deferred_validate D env ctx i price_point check =
     and_then (load_deferred_exec_item ctx i) (\<lambda>item. helper_validate D env ctx item price_point check)"

definition assert_target_owner :: "Ctx \<Rightarrow> DeferredExecTarget \<Rightarrow> Addr \<Rightarrow> unit res" where
  "assert_target_owner ctx target trader =
     (case target of
        TargetDoesNotExist \<Rightarrow> Inr ()
      | TargetPosition i \<Rightarrow> position_assert_owner ctx i trader
      | TargetOrder i \<Rightarrow> limit_order_assert_owner ctx trader i)"

definition enqueue_deferred :: "Env \<Rightarrow> DeferredExecId \<Rightarrow> DeferredExecItem \<Rightarrow> Addr \<Rightarrow> Ctx \<Rightarrow> Ctx" where
  "enqueue_deferred env i item trader =
     upd_deferred (\<lambda>s. (case item_target item of
         TargetDoesNotExist \<Rightarrow> s
       | TargetPosition p \<Rightarrow> s\<lparr>pending_for_position := fmupd (p, i) () (pending_for_position s)\<rparr>
       | TargetOrder p \<Rightarrow> s\<lparr>pending_for_order := fmupd (p, i) () (pending_for_order s)\<rparr>)
       \<lparr>deferred_execs := fmupd i \<lparr>de_id = i, de_created = env_now env, de_status = DeferredPending,
          de_owner = trader, de_item = item\<rparr> (deferred_execs s)\<rparr>)"

definition defer_execution ::
    "dec256_api \<Rightarrow> Env \<Rightarrow> Addr \<Rightarrow> DeferredExecItem \<Rightarrow> NonZero option \<Rightarrow> Ctx \<Rightarrow> Ctx res" where
  "defer_execution D env trader item funds_attached ctx =
     and_then (issue_deferred_id ctx) (\<lambda>(new_id, latest_ids, queue_size).
     let ctx = upd_deferred (\<lambda>s. s\<lparr>deferred_latest_ids := Some latest_ids,
           deferred_by_wallet := fmupd (trader, new_id) () (deferred_by_wallet s)\<rparr>) ctx in
     and_then (new_crank_fee_usd D (env_config env) queue_size) (\<lambda>fee_usd.
     and_then (current_spot_price env ctx) (\<lambda>price.
     and_then (usd_to_collateral D price fee_usd) (\<lambda>fee.
     let target = item_target item in
     and_then (charge_deferred_item D env trader new_id item funds_attached fee fee_usd price ctx) (\<lambda>(item, ctx).
     and_then (assert_target_owner ctx target trader) (\<lambda>_.
     let ctx = enqueue_deferred env new_id item trader ctx in
     and_then (current_spot_price env ctx) (\<lambda>price_point.
     and_then (deferred_validate D env ctx new_id price_point NoSlippageCheck) (\<lambda>_.
     Inr (add_event env (WorkEvent (DeferredExecQueuedEvent new_id target trader)) ctx)))))))))"

section \<open>Processing\<close>

definition process_deferred_exec :: "DeferredExecId \<Rightarrow> PricePoint \<Rightarrow> Ctx \<Rightarrow> Ctx res" where
  "process_deferred_exec i price_point ctx =
     (let ctx = ctx\<lparr>deferred_submessages := deferred_submessages ctx @ [(i, pp_timestamp price_point)]\<rparr> in
     and_then (ok_or (deferred_latest_ids (deferred_st ctx))
       (Panic ''Logic error: process_deferred_exec had no DEFERRED_EXEC_LATEST_IDS'')) (\<lambda>l.
     let ctx = upd_deferred (\<lambda>s. s\<lparr>deferred_latest_ids := Some (l\<lparr>dl_processed := Some i\<rparr>)\<rparr>) ctx in
     and_then (ok_or (fmlookup (deferred_execs (deferred_st ctx)) i) (Std ''not found'')) (\<lambda>item.
     Inr (case de_item item of
        ClosePosition p None \<Rightarrow> upd_deferred (\<lambda>s. s\<lparr>position_closing := fmdrop p (position_closing s)\<rparr>) ctx
      | _ \<Rightarrow> ctx))))"

definition mark_deferred_exec_success ::
    "Env \<Rightarrow> DeferredExecWithStatus \<Rightarrow> DeferredExecCompleteTarget \<Rightarrow> Ctx \<Rightarrow> Ctx" where
  "mark_deferred_exec_success env item target =
     upd_deferred (\<lambda>s. s\<lparr>deferred_execs := fmupd (de_id item) (item\<lparr>de_status := DeferredSuccess target (env_now env)\<rparr>)
       (deferred_execs s)\<rparr>)"

definition perform_deferred_exec :: "dec256_api \<Rightarrow> Env \<Rightarrow> DeferredExecId \<Rightarrow> Timestamp \<Rightarrow> Ctx \<Rightarrow> Ctx res" where
  "perform_deferred_exec D env i price_point_timestamp ctx =
     and_then (spot_price env ctx price_point_timestamp) (\<lambda>price_point.
     and_then (load_deferred_exec_item ctx i) (\<lambda>item.
     and_then (helper_execute D env item price_point ctx) (\<lambda>(target, ctx).
     Inr (mark_deferred_exec_success env item target ctx))))"

definition next_crank_timestamp :: "Env \<Rightarrow> Ctx \<Rightarrow> PricePoint option" where
  "next_crank_timestamp env ctx =
     spot_price_after env ctx (map_option Excluded (last_crank_completed (crank_st ctx)))"

definition remove_pending :: "DeferredExecTarget \<Rightarrow> DeferredExecId \<Rightarrow> Ctx \<Rightarrow> Ctx res" where
  "remove_pending target i ctx =
     (case target of
        TargetDoesNotExist \<Rightarrow> Inr ctx
      | TargetPosition p \<Rightarrow>
          and_then (ensure (fmlookup (pending_for_position (deferred_st ctx)) (p, i) \<noteq> None) (Msg ''not pending'')) (\<lambda>_.
          Inr (upd_deferred (\<lambda>s. s\<lparr>pending_for_position := fmdrop (p, i) (pending_for_position s)\<rparr>) ctx))
      | TargetOrder p \<Rightarrow>
          and_then (ensure (fmlookup (pending_for_order (deferred_st ctx)) (p, i) \<noteq> None) (Msg ''not pending'')) (\<lambda>_.
          Inr (upd_deferred (\<lambda>s. s\<lparr>pending_for_order := fmdrop (p, i) (pending_for_order s)\<rparr>) ctx)))"

text \<open>The reason stored for a failure: the chain hides the error of a submessage, so the validation is run
  again to recover it.\<close>

definition recovered_error ::
    "dec256_api \<Rightarrow> Env \<Rightarrow> Ctx \<Rightarrow> DeferredExecId \<Rightarrow> PricePoint option \<Rightarrow> error \<Rightarrow> error res" where
  "recovered_error D env ctx i price_point e =
     (case price_point of
        None \<Rightarrow> Inr e
      | Some pp \<Rightarrow>
          (case deferred_validate D env ctx i pp SlippageCheck of
             Inr _ \<Rightarrow> Inr e
           | Inl (Panic s) \<Rightarrow> Inl (Panic s)
           | Inl e' \<Rightarrow> Inr e'))"

definition handle_deferred_exec_reply ::
    "dec256_api \<Rightarrow> Env \<Rightarrow> DeferredExecId \<Rightarrow> error option \<Rightarrow> Ctx \<Rightarrow> Ctx res" where
  "handle_deferred_exec_reply D env i failure ctx =
     and_then (ok_or (fmlookup (deferred_execs (deferred_st ctx)) i)
       (Panic ''handle_deferred_exec_reply: ID not found'')) (\<lambda>item.
     and_then (case failure of
         None \<Rightarrow>
           (case de_status item of
              DeferredSuccess _ _ \<Rightarrow> Inr (item, None, ctx)
            | _ \<Rightarrow> Inl (Msg ''handle_deferred_exec_reply: success reply but not a success''))
       | Some e \<Rightarrow>
           let price_point = next_crank_timestamp env ctx in
           and_then (recovered_error D env ctx i price_point e) (\<lambda>e.
           and_then (ensure (de_status item = DeferredPending) (Msg ''Item should still be pending'')) (\<lambda>_.
           let item = item\<lparr>de_status := DeferredFailure e (env_now env) price_point\<rparr> in
           and_then (case nonzero_new (deposited_amount (de_item item)) of
               Some amount \<Rightarrow> add_token_transfer_msg D (de_owner item) amount ctx
             | None \<Rightarrow> Inr ctx) (\<lambda>ctx.
           Inr (item, Some e, ctx))))) (\<lambda>(item, err, ctx).
     let ctx = upd_deferred (\<lambda>s. s\<lparr>deferred_execs := fmupd i item (deferred_execs s)\<rparr>) ctx;
         target = item_target (de_item item) in
     and_then (remove_pending target i ctx) (\<lambda>ctx.
     Inr (add_event env (WorkEvent (DeferredExecExecutedEvent i target (de_owner item) (err = None) err)) ctx))))"

text \<open>The submessage with its reply: a failed execution is rolled back before the reply runs.\<close>

definition run_deferred_exec :: "dec256_api \<Rightarrow> Env \<Rightarrow> DeferredExecId \<Rightarrow> Timestamp \<Rightarrow> Ctx \<Rightarrow> Ctx res" where
  "run_deferred_exec D env i ts ctx =
     (case perform_deferred_exec D env i ts ctx of
        Inr ctx' \<Rightarrow> handle_deferred_exec_reply D env i None ctx'
      | Inl e \<Rightarrow> handle_deferred_exec_reply D env i (Some e) ctx)"

end
