(* ===== verification/Crank.thy ===== *)
theory Crank
  imports DeferredExec
begin

text \<open>
  The crank, \<open>contracts/market/src/state/crank.rs\<close> and \<open>shutdown.rs\<close>: the work that is due at the
  next price point, in its order of precedence, one execution of it, and the batch that executes work
  within a budget of weights. A deferred execution ends the batch: it runs in a submessage, and the reply
  goes on with the budget that was saved.
\<close>

section \<open>Closing all positions\<close>

definition set_close_all_positions :: "Ctx \<Rightarrow> Ctx res" where
  "set_close_all_positions ctx =
     and_then (ensure (\<not> closing_all_positions ctx) (Msg ''Already closing all positions'')) (\<lambda>_.
     Inr (ctx\<lparr>closing_all_positions := True\<rparr>))"

definition get_close_all_positions_work :: "Ctx \<Rightarrow> PositionId option" where
  "get_close_all_positions_work ctx =
     (if closing_all_positions ctx then fm_first_where (\<lambda>_. True) (open_positions (pos_st ctx)) else None)"

section \<open>The work due\<close>

definition upd_crank :: "(CrankState \<Rightarrow> CrankState) \<Rightarrow> Ctx \<Rightarrow> Ctx" where
  "upd_crank f ctx = ctx\<lparr>crank_st := f (crank_st ctx)\<rparr>"

definition crank_init :: "Ctx \<Rightarrow> Ctx" where
  "crank_init = upd_crank (\<lambda>s. s\<lparr>last_crank_completed := Some 0\<rparr>)"

definition crank_work :: "Ctx \<Rightarrow> PricePoint \<Rightarrow> CrankWorkInfo res" where
  "crank_work ctx price_point =
     (if should_reset_lp_balances ctx then Inr WorkResetLpBalances
      else
        case fm_first_where (\<lambda>(t, _). t \<le> pp_timestamp price_point) (next_liquifunding (pos_st ctx)) of
          Some k \<Rightarrow> Inr (WorkLiquifunding (snd k))
        | None \<Rightarrow>
        case get_close_all_positions_work ctx of
          Some position \<Rightarrow> Inr (WorkCloseAllPositions position)
        | None \<Rightarrow>
        case liquidatable_position ctx (price_notional price_point) of
          Some q \<Rightarrow> Inr (WorkLiquidation (lq_id q) (lq_reason q))
        | None \<Rightarrow>
          and_then (next_crankable_deferred_exec_id ctx (pp_timestamp price_point)) (\<lambda>d.
          case d of
            Some (i, target) \<Rightarrow> Inr (WorkDeferredExec i target)
          | None \<Rightarrow>
              Inr (case limit_order_triggered_order ctx (price_notional price_point) of
                 Some i \<Rightarrow> WorkLimitOrder i
               | None \<Rightarrow> WorkCompleted)))"

text \<open>\<open>price_would_trigger\<close>, the oracle's price being a parameter.\<close>

definition price_would_trigger :: "dec256_api \<Rightarrow> Env \<Rightarrow> Ctx \<Rightarrow> Price \<Rightarrow> PriceBaseInQuote \<Rightarrow> bool res" where
  "price_would_trigger D env ctx oracle_price new_price =
     and_then (into_notional_price D new_price (mid_market_type (env_market_id env))) (\<lambda>new_price.
     Inr (newly_liquidatable_position ctx oracle_price new_price
        \<or> limit_order_newly_triggered_order ctx oracle_price new_price))"

section \<open>One execution\<close>

text \<open>A liquidation settles the position up to the price point first, which may close it for another reason.\<close>

definition crank_liquidation ::
    "dec256_api \<Rightarrow> Env \<Rightarrow> PositionId \<Rightarrow> LiquidationReason \<Rightarrow> PricePoint \<Rightarrow> Ctx \<Rightarrow> Ctx res" where
  "crank_liquidation D env position reason price_point ctx =
     and_then (get_position ctx position) (\<lambda>p.
     and_then (position_liquifund_new D env ctx p (pos_liquifunded_at p) (pp_timestamp price_point) True) (\<lambda>l.
     and_then (position_liquifund_apply D env l ctx) (\<lambda>(mcp, ctx).
     let instructions = (case mcp of
           MaybeOpen p \<Rightarrow> \<lparr>ci_pos = p, ci_capped_exposure = signed_zero, ci_additional_losses = 0,
             ci_settlement_price = price_point, ci_reason = CloseLiquidated reason,
             ci_closed_during_liquifunding = False\<rparr>
         | MaybeClose i \<Rightarrow> i) in
     and_then (close_position_new D env ctx instructions None) (\<lambda>e. close_position_apply D env e ctx))))"

definition crank_completed :: "dec256_api \<Rightarrow> Env \<Rightarrow> PricePoint \<Rightarrow> Ctx \<Rightarrow> Ctx res" where
  "crank_completed D env price_point ctx =
     and_then (accumulate_borrow_fee_rate D env price_point ctx) (\<lambda>ctx.
     and_then (accumulate_funding_rate D env price_point ctx) (\<lambda>ctx.
     Inr (upd_crank (\<lambda>s. s\<lparr>last_crank_completed := Some (pp_timestamp price_point)\<rparr>) ctx)))"

text \<open>The flag of the result tells that a submessage was queued.\<close>

definition crank_exec :: "dec256_api \<Rightarrow> Env \<Rightarrow> CrankWorkInfo \<Rightarrow> PricePoint \<Rightarrow> Ctx \<Rightarrow> (bool \<times> Ctx) res" where
  "crank_exec D env work_info price_point ctx =
     (let ctx = add_event env (WorkEvent (CrankWorkInfoEvent work_info price_point)) ctx in
     case work_info of
       WorkResetLpBalances \<Rightarrow> map_res (Pair False) (crank_reset_lp_balances D ctx)
     | WorkLiquifunding position \<Rightarrow>
         and_then (get_position ctx position) (\<lambda>p.
         map_res (Pair False) (position_liquifund_store D env p (pos_liquifunded_at p) (pos_next_liquifunding p) True
           SaveCrank ctx))
     | WorkCloseAllPositions position \<Rightarrow>
         and_then (get_position ctx position) (\<lambda>p.
         and_then (close_position_via_msg D env ctx p price_point) (\<lambda>e.
         map_res (Pair False) (close_position_apply D env e ctx)))
     | WorkLiquidation position reason \<Rightarrow>
         map_res (Pair False) (crank_liquidation D env position reason price_point ctx)
     | WorkDeferredExec i _ \<Rightarrow> map_res (Pair True) (process_deferred_exec i price_point ctx)
     | WorkLimitOrder i \<Rightarrow> map_res (Pair False) (limit_order_execute_order D env i price_point ctx)
     | WorkCompleted \<Rightarrow> map_res (Pair False) (crank_completed D env price_point ctx))"

section \<open>Batches\<close>

definition work_weight :: "CrankWorkInfo \<Rightarrow> nat" where
  "work_weight w = (case w of WorkCompleted \<Rightarrow> 1 | _ \<Rightarrow> 5)"

lemma work_weight_pos: "0 < work_weight w"
  by (simp add: work_weight_def split: CrankWorkInfo.split)

lemma and_then_cong [fundef_cong]:
  "m = m' \<Longrightarrow> (\<And>x. m' = Inr x \<Longrightarrow> f x = g x) \<Longrightarrow> and_then m f = and_then m' g"
  by (auto simp: and_then_def split: sum.split)

text \<open>The loop of \<open>crank_exec_batch\<close>: the flag of the result tells that it stopped at a submessage. Every
  round takes the weight of its work off the budget.\<close>

function crank_loop :: "dec256_api \<Rightarrow> Env \<Rightarrow> CrankProgress \<Rightarrow> Ctx \<Rightarrow> (bool \<times> CrankProgress \<times> Ctx) res" where
  "crank_loop D env progress ctx =
     (case next_crank_timestamp env ctx of
        None \<Rightarrow> Inr (False, progress, ctx)
      | Some price_point \<Rightarrow>
          and_then (crank_work ctx price_point) (\<lambda>work_info.
          if cr_weight_budget_left progress < work_weight work_info
          then Inr (False, progress, upd_crank (\<lambda>s. s\<lparr>crank_batch := None\<rparr>) ctx)
          else
            let progress' = progress\<lparr>cr_weight_budget_left := cr_weight_budget_left progress - work_weight work_info,
                  cr_actual := cr_actual progress @ [(work_info, price_point)],
                  cr_paying_work_done := (if receives_crank_rewards work_info
                    then cr_paying_work_done progress + 1 else cr_paying_work_done progress)\<rparr> in
            and_then (crank_exec D env work_info price_point ctx) (\<lambda>(submessage, ctx).
            if submessage
            then Inr (True, progress', upd_crank (\<lambda>s. s\<lparr>crank_batch := Some progress'\<rparr>) ctx)
            else crank_loop D env progress' ctx)))"
  by pat_completeness auto

termination
proof (relation "measure (\<lambda>(D, env, progress, ctx). cr_weight_budget_left progress)", goal_cases)
  case (2 D env progress ctx price_point work_info progress' r submessage ctx')
  then show ?case using work_weight_pos [of work_info] by simp
qed simp

declare crank_loop.simps [simp del]

definition start_progress :: "nat \<Rightarrow> Addr \<Rightarrow> CrankProgress res" where
  "start_progress n rewards =
     (if 4294967296 \<le> n * 5 then Inl (Panic ''attempt to multiply with overflow'')
      else Inr \<lparr>cr_weight_budget_left = n * 5, cr_paying_work_done = 0, cr_requested = n, cr_rewards = rewards,
        cr_actual = []\<rparr>)"

definition crank_exec_batch :: "dec256_api \<Rightarrow> Env \<Rightarrow> (nat \<times> Addr) option \<Rightarrow> Ctx \<Rightarrow> Ctx res" where
  "crank_exec_batch D env start ctx =
     and_then (case start of
         Some (n, rewards) \<Rightarrow> start_progress n rewards
       | None \<Rightarrow> ok_or (crank_batch (crank_st ctx)) (Std ''CRANK_BATCH_WEIGHT_LEFT not found'')) (\<lambda>progress.
     and_then (crank_loop D env progress ctx) (\<lambda>(submessage, progress, ctx).
     if submessage then Inr ctx
     else
       and_then (allocate_crank_fees D env (cr_rewards progress) (cr_paying_work_done progress) ctx) (\<lambda>ctx.
       Inr (add_event env (WorkEvent (CrankExecBatchEvent (cr_requested progress) (cr_paying_work_done progress)
         (cr_actual progress))) ctx))))"

text \<open>\<open>reply\<close> of \<open>contract.rs\<close> after the submessage of a deferred execution.\<close>

definition market_reply :: "dec256_api \<Rightarrow> Env \<Rightarrow> DeferredExecId \<Rightarrow> error option \<Rightarrow> Ctx \<Rightarrow> Ctx res" where
  "market_reply D env i failure ctx =
     and_then (handle_deferred_exec_reply D env i failure ctx) (\<lambda>ctx. crank_exec_batch D env None ctx)"

end
