(* ===== verification/TradingFrame.thy ===== *)
theory TradingFrame
  imports Crank
begin

text \<open>
  What the operations of the pool, the fees and the histories leave alone. The trading side of the
  context is kept by all of them, and each moves the liabilities of the pool by a known amount: the
  amount of a fee, nothing for a record, the change of the stored collateral for the liquidity that is
  locked, unlocked or adjusted. The facts are collected in \<open>frame\<close>, for the proofs about
  positions, orders and the crank that follow.
\<close>

named_theorems frame \<open>effects of the operations that keep the trading side\<close>

section \<open>The trading side\<close>

definition same_trading :: "Ctx \<Rightarrow> Ctx \<Rightarrow> bool" where
  "same_trading c c' \<longleftrightarrow> pos_st c' = pos_st c \<and> nft_st c' = nft_st c \<and> order_st c' = order_st c
     \<and> deferred_st c' = deferred_st c \<and> crank_st c' = crank_st c \<and> prices c' = prices c
     \<and> open_long_interest c' = open_long_interest c \<and> open_short_interest c' = open_short_interest c
     \<and> total_net_funding_paid c' = total_net_funding_paid c \<and> total_funding_margin c' = total_funding_margin c
     \<and> delta_neutrality_fund c' = delta_neutrality_fund c
     \<and> closing_all_positions c' = closing_all_positions c \<and> deferred_submessages c' = deferred_submessages c"

text \<open>The operation keeps the trading side and the liquidity, and the pool owes \<open>n\<close> more.\<close>

definition moves :: "int \<Rightarrow> Ctx \<Rightarrow> Ctx \<Rightarrow> bool" where
  "moves n c c' \<longleftrightarrow> same_trading c c' \<and> liquidity_stats c' = liquidity_stats c
     \<and> int (liabilities c') = int (liabilities c) + n"

text \<open>The operation keeps the trading side and stores the liquidity \<open>s\<close>.\<close>

definition restocks :: "LiquidityStats \<Rightarrow> Ctx \<Rightarrow> Ctx \<Rightarrow> bool" where
  "restocks s c c' \<longleftrightarrow> same_trading c c'
     \<and> stats_collateral (liquidity_stats c') = stats_collateral s
     \<and> int (liabilities c') = int (liabilities c) + int (stats_collateral s) - int (stats_collateral (liquidity_stats c))"

lemma same_trading_refl [simp]: "same_trading c c"
  by (simp add: same_trading_def)

lemma same_trading_trans: "same_trading a b \<Longrightarrow> same_trading b c \<Longrightarrow> same_trading a c"
  by (simp add: same_trading_def)

lemma same_trading_event [simp]:
  "same_trading c (add_event env e c') = same_trading c c'"
  "same_trading (add_event env e c) c' = same_trading c c'"
  by (simp_all add: same_trading_def)

lemma moves_refl: "moves 0 c c"
  by (simp add: moves_def)

lemma moves_trans: "moves m a b \<Longrightarrow> moves n b c \<Longrightarrow> moves (m + n) a c"
  by (auto simp: moves_def intro: same_trading_trans)

lemma moves_event [simp]: "moves n c (add_event env e c') = moves n c c'"
  by (simp add: moves_def same_trading_def)

lemma moves_same: "moves n c c' \<Longrightarrow> same_trading c c'"
  by (simp add: moves_def)

lemma restocks_same: "restocks s c c' \<Longrightarrow> same_trading c c'"
  by (simp add: restocks_def)

lemma moves_stats_addr [simp]: "moves n c (save_liquidity_stats_addr a s c') = moves n c c'"
  by (simp add: moves_def same_trading_def) (simp add: save_liquidity_stats_addr_def)

lemma moves_fees:
  "moves (int (fees_wallets f + fees_protocol f + fees_crank f + fees_referral f)
     - int (fees_wallets (all_fees c) + fees_protocol (all_fees c) + fees_crank (all_fees c) + fees_referral (all_fees c)))
     c (c\<lparr>all_fees := f\<rparr>)"
  by (simp add: moves_def same_trading_def liabilities_def transfers_total_def)

lemma moves_yield: "moves 0 c (new_yield_apply y c)"
  by (simp add: moves_def same_trading_def liabilities_def transfers_total_def new_yield_apply_def)

section \<open>Histories\<close>

lemma moves_trade [simp]: "moves n c (upd_trade f c') = moves n c c'"
  by (simp add: moves_def same_trading_def upd_trade_def liabilities_def transfers_total_def)

lemma push_moves [frame]:
  "push_position_action i a c = Inr c' \<Longrightarrow> moves 0 c c'"
  "push_trader_action o' a c = Inr c' \<Longrightarrow> moves 0 c c'"
  by (auto simp: push_position_action_def push_trader_action_def moves_refl)

lemma moves_zero_trans: "moves 0 a b \<Longrightarrow> moves n b c \<Longrightarrow> moves n a c"
  using moves_trans [of 0 a b n c] by simp

lemma event_moves: "moves n (add_event env e c) c' = moves n c c'"
  by (simp add: moves_def same_trading_def)

lemma history_moves [frame]:
  "position_history_add_transfer env p o' c = Inr c' \<Longrightarrow> moves 0 c c'"
  "position_history_add_open_update_action D env p k tf df dd pp c = Inr c' \<Longrightarrow> moves 0 c c'"
  "position_history_add_close_action D env cp ac sf pp c = Inr c' \<Longrightarrow> moves 0 c c'"
  "trade_history_add_volume D env o' v c = Inr c' \<Longrightarrow> moves 0 c c'"
  "trade_history_add_realized_pnl D env o' pnl usd c = Inr c' \<Longrightarrow> moves 0 c c'"
  by (auto simp: position_history_add_transfer_def position_history_add_open_update_action_def
      position_history_add_close_action_def trade_history_add_volume_def trade_history_add_realized_pnl_def
      Let_def event_moves moves_refl dest!: push_moves intro: moves_zero_trans)

lemma history_close_moves [frame]:
  "position_history_add_close D env cp df pp c = Inr c' \<Longrightarrow> moves 0 c c'"
  by (auto simp: position_history_add_close_def dest!: history_moves(3-5) intro: moves_zero_trans)

section \<open>Transfers, fees and liquidity\<close>

context decimal256
begin

lemma transfer_moves [frame]:
  "add_token_transfer_msg D a n c = Inr c' \<Longrightarrow> moves (int n) c c'"
  using add_token_transfer_total [of a n c c']
  by (auto simp: moves_def same_trading_def liabilities_def)

lemma earned_fees_moves:
  "add_earned_fees D l x p c = Inr c' \<Longrightarrow> moves (int (l + x + p)) c c'"
  by (auto dest!: add_earned_fees_Inr simp: moves_def same_trading_def liabilities_def transfers_total_def)

lemma trading_fee_inner_moves [frame]:
  assumes "collect_trading_fee_inner D env n price tid src c = Inr c'"
  shows "moves (int n) c c'"
proof -
  obtain p l x c1 y e lp xlp where "p \<le> n" "split_trading_fee D (n - p) lp xlp = Inr (l, x)"
    and c1: "add_earned_fees D l x p c = Inr c1"
    and c': "c' = add_event env e (new_yield_apply y c1)"
    using assms by (auto simp: collect_trading_fee_inner_def checked_mul_dec_def)
  then have n: "int n = int (l + x + p) + 0" using split_trading_fee_exact [of "n - p" lp xlp l x] by linarith
  show ?thesis unfolding n c' moves_event by (rule moves_trans [OF earned_fees_moves [OF c1] moves_yield])
qed

lemma delta_neutrality_protocol_moves [frame]:
  "collect_delta_neutrality_fee_for_protocol D env i n price c = Inr c' \<Longrightarrow> moves (int n) c c'"
  unfolding collect_delta_neutrality_fee_for_protocol_def by (rule trading_fee_inner_moves)

lemma referral_moves:
  "add_summary_referral D env a b n c = Inr c' \<Longrightarrow> moves 0 c c'"
  by (auto simp: add_summary_referral_def Let_def moves_def same_trading_def liabilities_def transfers_total_def)

lemma trading_fee_moves [frame]:
  assumes "collect_trading_fee D env pid n price src owner c = Inr c'"
  shows "moves (int n) c c'"
proof -
  obtain ref where ref: "env_referrer_for env owner = Inr ref"
    using assms by (auto simp: collect_trading_fee_def)
  show ?thesis
  proof (cases ref)
    case None
    with assms ref show ?thesis by (auto simp: collect_trading_fee_def intro: trading_fee_inner_moves)
  next
    case (Some a)
    then obtain r s c2 f where r: "r \<le> n"
      and f: "f = (all_fees c)\<lparr>fees_referral := fees_referral (all_fees c) + r\<rparr>"
      and c2: "(if r = 0 then Inr (save_liquidity_stats_addr a s (c\<lparr>all_fees := f\<rparr>))
          else add_summary_referral D env owner a r (save_liquidity_stats_addr a s (c\<lparr>all_fees := f\<rparr>))) = Inr c2"
      and c': "collect_trading_fee_inner D env (n - r) price (TradePosition pid) src c2 = Inr c'"
      using assms ref by (auto simp: collect_trading_fee_def Let_def)
    have "moves (int r) c (c\<lparr>all_fees := f\<rparr>)" using moves_fees [of f c] by (simp add: f)
    then have m: "moves (int r) c (save_liquidity_stats_addr a s (c\<lparr>all_fees := f\<rparr>))" by simp
    have "moves 0 (save_liquidity_stats_addr a s (c\<lparr>all_fees := f\<rparr>)) c2"
      using c2 moves_refl referral_moves by (metis Inr_inject)
    from moves_trans [OF m this] have "moves (int r) c c2" by simp
    from moves_trans [OF this trading_fee_inner_moves [OF c']] show ?thesis using r by simp
  qed
qed

lemma borrow_fee_moves [frame]:
  assumes b: "collect_borrow_fee D env c0 pid amount price = Inr b" and "borrow_fee_apply D env b c = Inr c'"
  shows "moves (int (la_lp amount + la_xlp amount)) c c'"
proof -
  obtain c1 where c1: "add_earned_fees D (fe_lp_amount (bfc_event b)) (fe_xlp_amount (bfc_event b))
      (fe_protocol_amount (bfc_event b)) (new_yield_apply (bfc_yield b) c) = Inr c1"
    and c': "c' = add_event env (FeeEvent (bfc_event b)) c1"
    using assms(2) by (auto simp: borrow_fee_apply_def Let_def)
  have "fe_lp_amount (bfc_event b) + fe_xlp_amount (bfc_event b) + fe_protocol_amount (bfc_event b)
      = la_lp amount + la_xlp amount"
    using b by (auto simp: collect_borrow_fee_def Let_def checked_mul_dec_def fee_event_def)
  then show ?thesis
    using moves_trans [OF moves_yield earned_fees_moves [OF c1]] by (simp add: c')
qed

lemma crank_fee_moves [frame]:
  "cap_crank_fee_apply D env k c = Inr c' \<Longrightarrow> moves (int (ccf_amount k)) c c'"
  by (cases "ccf_insufficient_margin_event k")
    (auto simp: cap_crank_fee_apply_def Let_def moves_def same_trading_def liabilities_def transfers_total_def)

lemma crank_rewards_moves:
  "add_lp_crank_rewards D a n c = Inr c' \<Longrightarrow> moves 0 c c'"
  by (auto simp: add_lp_crank_rewards_def moves_refl)

lemma return_funds_moves [frame]:
  assumes "return_funds_to_user D env a n price c = Inr c'"
  shows "moves (int n) c c'"
proof -
  obtain f c1 e where f: "f = (all_fees c)\<lparr>fees_wallets := fees_wallets (all_fees c) + n\<rparr>"
    and c1: "add_lp_crank_rewards D a n (c\<lparr>all_fees := f\<rparr>) = Inr c1" and c': "c' = add_event env e c1"
    using assms by (auto simp: return_funds_to_user_def Let_def)
  have "moves (int n) c (c\<lparr>all_fees := f\<rparr>)" using moves_fees [of f c] by (simp add: f)
  from moves_trans [OF this crank_rewards_moves [OF c1]] show ?thesis by (simp add: c')
qed

lemma allocate_crank_moves [frame]:
  assumes "allocate_crank_fees D env a n c = Inr c'"
  shows "moves 0 c c'"
proof -
  consider "c' = c" | f c1 e where "moves 0 c (c\<lparr>all_fees := f\<rparr>)"
      "moves 0 (c\<lparr>all_fees := f\<rparr>) c1" "c' = add_event env e c1"
  proof -
    define m where "m = min (cfg_crank_fee_reward (env_config env) * n) (fees_crank (all_fees c))"
    define f where "f = (all_fees c)\<lparr>fees_crank := fees_crank (all_fees c) - m, fees_wallets := fees_wallets (all_fees c) + m\<rparr>"
    have "moves 0 c (c\<lparr>all_fees := f\<rparr>)" using moves_fees [of f c] by (simp add: f_def m_def)
    moreover have "c' = c \<or> (\<exists>c1 e. add_lp_crank_rewards D a m (c\<lparr>all_fees := f\<rparr>) = Inr c1 \<and> c' = add_event env e c1)"
      using assms by (auto simp: allocate_crank_fees_def Let_def m_def f_def nonzero_new_def split: if_splits)
    ultimately show thesis using that crank_rewards_moves by blast
  qed
  then show ?thesis
    using moves_zero_trans moves_refl by cases auto
qed

lemma ratio_event_moves [frame]:
  "add_delta_neutrality_ratio_event D env s price c = Inr c' \<Longrightarrow> moves 0 c c'"
  by (cases "mid_market_type (env_market_id env)")
    (auto simp: add_delta_neutrality_ratio_event_def Let_def moves_refl)

lemma restocked:
  assumes "and_then (save_liquidity_stats D s c) (\<lambda>ctx.
      and_then (add_pool_size_change_events D env s' price ctx) (\<lambda>ctx. Inr (add_event env e ctx))) = Inr c'"
  shows "restocks s c c'"
proof -
  obtain c1 c2 where sv: "save_liquidity_stats D s c = Inr c1"
    and ev: "add_pool_size_change_events D env s' price c1 = Inr c2" and c': "c' = add_event env e c2"
    using assms by auto
  have m: "moves 0 c1 c'"
    using ev by (auto simp: add_pool_size_change_events_def c' event_moves dest!: ratio_event_moves)
  have "same_trading c c1" using save_stats_cases [OF sv] by (auto simp: same_trading_def)
  then show ?thesis
    using m save_stats_liabilities [OF sv] save_stats_cases [OF sv]
    by (auto simp: restocks_def moves_def stats_collateral_def empty_stats_def intro: same_trading_trans)
qed

lemma liquidity_restocks [frame]:
  "liquidity_lock_apply D env l c = Inr c' \<Longrightarrow> restocks (ll_stats l) c c'"
  "liquidity_unlock_apply D env u c = Inr c' \<Longrightarrow> restocks (ul_stats u) c c'"
  "liquidity_update_locked_apply D env v c = Inr c' \<Longrightarrow> restocks (lu_stats v) c c'"
  unfolding liquidity_lock_apply_def liquidity_unlock_apply_def liquidity_update_locked_apply_def
  by (erule restocked)+

lemma accrued_moves:
  "update_accrued_yield D a c = Inr c' \<Longrightarrow> moves 0 c c'"
  by (auto simp: update_accrued_yield_def moves_refl split: option.splits)

lemma reset_moves [frame]:
  assumes "crank_reset_lp_balances D c = Inr c'"
  shows "moves 0 c c'"
proof -
  have st: "moves 0 x (y\<lparr>reset_lp_status := r\<rparr>) = moves 0 x y" for x y r
    by (simp add: moves_def same_trading_def liabilities_def transfers_total_def)
  show ?thesis
    using assms
    by (auto simp: crank_reset_lp_balances_def Let_def st moves_refl dest!: accrued_moves split: option.splits)
qed

end

end
