(* ===== verification/TradingInvariant.thy ===== *)
theory TradingInvariant
  imports TradingFrame
begin

text \<open>
  The invariants of the trading side: the indexes of \<open>state/position.rs\<close> (liquifunding schedule, price
  triggers, total funding margin) are the image of the open positions, the tokens of
  \<open>state/position/cw721.rs\<close> are the tokens of the open positions and belong to their owners, and the
  open interest is the sum of the sizes. Every operation that stores a position keeps them.
\<close>

section \<open>The indexes of a position\<close>

definition losses_trigger :: "Position \<Rightarrow> Price \<Rightarrow> LiquidationReason option" where
  "losses_trigger p x = (if pos_stop_loss_override_notional p = Some x then Some StopLoss
     else if pos_liquidation_price p = Some x then Some Liquidated else None)"

definition gains_trigger :: "Position \<Rightarrow> Price \<Rightarrow> LiquidationReason option" where
  "gains_trigger p x = (if pos_take_profit_trader_notional p = Some x then Some TakeProfit
     else if pos_take_profit_total p = Some x then Some MaxGains else None)"

definition desc_trigger :: "Position \<Rightarrow> Price \<Rightarrow> LiquidationReason option" where
  "desc_trigger p = (case pos_direction p of LongNotional \<Rightarrow> losses_trigger p | ShortNotional \<Rightarrow> gains_trigger p)"

definition asc_trigger :: "Position \<Rightarrow> Price \<Rightarrow> LiquidationReason option" where
  "asc_trigger p = (case pos_direction p of LongNotional \<Rightarrow> gains_trigger p | ShortNotional \<Rightarrow> losses_trigger p)"

definition funding_margin :: "Position \<Rightarrow> nat" where
  "funding_margin p = lm_funding (pos_liquidation_margin p)"

definition pos_indexed :: "PositionsState \<Rightarrow> Collateral \<Rightarrow> bool" where
  "pos_indexed s m \<longleftrightarrow>
     (\<forall>i p. fmlookup (open_positions s) i = Some p \<longrightarrow> pos_id p = i)
   \<and> (\<forall>t i. fmlookup (next_liquifunding s) (t, i)
        = (if map_option pos_next_liquifunding (fmlookup (open_positions s) i) = Some t then Some () else None))
   \<and> (\<forall>x i. fmlookup (price_trigger_desc s) (x, i) = Option.bind (fmlookup (open_positions s) i) (\<lambda>p. desc_trigger p x))
   \<and> (\<forall>x i. fmlookup (price_trigger_asc s) (x, i) = Option.bind (fmlookup (open_positions s) i) (\<lambda>p. asc_trigger p x))
   \<and> m = fmsum funding_margin (open_positions s)"

abbreviation open_at :: "Ctx \<Rightarrow> PositionId \<Rightarrow> Position option" where
  "open_at ctx i \<equiv> fmlookup (open_positions (pos_st ctx)) i"

abbreviation indexed :: "Ctx \<Rightarrow> bool" where
  "indexed ctx \<equiv> pos_indexed (pos_st ctx) (total_funding_margin ctx)"

lemma indexed_same: "same_trading c c' \<Longrightarrow> indexed c' = indexed c"
  by (simp add: same_trading_def)

lemma indexed_id: "indexed ctx \<Longrightarrow> open_at ctx i = Some p \<Longrightarrow> pos_id p = i"
  by (simp add: pos_indexed_def)

lemma get_position_Inr [simp]: "(get_position ctx i = Inr p) = (open_at ctx i = Some p)"
  by (simp add: get_position_def)

lemma drop_trigger_lookup:
  "fmlookup (drop_trigger price i m) k = (if price \<noteq> None \<and> k = (the price, i) then None else fmlookup m k)"
  by (cases price) (simp_all add: drop_trigger_def)

lemma put_trigger_lookup:
  "fmlookup (put_trigger price i r m) k = (if price \<noteq> None \<and> k = (the price, i) then Some r else fmlookup m k)"
  by (cases price) (simp_all add: put_trigger_def)

lemma upd_pos_simps [simp]:
  "pos_st (upd_pos f c) = f (pos_st c)" "total_funding_margin (upd_pos f c) = total_funding_margin c"
  by (simp_all add: upd_pos_def)

text \<open>Everything but the positions and the total of the funding margins.\<close>

definition same_but_positions :: "Ctx \<Rightarrow> Ctx \<Rightarrow> bool" where
  "same_but_positions c c' \<longleftrightarrow>
     c' = c\<lparr>pos_st := pos_st c', total_funding_margin := total_funding_margin c'\<rparr>
   \<and> last_position_id (pos_st c') = last_position_id (pos_st c)
   \<and> closed_positions (pos_st c') = closed_positions (pos_st c)
   \<and> closed_position_history (pos_st c') = closed_position_history (pos_st c)"

lemma same_but_trans:
  assumes "same_but_positions a b" "same_but_positions b c"
  shows "same_but_positions a c"
proof -
  have "c = (a\<lparr>pos_st := pos_st b, total_funding_margin := total_funding_margin b\<rparr>)
      \<lparr>pos_st := pos_st c, total_funding_margin := total_funding_margin c\<rparr>"
    using assms unfolding same_but_positions_def by metis
  also have "\<dots> = a\<lparr>pos_st := pos_st c, total_funding_margin := total_funding_margin c\<rparr>" by simp
  finally show ?thesis using assms by (simp add: same_but_positions_def)
qed

lemma same_but_refl [simp]: "same_but_positions c c"
  by (simp add: same_but_positions_def)

text \<open>Storing a position again without a recalculation: the fields the indexes read are the old ones.\<close>

definition same_index :: "Position \<Rightarrow> Position \<Rightarrow> bool" where
  "same_index p q \<longleftrightarrow> pos_id q = pos_id p \<and> pos_next_liquifunding q = pos_next_liquifunding p
     \<and> desc_trigger q = desc_trigger p \<and> asc_trigger q = asc_trigger p
     \<and> pos_liquidation_margin q = pos_liquidation_margin p \<and> pos_active_collateral q = pos_active_collateral p"

context decimal256
begin

lemma position_remove_result:
  assumes ix: "indexed ctx" and r: "position_remove D i ctx = Inr ctx'"
  shows "\<exists>p. open_at ctx i = Some p \<and> indexed ctx' \<and> same_but_positions ctx ctx'
    \<and> open_positions (pos_st ctx') = fmdrop i (open_positions (pos_st ctx))"
proof -
  obtain p where p: "open_at ctx i = Some p" using r by (auto simp: position_remove_def)
  have i: "pos_id p = i" using indexed_id [OF ix p] .
  have m: "fmsum funding_margin (fmdrop i (open_positions (pos_st ctx)))
      = total_funding_margin ctx - lm_funding (pos_liquidation_margin p)"
    using ix fmsum_drop [of funding_margin i "open_positions (pos_st ctx)"] p
    by (simp add: pos_indexed_def fmval_lookup funding_margin_def)
  have ctx': "ctx' = (remove_liquidation_prices p (upd_pos (\<lambda>s. s\<lparr>open_positions := fmdrop i (open_positions s),
      next_liquifunding := fmdrop (pos_next_liquifunding p, i) (next_liquifunding s)\<rparr>) ctx))
      \<lparr>total_funding_margin := total_funding_margin ctx - lm_funding (pos_liquidation_margin p)\<rparr>"
    using r p i by (cases "pos_direction p")
      (auto simp: position_remove_def decrease_total_funding_margin_def Let_def remove_liquidation_prices_def)
  have ix': "indexed ctx'"
    using ix p m i unfolding pos_indexed_def ctx'
    by (cases "pos_direction p")
      (auto simp: remove_liquidation_prices_def Let_def drop_trigger_lookup desc_trigger_def asc_trigger_def
        losses_trigger_def gains_trigger_def split: option.splits if_splits)
  show ?thesis
    using p ix' by (cases "pos_direction p")
      (simp_all add: ctx' same_but_positions_def remove_liquidation_prices_def Let_def upd_pos_def)
qed

text \<open>The recalculation of a position changes its margin and its prices only.\<close>

lemma recalculate_result:
  assumes "recalculate_position D env p pp recalc = Inr q"
  shows "q = p\<lparr>pos_liquidation_margin := pos_liquidation_margin q, pos_liquidation_price := pos_liquidation_price q,
      pos_take_profit_total := pos_take_profit_total q\<rparr>"
    "lm_borrow (pos_liquidation_margin q) + lm_funding (pos_liquidation_margin q)
      + lm_delta_neutrality (pos_liquidation_margin q) + lm_crank (pos_liquidation_margin q)
      + lm_exposure (pos_liquidation_margin q) \<le> pos_active_collateral q"
    "recalc \<or> pos_liquidation_margin q = pos_liquidation_margin p"
  using assms by (auto simp: recalculate_position_def Let_def dest!: lm_total_Inr split: if_splits)

lemma store_triggers:
  "fmlookup (price_trigger_desc (pos_st (store_liquidation_prices q c))) (x, j)
     = (if j = pos_id q \<and> desc_trigger q x \<noteq> None then desc_trigger q x
        else fmlookup (price_trigger_desc (pos_st c)) (x, j))"
  "fmlookup (price_trigger_asc (pos_st (store_liquidation_prices q c))) (x, j)
     = (if j = pos_id q \<and> asc_trigger q x \<noteq> None then asc_trigger q x
        else fmlookup (price_trigger_asc (pos_st c)) (x, j))"
  by (cases "pos_direction q"; auto simp: store_liquidation_prices_def Let_def put_trigger_lookup
      desc_trigger_def asc_trigger_def losses_trigger_def gains_trigger_def)+

lemma store_fields:
  "open_positions (pos_st (store_liquidation_prices q c)) = open_positions (pos_st c)"
  "next_liquifunding (pos_st (store_liquidation_prices q c)) = next_liquifunding (pos_st c)"
  "total_funding_margin (store_liquidation_prices q c) = total_funding_margin c"
  by (cases "pos_direction q"; simp add: store_liquidation_prices_def Let_def)+

lemma put_position_indexed:
  assumes ix: "pos_indexed (pos_st c) m" and i: "pos_id q = i" and new: "open_at c i = None"
    and c': "c' = store_liquidation_prices q (upd_pos (\<lambda>s. s\<lparr>open_positions := fmupd i q (open_positions s),
      next_liquifunding := fmupd (pos_next_liquifunding q, i) () (next_liquifunding s)\<rparr>) c)"
  shows "pos_indexed (pos_st c') (m + funding_margin q)"
proof -
  have m: "fmsum funding_margin (fmupd i q (open_positions (pos_st c))) = m + funding_margin q"
    using fmsum_upd [of funding_margin i q "open_positions (pos_st c)"] ix new
    by (simp add: pos_indexed_def fmval_def)
  have e: "open_positions (pos_st c') = fmupd i q (open_positions (pos_st c))"
    "next_liquifunding (pos_st c') = fmupd (pos_next_liquifunding q, i) () (next_liquifunding (pos_st c))"
    by (simp_all add: c' store_fields)
  have old: "fmlookup (price_trigger_desc (pos_st c)) (x, j) = Option.bind (open_at c j) (\<lambda>p. desc_trigger p x)"
    "fmlookup (price_trigger_asc (pos_st c)) (x, j) = Option.bind (open_at c j) (\<lambda>p. asc_trigger p x)" for x j
    using ix unfolding pos_indexed_def by blast+
  have d: "fmlookup (price_trigger_desc (pos_st c')) (x, j) = Option.bind (open_at c' j) (\<lambda>p. desc_trigger p x)"
    "fmlookup (price_trigger_asc (pos_st c')) (x, j) = Option.bind (open_at c' j) (\<lambda>p. asc_trigger p x)" for x j
    using new unfolding e by (auto simp: c' store_triggers i old)
  have oldn: "fmlookup (next_liquifunding (pos_st c)) (t, j)
      = (if map_option pos_next_liquifunding (open_at c j) = Some t then Some () else None)" for t j
    using ix unfolding pos_indexed_def by blast
  have n: "fmlookup (next_liquifunding (pos_st c')) (t, j)
      = (if map_option pos_next_liquifunding (open_at c' j) = Some t then Some () else None)" for t j
    using oldn [of t j] new unfolding e by (cases "j = i"; cases "pos_next_liquifunding q = t"; simp)
  have "pos_id p = j" if "open_at c' j = Some p" for p j
    using indexed_id [of "c\<lparr>total_funding_margin := m\<rparr>" j p] ix that i unfolding e by (auto split: if_splits)
  then show ?thesis unfolding pos_indexed_def using d n by (simp add: e m)
qed

lemma position_save_result:
  assumes ix: "indexed ctx" and new: "is_update \<or> open_at ctx (pos_id p) = None"
    and sv: "position_save D env p pp is_update recalc reason ctx = Inr (q, ctx')"
  shows "indexed ctx' \<and> recalculate_position D env p pp recalc = Inr q
    \<and> (is_update \<longrightarrow> (\<exists>p0. open_at ctx (pos_id p) = Some p0))
    \<and> (\<exists>c. same_but_positions ctx c \<and> ctx' = add_event env (PositionEvent (PositionSaveEvent (pos_id p) reason)) c)
    \<and> open_positions (pos_st ctx') = fmupd (pos_id p) q (open_positions (pos_st ctx))"
proof -
  obtain c1 where c1: "(if is_update then position_remove D (pos_id p) ctx else Inr ctx) = Inr c1"
    and q: "recalculate_position D env p pp recalc = Inr q"
    using sv by (auto simp: position_save_def)
  have id: "pos_id q = pos_id p" by (subst recalculate_result(1) [OF q]) simp
  have r: "indexed c1 \<and> same_but_positions ctx c1 \<and> open_at c1 (pos_id p) = None
    \<and> fmupd (pos_id p) q (open_positions (pos_st c1)) = fmupd (pos_id p) q (open_positions (pos_st ctx))
    \<and> (is_update \<longrightarrow> (\<exists>p0. open_at ctx (pos_id p) = Some p0))"
  proof (cases is_update)
    case True
    with c1 position_remove_result [OF ix, of "pos_id p" c1] show ?thesis
      by (auto intro: fmap_ext)
  next
    case False
    with c1 ix new same_but_refl show ?thesis by simp
  qed
  define c2 where "c2 = store_liquidation_prices q (upd_pos (\<lambda>s. s\<lparr>
      open_positions := fmupd (pos_id q) q (open_positions s),
      next_liquifunding := fmupd (pos_next_liquifunding q, pos_id q) () (next_liquifunding s)\<rparr>) c1)"
  have ctx': "ctx' = add_event env (PositionEvent (PositionSaveEvent (pos_id p) reason))
      (c2\<lparr>total_funding_margin := total_funding_margin c2 + funding_margin q\<rparr>)"
    using sv c1 q id
    by (auto simp: position_save_def increase_total_funding_margin_def Let_def c2_def funding_margin_def)
  have tfm: "total_funding_margin c2 = total_funding_margin c1"
    by (simp add: c2_def store_fields)
  have ix2: "pos_indexed (pos_st c2) (total_funding_margin c1 + funding_margin q)"
    using r id by (intro put_position_indexed [of c1 _ q "pos_id p" c2]) (simp_all add: c2_def)
  have op: "open_positions (pos_st c2) = fmupd (pos_id q) q (open_positions (pos_st c1))"
    by (simp add: c2_def store_fields)
  have "same_but_positions c1 c2"
    by (cases "pos_direction q")
      (simp_all add: c2_def same_but_positions_def store_liquidation_prices_def Let_def upd_pos_def)
  then have sb: "same_but_positions c1 (c2\<lparr>total_funding_margin := total_funding_margin c2 + funding_margin q\<rparr>)"
    using same_but_trans [of c1 c2 "c2\<lparr>total_funding_margin := total_funding_margin c2 + funding_margin q\<rparr>"]
    by (simp add: same_but_positions_def)
  have "\<exists>c. same_but_positions ctx c \<and> ctx' = add_event env (PositionEvent (PositionSaveEvent (pos_id p) reason)) c"
    using same_but_trans [OF _ sb] r ctx' by blast
  then show ?thesis using ix2 r q id tfm op by (simp add: ctx')
qed

lemma save_no_recalc_indexed:
  assumes ix: "indexed ctx" and p: "open_at ctx i = Some p" and same: "same_index p q"
  shows "indexed (position_save_no_recalc q ctx)"
proof -
  have i: "pos_id q = i" using same indexed_id [OF ix p] by (simp add: same_index_def)
  have "fmsum funding_margin (fmupd i q (open_positions (pos_st ctx))) = fmsum funding_margin (open_positions (pos_st ctx))"
    using fmsum_upd [of funding_margin i q "open_positions (pos_st ctx)"] p same
    by (simp add: same_index_def fmval_lookup funding_margin_def)
  then show ?thesis
    using ix p same i unfolding pos_indexed_def
    by (auto simp: position_save_no_recalc_def same_index_def)
qed

end

section \<open>Tokens and open interest\<close>

definition owner_at :: "Ctx \<Rightarrow> PositionId \<Rightarrow> Addr option" where
  "owner_at ctx i = map_option pos_owner (open_at ctx i)"

definition nft_indexed :: "(PositionId \<Rightarrow> Addr option) \<Rightarrow> NftState \<Rightarrow> bool" where
  "nft_indexed f n \<longleftrightarrow> finite {i. f i \<noteq> None} \<and> nft_count n = card {i. f i \<noteq> None}
     \<and> (\<forall>i. fmlookup (nft_ids n) i = (if f i = None then None else Some ()))
     \<and> (\<forall>a i. fmlookup (nft_owners n) (a, i) = (if f i = Some a then Some () else None))
     \<and> (\<forall>i. (fmlookup (nft_approvals n) i = None) = (f i = None))"

definition long_size :: "Position \<Rightarrow> nat" where
  "long_size p = (case pos_direction p of LongNotional \<Rightarrow> sg_value (pos_notional_size p) | ShortNotional \<Rightarrow> 0)"

definition short_size :: "Position \<Rightarrow> nat" where
  "short_size p = (case pos_direction p of LongNotional \<Rightarrow> 0 | ShortNotional \<Rightarrow> sg_value (pos_notional_size p))"

definition interest_tracked :: "Ctx \<Rightarrow> bool" where
  "interest_tracked ctx \<longleftrightarrow> open_long_interest ctx = fmsum long_size (open_positions (pos_st ctx))
     \<and> open_short_interest ctx = fmsum short_size (open_positions (pos_st ctx))
     \<and> open_long_interest ctx < dec_lim \<and> open_short_interest ctx < dec_lim
     \<and> (\<forall>i p. open_at ctx i = Some p \<longrightarrow> wf_signed (pos_notional_size p))"

text \<open>The liquidation margin of a position is no more than its active collateral; and the identifiers of
  the open positions were issued.\<close>

definition margin_covered :: "Position \<Rightarrow> bool" where
  "margin_covered p \<longleftrightarrow> (let m = pos_liquidation_margin p in
     lm_borrow m + lm_funding m + lm_delta_neutrality m + lm_crank m + lm_exposure m \<le> pos_active_collateral p)"

definition positions_sound :: "Ctx \<Rightarrow> bool" where
  "positions_sound ctx \<longleftrightarrow> (\<forall>i p. open_at ctx i = Some p \<longrightarrow>
     i \<le> last_position_id (pos_st ctx) \<and> margin_covered p)"

definition books_kept :: "Ctx \<Rightarrow> bool" where
  "books_kept ctx \<longleftrightarrow> indexed ctx \<and> nft_indexed (owner_at ctx) (nft_st ctx) \<and> interest_tracked ctx \<and> positions_sound ctx"

text \<open>The part of the context the books read, and the parts that move without them.\<close>

definition same_books :: "Ctx \<Rightarrow> Ctx \<Rightarrow> bool" where
  "same_books c c' \<longleftrightarrow> pos_st c' = pos_st c \<and> nft_st c' = nft_st c \<and> order_st c' = order_st c
     \<and> deferred_st c' = deferred_st c \<and> crank_st c' = crank_st c \<and> prices c' = prices c
     \<and> open_long_interest c' = open_long_interest c \<and> open_short_interest c' = open_short_interest c
     \<and> total_funding_margin c' = total_funding_margin c
     \<and> closing_all_positions c' = closing_all_positions c \<and> deferred_submessages c' = deferred_submessages c"

lemma same_books_refl [simp]: "same_books c c"
  by (simp add: same_books_def)

lemma same_books_trans: "same_books a b \<Longrightarrow> same_books b c \<Longrightarrow> same_books a c"
  by (simp add: same_books_def)

lemma same_books_trading: "same_trading c c' \<Longrightarrow> same_books c c'"
  by (simp add: same_trading_def same_books_def)

lemma moves_books: "moves n c c' \<Longrightarrow> same_books c c'"
  by (rule same_books_trading) (rule moves_same)

lemma restocks_books: "restocks s c c' \<Longrightarrow> same_books c c'"
  by (rule same_books_trading) (rule restocks_same)

lemma same_books_event [simp]:
  "same_books c (add_event env e c') = same_books c c'" "same_books (add_event env e c) c' = same_books c c'"
  by (simp_all add: same_books_def)

lemma owner_at_same: "same_books c c' \<Longrightarrow> owner_at c' = owner_at c"
  by (simp add: same_books_def owner_at_def fun_eq_iff)

lemma books_same: "same_books c c' \<Longrightarrow> books_kept c' = books_kept c"
  using owner_at_same [of c c'] by (simp add: same_books_def books_kept_def interest_tracked_def positions_sound_def)

lemma books_event [simp]: "books_kept (add_event env e c) = books_kept c"
  by (rule books_same) simp

lemma finite_open: "finite {i. owner_at ctx i \<noteq> None}"
proof -
  have "{i. owner_at ctx i \<noteq> None} = fmdom' (open_positions (pos_st ctx))"
    by (auto simp: owner_at_def fmlookup_dom'_iff)
  then show ?thesis by simp
qed

lemma size_num: "wf_signed (pos_notional_size p) \<Longrightarrow>
    num (pos_notional_size p) = int (long_size p) - int (short_size p)"
  by (auto simp: long_size_def short_size_def pos_direction_def is_negative_def num_def wf_signed_def)

lemma nft_mint_indexed:
  assumes "nft_indexed f (nft_st c)" "f i = None" "nft_mint env a i c = Inr c'"
  shows "nft_indexed (f(i := Some a)) (nft_st c') \<and> same_books (c\<lparr>nft_st := nft_st c'\<rparr>) c'"
proof -
  have "{j. (f(i := Some a)) j \<noteq> None} = insert i {j. f j \<noteq> None}" by auto
  then show ?thesis
    using assms
    by (auto simp: nft_mint_def nft_increment_tokens_def upd_nft_def Let_def u64_add_Inr nft_indexed_def
        same_books_def)
qed

lemma nft_burn_indexed:
  assumes "nft_indexed f (nft_st c)" "f i = Some a" "nft_burn env a i c = Inr c'"
  shows "nft_indexed (f(i := None)) (nft_st c') \<and> same_books (c\<lparr>nft_st := nft_st c'\<rparr>) c'"
proof -
  have e: "{j. (f(i := None)) j \<noteq> None} = {j. f j \<noteq> None} - {i}" by auto
  have "i \<in> {j. f j \<noteq> None}" using assms(2) by simp
  then have "card {j. (f(i := None)) j \<noteq> None} = card {j. f j \<noteq> None} - 1"
    unfolding e using assms(1) by (simp add: nft_indexed_def)
  moreover have "finite {j. (f(i := None)) j \<noteq> None}" unfolding e using assms(1) by (simp add: nft_indexed_def)
  moreover have "nft_st c' = (nft_st c)\<lparr>nft_ids := fmdrop i (nft_ids (nft_st c)),
        nft_owners := fmdrop (a, i) (nft_owners (nft_st c)), nft_approvals := fmdrop i (nft_approvals (nft_st c)),
        nft_count := nft_count (nft_st c) - 1\<rparr>"
    using assms(3)
    by (auto simp: nft_burn_def nft_decrement_tokens_def upd_nft_def Let_def split: if_splits)
  ultimately have "nft_indexed (f(i := None)) (nft_st c')"
    using assms(1,2) by (simp add: nft_indexed_def)
  moreover have "same_books (c\<lparr>nft_st := nft_st c'\<rparr>) c'"
    using assms(3)
    by (auto simp: nft_burn_def nft_decrement_tokens_def upd_nft_def Let_def same_books_def split: if_splits)
  ultimately show ?thesis ..
qed

section \<open>Adjusting the open interest\<close>

context decimal256
begin

text \<open>The size of one side changes by what a position of that side gains.\<close>

lemma adjust_interest_result:
  assumes lim: "open_long_interest ctx < dec_lim" "open_short_interest ctx < dec_lim" "wf_signed d"
    and a: "adjust_open_interest_new D env ctx d dir chk = Inr a"
  shows "case dir of
      LongNotional \<Rightarrow> \<exists>x. a = AdjustLong x \<and> int x = int (open_long_interest ctx) + num d \<and> x < dec_lim
    | ShortNotional \<Rightarrow> \<exists>x. a = AdjustShort x \<and> int x = int (open_short_interest ctx) - num d \<and> x < dec_lim"
  using assms
  by (cases dir) (auto simp: adjust_open_interest_new_def Let_def u_add_signed_Inr split: if_splits)

end

end
