(* ===== verification/PositionInvariant.thy ===== *)
theory PositionInvariant
  imports TradingInvariant
begin

text \<open>
  The books under the life of a position: a liquifunding, a closing, an opening and every update keep
  the indexes, the tokens and the open interest in step with the open positions.
\<close>

section \<open>What a settlement keeps of a position\<close>

definition keeps :: "Position \<Rightarrow> Position \<Rightarrow> bool" where
  "keeps p q \<longleftrightarrow> pos_id q = pos_id p \<and> pos_owner q = pos_owner p \<and> pos_notional_size q = pos_notional_size p"

lemma keeps_refl [simp]: "keeps p p"
  by (simp add: keeps_def)

lemma keeps_trans: "keeps p q \<Longrightarrow> keeps q r \<Longrightarrow> keeps p r"
  by (simp add: keeps_def)

lemma keeps_direction: "keeps p q \<Longrightarrow> pos_direction q = pos_direction p \<and> long_size q = long_size p \<and> short_size q = short_size p"
  by (simp add: keeps_def pos_direction_def long_size_def short_size_def)

lemma maybe_closed_simps [simp]:
  "maybe_closed_position (MaybeOpen p) = p" "maybe_closed_position (MaybeClose i) = ci_pos i"
  by (simp_all add: maybe_closed_position_def)

lemma set_next_keeps:
  assumes "set_next_liquifunding env p t = Inr q"
  shows "keeps p q"
proof -
  have k: "keeps p q" if "(if f = 0 then Inr (p\<lparr>pos_liquifunded_at := t, pos_next_liquifunding := n\<rparr>)
      else if r \<le> d then and_then (m :: nat res) (\<lambda>next. Inr (p\<lparr>pos_liquifunded_at := t,
        pos_next_liquifunding := n, pos_next_liquifunding := next\<rparr>))
      else Inr (p\<lparr>pos_liquifunded_at := t, pos_next_liquifunding := n\<rparr>)) = Inr q" for f r d n :: nat and m
    using that by (auto simp: keeps_def split: if_splits)
  from assms show ?thesis
    unfolding set_next_liquifunding_def Let_def and_then_eq_Inr by (elim exE conjE) (rule k)
qed

lemma settle_active_keeps: "keeps p (maybe_closed_position (fst (settle_active_collateral D p x price)))"
  unfolding settle_active_collateral_def
  by (cases "ok (nz_checked_sub_signed D (pos_active_collateral p) x)";
      simp only: option.case fst_conv maybe_closed_simps; simp add: keeps_def)

lemma fee_settlement_keeps:
  assumes "fee_settlement_new D env ctx p s e ch = Inr x"
  shows "keeps p (maybe_closed_position (pfs_position x))"
proof -
  obtain ff bf cf y price where "pfs_position x = fst (settle_active_collateral D
      (p\<lparr>pos_funding_fee := ff, pos_borrow_fee := bf, pos_crank_fee := cf\<rparr>) y price)"
    using assms by (auto simp: fee_settlement_new_def Let_def split_beta)
  then show ?thesis
    using settle_active_keeps [of "p\<lparr>pos_funding_fee := ff, pos_borrow_fee := bf, pos_crank_fee := cf\<rparr>" D y price]
    by (simp add: keeps_def)
qed

lemma settle_exposure_keeps:
  "settle_price_exposure D p s e m = Inr (x, y) \<Longrightarrow> keeps p (maybe_closed_position x)"
  by (auto simp: settle_price_exposure_def Let_def keeps_def split: if_splits)

lemma survivor_keeps:
  "liquifund_survivor D env p price t d = Inr m \<Longrightarrow> keeps p (maybe_closed_position m)"
  by (auto simp: liquifund_survivor_def close_instructions_def keeps_def dest!: set_next_keeps split: if_splits)

lemma liquifund_keeps:
  assumes "position_liquifund_new D env ctx p s e ch = Inr l"
  shows "keeps p (maybe_closed_position (plf_position l))"
proof -
  obtain x where x: "fee_settlement_new D env ctx p s e ch = Inr x"
    using assms by (auto simp: position_liquifund_new_def)
  show ?thesis
  proof (cases "pfs_position x")
    case (MaybeClose i)
    then show ?thesis using assms x fee_settlement_keeps [OF x] by (auto simp: position_liquifund_new_def)
  next
    case (MaybeOpen q)
    then obtain sp ep m y d where
      m: "settle_price_exposure D q sp ep (lm_delta_neutrality (pos_liquidation_margin q)) = Inr (m, y)"
      and pl: "(case m of MaybeOpen p \<Rightarrow> liquifund_survivor D env p ep e d
          | MaybeClose i \<Rightarrow> Inr (MaybeClose i)) = Inr (plf_position l)"
      using assms x by (auto simp: position_liquifund_new_def)
    then have "keeps q (maybe_closed_position (plf_position l))"
      using settle_exposure_keeps [OF m]
      by (cases m) (auto dest!: survivor_keeps intro: keeps_trans)
    with fee_settlement_keeps [OF x] MaybeOpen show ?thesis by (auto intro: keeps_trans)
  qed
qed

section \<open>Applied settlements and charges\<close>

lemma fold_events_same: "same_books c (fold (\<lambda>e. add_event env (f e)) es c)"
  by (induction es arbitrary: c) (auto simp: same_books_def)

context decimal256
begin

lemma fee_settlement_same:
  assumes "fee_settlement_apply D env s c = Inr c'"
  shows "same_books c c'"
proof -
  define c0 where "c0 = fold (\<lambda>e. add_event env (InsufficientMarginEvent e)) (pfs_insufficient_margin_events s) c"
  define c1 where "c1 = funding_fee_payment_apply env (pfs_funding_fee_payment s) c0"
  have c1: "same_books c c1"
    using fold_events_same [of c env InsufficientMarginEvent "pfs_insufficient_margin_events s"]
    by (simp add: c1_def c0_def funding_fee_payment_apply_def same_books_def split: option.split)
  obtain c2 where c2: "borrow_fee_apply D env (pfs_borrow_fee_collection s) c1 = Inr c2"
    using assms by (auto simp: fee_settlement_apply_def Let_def c0_def c1_def)
  have c2': "same_books c1 c2"
    using c2 by (auto simp: borrow_fee_apply_def Let_def new_yield_apply_def same_books_def dest!: add_earned_fees_Inr)
  have "same_books c2 c'"
    using assms c2
    by (cases "pfs_cap_crank_fee s")
      (auto simp: fee_settlement_apply_def Let_def c0_def [symmetric] c1_def [symmetric] split_beta
        intro: same_books_trading dest!: crank_fee_moves moves_same)
  with c1 c2' show ?thesis by (blast intro: same_books_trans)
qed

lemma liquifund_apply_same:
  assumes "position_liquifund_apply D env l c = Inr (m, c')"
  shows "m = plf_position l \<and> same_books c c'"
proof -
  obtain c1 where c1: "fee_settlement_apply D env (plf_fee_settlement l) c = Inr c1"
    and c': "(case plf_liquidity_update_locked l of Some u \<Rightarrow> liquidity_update_locked_apply D env u c1
      | None \<Rightarrow> Inr c1) = Inr c'" and m: "m = plf_position l"
    using assms by (auto simp: position_liquifund_apply_def)
  have "same_books c1 c'"
    using c' by (cases "plf_liquidity_update_locked l")
      (auto intro: same_books_trading dest!: liquidity_restocks restocks_same)
  then show ?thesis using m fee_settlement_same [OF c1] same_books_trans by blast
qed

lemma charge_apply_same:
  assumes "charge_apply D env r c = Inr c'"
  shows "same_books c c'"
proof -
  define c1 where "c1 = (case cd_cap_triggered_info r of
      Some i \<Rightarrow> add_event env (InsufficientMarginEvent \<lparr>im_pos = cd_pos_id r,
          im_fee_type = FeeTypeDeltaNeutrality, im_available = new_positive (ct_available i),
          im_requested = new_positive (ct_requested i)\<rparr>)
    | None \<Rightarrow> id) (add_event env (DeltaNeutralityFeeEvent (cd_fund_fees r) (cd_total_funds_before r)
            (cd_total_funds_after r) (cd_reason r) (cd_protocol_fees r)) c)"
  have "collect_delta_neutrality_fee_for_protocol D env (cd_pos_id r) (cd_protocol_fees r) (cd_price r)
      (c1\<lparr>delta_neutrality_fund := Some (cd_total_funds_after r)\<rparr>) = Inr c'"
    using assms by (simp add: charge_apply_def Let_def c1_def split: option.splits)
  moreover have "same_books c (c1\<lparr>delta_neutrality_fund := Some (cd_total_funds_after r)\<rparr>)"
    by (simp add: c1_def same_books_def split: option.split)
  ultimately show ?thesis
    using delta_neutrality_protocol_moves moves_same same_books_trading same_books_trans by blast
qed

end

section \<open>Closing\<close>

text \<open>The stores the life of a position leaves alone.\<close>

definition same_rest :: "Ctx \<Rightarrow> Ctx \<Rightarrow> bool" where
  "same_rest c c' \<longleftrightarrow> order_st c' = order_st c \<and> deferred_st c' = deferred_st c \<and> crank_st c' = crank_st c
     \<and> prices c' = prices c \<and> closing_all_positions c' = closing_all_positions c
     \<and> deferred_submessages c' = deferred_submessages c"

lemma same_rest_refl [simp]: "same_rest c c"
  by (simp add: same_rest_def)

lemma same_rest_trans: "same_rest a b \<Longrightarrow> same_rest b c \<Longrightarrow> same_rest a c"
  by (simp add: same_rest_def)

lemma same_books_rest: "same_books c c' \<Longrightarrow> same_rest c c'"
  by (simp add: same_books_def same_rest_def)

lemma same_but_rest: "same_but_positions c c' \<Longrightarrow> same_rest c c'"
  unfolding same_but_positions_def same_rest_def
  by (elim conjE, erule ssubst [of _ _ "\<lambda>x. order_st x = order_st c \<and> deferred_st x = deferred_st c
    \<and> crank_st x = crank_st c \<and> prices x = prices c \<and> closing_all_positions x = closing_all_positions c
    \<and> deferred_submessages x = deferred_submessages c"]) simp

lemma same_but_fields:
  assumes "same_but_positions c c'"
  shows "nft_st c' = nft_st c" "open_long_interest c' = open_long_interest c"
    "open_short_interest c' = open_short_interest c" "last_position_id (pos_st c') = last_position_id (pos_st c)"
proof -
  have e: "c' = c\<lparr>pos_st := pos_st c', total_funding_margin := total_funding_margin c'\<rparr>"
    using assms by (simp add: same_but_positions_def)
  show "nft_st c' = nft_st c" by (subst e) simp
  show "open_long_interest c' = open_long_interest c" by (subst e) simp
  show "open_short_interest c' = open_short_interest c" by (subst e) simp
  show "last_position_id (pos_st c') = last_position_id (pos_st c)"
    using assms by (simp add: same_but_positions_def)
qed

text \<open>The books without the position \<open>i\<close>.\<close>

definition without :: "PositionId \<Rightarrow> Ctx \<Rightarrow> Ctx \<Rightarrow> bool" where
  "without i c c' \<longleftrightarrow> books_kept c' \<and> same_rest c c'
     \<and> open_positions (pos_st c') = fmdrop i (open_positions (pos_st c))
     \<and> last_position_id (pos_st c') = last_position_id (pos_st c)"

lemma interest_sums:
  assumes "interest_tracked c" "open_at c i = Some p"
  shows "fmsum long_size (fmdrop i (open_positions (pos_st c))) + long_size p = open_long_interest c"
    "fmsum short_size (fmdrop i (open_positions (pos_st c))) + short_size p = open_short_interest c"
    "wf_signed (pos_notional_size p)" "open_long_interest c < dec_lim" "open_short_interest c < dec_lim"
  using assms fmsum_drop [of long_size i "open_positions (pos_st c)"]
    fmsum_drop [of short_size i "open_positions (pos_st c)"]
  by (auto simp: interest_tracked_def fmval_lookup)

context decimal256
begin

lemma adjusted_interest:
  assumes "open_long_interest c < dec_lim" "open_short_interest c < dec_lim" "wf_signed d"
    and "adjust_open_interest_new D env c d dir chk = Inr a"
    and "open_long_interest c1 = open_long_interest c" "open_short_interest c1 = open_short_interest c"
  shows "int (open_long_interest (adjust_open_interest_apply a c1))
      = int (open_long_interest c) + (if dir = LongNotional then num d else 0)"
    "int (open_short_interest (adjust_open_interest_apply a c1))
      = int (open_short_interest c) - (if dir = LongNotional then 0 else num d)"
    "open_long_interest (adjust_open_interest_apply a c1) < dec_lim"
    "open_short_interest (adjust_open_interest_apply a c1) < dec_lim"
  using adjust_interest_result [OF assms(1-4)] assms(1,2,5,6)
  by (cases dir; auto simp: adjust_open_interest_apply_def)+

lemma close_new_facts:
  assumes "close_position_new D env c0 ins lq = Inr e"
  shows "cp_id (cpe_closed_position e) = pos_id (ci_pos ins)"
    "cp_owner (cpe_closed_position e) = pos_owner (ci_pos ins)"
    "adjust_open_interest_new D env c0 (signed_neg (pos_notional_size (ci_pos ins))) (pos_direction (ci_pos ins)) False
      = Inr (cpe_open_interest e)"
    "cpe_liquifund_via_close_msg e = lq"
  using assms
  by (auto simp: close_position_new_def closed_position_record_def Let_def add_delta_neutrality_fee_def
      pos_direction_def)

lemma record_closed_books:
  assumes "record_closed_position D env cp f price c = Inr c'" "nft_indexed g (nft_st c)" "g (cp_id cp) = Some (cp_owner cp)"
  shows "nft_indexed (g(cp_id cp := None)) (nft_st c')" "same_rest c c'"
    "open_long_interest c' = open_long_interest c" "open_short_interest c' = open_short_interest c"
    "total_funding_margin c' = total_funding_margin c"
    "pos_st c' = (pos_st c)\<lparr>closed_positions := closed_positions (pos_st c'),
      closed_position_history := closed_position_history (pos_st c')\<rparr>"
proof -
  obtain c1 c2 where c1: "position_history_add_close D env cp f price c = Inr c1"
    and c2: "nft_burn env (cp_owner cp) (cp_id cp) c1 = Inr c2"
    and c': "c' = add_event env (PositionEvent (PositionCloseEvent cp))
       (upd_pos (\<lambda>s. s\<lparr>closed_position_history := fmupd (cp_owner cp, cp_close_time cp, cp_id cp) cp (closed_position_history s),
          closed_positions := fmupd (cp_id cp) cp (closed_positions s)\<rparr>) c2)"
    using assms(1) by (auto simp: record_closed_position_def)
  have s: "same_trading c c1" using history_close_moves [OF c1] moves_same by blast
  have n: "nft_indexed (g(cp_id cp := None)) (nft_st c2) \<and> same_books (c1\<lparr>nft_st := nft_st c2\<rparr>) c2"
    using nft_burn_indexed [where f = g, OF _ assms(3) c2] assms(2) s by (simp add: same_trading_def)
  show "nft_indexed (g(cp_id cp := None)) (nft_st c')" "same_rest c c'"
    "open_long_interest c' = open_long_interest c" "open_short_interest c' = open_short_interest c"
    "total_funding_margin c' = total_funding_margin c"
    "pos_st c' = (pos_st c)\<lparr>closed_positions := closed_positions (pos_st c'),
      closed_position_history := closed_position_history (pos_st c')\<rparr>"
    using n s by (simp_all add: c' upd_pos_def same_books_def same_trading_def same_rest_def)
qed

text \<open>The part of the books a change of the stores of closed positions leaves alone.\<close>

lemma indexed_closed:
  "pos_indexed (s\<lparr>closed_positions := x, closed_position_history := y\<rparr>) m = pos_indexed s m"
  by (simp add: pos_indexed_def)

lemma close_apply_books:
  assumes b: "books_kept c" and p0: "open_at c i = Some p0" and k: "keeps p0 (ci_pos ins)"
    and new: "close_position_new D env c0 ins lq = Inr e" and sb: "same_books c0 c"
    and ap: "close_position_apply D env e c = Inr c'"
  shows "without i c c'"
proof -
  note facts = close_new_facts [OF new]
  have ix: "indexed c" and nf: "nft_indexed (owner_at c) (nft_st c)" and it: "interest_tracked c" and ids: "positions_sound c"
    using b by (simp_all add: books_kept_def)
  have id: "cp_id (cpe_closed_position e) = i" and ow: "cp_owner (cpe_closed_position e) = pos_owner p0"
    using k indexed_id [OF ix p0] facts by (simp_all add: keeps_def)
  obtain c1 c2 where c1: "(case lq of Some l \<Rightarrow> map_res snd (position_liquifund_apply D env l c) | None \<Rightarrow> Inr c) = Inr c1"
    and c2: "charge_apply D env (cpe_dnf e) c1 = Inr c2"
    using ap by (auto simp: close_position_apply_def Let_def facts(4))
  obtain c4 c5 c6 c7 where
      c4: "liquidity_update_locked_apply D env (cpe_liquidity_update e) (adjust_open_interest_apply (cpe_open_interest e) c2) = Inr c4"
    and c5: "(case cpe_liquidity_unlock e of Some u \<Rightarrow> liquidity_unlock_apply D env u c4 | None \<Rightarrow> Inr c4) = Inr c5"
    and c6: "(case cpe_trader_collateral_to_send e of
        Some x \<Rightarrow> add_token_transfer_msg D (cp_owner (cpe_closed_position e)) x c5 | None \<Rightarrow> Inr c5) = Inr c6"
    and c7: "position_remove D i c6 = Inr c7"
    and rc: "record_closed_position D env (cpe_closed_position e) (cd_fee (cpe_dnf e)) (cpe_settlement_price e) c7 = Inr c'"
    using ap c1 c2 id by (auto simp: close_position_apply_def Let_def facts(4))
  have "same_books c c1"
    using c1 by (cases lq) (auto dest!: liquifund_apply_same)
  then have s2: "same_books c c2" using charge_apply_same [OF c2] same_books_trans by blast
  define c3 where "c3 = adjust_open_interest_apply (cpe_open_interest e) c2"
  have "same_books c3 c4" using c4 liquidity_restocks(3) restocks_same same_books_trading unfolding c3_def by blast
  moreover have "same_books c4 c5"
    using c5 by (cases "cpe_liquidity_unlock e") (auto intro: same_books_trading dest!: liquidity_restocks restocks_same)
  moreover have "same_books c5 c6"
    using c6 by (cases "cpe_trader_collateral_to_send e") (auto intro: same_books_trading dest!: transfer_moves moves_same)
  ultimately have s6: "same_books c3 c6" using same_books_trans by blast
  have c3: "pos_st c3 = pos_st c" "nft_st c3 = nft_st c" "total_funding_margin c3 = total_funding_margin c" "same_rest c c3"
    using s2 by (auto simp: c3_def adjust_open_interest_apply_def same_books_def same_rest_def split: AdjustOpenInterest.split)
  have c6': "pos_st c6 = pos_st c" "nft_st c6 = nft_st c" "total_funding_margin c6 = total_funding_margin c" "same_rest c c6"
    using c3 s6 same_rest_trans [OF c3(4) same_books_rest [OF s6]] by (simp_all add: same_books_def)
  have "indexed c6" using ix c6' by simp
  from position_remove_result [OF this c7] have r: "indexed c7" "same_but_positions c6 c7"
    "open_positions (pos_st c7) = fmdrop i (open_positions (pos_st c))" using c6' by auto
  note f7 = same_but_fields [OF r(2)]
  have rec: "nft_indexed ((owner_at c)(i := None)) (nft_st c')" "same_rest c7 c'"
      "open_long_interest c' = open_long_interest c7" "open_short_interest c' = open_short_interest c7"
      "total_funding_margin c' = total_funding_margin c7"
      "pos_st c' = (pos_st c7)\<lparr>closed_positions := closed_positions (pos_st c'),
        closed_position_history := closed_position_history (pos_st c')\<rparr>"
    using record_closed_books [OF rc, of "owner_at c"] nf p0
    by (simp_all add: id ow f7 c6' owner_at_def)
  have op: "open_positions (pos_st c') = fmdrop i (open_positions (pos_st c))"
    and li: "last_position_id (pos_st c') = last_position_id (pos_st c)"
    using f7(4) c6'(1) r(3) by (subst rec(6), simp)+
  have "pos_indexed (pos_st c') (total_funding_margin c')"
    unfolding rec(5) by (subst rec(6)) (simp add: indexed_closed r(1))
  moreover have "owner_at c' = (owner_at c)(i := None)"
    by (auto simp: fun_eq_iff owner_at_def op)
  moreover have "interest_tracked c'"
  proof -
    note sums = interest_sums [OF it p0]
    have dir: "pos_direction (ci_pos ins) = pos_direction p0" "pos_notional_size (ci_pos ins) = pos_notional_size p0"
      using keeps_direction [OF k] k by (simp_all add: keeps_def)
    have "adjust_open_interest_new D env c0 (signed_neg (pos_notional_size p0)) (pos_direction p0) False
        = Inr (cpe_open_interest e)" using facts(3) by (simp add: dir)
    note adj = adjusted_interest [OF _ _ _ this, of c2]
    have "open_long_interest c' = open_long_interest c3" "open_short_interest c' = open_short_interest c3"
      using rec(3,4) f7 s6 by (simp_all add: same_books_def)
    moreover have "num (pos_notional_size p0) = int (long_size p0) - int (short_size p0)"
      using size_num sums(3) by blast
    moreover have "pos_direction p0 = LongNotional \<and> short_size p0 = 0 \<or> pos_direction p0 = ShortNotional \<and> long_size p0 = 0"
      by (auto simp: short_size_def long_size_def split: DirectionToNotional.split)
    ultimately have "open_long_interest c' = fmsum long_size (fmdrop i (open_positions (pos_st c)))"
      "open_short_interest c' = fmsum short_size (fmdrop i (open_positions (pos_st c)))"
      "open_long_interest c' < dec_lim" "open_short_interest c' < dec_lim"
      using adj sums s2 sb by (auto simp: c3_def same_books_def)
    then show ?thesis using it by (simp add: interest_tracked_def op)
  qed
  moreover have "positions_sound c'" using ids by (simp add: positions_sound_def op li)
  ultimately have "books_kept c'" using rec(1) by (simp add: books_kept_def)
  moreover have "same_rest c c'"
    using c6'(4) same_but_rest [OF r(2)] rec(2) same_rest_trans by blast
  ultimately show ?thesis by (simp add: without_def op li)
qed

end

section \<open>Storing a position again\<close>

text \<open>The books with the position \<open>i\<close> in a new state, of the same owner.\<close>

definition replaced :: "PositionId \<Rightarrow> Ctx \<Rightarrow> Ctx \<Rightarrow> bool" where
  "replaced i c c' \<longleftrightarrow> books_kept c' \<and> same_rest c c' \<and> last_position_id (pos_st c') = last_position_id (pos_st c)
     \<and> (\<exists>p q. open_at c i = Some p \<and> pos_owner q = pos_owner p
          \<and> open_positions (pos_st c') = fmupd i q (open_positions (pos_st c)))"

text \<open>The position \<open>i\<close> was settled: it is still open, with the same owner, or closed.\<close>

definition settled :: "PositionId \<Rightarrow> Ctx \<Rightarrow> Ctx \<Rightarrow> bool" where
  "settled i c c' \<longleftrightarrow> replaced i c c' \<or> without i c c'"

lemma settled_books: "settled i c c' \<Longrightarrow> books_kept c' \<and> same_rest c c' \<and> last_position_id (pos_st c') = last_position_id (pos_st c)"
  by (auto simp: settled_def replaced_def without_def)

lemma replaced_trans: "replaced i a b \<Longrightarrow> replaced i b c \<Longrightarrow> replaced i a c"
  unfolding replaced_def by (auto intro: same_rest_trans)

lemma replaced_same:
  assumes "replaced i a b" "same_books b c"
  shows "replaced i a c"
  using assms books_same [OF assms(2)] same_rest_trans [OF _ same_books_rest [OF assms(2)], of a]
  unfolding replaced_def by (simp add: same_books_def)

text \<open>The open interest once the size of the position \<open>i\<close> is that of \<open>p\<close>.\<close>

definition interest_with :: "PositionId \<Rightarrow> Position \<Rightarrow> Ctx \<Rightarrow> bool" where
  "interest_with i p c \<longleftrightarrow>
     open_long_interest c = fmsum long_size (fmdrop i (open_positions (pos_st c))) + long_size p
   \<and> open_short_interest c = fmsum short_size (fmdrop i (open_positions (pos_st c))) + short_size p
   \<and> open_long_interest c < dec_lim \<and> open_short_interest c < dec_lim \<and> wf_signed (pos_notional_size p)
   \<and> (\<forall>j q. open_at c j = Some q \<longrightarrow> wf_signed (pos_notional_size q))"

lemma fmsum_replace: "fmsum f (fmupd i q m) = fmsum f (fmdrop i m) + f q"
  using fmsum_upd [of f i q m] fmsum_drop [of f i m] by simp

lemma interest_with_tracked:
  assumes "interest_with i p c" "keeps p q" "open_positions (pos_st c') = fmupd i q (open_positions (pos_st c))"
    "open_long_interest c' = open_long_interest c" "open_short_interest c' = open_short_interest c"
  shows "interest_tracked c'"
  using assms keeps_direction [OF assms(2)]
  by (auto simp: interest_tracked_def interest_with_def fmsum_replace keeps_def)

lemma tracked_interest_with:
  assumes "interest_tracked c" "open_at c i = Some p" "keeps p q"
  shows "interest_with i q c"
  using interest_sums [OF assms(1,2)] assms keeps_direction [OF assms(3)]
  unfolding interest_with_def by (auto simp: interest_tracked_def keeps_def)

context decimal256
begin

lemma recalculate_keeps: "recalculate_position D env p pp r = Inr q \<Longrightarrow> keeps p q"
  by (subst recalculate_result(1)) (auto simp: keeps_def)

lemma recalculate_covered: "recalculate_position D env p pp r = Inr q \<Longrightarrow> margin_covered q"
  by (drule recalculate_result(2)) (simp add: margin_covered_def Let_def)

lemma save_books:
  assumes ix: "indexed c" and nf: "nft_indexed (owner_at c) (nft_st c)" and ids: "positions_sound c"
    and p0: "open_at c i = Some p0" and p: "pos_id p = i" "pos_owner p = pos_owner p0"
    and iw: "interest_with i p c"
    and sv: "position_save D env p pp True recalc reason c = Inr (q, c')"
  shows "replaced i c c' \<and> open_at c' i = Some q \<and> keeps p q"
proof -
  have "True \<or> open_at c (pos_id p) = None" by simp
  note r = position_save_result [OF ix this sv]
  have k: "keeps p q" using r recalculate_keeps by blast
  obtain c1 where c1: "same_but_positions c c1" and c': "c' = add_event env (PositionEvent (PositionSaveEvent (pos_id p) reason)) c1"
    using r by blast
  have op: "open_positions (pos_st c') = fmupd i q (open_positions (pos_st c))" using r p by simp
  note f = same_but_fields [OF c1]
  have "owner_at c' = owner_at c"
    using p0 p k by (auto simp: fun_eq_iff owner_at_def op keeps_def)
  moreover have "interest_tracked c'"
    by (rule interest_with_tracked [OF iw k op]) (simp_all add: c' f)
  moreover have "i \<le> last_position_id (pos_st c)" using ids p0 by (auto simp: positions_sound_def)
  then have "positions_sound c'" using ids op r recalculate_covered by (auto simp: positions_sound_def c' f)
  ultimately have "books_kept c'" using r nf by (simp add: books_kept_def c' f)
  moreover have "same_rest c c'" using same_but_rest [OF c1] by (simp add: c' same_rest_def)
  moreover have "last_position_id (pos_st c') = last_position_id (pos_st c)" by (simp add: c' f)
  ultimately show ?thesis using p0 p k op by (auto simp: replaced_def keeps_def)
qed

lemma save_same_size:
  assumes b: "books_kept c" and p0: "open_at c i = Some p0" and k: "keeps p0 p"
    and sv: "position_save D env p pp True recalc reason c = Inr (q, c')"
  shows "replaced i c c' \<and> open_at c' i = Some q \<and> keeps p q"
  using save_books [OF _ _ _ p0 _ _ _ sv] b k indexed_id [of c i p0] p0 tracked_interest_with [of c i p0 p]
  by (simp add: books_kept_def keeps_def)

section \<open>Liquifunding and liquidation\<close>

lemma liquifund_store_settled:
  assumes b: "books_kept c" and p: "open_at c i = Some p"
    and st: "position_liquifund_store D env p s e ch reason c = Inr c'"
  shows "settled i c c'"
proof -
  obtain l m c1 where l: "position_liquifund_new D env c p s e ch = Inr l"
    and c1: "position_liquifund_apply D env l c = Inr (m, c1)"
    and k: "(case m of MaybeOpen p \<Rightarrow> and_then (spot_price env c1 e) (\<lambda>price_point.
         and_then (position_save D env p price_point True False reason c1) (\<lambda>(_, ctx). Inr ctx))
     | MaybeClose instructions \<Rightarrow>
         and_then (close_position_new D env c1 instructions None) (\<lambda>e. close_position_apply D env e c1)) = Inr c'"
    using st by (auto simp: position_liquifund_store_def)
  have m: "m = plf_position l" and s1: "same_books c c1" using liquifund_apply_same [OF c1] by auto
  have b1: "books_kept c1" and p1: "open_at c1 i = Some p"
    using b p books_same [OF s1] s1 by (auto simp: same_books_def)
  have kp: "keeps p (maybe_closed_position m)" using liquifund_keeps [OF l] m by simp
  have "settled i c1 c'"
  proof (cases m)
    case (MaybeOpen q)
    then obtain pp r where "position_save D env q pp True False reason c1 = Inr (r, c')" using k by auto
    from save_same_size [OF b1 p1 _ this] kp MaybeOpen show ?thesis by (simp add: settled_def)
  next
    case (MaybeClose ins)
    then obtain x where x: "close_position_new D env c1 ins None = Inr x" "close_position_apply D env x c1 = Inr c'"
      using k by auto
    from close_apply_books [OF b1 p1 _ x(1) _ x(2)] kp MaybeClose show ?thesis by (simp add: settled_def)
  qed
  moreover have "same_rest c c1" using same_books_rest [OF s1] .
  ultimately show ?thesis
    using s1 p1 p unfolding settled_def replaced_def without_def same_books_def
    by (auto intro: same_rest_trans)
qed

lemma liquidation_closes:
  assumes b: "books_kept c" and st: "crank_liquidation D env i reason price c = Inr c'"
  shows "without i c c'"
proof -
  obtain p l m c1 where p: "open_at c i = Some p"
    and l: "position_liquifund_new D env c p (pos_liquifunded_at p) (pp_timestamp price) True = Inr l"
    and c1: "position_liquifund_apply D env l c = Inr (m, c1)"
    using st by (auto simp: crank_liquidation_def)
  define ins where "ins = (case m of
           MaybeOpen p \<Rightarrow> \<lparr>ci_pos = p, ci_capped_exposure = signed_zero, ci_additional_losses = 0,
             ci_settlement_price = price, ci_reason = CloseLiquidated reason,
             ci_closed_during_liquifunding = False\<rparr>
         | MaybeClose i \<Rightarrow> i)"
  obtain e where e: "close_position_new D env c1 ins None = Inr e" "close_position_apply D env e c1 = Inr c'"
    using st p l c1 by (auto simp: crank_liquidation_def Let_def ins_def)
  have m: "m = plf_position l" and s1: "same_books c c1" using liquifund_apply_same [OF c1] by auto
  have b1: "books_kept c1" and p1: "open_at c1 i = Some p"
    using b p books_same [OF s1] s1 by (auto simp: same_books_def)
  have "keeps p (ci_pos ins)" using liquifund_keeps [OF l] by (cases "plf_position l") (simp_all add: ins_def m)
  from close_apply_books [OF b1 p1 this e(1) _ e(2)] have "without i c1 c'" by simp
  with s1 same_books_rest [OF s1] show ?thesis
    unfolding without_def same_books_def by (auto intro: same_rest_trans)
qed

lemma close_via_msg_closes:
  assumes b: "books_kept c" and p: "open_at c i = Some p"
    and n: "close_position_via_msg D env c p price = Inr e" and a: "close_position_apply D env e c = Inr c'"
  shows "without i c c'"
proof -
  obtain l ins where l: "position_liquifund_new D env c p (pos_liquifunded_at p) (pp_timestamp price) False = Inr l"
    and ins: "ins = (case plf_position l of
          MaybeOpen p \<Rightarrow> \<lparr>ci_pos = p, ci_capped_exposure = signed_zero, ci_additional_losses = 0,
            ci_settlement_price = price, ci_reason = CloseDirect, ci_closed_during_liquifunding = False\<rparr>
        | MaybeClose instructions \<Rightarrow> instructions)"
    and e: "close_position_new D env c ins (Some l) = Inr e"
    using n by (auto simp: close_position_via_msg_def)
  have "keeps p (ci_pos ins)" using liquifund_keeps [OF l] by (cases "plf_position l") (auto simp: ins)
  from close_apply_books [OF b p this e _ a] show ?thesis by simp
qed

end

end
