(* ===== verification/TraderInvariant.thy ===== *)
theory TraderInvariant
  imports PositionInvariant
begin

text \<open>
  The books under what a trader can do: opening a position, changing its collateral, size, leverage,
  maximal gains and triggers, and transferring its token. An opening adds the position under a fresh
  identifier, an update keeps the owner, a transfer changes nothing else.
\<close>

section \<open>Opening\<close>

text \<open>The books with a new position \<open>i\<close> of \<open>owner\<close>.\<close>

definition opened :: "PositionId \<Rightarrow> Addr \<Rightarrow> Ctx \<Rightarrow> Ctx \<Rightarrow> bool" where
  "opened i owner c c' \<longleftrightarrow> books_kept c' \<and> same_rest c c'
     \<and> i = last_position_id (pos_st c) + 1 \<and> last_position_id (pos_st c') = i \<and> open_at c i = None
     \<and> (\<exists>p. pos_owner p = owner \<and> open_positions (pos_st c') = fmupd i p (open_positions (pos_st c)))"

lemma next_id_free: "positions_sound c \<Longrightarrow> open_at c (last_position_id (pos_st c) + 1) = None"
  by (cases "open_at c (last_position_id (pos_st c) + 1)") (fastforce simp: positions_sound_def)+

lemma indexed_last: "pos_indexed (s\<lparr>last_position_id := x\<rparr>) m = pos_indexed s m"
  by (simp add: pos_indexed_def)

lemma size_sides:
  "wf_signed (pos_notional_size p) \<Longrightarrow>
     int (long_size p) = (if pos_direction p = LongNotional then num (pos_notional_size p) else 0)
   \<and> int (short_size p) = (if pos_direction p = LongNotional then 0 else - num (pos_notional_size p))"
  by (auto simp: long_size_def short_size_def pos_direction_def is_negative_def num_def)

context decimal256
begin

lemma new_size_wf: "signed_map (collateral_to_notional D pp) x = Inr y \<Longrightarrow> wf_signed y"
  by (auto simp: signed_map_Inr collateral_to_notional_Inr)

lemma charge_dnf_keeps:
  "charge_delta_neutrality_fee D env c p n price reason = Inr (q, r) \<Longrightarrow> keeps p q"
  by (auto simp: charge_delta_neutrality_fee_def add_delta_neutrality_fee_def keeps_def)

lemma charge_and_lock_facts:
  assumes "charge_and_lock D env c p s v price = Inr e"
  shows "keeps p (ope_pos e)"
    "adjust_open_interest_new D env c (pos_notional_size (ope_pos e)) (pos_direction (ope_pos e)) True
      = Inr (ope_open_interest e)"
proof -
  obtain fee active q dnf m o' where q: "charge_delta_neutrality_fee D env c
        (p\<lparr>pos_trading_fee := fee, pos_active_collateral := active\<rparr>) (pos_notional_size p) price DnfPositionOpen = Inr (q, dnf)"
    and a: "adjust_open_interest_new D env c (pos_notional_size q) (pos_direction q) True = Inr o'"
    and e: "ope_pos e = q\<lparr>pos_liquidation_margin := m\<rparr>" "ope_open_interest e = o'"
    using assms by (auto simp: charge_and_lock_def Let_def pos_direction_def)
  from charge_dnf_keeps [OF q] show "keeps p (ope_pos e)" by (simp add: e keeps_def)
  from a show "adjust_open_interest_new D env c (pos_notional_size (ope_pos e)) (pos_direction (ope_pos e)) True
      = Inr (ope_open_interest e)" by (simp add: e pos_direction_def)
qed

lemma initial_position_facts:
  "initial_position D env params price i n cc = Inr p \<Longrightarrow>
     pos_id p = i \<and> pos_owner p = op_owner params \<and> pos_notional_size p = n"
  by (auto simp: initial_position_def Let_def)

lemma open_new_facts:
  assumes "open_position_new D env c params price = Inr e"
  shows "pos_id (ope_pos e) = last_position_id (pos_st c) + 1" "pos_owner (ope_pos e) = op_owner params"
    "wf_signed (pos_notional_size (ope_pos e))"
    "adjust_open_interest_new D env c (pos_notional_size (ope_pos e)) (pos_direction (ope_pos e)) True
      = Inr (ope_open_interest e)"
proof -
  obtain sc n cc p q v where n: "signed_map (collateral_to_notional D price) sc = Inr n"
    and p: "initial_position D env params price (last_position_id (pos_st c) + 1) n cc = Inr p"
    and q: "set_next_liquifunding env p (pp_timestamp price) = Inr q"
    and e: "charge_and_lock D env c q sc v price = Inr e"
    using assms by (auto simp: open_position_new_def Let_def u64_add_Inr)
  note k = keeps_trans [OF set_next_keeps [OF q] charge_and_lock_facts(1) [OF e]]
  note f = initial_position_facts [OF p]
  show "pos_id (ope_pos e) = last_position_id (pos_st c) + 1" "pos_owner (ope_pos e) = op_owner params"
    "wf_signed (pos_notional_size (ope_pos e))"
    using k f new_size_wf [OF n] by (simp_all add: keeps_def)
  show "adjust_open_interest_new D env c (pos_notional_size (ope_pos e)) (pos_direction (ope_pos e)) True
      = Inr (ope_open_interest e)" by (rule charge_and_lock_facts(2) [OF e])
qed

lemma open_apply_books:
  assumes b: "books_kept c" and new: "open_position_new D env c params price = Inr e"
    and ap: "open_position_apply D env e reason c = Inr (i, c')"
  shows "opened i (op_owner params) c c'"
proof -
  note facts = open_new_facts [OF new]
  have ix: "indexed c" and nf: "nft_indexed (owner_at c) (nft_st c)" and it: "interest_tracked c" and ids: "positions_sound c"
    using b by (simp_all add: books_kept_def)
  obtain p where p: "p = ope_pos e" by simp
  obtain c1 c3 c4 c5 q c6 where
      c1: "trade_history_add_volume D env (pos_owner p) (ope_trade_volume_usd e) c = Inr c1"
    and c3: "collect_trading_fee D env (pos_id p) (cu_collateral (pos_trading_fee p)) (ope_price_point e) FeeTrading
       (pos_owner p) (adjust_open_interest_apply (ope_open_interest e) c1) = Inr c3"
    and c4: "charge_apply D env (ope_delta_neutrality_fee e) c3 = Inr c4"
    and c5: "liquidity_lock_apply D env (ope_liquidity e) c4 = Inr c5"
    and c6: "position_save D env p (ope_price_point e) False True reason c5 = Inr (q, c6)"
    using ap by (auto simp: open_position_apply_def Let_def p)
  obtain c7 c9 at where c7: "nft_mint env (pos_owner q) (pos_id q) c6 = Inr c7"
    and c9: "position_history_add_open_update_action D env q ActionOpen (Some (cu_collateral (pos_trading_fee q)))
       (Some (scu_collateral (pos_delta_neutrality_fee q))) (scu_collateral (pos_deposit_collateral q))
       (ope_price_point e) (upd_pos (\<lambda>s. s\<lparr>last_position_id := pos_id q\<rparr>) c7) = Inr c9"
    and c': "c' = add_event env (PositionEvent (PositionOpenEvent at (pos_created_at q) (pp_timestamp (ope_price_point e)))) c9"
    and i: "i = pos_id q"
    using ap c1 c3 c4 c5 c6 by (auto simp: open_position_apply_def Let_def p)
  define c2 where "c2 = adjust_open_interest_apply (ope_open_interest e) c1"
  have s1: "same_books c c1" by (rule moves_books [OF history_moves(4) [OF c1]])
  have s5: "same_books c2 c5"
    unfolding c2_def using moves_books [OF trading_fee_moves [OF c3]] charge_apply_same [OF c4]
      restocks_books [OF liquidity_restocks(1) [OF c5]] by (blast intro: same_books_trans)
  have c2: "pos_st c2 = pos_st c" "nft_st c2 = nft_st c" "total_funding_margin c2 = total_funding_margin c" "same_rest c c2"
    using s1 by (auto simp: c2_def adjust_open_interest_apply_def same_books_def same_rest_def split: AdjustOpenInterest.split)
  have c5': "pos_st c5 = pos_st c" "nft_st c5 = nft_st c" "total_funding_margin c5 = total_funding_margin c" "same_rest c c5"
    using c2 s5 same_rest_trans [OF c2(4) same_books_rest [OF s5]] by (simp_all add: same_books_def)
  have idp: "pos_id p = last_position_id (pos_st c) + 1" using facts by (simp add: p)
  have free: "open_at c (pos_id p) = None" using next_id_free [OF ids] idp by simp
  have "indexed c5" "False \<or> open_at c5 (pos_id p) = None" using ix c5' free by simp_all
  note r = position_save_result [OF this c6]
  have k: "keeps p q" using r recalculate_keeps by blast
  have idq: "i = pos_id p" using k i by (simp add: keeps_def)
  obtain x where x: "same_but_positions c5 x" and c6': "c6 = add_event env (PositionEvent (PositionSaveEvent (pos_id p) reason)) x"
    using r by blast
  note f = same_but_fields [OF x]
  have op6: "open_positions (pos_st c6) = fmupd i q (open_positions (pos_st c))" using r c5' idq by simp
  have "nft_indexed ((owner_at c)(i := Some (pos_owner q))) (nft_st c7)" and s7: "same_books (c6\<lparr>nft_st := nft_st c7\<rparr>) c7"
    using nft_mint_indexed [where f = "owner_at c", OF _ _ c7] nf free i idq c5' f
    by (simp_all add: c6' owner_at_def)
  moreover have s9: "same_books (upd_pos (\<lambda>s. s\<lparr>last_position_id := pos_id q\<rparr>) c7) c'"
    using moves_books [OF history_moves(2) [OF c9]] by (simp add: c')
  moreover have ps: "pos_st c' = (pos_st c6)\<lparr>last_position_id := i\<rparr>" "total_funding_margin c' = total_funding_margin c6"
      "open_long_interest c' = open_long_interest c2" "open_short_interest c' = open_short_interest c2" "nft_st c' = nft_st c7"
    using s9 s7 f s5 i by (simp_all add: same_books_def c6' upd_pos_def)
  moreover have op: "open_positions (pos_st c') = fmupd i q (open_positions (pos_st c))" using op6 by (simp add: ps)
  moreover have "owner_at c' = (owner_at c)(i := Some (pos_owner q))"
    by (auto simp: fun_eq_iff owner_at_def op)
  ultimately have n': "nft_indexed (owner_at c') (nft_st c')" by simp
  have "pos_indexed (pos_st c') (total_funding_margin c')"
    using r unfolding ps by (simp only: indexed_last)
  moreover have "interest_tracked c'"
  proof -
    have "int (open_long_interest c') = int (open_long_interest c) + (if pos_direction p = LongNotional then num (pos_notional_size p) else 0)"
      "int (open_short_interest c') = int (open_short_interest c) - (if pos_direction p = LongNotional then 0 else num (pos_notional_size p))"
      "open_long_interest c' < dec_lim" "open_short_interest c' < dec_lim"
      using adjusted_interest [OF _ _ facts(3,4), of c1] it s1
      unfolding ps c2_def by (simp_all add: interest_tracked_def same_books_def p)
    moreover have "fmsum f (fmdrop i (open_positions (pos_st c))) = fmsum f (open_positions (pos_st c))" for f :: "Position \<Rightarrow> nat"
      using free idq fmsum_drop [of f i "open_positions (pos_st c)"] by (simp add: fmval_def)
    moreover have "wf_signed (pos_notional_size p)" using facts(3) p by simp
    moreover note it [unfolded interest_tracked_def]
    ultimately have "interest_with i p (c'\<lparr>pos_st := pos_st c\<rparr>)"
      using size_sides [of p] unfolding interest_with_def
      by (cases "pos_direction p") simp_all
    then show ?thesis by (rule interest_with_tracked [OF _ k]) (simp_all add: op)
  qed
  moreover have "margin_covered q" using r recalculate_covered by blast
  then have "positions_sound c'" using ids idp idq ps(1) op
    by (auto simp: positions_sound_def op intro: le_SucI split: if_splits)
  ultimately have "books_kept c'" using n' by (simp add: books_kept_def)
  moreover have "same_rest c c'"
    using c5'(4) same_but_rest [OF x] s7 s9 by (simp add: same_rest_def same_books_def c6' upd_pos_def)
  ultimately show ?thesis
    using idp idq free k facts(2) op by (auto simp: opened_def ps(1) keeps_def p)
qed

end

section \<open>Updates\<close>

lemma direction_base_inject: "direction_into_base a mt = direction_into_base b mt \<Longrightarrow> a = b"
  by (cases a; cases b; cases mt) (simp_all add: direction_into_base_def)

lemma same_direction:
  assumes "position_validate_leverage_data D env q price (Some p) = Inr u"
  shows "pos_direction q = pos_direction p"
proof -
  have "direction_into_base (pos_direction p) (mid_market_type (env_market_id env))
      = direction_into_base (pos_direction q) (mid_market_type (env_market_id env))"
    using assms unfolding position_validate_leverage_data_def Let_def by auto
  then show ?thesis using direction_base_inject by metis
qed

text \<open>The two updates of the size: the position has a new well-formed size on its old side, and the open
  interest moves by the difference.\<close>

definition resized :: "dec256_api \<Rightarrow> Env \<Rightarrow> Ctx \<Rightarrow> Position \<Rightarrow> UpdatePositionSizeExec \<Rightarrow> bool" where
  "resized D env c p u \<longleftrightarrow> pos_id (us_pos u) = pos_id p \<and> pos_owner (us_pos u) = pos_owner p
     \<and> wf_signed (pos_notional_size (us_pos u)) \<and> pos_direction (us_pos u) = pos_direction p
     \<and> (\<exists>diff. signed_checked_sub D (pos_notional_size (us_pos u)) (pos_notional_size p) = Inr diff
         \<and> adjust_open_interest_new D env c diff (pos_direction p) True = Inr (us_open_interest u))"

lemma replaced_before: "same_books a b \<Longrightarrow> replaced i b c \<Longrightarrow> replaced i a c"
  unfolding replaced_def same_books_def same_rest_def by auto

context decimal256
begin

lemma emit_books: "update_event_emit D env e p price c = Inr c' \<Longrightarrow> same_books c c'"
  unfolding update_event_emit_def by (drule history_moves(2) [THEN moves_books]) simp

lemma refund_books: "refund D a r c = Inr c' \<Longrightarrow> same_books c c'"
  by (cases r) (auto simp: refund_def dest: transfer_moves [THEN moves_books])

lemma liquidity_update_books: "liquidity_update_apply D env u c = Inr c' \<Longrightarrow> same_books c c'"
  by (cases u rule: option.exhaust; simp add: liquidity_update_apply_def split: LiquidityUpdate.splits)
    (auto dest: liquidity_restocks [THEN restocks_books])

lemma take_fee_keeps: "take_trading_fee D p fee price = Inr q \<Longrightarrow> keeps p q"
  by (auto simp: take_trading_fee_def keeps_def)

lemma add_collateral_keeps: "add_collateral D p x price = Inr q \<Longrightarrow> keeps p q"
  by (auto simp: add_collateral_def keeps_def)

lemma update_collateral_books:
  assumes b: "books_kept c" and p: "open_at c i = Some p"
    and new: "update_collateral_new D env p x price = Inr u" and ap: "update_collateral_apply D env u c = Inr c'"
  shows "replaced i c c'"
proof -
  have k: "keeps p (uc_pos u)"
    using new by (auto simp: update_collateral_new_def dest: add_collateral_keeps)
  obtain c1 c2 q c3 where c1: "trade_history_add_volume D env (pos_owner (uc_pos u)) (uc_trade_volume u) c = Inr c1"
    and c2: "update_event_emit D env (uc_event u) (uc_pos u) (uc_price_point u) c1 = Inr c2"
    and c3: "position_save D env (uc_pos u) (uc_price_point u) True True SaveUpdate c2 = Inr (q, c3)"
    and c': "refund D (pos_owner q) (uc_user_refund u) c3 = Inr c'"
    using ap by (auto simp: update_collateral_apply_def)
  have s: "same_books c c2"
    using same_books_trans [OF moves_books [OF history_moves(4) [OF c1]] emit_books [OF c2]] .
  have "books_kept c2" "open_at c2 i = Some p" using b p books_same [OF s] s by (simp_all add: same_books_def)
  from save_same_size [OF this k c3] have "replaced i c2 c3" by simp
  then show ?thesis using replaced_before [OF s] replaced_same refund_books [OF c'] by blast
qed

lemma charge_update_facts:
  assumes "charge_update D env c p0 p a b d v r price = Inr u"
  shows "keeps p (us_pos u)"
    "\<exists>diff. signed_checked_sub D (pos_notional_size p) (pos_notional_size p0) = Inr diff
      \<and> adjust_open_interest_new D env c diff (pos_direction p) True = Inr (us_open_interest u)"
proof -
  obtain fee q diff r dnf oi where q: "take_trading_fee D p fee price = Inr q"
    and diff: "signed_checked_sub D (pos_notional_size q) (pos_notional_size p0) = Inr diff"
    and r: "charge_delta_neutrality_fee D env c q diff price DnfPositionUpdate = Inr (r, dnf)"
    and oi: "adjust_open_interest_new D env c diff (pos_direction r) True = Inr oi"
    and u: "us_pos u = r" "us_open_interest u = oi"
    using assms by (auto simp: charge_update_def)
  have k: "keeps p q" "keeps p r"
    using take_fee_keeps [OF q] charge_dnf_keeps [OF r] keeps_trans by blast+
  then show "keeps p (us_pos u)" by (simp add: u)
  show "\<exists>diff. signed_checked_sub D (pos_notional_size p) (pos_notional_size p0) = Inr diff
      \<and> adjust_open_interest_new D env c diff (pos_direction p) True = Inr (us_open_interest u)"
    using diff oi k keeps_direction [OF k(2)] by (auto simp: keeps_def u)
qed

lemma resized_by:
  assumes q: "q = p\<lparr>pos_active_collateral := x, pos_deposit_collateral := y, pos_notional_size := n,
      pos_counter_collateral := z\<rparr>" and n: "wf_signed n"
    and v: "position_validate_leverage_data D env q price (Some p) = Inr w"
    and u: "charge_update D env c p q a b d vo r price = Inr u"
  shows "resized D env c p u"
  using charge_update_facts [OF u] same_direction [OF v] n keeps_direction [of q "us_pos u"]
  by (auto simp: resized_def keeps_def q)

lemma update_size_resized:
  assumes "update_size_new D env c p x price = Inr u"
  shows "resized D env c p u"
proof -
  obtain q m n z a b d vo r w where q: "add_collateral D p x price = Inr q"
    and n: "signed_map (collateral_to_notional D price) m = Inr n"
    and v: "position_validate_leverage_data D env (q\<lparr>pos_notional_size := n, pos_counter_collateral := z\<rparr>) price (Some p) = Inr w"
    and u: "charge_update D env c p (q\<lparr>pos_notional_size := n, pos_counter_collateral := z\<rparr>) a b d vo r price = Inr u"
    using assms unfolding update_size_new_def Let_def and_then_eq_Inr by blast
  obtain xa ya where "q = p\<lparr>pos_active_collateral := xa, pos_deposit_collateral := ya\<rparr>"
    using q by (auto simp: add_collateral_def)
  from resized_by [OF _ new_size_wf [OF n] v u, where x = xa and y = ya and z = z] this show ?thesis by simp
qed

lemma update_leverage_resized:
  assumes n: "wf_signed n" and new: "update_leverage_new D env c p n price = Inr u"
  shows "resized D env c p u"
proof -
  obtain z a b d vo w where
      v: "position_validate_leverage_data D env (p\<lparr>pos_notional_size := n, pos_counter_collateral := z\<rparr>) price (Some p) = Inr w"
    and u: "charge_update D env c p (p\<lparr>pos_notional_size := n, pos_counter_collateral := z\<rparr>) a b d vo None price = Inr u"
    using new unfolding update_leverage_new_def Let_def and_then_eq_Inr by blast
  from resized_by [OF _ n v u, where x = "pos_active_collateral p" and y = "pos_deposit_collateral p" and z = z] show ?thesis by simp
qed

lemma update_size_books:
  assumes b: "books_kept c" and p: "open_at c i = Some p" and rz: "resized D env c p u"
    and ap: "update_size_apply D env u c = Inr c'"
  shows "replaced i c c'"
proof -
  have ix: "indexed c" and nf: "nft_indexed (owner_at c) (nft_st c)" and it: "interest_tracked c" and ids: "positions_sound c"
    using b by (simp_all add: books_kept_def)
  obtain c1 c2 q c3 c4 c5 c6 c7 where
      c1: "trade_history_add_volume D env (pos_owner (us_pos u)) (us_trade_volume u) c = Inr c1"
    and c2: "charge_apply D env (us_dnf u) c1 = Inr c2"
    and c3: "position_save D env (us_pos u) (us_price_point u) True True SaveUpdate
      (adjust_open_interest_apply (us_open_interest u) c2) = Inr (q, c3)"
    and c4: "add_delta_neutrality_ratio_event D env (liquidity_stats c3) (us_price_point u) c3 = Inr c4"
    and c5: "liquidity_update_apply D env (us_liquidity_update u) c4 = Inr c5"
    and c6: "collect_trading_fee D env (pos_id q) (us_trading_fee_delta u) (us_price_point u) FeeTrading
       (pos_owner q) c5 = Inr c6"
    and c7: "update_event_emit D env (us_event u) q (us_price_point u) c6 = Inr c7"
    and c': "refund D (pos_owner q) (us_user_refund u) c7 = Inr c'"
    using ap by (auto simp: update_size_apply_def Let_def)
  define c2' where "c2' = adjust_open_interest_apply (us_open_interest u) c2"
  have s2: "same_books c c2"
    using same_books_trans [OF moves_books [OF history_moves(4) [OF c1]] charge_apply_same [OF c2]] .
  have e: "pos_st c2' = pos_st c" "nft_st c2' = nft_st c" "total_funding_margin c2' = total_funding_margin c" "same_rest c c2'"
    using s2 by (auto simp: c2'_def adjust_open_interest_apply_def same_books_def same_rest_def split: AdjustOpenInterest.split)
  obtain diff where diff: "signed_checked_sub D (pos_notional_size (us_pos u)) (pos_notional_size p) = Inr diff"
    and oi: "adjust_open_interest_new D env c diff (pos_direction p) True = Inr (us_open_interest u)"
    and rf: "pos_id (us_pos u) = pos_id p" "pos_owner (us_pos u) = pos_owner p"
      "wf_signed (pos_notional_size (us_pos u))" "pos_direction (us_pos u) = pos_direction p"
    using rz by (auto simp: resized_def)
  note sums = interest_sums [OF it p]
  have d: "wf_signed diff" "num diff = num (pos_notional_size (us_pos u)) - num (pos_notional_size p)"
    using diff rf(3) sums(3) by (auto simp: signed_sub_Inr)
  have iw: "interest_with i (us_pos u) c2'"
  proof -
    note adj = adjusted_interest [OF sums(4,5) d(1) oi, of c2, folded c2'_def]
    have c2i: "open_long_interest c2 = open_long_interest c" "open_short_interest c2 = open_short_interest c"
      using s2 by (simp_all add: same_books_def)
    show ?thesis
      using adj [OF c2i] sums(1,2) size_sides [OF sums(3)] size_sides [OF rf(3)] rf(3,4) d(2) it
      unfolding interest_with_def e interest_tracked_def by (cases "pos_direction p") simp_all
  qed
  have "owner_at c2' = owner_at c" by (simp add: owner_at_def fun_eq_iff e)
  moreover have "positions_sound c2'" using ids by (simp add: positions_sound_def e)
  ultimately have "replaced i c2' c3"
    using save_books [OF _ _ _ _ _ _ iw c3 [folded c2'_def]] ix nf p rf indexed_id [OF ix p] by (simp add: e)
  then have "replaced i c c3" using e(1,4) unfolding replaced_def by (auto intro: same_rest_trans)
  moreover have "same_books c3 c'"
    using moves_books [OF ratio_event_moves [OF c4]] liquidity_update_books [OF c5]
      moves_books [OF trading_fee_moves [OF c6]] emit_books [OF c7] refund_books [OF c']
    by (blast intro: same_books_trans)
  ultimately show ?thesis by (rule replaced_same)
qed

lemma counter_update_keeps:
  "charge_counter_update D env c p z price = Inr u \<Longrightarrow> keeps p (um_pos u)"
  by (auto simp: charge_counter_update_def Let_def keeps_def dest!: take_fee_keeps)

lemma max_gains_keeps:
  "update_max_gains_new D env c p g price = Inr u \<Longrightarrow> keeps p (um_pos u)"
  by (auto simp: update_max_gains_new_def dest: counter_update_keeps)

lemma take_profit_keeps:
  "update_take_profit_new D env c p t price = Inr u \<Longrightarrow> keeps p (um_pos u)"
  by (auto simp: update_take_profit_new_def Let_def keeps_def dest!: counter_update_keeps)

lemma update_max_gains_books:
  assumes b: "books_kept c" and p: "open_at c i = Some p" and k: "keeps p (um_pos u)"
    and ap: "update_max_gains_apply D env u c = Inr c'"
  shows "replaced i c c'"
proof -
  obtain q c1 c2 c3 where c1: "position_save D env (um_pos u) (um_price_point u) True True SaveUpdate c = Inr (q, c1)"
    and c2: "liquidity_update_apply D env (um_liquidity_update u) c1 = Inr c2"
    and c3: "collect_trading_fee D env (pos_id q) (um_trading_fee_delta u) (um_price_point u) FeeTrading
       (pos_owner q) c2 = Inr c3"
    and c': "update_event_emit D env (um_event u) q (um_price_point u) c3 = Inr c'"
    using ap by (auto simp: update_max_gains_apply_def)
  have "same_books c1 c'"
    using liquidity_update_books [OF c2] moves_books [OF trading_fee_moves [OF c3]] emit_books [OF c']
    by (blast intro: same_books_trans)
  with save_same_size [OF b p k c1] show ?thesis by (blast intro: replaced_same)
qed

lemma trigger_books:
  assumes b: "books_kept c" and p: "open_at c i = Some p" and k: "keeps p (to_pos t)"
    and ap: "trigger_order_apply D env t c = Inr c'"
  shows "replaced i c c'"
proof -
  obtain q where "position_save D env (to_pos t) (to_price_point t) True False SaveUpdate c = Inr (q, c')"
    using ap by (auto simp: trigger_order_apply_def)
  from save_same_size [OF b p k this] show ?thesis by simp
qed

lemma trigger_new_keeps:
  "trigger_order_new D env c i sl tp price = Inr t \<Longrightarrow> \<exists>p. open_at c i = Some p \<and> keeps p (to_pos t)"
  "update_stop_loss_new D env c i r price = Inr t \<Longrightarrow> \<exists>p. open_at c i = Some p \<and> keeps p (to_pos t)"
  by (auto simp: trigger_order_new_def update_stop_loss_new_def Let_def keeps_def)

section \<open>Positions stored without a recalculation\<close>

text \<open>Charging a crank fee and transferring a token: the indexes read nothing that changes.\<close>

lemma save_no_recalc_fields:
  "nft_st (position_save_no_recalc p c) = nft_st c" "same_rest c (position_save_no_recalc p c)"
  "open_positions (pos_st (position_save_no_recalc p c)) = fmupd (pos_id p) p (open_positions (pos_st c))"
  "last_position_id (pos_st (position_save_no_recalc p c)) = last_position_id (pos_st c)"
  "open_long_interest (position_save_no_recalc p c) = open_long_interest c"
  "open_short_interest (position_save_no_recalc p c) = open_short_interest c"
  by (simp_all add: position_save_no_recalc_def upd_pos_def same_rest_def)

lemma no_recalc_parts:
  assumes b: "books_kept c" and p: "open_at c i = Some p" and same: "same_index p q"
    and size: "pos_notional_size q = pos_notional_size p"
  shows "indexed (position_save_no_recalc q c)" "interest_tracked (position_save_no_recalc q c)"
    "positions_sound (position_save_no_recalc q c)" "pos_id q = i"
    "owner_at (position_save_no_recalc q c) = (owner_at c)(i := Some (pos_owner q))"
proof -
  have ix: "indexed c" and it: "interest_tracked c" and ids: "positions_sound c" using b by (simp_all add: books_kept_def)
  show i: "pos_id q = i" using same indexed_id [OF ix p] by (simp add: same_index_def)
  show "indexed (position_save_no_recalc q c)" by (rule save_no_recalc_indexed [OF ix p same])
  have "interest_with i (q\<lparr>pos_owner := pos_owner p\<rparr>) c"
    by (rule tracked_interest_with [OF it p]) (use i indexed_id [OF ix p] size in \<open>simp add: keeps_def\<close>)
  then have "interest_with i q c" by (simp add: interest_with_def long_size_def short_size_def pos_direction_def)
  then show "interest_tracked (position_save_no_recalc q c)"
    by (rule interest_with_tracked [OF _ keeps_refl]) (simp_all add: save_no_recalc_fields i)
  have "margin_covered q" using same ids p by (simp add: same_index_def margin_covered_def positions_sound_def)
  then show "positions_sound (position_save_no_recalc q c)"
    using ids p i by (simp add: positions_sound_def save_no_recalc_fields)
  show "owner_at (position_save_no_recalc q c) = (owner_at c)(i := Some (pos_owner q))"
    by (auto simp: fun_eq_iff owner_at_def save_no_recalc_fields i)
qed

lemma save_no_recalc_books:
  assumes b: "books_kept c" and p: "open_at c i = Some p" and same: "same_index p q" and k: "keeps p q"
  shows "replaced i c (position_save_no_recalc q c)"
proof -
  note r = no_recalc_parts [OF b p same]
  have "owner_at (position_save_no_recalc q c) = owner_at c"
    using r k p by (auto simp: keeps_def owner_at_def)
  then show ?thesis
    using r k b p unfolding replaced_def books_kept_def
    by (auto simp: save_no_recalc_fields keeps_def)
qed

lemma charge_crank_same:
  assumes "charge_crank_fee_to_position D i fee price c = Inr q"
  shows "\<exists>p. open_at c i = Some p \<and> same_index p q \<and> keeps p q"
proof -
  obtain p cf dc where "open_at c i = Some p" and q: "q = p\<lparr>pos_crank_fee := cf, pos_deposit_collateral := dc\<rparr>"
    using assms by (auto simp: charge_crank_fee_to_position_def)
  moreover have "desc_trigger q = desc_trigger p" "asc_trigger q = asc_trigger p"
    by (simp_all add: q desc_trigger_def asc_trigger_def losses_trigger_def gains_trigger_def pos_direction_def fun_eq_iff)
  ultimately show ?thesis by (auto simp: same_index_def keeps_def funding_margin_def)
qed

end

section \<open>Tokens\<close>

lemma nft_indexed_moved:
  assumes "nft_indexed f n" "f i = Some a"
  shows "nft_indexed (f(i := Some b)) (n\<lparr>nft_owners := fmupd (b, i) () (fmdrop (a, i) (nft_owners n)),
    nft_approvals := fmupd i x (nft_approvals n)\<rparr>)"
proof -
  have "{j. (f(i := Some b)) j \<noteq> None} = {j. f j \<noteq> None}" using assms(2) by auto
  then show ?thesis using assms unfolding nft_indexed_def by auto
qed

lemma nft_approvals_indexed:
  assumes "nft_indexed f n" "f i \<noteq> None"
  shows "nft_indexed f (n\<lparr>nft_approvals := fmupd i x (nft_approvals n)\<rparr>)"
  using assms unfolding nft_indexed_def by auto

lemma nft_operators_indexed: "nft_indexed f (n\<lparr>nft_operators := x\<rparr>) = nft_indexed f n"
  by (simp add: nft_indexed_def)

text \<open>A message to the tokens: the positions stay, and one of them may have a new owner.\<close>

definition handed :: "Ctx \<Rightarrow> Ctx \<Rightarrow> bool" where
  "handed c c' \<longleftrightarrow> books_kept c' \<and> same_rest c c' \<and> last_position_id (pos_st c') = last_position_id (pos_st c)
     \<and> (pos_st c' = pos_st c \<or> (\<exists>i p b. open_at c i = Some p
          \<and> open_positions (pos_st c') = fmupd i (p\<lparr>pos_owner := b\<rparr>) (open_positions (pos_st c))))"

lemma upd_nft_simps:
  "pos_st (upd_nft f c) = pos_st c" "nft_st (upd_nft f c) = f (nft_st c)" "same_rest c (upd_nft f c')= same_rest c c'"
  "same_rest (upd_nft f c) c' = same_rest c c'" "total_funding_margin (upd_nft f c) = total_funding_margin c"
  "open_long_interest (upd_nft f c) = open_long_interest c" "open_short_interest (upd_nft f c) = open_short_interest c"
  by (simp_all add: upd_nft_def same_rest_def)

lemma books_upd_nft:
  assumes "books_kept c" "nft_indexed (owner_at c) (f (nft_st c))"
  shows "books_kept (upd_nft f c)"
proof -
  have "owner_at (upd_nft f c) = owner_at c" by (simp add: owner_at_def fun_eq_iff upd_nft_simps)
  then show ?thesis
    using assms by (simp add: books_kept_def interest_tracked_def positions_sound_def upd_nft_simps)
qed

lemma handed_nft:
  assumes "books_kept c" "nft_indexed (owner_at c) (f (nft_st c))"
  shows "handed c (upd_nft f c)"
  using books_upd_nft [where f = f, OF assms] by (simp add: handed_def upd_nft_simps)

lemma handed_event [simp]:
  "handed c (add_event env e c') = handed c c'" "handed (add_event env e c) c' = handed c c'"
  using books_same [of c' "add_event env e c'"] by (simp_all add: handed_def same_rest_def)

context decimal256
begin

lemma transfer_handed:
  assumes b: "books_kept c" and t: "nft_transfer_inner env m recipient i c = Inr c'"
  shows "handed c c'"
proof -
  obtain p c1 where p: "open_at c i = Some p"
    and c1: "position_history_add_transfer env (p\<lparr>pos_owner := recipient\<rparr>) (pos_owner p)
      (position_save_no_recalc (p\<lparr>pos_owner := recipient\<rparr>)
        (upd_nft (\<lambda>s. s\<lparr>nft_owners := fmupd (recipient, i) () (fmdrop (pos_owner p, i) (nft_owners s))\<rparr>) c)) = Inr c1"
    and c': "c' = add_event env (NftEvent (NftTransfer recipient i))
      (upd_nft (\<lambda>s. s\<lparr>nft_approvals := fmupd i [] (nft_approvals s)\<rparr>) c1)"
    using t by (auto simp: nft_transfer_inner_def Let_def)
  let ?q = "p\<lparr>pos_owner := recipient\<rparr>"
  define c2 where "c2 = position_save_no_recalc ?q c"
  have si: "same_index p ?q"
    by (simp add: same_index_def desc_trigger_def asc_trigger_def losses_trigger_def gains_trigger_def
        pos_direction_def funding_margin_def fun_eq_iff)
  note r = no_recalc_parts [OF b p si, folded c2_def]
  have sz: "pos_notional_size ?q = pos_notional_size p" by simp
  have com: "position_save_no_recalc ?q (upd_nft g c) = upd_nft g c2" for g
    by (simp add: position_save_no_recalc_def upd_nft_def upd_pos_def c2_def)
  have s: "same_books (upd_nft (\<lambda>s. s\<lparr>nft_owners := fmupd (recipient, i) () (fmdrop (pos_owner p, i) (nft_owners s))\<rparr>) c2) c1"
    using moves_books [OF history_moves(1) [OF c1]] by (simp add: com)
  have n2: "nft_st c2 = nft_st c" by (simp add: c2_def save_no_recalc_fields)
  have f: "pos_st c' = pos_st c2" "same_rest c2 c'" "total_funding_margin c' = total_funding_margin c2"
    "open_long_interest c' = open_long_interest c2" "open_short_interest c' = open_short_interest c2"
    "nft_st c' = (nft_st c)\<lparr>nft_owners := fmupd (recipient, i) () (fmdrop (pos_owner p, i) (nft_owners (nft_st c))),
        nft_approvals := fmupd i [] (nft_approvals (nft_st c))\<rparr>"
    using s n2 by (simp_all add: c' same_books_def upd_nft_def same_rest_def)
  have o': "owner_at c' = (owner_at c)(i := Some recipient)"
    using r(5) by (simp add: owner_at_def f fun_eq_iff)
  have "nft_indexed (owner_at c') (nft_st c')"
    unfolding o' f(6) by (rule nft_indexed_moved) (use b p in \<open>simp_all add: books_kept_def owner_at_def\<close>)
  then have "books_kept c'"
    using r(1-3) unfolding books_kept_def interest_tracked_def positions_sound_def by (simp add: f)
  moreover have "same_rest c c'"
    using same_rest_trans [OF save_no_recalc_fields(2) f(2) [unfolded c2_def]] .
  ultimately show ?thesis
    using p r(4) unfolding handed_def by (auto simp: f c2_def save_no_recalc_fields)
qed

lemma nft_messages_handed:
  assumes b: "books_kept c" and m: "nft_handle_exec env s msg c = Inr c'"
  shows "handed c c'"
proof -
  have n: "nft_indexed (owner_at c) (nft_st c)" using b by (simp add: books_kept_def)
  have ap: "handed c c'" if u: "nft_update_approvals env s sp i add ex c = Inr c'" for sp i add ex
  proof -
    obtain p x e where p: "open_at c i = Some p"
      and c': "c' = upd_nft (\<lambda>s. s\<lparr>nft_approvals := fmupd i x (nft_approvals s)\<rparr>) (add_event env e c)"
      using u by (auto simp: nft_update_approvals_def nft_check_can_approve_def Let_def split: if_splits)
    have "owner_at (add_event env e c) = owner_at c" by (simp add: owner_at_def fun_eq_iff)
    then have "handed (add_event env e c) c'"
      unfolding c' using b n p books_same [of c "add_event env e c"]
      by (intro handed_nft nft_approvals_indexed) (simp_all add: owner_at_def)
    then show ?thesis by simp
  qed
  show ?thesis
    using m ap transfer_handed [OF b] handed_nft [where c = c, OF b] n
    by (cases msg) (auto simp: nft_handle_exec_def nft_approve_all_def nft_revoke_all_def Let_def
        nft_operators_indexed split: if_splits)
qed

end

end
