(* ===== verification/QueueInvariant.thy ===== *)
theory QueueInvariant
  imports TraderInvariant
begin

text \<open>
  The invariants of the two queues. The indexes of the limit orders are the image of the orders, by
  owner and by trigger price, and every order can be taken out of them. The deferred executions are
  the identifiers from 1 to the last one issued; the ones that were not processed yet are pending, and
  the indexes of pending items by position and by order list the pending items.
\<close>

section \<open>Limit orders\<close>

definition order_key :: "dec256_api \<Rightarrow> MarketType \<Rightarrow> DirectionToNotional \<Rightarrow> LimitOrder \<Rightarrow> Price option" where
  "order_key D mt dir order =
     (if lo_direction order = dir then ok (into_notional_price D (lo_trigger_price order) mt) else None)"

definition last_issued_order :: "OrdersState \<Rightarrow> nat" where
  "last_issued_order s = (case last_order_id s of Some i \<Rightarrow> i | None \<Rightarrow> 0)"

definition orders_by_price :: "DirectionToNotional \<Rightarrow> OrdersState \<Rightarrow> (Price \<times> OrderId, unit) fmap" where
  "orders_by_price dir s = (case dir of LongNotional \<Rightarrow> orders_by_price_long s | ShortNotional \<Rightarrow> orders_by_price_short s)"

definition orders_kept :: "dec256_api \<Rightarrow> MarketType \<Rightarrow> OrdersState \<Rightarrow> bool" where
  "orders_kept D mt s \<longleftrightarrow>
     (\<forall>i order. fmlookup (limit_orders s) i = Some order \<longrightarrow> lo_order_id order = i \<and> i \<le> last_issued_order s
        \<and> is_ok (into_notional_price D (lo_trigger_price order) mt))
   \<and> (\<forall>a i. fmlookup (orders_by_addr s) (a, i)
        = (if map_option lo_owner (fmlookup (limit_orders s) i) = Some a then Some () else None))
   \<and> (\<forall>dir x i. fmlookup (orders_by_price dir s) (x, i)
        = (if Option.bind (fmlookup (limit_orders s) i) (order_key D mt dir) = Some x then Some () else None))"

lemma orders_kept_cong:
  "limit_orders t = limit_orders s \<Longrightarrow> orders_by_addr t = orders_by_addr s
     \<Longrightarrow> orders_by_price_long t = orders_by_price_long s \<Longrightarrow> orders_by_price_short t = orders_by_price_short s
     \<Longrightarrow> last_order_id t = last_order_id s \<Longrightarrow> orders_kept D mt t = orders_kept D mt s"
  by (simp add: orders_kept_def last_issued_order_def orders_by_price_def cong: DirectionToNotional.case_cong)

definition drop_order :: "Price \<Rightarrow> LimitOrder \<Rightarrow> OrdersState \<Rightarrow> OrdersState" where
  "drop_order key order s = (case lo_direction order of
       LongNotional \<Rightarrow> s\<lparr>orders_by_price_long := fmdrop (key, lo_order_id order) (orders_by_price_long s)\<rparr>
     | ShortNotional \<Rightarrow> s\<lparr>orders_by_price_short := fmdrop (key, lo_order_id order) (orders_by_price_short s)\<rparr>)
     \<lparr>limit_orders := fmdrop (lo_order_id order) (limit_orders s),
      orders_by_addr := fmdrop (lo_owner order, lo_order_id order) (orders_by_addr s)\<rparr>"

definition put_order :: "Price \<Rightarrow> LimitOrder \<Rightarrow> OrdersState \<Rightarrow> OrdersState" where
  "put_order key order s = (case lo_direction order of
       LongNotional \<Rightarrow> s\<lparr>orders_by_price_long := fmupd (key, lo_order_id order) () (orders_by_price_long s)\<rparr>
     | ShortNotional \<Rightarrow> s\<lparr>orders_by_price_short := fmupd (key, lo_order_id order) () (orders_by_price_short s)\<rparr>)
     \<lparr>limit_orders := fmupd (lo_order_id order) order (limit_orders s),
      orders_by_addr := fmupd (lo_owner order, lo_order_id order) () (orders_by_addr s)\<rparr>"

lemma drop_order_fields:
  "limit_orders (drop_order key order s) = fmdrop (lo_order_id order) (limit_orders s)"
  "orders_by_addr (drop_order key order s) = fmdrop (lo_owner order, lo_order_id order) (orders_by_addr s)"
  "orders_by_price dir (drop_order key order s) = (if dir = lo_direction order
     then fmdrop (key, lo_order_id order) (orders_by_price dir s) else orders_by_price dir s)"
  "last_issued_order (drop_order key order s) = last_issued_order s"
  by (cases "lo_direction order"; cases dir; simp add: drop_order_def last_issued_order_def orders_by_price_def)+

lemma put_order_fields:
  "limit_orders (put_order key order s) = fmupd (lo_order_id order) order (limit_orders s)"
  "orders_by_addr (put_order key order s) = fmupd (lo_owner order, lo_order_id order) () (orders_by_addr s)"
  "orders_by_price dir (put_order key order s) = (if dir = lo_direction order
     then fmupd (key, lo_order_id order) () (orders_by_price dir s) else orders_by_price dir s)"
  "last_issued_order (put_order key order s) = last_issued_order s"
  by (cases "lo_direction order"; cases dir; simp add: put_order_def last_issued_order_def orders_by_price_def)+

lemma orders_keptI:
  assumes "\<And>i order. fmlookup (limit_orders s) i = Some order \<Longrightarrow> lo_order_id order = i \<and> i \<le> last_issued_order s
        \<and> is_ok (into_notional_price D (lo_trigger_price order) mt)"
    "\<And>a i. fmlookup (orders_by_addr s) (a, i)
        = (if map_option lo_owner (fmlookup (limit_orders s) i) = Some a then Some () else None)"
    "\<And>dir x i. fmlookup (orders_by_price dir s) (x, i)
        = (if Option.bind (fmlookup (limit_orders s) i) (order_key D mt dir) = Some x then Some () else None)"
  shows "orders_kept D mt s"
  using assms unfolding orders_kept_def by blast

lemma orders_keptD:
  assumes "orders_kept D mt s"
  shows "fmlookup (limit_orders s) i = Some order \<Longrightarrow> lo_order_id order = i \<and> i \<le> last_issued_order s
        \<and> is_ok (into_notional_price D (lo_trigger_price order) mt)"
    "fmlookup (orders_by_addr s) (a, i)
        = (if map_option lo_owner (fmlookup (limit_orders s) i) = Some a then Some () else None)"
    "fmlookup (orders_by_price dir s) (x, i)
        = (if Option.bind (fmlookup (limit_orders s) i) (order_key D mt dir) = Some x then Some () else None)"
  using assms unfolding orders_kept_def by blast+

lemma drop_order_kept:
  assumes s: "orders_kept D mt s" and o: "fmlookup (limit_orders s) i = Some order"
    and key: "into_notional_price D (lo_trigger_price order) mt = Inr key"
  shows "orders_kept D mt (drop_order key order s)"
proof -
  have i: "lo_order_id order = i" using orders_keptD(1) [OF s o] by simp
  show ?thesis
    by (rule orders_keptI)
      (use o key in \<open>auto simp: drop_order_fields orders_keptD [OF s] i order_key_def
        dest: orders_keptD(1) [OF s] split: if_splits\<close>)
qed

lemma put_order_kept:
  assumes s: "orders_kept D mt s" and new: "fmlookup (limit_orders s) (lo_order_id order) = None"
    and key: "into_notional_price D (lo_trigger_price order) mt = Inr key"
    and i: "lo_order_id order \<le> last_issued_order s"
  shows "orders_kept D mt (put_order key order s)"
proof (rule orders_keptI)
  fix j o'
  assume "fmlookup (limit_orders (put_order key order s)) j = Some o'"
  then show "lo_order_id o' = j \<and> j \<le> last_issued_order (put_order key order s)
      \<and> is_ok (into_notional_price D (lo_trigger_price o') mt)"
    using orders_keptD(1) [OF s, of j o'] key i by (simp add: put_order_fields split: if_splits)
next
  fix a j
  show "fmlookup (orders_by_addr (put_order key order s)) (a, j)
      = (if map_option lo_owner (fmlookup (limit_orders (put_order key order s)) j) = Some a then Some () else None)"
    using orders_keptD(2) [OF s, of a j] new
    by (cases "j = lo_order_id order") (auto simp: put_order_fields)
next
  fix dir x j
  show "fmlookup (orders_by_price dir (put_order key order s)) (x, j)
      = (if Option.bind (fmlookup (limit_orders (put_order key order s)) j) (order_key D mt dir) = Some x then Some () else None)"
    using orders_keptD(3) [OF s, of dir x j] new key
    by (cases "j = lo_order_id order") (auto simp: put_order_fields order_key_def)
qed

section \<open>The queue of deferred executions\<close>

definition last_issued :: "DeferredState \<Rightarrow> nat" where
  "last_issued s = (case deferred_latest_ids s of Some l \<Rightarrow> dl_issued l | None \<Rightarrow> 0)"

definition last_processed :: "DeferredState \<Rightarrow> nat" where
  "last_processed s = (case deferred_latest_ids s of Some l \<Rightarrow> deferred_processed l | None \<Rightarrow> 0)"

definition is_pending :: "DeferredState \<Rightarrow> DeferredExecId \<Rightarrow> DeferredExecTarget \<Rightarrow> bool" where
  "is_pending s i target \<longleftrightarrow> (\<exists>item. fmlookup (deferred_execs s) i = Some item
     \<and> de_status item = DeferredPending \<and> item_target (de_item item) = target)"

definition queue_kept :: "DeferredState \<Rightarrow> bool" where
  "queue_kept s \<longleftrightarrow>
     last_processed s \<le> last_issued s \<and> (deferred_latest_ids s \<noteq> None \<longrightarrow> 0 < last_issued s)
   \<and> (\<forall>i. (fmlookup (deferred_execs s) i \<noteq> None) = (1 \<le> i \<and> i \<le> last_issued s))
   \<and> (\<forall>i item. fmlookup (deferred_execs s) i = Some item \<longrightarrow> de_id item = i
        \<and> (last_processed s < i \<longrightarrow> de_status item = DeferredPending))
   \<and> (\<forall>p i. fmlookup (pending_for_position s) (p, i) = (if is_pending s i (TargetPosition p) then Some () else None))
   \<and> (\<forall>p i. fmlookup (pending_for_order s) (p, i) = (if is_pending s i (TargetOrder p) then Some () else None))"

lemma queue_kept_cong:
  "deferred_latest_ids t = deferred_latest_ids s \<Longrightarrow> deferred_execs t = deferred_execs s
     \<Longrightarrow> pending_for_position t = pending_for_position s \<Longrightarrow> pending_for_order t = pending_for_order s
     \<Longrightarrow> queue_kept t = queue_kept s"
  by (simp add: queue_kept_def last_issued_def last_processed_def is_pending_def)

lemma next_deferred:
  assumes s: "queue_kept (deferred_st c)" and r: "last_issued (deferred_st c) < u64_lim"
  shows "get_next_deferred_execution c =
      (if last_processed (deferred_st c) = last_issued (deferred_st c) then Inr None
       else Inr (Some (last_processed (deferred_st c) + 1,
         the (fmlookup (deferred_execs (deferred_st c)) (last_processed (deferred_st c) + 1)))))"
proof (cases "deferred_latest_ids (deferred_st c)")
  case None
  then show ?thesis by (simp add: get_next_deferred_execution_def last_processed_def last_issued_def)
next
  case (Some l)
  have le: "deferred_processed l \<le> dl_issued l"
    using s Some by (simp add: queue_kept_def last_processed_def last_issued_def)
  have ex: "fmlookup (deferred_execs (deferred_st c)) (deferred_processed l + 1) \<noteq> None" if "deferred_processed l < dl_issued l"
    using s that Some unfolding queue_kept_def by (simp add: last_processed_def last_issued_def)
  have z: "0 < dl_issued l"
    using s Some by (simp add: queue_kept_def last_issued_def)
  show ?thesis
    using Some r le ex z
    by (cases "dl_processed l")
      (auto simp: get_next_deferred_execution_def last_processed_def last_issued_def deferred_processed_def u64_add_def)
qed

end
