(* ===== verification/MarketInvariant.thy ===== *)
theory MarketInvariant
  imports QueueInvariant
begin

text \<open>
  The invariant of the market and its steps: the books of the positions, the indexes of the limit
  orders and the queue of deferred executions hold together, whatever the crank, a trader's message or
  a token message does, and no step but a token message changes the owner of an open position.
\<close>

section \<open>The invariant\<close>

definition market_kept :: "dec256_api \<Rightarrow> MarketType \<Rightarrow> Ctx \<Rightarrow> bool" where
  "market_kept D mt c \<longleftrightarrow> books_kept c \<and> orders_kept D mt (order_st c) \<and> queue_kept (deferred_st c)"

text \<open>Positions appear under fresh identifiers only, and keep their owner.\<close>

definition owners_kept :: "Ctx \<Rightarrow> Ctx \<Rightarrow> bool" where
  "owners_kept c c' \<longleftrightarrow> last_position_id (pos_st c) \<le> last_position_id (pos_st c')
     \<and> (\<forall>i a. owner_at c' i = Some a \<longrightarrow> owner_at c i = Some a \<or> last_position_id (pos_st c) < i)"

definition advances :: "dec256_api \<Rightarrow> MarketType \<Rightarrow> Ctx \<Rightarrow> Ctx \<Rightarrow> bool" where
  "advances D mt c c' \<longleftrightarrow> market_kept D mt c' \<and> owners_kept c c'"

lemma owners_kept_refl [simp]: "owners_kept c c"
  by (simp add: owners_kept_def)

lemma owners_kept_trans: "owners_kept a b \<Longrightarrow> owners_kept b c \<Longrightarrow> owners_kept a c"
  unfolding owners_kept_def by (meson le_less_trans order_trans)

lemma advances_trans: "advances D mt a b \<Longrightarrow> advances D mt b c \<Longrightarrow> advances D mt a c"
  unfolding advances_def using owners_kept_trans by blast

lemma advances_refl: "market_kept D mt c \<Longrightarrow> advances D mt c c"
  by (simp add: advances_def)

lemma owners_same: "pos_st b = pos_st a \<Longrightarrow> owners_kept a b"
  by (simp add: owners_kept_def owner_at_def)

lemma books_advance:
  assumes "market_kept D mt c" "same_books c c'"
  shows "advances D mt c c'"
  using assms books_same [OF assms(2)] owners_same [of c' c]
  by (simp add: advances_def market_kept_def same_books_def)

lemma settled_owners:
  "replaced i c c' \<Longrightarrow> owners_kept c c'" "without i c c' \<Longrightarrow> owners_kept c c'"
  "opened i a c c' \<Longrightarrow> owners_kept c c'"
  by (auto simp: replaced_def without_def opened_def owners_kept_def owner_at_def split: if_splits)

text \<open>What a change of the positions keeps.\<close>

definition reposits :: "Ctx \<Rightarrow> Ctx \<Rightarrow> bool" where
  "reposits c c' \<longleftrightarrow> books_kept c' \<and> same_rest c c' \<and> owners_kept c c'"

lemma reposits_trans: "reposits a b \<Longrightarrow> reposits b c \<Longrightarrow> reposits a c"
  unfolding reposits_def using owners_kept_trans same_rest_trans by blast

lemma reposits_cases:
  "replaced i c c' \<Longrightarrow> reposits c c'" "without i c c' \<Longrightarrow> reposits c c'" "settled i c c' \<Longrightarrow> reposits c c'"
  "opened i a c c' \<Longrightarrow> reposits c c'"
  by (auto simp: reposits_def settled_def settled_owners) (auto simp: replaced_def without_def opened_def)

lemma reposits_books: "books_kept c \<Longrightarrow> same_books c c' \<Longrightarrow> reposits c c'"
  by (simp add: reposits_def books_same same_books_rest) (simp add: same_books_def owners_same)

lemma reposits_kept: "reposits c c' \<Longrightarrow> books_kept c'"
  by (simp add: reposits_def)

lemma reposits_advance: "market_kept D mt c \<Longrightarrow> reposits c c' \<Longrightarrow> advances D mt c c'"
  by (simp add: reposits_def advances_def market_kept_def same_rest_def)

section \<open>Executing a deferred item\<close>

context decimal256
begin

lemma slippage_liquifund_reposits:
  assumes "books_kept c" "execute_slippage_assert_and_liquifund D env i n sa price c = Inr c'"
  shows "reposits c c'"
proof -
  obtain p where "open_at c i = Some p"
      "position_liquifund_store D env p (pos_liquifunded_at p) (pp_timestamp price) False SaveUpdate c = Inr c'"
    using assms(2) by (auto simp: execute_slippage_assert_and_liquifund_def)
  then show ?thesis using liquifund_store_settled [OF assms(1)] reposits_cases(3) by blast
qed

lemma execute_update_reposits:
  assumes b: "books_kept c"
  shows "execute_update_size D env i x sa price c = Inr c' \<Longrightarrow> reposits c c'"
    "execute_update_collateral D env i x price c = Inr c' \<Longrightarrow> reposits c c'"
proof -
  assume "execute_update_size D env i x sa price c = Inr c'"
  then obtain n c1 p u where c1: "execute_slippage_assert_and_liquifund D env i n sa price c = Inr c1"
    and p: "open_at c1 i = Some p" and u: "update_size_new D env c1 p x price = Inr u"
    and c': "update_size_apply D env u c1 = Inr c'"
    by (auto simp: execute_update_size_def)
  have r: "reposits c c1" by (rule slippage_liquifund_reposits [OF b c1])
  have "replaced i c1 c'" by (rule update_size_books [OF reposits_kept [OF r] p update_size_resized [OF u] c'])
  with r show "reposits c c'" using reposits_cases(1) reposits_trans by blast
next
  assume "execute_update_collateral D env i x price c = Inr c'"
  then obtain n c1 p u where c1: "execute_slippage_assert_and_liquifund D env i n None price c = Inr c1"
    and p: "open_at c1 i = Some p" and u: "update_collateral_new D env p x price = Inr u"
    and c': "update_collateral_apply D env u c1 = Inr c'"
    by (auto simp: execute_update_collateral_def)
  have r: "reposits c c1" by (rule slippage_liquifund_reposits [OF b c1])
  have "replaced i c1 c'" by (rule update_collateral_books [OF reposits_kept [OF r] p u c'])
  with r show "reposits c c'" using reposits_cases(1) reposits_trans by blast
qed

lemma execute_leverage_reposits:
  assumes b: "books_kept c" and x: "execute_update_leverage D env i l sa price c = Inr c'"
  shows "reposits c c'"
proof -
  obtain c1 n p u where c1: "execute_slippage_assert_and_liquifund D env i None None price c = Inr c1"
    and n: "update_leverage_new_notional_size D env c1 i l price = Inr n"
    and p: "open_at c1 i = Some p" and u: "update_leverage_new D env c1 p n price = Inr u"
    and c': "update_size_apply D env u c1 = Inr c'"
    using x by (auto simp: execute_update_leverage_def)
  have r: "reposits c c1" by (rule slippage_liquifund_reposits [OF b c1])
  have "wf_signed n" using n by (auto simp: update_leverage_new_notional_size_def Let_def dest: new_size_wf)
  then have "replaced i c1 c'"
    by (intro update_size_books [OF reposits_kept [OF r] p update_leverage_resized [OF _ u] c'])
  with r show ?thesis using reposits_cases(1) reposits_trans by blast
qed

text \<open>A settlement followed by an update of the position it left open.\<close>

lemma settle_then:
  assumes b: "books_kept c"
    and x: "and_then (execute_slippage_assert_and_liquifund D env i None None price c) k = Inr c'"
    and k: "\<And>c1. books_kept c1 \<Longrightarrow> k c1 = Inr c' \<Longrightarrow> replaced i c1 c'"
  shows "reposits c c'"
proof -
  obtain c1 where c1: "execute_slippage_assert_and_liquifund D env i None None price c = Inr c1" and "k c1 = Inr c'"
    using x by auto
  moreover have r: "reposits c c1" by (rule slippage_liquifund_reposits [OF b c1])
  ultimately show ?thesis using k [OF reposits_kept [OF r]] reposits_cases(1) reposits_trans by blast
qed

lemma max_gains_step:
  assumes "books_kept c" "and_then (get_position c i) (\<lambda>p. and_then (update_max_gains_new D env c p g price)
      (\<lambda>u. update_max_gains_apply D env u c)) = Inr c'"
  shows "replaced i c c'"
  using assms(2) unfolding and_then_eq_Inr get_position_Inr
  by (blast intro: update_max_gains_books [OF assms(1)] max_gains_keeps)

lemma take_profit_step:
  assumes "books_kept c" "and_then (get_position c i) (\<lambda>p. and_then (update_take_profit_new D env c p t price)
      (\<lambda>u. update_max_gains_apply D env u c)) = Inr c'"
  shows "replaced i c c'"
  using assms(2) unfolding and_then_eq_Inr get_position_Inr
  by (blast intro: update_max_gains_books [OF assms(1)] take_profit_keeps)

lemma trigger_step:
  assumes "books_kept c"
  shows "and_then (trigger_order_new D env c i sl tp price) (\<lambda>u. trigger_order_apply D env u c) = Inr c' \<Longrightarrow> replaced i c c'"
    "and_then (update_stop_loss_new D env c i r price) (\<lambda>u. trigger_order_apply D env u c) = Inr c' \<Longrightarrow> replaced i c c'"
  unfolding and_then_eq_Inr by (blast intro: trigger_books [OF assms] dest: trigger_new_keeps)+

lemma close_step:
  assumes "books_kept c" "and_then (helper_close_position D env c i sa price) (\<lambda>e. close_position_apply D env e c) = Inr c'"
  shows "reposits c c'"
proof -
  obtain e p where "open_at c i = Some p" "close_position_via_msg D env c p price = Inr e"
      "close_position_apply D env e c = Inr c'"
    using assms(2) by (auto simp: helper_close_position_def get_position_def ok_or_def split: option.splits)
  then show ?thesis using close_via_msg_closes [OF assms(1)] reposits_cases(2) by blast
qed

section \<open>Limit orders\<close>

lemma remove_order_kept:
  assumes o: "orders_kept D mt (order_st c)" and mt: "mid_market_type (env_market_id env) = mt"
    and l: "fmlookup (limit_orders (order_st c)) i = Some order" and r: "limit_order_remove D env order c = Inr c'"
  shows "orders_kept D mt (order_st c') \<and> limit_orders (order_st c') = fmdrop i (limit_orders (order_st c))
    \<and> c' = c\<lparr>order_st := order_st c'\<rparr> \<and> last_order_id (order_st c') = last_order_id (order_st c)"
proof -
  obtain key where key: "into_notional_price D (lo_trigger_price order) mt = Inr key"
    and c': "c' = upd_orders (drop_order key order) c"
    using r mt by (auto simp: limit_order_remove_def drop_order_def [abs_def] Let_def)
  have i: "lo_order_id order = i" using orders_keptD(1) [OF o l] by simp
  show ?thesis
    using drop_order_kept [OF o l key] i
    by (auto simp: c' upd_orders_def drop_order_fields drop_order_def split: DirectionToNotional.split)
qed

lemma executed_order_kept:
  "orders_kept D mt (order_st (upd_orders (\<lambda>s. s\<lparr>executed_limit_orders := x s\<rparr>) c)) = orders_kept D mt (order_st c)"
  by (rule orders_kept_cong) (simp_all add: upd_orders_def)

lemma upd_orders_books:
  "pos_st (upd_orders f c) = pos_st c" "deferred_st (upd_orders f c) = deferred_st c"
  "books_kept (upd_orders f c) = books_kept c" "order_st (upd_orders f c) = f (order_st c)"
proof -
  have "owner_at (upd_orders f c) = owner_at c" by (simp add: owner_at_def upd_orders_def fun_eq_iff)
  then show "books_kept (upd_orders f c) = books_kept c"
    by (simp add: books_kept_def interest_tracked_def positions_sound_def upd_orders_def)
qed (simp_all add: upd_orders_def)

end

text \<open>A step that works on positions and orders and leaves the deferred executions and the saved
  progress of the crank alone.\<close>

definition works :: "dec256_api \<Rightarrow> MarketType \<Rightarrow> Ctx \<Rightarrow> Ctx \<Rightarrow> bool" where
  "works D mt c c' \<longleftrightarrow> advances D mt c c' \<and> deferred_st c' = deferred_st c
     \<and> deferred_submessages c' = deferred_submessages c \<and> crank_st c' = crank_st c"

lemma works_trans: "works D mt a b \<Longrightarrow> works D mt b c \<Longrightarrow> works D mt a c"
  unfolding works_def using advances_trans by metis

lemma works_kept: "works D mt c c' \<Longrightarrow> market_kept D mt c'"
  by (simp add: works_def advances_def)

lemma works_reposits: "market_kept D mt c \<Longrightarrow> reposits c c' \<Longrightarrow> works D mt c c'"
  by (simp add: works_def reposits_advance) (simp add: reposits_def same_rest_def)

lemma works_books: "market_kept D mt c \<Longrightarrow> same_books c c' \<Longrightarrow> works D mt c c'"
  by (rule works_reposits) (simp_all add: reposits_books market_kept_def)

lemma works_event [simp]: "works D mt c (add_event env e c') = works D mt c c'"
  by (simp add: works_def advances_def market_kept_def owners_kept_def owner_at_def)

context decimal256
begin

lemma works_orders:
  assumes "market_kept D mt c" "orders_kept D mt (f (order_st c))"
  shows "works D mt c (upd_orders f c)"
  using assms owners_same [OF upd_orders_books(1) [of f c]]
  by (simp add: works_def advances_def market_kept_def upd_orders_books) (simp add: upd_orders_def)

lemma remove_order_works:
  assumes m: "market_kept D mt c" and mt: "mid_market_type (env_market_id env) = mt"
    and l: "fmlookup (limit_orders (order_st c)) i = Some order" and r: "limit_order_remove D env order c = Inr c'"
  shows "works D mt c c'"
proof -
  have "orders_kept D mt (order_st c)" using m by (simp add: market_kept_def)
  note x = remove_order_kept [OF this mt l r]
  then have "c' = upd_orders (\<lambda>_. order_st c') c" by (simp add: upd_orders_def)
  with x works_orders [OF m, of "\<lambda>_. order_st c'"] show ?thesis by metis
qed

lemma execute_order_works:
  assumes m: "market_kept D mt c" and mt: "mid_market_type (env_market_id env) = mt"
    and x: "limit_order_execute_order D env i price c = Inr c'"
  shows "works D mt c c'"
proof -
  obtain order c1 tp r c2 e f where l: "fmlookup (limit_orders (order_st c)) i = Some order"
    and c1: "limit_order_remove D env order c = Inr c1"
    and c2: "(case open_position_new D env c1 (limit_order_params env order tp) price of
         Inr e \<Rightarrow> and_then (open_position_apply D env e SaveExecuteLimitOrder c1) (\<lambda>(pos_id, ctx). Inr (OrderSuccess pos_id, ctx))
       | Inl (Panic s) \<Rightarrow> Inl (Panic s)
       | Inl e \<Rightarrow> and_then (add_token_transfer_msg D (lo_owner order) (lo_collateral order) c1) (\<lambda>ctx. Inr (OrderFailure e, ctx)))
      = Inr (r, c2)"
    and c': "c' = upd_orders (\<lambda>s. s\<lparr>executed_limit_orders := f s\<rparr>) (add_event env e c2)"
    using x by (auto simp: limit_order_execute_order_def limit_order_load_def Let_def)
  have w1: "works D mt c c1" by (rule remove_order_works [OF m mt l c1])
  note m1 = works_kept [OF w1]
  have "works D mt c1 c2"
  proof (cases "open_position_new D env c1 (limit_order_params env order tp) price")
    case (Inr e)
    then obtain i where "open_position_apply D env e SaveExecuteLimitOrder c1 = Inr (i, c2)" using c2 by auto
    from open_apply_books [OF _ Inr this] m1 show ?thesis
      using works_reposits [OF m1] reposits_cases(4) by (auto simp: market_kept_def)
  next
    case (Inl e)
    then have "add_token_transfer_msg D (lo_owner order) (lo_collateral order) c1 = Inr c2"
      using c2 by (cases e) auto
    from works_books [OF m1 moves_books [OF transfer_moves [OF this]]] show ?thesis .
  qed
  then have "works D mt c1 (add_event env e c2)" by simp
  moreover from works_kept [OF this] have "works D mt (add_event env e c2) c'"
    unfolding c' using executed_order_kept [of mt f "add_event env e c2"]
    by (intro works_orders) (simp_all add: market_kept_def upd_orders_def)
  ultimately show ?thesis using w1 works_trans by blast
qed

lemma place_order_works:
  assumes m: "market_kept D mt c" and mt: "mid_market_type (env_market_id env) = mt"
    and new: "place_limit_order_new D env c params price = Inr e"
    and ap: "place_limit_order_apply D env e c = Inr (i, c')"
  shows "works D mt c c'"
proof -
  have id: "lo_order_id (pl_order e) = pl_order_id e" "pl_order_id e = last_issued_order (order_st c) + 1"
    using new by (auto simp: place_limit_order_new_def Let_def u64_add_Inr last_issued_order_def)
  define s1 where "s1 = (order_st c)\<lparr>last_order_id := Some (pl_order_id e)\<rparr>"
  have put: "put_order key (pl_order e) = (\<lambda>s. (case lo_direction (pl_order e) of
         LongNotional \<Rightarrow> s\<lparr>orders_by_price_long := fmupd (key, pl_order_id e) () (orders_by_price_long s)\<rparr>
       | ShortNotional \<Rightarrow> s\<lparr>orders_by_price_short := fmupd (key, pl_order_id e) () (orders_by_price_short s)\<rparr>)
       \<lparr>limit_orders := fmupd (pl_order_id e) (pl_order e) (limit_orders s),
        orders_by_addr := fmupd (lo_owner (pl_order e), pl_order_id e) () (orders_by_addr s)\<rparr>)" for key
    unfolding put_order_def [abs_def] id(1) ..
  obtain c1 key ev where c1: "cap_crank_fee_apply D env (pl_crank_fee e) (upd_orders (\<lambda>s. s\<lparr>last_order_id := Some (pl_order_id e)\<rparr>) c) = Inr c1"
    and key: "into_notional_price D (lo_trigger_price (pl_order e)) mt = Inr key"
    and c': "c' = add_event env ev (upd_orders (put_order key (pl_order e)) c1)"
    using ap mt by (auto simp: place_limit_order_apply_def Let_def put)
  have ok: "orders_kept D mt (order_st c)" using m by (simp add: market_kept_def)
  have lst: "last_issued_order s1 = pl_order_id e" by (simp add: s1_def last_issued_order_def)
  have ok1: "orders_kept D mt s1"
  proof (rule orders_keptI)
    fix j o'
    assume "fmlookup (limit_orders s1) j = Some o'"
    then show "lo_order_id o' = j \<and> j \<le> last_issued_order s1 \<and> is_ok (into_notional_price D (lo_trigger_price o') mt)"
      using orders_keptD(1) [OF ok, of j o'] id(2) unfolding lst by (simp add: s1_def)
  qed (use orders_keptD(2,3) [OF ok] in \<open>simp_all add: s1_def orders_by_price_def cong: DirectionToNotional.case_cong\<close>)
  have w0: "works D mt c (upd_orders (\<lambda>s. s\<lparr>last_order_id := Some (pl_order_id e)\<rparr>) c)"
    by (rule works_orders [OF m]) (use ok1 in \<open>simp add: s1_def\<close>)
  have sb: "same_books (upd_orders (\<lambda>s. s\<lparr>last_order_id := Some (pl_order_id e)\<rparr>) c) c1"
    by (rule moves_books [OF crank_fee_moves [OF c1]])
  have w1: "works D mt c c1" using works_trans [OF w0 works_books [OF works_kept [OF w0] sb]] .
  have o1: "order_st c1 = s1" using sb by (simp add: same_books_def upd_orders_def s1_def)
  have "fmlookup (limit_orders s1) (pl_order_id e) = None"
    using orders_keptD(1) [OF ok, of "pl_order_id e"] id(2)
    by (cases "fmlookup (limit_orders (order_st c)) (pl_order_id e)") (auto simp: s1_def)
  then have "orders_kept D mt (put_order key (pl_order e) (order_st c1))"
    unfolding o1 by (intro put_order_kept [OF ok1 _ key]) (simp_all add: id(1) lst)
  from works_orders [where f = "put_order key (pl_order e)", OF works_kept [OF w1] this] w1 show ?thesis
    unfolding c' works_event using works_trans by blast
qed

lemma cancel_order_works:
  assumes m: "market_kept D mt c" and mt: "mid_market_type (env_market_id env) = mt"
    and new: "cancel_limit_order_new c i = Inr e" and ap: "cancel_limit_order_apply D env e c = Inr c'"
  shows "works D mt c c'"
proof -
  have l: "fmlookup (limit_orders (order_st c)) i = Some (cl_order e)"
    using new by (auto simp: cancel_limit_order_new_def limit_order_load_def)
  obtain c1 c2 x where c1: "limit_order_remove D env (cl_order e) c = Inr c1"
    and c2: "add_token_transfer_msg D (lo_owner (cl_order e)) (lo_collateral (cl_order e)) c1 = Inr c2"
    and c': "c' = add_event env x c2"
    using ap by (auto simp: cancel_limit_order_apply_def)
  have w: "works D mt c c1" by (rule remove_order_works [OF m mt l c1])
  from works_trans [OF w works_books [OF works_kept [OF w] moves_books [OF transfer_moves [OF c2]]]]
  show ?thesis by (simp add: c')
qed

section \<open>The whole execution of an item\<close>

lemma helper_execute_works:
  assumes m: "market_kept D mt c" and mt: "mid_market_type (env_market_id env) = mt"
    and x: "helper_execute D env item price c = Inr (t, c')"
  shows "works D mt c c'"
proof -
  have b: "books_kept c" using m by (simp add: market_kept_def)
  note r = works_reposits [OF m]
  show ?thesis
  proof (cases "de_item item")
    case (OpenPosition)
    with x obtain params e i where "open_position_new D env c params price = Inr e" "open_position_apply D env e SaveOpenMarket c = Inr (i, c')"
      by (auto simp: helper_execute_def Let_def)
    from r [OF reposits_cases(4) [OF open_apply_books [OF b this]]] show ?thesis .
  next
    case (PlaceLimitOrder)
    with x obtain params e i where "place_limit_order_new D env c params price = Inr e" "place_limit_order_apply D env e c = Inr (i, c')"
      by (auto simp: helper_execute_def Let_def)
    from place_order_works [OF m mt this] show ?thesis .
  next
    case (CancelLimitOrder i)
    with x obtain e where "cancel_limit_order_new c i = Inr e" "cancel_limit_order_apply D env e c = Inr c'"
      by (auto simp: helper_execute_def Let_def)
    from cancel_order_works [OF m mt this] show ?thesis .
  next
    case (UpdatePositionMaxGains i g)
    with x have "and_then (execute_slippage_assert_and_liquifund D env i None None price c) (\<lambda>c. and_then (get_position c i) (\<lambda>p.
        and_then (update_max_gains_new D env c p g price) (\<lambda>u. update_max_gains_apply D env u c))) = Inr c'"
      by (simp add: helper_execute_def Let_def)
    from r [OF settle_then [OF b this max_gains_step]] show ?thesis .
  next
    case (UpdatePositionTakeProfitPrice i tp)
    with x have "and_then (execute_slippage_assert_and_liquifund D env i None None price c) (\<lambda>c. and_then (get_position c i) (\<lambda>p.
        and_then (update_take_profit_new D env c p tp price) (\<lambda>u. update_max_gains_apply D env u c))) = Inr c'"
      by (simp add: helper_execute_def Let_def)
    from r [OF settle_then [OF b this take_profit_step]] show ?thesis .
  next
    case (UpdatePositionStopLossPrice i sl)
    with x have "and_then (execute_slippage_assert_and_liquifund D env i None None price c) (\<lambda>c.
        and_then (update_stop_loss_new D env c i sl price) (\<lambda>u. trigger_order_apply D env u c)) = Inr c'"
      by (simp add: helper_execute_def Let_def)
    from r [OF settle_then [OF b this trigger_step(2)]] show ?thesis .
  next
    case (SetTriggerOrder i sl tp)
    with x have "and_then (execute_slippage_assert_and_liquifund D env i None None price c) (\<lambda>c.
        and_then (trigger_order_new D env c i sl tp price) (\<lambda>u. trigger_order_apply D env u c)) = Inr c'"
      by (simp add: helper_execute_def Let_def)
    from r [OF settle_then [OF b this trigger_step(1)]] show ?thesis .
  next
    case (ClosePosition i sa)
    with x have "and_then (helper_close_position D env c i sa price) (\<lambda>e. close_position_apply D env e c) = Inr c'"
      by (simp add: helper_execute_def Let_def)
    from r [OF close_step [OF b this]] show ?thesis .
  next
    case (UpdatePositionLeverage i l sa)
    with x have "execute_update_leverage D env i l sa price c = Inr c'" by (auto simp: helper_execute_def Let_def)
    from r [OF execute_leverage_reposits [OF b this]] show ?thesis .
  qed (use x in \<open>auto simp: helper_execute_def Let_def intro!: r dest: execute_update_reposits [OF b]\<close>)
qed

end

end
