(* ===== verification/PoolFrame.thy ===== *)
theory PoolFrame
  imports TradingFrame PoolMessages
begin

text \<open>
  The messages of the liquidity providers leave the trading side alone: the operations of
  \<open>liquidity.rs\<close> and its history touch the pool, the fees and the transfers only.
\<close>

named_theorems pool_frame \<open>operations of the pool that keep the trading side\<close>

lemma same_trading_stats_addr [simp]: "same_trading c (save_liquidity_stats_addr a s c') = same_trading c c'"
  "same_trading (save_liquidity_stats_addr a s c) c' = same_trading c c'"
  by (simp_all add: save_liquidity_stats_addr_def same_trading_def)

lemma lp_history_trading [pool_frame]:
  "lp_history_add_action D env a k t n c = Inr c' \<Longrightarrow> same_trading c c'"
  "lp_history_add_summary_deposit D env a n c = Inr c' \<Longrightarrow> same_trading c c'"
  "lp_history_add_summary_yield D env a n c = Inr c' \<Longrightarrow> same_trading c c'"
  by (auto simp: lp_history_add_action_def lp_history_add_summary_deposit_def lp_history_add_summary_yield_def
      Let_def same_trading_def)

lemma lp_history_kinds_trading [pool_frame]:
  "lp_history_add_deposit D env a t n x c = Inr c' \<Longrightarrow> same_trading c c'"
  "lp_history_add_claim_yield D env a n c = Inr c' \<Longrightarrow> same_trading c c'"
  "lp_history_add_reinvest_yield D env a t n x c = Inr c' \<Longrightarrow> same_trading c c'"
  "lp_history_add_unstake_xlp D env a t n c = Inr c' \<Longrightarrow> same_trading c c'"
  "lp_history_add_withdraw D env a t n c = Inr c' \<Longrightarrow> same_trading c c'"
  "lp_history_add_collect_lp D env a t n c = Inr c' \<Longrightarrow> same_trading c c'"
  by (auto simp: lp_history_add_deposit_def lp_history_add_claim_yield_def lp_history_add_reinvest_yield_def
      lp_history_add_unstake_xlp_def lp_history_add_withdraw_def lp_history_add_collect_lp_def
      intro: same_trading_trans dest!: lp_history_trading)

lemma save_stats_trading [pool_frame]: "save_liquidity_stats D s c = Inr c' \<Longrightarrow> same_trading c c'"
  by (auto simp: save_liquidity_stats_def same_trading_def split: if_splits)

context decimal256
begin

lemma pool_primitives_trading [pool_frame]:
  "update_accrued_yield D a c = Inr c' \<Longrightarrow> same_trading c c'"
  "add_pool_size_change_events D env s price c = Inr c' \<Longrightarrow> same_trading c c'"
  "register_lp_claimed_yield D n c = Inr c' \<Longrightarrow> same_trading c c'"
  "add_token_transfer_msg D a n c = Inr c' \<Longrightarrow> same_trading c c'"
  "transfer_fees_to_dao D env c = Inr c' \<Longrightarrow> same_trading c c'"
  "provide_crank_funds D n c = Inr c' \<Longrightarrow> same_trading c c'"
proof -
  show "same_trading c c'" if "update_accrued_yield D a c = Inr c'" using moves_same [OF accrued_moves [OF that]] .
  show "same_trading c c'" if "add_pool_size_change_events D env s price c = Inr c'"
    using that by (auto simp: add_pool_size_change_events_def event_moves dest!: ratio_event_moves moves_same)
  show "same_trading c c'" if "register_lp_claimed_yield D n c = Inr c'"
    using that by (auto simp: register_lp_claimed_yield_def same_trading_def)
  show tr: "same_trading c c'" if "add_token_transfer_msg D a n c = Inr c'" for a n c
    using moves_same [OF transfer_moves [OF that]] .
  show "same_trading c c'" if "transfer_fees_to_dao D env c = Inr c'"
    using that by (auto simp: transfer_fees_to_dao_def Let_def dest!: tr) (simp add: same_trading_def)
  show "same_trading c c'" if "provide_crank_funds D n c = Inr c'"
    using that by (auto simp: provide_crank_funds_def same_trading_def)
qed

lemma collect_unstaked_trading [pool_frame]: "collect_unstaked_lp D env a c = Inr (x, c') \<Longrightarrow> same_trading c c'"
  by (auto simp: collect_unstaked_lp_def Let_def dest!: pool_frame intro: same_trading_trans split: option.splits)

lemma bookkeeping_trading [pool_frame]: "perform_lp_book_keeping D env a c = Inr c' \<Longrightarrow> same_trading c c'"
  by (auto simp: perform_lp_book_keeping_def intro: same_trading_trans dest!: pool_primitives_trading(1) collect_unstaked_trading)

lemma deposit_inner_trading [pool_frame]: "liquidity_deposit_inner D env a n x c = Inr (s, c') \<Longrightarrow> same_trading c c'"
  by (auto simp: liquidity_deposit_inner_def Let_def intro: same_trading_trans
      dest!: bookkeeping_trading save_stats_trading pool_primitives_trading(2))

lemma stake_trading [pool_frame]: "liquidity_stake_lp D env a n c = Inr c' \<Longrightarrow> same_trading c c'"
  by (auto simp: liquidity_stake_lp_def Let_def intro: same_trading_trans dest!: bookkeeping_trading save_stats_trading)

lemma stop_unstaking_trading [pool_frame]:
  assumes x: "liquidity_stop_unstaking_xlp D env a x y c = Inr (s, c')"
  shows "same_trading c c'"
proof -
  obtain c1 s0 where c1: "perform_lp_book_keeping D env a c = Inr c1" and s0: "load_liquidity_stats_addr c1 a = Inr s0"
    using x unfolding liquidity_stop_unstaking_xlp_def and_then_eq_Inr by blast
  have "same_trading c1 c'"
    using x c1 s0 by (cases "unstaking s0")
      (auto simp: liquidity_stop_unstaking_xlp_def Let_def dest: save_stats_trading split: if_splits)
  with bookkeeping_trading [OF c1] show ?thesis by (rule same_trading_trans)
qed

lemma unstake_trading [pool_frame]: "liquidity_unstake_xlp D env a n c = Inr c' \<Longrightarrow> same_trading c c'"
  by (auto simp: liquidity_unstake_xlp_def Let_def
      dest!: stop_unstaking_trading save_stats_trading lp_history_kinds_trading;
      meson same_trading_trans)

lemma claim_trading [pool_frame]: "liquidity_claim_yield D env a x c = Inr (n, c') \<Longrightarrow> same_trading c c'"
  by (auto simp: liquidity_claim_yield_def Let_def
      dest!: bookkeeping_trading pool_primitives_trading lp_history_kinds_trading split: if_splits;
      meson same_trading_trans)

lemma withdraw_trading [pool_frame]: "liquidity_withdraw D env a n c = Inr c' \<Longrightarrow> same_trading c c'"
  by (auto simp: liquidity_withdraw_def Let_def
      dest!: bookkeeping_trading save_stats_trading pool_primitives_trading lp_history_kinds_trading;
      meson same_trading_trans)

lemma deposit_trading [pool_frame]: "liquidity_deposit D env a n x c = Inr c' \<Longrightarrow> same_trading c c'"
  by (auto simp: liquidity_deposit_def
      dest!: deposit_inner_trading stake_trading lp_history_kinds_trading split: if_splits;
      meson same_trading_trans)

lemma reinvest_trading [pool_frame]: "reinvest_yield D env a n x c = Inr c' \<Longrightarrow> same_trading c c'"
  by (auto simp: reinvest_yield_def
      dest!: claim_trading deposit_inner_trading stake_trading pool_primitives_trading(4) lp_history_kinds_trading
      split: if_splits option.splits;
      meson same_trading_trans)

lemma token_proxy_trading [pool_frame]: "liquidity_token_proxy D env i r k msg c = Inr c' \<Longrightarrow> same_trading c c'"
proof -
  assume x: "liquidity_token_proxy D env i r k msg c = Inr c'"
  have bc: "same_trading c c'" if "liquidity_token_balance_change_inner D env o' d k c = Inr c'" for o' d c c'
    using that by (auto simp: liquidity_token_balance_change_inner_def Let_def dest!: bookkeeping_trading)
  have mv: "same_trading c c'" if "move_liquidity_tokens D env o' r' n k c = Inr c'" for o' r' n c
    using that by (auto simp: move_liquidity_tokens_def intro: same_trading_trans dest!: bc)
  have parts: "same_trading (set_allowances k ms c) = same_trading c" "same_trading c (set_allowances k ms c2) = same_trading c c2"
    "same_trading (notify_receiver a m c) = same_trading c" "same_trading (add_event env e c) = same_trading c"
    "same_trading c (add_event env e c2) = same_trading c c2" for ms c c2 a m e
    by (simp_all add: set_allowances_def notify_receiver_def same_trading_def fun_eq_iff)
  show ?thesis
    using x by (cases msg; auto simp: liquidity_token_proxy_def liquidity_token_handle_exec_def
        liquidity_token_transfer_def liquidity_token_send_with_msg_def liquidity_token_transfer_from_def
        liquidity_token_send_with_msg_from_def liquidity_token_increase_allowance_def
        liquidity_token_decrease_allowance_def liquidity_token_deduct_allowance_inner_def Let_def parts dest!: mv)
qed

lemma lp_msg_trading: "execute_lp_msg D env sender msg c = Inr c' \<Longrightarrow> same_trading c c'"
  by (cases msg; auto simp: execute_lp_msg_def dest!: deposit_trading reinvest_trading
      withdraw_trading claim_trading stake_trading unstake_trading stop_unstaking_trading collect_unstaked_trading
      pool_primitives_trading token_proxy_trading split: if_splits;
      meson same_trading_trans)

end

end
