(* ===== verification/MarketSteps.thy ===== *)
theory MarketSteps
  imports CrankInvariant PoolFrame
begin

text \<open>
  The crank and the steps of the market: one execution of work, a batch of it, and the relation of all
  the steps a state can take. The invariant holds in every state the steps reach from a new market.
\<close>

section \<open>The crank\<close>

definition stays :: "dec256_api \<Rightarrow> MarketType \<Rightarrow> Ctx \<Rightarrow> Ctx \<Rightarrow> bool" where
  "stays D mt c c' \<longleftrightarrow> state_kept D mt c' \<and> owners_kept c c'"

lemma stays_trans: "stays D mt a b \<Longrightarrow> stays D mt b c \<Longrightarrow> stays D mt a c"
  unfolding stays_def using owners_kept_trans by blast

lemma stays_works: "state_kept D mt c \<Longrightarrow> works D mt c c' \<Longrightarrow> stays D mt c c'"
  by (simp add: stays_def works_state) (simp add: works_def advances_def)

lemma stays_reposits: "state_kept D mt c \<Longrightarrow> reposits c c' \<Longrightarrow> stays D mt c c'"
  by (rule stays_works) (simp_all add: works_reposits state_kept_def)

lemma stays_books: "state_kept D mt c \<Longrightarrow> same_books c c' \<Longrightarrow> stays D mt c c'"
  by (rule stays_works) (simp_all add: works_books state_kept_def)

lemma state_books: "state_kept D mt c \<Longrightarrow> books_kept c"
  by (simp add: state_kept_def market_kept_def)

lemma stays_event [simp]: "stays D mt (add_event env e c) c' = stays D mt c c'" "stays D mt c (add_event env e c') = stays D mt c c'"
  by (simp_all add: stays_def owners_kept_def owner_at_def state_kept_def market_kept_def subs_kept_def)

lemma state_event [simp]: "state_kept D mt (add_event env e c) = state_kept D mt c"
  by (simp add: state_kept_def market_kept_def subs_kept_def)

text \<open>A change of the progress of the crank, of the prices or of the shutdown flag.\<close>

definition same_state :: "Ctx \<Rightarrow> Ctx \<Rightarrow> bool" where
  "same_state c c' \<longleftrightarrow> pos_st c' = pos_st c \<and> nft_st c' = nft_st c \<and> order_st c' = order_st c
     \<and> deferred_st c' = deferred_st c \<and> open_long_interest c' = open_long_interest c
     \<and> open_short_interest c' = open_short_interest c \<and> total_funding_margin c' = total_funding_margin c
     \<and> deferred_submessages c' = deferred_submessages c"

lemma stays_same:
  assumes "state_kept D mt c" "same_state c c'"
  shows "stays D mt c c'"
proof -
  have "owner_at c' = owner_at c" using assms(2) by (simp add: owner_at_def fun_eq_iff same_state_def)
  then show ?thesis
    using assms by (simp add: stays_def state_kept_def market_kept_def subs_kept_def books_kept_def
        interest_tracked_def positions_sound_def same_state_def owners_kept_def)
qed

lemma same_state_refl [simp]: "same_state c c"
  by (simp add: same_state_def)

lemma same_state_crank: "same_state c (upd_crank f c)"
  by (simp add: same_state_def upd_crank_def)

lemma accumulate_same:
  "accumulate_borrow_fee_rate D env price c = Inr c' \<Longrightarrow> same_state c c'"
  "accumulate_funding_rate D env price c = Inr c' \<Longrightarrow> same_state c c'"
proof -
  show "same_state c c'" if "accumulate_borrow_fee_rate D env price c = Inr c'"
    using that by (auto simp: accumulate_borrow_fee_rate_def same_state_def)
  show "same_state c c'" if f: "accumulate_funding_rate D env price c = Inr c'"
  proof -
    obtain e l s where "c' = add_event env e (c\<lparr>long_rf_series := l, short_rf_series := s\<rparr>)"
      using f unfolding accumulate_funding_rate_def Let_def and_then_eq_Inr split_beta sum.inject by metis
    then show ?thesis by (simp add: same_state_def)
  qed
qed

context decimal256
begin

lemma crank_exec_stays:
  assumes k: "state_kept D mt c" and mt: "mid_market_type (env_market_id env) = mt"
    and w: "crank_work c price = Inr work" and x: "crank_exec D env work price c = Inr (sub, c')"
  shows "stays D mt c c'"
proof -
  define c0 where "c0 = add_event env (WorkEvent (CrankWorkInfoEvent work price)) c"
  have k0: "state_kept D mt c0" and q: "queue_kept (deferred_st c0)"
    using k by (simp_all add: c0_def) (simp add: state_kept_def market_kept_def)
  note b0 = state_books [OF k0]
  have "stays D mt c0 c'"
  proof (cases work)
    case WorkResetLpBalances
    then have "crank_reset_lp_balances D c0 = Inr c'" using x by (auto simp: crank_exec_def Let_def c0_def)
    from stays_books [OF k0 moves_books [OF reset_moves [OF this]]] show ?thesis .
  next
    case (WorkLiquifunding i)
    then obtain p where p: "open_at c0 i = Some p"
      "position_liquifund_store D env p (pos_liquifunded_at p) (pos_next_liquifunding p) True SaveCrank c0 = Inr c'"
      using x by (auto simp: crank_exec_def Let_def c0_def)
    from stays_reposits [OF k0 reposits_cases(3) [OF liquifund_store_settled [OF b0 p]]] show ?thesis .
  next
    case (WorkCloseAllPositions i)
    then obtain p e where p: "open_at c0 i = Some p" "close_position_via_msg D env c0 p price = Inr e"
      "close_position_apply D env e c0 = Inr c'"
      using x by (auto simp: crank_exec_def Let_def c0_def)
    from stays_reposits [OF k0 reposits_cases(2) [OF close_via_msg_closes [OF b0 p]]] show ?thesis .
  next
    case (WorkLiquidation i r)
    then have "crank_liquidation D env i r price c0 = Inr c'" using x by (auto simp: crank_exec_def Let_def c0_def)
    from stays_reposits [OF k0 reposits_cases(2) [OF liquidation_closes [OF b0 this]]] show ?thesis .
  next
    case (WorkDeferredExec i t)
    then have "process_deferred_exec i price c0 = Inr c'" using x by (auto simp: crank_exec_def Let_def c0_def)
    moreover have "i = last_processed (deferred_st c0) + 1" "i \<le> last_issued (deferred_st c0)"
      using deferred_work_next [of c price i t] q w WorkDeferredExec by (simp_all add: c0_def)
    ultimately show ?thesis using process_kept [OF k0] unfolding stays_def by blast
  next
    case (WorkLimitOrder i)
    then have "limit_order_execute_order D env i price c0 = Inr c'" using x by (auto simp: crank_exec_def Let_def c0_def)
    from stays_works [OF k0 execute_order_works [OF _ mt this]] k0 show ?thesis by (simp add: state_kept_def)
  next
    case WorkCompleted
    then obtain c1 c2 where "accumulate_borrow_fee_rate D env price c0 = Inr c1" "accumulate_funding_rate D env price c1 = Inr c2"
      and c': "c' = upd_crank (\<lambda>s. s\<lparr>last_crank_completed := Some (pp_timestamp price)\<rparr>) c2"
      using x by (auto simp: crank_exec_def Let_def c0_def crank_completed_def)
    then have "same_state c0 c'"
      using accumulate_same [of D env price] by (auto simp: same_state_def upd_crank_def)
    then show ?thesis by (rule stays_same [OF k0])
  qed
  then show ?thesis by (simp add: c0_def)
qed

lemma crank_loop_stays:
  assumes "mid_market_type (env_market_id env) = mt"
  shows "state_kept D mt c \<Longrightarrow> crank_loop D env progress c = Inr (sub, progress', c') \<Longrightarrow> stays D mt c c'"
proof (induction "cr_weight_budget_left progress" arbitrary: progress c rule: less_induct)
  case less
  note loop = less.prems(2) [unfolded crank_loop.simps [of D env progress c]]
  show ?case
  proof (cases "next_crank_timestamp env c")
    case None
    then have "c' = c" using loop by simp
    then show ?thesis using stays_same [OF less.prems(1)] by simp
  next
    case (Some price)
    then obtain work where w: "crank_work c price = Inr work"
      using loop by auto
    show ?thesis
    proof (cases "cr_weight_budget_left progress < work_weight work")
      case True
      then have "c' = upd_crank (\<lambda>s. s\<lparr>crank_batch := None\<rparr>) c"
        using loop Some w by simp
      then show ?thesis using stays_same [OF less.prems(1) same_state_crank] by simp
    next
      case False
      define p where "p = progress\<lparr>cr_weight_budget_left := cr_weight_budget_left progress - work_weight work,
          cr_actual := cr_actual progress @ [(work, price)],
          cr_paying_work_done := (if receives_crank_rewards work
             then cr_paying_work_done progress + 1 else cr_paying_work_done progress)\<rparr>"
      obtain submessage c1 where x: "crank_exec D env work price c = Inr (submessage, c1)"
        and r: "(if submessage then Inr (True, p, upd_crank (\<lambda>s. s\<lparr>crank_batch := Some p\<rparr>) c1)
          else crank_loop D env p c1) = Inr (sub, progress', c')"
        using loop Some w False by (auto simp: Let_def p_def [symmetric])
      have s: "stays D mt c c1" by (rule crank_exec_stays [OF less.prems(1) assms w x])
      then have k1: "state_kept D mt c1" by (simp add: stays_def)
      have "cr_weight_budget_left p < cr_weight_budget_left progress"
        using False work_weight_pos [of work] by (simp add: p_def)
      then have "stays D mt c1 c'"
        using r less.hyps [of p c1] k1 stays_same [OF k1 same_state_crank] by (cases submessage) auto
      with s show ?thesis by (rule stays_trans)
    qed
  qed
qed

lemma crank_batch_stays:
  assumes k: "state_kept D mt c" and mt: "mid_market_type (env_market_id env) = mt"
    and x: "crank_exec_batch D env start c = Inr c'"
  shows "stays D mt c c'"
proof -
  obtain progress sub progress' c1 where l: "crank_loop D env progress c = Inr (sub, progress', c1)"
    and r: "(if sub then Inr c1 else and_then (allocate_crank_fees D env (cr_rewards progress') (cr_paying_work_done progress') c1)
       (\<lambda>ctx. Inr (add_event env (WorkEvent (CrankExecBatchEvent (cr_requested progress') (cr_paying_work_done progress')
         (cr_actual progress'))) ctx))) = Inr c'"
    using x by (auto simp: crank_exec_batch_def)
  have s: "stays D mt c c1" by (rule crank_loop_stays [OF mt k l])
  then have k1: "state_kept D mt c1" by (simp add: stays_def)
  have "stays D mt c1 c'"
  proof (cases sub)
    case True
    then show ?thesis using r stays_same [OF k1] by simp
  next
    case False
    then obtain c2 e where "allocate_crank_fees D env (cr_rewards progress') (cr_paying_work_done progress') c1 = Inr c2"
        "c' = add_event env e c2" using r by auto
    then show ?thesis using stays_books [OF k1 moves_books [OF allocate_crank_moves]] by simp
  qed
  with s show ?thesis by (rule stays_trans)
qed

end

section \<open>The steps of the market\<close>

text \<open>A market with no position, token, order or deferred execution yet.\<close>

definition market_start :: "Ctx \<Rightarrow> bool" where
  "market_start c \<longleftrightarrow> open_positions (pos_st c) = fmempty \<and> next_liquifunding (pos_st c) = fmempty
     \<and> price_trigger_desc (pos_st c) = fmempty \<and> price_trigger_asc (pos_st c) = fmempty
     \<and> total_funding_margin c = 0 \<and> open_long_interest c = 0 \<and> open_short_interest c = 0
     \<and> nft_count (nft_st c) = 0 \<and> nft_ids (nft_st c) = fmempty \<and> nft_owners (nft_st c) = fmempty
     \<and> nft_approvals (nft_st c) = fmempty
     \<and> limit_orders (order_st c) = fmempty \<and> orders_by_addr (order_st c) = fmempty
     \<and> orders_by_price_long (order_st c) = fmempty \<and> orders_by_price_short (order_st c) = fmempty
     \<and> deferred_latest_ids (deferred_st c) = None \<and> deferred_execs (deferred_st c) = fmempty
     \<and> pending_for_position (deferred_st c) = fmempty \<and> pending_for_order (deferred_st c) = fmempty
     \<and> deferred_submessages c = []"

text \<open>The steps: a batch of the crank, a queued submessage with its reply, a deferred message of a trader, a
  message to the tokens, a message of a liquidity provider, a new table of prices, the start of a shutdown.\<close>

inductive market_step :: "dec256_api \<Rightarrow> MarketType \<Rightarrow> Ctx \<Rightarrow> Ctx \<Rightarrow> bool" for D mt where
  step_crank: "mid_market_type (env_market_id env) = mt \<Longrightarrow> crank_exec_batch D env start c = Inr c'
    \<Longrightarrow> market_step D mt c c'"
| step_dispatch: "mid_market_type (env_market_id env) = mt \<Longrightarrow> dispatch_deferred D env c = Inr c'
    \<Longrightarrow> market_step D mt c c'"
| step_defer: "defer_execution D env trader item funds c = Inr c' \<Longrightarrow> market_step D mt c c'"
| step_nft: "nft_handle_exec env sender msg c = Inr c' \<Longrightarrow> market_step D mt c c'"
| step_pool: "execute_lp_msg D env sender lp_msg c = Inr c' \<Longrightarrow> market_step D mt c c'"
| step_prices: "market_step D mt c (c\<lparr>prices := m\<rparr>)"
| step_shutdown: "set_close_all_positions c = Inr c' \<Longrightarrow> market_step D mt c c'"

lemma market_start_kept: "market_start c \<Longrightarrow> state_kept D mt c"
proof -
  assume s: "market_start c"
  have "owner_at c = (\<lambda>_. None)" using s by (simp add: owner_at_def fun_eq_iff market_start_def)
  then have "books_kept c"
    using s by (simp add: books_kept_def pos_indexed_def nft_indexed_def interest_tracked_def positions_sound_def
        market_start_def dec_lim_def)
  moreover have "orders_kept D mt (order_st c)"
    by (rule orders_keptI) (use s in \<open>auto simp: market_start_def orders_by_price_def split: DirectionToNotional.split\<close>)
  moreover have "queue_kept (deferred_st c)"
    by (rule queue_keptI) (use s in \<open>auto simp: market_start_def last_issued_def last_processed_def is_pending_def\<close>)
  ultimately show ?thesis using s by (simp add: state_kept_def market_kept_def subs_kept_def market_start_def)
qed

lemma handed_state: "state_kept D mt c \<Longrightarrow> handed c c' \<Longrightarrow> state_kept D mt c'"
  by (simp add: state_kept_def market_kept_def subs_kept_def handed_def same_rest_def)

context decimal256
begin

lemma market_step_kept:
  assumes k: "state_kept D mt c" and st: "market_step D mt c c'"
  shows "state_kept D mt c'"
  using st
proof cases
  case (step_crank env start)
  then show ?thesis using crank_batch_stays [OF k] by (simp add: stays_def)
next
  case (step_dispatch env)
  then show ?thesis using dispatch_kept [OF k] by simp
next
  case step_defer
  then show ?thesis using defer_kept [OF k] by blast
next
  case step_nft
  then show ?thesis using handed_state [OF k nft_messages_handed [OF state_books [OF k]]] by blast
next
  case step_pool
  from stays_books [OF k same_books_trading [OF lp_msg_trading [OF this]]] show ?thesis by (simp add: stays_def)
next
  case (step_prices m)
  then have "same_state c c'" by (simp add: same_state_def)
  from stays_same [OF k this] show ?thesis by (simp add: stays_def)
next
  case step_shutdown
  then have "same_state c c'" by (auto simp: set_close_all_positions_def same_state_def)
  from stays_same [OF k this] show ?thesis by (simp add: stays_def)
qed

end

sublocale decimal256 \<subseteq> market: invariant_system market_start "market_step D mt" "state_kept D mt" for mt
  by unfold_locales (blast intro: market_start_kept market_step_kept)+

end
