(* ===== verification/MarketExamples.thy ===== *)
theory MarketExamples
  imports MarketSteps PoolExamples
begin

text \<open>
  Two small markets in which the properties of the trading side are applied: one with nothing open, which
  is a start of the step relation, and one with a long position of Alice and a deferred message of Bob.
\<close>

section \<open>An empty market\<close>

definition empty_market :: Ctx where
  "empty_market = sample_pool\<lparr>open_long_interest := 0, open_short_interest := 0, total_funding_margin := 0\<rparr>"

lemma empty_market_start: "market_start empty_market"
  by (simp add: market_start_def empty_market_def sample_pool_def empty_storage)



section \<open>A market with a position\<close>

definition sample_margin :: LiquidationMargin where
  "sample_margin = \<lparr>lm_borrow = mic 10000, lm_funding = mic 20000, lm_delta_neutrality = mic 10000,
     lm_crank = mic 10000, lm_exposure = mic 50000\<rparr>"

definition sample_position :: Position where
  "sample_position = \<lparr>pos_owner = ''alice'', pos_id = 1,
     pos_deposit_collateral = \<lparr>scu_collateral = new_positive (mic 10000000), scu_usd = new_positive (mic 10000000)\<rparr>,
     pos_active_collateral = mic 10000000, pos_counter_collateral = mic 5000000,
     pos_notional_size = new_positive (mic 2000000000), pos_created_at = 500, pos_price_point_created_at = Some 500,
     pos_trading_fee = \<lparr>cu_collateral = 0, cu_usd = 0\<rparr>,
     pos_funding_fee = \<lparr>scu_collateral = signed_zero, scu_usd = signed_zero\<rparr>,
     pos_borrow_fee = \<lparr>cu_collateral = 0, cu_usd = 0\<rparr>, pos_crank_fee = \<lparr>cu_collateral = 0, cu_usd = 0\<rparr>,
     pos_delta_neutrality_fee = \<lparr>scu_collateral = signed_zero, scu_usd = signed_zero\<rparr>,
     pos_liquifunded_at = 500, pos_next_liquifunding = 1000, pos_stop_loss_override = None,
     pos_stop_loss_override_notional = None, pos_liquidation_price = Some (mic 2000000),
     pos_liquidation_margin = sample_margin, pos_take_profit_trader = None,
     pos_take_profit_trader_notional = None, pos_take_profit_total = Some (mic 5000000)\<rparr>"

definition sample_item :: DeferredExecWithStatus where
  "sample_item = \<lparr>de_id = 1, de_created = 450, de_status = DeferredPending, de_owner = ''bob'',
     de_item = OpenPosition None dec_one LongBase None None None (mic 7000000) 0 0\<rparr>"

definition traded_market :: Ctx where
  "traded_market = empty_market\<lparr>open_long_interest := mic 2000000000, delta_neutrality_fund := Some (mic 60000), total_funding_margin := mic 20000,
     pos_st := \<lparr>open_positions = fmupd 1 sample_position fmempty, last_position_id = 1,
       price_trigger_desc = fmupd (mic 2000000, 1) Liquidated fmempty,
       price_trigger_asc = fmupd (mic 5000000, 1) MaxGains fmempty,
       next_liquifunding = fmupd (1000, 1) () fmempty, closed_position_history = fmempty, closed_positions = fmempty\<rparr>,
     nft_st := \<lparr>nft_approvals = fmupd 1 [\<lparr>ap_spender = ''carol'', ap_expires = 700\<rparr>] fmempty, nft_operators = fmempty,
       nft_count = 1, nft_owners = fmupd (''alice'', 1) () fmempty, nft_ids = fmupd 1 () fmempty\<rparr>,
     deferred_st := deferred_empty\<lparr>deferred_latest_ids := Some \<lparr>dl_issued = 1, dl_processed = None\<rparr>,
       deferred_execs := fmupd 1 sample_item fmempty, deferred_by_wallet := fmupd (''bob'', 1) () fmempty\<rparr>\<rparr>"

lemma sample_position_triggers:
  "desc_trigger sample_position = (\<lambda>x. if x = mic 2000000 then Some Liquidated else None)"
  "asc_trigger sample_position = (\<lambda>x. if x = mic 5000000 then Some MaxGains else None)"
  by (auto simp: fun_eq_iff desc_trigger_def asc_trigger_def losses_trigger_def gains_trigger_def sample_position_def
      pos_direction_def is_negative_def new_positive_def)

lemma sample_position_sizes:
  "long_size sample_position = mic 2000000000" "short_size sample_position = 0" "funding_margin sample_position = mic 20000"
  by (simp_all add: long_size_def short_size_def funding_margin_def sample_position_def sample_margin_def
      pos_direction_def is_negative_def new_positive_def)

lemma sample_position_simps [simp]:
  "pos_id sample_position = 1" "pos_owner sample_position = ''alice''" "pos_next_liquifunding sample_position = 1000"
  by (simp_all add: sample_position_def)

lemma traded_fields [simp]:
  "open_positions (pos_st traded_market) = fmupd 1 sample_position fmempty" "last_position_id (pos_st traded_market) = 1"
  "price_trigger_desc (pos_st traded_market) = fmupd (mic 2000000, 1) Liquidated fmempty"
  "price_trigger_asc (pos_st traded_market) = fmupd (mic 5000000, 1) MaxGains fmempty"
  "next_liquifunding (pos_st traded_market) = fmupd (1000, 1) () fmempty"
  "open_long_interest traded_market = mic 2000000000" "open_short_interest traded_market = 0" "delta_neutrality_fund traded_market = Some (mic 60000)"
  "liquidity_stats traded_market = sample_stats"
  "total_funding_margin traded_market = mic 20000" "order_st traded_market = orders_empty"
  "deferred_submessages traded_market = []" "closing_all_positions traded_market = False"
  "reset_lp_status traded_market = None" "fund_transfers traded_market = fmempty"
  "deferred_execs (deferred_st traded_market) = fmupd 1 sample_item fmempty"
  "deferred_latest_ids (deferred_st traded_market) = Some \<lparr>dl_issued = 1, dl_processed = None\<rparr>"
  "nft_approvals (nft_st traded_market) = fmupd 1 [\<lparr>ap_spender = ''carol'', ap_expires = 700\<rparr>] fmempty"
  "nft_operators (nft_st traded_market) = fmempty"
  by (simp_all add: traded_market_def empty_market_def sample_pool_def deferred_empty_def sample_stats_def)

lemma fm_first_where_single: "fm_first_where P (fmupd k v fmempty) = (if P k then Some k else None)"
  by (auto simp: fm_first_where_Some fm_first_where_None)

lemma traded_prices: "prices traded_market = fmupd 500 \<lparr>ps_price = mic 3000000, ps_price_usd = mic 1000000,
    ps_price_base = mic 3000000, ps_publish_time = None, ps_publish_time_usd = None, ps_block_time = None\<rparr> fmempty"
  by (simp add: traded_market_def empty_market_def sample_pool_def)

lemma traded_crank: "crank_st traded_market = crank_empty"
  by (simp add: traded_market_def empty_market_def sample_pool_def)

definition sample_progress :: CrankProgress where
  "sample_progress = \<lparr>cr_weight_budget_left = 5, cr_paying_work_done = 0, cr_requested = 1,
     cr_rewards = ''bob'', cr_actual = []\<rparr>"

lemma sample_progress_start: "start_progress 1 ''bob'' = Inr sample_progress"
  by (simp add: start_progress_def sample_progress_def)

lemma sample_spot_price: "spot_price sample_env traded_market 500 = Inr sample_pp"
  by (simp add: spot_price_def spot_price_inner_opt_def traded_prices make_price_point_def fm_last_where_eval) (simp add: sample_pp_def)

lemma traded_trades: "trade_st traded_market = trades_empty"
  by (simp add: traded_market_def empty_market_def sample_pool_def)

lemma sample_nft_env: "env_is_expired sample_env 700 = False" "cfg_disable_position_nft_exec sample_config = False"
  by (simp_all add: sample_env_def sample_config_def default_config_def config_new_def default_bfs_dec18)

lemma traded_market_kept: "state_kept dec18 CollateralIsQuote traded_market"
proof -
  have o: "owner_at traded_market = (\<lambda>i. if i = 1 then Some ''alice'' else None)"
    by (auto simp: owner_at_def fun_eq_iff)
  have s: "fmsum f (fmupd (1 :: PositionId) sample_position fmempty) = f sample_position" for f :: "Position \<Rightarrow> nat"
    using fmsum_upd [of f "1 :: PositionId" sample_position fmempty] by (simp add: fmval_def)
  note s = s [unfolded One_nat_def]
  have "pos_indexed (pos_st traded_market) (total_funding_margin traded_market)"
    by (simp add: pos_indexed_def s sample_position_sizes sample_position_triggers)
  moreover have "nft_indexed (owner_at traded_market) (nft_st traded_market)"
    unfolding o by (simp add: nft_indexed_def traded_market_def)
  moreover have "interest_tracked traded_market" "positions_sound traded_market"
    using mic_fits [of 2000000000]
    by (simp_all add: interest_tracked_def s sample_position_sizes mic_lim_def positions_sound_def margin_covered_def
        Let_def) (simp_all add: sample_position_def sample_margin_def mic_def dec_lim_def)
  ultimately have "books_kept traded_market" by (simp add: books_kept_def)
  moreover have "orders_kept dec18 CollateralIsQuote (order_st traded_market)"
    by (rule orders_keptI) (auto simp: orders_empty_def orders_by_price_def split: DirectionToNotional.split)
  moreover have "queue_kept (deferred_st traded_market)"
    by (rule queue_keptI)
      (auto simp: last_issued_def last_processed_def is_pending_def deferred_processed_def sample_item_def item_target_def
        traded_market_def deferred_empty_def split: if_splits)
  ultimately show ?thesis by (simp add: state_kept_def market_kept_def subs_kept_def)
qed

lemma sample_transfer:
  "\<exists>c' p. nft_handle_exec sample_env ''carol'' (NftTransferMsg ''dave'' 1) traded_market = Inr c'
     \<and> open_at c' 1 = Some p \<and> pos_owner p = ''dave''"
  by (simp add: nft_handle_exec_def nft_transfer_inner_def nft_token_approvals_def nft_check_can_send_def Let_def
      position_history_add_transfer_def push_position_action_def push_trader_action_def add_event_def
      position_save_no_recalc_def upd_nft_def upd_trade_def traded_trades push_to_monotonic_def sample_nft_env trades_empty_def upd_pos_def
      fm_last_where_eval)

section \<open>An opening\<close>

text \<open>Alice opens a long position of twice her 12 units of collateral in the empty market. The rates of the
  configuration are chosen so that nearly every amount is exact.\<close>

definition opening_cfg :: Config where
  "opening_cfg = sample_config\<lparr>cfg_mute_events := True, cfg_trading_fee_notional_size := 0,
     cfg_trading_fee_counter_collateral := 0, cfg_borrow_fee_rate_max_annualized := 0, cfg_funding_rate_max_annualized := 0,
     cfg_delta_neutrality_fee_sensitivity := mic 40000000, cfg_delta_neutrality_fee_cap := mic 250000,
     cfg_liquifunding_delay_fuzz_seconds := 0\<rparr>"

definition opening_env :: Env where
  "opening_env = sample_env\<lparr>env_config := opening_cfg\<rparr>"

lemma opening_env_fields [simp]: "env_config opening_env = opening_cfg" "env_now opening_env = 600"
  "mid_market_type (env_market_id opening_env) = CollateralIsQuote"
  "is_notional_usd_id (env_market_id opening_env) = False"
  "env_referrer_for opening_env ''alice'' = Inr None"
  by (simp_all add: opening_env_def)

lemma empty_fields [simp]: "pos_st empty_market = positions_empty" "open_long_interest empty_market = 0"
  "open_short_interest empty_market = 0" "delta_neutrality_fund empty_market = Some (mic 1000000)"
  "liquidity_stats empty_market = sample_stats" "trade_st empty_market = trades_empty" "all_fees empty_market = sample_fees"
  "total_funding_margin empty_market = 0" "nft_st empty_market = nft_empty"
  "yield_per_time_per_token empty_market = yield_per_time_per_token sample_pool"
  "lp_borrow_fee_series empty_market = lp_borrow_fee_series sample_pool"
  "xlp_borrow_fee_series empty_market = xlp_borrow_fee_series sample_pool"
  by (simp_all add: empty_market_def sample_pool_def sample_stats_def)

lemma pp_ts [simp]: "pp_timestamp sample_pp = 500" by (simp add: sample_pp_def)

definition opening_params :: OpenPositionParams where
  "opening_params = \<lparr>op_owner = ''alice'', op_collateral = mic 12000000, op_crank_fee = \<lparr>cu_collateral = 0, cu_usd = 0\<rparr>,
     op_leverage = mic 2000000, op_direction = LongBase, op_slippage_assert = None, op_stop_loss_override = None,
     op_take_profit_trader = TP_Finite (mic 4000000)\<rparr>"

lemma opening_config [simp]:
  "cfg_mute_events opening_cfg" "cfg_trading_fee_notional_size opening_cfg = 0" "cfg_trading_fee_counter_collateral opening_cfg = 0"
  "cfg_borrow_fee_rate_max_annualized opening_cfg = 0" "cfg_funding_rate_max_annualized opening_cfg = 0"
  "cfg_delta_neutrality_fee_sensitivity opening_cfg = mic 40000000" "cfg_delta_neutrality_fee_cap opening_cfg = mic 250000"
  "cfg_liquifunding_delay_fuzz_seconds opening_cfg = 0" "cfg_carry_leverage opening_cfg = mic 10000000"
  "cfg_max_leverage opening_cfg = new_positive (mic 30000000)" "cfg_liquifunding_delay_seconds opening_cfg = 86400"
  "cfg_minimum_deposit_usd opening_cfg = mic 5000000" "cfg_crank_fee_charged opening_cfg = mic 100000"
  "cfg_exposure_margin_ratio opening_cfg = mic 5000" "cfg_delta_neutrality_fee_tax opening_cfg = mic 50000"
  "cfg_protocol_tax opening_cfg = mic 300000"
  by (simp_all add: opening_cfg_def sample_config_def default_config_def config_new_def default_bfs_dec18 mic_def dec_one_def)

lemma nz_add_mic [simp]: "a + b < mic_lim \<Longrightarrow> a + b \<noteq> 0 \<Longrightarrow> nz_checked_add dec18 (mic a) (mic b) = Inr (mic (a + b))"
  "a < mic_lim \<Longrightarrow> a \<noteq> 0 \<Longrightarrow> nz_checked_add dec18 (mic a) 0 = Inr (mic a)"
  using mic_fits [of "a+b"] mic_fits [of a] by (simp_all add: d18.nz_add_Inr mic_def algebra_simps)

lemma signed_two_mic: "signed_two = Signed (mic 2000000) False"
  by (simp add: signed_two_def mic_def dec_one_def new_positive_def)

lemma ninety: "900000000000000000 = mic 900000" by (simp add: mic_def)

lemmas signed_eval = number_checked_mul_def number_checked_div_def signed_checked_add_def signed_checked_sub_def
  signed_defs mic_eval Let_def min_def max_def signed_order_defs ok_def signed_two_mic
  checked_mul_number_def signed_map_def try_into_non_zero_def try_into_non_negative_value_def nonzero_new_def ninety

lemma opening_ms: "d_from_atomics dec18 MS_PER_YEAR 0 = Inr (mic 31536000000000000)"
  "as_ms_decimal_lossy dec18 86400000000000 = Inr (mic 86400000000000)"
  by (simp_all add: as_ms_decimal_lossy_def MS_PER_YEAR_def call_defs dec18_def fit_def dec_lim_def mic_def dec_one_def)

lemma mic_zero_more [simp]: "a \<noteq> 0 \<Longrightarrow> d_add dec18 0 (mic a) = d_add dec18 (mic a) 0"
  by (simp add: call_defs dec18_def)

lemmas opening_eval = open_position_new_def opening_params_def leverage_into_notional_def
    leverage_into_signed_def leverage_checked_mul_collateral_def collateral_to_notional_def price_collateral_to_notional_def
    take_profit_to_counter_collateral_def tc_notional_size_def calc_notional_size_def notional_to_collateral_def
    price_notional_to_collateral_def checked_div_dec_def tc_counter_collateral_def into_notional_price_def
    u_try_from_number_def ord_clamp_def u64_add_def u64_lim_def initial_position_def scu_new_def collateral_to_usd_def
    tp_into_notional_def transpose_res_def set_next_liquifunding_def ts_plus_seconds_def duration_from_seconds_def
    u64_mul_def ts_add_def positions_empty_def cu_default_def scu_default_def lm_default_def trade_volume_usd_def
    notional_to_usd_def position_validate_leverage_data_def active_leverage_to_notional_def leverage_calculate_def
    div_non_zero_def position_validate_trader_leverage_def leverage_into_base_def leverage_split_def approx_eq_number_def
    validate_minimum_deposit_collateral_def checked_mul_dec_def
    signed_zero_def EPS_E7_def charge_and_lock_def calculate_trade_fee_open_def calculate_trade_fee_def cu_checked_add_assign_def
    nz_checked_sub_def charge_delta_neutrality_fee_def charge_delta_neutrality_fee_no_update_def positions_net_open_interest_def
    multi_pass_run_def multi_pass_new_def update_inner_def calculate_delta_neutrality_fee_amount_def cap_payout_def
    cap_by_margin_def u_checked_add_signed_def delta_neutrality_protocol_fees_def unwrap_or_def nz_checked_sub_signed_def
    add_delta_neutrality_fee_def scu_checked_add_assign_def liquidity_lock_new_def min_unlocked_liquidity_def
    liquidation_margin_def usd_to_collateral_def lm_total_def pos_direction_def adjust_open_interest_new_def
    check_delta_neutrality_cap_def direction_into_base_def fee_delta_def opening_ms try_from_signed_def div_non_zero_dec_def

definition opening_position :: Position where
  "opening_position = \<lparr>pos_owner = ''alice'', pos_id = 1,
     pos_deposit_collateral = \<lparr>scu_collateral = Signed (mic 12000000) False, scu_usd = Signed (mic 12000000) False\<rparr>,
     pos_active_collateral = mic 9600000, pos_counter_collateral = mic 8000000,
     pos_notional_size = Signed (mic 8000000) False, pos_created_at = 600, pos_price_point_created_at = Some 500,
     pos_trading_fee = \<lparr>cu_collateral = 0, cu_usd = 0\<rparr>,
     pos_funding_fee = \<lparr>scu_collateral = Signed 0 False, scu_usd = Signed 0 False\<rparr>,
     pos_borrow_fee = \<lparr>cu_collateral = 0, cu_usd = 0\<rparr>, pos_crank_fee = \<lparr>cu_collateral = 0, cu_usd = 0\<rparr>,
     pos_delta_neutrality_fee = \<lparr>scu_collateral = Signed (mic 2400000) False, scu_usd = Signed (mic 2400000) False\<rparr>,
     pos_liquifunded_at = 500, pos_next_liquifunding = 86400000000500, pos_stop_loss_override = None,
     pos_stop_loss_override_notional = None, pos_liquidation_price = None,
     pos_liquidation_margin = \<lparr>lm_borrow = 0, lm_funding = 0, lm_delta_neutrality = mic 8000000, lm_crank = mic 100000,
       lm_exposure = mic 120000\<rparr>,
     pos_take_profit_trader = Some (TP_Finite (mic 4000000)), pos_take_profit_trader_notional = Some (mic 4000000),
     pos_take_profit_total = None\<rparr>"

definition opening_exec :: OpenPositionExec where
  "opening_exec = \<lparr>ope_pos = opening_position, ope_trade_volume_usd = mic 24000000, ope_price_point = sample_pp,
     ope_delta_neutrality_fee = \<lparr>cd_pos_id = 1, cd_fee = Signed (mic 2400000) False, cd_fund_fees = Signed (mic 2280000) False,
       cd_total_funds_before = mic 1000000, cd_reason = DnfPositionOpen, cd_cap_triggered_info = None,
       cd_total_funds_after = mic 3280000, cd_protocol_fees = mic 120000, cd_price = sample_pp\<rparr>,
     ope_open_interest = AdjustLong (mic 8000000),
     ope_liquidity = \<lparr>ll_amount = mic 8000000, ll_stats = sample_stats\<lparr>locked := mic 28000000, unlocked := mic 82000000\<rparr>,
       ll_price = sample_pp\<rparr>\<rparr>"

lemma opening_new: "open_position_new dec18 opening_env empty_market opening_params sample_pp = Inr opening_exec"
  by (simp add: opening_eval signed_eval opening_exec_def opening_position_def del: and_then_eq_Inr)

lemma sample_yields: "yield_per_time_per_token sample_pool
  = fmupd 1 \<lparr>ypt_lp = mic 10000, ypt_xlp = mic 20000\<rparr> (fmupd 0 \<lparr>ypt_lp = 0, ypt_xlp = 0\<rparr> fmempty)"
  by (simp add: sample_pool_def)

lemma opening_gains: "d_div dec18 (mic 8000000) (mic 9600000) = Inr 833333333333333333"
  "op_div dec18 (mic 8000000) (mic 9600000) = Inr 833333333333333333"
  by (simp_all add: call_defs dec18_def fit_def dec_lim_def mic_def dec_one_def)

lemmas opening_apply_eval = open_position_apply_def trade_history_add_volume_def adjust_open_interest_apply_def
  charge_apply_def liquidity_lock_apply_def position_save_def recalculate_position_def nft_mint_def nft_increment_tokens_def
  upd_pos_def position_attributes_def position_history_add_open_update_action_def add_event_def
  trade_history_get_summary_def upd_trade_def trades_empty_def
  collect_delta_neutrality_fee_for_protocol_def sample_yields latest_yield_per_token_def fm_last_where_eval
  liquidation_price_def take_profit_price_total_def price_try_from_number_def store_liquidation_prices_def
  put_trigger_def increase_total_funding_margin_def upd_nft_def nft_empty_def push_position_action_def push_trader_action_def
  push_to_monotonic_def nz_try_from_def max_gains_in_quote_def checked_div_collateral_def opening_gains counter_leverage_to_notional_def

lemma opening_apply: "is_ok (open_position_apply dec18 opening_env opening_exec SaveOpenMarket empty_market)"
  by (simp add: opening_eval signed_eval opening_exec_def opening_position_def opening_apply_eval fee_eval operation_eval
    del: and_then_eq_Inr)

end
