(* ===== verification/CrankBatch.thy ===== *)
theory CrankBatch
  imports MarketSteps
begin

text \<open>
  A batch of the crank from its start to its end: the call that starts it, and after every deferred
  execution, which suspends the batch, the submessage, its reply and the call that resumes it with the
  saved progress (\<open>crank_exec_batch\<close> and \<open>reply\<close> of the market). The lemmas follow the progress
  through the calls: the budget, the log of the work, and the count of the work that pays a reward.
\<close>

section \<open>The work a call does\<close>

text \<open>One execution after the other, each of the work that is due; a queued submessage ends the run.\<close>

inductive crank_runs :: "dec256_api \<Rightarrow> Env \<Rightarrow> Ctx \<Rightarrow> (CrankWorkInfo \<times> PricePoint) list \<Rightarrow> Ctx \<Rightarrow> bool" for D env where
  runs_none: "crank_runs D env c [] c"
| runs_work: "next_crank_timestamp env c = Some price \<Longrightarrow> crank_work c price = Inr w \<Longrightarrow>
    crank_exec D env w price c = Inr (queued, c1) \<Longrightarrow> (queued \<longrightarrow> ws = []) \<Longrightarrow> crank_runs D env c1 ws c2 \<Longrightarrow>
    crank_runs D env c ((w, price) # ws) c2"

definition weight_of :: "(CrankWorkInfo \<times> PricePoint) list \<Rightarrow> nat" where
  "weight_of ws = sum_list (map (work_weight \<circ> fst) ws)"

definition paying_of :: "(CrankWorkInfo \<times> PricePoint) list \<Rightarrow> nat" where
  "paying_of ws = length (filter (receives_crank_rewards \<circ> fst) ws)"

lemma weight_simps [simp]:
  "weight_of [] = 0" "weight_of (w # ws) = work_weight (fst w) + weight_of ws" "weight_of (xs @ ys) = weight_of xs + weight_of ys"
  "paying_of [] = 0" "paying_of (w # ws) = (if receives_crank_rewards (fst w) then 1 else 0) + paying_of ws"
  "paying_of (xs @ ys) = paying_of xs + paying_of ys"
  by (simp_all add: weight_of_def paying_of_def)

lemma weight_counts: "5 * length (filter (\<lambda>w. fst w \<noteq> WorkCompleted) ws) \<le> weight_of ws"
  by (induction ws) (auto simp: work_weight_def split: CrankWorkInfo.splits)

text \<open>The progress after some more work.\<close>

definition progress_after :: "(CrankWorkInfo \<times> PricePoint) list \<Rightarrow> CrankProgress \<Rightarrow> CrankProgress \<Rightarrow> bool" where
  "progress_after ws p p' \<longleftrightarrow> cr_actual p' = cr_actual p @ ws
     \<and> weight_of ws + cr_weight_budget_left p' = cr_weight_budget_left p
     \<and> cr_paying_work_done p' = cr_paying_work_done p + paying_of ws
     \<and> cr_requested p' = cr_requested p \<and> cr_rewards p' = cr_rewards p"

lemma progress_after_trans: "progress_after a p q \<Longrightarrow> progress_after b q r \<Longrightarrow> progress_after (a @ b) p r"
  by (auto simp: progress_after_def)

text \<open>Where a run stops without a submessage: no price is left to work on, or the budget does not suffice for the
  work that is due, which also forgets the saved progress.\<close>

definition run_ends :: "Env \<Rightarrow> nat \<Rightarrow> Ctx \<Rightarrow> Ctx \<Rightarrow> bool" where
  "run_ends env left c c' \<longleftrightarrow> (next_crank_timestamp env c = None \<and> c' = c)
     \<or> (\<exists>price w. next_crank_timestamp env c = Some price \<and> crank_work c price = Inr w \<and> left < work_weight w
          \<and> c' = upd_crank (\<lambda>s. s\<lparr>crank_batch := None\<rparr>) c)"

lemma crank_loop_runs:
  "crank_loop D env p c = Inr (sub, p', c') \<Longrightarrow> \<exists>ws c1. crank_runs D env c ws c1 \<and> progress_after ws p p'
     \<and> (if sub then c' = upd_crank (\<lambda>s. s\<lparr>crank_batch := Some p'\<rparr>) c1
        else run_ends env (cr_weight_budget_left p') c1 c')"
proof (induction "cr_weight_budget_left p" arbitrary: p c rule: less_induct)
  case less
  note loop = less.prems [unfolded crank_loop.simps [of D env p c]]
  show ?case
  proof (cases "next_crank_timestamp env c")
    case None
    then show ?thesis using loop runs_none
      by (intro exI [of _ "[]"] exI [of _ c]) (simp add: progress_after_def run_ends_def)
  next
    case (Some price)
    then obtain work where w: "crank_work c price = Inr work" using loop by auto
    show ?thesis
    proof (cases "cr_weight_budget_left p < work_weight work")
      case True
      then show ?thesis using loop Some w runs_none
        by (intro exI [of _ "[]"] exI [of _ c]) (simp add: progress_after_def run_ends_def)
    next
      case False
      define q where "q = p\<lparr>cr_weight_budget_left := cr_weight_budget_left p - work_weight work,
          cr_actual := cr_actual p @ [(work, price)],
          cr_paying_work_done := (if receives_crank_rewards work then cr_paying_work_done p + 1 else cr_paying_work_done p)\<rparr>"
      obtain queued c1 where x: "crank_exec D env work price c = Inr (queued, c1)"
        and r: "(if queued then Inr (True, q, upd_crank (\<lambda>s. s\<lparr>crank_batch := Some q\<rparr>) c1) else crank_loop D env q c1)
          = Inr (sub, p', c')"
        using loop Some w False by (auto simp: Let_def q_def [symmetric])
      have q: "progress_after [(work, price)] p q" using False by (simp add: progress_after_def q_def)
      show ?thesis
      proof (cases queued)
        case True
        then show ?thesis using r q runs_work [OF Some w x, of "[]"] runs_none
          by (intro exI [of _ "[(work, price)]"] exI [of _ c1]) auto
      next
        case False
        have "cr_weight_budget_left q < cr_weight_budget_left p"
          using q work_weight_pos [of work] by (simp add: progress_after_def)
        from less.hyps [OF this, of c1] obtain ws c2 where "crank_runs D env c1 ws c2" "progress_after ws q p'"
          "if sub then c' = upd_crank (\<lambda>s. s\<lparr>crank_batch := Some p'\<rparr>) c2
           else run_ends env (cr_weight_budget_left p') c2 c'"
          using r False by auto
        then show ?thesis using runs_work [OF Some w x, of ws c2] False progress_after_trans [OF q]
          by (intro exI [of _ "(work, price) # ws"] exI [of _ c2]) simp
      qed
    qed
  qed
qed

section \<open>Suspended calls\<close>

text \<open>A call queues at most one submessage, and exactly when it stops at a deferred execution.\<close>

context decimal256
begin

lemma process_queues:
  assumes "process_deferred_exec i price c = Inr c'"
  shows "deferred_submessages c' = deferred_submessages c @ [(i, pp_timestamp price)]"
  using assms unfolding process_deferred_exec_def Let_def and_then_eq_Inr sum.inject
  by (elim exE conjE, hypsubst) (simp add: upd_deferred_books split: DeferredExecItem.split option.split)

lemma crank_exec_queue:
  assumes k: "state_kept D mt c" and mt: "mid_market_type (env_market_id env) = mt"
    and x: "crank_exec D env work price c = Inr (queued, c')"
  shows "\<exists>q. deferred_submessages c' = deferred_submessages c @ q \<and> length q = (if queued then 1 else 0)"
proof -
  define c0 where "c0 = add_event env (WorkEvent (CrankWorkInfoEvent work price)) c"
  have k0: "state_kept D mt c0" and e: "deferred_submessages c0 = deferred_submessages c" using k by (simp_all add: c0_def)
  note b0 = state_books [OF k0]
  have m0: "market_kept D mt c0" using k0 by (simp add: state_kept_def)
  have r: "reposits c0 d \<Longrightarrow> deferred_submessages d = deferred_submessages c0" for d
    by (simp add: reposits_def same_rest_def)
  have "(case work of WorkDeferredExec i _ \<Rightarrow> queued
          \<and> deferred_submessages c' = deferred_submessages c0 @ [(i, pp_timestamp price)]
        | _ \<Rightarrow> \<not> queued \<and> deferred_submessages c' = deferred_submessages c0)"
  proof (cases work)
    case WorkResetLpBalances
    then have q: "\<not> queued" "crank_reset_lp_balances D c0 = Inr c'" using x by (auto simp: crank_exec_def Let_def c0_def)
    from r [OF reposits_books [OF b0 moves_books [OF reset_moves [OF q(2)]]]] q show ?thesis by (simp add: WorkResetLpBalances)
  next
    case (WorkLiquifunding i)
    then obtain p where p: "open_at c0 i = Some p" "\<not> queued"
      "position_liquifund_store D env p (pos_liquifunded_at p) (pos_next_liquifunding p) True SaveCrank c0 = Inr c'"
      using x by (auto simp: crank_exec_def Let_def c0_def)
    from r [OF reposits_cases(3) [OF liquifund_store_settled [OF b0 p(1,3)]]] p show ?thesis by (simp add: WorkLiquifunding)
  next
    case (WorkCloseAllPositions i)
    then obtain p e where p: "open_at c0 i = Some p" "close_position_via_msg D env c0 p price = Inr e"
      "close_position_apply D env e c0 = Inr c'" "\<not> queued"
      using x by (auto simp: crank_exec_def Let_def c0_def)
    from r [OF reposits_cases(2) [OF close_via_msg_closes [OF b0 p(1-3)]]] p show ?thesis by (simp add: WorkCloseAllPositions)
  next
    case (WorkLiquidation i why)
    then have q: "crank_liquidation D env i why price c0 = Inr c'" "\<not> queued" using x by (auto simp: crank_exec_def Let_def c0_def)
    from r [OF reposits_cases(2) [OF liquidation_closes [OF b0 q(1)]]] q show ?thesis by (simp add: WorkLiquidation)
  next
    case (WorkDeferredExec i t)
    then have q: "process_deferred_exec i price c0 = Inr c'" "queued" using x by (auto simp: crank_exec_def Let_def c0_def)
    from q(1) have "deferred_submessages c' = deferred_submessages c0 @ [(i, pp_timestamp price)]"
      by (rule process_queues)
    with q show ?thesis by (simp add: WorkDeferredExec)
  next
    case (WorkLimitOrder i)
    then have q: "limit_order_execute_order D env i price c0 = Inr c'" "\<not> queued" using x by (auto simp: crank_exec_def Let_def c0_def)
    from execute_order_works [OF m0 mt q(1)] q show ?thesis by (simp add: WorkLimitOrder works_def)
  next
    case WorkCompleted
    then obtain c1 c2 where "accumulate_borrow_fee_rate D env price c0 = Inr c1" "accumulate_funding_rate D env price c1 = Inr c2"
      and c': "c' = upd_crank (\<lambda>s. s\<lparr>last_crank_completed := Some (pp_timestamp price)\<rparr>) c2" "\<not> queued"
      using x by (auto simp: crank_exec_def Let_def c0_def crank_completed_def)
    then have "deferred_submessages c' = deferred_submessages c0"
      using accumulate_same [of D env price] by (auto simp: same_state_def upd_crank_def)
    then show ?thesis using c' by (simp add: WorkCompleted)
  qed
  then show ?thesis by (cases work) (simp_all add: e)
qed

lemma crank_loop_queue:
  assumes mt: "mid_market_type (env_market_id env) = mt"
  shows "state_kept D mt c \<Longrightarrow> crank_loop D env p c = Inr (sub, p', c') \<Longrightarrow>
    \<exists>q. deferred_submessages c' = deferred_submessages c @ q \<and> length q = (if sub then 1 else 0)"
proof (induction "cr_weight_budget_left p" arbitrary: p c rule: less_induct)
  case less
  note loop = less.prems(2) [unfolded crank_loop.simps [of D env p c]]
  show ?case
  proof (cases "next_crank_timestamp env c")
    case (Some price)
    then obtain work where w: "crank_work c price = Inr work" using loop by auto
    show ?thesis
    proof (cases "cr_weight_budget_left p < work_weight work")
      case False
      define q where "q = p\<lparr>cr_weight_budget_left := cr_weight_budget_left p - work_weight work,
          cr_actual := cr_actual p @ [(work, price)],
          cr_paying_work_done := (if receives_crank_rewards work then cr_paying_work_done p + 1 else cr_paying_work_done p)\<rparr>"
      obtain queued c1 where x: "crank_exec D env work price c = Inr (queued, c1)"
        and r: "(if queued then Inr (True, q, upd_crank (\<lambda>s. s\<lparr>crank_batch := Some q\<rparr>) c1) else crank_loop D env q c1)
          = Inr (sub, p', c')"
        using loop Some w False by (auto simp: Let_def q_def [symmetric])
      have k1: "state_kept D mt c1" using crank_exec_stays [OF less.prems(1) mt w x] by (simp add: stays_def)
      have "cr_weight_budget_left q < cr_weight_budget_left p" using False work_weight_pos [of work] by (simp add: q_def)
      from less.hyps [OF this k1] crank_exec_queue [OF less.prems(1) mt x] r
      show ?thesis by (cases queued) (auto simp: upd_crank_def)
    qed (use loop Some w in \<open>auto simp: upd_crank_def\<close>)
  qed (use loop in simp)
qed

lemma allocate_queue: "allocate_crank_fees D env a k c = Inr c' \<Longrightarrow> deferred_submessages c' = deferred_submessages c"
  using moves_same [OF allocate_crank_moves] by (simp add: same_trading_def)

end

section \<open>Whole batches\<close>

text \<open>The calls of a batch, each with the state before and after it: the one that starts it, and as long as
  the last call left a submessage, the submessage, its reply and the call with the saved progress.\<close>

inductive batch_calls ::
    "dec256_api \<Rightarrow> MarketType \<Rightarrow> nat \<Rightarrow> Addr \<Rightarrow> Ctx \<Rightarrow> (Env \<times> Ctx \<times> Ctx) list \<Rightarrow> bool" for D mt n rewards c where
  first_call: "mid_market_type (env_market_id env) = mt \<Longrightarrow> crank_exec_batch D env (Some (n, rewards)) c = Inr c' \<Longrightarrow>
    batch_calls D mt n rewards c [(env, c, c')]"
| reply_call: "batch_calls D mt n rewards c (calls @ [(env0, c0, c1)]) \<Longrightarrow> deferred_submessages c1 \<noteq> [] \<Longrightarrow>
    mid_market_type (env_market_id env) = mt \<Longrightarrow> dispatch_deferred D env c1 = Inr c2 \<Longrightarrow>
    crank_exec_batch D env None c2 = Inr c3 \<Longrightarrow>
    batch_calls D mt n rewards c ((calls @ [(env0, c0, c1)]) @ [(env, c2, c3)])"

text \<open>The submessage, its reply and the next call together are what \<open>market_reply\<close> does after it.\<close>

lemma reply_resumes:
  assumes "deferred_submessages c = [(i, ts)]"
  shows "and_then (dispatch_deferred D env c) (crank_exec_batch D env None)
    = (let c0 = c\<lparr>deferred_submessages := []\<rparr> in case perform_deferred_exec D env i ts c0 of
         Inr c1 \<Rightarrow> market_reply D env i None c1
       | Inl e \<Rightarrow> market_reply D env i (Some e) c0)"
  using assms by (simp add: dispatch_deferred_def run_deferred_exec_def market_reply_def split: sum.split)

text \<open>What a call did: its work, and then either it saved the progress behind a submessage, or it stopped where
  nothing was due or the rest of the budget did not suffice, paid the reward for the paying work of the whole batch
  and logged all of its work.\<close>

definition call_did ::
    "dec256_api \<Rightarrow> nat \<Rightarrow> Addr \<Rightarrow> (CrankWorkInfo \<times> PricePoint) list \<Rightarrow> Env \<times> Ctx \<times> Ctx
      \<Rightarrow> (CrankWorkInfo \<times> PricePoint) list \<Rightarrow> bool" where
  "call_did D n rewards all call ws = (case call of (env, c0, c1) \<Rightarrow> \<exists>c2. crank_runs D env c0 ws c2
     \<and> (if deferred_submessages c1 \<noteq> []
        then \<exists>p. c1 = upd_crank (\<lambda>s. s\<lparr>crank_batch := Some p\<rparr>) c2
        else \<exists>c3 c4. run_ends env (5 * n - weight_of all) c2 c3
          \<and> allocate_crank_fees D env rewards (paying_of all) c3 = Inr c4
          \<and> c1 = add_event env (WorkEvent (CrankExecBatchEvent n (paying_of all) all)) c4))"

lemma suspended_did:
  "deferred_submessages c1 \<noteq> [] \<Longrightarrow> call_did D n rewards xs (env, c0, c1) ws = call_did D n rewards ys (env, c0, c1) ws"
  by (simp add: call_did_def)

text \<open>The state of a batch after its last call.\<close>

definition batch_at :: "nat \<Rightarrow> Addr \<Rightarrow> (CrankWorkInfo \<times> PricePoint) list \<Rightarrow> Ctx \<Rightarrow> bool" where
  "batch_at n rewards ws c \<longleftrightarrow> weight_of ws \<le> 5 * n \<and> length (deferred_submessages c) \<le> 1
     \<and> (deferred_submessages c \<noteq> [] \<longrightarrow> (\<exists>p. crank_batch (crank_st c) = Some p \<and> cr_actual p = ws
          \<and> weight_of ws + cr_weight_budget_left p = 5 * n \<and> cr_paying_work_done p = paying_of ws
          \<and> cr_requested p = n \<and> cr_rewards p = rewards))"

context decimal256
begin

lemma call_result:
  assumes k: "state_kept D mt c" and mt: "mid_market_type (env_market_id env) = mt"
    and x: "crank_exec_batch D env start c = Inr c'" and none: "deferred_submessages c = []"
    and start: "(case start of Some (n, rewards) \<Rightarrow> start_progress n rewards
       | None \<Rightarrow> ok_or (crank_batch (crank_st c)) (Std ''CRANK_BATCH_WEIGHT_LEFT not found'')) = Inr p"
    and p: "cr_actual p = before" "weight_of before + cr_weight_budget_left p = 5 * n"
      "cr_paying_work_done p = paying_of before" "cr_requested p = n" "cr_rewards p = rewards"
  shows "\<exists>ws. call_did D n rewards (before @ ws) (env, c, c') ws \<and> batch_at n rewards (before @ ws) c'"
proof -
  obtain sub p' c1 where l: "crank_loop D env p c = Inr (sub, p', c1)"
    and r: "(if sub then Inr c1 else and_then (allocate_crank_fees D env (cr_rewards p') (cr_paying_work_done p') c1)
       (\<lambda>ctx. Inr (add_event env (WorkEvent (CrankExecBatchEvent (cr_requested p') (cr_paying_work_done p')
         (cr_actual p'))) ctx))) = Inr c'"
    using x start by (auto simp: crank_exec_batch_def)
  obtain ws c2 where run: "crank_runs D env c ws c2" and pa: "progress_after ws p p'"
    and c1: "if sub then c1 = upd_crank (\<lambda>s. s\<lparr>crank_batch := Some p'\<rparr>) c2
        else run_ends env (cr_weight_budget_left p') c2 c1"
    using crank_loop_runs [OF l] by blast
  obtain q where q: "deferred_submessages c1 = q" "length q = (if sub then 1 else 0)"
    using crank_loop_queue [OF mt k l] none by auto
  have p': "cr_actual p' = before @ ws" "weight_of (before @ ws) + cr_weight_budget_left p' = 5 * n"
      "cr_paying_work_done p' = paying_of (before @ ws)" "cr_requested p' = n" "cr_rewards p' = rewards"
    using pa p by (auto simp: progress_after_def)
  show ?thesis
  proof (cases sub)
    case True
    then have "c' = c1" "c1 = upd_crank (\<lambda>s. s\<lparr>crank_batch := Some p'\<rparr>) c2" "deferred_submessages c1 \<noteq> []"
      using r c1 q by auto
    then show ?thesis using run p' q True
      by (intro exI [of _ ws]) (auto simp: call_did_def batch_at_def upd_crank_def)
  next
    case False
    then obtain c4 where c4: "allocate_crank_fees D env rewards (paying_of (before @ ws)) c1 = Inr c4"
      "c' = add_event env (WorkEvent (CrankExecBatchEvent n (paying_of (before @ ws)) (before @ ws))) c4"
      using r unfolding p' by auto
    then have "deferred_submessages c' = []" using allocate_queue [OF c4(1)] q False by simp
    moreover have "run_ends env (5 * n - weight_of (before @ ws)) c2 c1" using c1 p'(2) False by (simp flip: p'(2))
    ultimately show ?thesis using run p'(2) c4 unfolding call_did_def batch_at_def
      by (intro exI [of _ ws]) auto
  qed
qed

lemma dispatch_result:
  assumes k: "state_kept D mt c" and mt: "mid_market_type (env_market_id env) = mt"
    and d: "dispatch_deferred D env c = Inr c'" and one: "length (deferred_submessages c) \<le> 1"
  shows "state_kept D mt c' \<and> deferred_submessages c' = [] \<and> (deferred_submessages c \<noteq> [] \<longrightarrow> crank_st c' = crank_st c)"
proof (cases "deferred_submessages c")
  case Nil
  then show ?thesis using d k by (simp add: dispatch_deferred_def)
next
  case (Cons x rest)
  obtain i ts where x: "x = (i, ts)" by force
  have rest: "rest = []" using Cons one by simp
  define c0 where "c0 = c\<lparr>deferred_submessages := []\<rparr>"
  have r: "run_deferred_exec D env i ts c0 = Inr c'" using d Cons x rest by (simp add: dispatch_deferred_def c0_def)
  have "owner_at c0 = owner_at c" by (simp add: owner_at_def c0_def fun_eq_iff)
  then have "books_kept c0 = books_kept c" by (simp add: books_kept_def interest_tracked_def positions_sound_def c0_def)
  then have "market_kept D mt c0" using k by (simp add: state_kept_def market_kept_def c0_def)
  from run_deferred_result [OF this mt r] dispatch_kept [OF k mt d] show ?thesis by (simp add: c0_def)
qed

lemma batch_calls_result:
  assumes k: "state_kept D mt c" and none: "deferred_submessages c = []"
  shows "batch_calls D mt n rewards c calls \<Longrightarrow> calls \<noteq> [] \<and> state_kept D mt (snd (snd (last calls)))
    \<and> (\<forall>x\<in>set (butlast calls). deferred_submessages (snd (snd x)) \<noteq> [])
    \<and> (\<exists>works. list_all2 (call_did D n rewards (concat works)) calls works
         \<and> batch_at n rewards (concat works) (snd (snd (last calls))))"
proof (induction rule: batch_calls.induct)
  case (first_call env c')
  obtain p where p: "start_progress n rewards = Inr p"
    using first_call(2) by (auto simp: crank_exec_batch_def)
  have "cr_actual p = []" "weight_of [] + cr_weight_budget_left p = 5 * n"
      "cr_paying_work_done p = paying_of []" "cr_requested p = n" "cr_rewards p = rewards"
    using p by (auto simp: start_progress_def split: if_splits)
  from call_result [OF k first_call none _ this] p obtain ws
    where "call_did D n rewards ws (env, c, c') ws" "batch_at n rewards ws c'" by auto
  then show ?case using crank_batch_stays [OF k first_call]
    by (auto simp: stays_def intro!: exI [of _ "[ws]"])
next
  case (reply_call calls env0 c0 c1 env c2 c3)
  obtain works where w: "list_all2 (call_did D n rewards (concat works)) (calls @ [(env0, c0, c1)]) works"
    and at: "batch_at n rewards (concat works) c1" and k1: "state_kept D mt c1"
    and sus: "\<forall>x\<in>set calls. deferred_submessages (snd (snd x)) \<noteq> []"
    using reply_call.IH by auto
  obtain p where p: "crank_batch (crank_st c1) = Some p" "cr_actual p = concat works"
    "weight_of (concat works) + cr_weight_budget_left p = 5 * n" "cr_paying_work_done p = paying_of (concat works)"
    "cr_requested p = n" "cr_rewards p = rewards"
    using at reply_call(2) by (auto simp: batch_at_def)
  have d: "state_kept D mt c2" "deferred_submessages c2 = []" "crank_st c2 = crank_st c1"
    using dispatch_result [OF k1 reply_call(3,4)] at reply_call(2) by (auto simp: batch_at_def)
  from call_result [OF d(1) reply_call(3,5) d(2) _ p(2-6)] obtain ws
    where ws: "call_did D n rewards (concat works @ ws) (env, c2, c3) ws" "batch_at n rewards (concat works @ ws) c3"
    using p(1) d(3) by auto
  have all: "\<forall>x\<in>set (calls @ [(env0, c0, c1)]). deferred_submessages (snd (snd x)) \<noteq> []"
    using sus reply_call(2) by simp
  have "list_all2 (call_did D n rewards (concat works @ ws)) (calls @ [(env0, c0, c1)]) works"
    by (rule list.rel_mono_strong [OF w]) (use all suspended_did in \<open>metis prod.collapse\<close>)
  then have "list_all2 (call_did D n rewards (concat (works @ [ws]))) ((calls @ [(env0, c0, c1)]) @ [(env, c2, c3)]) (works @ [ws])"
    using ws(1) by (intro list_all2_appendI) simp_all
  moreover have "state_kept D mt c3" using crank_batch_stays [OF d(1) reply_call(3,5)] by (simp add: stays_def)
  moreover have "batch_at n rewards (concat (works @ [ws])) c3" using ws(2) by simp
  ultimately show ?case unfolding butlast_snoc last_snoc snd_conv using all by blast
qed

end

end
