(* ===== verification/TradingProperties.thy ===== *)
theory TradingProperties
  imports MarketExamples CrankBatch
begin

text \<open>
  The properties of the trading side: what every reachable market satisfies, what the crank owes to the
  traders, and the money of the positions that are opened, settled and closed.
\<close>

section \<open>The state\<close>

context decimal256
begin

lemma reachable_state: "reachable market_start (market_step D mt) c \<Longrightarrow> state_kept D mt c"
  by (rule market.reachable_inv)

end

text \<open>C1: In every reachable market the indexes are in step: every open position, and nothing else, has its
  token, its entry in the table of liquifundings and its price triggers; the open interest and the funding
  margins are the sums over the open positions; the orders and the deferred executions are indexed; and a
  queued submessage belongs to a pending item.\<close>

theorem market_state_sound:
  assumes "decimal256 D" "reachable market_start (market_step D mt) c"
  shows "state_kept D mt c"
  by (rule decimal256.reachable_state [OF assms])

theorem market_state_sound_witness:
  "state_kept dec18 CollateralIsQuote (empty_market\<lparr>closing_all_positions := True\<rparr>)"
proof (rule market_state_sound [OF d18.decimal256_axioms])
  have "set_close_all_positions empty_market = Inr (empty_market\<lparr>closing_all_positions := True\<rparr>)"
    by (simp add: set_close_all_positions_def empty_market_def sample_pool_def)
  then show "reachable market_start (market_step dec18 CollateralIsQuote) (empty_market\<lparr>closing_all_positions := True\<rparr>)"
    by (intro reachable.move [OF reachable.start [where init = market_start, OF empty_market_start]] market_step.step_shutdown)
qed

text \<open>C8: After any step of the market an open position covers its liquidation margin out of its active
  collateral, is stored under its own identifier, and the identifier was issued.\<close>

theorem positions_cover_margin:
  assumes "decimal256 D" "state_kept D mt c" "market_step D mt c c'" "open_at c' i = Some p"
  shows "pos_id p = i \<and> i \<le> last_position_id (pos_st c') \<and> (let m = pos_liquidation_margin p in
    lm_borrow m + lm_funding m + lm_delta_neutrality m + lm_crank m + lm_exposure m \<le> pos_active_collateral p)"
proof -
  have "books_kept c'" using decimal256.market_step_kept [OF assms(1-3)] by (simp add: state_kept_def market_kept_def)
  then show ?thesis using assms(4) indexed_id [of c' i p]
    by (simp add: books_kept_def positions_sound_def margin_covered_def Let_def)
qed

theorem positions_cover_margin_witness:
  "\<exists>c p. nft_handle_exec sample_env ''carol'' (NftTransferMsg ''dave'' 1) traded_market = Inr c
     \<and> open_at c 1 = Some p \<and> lm_exposure (pos_liquidation_margin p) \<le> pos_active_collateral p"
proof -
  obtain c p where c: "nft_handle_exec sample_env ''carol'' (NftTransferMsg ''dave'' 1) traded_market = Inr c"
    and p: "open_at c 1 = Some p"
    using sample_transfer by blast
  from positions_cover_margin [OF d18.decimal256_axioms traded_market_kept market_step.step_nft [OF c] p]
  show ?thesis using c p by (auto simp: Let_def)
qed

section \<open>Liquidations\<close>

text \<open>The position \<open>p\<close> is due at \<open>price\<close> for \<open>reason\<close>: one of its triggers is crossed.\<close>

definition due_at :: "Position \<Rightarrow> Price \<Rightarrow> LiquidationReason \<Rightarrow> bool" where
  "due_at p price reason \<longleftrightarrow>
     (\<exists>x. price \<le> x \<and> desc_trigger p x = Some reason) \<or> (\<exists>x. x \<le> price \<and> asc_trigger p x = Some reason)"

lemma fm_last_where_NoneD: "fm_last_where P m = None \<Longrightarrow> P k \<Longrightarrow> fmlookup m k = None"
  by (cases "fmlookup m k") (auto simp: fm_last_where_None dest: fmdom'I)

lemma fm_first_where_NoneD: "fm_first_where P m = None \<Longrightarrow> P k \<Longrightarrow> fmlookup m k = None"
  by (cases "fmlookup m k") (auto simp: fm_first_where_None dest: fmdom'I)

lemma liquidatable_due:
  assumes ix: "indexed c"
  shows "case liquidatable_position c price of
      Some q \<Rightarrow> \<exists>p. open_at c (lq_id q) = Some p \<and> due_at p price (lq_reason q)
    | None \<Rightarrow> \<forall>i p r. open_at c i = Some p \<longrightarrow> \<not> due_at p price r"
proof -
  have d: "fmlookup (price_trigger_desc (pos_st c)) (x, i) = Option.bind (open_at c i) (\<lambda>p. desc_trigger p x)"
    and a: "fmlookup (price_trigger_asc (pos_st c)) (x, i) = Option.bind (open_at c i) (\<lambda>p. asc_trigger p x)" for x i
    using ix unfolding pos_indexed_def by blast+
  consider (desc) x i where "fm_last_where (\<lambda>(p, _). price \<le> p) (price_trigger_desc (pos_st c)) = Some (x, i)"
    | (asc) x i where "fm_last_where (\<lambda>(p, _). price \<le> p) (price_trigger_desc (pos_st c)) = None"
        "fm_first_where (\<lambda>(p, _). p \<le> price) (price_trigger_asc (pos_st c)) = Some (x, i)"
    | (none) "fm_last_where (\<lambda>(p, _). price \<le> p) (price_trigger_desc (pos_st c)) = None"
        "fm_first_where (\<lambda>(p, _). p \<le> price) (price_trigger_asc (pos_st c)) = None"
    by (metis not_None_eq surj_pair)
  then show ?thesis
  proof cases
    case desc
    then obtain r where "fmlookup (price_trigger_desc (pos_st c)) (x, i) = Some r" "price \<le> x"
      by (auto simp: fm_last_where_Some fmlookup_dom'_iff)
    then show ?thesis using desc d [of x i] by (auto simp: liquidatable_position_def due_at_def bind_eq_Some_conv)
  next
    case asc
    then obtain r where "fmlookup (price_trigger_asc (pos_st c)) (x, i) = Some r" "x \<le> price"
      by (auto simp: fm_first_where_Some fmlookup_dom'_iff)
    then show ?thesis using asc a [of x i] by (auto simp: liquidatable_position_def due_at_def bind_eq_Some_conv)
  next
    case none
    have "desc_trigger p x = None" if "open_at c i = Some p" "price \<le> x" for i p x
      using fm_last_where_NoneD [OF none(1), of "(x, i)"] d [of x i] that by simp
    moreover have "asc_trigger p x = None" if "open_at c i = Some p" "x \<le> price" for i p x
      using fm_first_where_NoneD [OF none(2), of "(x, i)"] a [of x i] that by simp
    ultimately have "\<not> due_at p price r" if "open_at c i = Some p" for i p r
      using that by (fastforce simp: due_at_def)
    then show ?thesis using none by (simp add: liquidatable_position_def)
  qed
qed

text \<open>C4: The crank finds a position to liquidate at a price exactly when the price has crossed a trigger of
  an open position; and the one it finds is due at the price, for the reason it gives.\<close>

theorem due_positions_are_found:
  assumes "state_kept D mt c"
  shows "(liquidatable_position c price \<noteq> None) = (\<exists>i p r. open_at c i = Some p \<and> due_at p price r)
    \<and> (\<forall>q. liquidatable_position c price = Some q
         \<longrightarrow> (\<exists>p. open_at c (lq_id q) = Some p \<and> due_at p price (lq_reason q)))"
proof -
  have "indexed c" using assms by (simp add: state_kept_def market_kept_def books_kept_def)
  from liquidatable_due [OF this, of price] show ?thesis
    by (cases "liquidatable_position c price") auto
qed

theorem due_positions_are_found_witness:
  "liquidatable_position traded_market (mic 3000000) = None
    \<and> (\<exists>q. liquidatable_position traded_market (mic 1500000) = Some q \<and> lq_id q = 1 \<and> lq_reason q = Liquidated)"
  using due_positions_are_found [OF traded_market_kept, of "mic 3000000"]
    due_positions_are_found [OF traded_market_kept, of "mic 1500000"]
  by (fastforce simp: due_at_def sample_position_triggers split: if_splits)

section \<open>The crank\<close>

text \<open>The order is triggered at \<open>price\<close>.\<close>

definition order_due :: "dec256_api \<Rightarrow> MarketType \<Rightarrow> LimitOrder \<Rightarrow> Price \<Rightarrow> bool" where
  "order_due D mt order price \<longleftrightarrow> (case into_notional_price D (lo_trigger_price order) mt of
     Inr k \<Rightarrow> (case lo_direction order of LongNotional \<Rightarrow> price \<le> k | ShortNotional \<Rightarrow> k \<le> price)
   | Inl _ \<Rightarrow> False)"

lemma triggered_order_due:
  assumes ok: "orders_kept D mt (order_st c)" and n: "limit_order_triggered_order c price = None"
    and o: "fmlookup (limit_orders (order_st c)) i = Some order"
  shows "\<not> order_due D mt order price"
proof -
  have l: "fm_last_where (\<lambda>(p, _). price \<le> p) (orders_by_price LongNotional (order_st c)) = None"
    and r: "fm_first_where (\<lambda>(p, _). p \<le> price) (orders_by_price ShortNotional (order_st c)) = None"
    using n by (simp_all add: limit_order_triggered_order_def orders_by_price_def split: option.splits)
  obtain k where k: "into_notional_price D (lo_trigger_price order) mt = Inr k"
    using orders_keptD(1) [OF ok o] by (auto simp: is_ok_def split: sum.splits)
  show ?thesis
    using fm_last_where_NoneD [OF l, of "(k, i)"] fm_first_where_NoneD [OF r, of "(k, i)"]
      orders_keptD(3) [OF ok, of "lo_direction order" k i] o k
    by (cases "lo_direction order") (auto simp: order_due_def order_key_def ok_def)
qed

text \<open>C7: When the crank reports that a price point is completed, nothing was left to do at it: no reset of the
  pool is under way, no liquifunding is due, a shutdown has closed every position, the price has crossed no
  trigger of an open position and no order, and the next deferred item is younger than the price.\<close>

theorem completed_means_nothing_due:
  assumes "state_kept D mt c" "crank_work c price = Inr WorkCompleted" "last_issued (deferred_st c) < u64_lim"
  shows "\<not> should_reset_lp_balances c
    \<and> (\<forall>i p. open_at c i = Some p \<longrightarrow> pp_timestamp price < pos_next_liquifunding p \<and> \<not> closing_all_positions c
         \<and> (\<forall>r. \<not> due_at p (price_notional price) r))
    \<and> (\<forall>i order. fmlookup (limit_orders (order_st c)) i = Some order \<longrightarrow> \<not> order_due D mt order (price_notional price))
    \<and> (\<forall>item. fmlookup (deferred_execs (deferred_st c)) (last_processed (deferred_st c) + 1) = Some item
         \<longrightarrow> pp_timestamp price \<le> de_created item)"
proof -
  have ix: "indexed c" and os: "orders_kept D mt (order_st c)" and q: "queue_kept (deferred_st c)"
    using assms(1) by (simp_all add: state_kept_def market_kept_def books_kept_def)
  have w: "\<not> should_reset_lp_balances c"
    "fm_first_where (\<lambda>(t, _). t \<le> pp_timestamp price) (next_liquifunding (pos_st c)) = None"
    "get_close_all_positions_work c = None" "liquidatable_position c (price_notional price) = None"
    "next_crankable_deferred_exec_id c (pp_timestamp price) = Inr None"
    "limit_order_triggered_order c (price_notional price) = None"
    using assms(2) by (auto simp: crank_work_def split: if_splits option.splits) (metis option.exhaust surj_pair)
  have p: "pp_timestamp price < pos_next_liquifunding p \<and> \<not> closing_all_positions c
      \<and> (\<forall>r. \<not> due_at p (price_notional price) r)" if o: "open_at c i = Some p" for i p
  proof -
    have "fmlookup (next_liquifunding (pos_st c)) (pos_next_liquifunding p, i) = Some ()"
      using ix o unfolding pos_indexed_def by simp
    then have "pp_timestamp price < pos_next_liquifunding p"
      using fm_first_where_NoneD [OF w(2), of "(pos_next_liquifunding p, i)"] by (cases "pos_next_liquifunding p \<le> pp_timestamp price") auto
    moreover have "\<not> closing_all_positions c"
      using w(3) fm_first_where_NoneD [of "\<lambda>_. True" "open_positions (pos_st c)" i] o
      by (auto simp: get_close_all_positions_work_def split: if_splits)
    moreover have "\<not> due_at p (price_notional price) r" for r
      using liquidatable_due [OF ix, of "price_notional price"] w(4) o by simp
    ultimately show ?thesis by simp
  qed
  have "pp_timestamp price \<le> de_created item"
    if "fmlookup (deferred_execs (deferred_st c)) (last_processed (deferred_st c) + 1) = Some item" for item
    using w(5) next_deferred [OF q assms(3)] queue_keptD(3) [OF q, of "last_processed (deferred_st c) + 1"] that
    by (auto simp: next_crankable_deferred_exec_id_def split: if_splits)
  then show ?thesis using w(1) p triggered_order_due [OF os w(6)] by blast
qed

lemma traded_work_done: "crank_work traded_market (sample_pp\<lparr>pp_timestamp := 440\<rparr>) = Inr WorkCompleted"
  by (simp add: crank_work_def should_reset_lp_balances_def get_close_all_positions_work_def liquidatable_position_def
      next_crankable_deferred_exec_id_def get_next_deferred_execution_def deferred_processed_def u64_add_def u64_lim_def
      sample_item_def limit_order_triggered_order_def orders_empty_def fm_last_where_eval fm_first_where_single)

theorem completed_means_nothing_due_witness:
  "crank_work traded_market (sample_pp\<lparr>pp_timestamp := 440\<rparr>) = Inr WorkCompleted
    \<and> \<not> due_at sample_position (mic 3000000) Liquidated \<and> \<not> due_at sample_position (mic 3000000) MaxGains"
  using completed_means_nothing_due [OF traded_market_kept traded_work_done] traded_work_done
  by (auto simp: last_issued_def u64_lim_def)

text \<open>C11: The deferred items are processed in the order in which they were issued: the one the crank takes is the
  next after the last processed, it is pending and older than the price, and taking it queues its submessage
  behind the earlier ones.\<close>

theorem deferred_items_run_in_order:
  assumes "state_kept D mt c" "crank_work c price = Inr (WorkDeferredExec i t)"
    "crank_exec D env (WorkDeferredExec i t) price c = Inr (sub, c')"
  shows "i = last_processed (deferred_st c) + 1 \<and> last_processed (deferred_st c') = i \<and> sub
    \<and> deferred_submessages c' = deferred_submessages c @ [(i, pp_timestamp price)]
    \<and> (\<exists>item. fmlookup (deferred_execs (deferred_st c)) i = Some item \<and> de_status item = DeferredPending
         \<and> item_target (de_item item) = t \<and> de_created item < pp_timestamp price)"
proof -
  have q: "queue_kept (deferred_st c)" using assms(1) by (simp add: state_kept_def market_kept_def)
  have i: "i = last_processed (deferred_st c) + 1" "i \<le> last_issued (deferred_st c)"
    using deferred_work_next [OF q assms(2)] by simp_all
  have "next_crankable_deferred_exec_id c (pp_timestamp price) = Inr (Some (i, t))"
    using assms(2) by (auto simp: crank_work_def split: if_splits option.splits)
  then obtain item where item: "get_next_deferred_execution c = Inr (Some (i, item))" "de_created item < pp_timestamp price"
      "item_target (de_item item) = t"
    by (auto simp: next_crankable_deferred_exec_id_def split: option.splits if_splits)
  then have "fmlookup (deferred_execs (deferred_st c)) i = Some item"
    by (auto simp: get_next_deferred_execution_def split: option.splits if_splits)
  moreover from this have "de_status item = DeferredPending" using queue_keptD(5) [OF q] i by simp
  moreover have "last_processed (deferred_st c') = i \<and> sub
      \<and> deferred_submessages c' = deferred_submessages c @ [(i, pp_timestamp price)]"
  proof -
    define c0 where "c0 = add_event env (WorkEvent (CrankWorkInfoEvent (WorkDeferredExec i t) price)) c"
    have "process_deferred_exec i price c0 = Inr c'" "sub"
      using assms(3) by (auto simp: crank_exec_def Let_def c0_def)
    from this(1) show ?thesis
      by (rule process_fields) (simp add: \<open>sub\<close> c0_def last_processed_def deferred_processed_def)
  qed
  ultimately show ?thesis using i item by blast
qed

lemma traded_work: "crank_work traded_market sample_pp = Inr (WorkDeferredExec 1 TargetDoesNotExist)"
  by (simp add: crank_work_def should_reset_lp_balances_def get_close_all_positions_work_def liquidatable_position_def
      next_crankable_deferred_exec_id_def get_next_deferred_execution_def deferred_processed_def u64_add_def u64_lim_def
      sample_item_def limit_order_triggered_order_def orders_empty_def fm_last_where_eval fm_first_where_single item_target_def
      sample_pp_def)

lemma traded_exec: "\<exists>c'. crank_exec dec18 sample_env (WorkDeferredExec 1 TargetDoesNotExist) sample_pp traded_market
    = Inr (True, c') \<and> pos_st c' = pos_st traded_market"
  by (simp add: crank_exec_def process_deferred_exec_def Let_def add_event_def upd_deferred_def sample_item_def)

theorem deferred_items_run_in_order_witness:
  "\<exists>c'. crank_exec dec18 sample_env (WorkDeferredExec 1 TargetDoesNotExist) sample_pp traded_market = Inr (True, c')
     \<and> last_processed (deferred_st c') = 1 \<and> deferred_submessages c' = [(1, 500)]"
proof -
  obtain c' where c': "crank_exec dec18 sample_env (WorkDeferredExec 1 TargetDoesNotExist) sample_pp traded_market = Inr (True, c')"
    using traded_exec by blast
  from deferred_items_run_in_order [OF traded_market_kept traded_work c'] c' show ?thesis
    by (auto simp: sample_pp_def)
qed

text \<open>C12: A whole batch of the crank costs its budget: take the call that asks for \<open>n\<close> executions and, as long as a
  call was suspended by a deferred execution, the submessage, its reply and the call that resumes the batch. The
  executions all these calls carry out weigh together at most the budget of \<open>5 * n\<close>, so the batch does at most \<open>n\<close> of
  them besides the completions of price points. Each call carries out work that is due at that moment, and then saves
  the progress behind a deferred execution, or ends the batch: only when no price is left to work on or the rest of the
  budget does not suffice for the work that is due. The end pays the reward for the paying work of the whole batch to
  the address the batch was started with and logs exactly the work that was done.\<close>

theorem crank_batch_within_budget:
  assumes "decimal256 D" "state_kept D mt c" "deferred_submessages c = []" "batch_calls D mt n rewards c calls"
  shows "\<exists>works. list_all2 (call_did D n rewards (concat works)) calls works
    \<and> sum_list (map (work_weight \<circ> fst) (concat works)) \<le> 5 * n
    \<and> length (filter (\<lambda>w. fst w \<noteq> WorkCompleted) (concat works)) \<le> n"
proof -
  obtain works where w: "list_all2 (call_did D n rewards (concat works)) calls works" "weight_of (concat works) \<le> 5 * n"
    using decimal256.batch_calls_result [OF assms] by (auto simp: batch_at_def)
  with weight_counts [of "concat works"] show ?thesis
    by (intro exI [of _ works]) (simp add: weight_of_def)
qed

lemma traded_price: "next_crank_timestamp sample_env traded_market = Some sample_pp"
  by (simp add: next_crank_timestamp_def spot_price_after_def make_price_point_def traded_prices traded_crank
      crank_empty_def fm_first_where_single) (simp add: sample_pp_def)

lemma traded_loop: "\<exists>progress (c :: Ctx). crank_loop dec18 sample_env sample_progress traded_market = Inr (True, progress, c)
    \<and> map fst (cr_actual progress) = [WorkDeferredExec 1 TargetDoesNotExist] \<and> open_at c 1 = Some sample_position"
proof -
  obtain c' where "crank_exec dec18 sample_env (WorkDeferredExec 1 TargetDoesNotExist) sample_pp traded_market = Inr (True, c')"
    and p: "pos_st c' = pos_st traded_market"
    using traded_exec by blast
  then have "\<exists>progress. crank_loop dec18 sample_env sample_progress traded_market
      = Inr (True, progress, upd_crank (\<lambda>s. s\<lparr>crank_batch := Some progress\<rparr>) c')
    \<and> map fst (cr_actual progress) = [WorkDeferredExec 1 TargetDoesNotExist]"
    using traded_price traded_work by (subst crank_loop.simps) (simp add: Let_def work_weight_def sample_progress_def)
  then show ?thesis using p by (auto simp: upd_crank_def)
qed

text \<open>C10: Whatever a batch of the crank does, it gives no position to another owner: a position open afterwards
  had the same owner before, or was opened by the batch under a fresh identifier.\<close>

theorem crank_keeps_owners:
  assumes "decimal256 D" "state_kept D mt c" "mid_market_type (env_market_id env) = mt"
    "crank_exec_batch D env start c = Inr c'" "open_at c' i = Some p" "i \<le> last_position_id (pos_st c)"
  shows "\<exists>q. open_at c i = Some q \<and> pos_owner q = pos_owner p"
proof -
  have "stays D mt c c'" by (rule decimal256.crank_batch_stays [OF assms(1-4)])
  then have "owner_at c i = Some (pos_owner p)"
    using assms(5,6) leD by (fastforce simp: stays_def owners_kept_def owner_at_def)
  then show ?thesis by (simp add: owner_at_def)
qed

lemma traded_batch: "\<exists>c :: Ctx. crank_exec_batch dec18 sample_env (Some (1, ''bob'')) traded_market = Inr c
    \<and> open_at c 1 = Some sample_position"
proof -
  obtain progress and c :: Ctx where "crank_loop dec18 sample_env sample_progress traded_market = Inr (True, progress, c)"
    "open_at c 1 = Some sample_position"
    using traded_loop by (elim exE conjE) (rule that)
  then show ?thesis
    by (intro exI [of _ c]) (simp add: crank_exec_batch_def sample_progress_start [unfolded One_nat_def])
qed

theorem crank_batch_within_budget_witness:
  "\<exists>c works. crank_exec_batch dec18 sample_env (Some (1, ''bob'')) traded_market = Inr c
    \<and> call_did dec18 1 ''bob'' works (sample_env, traded_market, c) works
    \<and> length (filter (\<lambda>w. fst w \<noteq> WorkCompleted) works) \<le> 1"
proof -
  obtain c where c: "crank_exec_batch dec18 sample_env (Some (1, ''bob'')) traded_market = Inr c"
    using traded_batch by blast
  have n: "deferred_submessages traded_market = []" by simp
  have b: "batch_calls dec18 CollateralIsQuote 1 ''bob'' traded_market [(sample_env, traded_market, c)]"
    by (rule first_call [OF _ c]) simp
  obtain works where w: "list_all2 (call_did dec18 1 ''bob'' (concat works)) [(sample_env, traded_market, c)] works"
    "length (filter (\<lambda>w. fst w \<noteq> WorkCompleted) (concat works)) \<le> 1"
    using crank_batch_within_budget [OF d18.decimal256_axioms traded_market_kept n b] by blast
  then obtain ws where "works = [ws]" by (auto simp: list_all2_Cons1)
  with w have "call_did dec18 1 ''bob'' ws (sample_env, traded_market, c) ws"
    "length (filter (\<lambda>w. fst w \<noteq> WorkCompleted) ws) \<le> 1" by simp_all
  with c show ?thesis by blast
qed

theorem crank_keeps_owners_witness:
  "\<exists>c q. crank_exec_batch dec18 sample_env (Some (1, ''bob'')) traded_market = Inr c
    \<and> open_at c 1 = Some sample_position \<and> open_at traded_market 1 = Some q \<and> pos_owner q = ''alice''"
proof -
  obtain c where c: "crank_exec_batch dec18 sample_env (Some (1, ''bob'')) traded_market = Inr c"
      "open_at c 1 = Some sample_position"
    using traded_batch by blast
  from crank_keeps_owners [OF d18.decimal256_axioms traded_market_kept _ c] c show ?thesis by auto
qed

section \<open>Deferred executions that fail\<close>

text \<open>C6: A deferred execution that fails leaves no trace but its reply: the deposit of the item goes back to its
  owner on top of what the owner already receives, the item is marked as failed, and positions, orders,
  tokens, liquidity, fees, yield and funding are as before the attempt.\<close>

theorem failed_execution_is_rolled_back:
  assumes "decimal256 D" "perform_deferred_exec D env i ts c = Inl e" "run_deferred_exec D env i ts c = Inr c'"
  shows "\<exists>item e' pp d ev. fmlookup (deferred_execs (deferred_st c)) i = Some item \<and> de_status item = DeferredPending
    \<and> deferred_execs d = fmupd i (item\<lparr>de_status := DeferredFailure e' (env_now env) pp\<rparr>) (deferred_execs (deferred_st c))
    \<and> c' = c\<lparr>deferred_st := d, events := ev, fund_transfers :=
        (if deposited_amount (de_item item) = 0 then fund_transfers c
         else fmupd (de_owner item) (fmval id (fund_transfers c) (de_owner item) + deposited_amount (de_item item))
           (fund_transfers c))\<rparr>"
proof -
  obtain item e' pp c2 c3 where item: "fmlookup (deferred_execs (deferred_st c)) i = Some item" "de_status item = DeferredPending"
    and c2: "(case nonzero_new (deposited_amount (de_item item)) of
        Some amount \<Rightarrow> add_token_transfer_msg D (de_owner item) amount c | None \<Rightarrow> Inr c) = Inr c2"
    and c3: "remove_pending (item_target (de_item item)) i (upd_deferred (\<lambda>s. s\<lparr>deferred_execs :=
        fmupd i (item\<lparr>de_status := DeferredFailure e' (env_now env) pp\<rparr>) (deferred_execs s)\<rparr>) c2) = Inr c3"
    and c': "c' = add_event env (WorkEvent (DeferredExecExecutedEvent i (item_target (de_item item)) (de_owner item) False (Some e'))) c3"
    by (rule decimal256.failed_reply [OF assms(1) assms(3) [unfolded run_deferred_exec_def assms(2), simplified]])
  define m where "m = (if deposited_amount (de_item item) = 0 then fund_transfers c
         else fmupd (de_owner item) (fmval id (fund_transfers c) (de_owner item) + deposited_amount (de_item item))
           (fund_transfers c))"
  have "c2 = c\<lparr>fund_transfers := m\<rparr>"
    using c2 by (auto simp: m_def add_token_transfer_msg_def fmval_def decimal256.nz_add_Inr [OF assms(1)] nonzero_new_def
        split: if_splits option.splits)
  moreover obtain f where "c3 = upd_deferred f (upd_deferred (\<lambda>s. s\<lparr>deferred_execs :=
        fmupd i (item\<lparr>de_status := DeferredFailure e' (env_now env) pp\<rparr>) (deferred_execs s)\<rparr>) c2)"
    using remove_pending_fields(1) [OF c3] by blast
  moreover have "deferred_execs (deferred_st c3) =
      fmupd i (item\<lparr>de_status := DeferredFailure e' (env_now env) pp\<rparr>) (deferred_execs (deferred_st c2))"
    using remove_pending_fields(3) [OF c3] by (simp add: upd_deferred_def)
  ultimately have "c' = c\<lparr>deferred_st := deferred_st c3, events := events c', fund_transfers := m\<rparr>"
    "deferred_execs (deferred_st c3) =
      fmupd i (item\<lparr>de_status := DeferredFailure e' (env_now env) pp\<rparr>) (deferred_execs (deferred_st c))"
    by (simp_all add: c' add_event_def upd_deferred_def)
  then show ?thesis using item unfolding m_def by blast
qed

lemma sample_item_fails:
  "perform_deferred_exec dec18 sample_env 1 500 traded_market
     = Inl (Msg ''must supply at least one of take_profit or max_gains'')"
  "deferred_validate dec18 sample_env traded_market 1 sample_pp SlippageCheck
     = Inl (Msg ''must supply at least one of take_profit or max_gains'')"
  by (simp_all add: perform_deferred_exec_def sample_spot_price load_deferred_exec_item_def helper_execute_def Let_def
      sample_item_def choose_take_profit_def deferred_validate_def helper_validate_def)

lemma sample_item_replied: "is_ok (run_deferred_exec dec18 sample_env 1 500 traded_market)"
  using sample_item_fails
  by (simp add: run_deferred_exec_def handle_deferred_exec_reply_def Let_def traded_price recovered_error_def
      sample_item_def deposited_amount_def nonzero_new_def add_token_transfer_msg_def remove_pending_def item_target_def)

theorem failed_execution_is_rolled_back_witness:
  "\<exists>c. run_deferred_exec dec18 sample_env 1 500 traded_market = Inr c \<and> pos_st c = pos_st traded_market
    \<and> fmlookup (fund_transfers c) ''bob'' = Some (mic 7000000)"
proof -
  obtain c where c: "run_deferred_exec dec18 sample_env 1 500 traded_market = Inr c"
    using sample_item_replied by (auto simp: is_ok_iff)
  from failed_execution_is_rolled_back [OF d18.decimal256_axioms sample_item_fails(1) c] c show ?thesis
    by (auto simp: sample_item_def deposited_amount_def fmval_def)
qed

end
