(* ===== verification/PositionProperties.thy ===== *)
theory PositionProperties
  imports MarketExamples
begin

text \<open>
  The money and the ownership of positions: opening, closing, the delta neutrality fee and the transfer of
  a position token.
\<close>

section \<open>The delta neutrality fee\<close>

abbreviation dn_fund :: "Ctx \<Rightarrow> Collateral" where
  "dn_fund c \<equiv> (case delta_neutrality_fund c of Some f \<Rightarrow> f | None \<Rightarrow> 0)"

context decimal256
begin

lemma update_inner_wf:
  assumes u: "update_inner D m delta = Inr m'" and w: "wf_signed (mp_fees m)" "mp_total_in_fund_before_calc m < dec_lim"
    "\<And>x. mp_liquidation_margin_factor m = Some x \<Longrightarrow> x < dec_lim"
  shows "wf_signed (mp_fees m') \<and> mp_total_in_fund_before_calc m' = mp_total_in_fund_before_calc m
    \<and> mp_liquidation_margin_factor m' = mp_liquidation_margin_factor m"
proof -
  obtain total n x y fees net info where t: "u_checked_add_signed D (mp_total_in_fund_before_calc m) (mp_fees m) = Inr total"
    and x: "signed_map (notional_to_collateral D (mp_price m)) n = Inr x"
    and y: "cap_payout D m total x = Inr y"
    and fees: "signed_checked_add D (mp_fees m) (fst (cap_by_margin (mp_liquidation_margin_factor m) y
        (mp_cap_triggered_info m))) = Inr fees"
    and m': "m' = m\<lparr>mp_cap_triggered_info := info, mp_fees := fees, mp_net_notional := net\<rparr>"
    using u by (auto simp: update_inner_def Let_def split_beta)
  have total: "total < dec_lim" using t w by (simp add: u_add_signed_Inr)
  have wx: "wf_signed x" using x by (auto simp: signed_map_Inr notional_to_collateral_Inr)
  have "wf_signed y"
  proof (cases "is_negative x")
    case False
    then show ?thesis using y wx by (simp add: cap_payout_def)
  next
    case True
    then obtain ratio z where z: "number_checked_mul D x (new_positive (min ratio dec_one)) = Inr z"
      and "y = (if new_positive total < signed_neg z then signed_neg (new_positive total) else z)"
      using y by (auto simp: cap_payout_def Let_def checked_mul_number_def)
    moreover have "min ratio dec_one < dec_lim" by (rule le_less_trans [OF min.cobounded2 dec_one_lt_lim])
    then have "wf_signed z" using z wx signed_mul_Inr [of x "new_positive (min ratio dec_one)" z] by simp
    ultimately show ?thesis using total by simp
  qed
  then have "wf_signed (fst (cap_by_margin (mp_liquidation_margin_factor m) y (mp_cap_triggered_info m)))"
    using w(3) by (auto simp: cap_by_margin_def split: option.splits)
  from signed_add_num [OF w(1) this fees] show ?thesis by (simp add: m')
qed

lemma multi_pass_wf:
  assumes r: "multi_pass_run D m = Inr m'" and w: "wf_signed (mp_fees m)" "mp_total_in_fund_before_calc m < dec_lim"
    "\<And>x. mp_liquidation_margin_factor m = Some x \<Longrightarrow> x < dec_lim"
  shows "wf_signed (mp_fees m') \<and> mp_total_in_fund_before_calc m' = mp_total_in_fund_before_calc m"
  using r update_inner_wf [OF _ w] update_inner_wf
  by (auto simp: multi_pass_run_def Let_def split: if_splits) (metis w)+

lemma dnf_result:
  assumes r: "charge_delta_neutrality_fee_no_update D env c p n price reason = Inr r"
    and fund: "dn_fund c < dec_lim" and m: "lm_delta_neutrality (pos_liquidation_margin p) < dec_lim"
  shows "wf_signed (cd_fee r) \<and> wf_signed (cd_fund_fees r) \<and> num (cd_fee r) = num (cd_fund_fees r) + int (cd_protocol_fees r)
    \<and> int (cd_total_funds_after r) = int (dn_fund c) + num (cd_fund_fees r) \<and> cd_total_funds_before r = dn_fund c
    \<and> delta_neutrality_protocol_fees D (env_config env) (cd_fee r) = Inr (cd_protocol_fees r)"
proof -
  obtain net calc protocol fund_fees after where
      calc: "multi_pass_run D (multi_pass_new c (env_config env) net n price
       (case reason of
          DnfPositionClose \<Rightarrow> Some (lm_delta_neutrality (pos_liquidation_margin p))
        | DnfPositionUpdate \<Rightarrow> Some (lm_delta_neutrality (pos_liquidation_margin p))
        | DnfPositionOpen \<Rightarrow> None)) = Inr calc"
    and protocol: "delta_neutrality_protocol_fees D (env_config env) (mp_fees calc) = Inr protocol"
    and fees: "signed_checked_sub D (mp_fees calc) (new_positive protocol) = Inr fund_fees"
    and after: "u_checked_add_signed D (mp_total_in_fund_before_calc calc) fund_fees = Inr after"
    and r': "cd_fee r = mp_fees calc" "cd_fund_fees r = fund_fees" "cd_total_funds_after r = after"
      "cd_protocol_fees r = protocol" "cd_total_funds_before r = mp_total_in_fund_before_calc calc"
    using r by (auto simp: charge_delta_neutrality_fee_no_update_def)
  have calc': "wf_signed (mp_fees calc) \<and> mp_total_in_fund_before_calc calc = dn_fund c"
    using multi_pass_wf [OF calc] fund m by (cases reason) (simp_all add: multi_pass_new_def)
  have "protocol < dec_lim"
    using protocol by (auto simp: delta_neutrality_protocol_fees_def unwrap_or_def checked_mul_dec_def
        split: option.splits sum.splits error.splits)
  then have "wf_signed fund_fees \<and> num fund_fees = num (mp_fees calc) - int protocol"
    using fees calc' by (simp add: signed_sub_Inr)
  moreover from this have "int after = int (dn_fund c) + num fund_fees"
    using after calc' fund by (simp add: u_add_signed_Inr)
  ultimately show ?thesis using calc' protocol by (simp add: r')
qed

text \<open>The collaterals of a closing, as integers.\<close>

lemma close_collaterals_num:
  assumes cc: "close_collaterals D p fee capped losses = Inr (active, final, funds)"
    and w: "wf_signed fee" "wf_signed capped" "losses < dec_lim" "pos_active_collateral p < dec_lim"
  shows "wf_signed active \<and> wf_signed final \<and> wf_signed funds
    \<and> num active = int (pos_active_collateral p) - num fee \<and> num funds = num capped - num final
    \<and> num final = max (num capped - int losses) (- num active)"
proof -
  obtain e where a: "signed_checked_sub D (new_positive (pos_active_collateral p)) fee = Inr active"
    and e: "signed_checked_sub D capped (new_positive losses) = Inr e"
    and final: "final = max e (signed_neg active)"
    and funds: "signed_checked_sub D capped final = Inr funds"
    using cc by (auto simp: close_collaterals_def Let_def)
  have a': "wf_signed active" "num active = int (pos_active_collateral p) - num fee"
    using a w by (simp_all add: signed_sub_Inr)
  have e': "wf_signed e" "num e = num capped - int losses" using e w by (simp_all add: signed_sub_Inr)
  have f': "wf_signed final" "num final = max (num e) (- num active)"
    using a' e' le_num [of e "signed_neg active"] by (auto simp: final max_def)
  then show ?thesis using funds a' e' w by (simp add: signed_sub_Inr)
qed

end

text \<open>What a closing pays: to the trader, and back to the unlocked liquidity.\<close>

definition trader_payout :: "ClosePositionExec \<Rightarrow> nat" where
  "trader_payout e = (case cpe_trader_collateral_to_send e of Some x \<Rightarrow> x | None \<Rightarrow> 0)"

definition unlocked_counter :: "ClosePositionExec \<Rightarrow> nat" where
  "unlocked_counter e = (case cpe_liquidity_unlock e of Some u \<Rightarrow> ul_amount u | None \<Rightarrow> 0)"

definition closing_stats :: "ClosePositionExec \<Rightarrow> LiquidityStats" where
  "closing_stats e = (case cpe_liquidity_unlock e of Some u \<Rightarrow> ul_stats u | None \<Rightarrow> lu_stats (cpe_liquidity_update e))"

context decimal256
begin

lemma closing_money:
  assumes new: "close_position_new D env c ins lq = Inr e"
    and w: "wf_signed (ci_capped_exposure ins)" "ci_additional_losses ins < dec_lim"
      "pos_active_collateral (ci_pos ins) < dec_lim" "pos_counter_collateral (ci_pos ins) < dec_lim"
      "lm_delta_neutrality (pos_liquidation_margin (ci_pos ins)) < dec_lim" "dn_fund c < dec_lim"
    and st: "st = (case Option.bind lq (\<lambda>l. map_option lu_stats (plf_liquidity_update_locked l)) of
        Some s \<Rightarrow> s | None \<Rightarrow> liquidity_stats c)" "locked st < dec_lim"
  shows "int (trader_payout e) + int (unlocked_counter e) + num (cd_fee (cpe_dnf e))
      = int (pos_active_collateral (ci_pos ins)) + int (pos_counter_collateral (ci_pos ins))
    \<and> int (trader_payout e) + int (locked (closing_stats e)) + int (unlocked (closing_stats e)) + num (cd_fee (cpe_dnf e))
      = int (pos_active_collateral (ci_pos ins)) + int (locked st) + int (unlocked st) + num (ci_capped_exposure ins)"
proof -
  let ?p = "ci_pos ins"
  obtain dnf p active final funds lu a pay cc counter ul where
      dnf: "charge_delta_neutrality_fee_no_update D env c ?p (signed_neg (pos_notional_size ?p)) (ci_settlement_price ins)
        DnfPositionClose = Inr dnf"
    and p: "add_delta_neutrality_fee D ?p (cd_fee dnf) (ci_settlement_price ins) = Inr p"
    and coll: "close_collaterals D p (cd_fee dnf) (ci_capped_exposure ins) (ci_additional_losses ins) = Inr (active, final, funds)"
    and lu: "liquidity_update_locked_new D c funds (ci_settlement_price ins)
        (Option.bind lq (\<lambda>l. map_option lu_stats (plf_liquidity_update_locked l))) = Inr lu"
    and a: "signed_checked_add D active final = Inr a" "try_into_non_negative_value a = Some pay"
    and cc: "signed_checked_sub D (new_positive (pos_counter_collateral p)) final = Inr cc"
      "try_into_non_negative_value cc = Some counter"
    and ul: "transpose_res (map_option (\<lambda>x. liquidity_unlock_new D c x (ci_settlement_price ins) (Some (lu_stats lu)))
        (nonzero_new counter)) = Inr ul"
    and e: "cpe_dnf e = dnf" "cpe_liquidity_update e = lu" "cpe_liquidity_unlock e = ul"
      "cpe_trader_collateral_to_send e = nonzero_new pay"
    using new by (auto simp: close_position_new_def Let_def)
  have p': "pos_active_collateral p = pos_active_collateral ?p" "pos_counter_collateral p = pos_counter_collateral ?p"
    using p by (auto simp: add_delta_neutrality_fee_def)
  have fee: "wf_signed (cd_fee dnf)" using dnf_result [OF dnf w(6,5)] by simp
  have "pos_active_collateral p < dec_lim" using w(3) p' by simp
  note C = close_collaterals_num [OF coll fee w(1,2) this]
  have pay: "int pay = num active + num final"
    using a C signed_add_num [of active final a] non_negative_value_iff [of a pay] by simp
  have counter: "int counter = int (pos_counter_collateral ?p) - num final"
    using cc C w(4) signed_sub_Inr [of "new_positive (pos_counter_collateral p)" final cc] non_negative_value_iff [of cc counter]
    by (simp add: p')
  obtain l l' where l: "signed_checked_add D (new_positive (locked st)) funds = Inr l" "try_into_non_negative_value l = Some l'"
    "lu_stats lu = st\<lparr>locked := l'\<rparr>"
    using lu st(1) by (auto simp: liquidity_update_locked_new_def Let_def)
  have l': "int l' = int (locked st) + num funds"
    using l C st(2) signed_add_num [of "new_positive (locked st)" funds l] non_negative_value_iff [of l l'] by simp
  have u: "unlocked_counter e = counter \<and> int (locked (closing_stats e)) = int l' - int counter
      \<and> unlocked (closing_stats e) = unlocked st + counter"
  proof (cases "counter = 0")
    case True
    then show ?thesis using ul l by (simp add: unlocked_counter_def closing_stats_def e nonzero_new_def transpose_res_def)
  next
    case False
    then obtain v where "ul = Some v" "liquidity_unlock_new D c counter (ci_settlement_price ins) (Some (lu_stats lu)) = Inr v"
      using ul by (auto simp: nonzero_new_def transpose_res_def split: sum.splits)
    then show ?thesis using l
      by (auto simp: unlocked_counter_def closing_stats_def e liquidity_unlock_new_def Let_def split: if_splits)
  qed
  have "trader_payout e = pay" by (simp add: trader_payout_def e nonzero_new_def)
  then show ?thesis using pay counter l' u C by (simp add: e(1) p')
qed

end

text \<open>C3: Closing a position conserves the collateral: what the trader is paid, the counter collateral that is
  unlocked and the delta neutrality fee are together the active and the counter collateral of the position;
  and over the whole pool, the payout, the locked and unlocked liquidity afterwards and the fee are the
  active collateral, the liquidity before and the exposure that was settled already.\<close>

theorem closing_conserves_collateral:
  assumes "decimal256 D" "close_position_new D env c ins lq = Inr e"
    "wf_signed (ci_capped_exposure ins)" "ci_additional_losses ins < dec_lim"
    "pos_active_collateral (ci_pos ins) < dec_lim" "pos_counter_collateral (ci_pos ins) < dec_lim"
    "lm_delta_neutrality (pos_liquidation_margin (ci_pos ins)) < dec_lim" "dn_fund c < dec_lim"
    "st = (case Option.bind lq (\<lambda>l. map_option lu_stats (plf_liquidity_update_locked l)) of
        Some s \<Rightarrow> s | None \<Rightarrow> liquidity_stats c)" "locked st < dec_lim"
  shows "int (trader_payout e) + int (unlocked_counter e) + num (cd_fee (cpe_dnf e))
      = int (pos_active_collateral (ci_pos ins)) + int (pos_counter_collateral (ci_pos ins))
    \<and> int (trader_payout e) + int (locked (closing_stats e)) + int (unlocked (closing_stats e)) + num (cd_fee (cpe_dnf e))
      = int (pos_active_collateral (ci_pos ins)) + int (locked st) + int (unlocked st) + num (ci_capped_exposure ins)"
  by (rule decimal256.closing_money [OF assms])

definition sample_closing :: ClosePositionInstructions where
  "sample_closing = \<lparr>ci_pos = sample_position, ci_capped_exposure = signed_zero, ci_additional_losses = 0,
     ci_settlement_price = sample_pp, ci_reason = CloseDirect, ci_closed_during_liquifunding = False\<rparr>"

lemma sample_dnf_config:
  "cfg_delta_neutrality_fee_cap sample_config = mic 5000"
  "cfg_delta_neutrality_fee_sensitivity sample_config = mic 50000000000000"
  "cfg_delta_neutrality_fee_tax sample_config = mic 50000"
  by (simp_all add: sample_config_def default_config_def config_new_def default_bfs_dec18 mic_def dec_one_def)

lemma sample_dnf_amount: "calculate_delta_neutrality_fee_amount dec18 (new_positive (mic 5000)) (new_positive (mic 50000000000000))
    (new_positive (mic 2000000000)) (new_negative (mic 2000000000)) = Inr (new_negative (mic 40000))"
  by (simp add: calculate_delta_neutrality_fee_amount_def signed_eval)

lemma sample_net: "positions_net_open_interest dec18 traded_market = Inr (new_positive (mic 2000000000))"
  by (simp add: positions_net_open_interest_def signed_eval)

lemma sample_ratio: "slippage_fundedness_ratio dec18 (mic 60000) (mic 120000) = Inr (mic 500000)"
  by (simp add: slippage_fundedness_ratio_def u_approx_eq_def u_diff_def div_non_zero_def nonzero_new_def mic_eval)

lemma sample_notional: "notional_to_collateral dec18 sample_pp (mic 40000) = Inr (mic 120000)"
  by (simp add: notional_to_collateral_def price_notional_to_collateral_def mic_eval)

lemma sample_payout: "cap_payout dec18 (multi_pass_new traded_market (sample_config\<lparr>cfg_mute_events := True\<rparr>)
    (new_positive (mic 2000000000)) (new_negative (mic 2000000000)) sample_pp (Some (mic 10000))) (mic 60000)
    (new_negative (mic 120000)) = Inr (new_negative (mic 60000))"
proof -
  have "checked_mul_number dec18 (new_negative (mic 120000)) (new_positive (mic 500000)) = Inr (new_negative (mic 60000))"
    by (simp add: signed_eval del: and_then_eq_Inr)
  moreover have "signed_neg (new_positive (mic 2000000000)) = new_negative (mic 2000000000)"
    "is_negative (new_negative (mic 120000))" "abs_unsigned (new_negative (mic 40000)) = mic 40000"
    "min (mic 500000) dec_one = mic 500000" "\<not> new_positive (mic 60000) < signed_neg (new_negative (mic 60000))"
    by (simp_all add: signed_eval)
  ultimately show ?thesis
    using sample_dnf_amount sample_ratio sample_notional
    by (simp add: cap_payout_def multi_pass_new_def sample_dnf_config Let_def del: and_then_eq_Inr)
qed

lemma sample_pass: "\<exists>r. multi_pass_run dec18 (multi_pass_new traded_market (sample_config\<lparr>cfg_mute_events := True\<rparr>)
    (new_positive (mic 2000000000)) (new_negative (mic 2000000000)) sample_pp (Some (mic 10000))) = Inr r
    \<and> mp_fees r = new_negative (mic 60000) \<and> mp_total_in_fund_before_calc r = mic 60000"
proof -
  define m where "m = multi_pass_new traded_market (sample_config\<lparr>cfg_mute_events := True\<rparr>)
    (new_positive (mic 2000000000)) (new_negative (mic 2000000000)) sample_pp (Some (mic 10000))"
  have m: "mp_fees m = signed_zero" "mp_total_in_fund_before_calc m = mic 60000" "mp_price m = sample_pp"
    "mp_net_notional m = new_positive (mic 2000000000)" "mp_delta_notional m = new_negative (mic 2000000000)"
    "mp_config m = sample_config\<lparr>cfg_mute_events := True\<rparr>" "mp_liquidation_margin_factor m = Some (mic 10000)"
    "mp_cap_triggered_info m = None"
    by (simp_all add: m_def multi_pass_new_def)
  have a: "signed_map (notional_to_collateral dec18 sample_pp) (new_negative (mic 40000)) = Inr (new_negative (mic 120000))"
    "u_checked_add_signed dec18 (mic 60000) signed_zero = Inr (mic 60000)"
    "signed_checked_add dec18 (new_positive (mic 2000000000)) (new_negative (mic 2000000000)) = Inr signed_zero"
    "signed_checked_add dec18 signed_zero (new_negative (mic 60000)) = Inr (new_negative (mic 60000))"
    "number_checked_mul dec18 (new_positive (mic 2000000000)) signed_zero = Inr signed_zero" "\<not> is_negative signed_zero"
    "cap_by_margin (Some (mic 10000)) (new_negative (mic 60000)) None = (new_negative (mic 60000), None)"
    using sample_notional
    by (simp_all add: signed_eval u_checked_add_signed_def cap_by_margin_def signed_zero_def del: and_then_eq_Inr)
  have "update_inner dec18 m (new_negative (mic 2000000000)) = Inr (m\<lparr>mp_cap_triggered_info := None,
      mp_fees := new_negative (mic 60000), mp_net_notional := signed_zero\<rparr>)"
    using sample_dnf_amount sample_payout [folded m_def]
    by (simp add: update_inner_def m a sample_dnf_config Let_def del: and_then_eq_Inr)
  then show ?thesis by (simp add: multi_pass_run_def m a Let_def m_def [symmetric] del: and_then_eq_Inr)
qed

lemma sample_dnf: "\<exists>r. charge_delta_neutrality_fee_no_update dec18 sample_env traded_market sample_position
    (new_negative (mic 2000000000)) sample_pp DnfPositionClose = Inr r \<and> cd_fee r = new_negative (mic 60000)
    \<and> cd_protocol_fees r = 0 \<and> cd_total_funds_after r = 0"
proof -
  obtain m where "multi_pass_run dec18 (multi_pass_new traded_market (sample_config\<lparr>cfg_mute_events := True\<rparr>)
      (new_positive (mic 2000000000)) (new_negative (mic 2000000000)) sample_pp (Some (mic 10000))) = Inr m"
    and m: "mp_fees m = new_negative (mic 60000)" "mp_total_in_fund_before_calc m = mic 60000"
    using sample_pass by blast
  moreover have "lm_delta_neutrality (pos_liquidation_margin sample_position) = mic 10000"
    by (simp add: sample_position_def sample_margin_def)
  moreover have "delta_neutrality_protocol_fees dec18 (sample_config\<lparr>cfg_mute_events := True\<rparr>) (new_negative (mic 60000)) = Inr 0"
    "signed_checked_sub dec18 (new_negative (mic 60000)) (new_positive 0) = Inr (new_negative (mic 60000))"
    "u_checked_add_signed dec18 (mic 60000) (new_negative (mic 60000)) = Inr 0"
    by (simp_all add: delta_neutrality_protocol_fees_def u_checked_add_signed_def signed_eval del: and_then_eq_Inr)
  ultimately show ?thesis
    by (simp add: charge_delta_neutrality_fee_no_update_def sample_net del: and_then_eq_Inr)
qed

lemma sample_closes: "is_ok (close_position_new dec18 sample_env traded_market sample_closing None)"
proof -
  obtain r where r: "charge_delta_neutrality_fee_no_update dec18 sample_env traded_market sample_position
    (new_negative (mic 2000000000)) sample_pp DnfPositionClose = Inr r" "cd_fee r = new_negative (mic 60000)"
    using sample_dnf by blast
  have n: "signed_neg (pos_notional_size sample_position) = new_negative (mic 2000000000)"
    by (simp add: sample_position_def signed_eval)
  have d: "pos_direction (p\<lparr>pos_notional_size := new_positive x\<rparr>) = LongNotional" for p :: Position and x
    by (simp add: pos_direction_def is_negative_def new_positive_def)
  show ?thesis
    using r n
    by (simp add: close_position_new_def sample_closing_def add_delta_neutrality_fee_def scu_checked_add_assign_def
        adjust_open_interest_new_def u_checked_add_signed_def close_collaterals_def liquidity_update_locked_new_def
        collateral_to_usd_def transpose_res_def liquidity_unlock_new_def sample_spot_price closed_position_record_def
        pos_direction_def sample_position_def signed_zero_def signed_eval del: and_then_eq_Inr)
qed

section \<open>Properties\<close>

lemma payment_as_non_zero:
  assumes "wf_signed x"
  shows "try_into_non_zero x = (if 0 < num x then Some (nat (num x)) else None)"
  using assms by (auto simp: try_into_non_zero_def try_into_non_negative_value_def nonzero_new_def is_negative_def num_def
      split: if_splits)

text \<open>C14: The delta neutrality fund is kept exactly: a fee is what goes to the fund and what goes to the protocol,
  and the fund changes by its part, so a payout is never more than the fund holds. The protocol takes nothing of a
  payout and its configured share of a payment, rounded down; only a share that does not fit the number type counts as
  nothing, which cannot happen when the tax is at most one, as every stored configuration has it.\<close>

theorem delta_neutrality_fund_is_exact:
  assumes "decimal256 D" "charge_delta_neutrality_fee_no_update D env c p n price reason = Inr r"
    "dn_fund c < dec_lim" "lm_delta_neutrality (pos_liquidation_margin p) < dec_lim"
  shows "num (cd_fee r) = num (cd_fund_fees r) + int (cd_protocol_fees r)
    \<and> int (cd_total_funds_after r) = int (dn_fund c) + num (cd_fund_fees r)
    \<and> (num (cd_fee r) \<le> 0 \<longrightarrow> cd_protocol_fees r = 0)
    \<and> (0 < num (cd_fee r) \<longrightarrow> cd_protocol_fees r
         = (let share = nat (num (cd_fee r)) * cfg_delta_neutrality_fee_tax (env_config env) div dec_one
            in if share < dec_lim then share else 0))
    \<and> (0 < num (cd_fee r) \<longrightarrow> cfg_delta_neutrality_fee_tax (env_config env) \<le> dec_one \<longrightarrow> cd_protocol_fees r
         = nat (num (cd_fee r)) * cfg_delta_neutrality_fee_tax (env_config env) div dec_one)"
proof -
  note r = decimal256.dnf_result [OF assms]
  have p: "delta_neutrality_protocol_fees D (env_config env) (cd_fee r) = Inr (cd_protocol_fees r)" and w: "wf_signed (cd_fee r)"
    using r by simp_all
  let ?f = "nat (num (cd_fee r))" and ?t = "cfg_delta_neutrality_fee_tax (env_config env)"
  have share: "cd_protocol_fees r = (if 0 < num (cd_fee r) \<and> ?f * ?t div dec_one < dec_lim then ?f * ?t div dec_one else 0)"
    using p decimal256.mul_Inr [OF assms(1), of ?f ?t]
    by (auto simp: delta_neutrality_protocol_fees_def payment_as_non_zero [OF w] unwrap_or_def checked_mul_dec_def
        split: sum.splits error.splits if_splits)
  have fits: "?f * ?t div dec_one < dec_lim" if "?t \<le> dec_one"
  proof -
    have "?f < dec_lim" using w by (auto simp: wf_signed_def num_def dec_lim_def)
    moreover have "?f * ?t div dec_one \<le> ?f"
      using div_le_mono [OF mult_le_mono2 [OF that, of ?f], of dec_one] by (simp add: dec_one_def)
    ultimately show ?thesis by simp
  qed
  have "num (cd_fee r) = num (cd_fund_fees r) + int (cd_protocol_fees r)"
    "int (cd_total_funds_after r) = int (dn_fund c) + num (cd_fund_fees r)" using r by simp_all
  moreover have "num (cd_fee r) \<le> 0 \<longrightarrow> cd_protocol_fees r = 0" using share by auto
  ultimately show ?thesis using share fits unfolding Let_def by auto
qed

theorem delta_neutrality_fund_is_exact_witness:
  "\<exists>r. charge_delta_neutrality_fee_no_update dec18 sample_env traded_market sample_position
    (new_negative (mic 2000000000)) sample_pp DnfPositionClose = Inr r \<and> num (cd_fund_fees r) = - int (mic 60000)
    \<and> cd_total_funds_after r = 0"
proof -
  obtain r where r: "charge_delta_neutrality_fee_no_update dec18 sample_env traded_market sample_position
    (new_negative (mic 2000000000)) sample_pp DnfPositionClose = Inr r" "cd_fee r = new_negative (mic 60000)"
    "cd_protocol_fees r = 0" "cd_total_funds_after r = 0"
    using sample_dnf by blast
  moreover have "lm_delta_neutrality (pos_liquidation_margin sample_position) = mic 10000"
    by (simp add: sample_position_def sample_margin_def)
  ultimately show ?thesis
    using delta_neutrality_fund_is_exact [OF d18.decimal256_axioms r(1)] mic_fits [of 60000] mic_fits [of 10000]
    by (auto simp: mic_lim_def)
qed

theorem closing_conserves_collateral_witness:
  "\<exists>e. close_position_new dec18 sample_env traded_market sample_closing None = Inr e
    \<and> int (trader_payout e) + int (unlocked_counter e) + num (cd_fee (cpe_dnf e)) = int (mic 15000000)"
proof -
  obtain e where e: "close_position_new dec18 sample_env traded_market sample_closing None = Inr e"
    using sample_closes by (auto simp: is_ok_iff)
  have f: "ci_pos sample_closing = sample_position" "ci_capped_exposure sample_closing = signed_zero"
      "ci_additional_losses sample_closing = 0" "pos_active_collateral sample_position = mic 10000000"
      "pos_counter_collateral sample_position = mic 5000000"
      "lm_delta_neutrality (pos_liquidation_margin sample_position) = mic 10000"
    by (simp_all add: sample_closing_def sample_position_def sample_margin_def)
  from closing_conserves_collateral [OF d18.decimal256_axioms e, of sample_stats] e show ?thesis
    using mic_fits [of 10000000] mic_fits [of 5000000] mic_fits [of 10000] mic_fits [of 60000] mic_fits [of 20000000]
    by (auto simp: f mic_lim_def) (simp add: mic_def)
qed

lemma fmsum_fresh: "fmlookup m i = None \<Longrightarrow> fmsum f (fmupd i p m) = fmsum f m + f p"
  using fmsum_upd [of f i p m] by (simp add: fmval_def)

text \<open>C9: Opening a position books exactly that position: it gets the next identifier, which nothing used, its
  owner is the trader that asked for it, every other position stays as it is, the open interest of its side
  grows by its size, its token is minted to the owner, and its active collateral covers its margin.\<close>

theorem opening_books_the_position:
  assumes "decimal256 D" "books_kept c" "open_position_new D env c params price = Inr e"
    "open_position_apply D env e reason c = Inr (i, c')"
  shows "i = last_position_id (pos_st c) + 1 \<and> last_position_id (pos_st c') = i \<and> open_at c i = None
    \<and> (\<exists>p. open_positions (pos_st c') = fmupd i p (open_positions (pos_st c)) \<and> pos_id p = i
         \<and> pos_owner p = op_owner params \<and> margin_covered p
         \<and> open_long_interest c' = open_long_interest c + long_size p
         \<and> open_short_interest c' = open_short_interest c + short_size p
         \<and> fmlookup (nft_owners (nft_st c')) (op_owner params, i) = Some ())"
proof -
  have o: "opened i (op_owner params) c c'" by (rule decimal256.open_apply_books [OF assms])
  then obtain p where p: "pos_owner p = op_owner params" "open_positions (pos_st c') = fmupd i p (open_positions (pos_st c))"
    and b: "books_kept c'" "i = last_position_id (pos_st c) + 1" "last_position_id (pos_st c') = i" "open_at c i = None"
    by (auto simp: opened_def)
  have "open_at c' i = Some p" by (simp add: p)
  then have "pos_id p = i" "margin_covered p" "fmlookup (nft_owners (nft_st c')) (op_owner params, i) = Some ()"
    using b(1) indexed_id [of c' i p] p(1)
    by (auto simp: books_kept_def positions_sound_def nft_indexed_def owner_at_def)
  moreover have "open_long_interest c' = open_long_interest c + long_size p"
      "open_short_interest c' = open_short_interest c + short_size p"
    using b(1) assms(2) fmsum_fresh [OF b(4)] by (simp_all add: books_kept_def interest_tracked_def p(2))
  ultimately show ?thesis using b p by blast
qed

theorem opening_books_the_position_witness:
  "\<exists>c. open_position_apply dec18 opening_env opening_exec SaveOpenMarket empty_market = Inr (1, c)
    \<and> (\<exists>p. open_at c 1 = Some p \<and> pos_owner p = ''alice'')"
proof -
  obtain i c where o: "open_position_apply dec18 opening_env opening_exec SaveOpenMarket empty_market = Inr (i, c)"
    using opening_apply by (auto simp: is_ok_iff)
  have "books_kept empty_market"
    using market_start_kept [OF empty_market_start] by (simp add: state_kept_def market_kept_def)
  from opening_books_the_position [OF d18.decimal256_axioms this opening_new o] o show ?thesis
    by (auto simp: opening_params_def positions_empty_def)
qed

lemma transfer_authorised:
  assumes t: "nft_transfer_inner env s recipient i c = Inr c'" and ix: "indexed c"
  shows "\<exists>p approvals. open_at c i = Some p \<and> open_positions (pos_st c') = fmupd i (p\<lparr>pos_owner := recipient\<rparr>) (open_positions (pos_st c))
    \<and> fmlookup (nft_approvals (nft_st c')) i = Some [] \<and> fmlookup (nft_approvals (nft_st c)) i = Some approvals
    \<and> (pos_owner p = s \<or> env_contract_addr env = s
       \<or> (\<exists>a\<in>set approvals. ap_spender a = s \<and> \<not> env_is_expired env (ap_expires a))
       \<or> (\<exists>ex. fmlookup (nft_operators (nft_st c)) (pos_owner p, s) = Some ex \<and> \<not> env_is_expired env ex))"
proof -
  obtain p approvals c1 where p: "open_at c i = Some p" and ap: "fmlookup (nft_approvals (nft_st c)) i = Some approvals"
    and send: "nft_check_can_send env c s i approvals = Inr ()"
    and c1: "position_history_add_transfer env (p\<lparr>pos_owner := recipient\<rparr>) (pos_owner p)
      (position_save_no_recalc (p\<lparr>pos_owner := recipient\<rparr>)
        (upd_nft (\<lambda>s. s\<lparr>nft_owners := fmupd (recipient, i) () (fmdrop (pos_owner p, i) (nft_owners s))\<rparr>) c)) = Inr c1"
    and c': "c' = add_event env (NftEvent (NftTransfer recipient i))
      (upd_nft (\<lambda>s. s\<lparr>nft_approvals := fmupd i [] (nft_approvals s)\<rparr>) c1)"
    using t by (auto simp: nft_transfer_inner_def nft_token_approvals_def Let_def)
  have "pos_st c1 = pos_st (position_save_no_recalc (p\<lparr>pos_owner := recipient\<rparr>) c)"
    using c1 by (auto simp: position_history_add_transfer_def Let_def push_position_action_def push_trader_action_def
        upd_trade_def position_save_no_recalc_def upd_nft_def upd_pos_def)
  then have "open_positions (pos_st c') = fmupd i (p\<lparr>pos_owner := recipient\<rparr>) (open_positions (pos_st c))"
    using indexed_id [OF ix p] by (simp add: c' upd_nft_def position_save_no_recalc_def upd_pos_def)
  moreover have "fmlookup (nft_approvals (nft_st c')) i = Some []" by (simp add: c' upd_nft_def)
  ultimately show ?thesis
    using p ap send by (auto simp: nft_check_can_send_def nft_operator_allows_def list_ex_iff split: if_splits option.splits)
qed

text \<open>C13: A message to the position tokens changes a position only by a transfer that its sender may make: the
  sender is the owner, the contract itself, holds an approval that has not expired, or is an operator of
  the owner; the position then only has a new owner, and its approvals are gone.\<close>

theorem token_moves_are_authorised:
  assumes "nft_handle_exec env s msg c = Inr c'" "open_at c i = Some p" "open_at c' i \<noteq> Some p" "indexed c"
  shows "\<exists>recipient approvals. (msg = NftTransferMsg recipient i \<or> msg = NftSendMsg recipient i)
    \<and> open_at c' i = Some (p\<lparr>pos_owner := recipient\<rparr>) \<and> fmlookup (nft_approvals (nft_st c')) i = Some []
    \<and> fmlookup (nft_approvals (nft_st c)) i = Some approvals
    \<and> (pos_owner p = s \<or> env_contract_addr env = s
       \<or> (\<exists>a\<in>set approvals. ap_spender a = s \<and> \<not> env_is_expired env (ap_expires a))
       \<or> (\<exists>ex. fmlookup (nft_operators (nft_st c)) (pos_owner p, s) = Some ex \<and> \<not> env_is_expired env ex))"
proof -
  have u: "pos_st c' = pos_st c" if n: "nft_update_approvals env s sp j add ex c = Inr c'" for sp j add ex
  proof -
    obtain x e where "c' = upd_nft (\<lambda>s. s\<lparr>nft_approvals := fmupd j x (nft_approvals s)\<rparr>) (add_event env e c)"
      using n by (auto simp: nft_update_approvals_def Let_def split: if_splits)
    then show ?thesis by (simp add: upd_nft_def)
  qed
  have "pos_st c' = pos_st c \<or> (\<exists>j recipient. (msg = NftTransferMsg recipient j \<or> msg = NftSendMsg recipient j)
      \<and> nft_transfer_inner env s recipient j c = Inr c')"
  proof (cases msg)
    case (NftApproveAllMsg operator ex)
    then show ?thesis using assms(1)
      by (simp add: nft_handle_exec_def nft_approve_all_def Let_def split: if_splits) (auto simp: upd_nft_def)
  next
    case (NftRevokeAllMsg operator)
    then show ?thesis using assms(1)
      by (simp add: nft_handle_exec_def nft_revoke_all_def split: if_splits) (auto simp: upd_nft_def)
  qed (use assms(1) u in \<open>simp add: nft_handle_exec_def split: if_splits; blast\<close>)+
  then obtain j recipient where m: "msg = NftTransferMsg recipient j \<or> msg = NftSendMsg recipient j"
    and t: "nft_transfer_inner env s recipient j c = Inr c'"
    using assms(2,3) by auto
  note T = transfer_authorised [OF t assms(4)]
  then have "j = i" using assms(2,3) by (cases "j = i") auto
  then show ?thesis using T m assms(2) by auto
qed

theorem token_moves_are_authorised_witness:
  "\<exists>c p. nft_handle_exec sample_env ''carol'' (NftTransferMsg ''dave'' 1) traded_market = Inr c
     \<and> open_at c 1 = Some (sample_position\<lparr>pos_owner := ''dave''\<rparr>) \<and> fmlookup (nft_approvals (nft_st c)) 1 = Some []"
proof -
  obtain c p where c: "nft_handle_exec sample_env ''carol'' (NftTransferMsg ''dave'' 1) traded_market = Inr c"
    and p: "open_at c 1 = Some p" "pos_owner p = ''dave''"
    using sample_transfer by blast
  have "p \<noteq> sample_position" using p(2) by auto
  moreover have "indexed traded_market" "open_at traded_market 1 = Some sample_position"
    using traded_market_kept by (simp_all add: state_kept_def market_kept_def books_kept_def)
  ultimately show ?thesis
    using token_moves_are_authorised [OF c, of 1 sample_position] c p by auto
qed

end
