(* ===== verification/Spec2Isabelle.thy ===== *)
theory Spec2Isabelle
  imports MarketConfig Positions DataSeries PoolProperties TokenProperties VaultProperties
    CountertradeProperties FactoryProperties TradingProperties PositionProperties
begin

text \<open>
  Verification of the Levana perpetual swaps contracts.

  THE PROGRAM. A market contract (\<open>contracts/market\<close>) lets traders open leveraged positions against a
  pool of liquidity in one collateral token. Its logic is in \<open>contracts/market/src\<close>, its numbers, data
  types and configuration in \<open>packages/perpswap/src\<close>. Liquidity providers deposit collateral, get LP
  or staked xLP tokens and earn the fees. A position locks counter collateral of the pool, owes borrow and
  funding fees, and is settled periodically (liquifunding). Oracle prices are appended to the storage; the
  crank then works through them: it closes positions whose triggers were crossed, settles those that are
  due, opens limit orders and executes the queued (deferred) messages of the traders, each at a price
  published after it was queued. Around the market stand the token contract (\<open>contracts/cw20\<close>) and the
  contracts that hold liquidity or trade on behalf of depositors.

  THE MODEL. A contract call is a function from the storage and the inputs of the call to an error or the
  new storage. For the market the storage is the record \<open>Ctx\<close> (with the events and the transfers of the
  response) and the read-only surroundings of the call are the record \<open>Env\<close> (both in \<open>MarketState\<close>).
  \<open>Item\<close>s are fields, \<open>Map\<close>s are finite maps with their keys in the order of the chain. An error
  or a panic of the source is an \<open>Inl\<close> (\<open>error\<close> in \<open>Prelude\<close>), an early return is a branch. The
  decimal arithmetic of \<open>cosmwasm_std\<close> is code outside the repository: it is the parameter \<open>D\<close>, a
  record \<open>dec256_api\<close>, and the locale \<open>decimal256\<close> states its documented behaviour (\<open>Decimal\<close>).
  Its instance \<open>dec18\<close> is a concrete implementation, on which every witness is evaluated.
  Integers are natural numbers with the overflow checks of the release profile written out.

  THE THEORIES.
  \<^item> \<open>Prelude\<close>: results, errors, finite maps, checked integers, reachability and inductive invariants
    (the locale \<open>invariant_system\<close>). \<open>Decimal\<close>, \<open>Numbers\<close>: the decimals and
    \<open>perpswap/src/number\<close>. \<open>MarketTypes\<close>, \<open>Prices\<close>, \<open>Positions\<close>, \<open>MarketData\<close>,
    \<open>MarketConfig\<close>: the data types of \<open>perpswap/src\<close> with their methods (market identifiers,
    leverage, prices, positions, orders, crank work, configuration). \<open>MarketState\<close>, \<open>DataSeries\<close>: the
    storage of the market and its prefix sums.
  \<^item> Pool: \<open>LiquidityPool\<close> (\<open>state/liquidity.rs\<close>, \<open>stats.rs\<close>, \<open>history/lp.rs\<close>), \<open>Fees\<close>
    (\<open>state/fees.rs\<close>, \<open>referral.rs\<close>), \<open>PoolMessages\<close> (the execute arms that touch pool and fees
    only, the relation \<open>pool_step\<close>). \<open>LiquidityInvariant\<close> and \<open>PoolOperations\<close> prove that every
    operation keeps the accounting invariant \<open>pool_inv\<close>; \<open>PoolExamples\<close> is a small pool;
    \<open>PoolProperties\<close> states the results.
  \<^item> Trading: \<open>Funding\<close> (\<open>state/funding.rs\<close> and its submodules), \<open>DeltaNeutrality\<close>
    (\<open>state/delta_neutrality_fee.rs\<close>), \<open>PositionStorage\<close>, \<open>PositionTokens\<close>,
    \<open>PositionLifecycle\<close>, \<open>PositionClosing\<close>, \<open>PositionUpdate\<close> (\<open>state/position.rs\<close> and
    \<open>state/position/*.rs\<close>), \<open>TradeHistory\<close> (\<open>state/history/trade.rs\<close>), \<open>Orders\<close>
    (\<open>state/order.rs\<close>), \<open>DeferredExec\<close> (\<open>state/deferred_execution.rs\<close>, \<open>deferred_exec.rs\<close>),
    \<open>Crank\<close> (\<open>state/crank.rs\<close>, \<open>shutdown.rs\<close>).
  \<^item> Invariants of trading: \<open>TradingFrame\<close> and \<open>PoolFrame\<close> (what an operation leaves alone, the
    collections \<open>frame\<close> and \<open>pool_frame\<close>), \<open>TradingInvariant\<close>, \<open>PositionInvariant\<close>,
    \<open>TraderInvariant\<close>, \<open>QueueInvariant\<close>, \<open>MarketInvariant\<close>, \<open>CrankInvariant\<close> (the indexes of
    the positions, the tokens, the open interest, the orders and the queue), \<open>MarketSteps\<close> (the relation
    \<open>market_step\<close> and its invariant \<open>state_kept\<close>), \<open>CrankBatch\<close> (a batch of the crank
    through its suspensions and replies). \<open>MarketExamples\<close> holds two small markets,
    \<open>TradingProperties\<close> and \<open>PositionProperties\<close> state the results.
  \<^item> Tokens: \<open>Ledger\<close> (balances), \<open>Allowances\<close> (allowances, with the promise to a holder as the
    locale \<open>spendable_token\<close>), \<open>Cw20\<close> (\<open>contracts/cw20/src\<close>), \<open>LiquidityTokens\<close>
    (\<open>state/liquidity/cw20.rs\<close> of the market, the LP and xLP tokens), \<open>TokenProperties\<close>.
  \<^item> Vault: \<open>Vault\<close> (\<open>contracts/vault/src\<close>), \<open>VaultInvariant\<close>, \<open>VaultProperties\<close>.
  \<^item> Countertrade: \<open>Countertrade\<close> (\<open>contracts/countertrade/src\<close>: shares, deposits, withdrawals),
    \<open>CountertradeWork\<close> (\<open>work.rs\<close>, \<open>reply.rs\<close>, the queries), \<open>CountertradeInvariant\<close>,
    \<open>CountertradeProperties\<close>.
  \<^item> Factory: \<open>Shutdown\<close> (\<open>perpswap/src/shutdown.rs\<close>), \<open>Factory\<close> (the storage, events and saved
    addresses of \<open>contracts/factory/src\<close>), \<open>FactoryMessages\<close> (execute, sudo, reply, queries, whole
    transactions), \<open>FactoryInvariant\<close>, \<open>FactoryProperties\<close>. \<open>StoredMaps\<close> holds the facts on ranges
    over stored maps that vault and factory share.
  WHAT IS SHOWN. In every state the pool reaches, the totals are the sums over the providers and the
  balances cover what is owed (the rewards of referrers are booked in the referral balance but claimed from
  the wallets balance, so it is the two together that cover the claims); a message conserves the collateral; deposits never dilute, withdrawals are
  bounded, unstaking is linear, a claim pays what the query reported, a reset terminates. In every state the
  market reaches, the indexes, the tokens and the open interest are those of the open positions, every open
  position covers its margin, the queue is processed in order, and only a token message changes an owner.
  The crank finds every position whose trigger a price has crossed, stays within its budget over all the
  calls of a batch, and a failing execution leaves no trace but its reply. Closing conserves collateral. The number layer refines integer
  arithmetic on atomics, prefix sums are exact, printing and parsing, updating and reading back are inverse.
  The supply of a token is the sum of its balances, and nobody takes more from a holder than the holder
  granted. The books of the vault agree with its queue, a redistribution keeps the reserve of the pending
  withdrawals, and rounds of processing pay the queue in order. The shares of the countertrade contract are
  backed and not diluted, its search for a position meets the target rate by the market's own formula, and
  its work stays within its funds and the leverage limits. The factory adds a market with its three tokens
  or not at all, knows the type of every contract it made, keeps the referral books consistent and lists
  them completely, and a shutdown does what it says and only what the wallet may do.
  BOUNDS AND FUEL. The loops of the market are recursions over
  finite lists, over the budget of the crank or over the providers of a reset, and \<open>reset_terminates\<close> and
  \<open>crank_batch_within_budget\<close> bound them; the search of the
  countertrade contract runs its configured number of iterations. The messages of a factory response are executed to a
  depth of two, which is enough because only the reply to a new market asks for further messages
  (\<open>owner_adds_a_market\<close> shows that the whole transaction succeeds). Widths are those of the code: 256 bits of atomics in \<open>Decimal\<close>, \<open>u64\<close>
  times and identifiers, \<open>u128\<close> token amounts.

  NOT MODELLED. Serialisation and the text of errors and events (the data they carry is modelled); the
  status, metadata and listing queries, which do not change the state; the sanity checks, which the released
  contract compiles out; the spot price oracles behind a price (Pyth, Stride and others are answers of
  contracts outside the repository); the copy trading contract, which holds the funds of followers and trades
  through the messages of the market; the dispatch of the messages of the market, whose arms are modelled one
  by one; migrations and version items, which only compare version texts; the attributes of the responses of
  vault and countertrade; faucet, tracker and proxies; bots, command line tools and the test harness, which are input and output around the contracts.
  Each part of the program is listed with its status in the manifest of the development.
\<close>

end
